(* ===== verification/Prelude.thy ===== *)
theory Prelude
  imports Main "HOL-Library.Word"
begin

text \<open>
  The vocabulary the component theories share: Go's 64-bit durations and
  instants, the part of Go's \<open>strings\<close> package the client uses, HTTP header
  maps (\<open>net/http.Header\<close>), and two locales that lift a one-step law of an
  operation to every sequence of operations.

  Strings are byte strings; white space and letter case are those of ASCII.
  A \<open>duration\<close> counts nanoseconds in an \<open>int64\<close>: sums are wrapped
  with \<open>i64\<close> wherever the source adds. A \<open>gotime\<close> counts nanoseconds
  since Go's zero time, so the zero \<open>time.Time\<close> is \<open>0\<close>.
\<close>

named_theorems wrap_simps \<open>64-bit arithmetic that does not wrap\<close>
named_theorems text_simps \<open>facts on trimming, letter case and header names\<close>

section \<open>Durations and instants\<close>

type_synonym duration = int
type_synonym gotime = int

abbreviation milliseconds :: "int \<Rightarrow> duration" where
  "milliseconds n \<equiv> n * 1000000"

abbreviation seconds :: "int \<Rightarrow> duration" where
  "seconds n \<equiv> n * 1000000000"

definition i64 :: "int \<Rightarrow> int" where
  "i64 x = (x + 2 ^ 63) mod 2 ^ 64 - 2 ^ 63"

definition max_i64 :: int where
  "max_i64 = 2 ^ 63 - 1"

definition min_i64 :: int where
  "min_i64 = - (2 ^ 63)"

text \<open>\<open>time.Time.Sub\<close> saturates at the ends of the range of a duration.\<close>

definition time_sub :: "gotime \<Rightarrow> gotime \<Rightarrow> duration" where
  "time_sub a b = max min_i64 (min max_i64 (a - b))"

lemma i64_id [wrap_simps]: "\<lbrakk>- (2 ^ 63) \<le> x; x < 2 ^ 63\<rbrakk> \<Longrightarrow> i64 x = x"
  by (simp add: i64_def)

lemma i64_range: "min_i64 \<le> i64 x \<and> i64 x \<le> max_i64"
proof -
  have "0 \<le> (x + 2 ^ 63) mod 2 ^ 64" and "(x + 2 ^ 63) mod 2 ^ 64 < (2 ^ 64 :: int)"
    by simp_all
  then show ?thesis
    by (simp add: i64_def min_i64_def max_i64_def)
qed

lemma time_sub_range: "min_i64 \<le> time_sub a b \<and> time_sub a b \<le> max_i64"
  by (simp add: time_sub_def min_i64_def max_i64_def)

lemma unat_inc: "x \<noteq> - 1 \<Longrightarrow> unat (x + 1) = Suc (unat x)" for x :: "64 word"
proof -
  assume "x \<noteq> - 1"
  then have "1 + x \<noteq> 0" using add_eq_0_iff [of 1 x] by simp
  from unatSuc [OF this] show ?thesis by (simp add: add.commute)
qed

lemma word_inc_le: "x \<noteq> - 1 \<Longrightarrow> x \<le> x + 1" for x :: "64 word"
  by (simp add: word_le_nat_alt unat_inc)

section \<open>Strings\<close>

definition is_space :: "char \<Rightarrow> bool" where
  "is_space c \<longleftrightarrow> of_char c \<in> {9, 10, 11, 12, 13, 32 :: nat}"

definition trim_by :: "(char \<Rightarrow> bool) \<Rightarrow> string \<Rightarrow> string" where
  "trim_by p s = rev (dropWhile p (rev (dropWhile p s)))"

definition trim_space :: "string \<Rightarrow> string" where
  "trim_space = trim_by is_space"

definition lower_char :: "char \<Rightarrow> char" where
  "lower_char c = (if 65 \<le> (of_char c :: nat) \<and> (of_char c :: nat) \<le> 90
                   then char_of (of_char c + 32 :: nat) else c)"

definition upper_char :: "char \<Rightarrow> char" where
  "upper_char c = (if 97 \<le> (of_char c :: nat) \<and> (of_char c :: nat) \<le> 122
                   then char_of (of_char c - 32 :: nat) else c)"

definition to_lower :: "string \<Rightarrow> string" where
  "to_lower s = map lower_char s"

definition equal_fold :: "string \<Rightarrow> string \<Rightarrow> bool" where
  "equal_fold a b \<longleftrightarrow> to_lower a = to_lower b"

definition has_prefix :: "string \<Rightarrow> string \<Rightarrow> bool" where
  "has_prefix p s \<longleftrightarrow> take (length p) s = p"

fun split_on :: "char \<Rightarrow> string \<Rightarrow> string list" where
  "split_on c [] = [[]]"
| "split_on c (x # xs) =
     (if x = c then [] # split_on c xs
      else (case split_on c xs of [] \<Rightarrow> [[x]] | y # ys \<Rightarrow> (x # y) # ys))"

definition is_digit :: "char \<Rightarrow> bool" where
  "is_digit c \<longleftrightarrow> 48 \<le> (of_char c :: nat) \<and> (of_char c :: nat) \<le> 57"

definition digits_value :: "string \<Rightarrow> nat" where
  "digits_value s = foldl (\<lambda>n c. 10 * n + (of_char c - 48)) 0 s"

lemma of_char_lower:
  "(of_char (lower_char c) :: nat) =
     (if 65 \<le> (of_char c :: nat) \<and> (of_char c :: nat) \<le> 90 then of_char c + 32 else of_char c)"
  by (simp add: lower_char_def)

lemma lower_char_idem [text_simps]: "lower_char (lower_char c) = lower_char c"
  by (simp add: lower_char_def)

lemma is_space_lower [text_simps]: "is_space (lower_char c) = is_space c"
  by (auto simp: is_space_def of_char_lower)

lemma to_lower_idem [text_simps]: "to_lower (to_lower s) = to_lower s"
  by (simp add: to_lower_def lower_char_idem)

lemma to_lower_Nil_iff [text_simps]: "to_lower s = [] \<longleftrightarrow> s = []"
  by (simp add: to_lower_def)

lemma dropWhile_idem: "dropWhile p (dropWhile p xs) = dropWhile p xs"
  by (induction xs) auto

lemma dropWhile_append_keep:
  assumes "dropWhile p xs = xs"
  shows "dropWhile p (rev (dropWhile p (rev xs))) = rev (dropWhile p (rev xs))"
proof (cases xs)
  case (Cons x ys)
  with assms have np: "\<not> p x"
    using dropWhile_eq_self_iff [of p xs] by simp
  then have "\<exists>zs. rev (dropWhile p (rev xs)) = x # zs"
    by (auto simp: Cons dropWhile_append intro: exI [of _ "rev (dropWhile p (rev ys))"])
  with np show ?thesis by auto
qed simp

lemma dropWhile_none: "(\<And>x. x \<in> set xs \<Longrightarrow> \<not> p x) \<Longrightarrow> dropWhile p xs = xs"
  by (cases xs) auto

lemma trim_by_none: "(\<And>x. x \<in> set s \<Longrightarrow> \<not> p x) \<Longrightarrow> trim_by p s = s"
  using dropWhile_none [of s p] dropWhile_none [of "rev s" p] by (simp add: trim_by_def)

lemma trim_by_idem [text_simps]: "trim_by p (trim_by p s) = trim_by p s"
  by (simp add: trim_by_def dropWhile_append_keep dropWhile_idem)

lemma trim_space_idem [text_simps]: "trim_space (trim_space s) = trim_space s"
  by (simp add: trim_space_def trim_by_idem)

lemma trim_space_to_lower [text_simps]: "trim_space (to_lower s) = to_lower (trim_space s)"
  by (simp add: trim_space_def trim_by_def to_lower_def dropWhile_map rev_map comp_def is_space_lower)

lemma equal_fold_refl [simp]: "equal_fold a a"
  by (simp add: equal_fold_def)

section \<open>Decimal numerals\<close>

definition digit_char :: "nat \<Rightarrow> char" where
  "digit_char d = char_of (48 + d)"

fun show_nat :: "nat \<Rightarrow> string" where
  "show_nat n = (if n < 10 then [digit_char n] else show_nat (n div 10) @ [digit_char (n mod 10)])"

declare show_nat.simps [simp del]

definition show_int :: "int \<Rightarrow> string" where
  "show_int n = (if n < 0 then CHR ''-'' # show_nat (nat (- n)) else show_nat (nat n))"

lemma digits_value_snoc: "digits_value (s @ [c]) = 10 * digits_value s + (of_char c - 48)"
  by (simp add: digits_value_def)

lemma digit_char_value: "d < 10 \<Longrightarrow> of_char (digit_char d) = 48 + d"
  by (simp add: digit_char_def)

lemma digits_value_show_nat: "digits_value (show_nat n) = n"
proof (induction n rule: show_nat.induct)
  case (1 n)
  show ?case
  proof (cases "n < 10")
    case True
    then have "of_char (digit_char n) = 48 + n" by (rule digit_char_value)
    with True show ?thesis by (simp add: show_nat.simps [of n] digits_value_def)
  next
    case False
    then show ?thesis
      using 1 by (simp add: show_nat.simps [of n] digits_value_snoc digit_char_value)
  qed
qed

section \<open>HTTP headers\<close>

text \<open>
  A header map is an association list from canonical names to value lists; the
  list order stands for the order in which the running program happens to
  iterate the Go map, so a theorem about every list covers every iteration
  order. A nil map and an empty one are the same list.
\<close>

type_synonym header = "(string \<times> string list) list"

definition header_name_byte :: "char \<Rightarrow> bool" where
  "header_name_byte c \<longleftrightarrow> (let n = (of_char c :: nat) in
     (97 \<le> n \<and> n \<le> 122) \<or> (65 \<le> n \<and> n \<le> 90) \<or> (48 \<le> n \<and> n \<le> 57) \<or>
     c \<in> set ''!#$%&*+-.^_|~'' \<or> n \<in> {39, 96})"

fun canonical_chars :: "bool \<Rightarrow> string \<Rightarrow> string" where
  "canonical_chars up [] = []"
| "canonical_chars up (c # cs) =
     (if up then upper_char c else lower_char c) # canonical_chars (c = CHR ''-'') cs"

definition canonical_header_key :: "string \<Rightarrow> string" where
  "canonical_header_key k = (if list_all header_name_byte k then canonical_chars True k else k)"

definition header_values :: "header \<Rightarrow> string \<Rightarrow> string list" where
  "header_values h k = (case map_of h (canonical_header_key k) of None \<Rightarrow> [] | Some vs \<Rightarrow> vs)"

definition header_get :: "header \<Rightarrow> string \<Rightarrow> string" where
  "header_get h k = (case header_values h k of [] \<Rightarrow> [] | v # _ \<Rightarrow> v)"

definition header_del :: "header \<Rightarrow> string \<Rightarrow> header" where
  "header_del h k = filter (\<lambda>(n, _). n \<noteq> canonical_header_key k) h"

definition header_set :: "header \<Rightarrow> string \<Rightarrow> string \<Rightarrow> header" where
  "header_set h k v = header_del h k @ [(canonical_header_key k, [v])]"

definition header_add :: "header \<Rightarrow> string \<Rightarrow> string \<Rightarrow> header" where
  "header_add h k v = header_del h k @ [(canonical_header_key k, header_values h k @ [v])]"

lemma map_of_header_del:
  "map_of (header_del h k) n = (if n = canonical_header_key k then None else map_of h n)"
  by (induction h) (auto simp: header_del_def)

lemma header_get_set [text_simps]:
  "header_get (header_set h k v) k' =
     (if canonical_header_key k' = canonical_header_key k then v else header_get h k')"
  by (simp add: header_get_def header_values_def header_set_def map_add_def map_of_header_del
      split: option.splits)

lemma header_get_del [text_simps]:
  "header_get (header_del h k) k' =
     (if canonical_header_key k' = canonical_header_key k then [] else header_get h k')"
  by (simp add: header_get_def header_values_def map_of_header_del)

lemma lower_upper [text_simps]: "lower_char (upper_char c) = lower_char c"
  by (auto simp: lower_char_def upper_char_def)

lemma to_lower_canonical_chars: "to_lower (canonical_chars up k) = to_lower k"
  by (induction up k rule: canonical_chars.induct) (auto simp: to_lower_def text_simps)

lemma to_lower_canonical [text_simps]: "to_lower (canonical_header_key k) = to_lower k"
  by (simp add: canonical_header_key_def to_lower_canonical_chars)

lemma header_name_byte_not_space: "header_name_byte c \<Longrightarrow> \<not> is_space c"
  by (auto simp: header_name_byte_def is_space_def Let_def)

section \<open>From one step to every run\<close>

locale invariant_system =
  fixes step :: "'s \<Rightarrow> 'e \<Rightarrow> 's"
    and inv :: "'s \<Rightarrow> bool"
  assumes inv_step: "inv s \<Longrightarrow> inv (step s e)"
begin

lemma inv_run: "inv s \<Longrightarrow> inv (foldl step s es)"
  by (induction es arbitrary: s) (simp_all add: inv_step)

end

locale monotone_system =
  fixes step :: "'s \<Rightarrow> 'e \<Rightarrow> 's"
    and below :: "'s \<Rightarrow> 's \<Rightarrow> bool"
  assumes below_refl: "below s s"
    and below_trans: "\<lbrakk>below s t; below t u\<rbrakk> \<Longrightarrow> below s u"
    and below_step: "below s (step s e)"
begin

lemma below_run: "below s (foldl step s es)"
proof (induction es arbitrary: s)
  case Nil
  show ?case by (simp add: below_refl)
next
  case (Cons e es)
  have "below (step s e) (foldl step (step s e) es)" by (rule Cons.IH)
  then show ?case using below_trans [OF below_step] by simp
qed

end

end
