(* ===== verification/Json.thy ===== *)
theory Json
  imports Prelude
begin

text \<open>
  The part of Go's \<open>encoding/json\<close> the client relies on: documents, an
  executable parser for the RFC 8259 grammar that \<open>json.Unmarshal\<close> and
  \<open>json.Decoder\<close> accept, and the way \<open>Unmarshal\<close> fills struct fields
  (names match up to letter case, the last occurrence wins, \<open>null\<close> leaves a
  field alone, a value of another type is an error).

  An object keeps its members in document order, duplicates included, and each
  member keeps the raw text of its value (\<open>json.RawMessage\<close>). A number keeps its
  lexeme. The parser runs on fuel; one unit more than twice the length of the input
  is enough, and more fuel never changes the answer (\<open>pvalue_fuel\<close>).
\<close>

section \<open>Documents\<close>

datatype json =
    JNull
  | JBool bool
  | JNum string
  | JStr string
  | JArr "json list"
  | JObj "(string \<times> string \<times> json) list"

type_synonym member = "string \<times> string \<times> json"

section \<open>Lexing\<close>

definition json_ws :: "char \<Rightarrow> bool" where
  "json_ws c \<longleftrightarrow> of_char c \<in> {9, 10, 13, 32 :: nat}"

definition skip_ws :: "string \<Rightarrow> string" where
  "skip_ws = dropWhile json_ws"

definition utf8 :: "nat \<Rightarrow> string" where
  "utf8 n =
     (if n < 128 then [char_of n]
      else if n < 2048 then [char_of (192 + n div 64), char_of (128 + n mod 64)]
      else if n < 65536 then
        [char_of (224 + n div 4096), char_of (128 + n div 64 mod 64), char_of (128 + n mod 64)]
      else
        [char_of (240 + n div 262144), char_of (128 + n div 4096 mod 64),
         char_of (128 + n div 64 mod 64), char_of (128 + n mod 64)])"

definition hex_digit :: "char \<Rightarrow> nat option" where
  "hex_digit c = (let n = of_char c in
     if 48 \<le> n \<and> n \<le> 57 then Some (n - 48)
     else if 97 \<le> n \<and> n \<le> 102 then Some (n - 87)
     else if 65 \<le> n \<and> n \<le> 70 then Some (n - 55) else None)"

definition hex4 :: "string \<Rightarrow> (nat \<times> string) option" where
  "hex4 s = (case s of
     a # b # c # d # r \<Rightarrow>
       (case (hex_digit a, hex_digit b, hex_digit c, hex_digit d) of
          (Some w, Some x, Some y, Some z) \<Rightarrow> Some (w * 4096 + x * 256 + y * 16 + z, r)
        | _ \<Rightarrow> None)
   | _ \<Rightarrow> None)"

text \<open>A \<open>\u\<close> escape, with a surrogate pair joined and a lone surrogate replaced.\<close>

definition unicode_escape :: "string \<Rightarrow> (string \<times> string) option" where
  "unicode_escape s = (case hex4 s of
     None \<Rightarrow> None
   | Some (hi, r) \<Rightarrow>
       if hi < 55296 \<or> 57344 \<le> hi then Some (utf8 hi, r)
       else if hi < 56320 \<and> take 2 r = [CHR 0x5C, CHR ''u''] then
         (case hex4 (drop 2 r) of
            Some (lo, r') \<Rightarrow>
              if 56320 \<le> lo \<and> lo < 57344
              then Some (utf8 (65536 + (hi - 55296) * 1024 + (lo - 56320)), r')
              else Some (utf8 65533, r)
          | None \<Rightarrow> None)
       else Some (utf8 65533, r))"

definition simple_escape :: "char \<Rightarrow> char option" where
  "simple_escape c =
     (if c = CHR 0x22 then Some (CHR 0x22)
      else if c = CHR 0x5C then Some (CHR 0x5C)
      else if c = CHR ''/'' then Some (CHR ''/'')
      else if c = CHR ''b'' then Some (CHR 0x08)
      else if c = CHR ''f'' then Some (CHR 0x0C)
      else if c = CHR ''n'' then Some (CHR 0x0A)
      else if c = CHR ''r'' then Some (CHR 0x0D)
      else if c = CHR ''t'' then Some (CHR 0x09) else None)"

fun lex_string :: "nat \<Rightarrow> string \<Rightarrow> (string \<times> string) option" where
  "lex_string 0 s = None"
| "lex_string (Suc n) [] = None"
| "lex_string (Suc n) (c # t) =
     (if c = CHR 0x22 then Some ([], t)
      else if (of_char c :: nat) < 32 then None
      else if c = CHR 0x5C then
        (case t of
           [] \<Rightarrow> None
         | e # r \<Rightarrow>
             if e = CHR ''u'' then
               (case unicode_escape r of
                  None \<Rightarrow> None
                | Some (u, r') \<Rightarrow> map_option (\<lambda>(v, q). (u @ v, q)) (lex_string n r'))
             else
               (case simple_escape e of
                  None \<Rightarrow> None
                | Some x \<Rightarrow> map_option (\<lambda>(v, q). (x # v, q)) (lex_string n r)))
      else map_option (\<lambda>(v, q). (c # v, q)) (lex_string n t))"

definition lex_digits :: "string \<Rightarrow> string option" where
  "lex_digits s = (if takeWhile is_digit s = [] then None else Some (dropWhile is_digit s))"

definition lex_int :: "string \<Rightarrow> string option" where
  "lex_int s = (case s of
     [] \<Rightarrow> None
   | c # t \<Rightarrow> if c = CHR ''0'' then Some t
              else if is_digit c then Some (dropWhile is_digit t) else None)"

definition lex_frac :: "string \<Rightarrow> string option" where
  "lex_frac s = (case s of
     c # t \<Rightarrow> if c = CHR ''.'' then lex_digits t else Some s
   | [] \<Rightarrow> Some s)"

definition lex_exp :: "string \<Rightarrow> string option" where
  "lex_exp s = (case s of
     c # t \<Rightarrow>
       if c = CHR ''e'' \<or> c = CHR ''E'' then
         (case t of
            d # u \<Rightarrow> if d = CHR ''+'' \<or> d = CHR ''-'' then lex_digits u else lex_digits t
          | [] \<Rightarrow> None)
       else Some s
   | [] \<Rightarrow> Some s)"

definition lex_number :: "string \<Rightarrow> (string \<times> string) option" where
  "lex_number s =
     (let body = (case s of c # t \<Rightarrow> if c = CHR ''-'' then t else s | [] \<Rightarrow> s) in
      case Option.bind (Option.bind (lex_int body) lex_frac) lex_exp of
        None \<Rightarrow> None
      | Some r \<Rightarrow> Some (take (length s - length r) s, r))"

section \<open>Parsing\<close>

fun pvalue :: "nat \<Rightarrow> string \<Rightarrow> (json \<times> string) option"
  and pelems :: "nat \<Rightarrow> string \<Rightarrow> (json list \<times> string) option"
  and pmembers :: "nat \<Rightarrow> string \<Rightarrow> (member list \<times> string) option" where
  "pvalue 0 s = None"
| "pvalue (Suc n) s = (case s of
     [] \<Rightarrow> None
   | c # t \<Rightarrow>
       if c = CHR ''{'' then
         (if take 1 (skip_ws t) = ''}'' then Some (JObj [], drop 1 (skip_ws t))
          else map_option (\<lambda>(ms, r). (JObj ms, r)) (pmembers n (skip_ws t)))
       else if c = CHR ''['' then
         (if take 1 (skip_ws t) = '']'' then Some (JArr [], drop 1 (skip_ws t))
          else map_option (\<lambda>(vs, r). (JArr vs, r)) (pelems n (skip_ws t)))
       else if c = CHR 0x22 then map_option (\<lambda>(v, r). (JStr v, r)) (lex_string (length s) t)
       else if has_prefix ''true'' s then Some (JBool True, drop 4 s)
       else if has_prefix ''false'' s then Some (JBool False, drop 5 s)
       else if has_prefix ''null'' s then Some (JNull, drop 4 s)
       else map_option (\<lambda>(v, r). (JNum v, r)) (lex_number s))"
| "pelems 0 s = None"
| "pelems (Suc n) s = (case pvalue n s of
     None \<Rightarrow> None
   | Some (v, r) \<Rightarrow>
       (case skip_ws r of
          [] \<Rightarrow> None
        | c # q \<Rightarrow>
            if c = CHR '','' then map_option (\<lambda>(vs, q'). (v # vs, q')) (pelems n (skip_ws q))
            else if c = CHR '']'' then Some ([v], q) else None))"
| "pmembers 0 s = None"
| "pmembers (Suc n) s = (case s of
     [] \<Rightarrow> None
   | c # t \<Rightarrow>
       if c \<noteq> CHR 0x22 then None else
       (case lex_string (length s) t of
          None \<Rightarrow> None
        | Some (k, r) \<Rightarrow>
            (case skip_ws r of
               [] \<Rightarrow> None
             | d # u \<Rightarrow>
                 if d \<noteq> CHR '':'' then None else
                 (case pvalue n (skip_ws u) of
                    None \<Rightarrow> None
                  | Some (v, w) \<Rightarrow>
                      (let raw = take (length (skip_ws u) - length w) (skip_ws u) in
                       case skip_ws w of
                         [] \<Rightarrow> None
                       | e # q \<Rightarrow>
                           if e = CHR '','' then
                             map_option (\<lambda>(ms, q'). ((k, raw, v) # ms, q')) (pmembers n (skip_ws q))
                           else if e = CHR ''}'' then Some ([(k, raw, v)], q) else None)))))"

definition json_parse :: "string \<Rightarrow> json option" where
  "json_parse s = (case pvalue (Suc (2 * length s)) (skip_ws s) of
     None \<Rightarrow> None
   | Some (v, r) \<Rightarrow> if skip_ws r = [] then Some v else None)"

section \<open>Filling struct fields\<close>

definition field_values :: "string \<Rightarrow> member list \<Rightarrow> (string \<times> json) list" where
  "field_values name ms = map snd (filter (\<lambda>(k, _). equal_fold k name) ms)"

fun assign_string :: "string option \<Rightarrow> json \<Rightarrow> string option" where
  "assign_string None _ = None"
| "assign_string (Some _) (JStr s) = Some s"
| "assign_string (Some s) JNull = Some s"
| "assign_string (Some _) _ = None"

definition string_field :: "string \<Rightarrow> member list \<Rightarrow> string option" where
  "string_field name ms = foldl assign_string (Some []) (map snd (field_values name ms))"

section \<open>Enough fuel\<close>

lemma length_skip_ws: "length (skip_ws s) \<le> length s"
  by (simp add: skip_ws_def length_dropWhile_le)

lemma hex4_length: "hex4 s = Some (n, r) \<Longrightarrow> length r < length s"
  by (auto simp: hex4_def split: list.splits option.splits)

lemma unicode_escape_length: "unicode_escape s = Some (u, r) \<Longrightarrow> length r < length s"
  by (auto simp: unicode_escape_def split: option.splits if_splits dest!: hex4_length)

lemma lex_string_length: "lex_string n s = Some (v, r) \<Longrightarrow> length r < length s"
  by (induction n s arbitrary: v r rule: lex_string.induct)
     (fastforce split: if_splits list.splits option.splits dest!: unicode_escape_length)+

lemma lex_digits_length: "lex_digits s = Some r \<Longrightarrow> length r \<le> length s"
  by (auto simp: lex_digits_def length_dropWhile_le split: if_splits)

lemma lex_int_length: "lex_int s = Some r \<Longrightarrow> length r < length s"
  by (auto simp: lex_int_def less_Suc_eq_le length_dropWhile_le split: list.splits if_splits)

lemma lex_frac_length: "lex_frac s = Some r \<Longrightarrow> length r \<le> length s"
  by (auto simp: lex_frac_def split: list.splits if_splits dest!: lex_digits_length)

lemma lex_exp_length: "lex_exp s = Some r \<Longrightarrow> length r \<le> length s"
  by (auto simp: lex_exp_def split: list.splits if_splits dest!: lex_digits_length)

lemma lex_number_length: "lex_number s = Some (v, r) \<Longrightarrow> length r < length s"
  by (fastforce simp: lex_number_def Let_def Option.bind_eq_Some_conv
      split: option.splits list.splits if_splits
      dest!: lex_int_length lex_frac_length lex_exp_length)

lemma length_skip_wsD: "skip_ws s = c # t \<Longrightarrow> length t < length s"
  using length_skip_ws [of s] by simp

lemma less_length_skip_ws: "n < length (skip_ws s) \<Longrightarrow> n < length s"
  using length_skip_ws [of s] by simp

lemma parse_length:
  "pvalue n s = Some (v, r) \<Longrightarrow> length r < length s"
  "pelems n s = Some (vs, r) \<Longrightarrow> length r < length s"
  "pmembers n s = Some (ms, r) \<Longrightarrow> length r < length s"
proof (induction n s and n s and n s arbitrary: v r and vs r and ms r
    rule: pvalue_pelems_pmembers.induct)
  case (2 n s)
  show ?case
  proof (cases s)
    case (Cons c t)
    have ws: "length (skip_ws t) \<le> length t" by (rule length_skip_ws)
    from 2 Cons ws show ?thesis
      by (auto split: if_splits dest!: lex_string_length lex_number_length)
         (fastforce dest: less_le_trans)+
  qed (use 2 in simp)
next
  case (4 n s)
  then show ?case
    by (fastforce split: option.splits list.splits if_splits
        dest!: length_skip_wsD less_length_skip_ws)
next
  case (6 n s)
  then show ?case
    by (fastforce simp: Let_def split: option.splits list.splits if_splits
        dest!: length_skip_wsD lex_string_length less_length_skip_ws)
qed simp_all

lemma pvalue_step:
  assumes "\<And>s. 2 * length s + 1 < n \<Longrightarrow> pelems n s = pelems (Suc n) s"
    and "\<And>s. 2 * length s < n \<Longrightarrow> pmembers n s = pmembers (Suc n) s"
    and "2 * length s < Suc n"
  shows "pvalue (Suc n) s = pvalue (Suc (Suc n)) s"
proof (cases s)
  case (Cons c t)
  have "length (skip_ws t) \<le> length t" by (rule length_skip_ws)
  then have "pelems n (skip_ws t) = pelems (Suc n) (skip_ws t)"
    and "pmembers n (skip_ws t) = pmembers (Suc n) (skip_ws t)"
    using assms Cons by auto
  then show ?thesis
    by (simp only: Cons pvalue.simps list.simps)
qed simp

lemma pelems_step:
  assumes "\<And>s. 2 * length s < n \<Longrightarrow> pvalue n s = pvalue (Suc n) s"
    and "\<And>s. 2 * length s + 1 < n \<Longrightarrow> pelems n s = pelems (Suc n) s"
    and "2 * length s + 1 < Suc n"
  shows "pelems (Suc n) s = pelems (Suc (Suc n)) s"
proof -
  have eq: "pvalue n s = pvalue (Suc n) s" using assms by simp
  have tl: "pelems n (skip_ws q) = pelems (Suc n) (skip_ws q)"
    if "pvalue (Suc n) s = Some (v, r)" "skip_ws r = c # q" for v r c q
    using that assms(3) parse_length(1) [OF that(1)] length_skip_wsD [OF that(2)] length_skip_ws [of q]
    by (intro assms(2)) linarith
  show ?thesis
    unfolding pelems.simps(2) [of n s] pelems.simps(2) [of "Suc n" s] eq
    by (auto simp del: pvalue.simps pelems.simps simp: tl split: option.splits list.splits)
qed

lemma pmembers_step:
  assumes "\<And>s. 2 * length s < n \<Longrightarrow> pvalue n s = pvalue (Suc n) s"
    and "\<And>s. 2 * length s < n \<Longrightarrow> pmembers n s = pmembers (Suc n) s"
    and "2 * length s < Suc n"
  shows "pmembers (Suc n) s = pmembers (Suc (Suc n)) s"
proof (cases s)
  case (Cons c t)
  have val: "pvalue n (skip_ws u) = pvalue (Suc n) (skip_ws u)"
    if "lex_string (length s) t = Some (k, r)" "skip_ws r = d # u" for k r d u
    using that assms(3) Cons lex_string_length [OF that(1)] length_skip_wsD [OF that(2)] length_skip_ws [of u]
    by (intro assms(1)) simp
  have tl: "pmembers n (skip_ws q) = pmembers (Suc n) (skip_ws q)"
    if "lex_string (length s) t = Some (k, r)" "skip_ws r = d # u"
      "pvalue (Suc n) (skip_ws u) = Some (v, w)" "skip_ws w = e # q" for k r d u v w e q
    using that assms(3) Cons lex_string_length [OF that(1)] length_skip_wsD [OF that(2)]
      length_skip_ws [of u] parse_length(1) [OF that(3)] length_skip_wsD [OF that(4)] length_skip_ws [of q]
    by (intro assms(2)) simp
  show ?thesis
    unfolding pmembers.simps(2) [of n s] pmembers.simps(2) [of "Suc n" s]
    by (auto simp del: pvalue.simps pmembers.simps simp: Cons Let_def val [unfolded Cons] tl [unfolded Cons]
        split: option.splits list.splits)
qed simp

lemma parse_fuel_Suc:
  "(\<forall>s. 2 * length s < n \<longrightarrow> pvalue n s = pvalue (Suc n) s) \<and>
   (\<forall>s. 2 * length s + 1 < n \<longrightarrow> pelems n s = pelems (Suc n) s) \<and>
   (\<forall>s. 2 * length s < n \<longrightarrow> pmembers n s = pmembers (Suc n) s)"
proof (induction n)
  case (Suc n)
  then show ?case
    by (intro conjI allI impI pvalue_step pelems_step pmembers_step) auto
qed simp

lemma pvalue_fuel:
  assumes "2 * length s < n" and "n \<le> m"
  shows "pvalue m s = pvalue n s"
  using assms(2)
proof (induction m rule: dec_induct)
  case (step m)
  with assms(1) have "pvalue m s = pvalue (Suc m) s"
    using parse_fuel_Suc [of m] by auto
  with step show ?case by simp
qed simp

end
