(* ===== verification/Errors.thy ===== *)
theory Errors
  imports Json
begin

text \<open>
  Errors. A Go error value is modelled by its \<open>Unwrap\<close> chain, outermost
  first, and the nil error by the empty chain; \<open>errors.Is\<close> and \<open>errors.As\<close>
  then search a list. The nodes are the error types and sentinels the client
  inspects. The theory also holds the tunnel-service error envelope
  (\<open>pkg/controlplane/apierror\<close>), the status error that carries it, and
  \<open>healthFailure\<close>, the bounded classification the health observers record.
\<close>

section \<open>The tunnel-service error envelope\<close>

record api_info =
  info_code :: string
  info_type :: string
  info_message :: string
  info_body :: string
  info_mitigation :: string

definition no_info :: api_info where
  "no_info = \<lparr>info_code = [], info_type = [], info_message = [], info_body = [],
              info_mitigation = []\<rparr>"

record api_status_error =
  ase_prefix :: string
  ase_status_code :: int
  ase_status :: string
  ase_info :: api_info
  ase_retry_after :: duration
  ase_has_retry_after :: bool

definition MitigationForCode :: "string \<Rightarrow> string" where
  "MitigationForCode code =
     (if code = ''invalid_tunnel_id_format'' then
        ''set --control-plane.tunnel-id, CONTROL_PLANE_TUNNEL_ID, or control_plane.tunnel_id to the exact tunnel_... ID from Platform tunnel settings''
      else if code = ''invalid_channel_format'' then
        ''use only lowercase letters, digits, hyphens, or underscores in MCP channel names''
      else if code = ''rate_limit_exceeded'' then
        ''reduce request concurrency or volume and let tunnel-client retry after backoff''
      else if code = ''request_body_too_large'' then
        ''send a smaller MCP request body and avoid large inline payloads''
      else if code = ''invalid_json_payload'' then
        ''fix the MCP caller or server to send a valid JSON object request body''
      else if code = ''missing_mcp_session_id'' then
        ''send DELETE session termination requests with the Mcp-Session-Id header from the active MCP session''
      else if code = ''rfc9728_www_authenticate_unsupported'' then
        ''use the well-known OAuth discovery endpoints instead of WWW-Authenticate probing''
      else if code = ''tunnel_missing_principals'' then
        ''use a runtime API key associated with the intended organization or workspace''
      else if code = ''tunnel_management_permission_required'' then
        ''use an admin key or account with Tunnels Read and Manage for the target org/workspace''
      else if code = ''tunnel_use_forbidden'' then
        ''use credentials for a principal that has access to this tunnel, or recreate/connect the runtime in the owning org/workspace''
      else if code = ''tunnel_active_organization_required'' then
        ''set --control-plane.organization-id, CONTROL_PLANE_ORGANIZATION_ID, or control_plane.organization_id to the tunnel's organization ID''
      else if code = ''tunnel_active_organization_context_required'' then
        ''select or pass the intended organization ID before listing principals or managing principal-validation overrides''
      else if code = ''tunnel_principal_validation_override_management_permission_required'' then
        ''use a credential authorized for tunnel principal-validation override management''
      else if code = ''tunnel_principal_validation_override_automatically_derivable'' then
        ''create or update the tunnel directly; no reviewed override is needed for that principal set''
      else if code = ''tunnel_principal_association_unverified'' then
        ''use an automatically verifiable org/workspace/tenant combination or request a reviewed association override''
      else if code = ''tunnel_principal_limit_exceeded'' then
        ''reduce each of tenant_ids, workspace_ids, and organization_ids to the documented maximum''
      else if code = ''tunnel_request_mismatch'' then
        ''verify the client uses the same control_plane.tunnel_id that received the command''
      else if code = ''pending_request_not_found'' then
        ''ignore isolated races; if repeated, ensure only healthy clients acknowledge requests for this tunnel''
      else if code = ''tunnel_queue_full'' then
        ''reduce MCP request concurrency or add enough healthy tunnel-client capacity to drain the tunnel''
      else if code = ''tunnel_client_not_seen'' then
        ''start or restart tunnel-client with the matching control_plane.tunnel_id and control_plane.api_key''
      else if code = ''tunnel_client_not_connected'' then
        ''start or restart tunnel-client, then check its /readyz endpoint and logs''
      else if code = ''oauth_shim_invalid_target_uri'' then
        ''use an absolute http(s) URI or harpoon://<label> that matches harpoon.targets[].label''
      else if code = ''oauth_shim_unshimmable_endpoint'' then
        ''configure supported OAuth metadata endpoints and grouped harpoon targets for auth-server metadata''
      else if code = ''oauth_shim_target_not_found'' then
        ''add or correct the matching harpoon.targets[].label entry and restart tunnel-client''
      else if code = ''oauth_shim_harpoon_call_failed'' then
        ''check the Harpoon target URL, upstream MCP server health, and tunnel-client logs''
      else if code = ''oauth_shim_upstream_timeout'' then
        ''ensure the Harpoon target and upstream MCP server respond before the tunnel timeout''
      else [])"

definition max_detail_length :: nat where
  "max_detail_length = 1024"

definition TruncateDetail :: "string \<Rightarrow> string" where
  "TruncateDetail value = (let v = trim_space value in
     if length v \<le> max_detail_length then v else take max_detail_length v @ ''...'')"

text \<open>The nested \<open>error\<close> object: a pointer to message, type and code.\<close>

type_synonym error_fields = "string \<times> string \<times> string"

definition string_field_from :: "string \<Rightarrow> string \<Rightarrow> member list \<Rightarrow> string option" where
  "string_field_from init name ms = foldl assign_string (Some init) (map snd (field_values name ms))"

fun assign_error :: "error_fields option option \<Rightarrow> json \<Rightarrow> error_fields option option" where
  "assign_error None _ = None"
| "assign_error (Some _) JNull = Some None"
| "assign_error (Some p) (JObj ms) =
     (let (m, t, c) = (case p of None \<Rightarrow> ([], [], []) | Some q \<Rightarrow> q) in
      case (string_field_from m ''message'' ms, string_field_from t ''type'' ms,
            string_field_from c ''code'' ms) of
        (Some m', Some t', Some c') \<Rightarrow> Some (Some (m', t', c'))
      | _ \<Rightarrow> None)"
| "assign_error (Some _) _ = None"

definition error_field :: "member list \<Rightarrow> error_fields option option" where
  "error_field ms = foldl assign_error (Some None) (map snd (field_values ''error'' ms))"

text \<open>\<open>Detail any\<close>: the last value wins; \<open>null\<close> stores nil.\<close>

definition detail_field :: "member list \<Rightarrow> json option" where
  "detail_field ms = (case rev (field_values ''detail'' ms) of
     [] \<Rightarrow> None | (_, v) # _ \<Rightarrow> if v = JNull then None else Some v)"

definition stringify_detail :: "(json \<Rightarrow> string) \<Rightarrow> json \<Rightarrow> string" where
  "stringify_detail marshal v = (case v of JStr s \<Rightarrow> s | _ \<Rightarrow> marshal v)"

definition parse_info :: "(json \<Rightarrow> string) \<Rightarrow> member list \<Rightarrow> api_info option" where
  "parse_info marshal ms =
     (case (error_field ms, string_field ''message'' ms, string_field ''type'' ms,
            string_field ''code'' ms) of
        (Some (Some (m, t, c)), Some _, Some _, Some _) \<Rightarrow>
          Some (no_info\<lparr>info_code := c, info_type := t, info_message := m,
                        info_mitigation := MitigationForCode c\<rparr>)
      | (Some None, Some m, Some t, Some c) \<Rightarrow>
          Some (no_info\<lparr>info_code := c, info_type := t,
             info_message :=
               (if m = [] then (case detail_field ms of None \<Rightarrow> m | Some d \<Rightarrow> stringify_detail marshal d)
                else m),
             info_mitigation := MitigationForCode c\<rparr>)
      | _ \<Rightarrow> None)"

text \<open>\<open>apierror.Parse\<close>. \<open>marshal\<close> is \<open>json.Marshal\<close> of a decoded value.\<close>

definition Parse :: "(json \<Rightarrow> string) \<Rightarrow> string \<Rightarrow> api_info" where
  "Parse marshal raw = (let body = trim_space raw in
     if body = [] then no_info
     else case json_parse body of
       Some (JObj ms) \<Rightarrow>
         (case parse_info marshal ms of
            Some info \<Rightarrow> info
          | None \<Rightarrow> no_info\<lparr>info_body := TruncateDetail body\<rparr>)
     | Some JNull \<Rightarrow> no_info
     | _ \<Rightarrow> no_info\<lparr>info_body := TruncateDetail body\<rparr>)"

definition join_parts :: "string list \<Rightarrow> string" where
  "join_parts ps = (case ps of
     [] \<Rightarrow> [] | p # qs \<Rightarrow> p @ concat (map (\<lambda>q. '': '' @ q) qs))"

definition Detail :: "api_info \<Rightarrow> string" where
  "Detail info =
     (let parts = (if info_code info \<noteq> [] then [info_code info] else []) @
                  (if info_message info \<noteq> [] then [info_message info]
                   else if info_body info \<noteq> [] then [info_body info] else []);
          detail = join_parts parts
      in if info_mitigation info \<noteq> [] then
           (if detail = [] then ''mitigation: '' @ info_mitigation info
            else detail @ '' mitigation: '' @ info_mitigation info)
         else detail)"

section \<open>Error chains\<close>

datatype errno =
  EPIPE | ECONNRESET | ECONNABORTED | ECONNREFUSED | ENETUNREACH | EHOSTUNREACH
  | ETIMEDOUT | OtherErrno

datatype non_protocol_kind =
    BodyMissing | BodyUnreadable | BodyTooLarge | MalformedJSON | InvalidMCPError
  | OtherNonProtocol

datatype err_node =
    Canceled              \<comment> \<open>\<open>context.Canceled\<close>\<close>
  | DeadlineExceeded      \<comment> \<open>\<open>context.DeadlineExceeded\<close>\<close>
  | ResponseDeadline      \<comment> \<open>\<open>errResponseDeadlineExceeded\<close>\<close>
  | ConnectionTTL         \<comment> \<open>\<open>errConnectionTTLExceeded\<close>\<close>
  | EOF | UnexpectedEOF | ClosedPipe
  | NetClosed             \<comment> \<open>\<open>net.ErrClosed\<close>\<close>
  | ConnectionClosed      \<comment> \<open>\<open>mcp.ErrConnectionClosed\<close>\<close>
  | Errno errno
  | SyscallError
  | DNSError bool         \<comment> \<open>with its \<open>IsTimeout\<close>\<close>
  | OpError string        \<comment> \<open>\<open>*net.OpError\<close> with its \<open>Op\<close>\<close>
  | URLError              \<comment> \<open>\<open>*url.Error\<close>, what \<open>http.Client.Do\<close> returns\<close>
  | HTTPTimeout           \<comment> \<open>the timeout errors of \<open>net\<close> and \<open>net/http\<close>\<close>
  | NetCanceled           \<comment> \<open>the \<open>net\<close> package's cancellation error\<close>
  | TLSFailure            \<comment> \<open>any of the TLS and X.509 error types\<close>
  | APIStatus api_status_error
  | PollingTransport      \<comment> \<open>\<open>*pollingTransportError\<close>\<close>
  | NonProtocolResponse non_protocol_kind
  | ProtocolFailure       \<comment> \<open>\<open>*protocolFailureError\<close>\<close>
  | ProbeHTTPStatus int
  | ProbeTimeout duration
  | StartupWaitTimeout duration
  | ErrText string        \<comment> \<open>\<open>errors.New\<close>, and the text of \<open>fmt.Errorf\<close> around what it wraps\<close>

type_synonym goerr = "err_node list"

abbreviation nil_err :: goerr where
  "nil_err \<equiv> []"

text \<open>The \<open>Is\<close> methods of the timeout and cancellation errors of \<open>net\<close>.\<close>

fun node_is :: "err_node \<Rightarrow> err_node \<Rightarrow> bool" where
  "node_is HTTPTimeout t = (t = HTTPTimeout \<or> t = DeadlineExceeded)"
| "node_is NetCanceled t = (t = NetCanceled \<or> t = Canceled)"
| "node_is n t = (n = t)"

definition errors_is :: "goerr \<Rightarrow> err_node \<Rightarrow> bool" where
  "errors_is e t \<longleftrightarrow> list_ex (\<lambda>n. node_is n t) e"

text \<open>\<open>errors.As\<close>: the part of the chain from the first node of the wanted type.\<close>

definition errors_as :: "goerr \<Rightarrow> (err_node \<Rightarrow> bool) \<Rightarrow> goerr" where
  "errors_as e p = dropWhile (\<lambda>n. \<not> p n) e"

fun is_net_error :: "err_node \<Rightarrow> bool" where
  "is_net_error DeadlineExceeded = True"
| "is_net_error HTTPTimeout = True"
| "is_net_error NetClosed = True"
| "is_net_error (Errno _) = True"
| "is_net_error (DNSError _) = True"
| "is_net_error (OpError _) = True"
| "is_net_error URLError = True"
| "is_net_error _ = False"

text \<open>The \<open>Timeout\<close> method of the head of a chain; \<open>None\<close> when it has none.\<close>

fun timeout_method :: "goerr \<Rightarrow> bool option" where
  "timeout_method (DeadlineExceeded # _) = Some True"
| "timeout_method (HTTPTimeout # _) = Some True"
| "timeout_method (NetClosed # _) = Some False"
| "timeout_method (Errno e # _) = Some (e = ETIMEDOUT)"
| "timeout_method (DNSError t # _) = Some t"
| "timeout_method (OpError _ # r) = Some (timeout_method r = Some True)"
| "timeout_method (URLError # r) = Some (timeout_method r = Some True)"
| "timeout_method (SyscallError # r) = Some (timeout_method r = Some True)"
| "timeout_method _ = None"

definition net_timeout :: "goerr \<Rightarrow> bool" where
  "net_timeout e \<longleftrightarrow> timeout_method (errors_as e is_net_error) = Some True"

definition is_some_net_error :: "goerr \<Rightarrow> bool" where
  "is_some_net_error e \<longleftrightarrow> errors_as e is_net_error \<noteq> []"

fun is_api_status :: "err_node \<Rightarrow> bool" where
  "is_api_status (APIStatus _) = True"
| "is_api_status _ = False"

definition as_api_status :: "goerr \<Rightarrow> api_status_error option" where
  "as_api_status e = (case errors_as e is_api_status of APIStatus s # _ \<Rightarrow> Some s | _ \<Rightarrow> None)"

definition healthFailure :: "goerr \<Rightarrow> string \<times> int" where
  "healthFailure e =
     (if e = nil_err then ([], 0)
      else case as_api_status e of
        Some st \<Rightarrow> (''http_error'', ase_status_code st)
      | None \<Rightarrow>
          if errors_is e DeadlineExceeded then (''timeout'', 0)
          else if errors_is e Canceled then (''canceled'', 0)
          else if is_some_net_error e then
            (if net_timeout e then (''timeout'', 0) else (''network_error'', 0))
          else (''request_error'', 0))"

section \<open>Lemmas\<close>

lemma errors_is_nil [simp]: "\<not> errors_is nil_err t"
  by (simp add: errors_is_def)

lemma errors_is_Cons [simp]: "errors_is (n # e) t \<longleftrightarrow> node_is n t \<or> errors_is e t"
  by (simp add: errors_is_def)

lemma node_is_refl [simp]: "node_is n n"
  by (cases n) simp_all

lemma as_api_status_Cons [simp]:
  "as_api_status (APIStatus s # e) = Some s"
  "\<not> is_api_status n \<Longrightarrow> as_api_status (n # e) = as_api_status e"
  by (simp_all add: as_api_status_def errors_as_def)

lemma as_api_status_nil [simp]: "as_api_status [] = None"
  by (simp add: as_api_status_def errors_as_def)

lemma truncate_detail_length: "length (TruncateDetail s) \<le> max_detail_length + 3"
  by (simp add: TruncateDetail_def Let_def)

text \<open>
  A health category never carries error text: it is one of five fixed names, and
  it names an HTTP status exactly when a status error is in the chain.
\<close>

lemma healthFailure_bounded:
  "fst (healthFailure e) \<in> {[], ''http_error'', ''timeout'', ''canceled'', ''network_error'',
     ''request_error''}"
  by (auto simp: healthFailure_def split: option.splits)

lemma healthFailure_nil_iff: "fst (healthFailure e) = [] \<longleftrightarrow> e = nil_err"
  by (auto simp: healthFailure_def split: option.splits)

end
