(* ===== verification/Types.thy ===== *)
theory Types
  imports Errors
begin

text \<open>
  The value types of \<open>pkg/types\<close>: routing channels and their canonical form,
  request identifiers read from HTTP headers, response timing, and the
  \<open>TunnelResponse\<close> that the dispatcher hands to the control-plane client.
\<close>

section \<open>Channels\<close>

type_synonym channel = string

definition DefaultChannel :: channel where
  "DefaultChannel = ''main''"

definition ChannelHarpoon :: channel where
  "ChannelHarpoon = ''harpoon''"

definition Canonical :: "channel \<Rightarrow> channel" where
  "Canonical c = to_lower (trim_space c)"

definition channel_byte :: "char \<Rightarrow> bool" where
  "channel_byte c \<longleftrightarrow> (let n = (of_char c :: nat) in
     (97 \<le> n \<and> n \<le> 122) \<or> is_digit c \<or> c = CHR ''_'' \<or> c = CHR ''-'')"

definition channelPattern :: "string \<Rightarrow> bool" where
  "channelPattern s \<longleftrightarrow> 1 \<le> length s \<and> length s \<le> 64 \<and> list_all channel_byte s"

definition NormalizeChannel :: "string \<Rightarrow> channel option" where
  "NormalizeChannel channel = (let canonical = Canonical channel in
     if canonical = [] then Some DefaultChannel
     else if channelPattern canonical then Some canonical
     else None)"

section \<open>Request identifiers\<close>

definition NewControlPlaneRequestIDFromHeader :: "header \<Rightarrow> string option" where
  "NewControlPlaneRequestIDFromHeader h = (let value = header_get h ''X-Request-Id'' in
     if value = [] then None else Some value)"

definition NewTunnelServiceRequestIDFromHeader :: "header \<Rightarrow> string option" where
  "NewTunnelServiceRequestIDFromHeader h = (let value = header_get h ''X-Request-Id'' in
     if value = [] then None else Some value)"

section \<open>Response timing\<close>

definition MaxTargetElapsedUS :: int where
  "MaxTargetElapsedUS = 86400000000"

record response_timing =
  rt_version :: int
  rt_transport :: string
  rt_target_elapsed_us :: int

definition Valid :: "response_timing \<Rightarrow> bool" where
  "Valid t \<longleftrightarrow> rt_version t = 1 \<and>
     (rt_transport t = ''stdio'' \<or> rt_transport t = ''streamable_http'') \<and>
     0 \<le> rt_target_elapsed_us t \<and> rt_target_elapsed_us t \<le> MaxTargetElapsedUS"

record trace_context =
  tc_traceparent :: string
  tc_tracestate :: string

section \<open>Tunnel responses\<close>

datatype response_type =
    ResponseTypeJSONRPCResponse
  | ResponseTypeJSONRPCNotification
  | ResponseTypeNotificationAcknowledgment
  | ResponseTypeOAuthDiscovery
  | ResponseTypeSessionTermination
  | ResponseTypeOther int   \<comment> \<open>an integer outside the declared constants\<close>

record tunnel_response =
  tr_response :: string
  tr_headers :: header
  tr_code :: int
  tr_type :: response_type
  tr_channel :: channel
  tr_timing :: "response_timing option"

definition NewTunnelResponse :: "channel \<Rightarrow> string \<Rightarrow> int \<Rightarrow> header \<Rightarrow> tunnel_response" where
  "NewTunnelResponse ch response code h =
     \<lparr>tr_response = response, tr_headers = h, tr_code = code,
      tr_type = ResponseTypeJSONRPCResponse, tr_channel = ch, tr_timing = None\<rparr>"

definition NewOAuthDiscoveryResponse :: "channel \<Rightarrow> string \<Rightarrow> int \<Rightarrow> header \<Rightarrow> tunnel_response" where
  "NewOAuthDiscoveryResponse ch response code h =
     \<lparr>tr_response = response, tr_headers = h, tr_code = code,
      tr_type = ResponseTypeOAuthDiscovery, tr_channel = ch, tr_timing = None\<rparr>"

definition NewJSONRPCNotification :: "channel \<Rightarrow> string \<Rightarrow> int \<Rightarrow> header \<Rightarrow> tunnel_response" where
  "NewJSONRPCNotification ch response code h =
     \<lparr>tr_response = response, tr_headers = h, tr_code = code,
      tr_type = ResponseTypeJSONRPCNotification, tr_channel = ch, tr_timing = None\<rparr>"

definition NewNotificationAck :: "channel \<Rightarrow> int \<Rightarrow> header \<Rightarrow> tunnel_response" where
  "NewNotificationAck ch code h =
     \<lparr>tr_response = [], tr_headers = h, tr_code = code,
      tr_type = ResponseTypeNotificationAcknowledgment, tr_channel = ch, tr_timing = None\<rparr>"

definition NewSessionTerminationResponse :: "channel \<Rightarrow> int \<Rightarrow> header \<Rightarrow> tunnel_response" where
  "NewSessionTerminationResponse ch code h =
     \<lparr>tr_response = [], tr_headers = h, tr_code = code,
      tr_type = ResponseTypeSessionTermination, tr_channel = ch, tr_timing = None\<rparr>"

text \<open>A nil \<open>*TunnelResponse\<close> is \<open>None\<close>.\<close>

definition WithTiming :: "tunnel_response option \<Rightarrow> response_timing \<Rightarrow> tunnel_response option" where
  "WithTiming t timing = (case t of
     None \<Rightarrow> None
   | Some r \<Rightarrow>
       if tr_type r \<noteq> ResponseTypeJSONRPCResponse \<or> \<not> Valid timing then Some r
       else Some (r\<lparr>tr_timing := Some timing\<rparr>))"

datatype validate_error =
    NilResponse | AckWithBody | NotificationRequired | OAuthRequired | ResponseRequired
  | UnknownResponseType int | InvalidChannel string

definition Validate :: "tunnel_response option \<Rightarrow> validate_error option" where
  "Validate t = (case t of
     None \<Rightarrow> Some NilResponse
   | Some r \<Rightarrow>
       (let body = (case tr_type r of
            ResponseTypeNotificationAcknowledgment \<Rightarrow> if tr_response r \<noteq> [] then Some AckWithBody else None
          | ResponseTypeSessionTermination \<Rightarrow> if tr_response r \<noteq> [] then Some AckWithBody else None
          | ResponseTypeJSONRPCNotification \<Rightarrow> if tr_response r = [] then Some NotificationRequired else None
          | ResponseTypeOAuthDiscovery \<Rightarrow> if tr_response r = [] then Some OAuthRequired else None
          | ResponseTypeJSONRPCResponse \<Rightarrow> if tr_response r = [] then Some ResponseRequired else None
          | ResponseTypeOther n \<Rightarrow> Some (UnknownResponseType n))
        in case body of
             Some e \<Rightarrow> Some e
           | None \<Rightarrow>
               if tr_channel r \<noteq> [] \<and> NormalizeChannel (tr_channel r) = None
               then Some (InvalidChannel (tr_channel r)) else None))"

section \<open>Lemmas\<close>

lemma Canonical_idem [text_simps]: "Canonical (Canonical c) = Canonical c"
  by (simp add: Canonical_def text_simps)

lemma channelPattern_Nil [simp]: "\<not> channelPattern []"
  by (simp add: channelPattern_def)

lemma DefaultChannel_ok: "channelPattern DefaultChannel" "Canonical DefaultChannel = DefaultChannel"
  by code_simp+

lemma NormalizeChannel_pattern: "NormalizeChannel s = Some c \<Longrightarrow> channelPattern c"
  by (auto simp: NormalizeChannel_def Let_def DefaultChannel_ok split: if_splits)

lemma NormalizeChannel_canonical: "NormalizeChannel s = Some c \<Longrightarrow> Canonical c = c"
  by (auto simp: NormalizeChannel_def Let_def DefaultChannel_ok Canonical_idem split: if_splits)

lemma NormalizeChannel_fixpoint:
  "\<lbrakk>Canonical c = c; channelPattern c\<rbrakk> \<Longrightarrow> NormalizeChannel c = Some c"
  by (auto simp: NormalizeChannel_def)

lemma WithTiming_Valid:
  "\<lbrakk>WithTiming t tm = Some r; \<forall>q s. t = Some q \<longrightarrow> tr_timing q = Some s \<longrightarrow> Valid s\<rbrakk>
   \<Longrightarrow> tr_timing r = Some s \<Longrightarrow> Valid s"
  by (auto simp: WithTiming_def split: option.splits if_splits)

end
