(* ===== verification/Wire.thy ===== *)
theory Wire
  imports Types
begin

text \<open>
  The wire formats of \<open>pkg/controlplane/wiretypes\<close> that carry logic of their
  own: the optional response timeout of a command and the routing correction
  of a polling 409.
\<close>

section \<open>Response timeouts\<close>

definition unit_of :: "string \<Rightarrow> nat option" where
  "unit_of u =
     (if u = ''ns'' then Some 1
      else if u = ''us'' then Some 1000
      else if u = ''ms'' then Some 1000000
      else if u = ''s'' then Some 1000000000
      else if u = ''m'' then Some 60000000000
      else if u = ''h'' then Some 3600000000000 else None)"

definition responseTimeoutPattern :: "string \<Rightarrow> bool" where
  "responseTimeoutPattern s \<longleftrightarrow> takeWhile is_digit s \<noteq> [] \<and> unit_of (dropWhile is_digit s) \<noteq> None"

text \<open>
  \<open>time.ParseDuration\<close> of a string the pattern admits: the digits are read
  into a \<open>uint64\<close> that may not exceed \<open>2 ^ 63\<close>, neither may the product with
  the unit, and the sum must fit an \<open>int64\<close>.
\<close>

definition parse_duration :: "string \<Rightarrow> duration option" where
  "parse_duration s =
     (let n = digits_value (takeWhile is_digit s) in
      case unit_of (dropWhile is_digit s) of
        None \<Rightarrow> None
      | Some unit \<Rightarrow>
          if n > 2 ^ 63 then None
          else if n > 2 ^ 63 div unit then None
          else if n * unit > 2 ^ 63 - 1 then None
          else Some (int (n * unit)))"

definition parseResponseTimeout :: "string \<Rightarrow> duration option" where
  "parseResponseTimeout value =
     (if \<not> responseTimeoutPattern value then None else parse_duration value)"

definition ResponseTimeout_UnmarshalJSON :: "json \<Rightarrow> string" where
  "ResponseTimeout_UnmarshalJSON v = (case assign_string (Some []) v of
     None \<Rightarrow> []
   | Some s \<Rightarrow> if parseResponseTimeout s = None then [] else s)"

definition ResponseTimeout_Value :: "string \<Rightarrow> duration option" where
  "ResponseTimeout_Value d = (if d = [] then None else parseResponseTimeout d)"

section \<open>Routing corrections\<close>

definition ShardTokenHeader :: string where
  "ShardTokenHeader = ''X-Tunnel-Shard-Token''"

definition WrongClusterCode :: string where
  "WrongClusterCode = ''wrong_cluster''"

definition MaxRoutingTokenBytes :: nat where
  "MaxRoutingTokenBytes = 4096"

definition MaxPolicyRevision :: nat where
  "MaxPolicyRevision = 9007199254740991"

record routing_correction =
  rc_shard_token :: string
  rc_policy_revision :: "64 word"

definition validRoutingToken :: "string \<Rightarrow> bool" where
  "validRoutingToken token \<longleftrightarrow> token \<noteq> [] \<and> length token \<le> MaxRoutingTokenBytes \<and>
     list_all (\<lambda>c. 33 \<le> (of_char c :: nat) \<and> (of_char c :: nat) \<le> 126 \<and> c \<noteq> CHR '','') token"

text \<open>
  \<open>routingObject\<close> keeps the members whose name is one of the wanted keys,
  exactly spelled, and fails on a wanted key that occurs twice.
\<close>

fun routing_fields :: "string list \<Rightarrow> member list \<Rightarrow> member list \<Rightarrow> member list option" where
  "routing_fields keys [] found = Some found"
| "routing_fields keys ((name, raw, v) # ms) found =
     (if name \<in> set keys then
        (if map_of found name \<noteq> None then None
         else routing_fields keys ms (found @ [(name, raw, v)]))
      else routing_fields keys ms found)"

definition routingObject :: "json option \<Rightarrow> string list \<Rightarrow> member list option" where
  "routingObject body keys = (case body of
     Some (JObj ms) \<Rightarrow> routing_fields keys ms []
   | _ \<Rightarrow> None)"

text \<open>
  The result of \<open>ParseRoutingCorrection\<close>: the error, no correction, or one.
\<close>

datatype routing_parse = InvalidRouting | NoCorrection | Correction routing_correction

definition unmarshal_string :: "(string \<times> json) option \<Rightarrow> string option" where
  "unmarshal_string v = (case v of None \<Rightarrow> None | Some (_, j) \<Rightarrow> assign_string (Some []) j)"

definition parse_revision :: "string \<Rightarrow> nat option" where
  "parse_revision raw =
     (if raw = [] \<or> 16 < length raw \<or> \<not> list_all is_digit raw then None
      else let revision = digits_value raw in
        if 2 ^ 64 \<le> revision \<or> MaxPolicyRevision < revision then None else Some revision)"

definition parse_metadata :: "header \<Rightarrow> member list \<Rightarrow> routing_parse" where
  "parse_metadata h metadata =
     (if unmarshal_string (map_of metadata ''code'') \<noteq> Some WrongClusterCode then NoCorrection
      else case header_values h ShardTokenHeader of
        [token] \<Rightarrow>
          if \<not> validRoutingToken token then InvalidRouting
          else if map_of metadata ''shard_token'' \<noteq> None
               \<and> unmarshal_string (map_of metadata ''shard_token'') \<noteq> Some token then InvalidRouting
          else (case parse_revision (case map_of metadata ''policy_revision'' of
                                       None \<Rightarrow> [] | Some (raw, _) \<Rightarrow> raw) of
                  None \<Rightarrow> InvalidRouting
                | Some revision \<Rightarrow>
                    Correction \<lparr>rc_shard_token = token, rc_policy_revision = of_nat revision\<rparr>)
      | _ \<Rightarrow> InvalidRouting)"

definition ParseRoutingCorrection :: "header \<Rightarrow> string \<Rightarrow> routing_parse" where
  "ParseRoutingCorrection h body =
     (case routingObject (json_parse body) [''error''] of
        None \<Rightarrow> InvalidRouting
      | Some envelope \<Rightarrow>
          (case map_of envelope ''error'' of
             None \<Rightarrow> NoCorrection
           | Some (_, e) \<Rightarrow>
               (case routingObject (Some e) [''code'', ''policy_revision'', ''shard_token''] of
                  None \<Rightarrow> InvalidRouting
                | Some metadata \<Rightarrow> parse_metadata h metadata)))"

section \<open>Lemmas\<close>

lemma unit_of_pos: "unit_of u = Some n \<Longrightarrow> 0 < n"
  by (auto simp: unit_of_def split: if_splits)

lemma parse_duration_range: "parse_duration s = Some d \<Longrightarrow> 0 \<le> d \<and> d \<le> max_i64"
  by (auto simp: parse_duration_def max_i64_def Let_def simp del: of_nat_mult
      split: option.splits if_splits)

lemma parseResponseTimeout_range:
  "parseResponseTimeout s = Some d \<Longrightarrow> 0 \<le> d \<and> d \<le> max_i64"
  by (auto simp: parseResponseTimeout_def dest: parse_duration_range split: if_splits)

lemma parse_revision_bound: "parse_revision raw = Some n \<Longrightarrow> n \<le> MaxPolicyRevision"
  by (auto simp: parse_revision_def Let_def split: if_splits)

lemma parse_metadata_Correction:
  assumes "parse_metadata h m = Correction c"
  shows "validRoutingToken (rc_shard_token c)"
    and "header_values h ShardTokenHeader = [rc_shard_token c]"
    and "unat (rc_policy_revision c) \<le> MaxPolicyRevision"
proof -
  from assms obtain token revision where tok: "header_values h ShardTokenHeader = [token]"
      and val: "validRoutingToken token"
      and rev: "revision \<le> MaxPolicyRevision"
      and c: "c = \<lparr>rc_shard_token = token, rc_policy_revision = of_nat revision\<rparr>"
    by (auto simp: parse_metadata_def split: if_splits list.splits option.splits
        dest: parse_revision_bound)
  from rev have "unat (of_nat revision :: 64 word) = revision"
    by (simp add: MaxPolicyRevision_def unat_of_nat take_bit_nat_eq_self)
  with tok val rev c show "validRoutingToken (rc_shard_token c)"
    "header_values h ShardTokenHeader = [rc_shard_token c]"
    "unat (rc_policy_revision c) \<le> MaxPolicyRevision" by simp_all
qed

lemma ParseRoutingCorrection_metadata:
  "ParseRoutingCorrection h body = Correction c \<Longrightarrow> \<exists>m. parse_metadata h m = Correction c"
  by (auto simp: ParseRoutingCorrection_def split: option.splits)

lemma routing_fields_known: "routing_fields keys ms found = Some fs \<Longrightarrow>
    set (map fst found) \<subseteq> set keys \<Longrightarrow> set (map fst fs) \<subseteq> set keys"
  by (induction keys ms found rule: routing_fields.induct) (auto split: if_splits)

lemma routing_fields_distinct: "routing_fields keys ms found = Some fs \<Longrightarrow>
    distinct (map fst found) \<Longrightarrow> distinct (map fst fs)"
  by (induction keys ms found rule: routing_fields.induct)
     (auto simp: map_of_eq_None_iff split: if_splits)

lemma routing_fields_complete: "routing_fields keys ms found = Some fs \<Longrightarrow>
    fs = found @ filter (\<lambda>m. fst m \<in> set keys) ms"
  by (induction keys ms found rule: routing_fields.induct) (auto split: if_splits)

lemma routing_fields_no_duplicate:
  "routing_fields keys ms [] = Some fs \<Longrightarrow> distinct (map fst (filter (\<lambda>m. fst m \<in> set keys) ms))"
  using routing_fields_distinct routing_fields_complete by fastforce

end
