(* ===== verification/Capabilities.thy ===== *)
theory Capabilities
  imports Prelude "HOL-Library.Char_ord" "HOL-Library.List_Lexorder"
begin

text \<open>
  Client capabilities (\<open>pkg/clientcapabilities\<close>): the comma-separated
  advertisement a client sends and how one is read.
\<close>

definition MaxValueBytes :: nat where
  "MaxValueBytes = 4096"

definition MaxMembers :: nat where
  "MaxMembers = 64"

definition MaxTokenBytes :: nat where
  "MaxTokenBytes = 128"

definition WrongClusterV1 :: string where
  "WrongClusterV1 = ''wrong-cluster-v1''"

definition TraceContextV1 :: string where
  "TraceContextV1 = ''trace-context-v1''"

definition Advertised :: string where
  "Advertised = WrongClusterV1"

definition validName :: "string \<Rightarrow> bool" where
  "validName name \<longleftrightarrow> name \<noteq> [] \<and> length name \<le> MaxTokenBytes \<and> list_all header_name_byte name"

text \<open>The byte count: one comma between field values; \<open>None\<close> is over the limit.\<close>

fun count_bytes :: "nat \<Rightarrow> string list \<Rightarrow> nat option" where
  "count_bytes acc [] = Some acc"
| "count_bytes acc (v # vs) =
     (if int (length v) > int MaxValueBytes - int acc then None
      else count_bytes (acc + length v) vs)"

definition trim_pad :: "string \<Rightarrow> string" where
  "trim_pad = trim_by (\<lambda>c. c = CHR '' '' \<or> c = CHR 0x09)"

text \<open>The members of one value; the state is the number of members and the names so far.\<close>

fun parse_members :: "nat \<Rightarrow> string set \<Rightarrow> string list \<Rightarrow> (nat \<times> string set) option" where
  "parse_members n names [] = Some (n, names)"
| "parse_members n names (m # ms) =
     (let name = trim_pad m in
      if name = [] then parse_members n names ms
      else if Suc n > MaxMembers \<or> \<not> validName name then None
      else parse_members (Suc n) (insert name names) ms)"

fun parse_values :: "nat \<Rightarrow> string set \<Rightarrow> string list \<Rightarrow> string set option" where
  "parse_values n names [] = Some names"
| "parse_values n names (v # vs) =
     (case parse_members n names (split_on (CHR '','') v) of
        None \<Rightarrow> None
      | Some (n', names') \<Rightarrow> parse_values n' names' vs)"

definition Capabilities_Parse :: "string list \<Rightarrow> string set" where
  "Capabilities_Parse values =
     (if length values > MaxValueBytes + 1 then {}
      else case count_bytes (length values - 1) values of
        None \<Rightarrow> {}
      | Some _ \<Rightarrow> (case parse_values 0 {} values of None \<Rightarrow> {} | Some names \<Rightarrow> names))"

definition Supports :: "string set \<Rightarrow> string \<Rightarrow> bool" where
  "Supports s name \<longleftrightarrow> name \<in> s"

definition join_comma :: "string list \<Rightarrow> string" where
  "join_comma ns = (case ns of [] \<Rightarrow> [] | n # ms \<Rightarrow> n @ concat (map (\<lambda>m. CHR '','' # m) ms))"

datatype format_error = TooManyCapabilities | InvalidCapabilityName | CapabilitiesTooLong

definition Format :: "string list \<Rightarrow> format_error + string" where
  "Format names =
     (if length names > MaxMembers then Inl TooManyCapabilities
      else if \<not> list_all validName names then Inl InvalidCapabilityName
      else let value = join_comma (remdups_adj (sort names)) in
        if length value > MaxValueBytes then Inl CapabilitiesTooLong else Inr value)"

section \<open>Lemmas\<close>

lemma split_on_nonempty: "split_on c s \<noteq> []"
  by (cases s) (auto split: list.splits)

lemma split_on_no_sep: "c \<notin> set s \<Longrightarrow> split_on c s = [s]"
  by (induction s) auto

lemma split_on_append: "c \<notin> set s \<Longrightarrow> split_on c (s @ c # t) = s # split_on c t"
  by (induction s) auto

lemma split_on_join:
  "\<forall>n \<in> set ns. c \<notin> set n \<Longrightarrow> ns \<noteq> [] \<Longrightarrow>
   split_on c (hd ns @ concat (map (\<lambda>m. c # m) (tl ns))) = ns"
proof (induction ns)
  case (Cons n ns)
  then show ?case
    by (cases ns) (auto simp: split_on_no_sep split_on_append)
qed simp

lemma validName_no_comma: "validName n \<Longrightarrow> CHR '','' \<notin> set n"
  by (auto simp: validName_def list_all_iff header_name_byte_def Let_def)

lemma validName_trim: "validName n \<Longrightarrow> trim_pad n = n"
  unfolding trim_pad_def
  by (rule trim_by_none) (auto simp: validName_def list_all_iff header_name_byte_def Let_def)

lemma parse_members_valid:
  "\<lbrakk>list_all validName ns; n + length ns \<le> MaxMembers\<rbrakk>
   \<Longrightarrow> parse_members n names ns = Some (n + length ns, names \<union> set ns)"
  by (induction ns arbitrary: n names) (auto simp: validName_trim validName_def)

lemma length_remdups_adj_le: "length (remdups_adj xs) \<le> length xs"
  by (rule remdups_adj_length)

section \<open>Properties\<close>

text \<open>
  What \<open>Format\<close> prints, \<open>Parse\<close> reads back: the parsed set supports
  exactly the formatted names.
\<close>

theorem capabilities_round_trip:
  assumes "Format names = Inr value"
  shows "Supports (Capabilities_Parse [value]) n \<longleftrightarrow> n \<in> set names"
proof -
  let ?ns = "remdups_adj (sort names)"
  have val: "value = join_comma ?ns" and len: "length value \<le> MaxValueBytes"
      and count: "length names \<le> MaxMembers" and ok: "list_all validName names"
    using assms by (auto simp: Format_def Let_def split: if_splits)
  have ns: "list_all validName ?ns" "length ?ns \<le> MaxMembers" "set ?ns = set names"
    using ok count length_remdups_adj_le [of "sort names"] by (auto simp: list_all_iff)
  have "parse_members 0 {} (split_on (CHR '','') value) = Some (length ?ns, set names)"
  proof (cases ?ns)
    case Nil
    then have "set names = {}" using ns(3) by simp
    then show ?thesis
      using Nil val by (simp add: join_comma_def trim_pad_def trim_by_def)
  next
    case (Cons n0 ms)
    have "split_on (CHR '','') value = ?ns"
      using split_on_join [of ?ns "CHR '',''"] ns(1) validName_no_comma
      by (simp add: val join_comma_def Cons list_all_iff)
    then show ?thesis using parse_members_valid [of ?ns 0 "{}"] ns by simp
  qed
  then show ?thesis
    using len by (simp add: Capabilities_Parse_def Supports_def)
qed

theorem capabilities_round_trip_witness:
  "Format [TraceContextV1, WrongClusterV1, TraceContextV1] = Inr ''trace-context-v1,wrong-cluster-v1'' \<and>
   Supports (Capabilities_Parse [''trace-context-v1,wrong-cluster-v1'']) WrongClusterV1"
proof -
  have "Format [TraceContextV1, WrongClusterV1, TraceContextV1] = Inr ''trace-context-v1,wrong-cluster-v1''"
    by (simp add: Format_def TraceContextV1_def WrongClusterV1_def MaxMembers_def MaxValueBytes_def
        validName_def MaxTokenBytes_def header_name_byte_def Let_def join_comma_def less_char_def)
  with capabilities_round_trip [OF this] show ?thesis by simp
qed

end
