(* ===== verification/Routing.thy ===== *)
theory Routing
  imports Wire
begin

text \<open>
  Placement routing of polls (\<open>pkg/controlplane/internal/routing.go\<close>): the
  token a poll sends, the corrections that replace it and the generation that
  fences results of overlapping polls. The mutex makes \<open>snapshot\<close> and
  \<open>complete\<close> atomic, so overlapping polls are interleavings of these two
  operations: \<open>routing_step\<close> runs one of them and keeps the attempts that
  are in flight.
\<close>

definition maxRoutingFailures :: int where
  "maxRoutingFailures = 3"

record poll_routing_state =
  prs_generation :: "64 word"
  prs_token :: string
  prs_revision :: "64 word"
  prs_known :: bool
  prs_acceptedToken :: string
  prs_failures :: int
  prs_corrections :: int

record routing_attempt =
  att_generation :: "64 word"
  att_token :: string

definition initial_routing :: poll_routing_state where
  "initial_routing = \<lparr>prs_generation = 0, prs_token = [], prs_revision = 0, prs_known = False,
     prs_acceptedToken = [], prs_failures = 0, prs_corrections = 0\<rparr>"

definition snapshot :: "poll_routing_state \<Rightarrow> routing_attempt" where
  "snapshot s = \<lparr>att_generation = prs_generation s, att_token = prs_token s\<rparr>"

definition adopt_correction :: "poll_routing_state \<Rightarrow> routing_correction \<Rightarrow> poll_routing_state" where
  "adopt_correction s c =
     (if \<not> prs_known s \<or> rc_policy_revision c > prs_revision s then
        s\<lparr>prs_known := True, prs_revision := rc_policy_revision c,
          prs_acceptedToken := rc_shard_token c, prs_token := rc_shard_token c\<rparr>
      else if rc_policy_revision c = prs_revision s then
        (if rc_shard_token c = prs_acceptedToken s then s\<lparr>prs_token := rc_shard_token c\<rparr>
         else s\<lparr>prs_token := []\<rparr>)
      else s)"

definition cap_corrections :: "poll_routing_state \<Rightarrow> poll_routing_state" where
  "cap_corrections s = (if prs_corrections s \<ge> maxRoutingFailures
                        then s\<lparr>prs_token := [], prs_corrections := 0\<rparr> else s)"

definition cap_failures :: "poll_routing_state \<Rightarrow> poll_routing_state" where
  "cap_failures s = (if prs_failures s \<ge> maxRoutingFailures
                     then s\<lparr>prs_token := [], prs_failures := 0\<rparr> else s)"

definition complete :: "poll_routing_state \<Rightarrow> routing_attempt \<Rightarrow> routing_correction option \<Rightarrow>
    bool \<Rightarrow> bool \<Rightarrow> poll_routing_state" where
  "complete s attempt correction available failedDestination =
     (if correction = None \<and> \<not> available \<and> \<not> failedDestination then s
      else if att_generation attempt \<noteq> prs_generation s then s
      else let s1 = s\<lparr>prs_generation := prs_generation s + 1\<rparr> in
        if available then s1\<lparr>prs_failures := 0, prs_corrections := 0\<rparr>
        else case correction of
          Some c \<Rightarrow>
            cap_corrections (adopt_correction
              (s1\<lparr>prs_failures := 0, prs_corrections := prs_corrections s1 + 1\<rparr>) c)
        | None \<Rightarrow>
            if failedDestination \<and> att_token attempt \<noteq> []
            then cap_failures (s1\<lparr>prs_failures := prs_failures s1 + 1\<rparr>)
            else s1)"

section \<open>Overlapping polls\<close>

datatype routing_event =
    BeginPoll
  | EndPoll nat "routing_correction option" bool bool

record routing_system =
  rs_state :: poll_routing_state
  rs_inflight :: "routing_attempt list"

fun routing_step :: "routing_system \<Rightarrow> routing_event \<Rightarrow> routing_system" where
  "routing_step r BeginPoll = r\<lparr>rs_inflight := rs_inflight r @ [snapshot (rs_state r)]\<rparr>"
| "routing_step r (EndPoll i correction available failedDestination) =
     (if i < length (rs_inflight r) then
        r\<lparr>rs_state := complete (rs_state r) (rs_inflight r ! i) correction available failedDestination,
          rs_inflight := take i (rs_inflight r) @ drop (Suc i) (rs_inflight r)\<rparr>
      else r)"

definition routing_start :: routing_system where
  "routing_start = \<lparr>rs_state = initial_routing, rs_inflight = []\<rparr>"

definition routing_ok :: "poll_routing_state \<Rightarrow> bool" where
  "routing_ok s \<longleftrightarrow>
     (prs_token s = [] \<or> prs_known s \<and> prs_token s = prs_acceptedToken s) \<and>
     0 \<le> prs_failures s \<and> prs_failures s < maxRoutingFailures \<and>
     0 \<le> prs_corrections s \<and> prs_corrections s < maxRoutingFailures"

definition placement_le :: "poll_routing_state \<Rightarrow> poll_routing_state \<Rightarrow> bool" where
  "placement_le s t \<longleftrightarrow> (prs_known s \<longrightarrow> prs_known t \<and>
     (prs_revision s < prs_revision t \<or>
      prs_revision s = prs_revision t \<and> prs_acceptedToken s = prs_acceptedToken t))"

text \<open>The number of completions among \<open>es\<close> that pass the fence.\<close>

fun state_bearing :: "routing_system \<Rightarrow> routing_event list \<Rightarrow> nat" where
  "state_bearing r [] = 0"
| "state_bearing r (e # es) =
     (if prs_generation (rs_state (routing_step r e)) = prs_generation (rs_state r) then 0 else 1)
     + state_bearing (routing_step r e) es"

section \<open>Lemmas\<close>

lemmas complete_defs = complete_def adopt_correction_def cap_corrections_def cap_failures_def
  maxRoutingFailures_def

lemma routing_ok_initial: "routing_ok initial_routing"
  by (simp add: routing_ok_def initial_routing_def maxRoutingFailures_def)

lemma routing_ok_adopt:
  assumes "routing_ok s" and "prs_corrections s + 1 \<le> maxRoutingFailures"
  shows "routing_ok (cap_corrections (adopt_correction
           (s\<lparr>prs_failures := 0, prs_corrections := prs_corrections s + 1\<rparr>) c))"
  using assms by (auto simp: routing_ok_def complete_defs)

lemma routing_ok_complete: "routing_ok s \<Longrightarrow> routing_ok (complete s a c av fd)"
proof -
  assume ok: "routing_ok s"
  then have 1: "routing_ok (s\<lparr>prs_generation := g\<rparr>)" for g
    by (simp add: routing_ok_def)
  then have 2: "routing_ok (cap_failures (s\<lparr>prs_generation := g, prs_failures := prs_failures s + 1\<rparr>))" for g
    using ok by (auto simp: routing_ok_def cap_failures_def maxRoutingFailures_def)
  have 3: "routing_ok (s\<lparr>prs_generation := g, prs_failures := 0, prs_corrections := 0\<rparr>)" for g
    using ok by (simp add: routing_ok_def maxRoutingFailures_def)
  have 4: "routing_ok (cap_corrections (adopt_correction (s\<lparr>prs_generation := g, prs_failures := 0,
      prs_corrections := prs_corrections s + 1\<rparr>) c))" for g c
    using routing_ok_adopt [OF 1 [of g], of c] ok by (simp add: routing_ok_def)
  show ?thesis
    using ok 1 2 3 4 by (simp add: complete_def Let_def split: option.splits)
qed

lemma placement_le_refl: "placement_le s s"
  by (simp add: placement_le_def)

lemma placement_le_trans: "\<lbrakk>placement_le s t; placement_le t u\<rbrakk> \<Longrightarrow> placement_le s u"
  by (auto simp: placement_le_def)

lemma placement_le_complete: "placement_le s (complete s a c av fd)"
  by (auto simp: placement_le_def complete_defs Let_def split: option.splits)

lemma generation_complete:
  "prs_generation (complete s a c av fd) =
     (if (c = None \<and> \<not> av \<and> \<not> fd) \<or> att_generation a \<noteq> prs_generation s
      then prs_generation s else prs_generation s + 1)"
  by (auto simp: complete_defs Let_def split: option.splits)

lemma complete_stale: "att_generation a \<noteq> prs_generation s \<Longrightarrow> complete s a c av fd = s"
  by (simp add: complete_def)

lemma complete_unchanged_iff:
  "prs_generation (complete s a c av fd) = prs_generation s \<longleftrightarrow> complete s a c av fd = s"
proof
  assume "prs_generation (complete s a c av fd) = prs_generation s"
  then have "(c = None \<and> \<not> av \<and> \<not> fd) \<or> att_generation a \<noteq> prs_generation s"
    by (simp add: generation_complete split: if_splits)
  then show "complete s a c av fd = s" by (auto simp: complete_def)
qed simp

interpretation routing_inv: invariant_system routing_step "\<lambda>r. routing_ok (rs_state r)"
proof
  show "routing_ok (rs_state (routing_step r e))" if "routing_ok (rs_state r)" for r e
    using that by (cases e) (simp_all add: routing_ok_complete)
qed

interpretation routing_mono: monotone_system routing_step "\<lambda>r q. placement_le (rs_state r) (rs_state q)"
proof
  show "placement_le (rs_state r) (rs_state (routing_step r e))" for r e
    by (cases e) (simp_all add: placement_le_refl placement_le_complete)
qed (auto intro: placement_le_refl placement_le_trans)

lemma generation_step:
  "prs_generation (rs_state (routing_step r e)) = prs_generation (rs_state r) \<or>
   prs_generation (rs_state (routing_step r e)) = prs_generation (rs_state r) + 1"
  by (cases e) (simp_all add: generation_complete)

lemma generation_run:
  "prs_generation (rs_state (foldl routing_step r es)) =
     prs_generation (rs_state r) + of_nat (state_bearing r es)"
proof (induction es arbitrary: r)
  case (Cons e es)
  show ?case
    using Cons.IH [of "routing_step r e"] generation_step [of r e] by auto
qed simp

lemma of_nat_word_0:
  assumes "0 < k" "k < 2 ^ 64"
  shows "(of_nat k :: 64 word) \<noteq> 0"
proof
  assume "(of_nat k :: 64 word) = 0"
  then have "unat (of_nat k :: 64 word) = 0" by simp
  with assms show False by (simp add: unat_of_nat take_bit_nat_eq_self)
qed

definition sequential_failure :: "poll_routing_state \<Rightarrow> poll_routing_state" where
  "sequential_failure s = complete s (snapshot s) None False True"

lemma sequential_failure_simps:
  assumes "prs_token s \<noteq> []" and "0 \<le> prs_failures s" and "prs_failures s < maxRoutingFailures"
  shows "prs_token (sequential_failure s) =
           (if prs_failures s + 1 \<ge> maxRoutingFailures then [] else prs_token s)"
    and "prs_failures (sequential_failure s) =
           (if prs_failures s + 1 \<ge> maxRoutingFailures then 0 else prs_failures s + 1)"
  using assms by (auto simp: sequential_failure_def snapshot_def complete_def cap_failures_def Let_def)

section \<open>Properties\<close>

text \<open>
  C8. Placement never rolls back. However polls overlap, once a policy revision
  has been accepted it only grows, and while the revision stays the same the
  token accepted for it stays the same: of two rival tokens for one revision the
  second is never adopted, also after tokenless recovery.
\<close>

theorem placement_never_rolls_back:
  assumes "prs_known (rs_state r)"
  shows "prs_known (rs_state (foldl routing_step r events)) \<and>
         prs_revision (rs_state r) \<le> prs_revision (rs_state (foldl routing_step r events)) \<and>
         (prs_revision (rs_state (foldl routing_step r events)) = prs_revision (rs_state r) \<longrightarrow>
          prs_acceptedToken (rs_state (foldl routing_step r events)) = prs_acceptedToken (rs_state r))"
  using routing_mono.below_run [of r events] assms by (auto simp: placement_le_def)

text \<open>Two corrections for revision 7 with different tokens: the first one stays accepted.\<close>

definition routing_example :: routing_system where
  "routing_example = foldl routing_step routing_start
     [BeginPoll, EndPoll 0 (Some \<lparr>rc_shard_token = ''a'', rc_policy_revision = 7\<rparr>) False False]"

definition rival_events :: "routing_event list" where
  "rival_events =
     [BeginPoll, EndPoll 0 (Some \<lparr>rc_shard_token = ''b'', rc_policy_revision = 7\<rparr>) False False]"

lemma routing_example_known: "prs_known (rs_state routing_example)"
  by (simp add: routing_example_def routing_start_def initial_routing_def snapshot_def complete_defs Let_def)

theorem placement_never_rolls_back_witness:
  "prs_known (rs_state (foldl routing_step routing_example rival_events)) \<and>
   prs_revision (rs_state routing_example)
     \<le> prs_revision (rs_state (foldl routing_step routing_example rival_events)) \<and>
   prs_acceptedToken (rs_state (foldl routing_step routing_example rival_events)) = ''a''"
proof -
  have a: "prs_acceptedToken (rs_state routing_example) = ''a''"
    "prs_revision (rs_state (foldl routing_step routing_example rival_events))
       = prs_revision (rs_state routing_example)"
    by (simp_all add: rival_events_def routing_example_def routing_start_def initial_routing_def
        snapshot_def complete_defs Let_def)
  show ?thesis
    using placement_never_rolls_back [OF routing_example_known, of rival_events] a by simp
qed

text \<open>
  In every state that polls can reach, the token a poll sends is empty or
  the token accepted for the highest revision, and both counters stay below
  \<open>maxRoutingFailures\<close>.
\<close>

theorem routing_reachable_ok: "routing_ok (rs_state (foldl routing_step routing_start events))"
  by (rule routing_inv.inv_run) (simp add: routing_start_def routing_ok_initial)



text \<open>
  Recovery: of polls that fail one after another with the token, the third
  in a row and no earlier one drops it, and then the count starts afresh.
\<close>

theorem token_dropped_at_third_failure:
  assumes "routing_ok s" and "prs_token s \<noteq> []" and "prs_failures s = 0"
  shows "prs_token (sequential_failure s) = prs_token s \<and>
         prs_token ((sequential_failure ^^ 2) s) = prs_token s \<and>
         prs_token ((sequential_failure ^^ 3) s) = [] \<and>
         prs_failures ((sequential_failure ^^ 3) s) = 0"
  using assms
  by (simp add: numeral_eq_Suc sequential_failure_simps maxRoutingFailures_def)

lemma routing_example_ok: "routing_ok (rs_state routing_example)"
  unfolding routing_example_def
  by (rule routing_inv.inv_run) (simp add: routing_start_def routing_ok_initial)

theorem token_dropped_at_third_failure_witness:
  "prs_token (rs_state routing_example) = ''a'' \<and>
   prs_token ((sequential_failure ^^ 3) (rs_state routing_example)) = []"
proof -
  have "prs_token (rs_state routing_example) = ''a''" "prs_failures (rs_state routing_example) = 0"
    by (simp_all add: routing_example_def routing_start_def initial_routing_def
        snapshot_def complete_defs Let_def)
  then show ?thesis
    using token_dropped_at_third_failure [OF routing_example_ok] by simp
qed

end
