(* ===== verification/Health.thy ===== *)
theory Health
  imports Prelude
begin

text \<open>
  The health observers: \<open>PollHealth\<close>, \<open>DeliveryHealth\<close> and \<open>QueueHealth\<close>
  (\<open>pkg/controlplane/health.go\<close>) and \<open>ActivityHealth\<close>
  (\<open>pkg/dispatcher/internal/health.go\<close>). Each keeps counters that saturate at
  the top of \<open>uint64\<close> and a channel that is closed at the next observation.

  A change channel is a number; \<open>signal\<close> records which channels were closed.
  Intervals in snapshots stay durations (the source converts them to
  floating-point seconds).
\<close>

section \<open>Shared helpers\<close>

definition increment :: "64 word \<Rightarrow> 64 word" where
  "increment v = (if v < - 1 then v + 1 else v)"

definition timestamp :: "gotime \<Rightarrow> gotime option" where
  "timestamp t = (if t = 0 then None else Some t)"

definition elapsed :: "gotime \<Rightarrow> gotime \<Rightarrow> duration" where
  "elapsed now since = (if since = 0 \<or> now < since then 0 else time_sub now since)"

record change_signal =
  sig_changed :: "nat option"
  sig_next :: nat
  sig_closed :: "nat list"

definition no_signal :: change_signal where
  "no_signal = \<lparr>sig_changed = None, sig_next = 0, sig_closed = []\<rparr>"

definition take_changes :: "change_signal \<Rightarrow> nat \<times> change_signal" where
  "take_changes s = (case sig_changed s of
     None \<Rightarrow> (sig_next s, s\<lparr>sig_changed := Some (sig_next s), sig_next := Suc (sig_next s)\<rparr>)
   | Some c \<Rightarrow> (c, s))"

definition signal :: "change_signal \<Rightarrow> change_signal" where
  "signal s = (case sig_changed s of
     None \<Rightarrow> s
   | Some c \<Rightarrow> s\<lparr>sig_closed := sig_closed s @ [c], sig_changed := None\<rparr>)"

datatype status = StatusUnknown | StatusOK | StatusDegraded

record 'd component_snapshot =
  cs_status :: status
  cs_state :: string
  cs_reason :: string
  cs_observed :: "gotime option"
  cs_limited :: bool
  cs_details :: 'd

section \<open>PollHealth\<close>

record poll_health =
  ph_signal :: change_signal
  ph_state :: string
  ph_lastAttempt :: gotime
  ph_lastSuccess :: gotime
  ph_lastError :: gotime
  ph_nextRetry :: gotime
  ph_observedAt :: gotime
  ph_failures :: "64 word"
  ph_configuredWait :: duration
  ph_effectiveWait :: duration
  ph_deadline :: duration
  ph_category :: string
  ph_httpStatus :: int

definition NewPollHealth :: "duration \<Rightarrow> duration \<Rightarrow> poll_health" where
  "NewPollHealth wait deadline =
     \<lparr>ph_signal = no_signal, ph_state = ''starting'', ph_lastAttempt = 0, ph_lastSuccess = 0,
      ph_lastError = 0, ph_nextRetry = 0, ph_observedAt = 0, ph_failures = 0,
      ph_configuredWait = wait, ph_effectiveWait = wait, ph_deadline = deadline,
      ph_category = [], ph_httpStatus = 0\<rparr>"

definition ph_sig :: "poll_health \<Rightarrow> poll_health" where
  "ph_sig s = s\<lparr>ph_signal := signal (ph_signal s)\<rparr>"

definition StartAttempt :: "poll_health \<Rightarrow> gotime \<Rightarrow> poll_health" where
  "StartAttempt s now = ph_sig (s\<lparr>ph_state := ''polling'', ph_lastAttempt := now,
     ph_observedAt := now, ph_nextRetry := 0\<rparr>)"

definition RequestLimits :: "poll_health \<Rightarrow> duration \<Rightarrow> duration \<Rightarrow> poll_health" where
  "RequestLimits s wait deadline = ph_sig (s\<lparr>ph_effectiveWait := wait, ph_deadline := deadline\<rparr>)"

definition Succeeded :: "poll_health \<Rightarrow> gotime \<Rightarrow> poll_health" where
  "Succeeded s now = ph_sig (s\<lparr>ph_lastSuccess := now, ph_observedAt := now, ph_failures := 0,
     ph_category := [], ph_httpStatus := 0, ph_state := ''idle'', ph_nextRetry := 0\<rparr>)"

definition Failed :: "poll_health \<Rightarrow> gotime \<Rightarrow> string \<Rightarrow> int \<Rightarrow> duration \<Rightarrow> poll_health" where
  "Failed s now category st delay = ph_sig (s\<lparr>ph_failures := increment (ph_failures s),
     ph_state := ''backoff'', ph_lastError := now, ph_observedAt := now,
     ph_category := category, ph_httpStatus := st, ph_nextRetry := now + delay\<rparr>)"

definition Backpressured :: "poll_health \<Rightarrow> gotime \<Rightarrow> poll_health" where
  "Backpressured s now = ph_sig (s\<lparr>ph_state := ''backpressured'', ph_observedAt := now\<rparr>)"

definition Poll_Stopped :: "poll_health \<Rightarrow> gotime \<Rightarrow> poll_health" where
  "Poll_Stopped s now = ph_sig (s\<lparr>ph_state := ''stopped'', ph_observedAt := now, ph_nextRetry := 0\<rparr>)"

record polling_details =
  pd_lastAttempt :: "gotime option"
  pd_lastSuccess :: "gotime option"
  pd_lastError :: "gotime option"
  pd_consecutiveFailures :: "64 word"
  pd_currentPollAge :: duration
  pd_configuredWait :: duration
  pd_effectiveWait :: duration
  pd_deadline :: duration
  pd_nextRetry :: "gotime option"
  pd_failureCategory :: string
  pd_httpStatus :: int

definition Poll_Snapshot :: "poll_health \<Rightarrow> gotime \<Rightarrow> polling_details component_snapshot" where
  "Poll_Snapshot s now =
     \<lparr>cs_status = (if ph_failures s > 0 then StatusDegraded
                   else if ph_lastSuccess s \<noteq> 0 then StatusOK else StatusUnknown),
      cs_state = ph_state s, cs_reason = ph_category s, cs_observed = timestamp (ph_observedAt s),
      cs_limited = False,
      cs_details = \<lparr>pd_lastAttempt = timestamp (ph_lastAttempt s),
        pd_lastSuccess = timestamp (ph_lastSuccess s), pd_lastError = timestamp (ph_lastError s),
        pd_consecutiveFailures = ph_failures s,
        pd_currentPollAge = (if ph_state s = ''polling'' then elapsed now (ph_lastAttempt s) else 0),
        pd_configuredWait = ph_configuredWait s, pd_effectiveWait = ph_effectiveWait s,
        pd_deadline = ph_deadline s, pd_nextRetry = timestamp (ph_nextRetry s),
        pd_failureCategory = ph_category s, pd_httpStatus = ph_httpStatus s\<rparr>\<rparr>"

datatype poll_obs =
    PStart gotime | PLimits duration duration | PSucceeded gotime
  | PFailed gotime string int duration | PBackpressured gotime | PStopped gotime

fun poll_observe :: "poll_health \<Rightarrow> poll_obs \<Rightarrow> poll_health" where
  "poll_observe s (PStart t) = StartAttempt s t"
| "poll_observe s (PLimits w d) = RequestLimits s w d"
| "poll_observe s (PSucceeded t) = Succeeded s t"
| "poll_observe s (PFailed t c st d) = Failed s t c st d"
| "poll_observe s (PBackpressured t) = Backpressured s t"
| "poll_observe s (PStopped t) = Poll_Stopped s t"

section \<open>DeliveryHealth\<close>

record delivery_health =
  dh_signal :: change_signal
  dh_inProgress :: "64 word"
  dh_attempts :: "64 word"
  dh_retries :: "64 word"
  dh_completed :: "64 word"
  dh_accepted :: "64 word"
  dh_terminalFailures :: "64 word"
  dh_lastAccepted :: "gotime option"
  dh_lastCompleted :: "gotime option"
  dh_lastFailure :: "gotime option"
  dh_disposition :: string
  dh_failureCategory :: string
  dh_httpStatus :: int
  dh_observedAt :: gotime

definition NewDeliveryHealth :: delivery_health where
  "NewDeliveryHealth =
     \<lparr>dh_signal = no_signal, dh_inProgress = 0, dh_attempts = 0, dh_retries = 0, dh_completed = 0,
      dh_accepted = 0, dh_terminalFailures = 0, dh_lastAccepted = None, dh_lastCompleted = None,
      dh_lastFailure = None, dh_disposition = ''not_observed'', dh_failureCategory = [],
      dh_httpStatus = 0, dh_observedAt = 0\<rparr>"

definition dh_sig :: "delivery_health \<Rightarrow> delivery_health" where
  "dh_sig s = s\<lparr>dh_signal := signal (dh_signal s)\<rparr>"

definition Delivery_Begin :: "delivery_health \<Rightarrow> delivery_health" where
  "Delivery_Begin s = dh_sig (s\<lparr>dh_inProgress := increment (dh_inProgress s)\<rparr>)"

definition Delivery_Attempt :: "delivery_health \<Rightarrow> bool \<Rightarrow> delivery_health" where
  "Delivery_Attempt s retry =
     (let s1 = s\<lparr>dh_attempts := increment (dh_attempts s)\<rparr> in
      dh_sig (if retry then s1\<lparr>dh_retries := increment (dh_retries s1)\<rparr> else s1))"

definition AttemptFailed :: "delivery_health \<Rightarrow> gotime \<Rightarrow> string \<Rightarrow> int \<Rightarrow> delivery_health" where
  "AttemptFailed s now category st = dh_sig (s\<lparr>dh_lastFailure := timestamp now,
     dh_failureCategory := category, dh_httpStatus := st, dh_observedAt := now\<rparr>)"

definition Delivery_Finish ::
    "delivery_health \<Rightarrow> gotime \<Rightarrow> string \<Rightarrow> string \<Rightarrow> int \<Rightarrow> delivery_health" where
  "Delivery_Finish s now disposition category st =
     (let s1 = (if dh_inProgress s > 0 then s\<lparr>dh_inProgress := dh_inProgress s - 1\<rparr> else s);
          s2 = s1\<lparr>dh_observedAt := now, dh_lastCompleted := timestamp now,
                  dh_disposition := disposition, dh_failureCategory := category,
                  dh_httpStatus := st\<rparr>
      in dh_sig
        (if disposition = ''failed'' then
           s2\<lparr>dh_terminalFailures := increment (dh_terminalFailures s2),
              dh_lastFailure := timestamp now\<rparr>
         else if disposition \<noteq> ''canceled'' then
           (let s3 = s2\<lparr>dh_completed := increment (dh_completed s2)\<rparr> in
            if disposition = ''accepted'' then
              s3\<lparr>dh_accepted := increment (dh_accepted s3), dh_lastAccepted := timestamp now\<rparr>
            else s3)
         else s2))"

definition Delivery_Snapshot :: "delivery_health \<Rightarrow> delivery_health component_snapshot" where
  "Delivery_Snapshot s =
     \<lparr>cs_status = (if dh_failureCategory s \<noteq> [] \<and> dh_failureCategory s \<noteq> ''canceled''
                      \<or> dh_disposition s = ''failed'' then StatusDegraded
                   else if dh_completed s > 0 then StatusOK else StatusUnknown),
      cs_state = (if dh_inProgress s > 0 then ''uploading'' else dh_disposition s),
      cs_reason = dh_failureCategory s, cs_observed = timestamp (dh_observedAt s),
      cs_limited = False, cs_details = s\<rparr>"

datatype delivery_obs =
    DBegin | DAttempt bool | DAttemptFailed gotime string int | DFinish gotime string string int

fun delivery_observe :: "delivery_health \<Rightarrow> delivery_obs \<Rightarrow> delivery_health" where
  "delivery_observe s DBegin = Delivery_Begin s"
| "delivery_observe s (DAttempt r) = Delivery_Attempt s r"
| "delivery_observe s (DAttemptFailed t c st) = AttemptFailed s t c st"
| "delivery_observe s (DFinish t d c st) = Delivery_Finish s t d c st"

section \<open>QueueHealth\<close>

record queue_health =
  qh_signal :: change_signal
  qh_lastEnqueue :: gotime
  qh_lastDequeue :: gotime
  qh_pressureStart :: gotime
  qh_enqueued :: "64 word"
  qh_dequeued :: "64 word"
  qh_pressure :: duration

definition NewQueueHealth :: queue_health where
  "NewQueueHealth = \<lparr>qh_signal = no_signal, qh_lastEnqueue = 0, qh_lastDequeue = 0,
     qh_pressureStart = 0, qh_enqueued = 0, qh_dequeued = 0, qh_pressure = 0\<rparr>"

definition qh_sig :: "queue_health \<Rightarrow> queue_health" where
  "qh_sig s = s\<lparr>qh_signal := signal (qh_signal s)\<rparr>"

definition Enqueued :: "queue_health \<Rightarrow> gotime \<Rightarrow> queue_health" where
  "Enqueued s now = qh_sig (s\<lparr>qh_lastEnqueue := now, qh_enqueued := increment (qh_enqueued s)\<rparr>)"

definition Dequeued :: "queue_health \<Rightarrow> gotime \<Rightarrow> queue_health" where
  "Dequeued s now = qh_sig (s\<lparr>qh_lastDequeue := now, qh_dequeued := increment (qh_dequeued s)\<rparr>)"

definition Backpressure :: "queue_health \<Rightarrow> gotime \<Rightarrow> bool \<Rightarrow> queue_health" where
  "Backpressure s now active = qh_sig
     (if active then
        (if qh_pressureStart s = 0 then s\<lparr>qh_pressureStart := now\<rparr> else s)
      else if qh_pressureStart s \<noteq> 0 then
        (let delta = time_sub now (qh_pressureStart s);
             s1 = (if delta > 0 then
                     (if delta > i64 (max_i64 - qh_pressure s) then s\<lparr>qh_pressure := max_i64\<rparr>
                      else s\<lparr>qh_pressure := i64 (qh_pressure s + delta)\<rparr>)
                   else s)
         in s1\<lparr>qh_pressureStart := 0\<rparr>)
      else s)"

record queue_details =
  qd_depth :: nat
  qd_capacity :: nat
  qd_lastEnqueue :: "gotime option"
  qd_lastDequeue :: "gotime option"
  qd_enqueued :: "64 word"
  qd_dequeued :: "64 word"
  qd_backpressure :: duration

definition Queue_Snapshot ::
    "queue_health \<Rightarrow> nat \<Rightarrow> nat \<Rightarrow> gotime \<Rightarrow> queue_details component_snapshot" where
  "Queue_Snapshot s depth capacity now =
     \<lparr>cs_status = StatusOK,
      cs_state = (if capacity > 0 \<and> depth = capacity \<or> qh_pressureStart s \<noteq> 0
                  then ''backpressured'' else ''available''),
      cs_reason = [],
      cs_observed = timestamp (if qh_lastDequeue s > qh_lastEnqueue s then qh_lastDequeue s
                               else qh_lastEnqueue s),
      cs_limited = False,
      cs_details = \<lparr>qd_depth = depth, qd_capacity = capacity,
        qd_lastEnqueue = timestamp (qh_lastEnqueue s), qd_lastDequeue = timestamp (qh_lastDequeue s),
        qd_enqueued = qh_enqueued s, qd_dequeued = qh_dequeued s,
        qd_backpressure = qh_pressure s + elapsed now (qh_pressureStart s)\<rparr>\<rparr>"

datatype queue_obs = QEnqueued gotime | QDequeued gotime | QPressure gotime bool

fun queue_observe :: "queue_health \<Rightarrow> queue_obs \<Rightarrow> queue_health" where
  "queue_observe s (QEnqueued t) = Enqueued s t"
| "queue_observe s (QDequeued t) = Dequeued s t"
| "queue_observe s (QPressure t a) = Backpressure s t a"

section \<open>ActivityHealth\<close>

record activity_health =
  ah_signal :: change_signal
  ah_starts :: "gotime list"
  ah_poolLimit :: int
  ah_active :: "64 word"
  ah_completed :: "64 word"
  ah_failures :: "64 word"
  ah_timeouts :: "64 word"
  ah_accepting :: bool
  ah_lastStart :: "gotime option"
  ah_lastCompletion :: "gotime option"
  ah_state :: string
  ah_limited :: bool
  ah_lastFailed :: bool

definition NewActivityHealth :: "int option \<Rightarrow> activity_health" where
  "NewActivityHealth maxConcurrent =
     (let limit = (case maxConcurrent of Some n \<Rightarrow> if n > 0 then n else 1 | None \<Rightarrow> 1);
          slots = (if limit < 1024 then limit + 1 else 1024)
      in \<lparr>ah_signal = no_signal, ah_starts = replicate (nat slots) 0, ah_poolLimit = limit,
          ah_active = 0, ah_completed = 0, ah_failures = 0, ah_timeouts = 0, ah_accepting = False,
          ah_lastStart = None, ah_lastCompletion = None, ah_state = ''starting'',
          ah_limited = limit \<ge> 1024, ah_lastFailed = False\<rparr>)"

definition ah_sig :: "activity_health \<Rightarrow> activity_health" where
  "ah_sig s = s\<lparr>ah_signal := signal (ah_signal s)\<rparr>"

definition Accepting :: "activity_health \<Rightarrow> bool \<Rightarrow> activity_health" where
  "Accepting s accepting = ah_sig (s\<lparr>ah_accepting := accepting,
     ah_state := (if accepting then ''accepting'' else ''draining'')\<rparr>)"

definition Activity_Stopped :: "activity_health \<Rightarrow> activity_health" where
  "Activity_Stopped s = ah_sig (s\<lparr>ah_state := ''stopped'', ah_accepting := False\<rparr>)"

fun first_free :: "gotime list \<Rightarrow> nat option" where
  "first_free [] = None"
| "first_free (t # ts) = (if t = 0 then Some 0 else map_option Suc (first_free ts))"

definition begin_work :: "activity_health \<Rightarrow> gotime \<Rightarrow> int \<times> activity_health" where
  "begin_work s now =
     (let s1 = s\<lparr>ah_active := increment (ah_active s), ah_lastStart := timestamp now\<rparr> in
      case first_free (ah_starts s1) of
        Some i \<Rightarrow> (int i, ah_sig (s1\<lparr>ah_starts := (ah_starts s1)[i := now]\<rparr>))
      | None \<Rightarrow> (- 1, ah_sig (s1\<lparr>ah_limited := True\<rparr>)))"

definition finish_work :: "activity_health \<Rightarrow> int \<Rightarrow> gotime \<Rightarrow> bool \<Rightarrow> bool \<Rightarrow> activity_health" where
  "finish_work s slot now failed timeout =
     (let s1 = (if 0 \<le> slot \<and> slot < int (length (ah_starts s))
                then s\<lparr>ah_starts := (ah_starts s)[nat slot := 0]\<rparr> else s);
          s2 = (if ah_active s1 > 0 then s1\<lparr>ah_active := ah_active s1 - 1\<rparr> else s1);
          s3 = s2\<lparr>ah_completed := increment (ah_completed s2)\<rparr>;
          s4 = (if failed then s3\<lparr>ah_failures := increment (ah_failures s3)\<rparr> else s3);
          s5 = (if timeout then s4\<lparr>ah_timeouts := increment (ah_timeouts s4)\<rparr> else s4)
      in ah_sig (s5\<lparr>ah_lastCompletion := timestamp now, ah_lastFailed := failed\<rparr>))"

definition Activity_Snapshot :: "activity_health \<Rightarrow> gotime \<Rightarrow> duration component_snapshot" where
  "Activity_Snapshot s now =
     \<lparr>cs_status = (if ah_lastFailed s then StatusDegraded
                   else if ah_state s = ''starting'' then StatusUnknown else StatusOK),
      cs_state = ah_state s, cs_reason = [],
      cs_observed = (case ah_lastCompletion s of
         Some c \<Rightarrow> (case ah_lastStart s of
                      None \<Rightarrow> Some c
                    | Some b \<Rightarrow> if c > b then Some c else Some b)
       | None \<Rightarrow> ah_lastStart s),
      cs_limited = ah_limited s,
      cs_details = foldl (\<lambda>a t. if t \<noteq> 0 \<and> now > t then max a (time_sub now t) else a) 0 (ah_starts s)\<rparr>"

text \<open>
  Running commands with the slots they hold. A command takes a slot when it
  begins and gives it back when it ends, in any order; the clock is never the
  zero time, and fewer than \<open>2 ^ 64\<close> commands run at once.
\<close>

inductive activity_reach :: "activity_health \<Rightarrow> activity_health \<Rightarrow> int list \<Rightarrow> bool" for h0 where
  Start: "activity_reach h0 h0 []"
| Begin: "\<lbrakk>activity_reach h0 h held; now \<noteq> 0; length held + 1 < 2 ^ 64; begin_work h now = (slot, h')\<rbrakk>
          \<Longrightarrow> activity_reach h0 h' (slot # held)"
| Finish: "\<lbrakk>activity_reach h0 h (hs @ slot # held)\<rbrakk>
           \<Longrightarrow> activity_reach h0 (finish_work h slot now failed timeout) (hs @ held)"
| Accept: "activity_reach h0 h held \<Longrightarrow> activity_reach h0 (Accepting h a) held"
| Stop: "activity_reach h0 h held \<Longrightarrow> activity_reach h0 (Activity_Stopped h) held"

section \<open>Saturating counters\<close>

lemma unat_max_word: "unat (- 1 :: 64 word) = 2 ^ 64 - 1"
  by (simp add: unsigned_minus_1_eq_mask mask_eq_exp_minus_1)

lemma unat_increment: "unat (increment v) = min (2 ^ 64 - 1) (unat v + 1)"
proof (cases "v < - 1")
  case True
  then have "unat v < 2 ^ 64 - 1"
    using unat_max_word by (simp add: word_less_nat_alt)
  moreover from this have "unat (v + 1) = unat v + 1"
    by (simp add: unat_word_ariths)
  ultimately show ?thesis using True by (simp add: increment_def)
next
  case False
  then have "v = - 1"
    by (metis word_order.not_eq_extremum)
  then show ?thesis by (simp add: increment_def unat_max_word)
qed

lemma unat_pred: "v > 0 \<Longrightarrow> unat (v - 1 :: 64 word) = unat v - 1"
  by (metis measure_unat unat_minus_one word_gt_0)

section \<open>Change channels\<close>

text \<open>
  The observers share the change-channel discipline: an observation closes the
  channel that is handed out and forgets it, \<open>Changes\<close> hands out the pending
  channel or a fresh one. \<open>obs_step\<close> is the interleaving of the two.
\<close>

datatype 'e obs_event = Observe 'e | Changes

definition obs_step :: "('s \<Rightarrow> change_signal) \<Rightarrow> ('s \<Rightarrow> change_signal \<Rightarrow> 's) \<Rightarrow> ('s \<Rightarrow> 'e \<Rightarrow> 's) \<Rightarrow>
    's \<Rightarrow> 'e obs_event \<Rightarrow> 's" where
  "obs_step get put obs s ev = (case ev of
     Observe e \<Rightarrow> obs s e
   | Changes \<Rightarrow> put s (snd (take_changes (get s))))"

definition signal_ok :: "change_signal \<Rightarrow> bool" where
  "signal_ok g \<longleftrightarrow> distinct (sig_closed g) \<and> (\<forall>c \<in> set (sig_closed g). c < sig_next g) \<and>
     (case sig_changed g of None \<Rightarrow> True | Some c \<Rightarrow> c < sig_next g \<and> c \<notin> set (sig_closed g))"

lemma signal_ok_none: "signal_ok no_signal"
  by (simp add: signal_ok_def no_signal_def)

lemma signal_ok_signal: "signal_ok g \<Longrightarrow> signal_ok (signal g)"
  by (auto simp: signal_ok_def signal_def split: option.splits)

lemma signal_ok_take: "signal_ok g \<Longrightarrow> signal_ok (snd (take_changes g))"
  by (auto simp: signal_ok_def take_changes_def split: option.splits)

lemma take_changes_open:
  "signal_ok g \<Longrightarrow> fst (take_changes g) \<notin> set (sig_closed (snd (take_changes g)))"
  by (auto simp: signal_ok_def take_changes_def split: option.splits)

definition pending :: "nat \<Rightarrow> change_signal \<Rightarrow> bool" where
  "pending c g \<longleftrightarrow> sig_changed g = Some c \<or> c \<in> set (sig_closed g)"

lemma pending_take: "pending c g \<Longrightarrow> pending c (snd (take_changes g))"
  by (auto simp: pending_def take_changes_def split: option.splits)

lemma pending_taken: "pending (fst (take_changes g)) (snd (take_changes g))"
  by (auto simp: pending_def take_changes_def split: option.splits)

lemma pending_signal: "pending c g \<Longrightarrow> c \<in> set (sig_closed (signal g))"
  by (auto simp: pending_def signal_def split: option.splits)

locale change_observer =
  fixes get :: "'s \<Rightarrow> change_signal"
    and put :: "'s \<Rightarrow> change_signal \<Rightarrow> 's"
    and obs :: "'s \<Rightarrow> 'e \<Rightarrow> 's"
  assumes get_put: "get (put s g) = g"
    and get_obs: "get (obs s e) = signal (get s)"
begin

lemma step_ok: "signal_ok (get s) \<Longrightarrow> signal_ok (get (obs_step get put obs s ev))"
  by (cases ev) (simp_all add: obs_step_def get_put get_obs signal_ok_signal signal_ok_take)

lemma run_ok: "signal_ok (get s) \<Longrightarrow> signal_ok (get (foldl (obs_step get put obs) s evs))"
  by (induction evs arbitrary: s) (simp_all add: step_ok)

lemma step_pending: "pending c (get s) \<Longrightarrow> pending c (get (obs_step get put obs s ev))"
  by (cases ev) (auto simp: obs_step_def get_put get_obs pending_take dest: pending_signal
      simp: pending_def [of c "signal _"])

lemma step_closed:
  "c \<in> set (sig_closed (get s)) \<Longrightarrow> c \<in> set (sig_closed (get (obs_step get put obs s ev)))"
  by (cases ev) (auto simp: obs_step_def get_put get_obs signal_def take_changes_def split: option.splits)

lemma run_closed:
  "c \<in> set (sig_closed (get s)) \<Longrightarrow> c \<in> set (sig_closed (get (foldl (obs_step get put obs) s evs)))"
  by (induction evs arbitrary: s) (simp_all add: step_closed)

lemma run_wakes:
  "\<lbrakk>pending c (get s); Observe e \<in> set evs\<rbrakk>
   \<Longrightarrow> c \<in> set (sig_closed (get (foldl (obs_step get put obs) s evs)))"
proof (induction evs arbitrary: s)
  case (Cons ev evs)
  show ?case
  proof (cases "ev = Observe e")
    case True
    then have "c \<in> set (sig_closed (get (obs_step get put obs s ev)))"
      using Cons.prems(1) by (simp add: obs_step_def get_obs pending_signal)
    then show ?thesis by (simp add: run_closed)
  qed (use Cons step_pending in auto)
qed simp

lemma changes_woken:
  assumes "signal_ok (get s)" and "Observe e \<in> set evs"
  defines "c \<equiv> fst (take_changes (get s))"
  shows "c \<notin> set (sig_closed (get (obs_step get put obs s Changes)))"
    and "c \<in> set (sig_closed (get (foldl (obs_step get put obs) s (Changes # evs))))"
    and "distinct (sig_closed (get (foldl (obs_step get put obs) s (Changes # evs))))"
proof -
  show "c \<notin> set (sig_closed (get (obs_step get put obs s Changes)))"
    using take_changes_open [OF assms(1)] by (simp add: c_def obs_step_def get_put)
  have "pending c (get (obs_step get put obs s Changes))"
    using pending_taken [of "get s"] by (simp add: c_def obs_step_def get_put)
  then show "c \<in> set (sig_closed (get (foldl (obs_step get put obs) s (Changes # evs))))"
    using assms(2) by (simp add: run_wakes)
  show "distinct (sig_closed (get (foldl (obs_step get put obs) s (Changes # evs))))"
    using run_ok [OF assms(1), of "Changes # evs"] by (simp only: signal_ok_def)
qed

end

abbreviation ph_put :: "poll_health \<Rightarrow> change_signal \<Rightarrow> poll_health" where
  "ph_put s g \<equiv> s\<lparr>ph_signal := g\<rparr>"

lemmas poll_defs = ph_sig_def StartAttempt_def RequestLimits_def Succeeded_def Failed_def
  Backpressured_def Poll_Stopped_def

lemmas delivery_defs = dh_sig_def Delivery_Begin_def Delivery_Attempt_def AttemptFailed_def
  Delivery_Finish_def

lemmas queue_defs = qh_sig_def Enqueued_def Dequeued_def Backpressure_def

interpretation poll_changes: change_observer ph_signal ph_put poll_observe
proof
  show "ph_signal (poll_observe s e) = signal (ph_signal s)" for s e
    by (cases e) (simp_all add: poll_defs)
qed simp

interpretation delivery_changes:
  change_observer dh_signal "\<lambda>s g. s\<lparr>dh_signal := g\<rparr>" delivery_observe
proof
  show "dh_signal (delivery_observe s e) = signal (dh_signal s)" for s e
    by (cases e) (simp_all add: delivery_defs Let_def)
qed simp

interpretation queue_changes:
  change_observer qh_signal "\<lambda>s g. s\<lparr>qh_signal := g\<rparr>" queue_observe
proof
  show "qh_signal (queue_observe s e) = signal (qh_signal s)" for s e
    by (cases e) (simp_all add: queue_defs Let_def)
qed simp

section \<open>Counting\<close>

definition failure_count :: "nat \<Rightarrow> poll_obs \<Rightarrow> nat" where
  "failure_count n e = (case e of PSucceeded _ \<Rightarrow> 0 | PFailed _ _ _ _ \<Rightarrow> n + 1 | _ \<Rightarrow> n)"

lemma poll_failures_step:
  "unat (ph_failures s) = min (2 ^ 64 - 1) n \<Longrightarrow>
   unat (ph_failures (poll_observe s e)) = min (2 ^ 64 - 1) (failure_count n e)"
  by (cases e) (auto simp: poll_defs failure_count_def unat_increment)

lemma poll_failures_run:
  "unat (ph_failures s) = min (2 ^ 64 - 1) n \<Longrightarrow>
   unat (ph_failures (foldl poll_observe s es)) = min (2 ^ 64 - 1) (foldl failure_count n es)"
  by (induction es arbitrary: s n) (simp_all del: poll_observe.simps add: poll_failures_step)

fun finishes :: "delivery_obs list \<Rightarrow> nat" where
  "finishes [] = 0"
| "finishes (DFinish _ _ _ _ # es) = Suc (finishes es)"
| "finishes (_ # es) = finishes es"

fun cancellations :: "delivery_obs list \<Rightarrow> nat" where
  "cancellations [] = 0"
| "cancellations (DFinish _ d _ _ # es) = (if d = ''canceled'' then 1 else 0) + cancellations es"
| "cancellations (_ # es) = cancellations es"

definition delivery_counts :: "delivery_health \<Rightarrow> nat \<Rightarrow> nat \<Rightarrow> bool" where
  "delivery_counts s fin can \<longleftrightarrow>
     unat (dh_completed s) + unat (dh_terminalFailures s) + can = fin \<and>
     unat (dh_accepted s) \<le> unat (dh_completed s)"

lemma delivery_counts_run:
  assumes "delivery_counts s fin can" and "fin + length es < 2 ^ 64"
  shows "delivery_counts (foldl delivery_observe s es) (fin + finishes es) (can + cancellations es)"
  using assms
proof (induction es arbitrary: s fin can)
  case (Cons e es)
  have step: "delivery_counts (delivery_observe s e) (fin + finishes [e]) (can + cancellations [e])"
    using Cons.prems
    by (cases e) (auto simp: delivery_counts_def delivery_defs Let_def unat_increment)
  have split: "finishes (e # es) = finishes [e] + finishes es"
    "cancellations (e # es) = cancellations [e] + cancellations es" "finishes [e] \<le> 1"
    by (cases e; simp)+
  show ?case
    using Cons.IH [OF step] Cons.prems split by (simp add: add.assoc)
qed simp

definition pressure_le :: "queue_health \<Rightarrow> queue_health \<Rightarrow> bool" where
  "pressure_le s t \<longleftrightarrow> (0 \<le> qh_pressure s \<and> qh_pressure s \<le> max_i64 \<longrightarrow>
     qh_pressure s \<le> qh_pressure t \<and> qh_pressure t \<le> max_i64)"

interpretation queue_pressure: monotone_system queue_observe pressure_le
proof
  show "pressure_le s (queue_observe s e)" for s e
    by (cases e) (auto simp: pressure_le_def queue_defs Let_def max_i64_def wrap_simps)
qed (auto simp: pressure_le_def)

section \<open>Activity slots\<close>

lemma first_free_None: "first_free ts = None \<longleftrightarrow> 0 \<notin> set ts"
  by (induction ts) auto

lemma first_free_Some: "first_free ts = Some i \<Longrightarrow> i < length ts \<and> ts ! i = 0"
  by (induction ts arbitrary: i) (auto split: if_splits)

lemma starts_sig [simp]: "ah_starts (ah_sig h) = ah_starts h"
  "ah_active (ah_sig h) = ah_active h" "ah_limited (ah_sig h) = ah_limited h"
  by (simp_all add: ah_sig_def)

definition slots_ok :: "nat \<Rightarrow> activity_health \<Rightarrow> int list \<Rightarrow> bool" where
  "slots_ok n h held \<longleftrightarrow>
     length (ah_starts h) = n \<and>
     (\<forall>i < n. ah_starts h ! i \<noteq> 0 \<longleftrightarrow> int i \<in> set held) \<and>
     (\<forall>x \<in> set held. x = - 1 \<or> 0 \<le> x \<and> x < int n) \<and>
     distinct (filter (\<lambda>x. 0 \<le> x) held) \<and>
     unat (ah_active h) = length held \<and> length held < 2 ^ 64"

lemma slots_ok_begin:
  assumes ok: "slots_ok n h held" and b: "begin_work h now = (slot, h')"
    and t: "now \<noteq> 0" "length held + 1 < 2 ^ 64"
  shows "slots_ok n h' (slot # held)"
proof (cases "first_free (ah_starts h)")
  case None
  then have "slot = - 1" "ah_starts h' = ah_starts h" "ah_active h' = increment (ah_active h)"
    using b by (auto simp: begin_work_def)
  then show ?thesis using ok t by (auto simp: slots_ok_def unat_increment)
next
  case (Some i)
  then have eq: "slot = int i" "ah_starts h' = (ah_starts h)[i := now]"
      "ah_active h' = increment (ah_active h)"
    using b by (auto simp: begin_work_def)
  have "i < n" "ah_starts h ! i = 0"
    using first_free_Some [OF Some] ok by (auto simp: slots_ok_def)
  then show ?thesis
    using ok t eq by (auto simp: slots_ok_def unat_increment nth_list_update)
qed

lemma finish_work_simps:
  "ah_starts (finish_work h slot now f t) =
     (if 0 \<le> slot \<and> slot < int (length (ah_starts h)) then (ah_starts h)[nat slot := 0] else ah_starts h)"
  "ah_active (finish_work h slot now f t) = (if ah_active h > 0 then ah_active h - 1 else ah_active h)"
  by (auto simp: finish_work_def Let_def)

lemma slots_ok_finish:
  assumes "slots_ok n h (hs @ slot # held)"
  shows "slots_ok n (finish_work h slot now f t) (hs @ held)"
proof -
  have act: "unat (ah_active h) = Suc (length hs + length held)"
    using assms by (simp add: slots_ok_def)
  then have "ah_active h > 0" by (metis unat_gt_0 word_gt_0 zero_less_Suc)
  then have 1: "unat (ah_active (finish_work h slot now f t)) = length (hs @ held)"
    using act by (simp add: finish_work_simps unat_pred)
  have "slot = - 1 \<or> 0 \<le> slot \<and> slot < int n" "length (ah_starts h) = n"
    using assms by (auto simp: slots_ok_def)
  then consider "slot = - 1" | i where "slot = int i" "i < n"
    by (metis nat_0_le of_nat_less_iff)
  then show ?thesis
  proof cases
    case 1
    then have "ah_starts (finish_work h slot now f t) = ah_starts h"
      by (simp add: finish_work_simps)
    then show ?thesis
      using assms 1 \<open>unat (ah_active (finish_work h slot now f t)) = length (hs @ held)\<close>
      unfolding slots_ok_def by auto
  next
    case (2 i)
    then have st: "ah_starts (finish_work h slot now f t) = (ah_starts h)[i := 0]"
      using \<open>length (ah_starts h) = n\<close> by (simp add: finish_work_simps)
    have "int i \<notin> set (hs @ held)"
      using assms 2 by (auto simp: slots_ok_def)
    then show ?thesis
      using assms 2 st \<open>unat (ah_active (finish_work h slot now f t)) = length (hs @ held)\<close>
      by (auto simp: slots_ok_def nth_list_update)
  qed
qed

lemma slots_ok_new: "slots_ok (length (ah_starts (NewActivityHealth m))) (NewActivityHealth m) []"
  by (simp add: slots_ok_def NewActivityHealth_def Let_def)

lemma activity_reach_ok:
  "activity_reach (NewActivityHealth m) h held \<Longrightarrow>
   slots_ok (length (ah_starts (NewActivityHealth m))) h held"
proof (induction rule: activity_reach.induct)
  case Start
  show ?case by (rule slots_ok_new)
next
  case (Begin h held now slot h')
  then show ?case by (blast intro: slots_ok_begin)
next
  case (Finish h hs slot held now failed timeout)
  then show ?case by (blast intro: slots_ok_finish)
qed (auto simp: slots_ok_def Accepting_def Activity_Stopped_def)

lemma full_slots:
  assumes "slots_ok n h held" and "0 \<notin> set (ah_starts h)"
  shows "n \<le> length held"
proof -
  have "int ` {..<n} \<subseteq> set held"
    using assms by (auto simp: slots_ok_def in_set_conv_nth)
  then have "card (int ` {..<n}) \<le> card (set held)" by (intro card_mono) simp_all
  then show ?thesis using card_length [of held] by (simp add: card_image)
qed

section \<open>Properties\<close>

text \<open>
  The poll health is degraded exactly while a poll has failed since the
  last successful one, and the failure counter counts those failures,
  saturating at the top of \<open>uint64\<close> instead of wrapping to healthy.
\<close>

theorem poll_health_failures:
  "unat (ph_failures (foldl poll_observe (NewPollHealth w d) es))
     = min (2 ^ 64 - 1) (foldl failure_count 0 es) \<and>
   (cs_status (Poll_Snapshot (foldl poll_observe (NewPollHealth w d) es) now) = StatusDegraded
     \<longleftrightarrow> 0 < foldl failure_count 0 es)"
proof -
  let ?s = "foldl poll_observe (NewPollHealth w d) es"
  have count: "unat (ph_failures ?s) = min (2 ^ 64 - 1) (foldl failure_count 0 es)"
    by (rule poll_failures_run) (simp add: NewPollHealth_def)
  then have "ph_failures ?s > 0 \<longleftrightarrow> 0 < foldl failure_count 0 es"
    by (auto simp: word_gt_0 unat_eq_0 [symmetric])
  with count show ?thesis by (simp add: Poll_Snapshot_def)
qed

text \<open>
  No wakeup is lost and no channel is closed twice: a channel obtained from
  \<open>Changes\<close> of the poll health is open at that moment and closed once any
  observation follows, however observations and \<open>Changes\<close> calls interleave.
\<close>

theorem poll_health_no_lost_wakeup:
  assumes "Observe e \<in> set later"
    and "s = foldl (obs_step ph_signal ph_put poll_observe) (NewPollHealth w d) earlier"
  shows "fst (take_changes (ph_signal s))
           \<notin> set (sig_closed (ph_signal (obs_step ph_signal ph_put poll_observe s Changes))) \<and>
         fst (take_changes (ph_signal s))
           \<in> set (sig_closed (ph_signal (foldl (obs_step ph_signal ph_put poll_observe) s (Changes # later)))) \<and>
         distinct (sig_closed (ph_signal (foldl (obs_step ph_signal ph_put poll_observe) s (Changes # later))))"
proof -
  have "signal_ok (ph_signal s)"
    unfolding assms(2) by (rule poll_changes.run_ok) (simp add: NewPollHealth_def signal_ok_none)
  then show ?thesis using poll_changes.changes_woken assms(1) by blast
qed

theorem poll_health_no_lost_wakeup_witness:
  "0 \<in> set (sig_closed (ph_signal (foldl (obs_step ph_signal ph_put poll_observe)
     (NewPollHealth 1 2) [Changes, Changes, Observe (PStart 5)])))"
  using poll_health_no_lost_wakeup [of "PStart 5" "[Changes, Observe (PStart 5)]" "NewPollHealth 1 2" 1 2 "[]"]
  by (simp add: NewPollHealth_def no_signal_def take_changes_def)

text \<open>
  Every finished delivery is counted once: completed, terminally failed and
  canceled deliveries add up to the finished ones, and accepted ones are among
  the completed, as long as fewer than \<open>2 ^ 64\<close> observations were made.
\<close>

theorem delivery_accounting:
  assumes "length es < 2 ^ 64"
  shows "unat (dh_completed (foldl delivery_observe NewDeliveryHealth es))
         + unat (dh_terminalFailures (foldl delivery_observe NewDeliveryHealth es))
         + cancellations es = finishes es \<and>
         unat (dh_accepted (foldl delivery_observe NewDeliveryHealth es))
         \<le> unat (dh_completed (foldl delivery_observe NewDeliveryHealth es))"
proof -
  have "delivery_counts NewDeliveryHealth 0 0"
    by (simp add: delivery_counts_def NewDeliveryHealth_def)
  from delivery_counts_run [OF this, of es] assms show ?thesis
    by (simp add: delivery_counts_def)
qed

theorem delivery_accounting_witness:
  "unat (dh_completed (foldl delivery_observe NewDeliveryHealth
       [DBegin, DAttempt False, DFinish 9 ''accepted'' [] 200]))
   + unat (dh_terminalFailures (foldl delivery_observe NewDeliveryHealth
       [DBegin, DAttempt False, DFinish 9 ''accepted'' [] 200])) = 1"
  using delivery_accounting [of "[DBegin, DAttempt False, DFinish 9 ''accepted'' [] 200]"] by simp

text \<open>
  Dispatcher activity: in every state that beginning and ending commands
  can reach, \<open>Active\<close> is the number of running commands, no two of them hold
  the same slot, and a command is refused a slot only when at least as many
  commands run as there are slots.
\<close>

theorem activity_slots_exclusive:
  assumes "activity_reach (NewActivityHealth m) h held"
  shows "unat (ah_active h) = length held \<and> distinct (filter (\<lambda>x. 0 \<le> x) held) \<and>
         (fst (begin_work h now) = - 1 \<longrightarrow> length (ah_starts (NewActivityHealth m)) \<le> length held)"
proof -
  have ok: "slots_ok (length (ah_starts (NewActivityHealth m))) h held"
    using assms by (rule activity_reach_ok)
  have "length (ah_starts (NewActivityHealth m)) \<le> length held" if "fst (begin_work h now) = - 1"
  proof (rule full_slots [OF ok])
    show "0 \<notin> set (ah_starts h)"
      using that by (auto simp: begin_work_def Let_def first_free_None split: option.splits)
  qed
  with ok show ?thesis by (auto simp: slots_ok_def)
qed

lemma activity_reach_example:
  "activity_reach (NewActivityHealth (Some 2)) (snd (begin_work (NewActivityHealth (Some 2)) 7)) [0]"
proof -
  have "begin_work (NewActivityHealth (Some 2)) 7 = (0, snd (begin_work (NewActivityHealth (Some 2)) 7))"
    by (simp add: begin_work_def NewActivityHealth_def Let_def numeral_eq_Suc)
  from Begin [OF Start _ _ this] show ?thesis by simp
qed

theorem activity_slots_exclusive_witness:
  "unat (ah_active (snd (begin_work (NewActivityHealth (Some 2)) 7))) = 1"
  using activity_slots_exclusive [OF activity_reach_example] by simp

end
