(* ===== verification/Retry.thy ===== *)
theory Retry
  imports Errors
begin

text \<open>
  Timing of polls and retries: the \<open>Retry-After\<close> header
  (\<open>retry_after.go\<close>), the defaults and the deadline of a poll
  (\<open>pkg/runtimeconfig/config.go\<close>), and the poll timeout the client learns when
  a proxy cuts a long poll (\<open>tunnel_service_client.go\<close>).

  Durations that the source adds or subtracts are wrapped with \<open>i64\<close>.
\<close>

section \<open>Retry-After\<close>

definition maxRetryAfterDelay :: duration where
  "maxRetryAfterDelay = seconds 60"

definition isDecimalDigits :: "string \<Rightarrow> bool" where
  "isDecimalDigits value \<longleftrightarrow> list_all is_digit value \<and> value \<noteq> []"

text \<open>\<open>parse_time\<close> is \<open>http.ParseTime\<close>.\<close>

definition parseRetryAfter :: "(string \<Rightarrow> gotime option) \<Rightarrow> string \<Rightarrow> gotime \<Rightarrow> duration option" where
  "parseRetryAfter parse_time raw now = (let value = trim_space raw in
     if value = [] then None
     else if isDecimalDigits value then
       (let secs = digits_value value in
        if 2 ^ 64 \<le> secs \<or> int secs > maxRetryAfterDelay div seconds 1 then Some maxRetryAfterDelay
        else Some (i64 (seconds (int secs))))
     else case parse_time value of
       None \<Rightarrow> None
     | Some retryAt \<Rightarrow>
         (let delay = time_sub retryAt now in
          if delay \<le> 0 then None
          else if delay > maxRetryAfterDelay then Some maxRetryAfterDelay
          else Some delay))"

definition retryDelay :: "duration \<Rightarrow> duration \<Rightarrow> bool \<Rightarrow> duration" where
  "retryDelay backoffDelay retryAfter hasRetryAfter =
     (if hasRetryAfter \<and> retryAfter > backoffDelay then retryAfter else backoffDelay)"

text \<open>
  A sleep ends with the timer or with the context: \<open>wake\<close> says whether the
  context ends first. A delay that is not positive only looks at the context.
\<close>

definition sleepWithContext :: "goerr \<Rightarrow> duration \<Rightarrow> bool \<Rightarrow> bool" where
  "sleepWithContext ctx_err delay wake =
     (if delay \<le> 0 then ctx_err = nil_err else \<not> wake)"

section \<open>Poll timeouts\<close>

definition defaultControlPlanePollTimeout :: duration where
  "defaultControlPlanePollTimeout = seconds 30"

definition defaultControlPlaneInitialPollTimeout :: duration where
  "defaultControlPlaneInitialPollTimeout = defaultControlPlanePollTimeout"

definition defaultControlPlanePollDeadlineGuardrail :: duration where
  "defaultControlPlanePollDeadlineGuardrail = milliseconds 5000"

definition maxControlPlanePollDeadline :: duration where
  "maxControlPlanePollDeadline = seconds 600"

definition PollTimeoutOrDefault :: "duration \<Rightarrow> duration" where
  "PollTimeoutOrDefault pollTimeout =
     (if pollTimeout \<le> 0 then defaultControlPlanePollTimeout else pollTimeout)"

definition InitialPollTimeoutOrDefault :: "duration \<Rightarrow> duration" where
  "InitialPollTimeoutOrDefault initialPollTimeout =
     (if initialPollTimeout \<le> 0 then defaultControlPlaneInitialPollTimeout else initialPollTimeout)"

definition PollDeadlineGuardrailOrDefault :: "duration \<Rightarrow> duration" where
  "PollDeadlineGuardrailOrDefault guardrail =
     (if guardrail \<le> 0 then defaultControlPlanePollDeadlineGuardrail else guardrail)"

definition PollDeadlineTimeoutOrDefault :: "duration \<Rightarrow> duration \<Rightarrow> duration" where
  "PollDeadlineTimeoutOrDefault timeout guard =
     (let pollTimeout = PollTimeoutOrDefault timeout;
          pollDeadlineGuardrail = PollDeadlineGuardrailOrDefault guard
      in if pollDeadlineGuardrail \<ge> maxControlPlanePollDeadline
            \<or> pollTimeout > i64 (maxControlPlanePollDeadline - pollDeadlineGuardrail)
         then maxControlPlanePollDeadline
         else i64 (pollTimeout + pollDeadlineGuardrail))"

definition pollTimeoutMilliseconds :: "duration \<Rightarrow> int" where
  "pollTimeoutMilliseconds timeout =
     (let timeoutMS = PollTimeoutOrDefault timeout div 1000000 in
      if timeoutMS > 0 then timeoutMS else 1)"

section \<open>Learning from proxy disconnects\<close>

definition minimumAdaptiveProxyPollTimeout :: duration where
  "minimumAdaptiveProxyPollTimeout = seconds 5"

definition minimumAdaptiveProxyPollMargin :: duration where
  "minimumAdaptiveProxyPollMargin = seconds 5"

text \<open>\<open>Duration.Truncate\<close> towards zero, for a positive unit.\<close>

definition truncate_to :: "duration \<Rightarrow> duration \<Rightarrow> duration" where
  "truncate_to d m = (if d < 0 then - ((- d) div m * m) else d div m * m)"

definition learnedProxyPollTimeoutFromDisconnect ::
    "duration \<Rightarrow> duration \<Rightarrow> duration \<Rightarrow> duration" where
  "learnedProxyPollTimeoutFromDisconnect elapsed attemptedTimeout guardrail =
     (let pollDeadline = i64 (attemptedTimeout + guardrail) in
      if elapsed \<le> minimumAdaptiveProxyPollMargin \<or> elapsed \<ge> pollDeadline
         \<or> attemptedTimeout \<le> minimumAdaptiveProxyPollTimeout then 0
      else let margin = max guardrail minimumAdaptiveProxyPollMargin;
               halfElapsed = elapsed div 2;
               margin' = (if margin > halfElapsed then halfElapsed else margin);
               learned = max (truncate_to (i64 (elapsed - margin')) (milliseconds 1))
                             minimumAdaptiveProxyPollTimeout
           in if learned \<ge> attemptedTimeout then 0 else learned)"

definition isProxyIdleDisconnectError :: "goerr \<Rightarrow> bool" where
  "isProxyIdleDisconnectError e \<longleftrightarrow> errors_is e EOF \<or> errors_is e UnexpectedEOF"

text \<open>
  One observed disconnect. The compare-and-swap loop of the source re-reads the
  stored value until no other poll interferes, so its effect is one atomic
  comparison and store.
\<close>

record disconnect =
  dc_ctx_err :: goerr
  dc_poll_ctx_err :: goerr
  dc_attempted :: duration
  dc_elapsed :: duration
  dc_received_headers :: bool
  dc_err :: goerr

definition maybeLearnProxyPollTimeout ::
    "bool \<Rightarrow> duration \<Rightarrow> duration \<Rightarrow> disconnect \<Rightarrow> duration" where
  "maybeLearnProxyPollTimeout usesProxy guardrail current d =
     (if \<not> usesProxy \<or> dc_received_headers d \<or> dc_err d = nil_err then current
      else if dc_ctx_err d \<noteq> nil_err \<or> dc_poll_ctx_err d \<noteq> nil_err
              \<or> \<not> isProxyIdleDisconnectError (dc_err d) then current
      else let learned = learnedProxyPollTimeoutFromDisconnect (dc_elapsed d) (dc_attempted d) guardrail in
        if learned \<le> 0 then current
        else if current > 0 \<and> current \<le> learned then current
        else learned)"

definition effectivePollTimeout :: "duration \<Rightarrow> duration \<Rightarrow> duration" where
  "effectivePollTimeout learned pollTimeout =
     (if learned > 0 \<and> learned < pollTimeout then learned else pollTimeout)"

section \<open>Lemmas\<close>

lemmas poll_timeout_defs = PollTimeoutOrDefault_def PollDeadlineGuardrailOrDefault_def
  defaultControlPlanePollTimeout_def defaultControlPlanePollDeadlineGuardrail_def
  maxControlPlanePollDeadline_def

lemma learned_bounds:
  assumes "0 < learnedProxyPollTimeoutFromDisconnect e a g"
  shows "minimumAdaptiveProxyPollTimeout \<le> learnedProxyPollTimeoutFromDisconnect e a g
         \<and> learnedProxyPollTimeoutFromDisconnect e a g < a"
  using assms by (auto simp: learnedProxyPollTimeoutFromDisconnect_def Let_def split: if_splits)

definition learned_le :: "duration \<Rightarrow> duration \<Rightarrow> bool" where
  "learned_le new old \<longleftrightarrow> new = old \<or>
     minimumAdaptiveProxyPollTimeout \<le> new \<and> (old \<le> 0 \<or> new < old)"

lemma maybeLearn_le: "learned_le (maybeLearnProxyPollTimeout p g cur d) cur"
  using learned_bounds [of "dc_elapsed d" "dc_attempted d" g]
  by (auto simp: learned_le_def maybeLearnProxyPollTimeout_def Let_def minimumAdaptiveProxyPollTimeout_def)

interpretation learning: monotone_system "maybeLearnProxyPollTimeout p g" "\<lambda>s t. learned_le t s"
proof
  show "learned_le (maybeLearnProxyPollTimeout p g s e) s" for s e
    by (rule maybeLearn_le)
qed (auto simp: learned_le_def minimumAdaptiveProxyPollTimeout_def)

section \<open>Properties\<close>

text \<open>
  The deadline of a poll is positive, at most ten minutes, never before the
  requested wait unless it is that cap, and computed without wrap-around, for
  every pair of configured 64-bit durations.
\<close>

theorem poll_deadline_bounds:
  assumes "min_i64 \<le> timeout" "timeout \<le> max_i64" "min_i64 \<le> guard" "guard \<le> max_i64"
  shows "0 < PollDeadlineTimeoutOrDefault timeout guard \<and>
         PollDeadlineTimeoutOrDefault timeout guard \<le> maxControlPlanePollDeadline \<and>
         PollDeadlineTimeoutOrDefault timeout guard =
           min maxControlPlanePollDeadline
             (PollTimeoutOrDefault timeout + PollDeadlineGuardrailOrDefault guard)"
proof -
  let ?t = "PollTimeoutOrDefault timeout" and ?g = "PollDeadlineGuardrailOrDefault guard"
  have r: "0 < ?t" "0 < ?g" "?t \<le> max_i64" "?g \<le> max_i64"
    using assms by (auto simp: poll_timeout_defs max_i64_def)
  have sub: "i64 (maxControlPlanePollDeadline - ?g) = maxControlPlanePollDeadline - ?g"
    using r by (simp add: wrap_simps max_i64_def maxControlPlanePollDeadline_def)
  have add: "i64 (?t + ?g) = ?t + ?g" if "?t \<le> maxControlPlanePollDeadline - ?g"
    using that r by (simp add: wrap_simps maxControlPlanePollDeadline_def)
  show ?thesis
    using r add unfolding PollDeadlineTimeoutOrDefault_def Let_def sub
    by (auto simp: maxControlPlanePollDeadline_def)
qed

theorem poll_deadline_bounds_witness:
  "PollDeadlineTimeoutOrDefault max_i64 max_i64 = maxControlPlanePollDeadline"
  using poll_deadline_bounds [of max_i64 max_i64]
  by (simp add: max_i64_def min_i64_def poll_timeout_defs)

text \<open>
  A \<open>Retry-After\<close> hint never stalls the client: an accepted hint lies
  between zero and one minute, and the delay before a retry is at least the
  backoff and at most the larger of the backoff and one minute.
\<close>

theorem retry_after_bounded:
  assumes "parseRetryAfter parse_time raw now = Some hint"
  shows "0 \<le> hint \<and> hint \<le> maxRetryAfterDelay \<and>
         backoff \<le> retryDelay backoff hint True \<and>
         retryDelay backoff hint True \<le> max backoff maxRetryAfterDelay"
proof -
  have "0 \<le> hint \<and> hint \<le> maxRetryAfterDelay"
    using assms
    by (auto simp: parseRetryAfter_def Let_def maxRetryAfterDelay_def i64_id split: if_splits option.splits)
  then show ?thesis by (auto simp: retryDelay_def)
qed

theorem retry_after_bounded_witness:
  "0 \<le> seconds 7 \<and> seconds 7 \<le> maxRetryAfterDelay \<and> seconds 1 \<le> retryDelay (seconds 1) (seconds 7) True"
proof -
  have "parseRetryAfter (\<lambda>_. None) '' 7'' 0 = Some (seconds 7)"
    by (simp add: parseRetryAfter_def trim_space_def trim_by_def is_space_def isDecimalDigits_def
        is_digit_def digits_value_def maxRetryAfterDelay_def i64_id)
  from retry_after_bounded [OF this, of "seconds 1"] show ?thesis by simp
qed

text \<open>
  The learned proxy timeout only ever decreases, stays at five seconds or
  more once learned, and a poll never waits longer than configured: over every
  sequence of observed disconnects.
\<close>

theorem learned_timeout_decreases:
  assumes "learned = foldl (maybeLearnProxyPollTimeout usesProxy guardrail) 0 earlier"
    and "learned' = foldl (maybeLearnProxyPollTimeout usesProxy guardrail) learned later"
  shows "(learned > 0 \<longrightarrow> minimumAdaptiveProxyPollTimeout \<le> learned' \<and> learned' \<le> learned) \<and>
         effectivePollTimeout learned' pollTimeout \<le> pollTimeout \<and>
         (\<not> usesProxy \<longrightarrow> learned' = 0)"
proof -
  have 0: "learned_le learned 0" and 1: "learned_le learned' learned"
    using learning.below_run [where s = 0 and p = usesProxy and g = guardrail and es = earlier]
      learning.below_run [where s = learned and p = usesProxy and g = guardrail and es = later]
      assms by simp_all
  have "foldl (maybeLearnProxyPollTimeout False guardrail) x ds = x" for x ds
    by (induction ds) (simp_all add: maybeLearnProxyPollTimeout_def)
  then have "\<not> usesProxy \<longrightarrow> learned' = 0" using assms by simp
  with 0 1 show ?thesis
    by (auto simp: learned_le_def effectivePollTimeout_def minimumAdaptiveProxyPollTimeout_def)
qed

definition example_disconnect :: "int \<Rightarrow> disconnect" where
  "example_disconnect secs = \<lparr>dc_ctx_err = [], dc_poll_ctx_err = [], dc_attempted = seconds 30,
     dc_elapsed = seconds secs, dc_received_headers = False, dc_err = [URLError, EOF]\<rparr>"

theorem learned_timeout_decreases_witness:
  "foldl (maybeLearnProxyPollTimeout True (seconds 5)) 0 [example_disconnect 25] = seconds 20 \<and>
   minimumAdaptiveProxyPollTimeout
     \<le> foldl (maybeLearnProxyPollTimeout True (seconds 5)) (seconds 20) [example_disconnect 15]"
proof -
  have "foldl (maybeLearnProxyPollTimeout True (seconds 5)) 0 [example_disconnect 25] = seconds 20"
    by code_simp
  then show ?thesis
    using learned_timeout_decreases [of "seconds 20" True "seconds 5" "[example_disconnect 25]"
        _ "[example_disconnect 15]"] by simp
qed

end
