(* ===== verification/Commands.thy ===== *)
theory Commands
  imports Wire
begin

text \<open>
  Polled commands: decoding of a poll response body into commands
  (\<open>decodeCommands\<close> in \<open>tunnel_service_client.go\<close>), the conversion and
  validation of one raw command (\<open>command_parser.go\<close>), and the command types
  (\<open>command_types.go\<close>).

  Filling a Go struct from a JSON object takes the members in order, matches
  names without regard to letter case, leaves a field alone on \<open>null\<close> and
  fails on a value of another type. Parameters stand for what is not in the
  repository: \<open>parse_time\<close> is \<open>time.Time.UnmarshalJSON\<close> on the raw text of a
  value that is not \<open>null\<close>, \<open>decode_message\<close> is \<open>jsonrpc.DecodeMessage\<close>.
\<close>

section \<open>JSON-RPC messages\<close>

text \<open>
  What the client inspects of the SDK's messages: the identifier, which is
  absent on a notification, the method, and the error of a response.
\<close>

datatype rpc_id = NoId | IntId int | StrId string

datatype rpc_error = RpcError int string string   \<comment> \<open>code, message, raw data\<close>

datatype rpc_message =
    Request rpc_id string string              \<comment> \<open>identifier, method, raw parameters\<close>
  | Response rpc_id "rpc_error option" string \<comment> \<open>identifier, error, raw result\<close>

section \<open>Raw commands\<close>

record raw_command =
  raw_request_id :: string
  raw_shard_token :: string
  raw_command_type :: string
  raw_channel :: string
  raw_created_at :: gotime
  raw_headers :: header
  raw_response_timeout :: "string option"
  raw_jsonrpc :: string
  raw_trace_context :: string

text \<open>\<open>map[string][]string\<close>: the last member of a name wins, a null list is empty.\<close>

fun string_elems :: "json list \<Rightarrow> string list option" where
  "string_elems [] = Some []"
| "string_elems (v # vs) =
     (case (assign_string (Some []) v, string_elems vs) of
        (Some s, Some ss) \<Rightarrow> Some (s # ss) | _ \<Rightarrow> None)"

fun string_list :: "json \<Rightarrow> string list option" where
  "string_list JNull = Some []"
| "string_list (JArr vs) = string_elems vs"
| "string_list _ = None"

definition map_put :: "header \<Rightarrow> string \<Rightarrow> string list \<Rightarrow> header" where
  "map_put h k vs = filter (\<lambda>(n, _). n \<noteq> k) h @ [(k, vs)]"

fun header_members :: "header \<Rightarrow> member list \<Rightarrow> header option" where
  "header_members h [] = Some h"
| "header_members h ((k, _, v) # ms) =
     (case string_list v of
        None \<Rightarrow> None
      | Some vs \<Rightarrow> header_members (map_put h k vs) ms)"

fun assign_headers :: "header option \<Rightarrow> json \<Rightarrow> header option" where
  "assign_headers None _ = None"
| "assign_headers (Some _) JNull = Some []"
| "assign_headers (Some h) (JObj ms) = header_members h ms"
| "assign_headers (Some _) _ = None"

definition headers_field :: "member list \<Rightarrow> header option" where
  "headers_field ms = foldl assign_headers (Some []) (map snd (field_values ''headers'' ms))"

definition assign_time ::
    "(string \<Rightarrow> gotime option) \<Rightarrow> gotime option \<Rightarrow> string \<times> json \<Rightarrow> gotime option" where
  "assign_time parse_time t rv = (case t of
     None \<Rightarrow> None
   | Some old \<Rightarrow> if snd rv = JNull then Some old else parse_time (fst rv))"

definition time_field :: "(string \<Rightarrow> gotime option) \<Rightarrow> member list \<Rightarrow> gotime option" where
  "time_field parse_time ms = foldl (assign_time parse_time) (Some 0) (field_values ''created_at'' ms)"

definition timeout_field :: "member list \<Rightarrow> string option" where
  "timeout_field ms = (case rev (field_values ''response_timeout'' ms) of
     [] \<Rightarrow> None
   | (_, v) # _ \<Rightarrow> if v = JNull then None else Some (ResponseTimeout_UnmarshalJSON v))"

definition raw_field :: "string \<Rightarrow> member list \<Rightarrow> string" where
  "raw_field name ms = (case rev (field_values name ms) of [] \<Rightarrow> [] | (raw, _) # _ \<Rightarrow> raw)"

definition object_members :: "json \<Rightarrow> member list option" where
  "object_members v = (case v of JObj ms \<Rightarrow> Some ms | JNull \<Rightarrow> Some [] | _ \<Rightarrow> None)"

definition unmarshal_command :: "(string \<Rightarrow> gotime option) \<Rightarrow> json \<Rightarrow> raw_command option" where
  "unmarshal_command parse_time v = (case object_members v of
     None \<Rightarrow> None
   | Some ms \<Rightarrow>
       (case (string_field ''request_id'' ms, string_field ''shard_token'' ms,
              string_field ''command_type'' ms, string_field ''channel'' ms,
              time_field parse_time ms, headers_field ms) of
          (Some rid, Some tok, Some ty, Some ch, Some created, Some hs) \<Rightarrow>
            Some \<lparr>raw_request_id = rid, raw_shard_token = tok, raw_command_type = ty,
                  raw_channel = ch, raw_created_at = created, raw_headers = hs,
                  raw_response_timeout = timeout_field ms,
                  raw_jsonrpc = raw_field ''jsonrpc'' ms,
                  raw_trace_context = raw_field ''trace_context'' ms\<rparr>
        | _ \<Rightarrow> None))"

section \<open>Commands\<close>

record base_command =
  bc_request_id :: string
  bc_enqueued :: gotime
  bc_polled_at :: gotime
  bc_headers :: header
  bc_session_id :: "string option"
  bc_shard_token :: string
  bc_channel :: channel
  bc_deadline :: "gotime option"

datatype polled_command =
    JsonRpcCommand base_command rpc_message "trace_context option" "trace_context option"
  | OauthDiscoveryCommand base_command
  | SessionTerminationCommand base_command
  | UntypedCommand base_command    \<comment> \<open>a command of another implementation, without a discriminator\<close>

fun command_base :: "polled_command \<Rightarrow> base_command" where
  "command_base (JsonRpcCommand b _ _ _) = b"
| "command_base (OauthDiscoveryCommand b) = b"
| "command_base (SessionTerminationCommand b) = b"
| "command_base (UntypedCommand b) = b"

fun commandType :: "polled_command \<Rightarrow> string" where
  "commandType (JsonRpcCommand _ _ _ _) = ''jsonrpc''"
| "commandType (OauthDiscoveryCommand _) = ''oauth_discovery''"
| "commandType (SessionTerminationCommand _) = ''session_termination''"
| "commandType (UntypedCommand _) = []"

definition FindHeaderValue :: "header \<Rightarrow> string \<Rightarrow> string option" where
  "FindHeaderValue h target =
     (if header_get h target \<noteq> [] then Some (header_get h target)
      else map_option (\<lambda>(_, vs). hd vs)
             (find (\<lambda>(k, vs). equal_fold k target \<and> vs \<noteq> [] \<and> hd vs \<noteq> []) h))"

definition SessionIDFromHeaders :: "header \<Rightarrow> string option" where
  "SessionIDFromHeaders h = FindHeaderValue h ''Mcp-Session-Id''"

definition responseDeadlineFromTimeout :: "string option \<Rightarrow> gotime \<Rightarrow> gotime option" where
  "responseDeadlineFromTimeout responseTimeout receivedAt = (case responseTimeout of
     None \<Rightarrow> None
   | Some d \<Rightarrow>
       if receivedAt = 0 then None
       else map_option (\<lambda>remaining. receivedAt + remaining) (ResponseTimeout_Value d))"

definition copy_headers :: "header \<Rightarrow> header" where
  "copy_headers raw = foldl (\<lambda>h (k, vs). foldl (\<lambda>h v. header_add h k v) h vs) [] raw"

datatype command_error =
    MissingRequestID | MissingShardToken | InvalidCommandChannel | MissingSessionID
  | MissingPayload | InvalidPayload

definition buildBase :: "raw_command \<Rightarrow> gotime \<Rightarrow> command_error + base_command" where
  "buildBase raw polledAt =
     (if raw_request_id raw = [] then Inl MissingRequestID
      else if raw_shard_token raw = [] then Inl MissingShardToken
      else let headers = copy_headers (raw_headers raw) in
        case NormalizeChannel (raw_channel raw) of
          None \<Rightarrow> Inl InvalidCommandChannel
        | Some channel \<Rightarrow> Inr
            \<lparr>bc_request_id = raw_request_id raw, bc_enqueued = raw_created_at raw,
             bc_polled_at = polledAt, bc_headers = headers,
             bc_session_id = SessionIDFromHeaders headers,
             bc_shard_token = raw_shard_token raw, bc_channel = channel,
             bc_deadline = responseDeadlineFromTimeout (raw_response_timeout raw) polledAt\<rparr>)"

definition parseTraceContext :: "string \<Rightarrow> trace_context option" where
  "parseTraceContext raw =
     (if length raw > 1024 then None
      else case Option.bind (json_parse raw) object_members of
        None \<Rightarrow> None
      | Some ms \<Rightarrow>
          (case (string_field ''traceparent'' ms, string_field ''tracestate'' ms) of
             (Some tp, Some ts) \<Rightarrow>
               if length tp \<noteq> 55 \<or> length ts > 512 then None
               else Some \<lparr>tc_traceparent = tp, tc_tracestate = ts\<rparr>
           | _ \<Rightarrow> None))"

definition convertRawOauthDiscoveryCommand ::
    "raw_command \<Rightarrow> gotime \<Rightarrow> command_error + polled_command" where
  "convertRawOauthDiscoveryCommand raw polledAt = (case buildBase raw polledAt of
     Inl e \<Rightarrow> Inl e | Inr base \<Rightarrow> Inr (OauthDiscoveryCommand base))"

definition convertRawSessionTerminationCommand ::
    "raw_command \<Rightarrow> gotime \<Rightarrow> command_error + polled_command" where
  "convertRawSessionTerminationCommand raw polledAt = (case buildBase raw polledAt of
     Inl e \<Rightarrow> Inl e
   | Inr base \<Rightarrow> if bc_session_id base = None then Inl MissingSessionID
                  else Inr (SessionTerminationCommand base))"

definition convertRawCommand ::
    "(string \<Rightarrow> rpc_message option) \<Rightarrow> raw_command \<Rightarrow> gotime \<Rightarrow> command_error + polled_command" where
  "convertRawCommand decode_message raw polledAt =
     (if raw_jsonrpc raw = [] then Inl MissingPayload
      else case decode_message (raw_jsonrpc raw) of
        None \<Rightarrow> Inl InvalidPayload
      | Some msg \<Rightarrow>
          (case buildBase raw polledAt of
             Inl e \<Rightarrow> Inl e
           | Inr base \<Rightarrow>
               (let commandTraceContext = parseTraceContext (raw_trace_context raw);
                    traceContext =
                      (if list_ex (\<lambda>(name, _). equal_fold name ''traceparent'' \<or> equal_fold name ''tracestate'')
                            (raw_headers raw)
                       then None else commandTraceContext)
                in Inr (JsonRpcCommand base msg traceContext commandTraceContext))))"

section \<open>Decoding a poll response\<close>

text \<open>One element of the envelope; \<open>None\<close> is a command dropped with a warning.\<close>

definition as_command :: "command_error + polled_command \<Rightarrow> polled_command option" where
  "as_command r = (case r of Inl _ \<Rightarrow> None | Inr c \<Rightarrow> Some c)"

definition decode_one :: "(string \<Rightarrow> gotime option) \<Rightarrow> (string \<Rightarrow> rpc_message option) \<Rightarrow> gotime \<Rightarrow>
    json \<Rightarrow> polled_command option" where
  "decode_one parse_time decode_message polledAt v =
     (case Option.bind (object_members v) (string_field ''command_type'') of
        None \<Rightarrow> None
      | Some ty \<Rightarrow>
          if ty = [] then None
          else if ty = ''jsonrpc'' then
            Option.bind (unmarshal_command parse_time v)
              (\<lambda>raw. as_command (convertRawCommand decode_message raw polledAt))
          else if ty = ''oauth_discovery'' then
            Option.bind (unmarshal_command parse_time v)
              (\<lambda>raw. as_command (convertRawOauthDiscoveryCommand raw polledAt))
          else if ty = ''session_termination'' then
            Option.bind (unmarshal_command parse_time v)
              (\<lambda>raw. as_command (convertRawSessionTerminationCommand raw polledAt))
          else None)"

fun decode_all :: "(string \<Rightarrow> gotime option) \<Rightarrow> (string \<Rightarrow> rpc_message option) \<Rightarrow> gotime \<Rightarrow>
    json list \<Rightarrow> polled_command list" where
  "decode_all pt dm polledAt [] = []"
| "decode_all pt dm polledAt (v # vs) =
     (case decode_one pt dm polledAt v of
        None \<Rightarrow> decode_all pt dm polledAt vs
      | Some c \<Rightarrow> c # decode_all pt dm polledAt vs)"

fun assign_array :: "json list option \<Rightarrow> json \<Rightarrow> json list option" where
  "assign_array None _ = None"
| "assign_array (Some _) (JArr vs) = Some vs"
| "assign_array (Some _) JNull = Some []"
| "assign_array (Some _) _ = None"

definition envelope_commands :: "string \<Rightarrow> json list option" where
  "envelope_commands body = Option.bind (Option.bind (json_parse body) object_members)
     (\<lambda>ms. foldl assign_array (Some []) (map snd (field_values ''commands'' ms)))"

text \<open>
  \<open>decodeCommands\<close>; the body is the bytes read, or the error of reading them.
  The requested limit is only logged.
\<close>

definition decodeCommands :: "(string \<Rightarrow> gotime option) \<Rightarrow> (string \<Rightarrow> rpc_message option) \<Rightarrow>
    goerr + string \<Rightarrow> int \<Rightarrow> gotime \<Rightarrow> polled_command list \<times> goerr" where
  "decodeCommands parse_time decode_message body limit polledAt = (case body of
     Inl err \<Rightarrow> ([], PollingTransport # err)
   | Inr data \<Rightarrow>
       (case envelope_commands data of
          None \<Rightarrow> ([], [ErrText ''controlplane client: decode poll response'', ErrText ''json''])
        | Some vs \<Rightarrow> (decode_all parse_time decode_message polledAt vs, nil_err)))"

section \<open>Lemmas\<close>

definition base_ok :: "gotime \<Rightarrow> base_command \<Rightarrow> bool" where
  "base_ok polledAt b \<longleftrightarrow>
     bc_request_id b \<noteq> [] \<and> bc_shard_token b \<noteq> [] \<and>
     channelPattern (bc_channel b) \<and> Canonical (bc_channel b) = bc_channel b \<and>
     bc_polled_at b = polledAt \<and>
     (case bc_deadline b of None \<Rightarrow> True | Some d \<Rightarrow> polledAt \<noteq> 0 \<and> polledAt \<le> d \<and> d - polledAt \<le> max_i64) \<and>
     (case bc_session_id b of None \<Rightarrow> True | Some s \<Rightarrow> s \<noteq> [])"

definition trace_ok :: "trace_context option \<Rightarrow> bool" where
  "trace_ok t = (case t of None \<Rightarrow> True
     | Some c \<Rightarrow> length (tc_traceparent c) = 55 \<and> length (tc_tracestate c) \<le> 512)"

fun command_ok :: "gotime \<Rightarrow> polled_command \<Rightarrow> bool" where
  "command_ok p (JsonRpcCommand b m t ct) =
     (base_ok p b \<and> trace_ok t \<and> trace_ok ct \<and> (t = None \<or> t = ct))"
| "command_ok p (OauthDiscoveryCommand b) = base_ok p b"
| "command_ok p (SessionTerminationCommand b) = (base_ok p b \<and> bc_session_id b \<noteq> None)"
| "command_ok p (UntypedCommand b) = False"

lemma FindHeaderValue_nonempty: "FindHeaderValue h k = Some v \<Longrightarrow> v \<noteq> []"
  by (auto simp: FindHeaderValue_def find_Some_iff split: if_splits)

lemma deadline_bounds:
  "responseDeadlineFromTimeout t r = Some d \<Longrightarrow> r \<noteq> 0 \<and> r \<le> d \<and> d - r \<le> max_i64"
  using parseResponseTimeout_range
  by (fastforce simp: responseDeadlineFromTimeout_def ResponseTimeout_Value_def
      split: option.splits if_splits)

lemma buildBase_ok: "buildBase raw p = Inr b \<Longrightarrow> base_ok p b"
  by (auto simp: buildBase_def base_ok_def SessionIDFromHeaders_def Let_def
      dest: deadline_bounds FindHeaderValue_nonempty NormalizeChannel_pattern NormalizeChannel_canonical
      split: if_splits option.splits)

lemma parseTraceContext_ok: "trace_ok (parseTraceContext raw)"
  by (auto simp: parseTraceContext_def trace_ok_def split: option.splits)

lemma convert_ok:
  "convertRawCommand dm raw p = Inr c \<Longrightarrow> command_ok p c"
  "convertRawOauthDiscoveryCommand raw p = Inr c \<Longrightarrow> command_ok p c"
  "convertRawSessionTerminationCommand raw p = Inr c \<Longrightarrow> command_ok p c"
proof -
  have "trace_ok None" by (simp add: trace_ok_def)
  then show "convertRawCommand dm raw p = Inr c \<Longrightarrow> command_ok p c"
    using parseTraceContext_ok
    by (auto simp: convertRawCommand_def Let_def dest: buildBase_ok
        split: if_splits option.splits sum.splits)
  show "convertRawOauthDiscoveryCommand raw p = Inr c \<Longrightarrow> command_ok p c"
    by (auto simp: convertRawOauthDiscoveryCommand_def dest: buildBase_ok split: sum.splits)
  show "convertRawSessionTerminationCommand raw p = Inr c \<Longrightarrow> command_ok p c"
    by (auto simp: convertRawSessionTerminationCommand_def dest: buildBase_ok
        split: sum.splits if_splits)
qed

lemma as_command_Some [simp]: "as_command r = Some c \<longleftrightarrow> r = Inr c"
  by (simp add: as_command_def split: sum.splits)

lemma decode_one_ok: "decode_one pt dm p v = Some c \<Longrightarrow> command_ok p c"
  by (auto simp: decode_one_def Option.bind_eq_Some_conv dest: convert_ok
      split: option.splits if_splits)

lemma decode_all_ok: "c \<in> set (decode_all pt dm p vs) \<Longrightarrow> command_ok p c"
  by (induction vs) (auto split: option.splits dest: decode_one_ok)

lemma decode_all_filter:
  "decode_all pt dm p vs = map the (filter (\<lambda>c. c \<noteq> None) (map (decode_one pt dm p) vs))"
  by (induction vs) (auto split: option.splits)

section \<open>Properties\<close>

text \<open>
  Every command that decoding hands to the dispatcher is well formed: it
  has a request identifier and a shard token, its channel is canonical and
  matches the channel pattern, its deadline is not before the time the response
  was received, a session identifier is not empty and a termination has one,
  and trace carriers are within their bounds.
\<close>

theorem decoded_commands_ok:
  "list_all (command_ok polledAt) (fst (decodeCommands parse_time decode_message body limit polledAt))"
  by (auto simp: decodeCommands_def list_all_iff dest: decode_all_ok split: sum.splits option.splits)

text \<open>
  Decoding is tolerant and complete: a malformed or unknown command drops
  out alone, all others are kept in the order of the response, also when the
  service sends more than the requested limit.
\<close>

theorem decode_keeps_every_valid_command:
  assumes "envelope_commands body = Some vs"
  shows "decodeCommands parse_time decode_message (Inr body) limit polledAt =
           (map the (filter (\<lambda>c. c \<noteq> None) (map (decode_one parse_time decode_message polledAt) vs)), nil_err)"
  using assms by (simp add: decodeCommands_def decode_all_filter)

definition example_body :: string where
  \<open>example_body = ''{"commands":[7,{"command_type":"oauth_discovery","request_id":"r","shard_token":"t"}]}''\<close>

definition example_base :: base_command where
  "example_base = \<lparr>bc_request_id = ''r'', bc_enqueued = 0, bc_polled_at = 5, bc_headers = [],
     bc_session_id = None, bc_shard_token = ''t'', bc_channel = ''main'', bc_deadline = None\<rparr>"

theorem decode_keeps_every_valid_command_witness:
  "decodeCommands (\<lambda>_. None) (\<lambda>_. None) (Inr example_body) 1 5 =
     ([OauthDiscoveryCommand example_base], nil_err)"
proof -
  obtain vs where vs: "envelope_commands example_body = Some vs"
    and one: "map (decode_one (\<lambda>_. None) (\<lambda>_. None) 5) vs = [None, Some (OauthDiscoveryCommand example_base)]"
  proof
    show \<open>envelope_commands example_body = Some [JNum ''7'', JObj
        [(''command_type'', ''"oauth_discovery"'', JStr ''oauth_discovery''),
         (''request_id'', ''"r"'', JStr ''r''), (''shard_token'', ''"t"'', JStr ''t'')]]\<close>
      by code_simp
  qed code_simp
  show ?thesis
    unfolding decode_keeps_every_valid_command [OF vs] one by simp
qed

end
