(* ===== verification/Http.thy ===== *)
theory Http
  imports Retry Wire
begin

text \<open>
  HTTP responses as the control-plane client reads them, and the status errors
  it builds from them (\<open>tunnel_service_client.go\<close>). A body is the bytes that
  arrive and the error that ends them, nil for a clean end.
\<close>

section \<open>Responses\<close>

record http_body =
  hb_data :: string
  hb_err :: goerr

record http_response =
  hr_code :: int
  hr_status :: string
  hr_header :: header
  hr_body :: http_body

definition read_all :: "http_body \<Rightarrow> goerr + string" where
  "read_all b = (if hb_err b \<noteq> nil_err then Inl (hb_err b) else Inr (hb_data b))"

text \<open>\<open>io.ReadAll\<close> of an \<open>io.LimitReader\<close>: the error is not met once the limit is.\<close>

definition read_limited :: "nat \<Rightarrow> http_body \<Rightarrow> goerr + string" where
  "read_limited n b =
     (if n \<le> length (hb_data b) then Inr (take n (hb_data b)) else read_all b)"

definition maxControlPlaneErrorBodySize :: nat where
  "maxControlPlaneErrorBodySize = 64 * 1024"

section \<open>Status errors\<close>

text \<open>
  Standard-library functions the client only calls: \<open>http.ParseTime\<close>,
  \<open>http.StatusText\<close>, \<open>json.Marshal\<close> of a decoded value, and the text of an error.
\<close>

record stdlib =
  lib_parse_http_time :: "string \<Rightarrow> gotime option"
  lib_status_text :: "int \<Rightarrow> string"
  lib_marshal :: "json \<Rightarrow> string"
  lib_error_text :: "goerr \<Rightarrow> string"

definition with_retry_after :: "stdlib \<Rightarrow> header \<Rightarrow> gotime \<Rightarrow> api_status_error \<Rightarrow> api_status_error" where
  "with_retry_after lib h now e =
     (case parseRetryAfter (lib_parse_http_time lib) (header_get h ''Retry-After'') now of
        None \<Rightarrow> e\<lparr>ase_retry_after := 0, ase_has_retry_after := False\<rparr>
      | Some d \<Rightarrow> e\<lparr>ase_retry_after := d, ase_has_retry_after := True\<rparr>)"

definition status_error :: "string \<Rightarrow> int \<Rightarrow> string \<Rightarrow> api_status_error" where
  "status_error prefix code st = \<lparr>ase_prefix = prefix, ase_status_code = code, ase_status = st,
     ase_info = no_info, ase_retry_after = 0, ase_has_retry_after = False\<rparr>"

definition populateAPIStatusError :: "stdlib \<Rightarrow> api_status_error \<Rightarrow> string \<Rightarrow> api_status_error" where
  "populateAPIStatusError lib e body = e\<lparr>ase_info := Parse (lib_marshal lib) body\<rparr>"

definition newAPIStatusError :: "stdlib \<Rightarrow> string \<Rightarrow> http_response \<Rightarrow> gotime \<Rightarrow> api_status_error" where
  "newAPIStatusError lib prefix resp now =
     (let e = with_retry_after lib (hr_header resp) now
                (status_error prefix (hr_code resp) (hr_status resp))
      in case read_limited maxControlPlaneErrorBodySize (hr_body resp) of
           Inl err \<Rightarrow>
             e\<lparr>ase_info := (ase_info e)\<lparr>info_message := ''read error body: '' @ lib_error_text lib err\<rparr>\<rparr>
         | Inr body \<Rightarrow> populateAPIStatusError lib e body)"

definition newSecretAPIStatusError ::
    "stdlib \<Rightarrow> string \<Rightarrow> http_response \<Rightarrow> gotime \<Rightarrow> api_status_error" where
  "newSecretAPIStatusError lib prefix resp now =
     with_retry_after lib (hr_header resp) now
       (status_error prefix (hr_code resp) (hr_status resp))"

definition APIStatusError_Error :: "api_status_error \<Rightarrow> string" where
  "APIStatusError_Error e =
     (let message = ase_prefix e @ '' '' @ show_int (ase_status_code e);
          detail = Detail (ase_info e)
      in if detail \<noteq> [] then message @ '': '' @ detail else message)"

text \<open>
  \<open>pollStatusError\<close>: the error of a poll answered with another status than 200
  and 204, the routing correction it carries, and whether its body was lost.
\<close>

definition pollStatusError :: "stdlib \<Rightarrow> gotime \<Rightarrow> http_response \<Rightarrow>
    api_status_error \<times> routing_correction option \<times> bool" where
  "pollStatusError lib now resp =
     (let code = hr_code resp;
          e = with_retry_after lib (hr_header resp) now
                (status_error ''controlplane client: unexpected status'' code
                   (show_int code @ '' '' @ lib_status_text lib code));
          invalid = (\<lambda>m. e\<lparr>ase_info := no_info\<lparr>info_message := m\<rparr>\<rparr>)
      in case read_limited (maxControlPlaneErrorBodySize + 1) (hr_body resp) of
           Inl err \<Rightarrow>
             (invalid ''invalid polling error response'', None,
              errors_is err EOF \<or> errors_is err UnexpectedEOF \<or> is_some_net_error err)
         | Inr body \<Rightarrow>
             if length body > maxControlPlaneErrorBodySize then
               (invalid ''invalid polling error response'', None, False)
             else
               (let e1 = populateAPIStatusError lib e body;
                    suspicious = info_code (ase_info e1) = WrongClusterCode
                                 \<or> header_values (hr_header resp) ShardTokenHeader \<noteq> []
                in if code \<noteq> 409 then
                     (if suspicious then invalid ''invalid polling routing correction'' else e1,
                      None, False)
                   else
                     (case ParseRoutingCorrection (hr_header resp) body of
                        Correction c \<Rightarrow>
                          (if suspicious then
                             e\<lparr>ase_info := no_info\<lparr>info_code := WrongClusterCode,
                               info_message := ''polling placement rejected; retrying after backoff''\<rparr>\<rparr>
                           else e1, Some c, False)
                      | NoCorrection \<Rightarrow>
                          (if suspicious then invalid ''invalid polling routing correction'' else e1,
                           None, False)
                      | InvalidRouting \<Rightarrow>
                          (invalid ''invalid polling routing correction'', None, False))))"

section \<open>Lemmas\<close>

lemma with_retry_after_simps [simp]:
  "ase_info (with_retry_after lib h now e) = ase_info e"
  "ase_prefix (with_retry_after lib h now e) = ase_prefix e"
  "ase_status_code (with_retry_after lib h now e) = ase_status_code e"
  "ase_status (with_retry_after lib h now e) = ase_status e"
  by (simp_all add: with_retry_after_def split: option.splits)

lemma status_error_simps [simp]:
  "ase_info (status_error p c s) = no_info" "ase_prefix (status_error p c s) = p"
  "ase_status_code (status_error p c s) = c" "ase_status (status_error p c s) = s"
  by (simp_all add: status_error_def)

lemma read_limited_length: "read_limited n b = Inr s \<Longrightarrow> length s \<le> n"
  by (auto simp: read_limited_def read_all_def split: if_splits)

lemma pollStatusError_correction:
  assumes "pollStatusError lib now resp = (e, Some c, failed)"
  shows "hr_code resp = 409" and "\<not> failed"
    and "\<exists>body. ParseRoutingCorrection (hr_header resp) body = Correction c"
  using assms
  by (auto simp: pollStatusError_def Let_def split: sum.splits if_splits routing_parse.splits)

section \<open>Properties\<close>

text \<open>
  A correction is adopted only from an HTTP 409 whose single shard-token
  header is a valid token and whose revision is within the policy bound, and
  such a response is never also taken for a lost destination.
\<close>

theorem correction_is_validated:
  assumes "pollStatusError lib now resp = (e, Some c, failed)"
  shows "hr_code resp = 409 \<and> \<not> failed \<and> validRoutingToken (rc_shard_token c) \<and>
         header_values (hr_header resp) ShardTokenHeader = [rc_shard_token c] \<and>
         unat (rc_policy_revision c) \<le> MaxPolicyRevision"
proof -
  obtain m where "parse_metadata (hr_header resp) m = Correction c"
    using pollStatusError_correction(3) [OF assms] ParseRoutingCorrection_metadata by blast
  then show ?thesis
    using pollStatusError_correction(1,2) [OF assms] parse_metadata_Correction by blast
qed

definition example_lib :: stdlib where
  "example_lib = \<lparr>lib_parse_http_time = (\<lambda>_. None), lib_status_text = (\<lambda>_. ''Conflict''),
     lib_marshal = (\<lambda>_. []), lib_error_text = (\<lambda>_. [])\<rparr>"

definition example_conflict :: http_response where
  \<open>example_conflict = \<lparr>hr_code = 409, hr_status = ''409 Conflict'',
     hr_header = [(''X-Tunnel-Shard-Token'', [''tok''])],
     hr_body = \<lparr>hb_data = ''{"error":{"code":"wrong_cluster","policy_revision":7}}'', hb_err = []\<rparr>\<rparr>\<close>

lemma example_conflict_body:
  "read_limited (maxControlPlaneErrorBodySize + 1) (hr_body example_conflict)
     = Inr (hb_data (hr_body example_conflict))"
  by (simp add: read_limited_def read_all_def example_conflict_def maxControlPlaneErrorBodySize_def)

lemma example_conflict_parse:
  "ParseRoutingCorrection (hr_header example_conflict) (hb_data (hr_body example_conflict))
     = Correction \<lparr>rc_shard_token = ''tok'', rc_policy_revision = 7\<rparr>"
proof -
  have p: \<open>json_parse (hb_data (hr_body example_conflict)) =
      Some (JObj [(''error'', ''{"code":"wrong_cluster","policy_revision":7}'',
        JObj [(''code'', ''"wrong_cluster"'', JStr ''wrong_cluster''),
              (''policy_revision'', ''7'', JNum ''7'')])])\<close>
    by code_simp
  have h: "header_values (hr_header example_conflict) ShardTokenHeader = [''tok'']"
    by code_simp
  show ?thesis
    unfolding ParseRoutingCorrection_def p
    by (simp add: routingObject_def parse_metadata_def h unmarshal_string_def parse_revision_def
        WrongClusterCode_def validRoutingToken_def MaxRoutingTokenBytes_def is_digit_def
        digits_value_def MaxPolicyRevision_def)
qed

theorem correction_is_validated_witness:
  "validRoutingToken ''tok'' \<and>
   snd (pollStatusError example_lib 0 example_conflict)
     = (Some \<lparr>rc_shard_token = ''tok'', rc_policy_revision = 7\<rparr>, False)"
proof -
  have len: "length (hb_data (hr_body example_conflict)) \<le> maxControlPlaneErrorBodySize"
    by (simp add: example_conflict_def maxControlPlaneErrorBodySize_def)
  have snd: "snd (pollStatusError example_lib 0 example_conflict)
     = (Some \<lparr>rc_shard_token = ''tok'', rc_policy_revision = 7\<rparr>, False)"
    using len unfolding pollStatusError_def Let_def example_conflict_body
    by (simp add: example_conflict_parse) (simp add: example_conflict_def)
  then have "pollStatusError example_lib 0 example_conflict = (fst (pollStatusError example_lib 0 example_conflict),
      Some \<lparr>rc_shard_token = ''tok'', rc_policy_revision = 7\<rparr>, False)"
    by (metis prod.collapse)
  from correction_is_validated [OF this] snd show ?thesis by simp
qed

text \<open>
  Routing tokens stay out of diagnostics: when a response carries a
  shard-token header, the error shows one of three fixed messages, whatever
  the body holds.
\<close>

theorem routing_diagnostics_private:
  assumes "header_values (hr_header resp) ShardTokenHeader \<noteq> []"
  shows "ase_info (fst (pollStatusError lib now resp)) \<in>
     {no_info\<lparr>info_message := ''invalid polling error response''\<rparr>,
      no_info\<lparr>info_message := ''invalid polling routing correction''\<rparr>,
      no_info\<lparr>info_code := WrongClusterCode,
        info_message := ''polling placement rejected; retrying after backoff''\<rparr>}"
  using assms
  by (auto simp: pollStatusError_def Let_def split: sum.splits routing_parse.splits)

theorem routing_diagnostics_private_witness:
  "ase_info (fst (pollStatusError example_lib 0 example_conflict)) \<in>
     {no_info\<lparr>info_message := ''invalid polling error response''\<rparr>,
      no_info\<lparr>info_message := ''invalid polling routing correction''\<rparr>,
      no_info\<lparr>info_code := WrongClusterCode,
        info_message := ''polling placement rejected; retrying after backoff''\<rparr>}"
proof (rule routing_diagnostics_private)
  show "header_values (hr_header example_conflict) ShardTokenHeader \<noteq> []" by code_simp
qed

end
