(* ===== verification/Poll.thy ===== *)
theory Poll
  imports Http Commands Routing Health
begin

text \<open>
  \<open>TunnelServiceClient.Poll\<close> (\<open>tunnel_service_client.go\<close>). A poll is two
  atomic parts around the HTTP exchange: \<open>poll_begin\<close> takes the routing
  snapshot and builds the request, \<open>poll_end\<close> handles what came back. Polls
  may overlap, so the two parts take the client state separately; \<open>Poll\<close> is
  their composition when nothing interferes.
\<close>

record poll_client =
  pc_pollTimeout :: duration
  pc_initialPollTimeout :: duration
  pc_pollGuardrail :: duration
  pc_usesProxy :: bool
  pc_learned :: duration
  pc_initialPollStarted :: bool
  pc_pollChannels :: "channel list"
  pc_pollChannelsConfigured :: bool
  pc_routing :: poll_routing_state
  pc_pollHealth :: poll_health

definition pollDeadlineFor :: "poll_client \<Rightarrow> duration \<Rightarrow> duration" where
  "pollDeadlineFor c timeout = PollDeadlineTimeoutOrDefault timeout (pc_pollGuardrail c)"

record poll_request =
  pq_token :: string             \<comment> \<open>the shard-token header, empty when absent\<close>
  pq_limit :: int
  pq_timeout_ms :: int
  pq_channels :: "channel list"
  pq_deadline :: duration
  pq_requested :: duration
  pq_attempt :: routing_attempt

text \<open>
  What a poll meets: the context's error at the start, an error of building the
  request, the exchange, and the context's errors after it.
\<close>

record poll_env =
  pn_start_err :: goerr
  pn_build_err :: goerr
  pn_exchange :: "goerr + http_response"
  pn_written :: bool
  pn_elapsed :: duration
  pn_received_headers :: bool
  pn_receipt :: "gotime option"
  pn_now :: gotime
  pn_ctx_err :: goerr
  pn_poll_ctx_err :: goerr

type_synonym poll_result = "polled_command list \<times> string \<times> goerr"

definition poll_begin :: "poll_client \<Rightarrow> int \<Rightarrow> poll_env \<Rightarrow> (poll_result + poll_request) \<times> poll_client" where
  "poll_begin c limit env =
     (if limit \<le> 0 then (Inl ([], [], nil_err), c)
      else if pn_start_err env \<noteq> nil_err then (Inl ([], [], pn_start_err env), c)
      else
        (let attempt = snapshot (pc_routing c);
             pollTimeout = effectivePollTimeout (pc_learned c) (pc_pollTimeout c)
         in if pn_build_err env \<noteq> nil_err then (Inl ([], [], pn_build_err env), c)
            else
              (let requested = (if pc_initialPollStarted c then pollTimeout
                                else min pollTimeout (pc_initialPollTimeout c));
                   deadline = pollDeadlineFor c pollTimeout
               in (Inr \<lparr>pq_token = att_token attempt, pq_limit = limit,
                        pq_timeout_ms = pollTimeoutMilliseconds requested,
                        pq_channels = (if pc_pollChannelsConfigured c then pc_pollChannels c else []),
                        pq_deadline = deadline, pq_requested = requested, pq_attempt = attempt\<rparr>,
                   c\<lparr>pc_initialPollStarted := True,
                     pc_pollHealth := RequestLimits (pc_pollHealth c) requested deadline\<rparr>))))"

definition complete_routing :: "poll_client \<Rightarrow> routing_attempt \<Rightarrow> routing_correction option \<Rightarrow>
    bool \<Rightarrow> bool \<Rightarrow> poll_client" where
  "complete_routing c attempt corr available failed =
     c\<lparr>pc_routing := complete (pc_routing c) attempt corr available failed\<rparr>"

definition response_request_id :: "http_response \<Rightarrow> string" where
  "response_request_id resp =
     (case NewTunnelServiceRequestIDFromHeader (hr_header resp) of None \<Rightarrow> [] | Some i \<Rightarrow> i)"

definition network_loss :: "goerr \<Rightarrow> bool" where
  "network_loss e \<longleftrightarrow> errors_is e EOF \<or> errors_is e UnexpectedEOF \<or> is_some_net_error e"

text \<open>The exchange failed before a response.\<close>

definition poll_transport_failed :: "poll_client \<Rightarrow> poll_request \<Rightarrow> poll_env \<Rightarrow> goerr \<Rightarrow> poll_result \<times> poll_client" where
  "poll_transport_failed c req env err =
     (let c1 = (if pn_written env then
                  c\<lparr>pc_learned := maybeLearnProxyPollTimeout (pc_usesProxy c) (pc_pollGuardrail c) (pc_learned c)
                     \<lparr>dc_ctx_err = pn_ctx_err env, dc_poll_ctx_err = pn_poll_ctx_err env,
                      dc_attempted = pq_requested req, dc_elapsed = pn_elapsed env,
                      dc_received_headers = pn_received_headers env, dc_err = err\<rparr>\<rparr>
                else c)
      in (([], [], PollingTransport # err),
          complete_routing c1 (pq_attempt req) None False (\<not> errors_is (pn_ctx_err env) Canceled)))"

definition poll_end :: "stdlib \<Rightarrow> (string \<Rightarrow> gotime option) \<Rightarrow> (string \<Rightarrow> rpc_message option) \<Rightarrow>
    poll_client \<Rightarrow> poll_request \<Rightarrow> poll_env \<Rightarrow> poll_result \<times> poll_client" where
  "poll_end lib parse_time decode_message c req env = (case pn_exchange env of
     Inl err \<Rightarrow> poll_transport_failed c req env err
   | Inr resp \<Rightarrow>
       (let receivedAt = (case pn_receipt env of Some t \<Rightarrow> t | None \<Rightarrow> pn_now env);
            requestID = response_request_id resp;
            attempt = pq_attempt req;
            canceled = errors_is (pn_ctx_err env) Canceled
        in if hr_code resp = 204 then
             (([], requestID, nil_err), complete_routing c attempt None True False)
           else if hr_code resp = 200 then
             (let (cmds, err) = decodeCommands parse_time decode_message (read_all (hr_body resp))
                                  (pq_limit req) receivedAt;
                  c' = (if err = nil_err then complete_routing c attempt None True False
                        else if \<not> canceled then complete_routing c attempt None False (network_loss err)
                        else c)
              in ((cmds, requestID, err), c'))
           else
             (let (e, correction, failedBody) = pollStatusError lib (pn_now env) resp
              in if canceled then (([], requestID, pn_ctx_err env), c)
                 else (([], requestID, [APIStatus e]),
                       complete_routing c attempt correction False
                         (failedBody \<or> hr_code resp = 408 \<or> 500 \<le> hr_code resp \<and> hr_code resp \<le> 599)))))"

definition Poll :: "stdlib \<Rightarrow> (string \<Rightarrow> gotime option) \<Rightarrow> (string \<Rightarrow> rpc_message option) \<Rightarrow>
    poll_client \<Rightarrow> int \<Rightarrow> poll_env \<Rightarrow> poll_result \<times> poll_client" where
  "Poll lib parse_time decode_message c limit env = (case poll_begin c limit env of
     (Inl r, c') \<Rightarrow> (r, c')
   | (Inr req, c') \<Rightarrow> poll_end lib parse_time decode_message c' req env)"

section \<open>Lemmas\<close>

lemma complete_routing_simps [simp]:
  "pc_routing (complete_routing c a corr av f) = complete (pc_routing c) a corr av f"
  "pc_learned (complete_routing c a corr av f) = pc_learned c"
  by (simp_all add: complete_routing_def)

lemma complete_nothing [simp]: "complete s a None False False = s"
  by (simp add: complete_def)

lemma decode_error_malformed:
  "\<lbrakk>decodeCommands pt dm (Inr data) l p = (cmds, err); err \<noteq> nil_err\<rbrakk> \<Longrightarrow> \<not> network_loss err"
  by (auto simp: decodeCommands_def network_loss_def is_some_net_error_def errors_as_def
      split: option.splits)

lemma poll_end_routing_cases:
  "pc_routing (snd (poll_end lib pt dm c req env)) = pc_routing c \<or>
   (\<exists>corr av f. pc_routing (snd (poll_end lib pt dm c req env))
      = complete (pc_routing c) (pq_attempt req) corr av f)"
  by (auto simp: poll_end_def poll_transport_failed_def Let_def split: sum.splits prod.splits)

section \<open>Properties\<close>

text \<open>
  A canceled caller that gets an error leaves the placement as it was: a
  shutdown is never taken for a lost destination and adopts no correction.
\<close>

theorem canceled_poll_keeps_routing:
  assumes "errors_is (pn_ctx_err env) Canceled"
    and "poll_end lib parse_time decode_message c req env = ((cmds, rid, err), c')"
    and "err \<noteq> nil_err"
  shows "pc_routing c' = pc_routing c"
  using assms
  by (auto simp: poll_end_def poll_transport_failed_def Let_def split: sum.splits prod.splits if_splits)

definition example_client :: poll_client where
  "example_client = \<lparr>pc_pollTimeout = seconds 30, pc_initialPollTimeout = seconds 5,
     pc_pollGuardrail = seconds 5, pc_usesProxy = True, pc_learned = 0,
     pc_initialPollStarted = False, pc_pollChannels = [''main''], pc_pollChannelsConfigured = True,
     pc_routing = initial_routing, pc_pollHealth = NewPollHealth (seconds 30) (seconds 35)\<rparr>"

definition example_env :: "goerr \<Rightarrow> goerr + http_response \<Rightarrow> poll_env" where
  "example_env ctx ex = \<lparr>pn_start_err = [], pn_build_err = [], pn_exchange = ex, pn_written = True,
     pn_elapsed = seconds 20, pn_received_headers = False, pn_receipt = Some 9, pn_now = 10,
     pn_ctx_err = ctx, pn_poll_ctx_err = ctx\<rparr>"

definition example_request :: poll_request where
  "example_request = \<lparr>pq_token = [], pq_limit = 1, pq_timeout_ms = 5000, pq_channels = [''main''],
     pq_deadline = seconds 35, pq_requested = seconds 5, pq_attempt = snapshot initial_routing\<rparr>"

theorem canceled_poll_keeps_routing_witness:
  "pc_routing (snd (poll_end example_lib (\<lambda>_. None) (\<lambda>_. None) example_client example_request
     (example_env [Canceled] (Inl [URLError, Canceled])))) = pc_routing example_client"
proof -
  have "poll_end example_lib (\<lambda>_. None) (\<lambda>_. None) example_client example_request
      (example_env [Canceled] (Inl [URLError, Canceled])) =
      (([], [], PollingTransport # [URLError, Canceled]),
       snd (poll_end example_lib (\<lambda>_. None) (\<lambda>_. None) example_client example_request
         (example_env [Canceled] (Inl [URLError, Canceled]))))"
    by (simp add: poll_end_def poll_transport_failed_def example_env_def Let_def)
  from canceled_poll_keeps_routing [OF _ this] show ?thesis
    by (simp add: example_env_def)
qed

text \<open>
  A reachable service that answers 200 with a complete but malformed body
  does not cost the poll its placement: the routing state is unchanged.
\<close>

theorem malformed_body_keeps_routing:
  assumes "pn_exchange env = Inr resp" and "hr_code resp = 200" and "hb_err (hr_body resp) = nil_err"
    and "envelope_commands (hb_data (hr_body resp)) = None"
  shows "pc_routing (snd (poll_end lib parse_time decode_message c req env)) = pc_routing c \<and>
         snd (snd (fst (poll_end lib parse_time decode_message c req env))) \<noteq> nil_err"
proof -
  obtain e where dec: "decodeCommands parse_time decode_message (Inr (hb_data (hr_body resp))) l p = ([], e)"
      and e: "e \<noteq> nil_err" for l p
    using assms(4) by (simp add: decodeCommands_def)
  have "\<not> network_loss e"
    using decode_error_malformed [OF dec e] .
  then show ?thesis
    using assms e by (simp add: poll_end_def Let_def read_all_def dec)
qed

theorem malformed_body_keeps_routing_witness:
  "pc_routing (snd (poll_end example_lib (\<lambda>_. None) (\<lambda>_. None) example_client example_request
     (example_env [] (Inr \<lparr>hr_code = 200, hr_status = [], hr_header = [],
        hr_body = \<lparr>hb_data = ''[]'', hb_err = []\<rparr>\<rparr>)))) = pc_routing example_client"
proof -
  have "envelope_commands ''[]'' = None" by code_simp
  then show ?thesis
    using malformed_body_keeps_routing [of "example_env [] (Inr \<lparr>hr_code = 200, hr_status = [],
        hr_header = [], hr_body = \<lparr>hb_data = ''[]'', hb_err = []\<rparr>\<rparr>)"]
    by (simp add: example_env_def)
qed

text \<open>
  The request of a poll: it sends exactly the token of the routing state,
  asks the service to wait between one millisecond and the configured timeout,
  at most the initial timeout on the first poll, and its own deadline is
  positive and at most ten minutes, for every configured 64-bit timing.
\<close>

theorem poll_request_bounds:
  assumes "poll_begin c limit env = (Inr req, c')"
    and "0 < pc_pollTimeout c" "pc_pollTimeout c \<le> max_i64" "0 < pc_initialPollTimeout c"
    and "min_i64 \<le> pc_pollGuardrail c" "pc_pollGuardrail c \<le> max_i64"
  shows "pq_token req = prs_token (pc_routing c) \<and> 1 \<le> pq_timeout_ms req \<and>
         pq_requested req \<le> pc_pollTimeout c \<and>
         (\<not> pc_initialPollStarted c \<longrightarrow> pq_requested req \<le> pc_initialPollTimeout c) \<and>
         pq_timeout_ms req * 1000000 \<le> max 1000000 (pq_requested req) \<and>
         0 < pq_deadline req \<and> pq_deadline req \<le> maxControlPlanePollDeadline \<and>
         pc_initialPollStarted c'"
proof -
  let ?t = "effectivePollTimeout (pc_learned c) (pc_pollTimeout c)"
  let ?r = "if pc_initialPollStarted c then ?t else min ?t (pc_initialPollTimeout c)"
  have t: "0 < ?t" "?t \<le> pc_pollTimeout c"
    using assms by (auto simp: effectivePollTimeout_def)
  have req: "req = \<lparr>pq_token = prs_token (pc_routing c), pq_limit = limit,
      pq_timeout_ms = pollTimeoutMilliseconds ?r,
      pq_channels = (if pc_pollChannelsConfigured c then pc_pollChannels c else []),
      pq_deadline = pollDeadlineFor c ?t, pq_requested = ?r, pq_attempt = snapshot (pc_routing c)\<rparr>"
    and c': "pc_initialPollStarted c'"
    using assms(1) by (auto simp: poll_begin_def Let_def snapshot_def split: if_splits)
  have r: "0 < ?r" "?r \<le> ?t" using t assms by auto
  have ms: "1 \<le> pollTimeoutMilliseconds ?r" "pollTimeoutMilliseconds ?r * 1000000 \<le> max 1000000 ?r"
    using r by (auto simp: pollTimeoutMilliseconds_def PollTimeoutOrDefault_def Let_def)
  have "min_i64 \<le> ?t" "?t \<le> max_i64" using t assms by (auto simp: min_i64_def)
  then have "0 < pollDeadlineFor c ?t" "pollDeadlineFor c ?t \<le> maxControlPlanePollDeadline"
    using assms unfolding pollDeadlineFor_def
    by (auto simp: PollDeadlineTimeoutOrDefault_def Let_def poll_timeout_defs i64_id max_i64_def)
  with req c' ms r t show ?thesis by auto
qed

theorem poll_request_bounds_witness:
  "1 \<le> pq_timeout_ms example_request \<and> 0 < pq_deadline example_request"
proof -
  have "poll_begin example_client 1 (example_env [] (Inl [])) =
      (Inr example_request, snd (poll_begin example_client 1 (example_env [] (Inl []))))"
    by (simp add: poll_begin_def example_client_def example_env_def example_request_def Let_def
        snapshot_def initial_routing_def effectivePollTimeout_def pollTimeoutMilliseconds_def
        pollDeadlineFor_def PollDeadlineTimeoutOrDefault_def poll_timeout_defs i64_id)
  from poll_request_bounds [OF this] show ?thesis
    by (simp add: example_client_def max_i64_def min_i64_def)
qed

end
