(* ===== verification/Delivery.thy ===== *)
theory Delivery
  imports Http Health "HOL-Library.Char_ord" "HOL-Library.List_Lexorder"
begin

text \<open>
  Delivery of responses: \<open>TunnelServiceClient.PostResponse\<close> with its retry
  loop, and the filter that decides which MCP response headers travel
  (\<open>sanitizeMCPResponseHeaders\<close>), both in \<open>tunnel_service_client.go\<close>.
\<close>

section \<open>Response headers\<close>

definition canonicalResponseHeaderName :: "string \<Rightarrow> string option" where
  "canonicalResponseHeaderName n =
     (if n = ''access-control-expose-headers'' then Some ''Access-Control-Expose-Headers''
      else if n = ''content-type'' then Some ''Content-Type''
      else if n = ''last-event-id'' then Some ''Last-Event-Id''
      else if n = ''mcp-protocol-version'' then Some ''Mcp-Protocol-Version''
      else if n = ''mcp-session-id'' then Some ''Mcp-Session-Id''
      else if n = ''www-authenticate'' then Some ''Www-Authenticate''
      else if n = ''x-request-id'' then Some ''X-Tunnel-Mcp-Request-Id''
      else None)"

definition trim_ws :: "string \<Rightarrow> string" where
  "trim_ws = trim_by (\<lambda>c. c = CHR '' '' \<or> c = CHR 0x09)"

definition connection_options :: "header \<Rightarrow> string list \<Rightarrow> string list" where
  "connection_options headers keys =
     concat (map (\<lambda>name.
       if equal_fold name ''Connection'' then
         concat (map (\<lambda>value.
           filter (\<lambda>p. p \<noteq> []) (map (\<lambda>p. to_lower (trim_ws p)) (split_on (CHR '','') value)))
           (case map_of headers name of None \<Rightarrow> [] | Some vs \<Rightarrow> vs))
       else []) keys)"

definition append_value :: "header \<Rightarrow> string \<Rightarrow> string \<Rightarrow> header" where
  "append_value h k v = filter (\<lambda>(n, _). n \<noteq> k) h @
     [(k, (case map_of h k of None \<Rightarrow> [] | Some vs \<Rightarrow> vs) @ [v])]"

definition add_sanitized :: "header \<Rightarrow> string list \<Rightarrow> header \<Rightarrow> string \<Rightarrow> header" where
  "add_sanitized headers options h name =
     (let normalizedName = to_lower name in
      case canonicalResponseHeaderName normalizedName of
        None \<Rightarrow> h
      | Some canonicalName \<Rightarrow>
          if normalizedName \<in> set options then h
          else foldl (\<lambda>h v. if v \<noteq> [] then append_value h canonicalName v else h) h
                 (case map_of headers name of None \<Rightarrow> [] | Some vs \<Rightarrow> vs))"

definition sanitizeMCPResponseHeaders :: "header \<Rightarrow> header" where
  "sanitizeMCPResponseHeaders headers =
     (let keys = sort (map fst headers);
          options = connection_options headers keys
      in foldl (add_sanitized headers options) [] keys)"

section \<open>Posting\<close>

datatype payload_type =
    ResponsePayloadJSONRPC | ResponsePayloadJSONRPCNotify | ResponsePayloadNotifyAck
  | ResponsePayloadOAuth | ResponsePayloadSessionTermination

definition payload_type_of :: "response_type \<Rightarrow> payload_type" where
  "payload_type_of t = (case t of
     ResponseTypeJSONRPCNotification \<Rightarrow> ResponsePayloadJSONRPCNotify
   | ResponseTypeNotificationAcknowledgment \<Rightarrow> ResponsePayloadNotifyAck
   | ResponseTypeOAuthDiscovery \<Rightarrow> ResponsePayloadOAuth
   | ResponseTypeSessionTermination \<Rightarrow> ResponsePayloadSessionTermination
   | _ \<Rightarrow> ResponsePayloadJSONRPC)"

record response_payload =
  rp_request_id :: string
  rp_channel :: channel
  rp_json :: string
  rp_headers :: header
  rp_code :: int
  rp_type :: payload_type
  rp_timing :: "response_timing option"

record post_request =
  po_payload :: response_payload
  po_client_request_id :: "string option"
  po_shard_token :: string

text \<open>
  One attempt: the exchange (with whether the request was written, which an
  \<open>httptrace\<close> hook reports), the backoff delay drawn, whether the wait before
  the next attempt ran to its end, and the context's error after it.
\<close>

record attempt_env =
  ae_clone_err :: goerr
  ae_exchange :: "goerr + http_response"
  ae_written :: bool
  ae_now :: gotime
  ae_backoff :: duration
  ae_slept :: bool
  ae_ctx_err :: goerr

record post_outcome =
  out_request_id :: string
  out_err :: goerr
  out_disposition :: string
  out_status :: int
  out_sent :: nat                 \<comment> \<open>HTTP requests sent\<close>
  out_delays :: "duration list"
  out_health :: delivery_health

definition isRetryableResponseStatus :: "int \<Rightarrow> bool" where
  "isRetryableResponseStatus code \<longleftrightarrow> code \<in> {408, 429, 502, 503, 504}"

definition retryWaitError :: "goerr \<Rightarrow> goerr" where
  "retryWaitError ctx_err =
     (if ctx_err \<noteq> nil_err then ErrText ''controlplane responder: retry wait'' # ctx_err
      else [ErrText ''controlplane responder: retry wait interrupted''])"

text \<open>
  The body of the loop over attempts. The second component says whether the
  loop goes on.
\<close>

definition post_attempt :: "stdlib \<Rightarrow> attempt_env \<Rightarrow> bool \<Rightarrow> nat \<Rightarrow> nat \<Rightarrow> post_outcome \<Rightarrow>
    post_outcome \<times> bool" where
  "post_attempt lib e isNotification attempts attempt out =
     (if ae_clone_err e \<noteq> nil_err then
        (out\<lparr>out_err := ErrText ''controlplane responder: replay request body'' # ae_clone_err e\<rparr>, False)
      else
        (let out1 = out\<lparr>out_sent := Suc (out_sent out),
                        out_health := Delivery_Attempt (out_health out) (attempt > 1)\<rparr>
         in case ae_exchange e of
              Inl err \<Rightarrow>
                (let (category, st) = healthFailure err;
                     out2 = out1\<lparr>out_status := st,
                       out_health := AttemptFailed (out_health out1) (ae_now e) category st\<rparr>
                 in if attempt = attempts \<or> isNotification \<and> ae_written e then
                      (out2\<lparr>out_err := ErrText ''controlplane responder: post response'' # err\<rparr>, False)
                    else let out3 = out2\<lparr>out_delays := out_delays out2 @ [ae_backoff e]\<rparr> in
                      if \<not> ae_slept e then (out3\<lparr>out_err := retryWaitError (ae_ctx_err e)\<rparr>, False)
                      else (out3, True))
            | Inr resp \<Rightarrow>
                (let rid = (case NewTunnelServiceRequestIDFromHeader (hr_header resp) of
                              Some i \<Rightarrow> i | None \<Rightarrow> out_request_id out1);
                     out2 = out1\<lparr>out_request_id := rid, out_status := hr_code resp\<rparr>
                 in if hr_code resp = 200 then
                      (out2\<lparr>out_disposition := ''accepted'', out_err := nil_err\<rparr>, False)
                    else if hr_code resp = 404 then
                      (out2\<lparr>out_disposition := ''already_fulfilled_or_unknown'', out_err := nil_err\<rparr>, False)
                    else
                      (let st = newAPIStatusError lib ''controlplane responder: unexpected status'' resp (ae_now e);
                           out3 = out2\<lparr>out_health :=
                             AttemptFailed (out_health out2) (ae_now e) ''http_error'' (hr_code resp)\<rparr>
                       in if \<not> isRetryableResponseStatus (hr_code resp) \<or> attempt = attempts
                             \<or> isNotification \<and> hr_code resp \<noteq> 429 then
                            (out3\<lparr>out_err := [APIStatus st]\<rparr>, False)
                          else let out4 = out3\<lparr>out_delays := out_delays out3 @
                                 [retryDelay (ae_backoff e) (ase_retry_after st) (ase_has_retry_after st)]\<rparr> in
                            if \<not> ae_slept e then (out4\<lparr>out_err := retryWaitError (ae_ctx_err e)\<rparr>, False)
                            else (out4, True)))))"

text \<open>The loop; \<open>n\<close> is the number of attempts that remain.\<close>

fun post_loop :: "stdlib \<Rightarrow> (nat \<Rightarrow> attempt_env) \<Rightarrow> bool \<Rightarrow> nat \<Rightarrow> nat \<Rightarrow> post_outcome \<Rightarrow> post_outcome" where
  "post_loop lib env isNotification attempts 0 out =
     out\<lparr>out_err := [ErrText ''controlplane responder: exhausted response retries'']\<rparr>"
| "post_loop lib env isNotification attempts (Suc n) out =
     (case post_attempt lib (env (attempts - n)) isNotification attempts (attempts - n) out of
        (out', continue) \<Rightarrow>
          if continue then post_loop lib env isNotification attempts n out' else out')"

text \<open>
  The part before the loop: validation, the payload and the request. The
  encoder refuses a payload that is not JSON; \<open>build_err\<close> is the error of
  building the request.
\<close>

definition build_post :: "string \<Rightarrow> tunnel_response option \<Rightarrow> goerr \<Rightarrow> string option \<Rightarrow> string option \<Rightarrow>
    goerr + post_request" where
  "build_post requestID response build_err clientRequestID shardToken =
     (if requestID = [] then Inl [ErrText ''controlplane responder: requestID is required'']
      else case response of
        None \<Rightarrow> Inl [ErrText ''controlplane responder: response is required'']
      | Some r \<Rightarrow>
          if Validate response \<noteq> None then Inl [ErrText ''controlplane responder'', ErrText ''validate'']
          else if tr_channel r = [] then Inl [ErrText ''controlplane responder: channel is required'']
          else
            (let ty = payload_type_of (tr_type r);
                 hs = (if ty \<noteq> ResponsePayloadOAuth then sanitizeMCPResponseHeaders (tr_headers r)
                       else tr_headers r)
             in if tr_response r \<noteq> [] \<and> json_parse (tr_response r) = None then
                  Inl [ErrText ''controlplane responder: marshal payload'', ErrText ''json'']
                else if build_err \<noteq> nil_err then
                  Inl (ErrText ''controlplane responder: build request'' # build_err)
                else case shardToken of
                  None \<Rightarrow> Inl [ErrText ''controlplane responder: shard token is required'']
                | Some token \<Rightarrow>
                    if token = [] then Inl [ErrText ''controlplane responder: shard token is required'']
                    else Inr \<lparr>po_payload =
                           \<lparr>rp_request_id = requestID, rp_channel = tr_channel r, rp_json = tr_response r,
                            rp_headers = hs, rp_code = tr_code r, rp_type = ty, rp_timing = tr_timing r\<rparr>,
                         po_client_request_id = clientRequestID, po_shard_token = token\<rparr>))"

definition defaultResponseRetryAttempts :: int where
  "defaultResponseRetryAttempts = 3"

definition post_attempts :: "int \<Rightarrow> nat" where
  "post_attempts configured = nat (if configured \<le> 0 then defaultResponseRetryAttempts else configured)"

definition finish_post :: "gotime \<Rightarrow> post_outcome \<Rightarrow> post_outcome" where
  "finish_post now out =
     (let category = (if out_err out \<noteq> nil_err then fst (healthFailure (out_err out)) else []);
          disposition = (if errors_is (out_err out) Canceled then ''canceled'' else out_disposition out)
      in out\<lparr>out_disposition := disposition,
             out_health := Delivery_Finish (out_health out) now disposition category (out_status out)\<rparr>)"

definition fresh_outcome :: "delivery_health \<Rightarrow> post_outcome" where
  "fresh_outcome dh = \<lparr>out_request_id = [], out_err = nil_err, out_disposition = ''failed'',
     out_status = 0, out_sent = 0, out_delays = [], out_health = Delivery_Begin dh\<rparr>"

definition PostResponse :: "stdlib \<Rightarrow> int \<Rightarrow> delivery_health \<Rightarrow> string \<Rightarrow> tunnel_response option \<Rightarrow>
    goerr \<Rightarrow> string option \<Rightarrow> string option \<Rightarrow> (nat \<Rightarrow> attempt_env) \<Rightarrow> gotime \<Rightarrow> post_outcome" where
  "PostResponse lib retryAttempts dh requestID response build_err clientRequestID shardToken env now =
     finish_post now
       (case build_post requestID response build_err clientRequestID shardToken of
          Inl err \<Rightarrow> (fresh_outcome dh)\<lparr>out_err := err\<rparr>
        | Inr req \<Rightarrow>
            (let attempts = post_attempts retryAttempts in
             post_loop lib env (map_option tr_type response = Some ResponseTypeJSONRPCNotification)
               attempts attempts (fresh_outcome dh)))"

section \<open>The retry loop\<close>

definition replay_safe :: "bool \<Rightarrow> attempt_env \<Rightarrow> bool" where
  "replay_safe isNotification e \<longleftrightarrow> (case ae_exchange e of
     Inl _ \<Rightarrow> \<not> (isNotification \<and> ae_written e)
   | Inr resp \<Rightarrow> isRetryableResponseStatus (hr_code resp) \<and> (isNotification \<longrightarrow> hr_code resp = 429))"

definition answered :: "attempt_env \<Rightarrow> bool" where
  "answered e \<longleftrightarrow> (case ae_exchange e of
     Inl _ \<Rightarrow> False | Inr resp \<Rightarrow> hr_code resp = 200 \<or> hr_code resp = 404)"

lemma retryWaitError_not_nil [simp]: "retryWaitError e \<noteq> nil_err"
  by (simp add: retryWaitError_def)

lemma retryDelay_ge [simp]: "b \<le> retryDelay b r h"
  by (simp add: retryDelay_def)

lemma post_attempt_continue:
  assumes "post_attempt lib e isN attempts attempt out = (out', c)" and c
  shows "out_sent out' = Suc (out_sent out) \<and> attempt \<noteq> attempts \<and> replay_safe isN e \<and> \<not> answered e \<and>
    (\<exists>d. out_delays out' = out_delays out @ [d] \<and> ae_backoff e \<le> d) \<and> out_disposition out' = out_disposition out"
  using assms
  by (auto simp: post_attempt_def Let_def answered_def replay_safe_def
      split: if_splits sum.splits prod.splits)

lemma post_attempt_final:
  assumes "post_attempt lib e isN attempts attempt out = (out', c)" and "\<not> c"
  shows "(out_err out' = nil_err \<longleftrightarrow> ae_clone_err e = nil_err \<and> answered e) \<and>
    out_sent out' = (if ae_clone_err e = nil_err then Suc (out_sent out) else out_sent out) \<and>
    (\<exists>ds. out_delays out' = out_delays out @ ds \<and> list_all (\<lambda>d. ae_backoff e \<le> d) ds \<and> length ds \<le> 1)"
  using assms
  by (auto simp: post_attempt_def Let_def answered_def
      split: if_splits sum.splits prod.splits)

text \<open>
  Over the loop: how many requests are sent, that each one but the last was
  safe to repeat, and what the last one was answered.
\<close>

lemma post_loop_ok:
  assumes "n \<le> attempts" and "0 < n"
    and "out' = post_loop lib env isN attempts n out"
  shows "out_sent out \<le> out_sent out' \<and> out_sent out' \<le> out_sent out + n \<and>
    (\<forall>k. attempts - n < k \<and> k < attempts - n + (out_sent out' - out_sent out) \<longrightarrow> replay_safe isN (env k)) \<and>
    (out_err out' = nil_err \<longrightarrow> out_sent out < out_sent out' \<and>
       answered (env (attempts - n + (out_sent out' - out_sent out))))"
  using assms
proof (induction n arbitrary: out)
  case (Suc n)
  let ?e = "env (attempts - n)"
  obtain out1 cont where step: "post_attempt lib ?e isN attempts (attempts - n) out = (out1, cont)"
    by fastforce
  have pos: "attempts - n = Suc (attempts - Suc n)" using Suc.prems by simp
  show ?case
  proof (cases cont)
    case False
    with step Suc.prems have out': "out' = out1" by simp
    from post_attempt_final [OF step False] show ?thesis
      unfolding out' using pos by auto
  next
    case True
    with step Suc.prems have out': "out' = post_loop lib env isN attempts n out1" by simp
    note c = post_attempt_continue [OF step True]
    then have "0 < n" using Suc.prems by auto
    have "n \<le> attempts" using Suc.prems(1) by simp
    note ih = Suc.IH [OF this \<open>0 < n\<close> out']
    have sent: "attempts - n + (out_sent out' - out_sent out1) = attempts - Suc n + (out_sent out' - out_sent out)"
      using c ih pos by auto
    have "replay_safe isN (env k)"
      if "attempts - Suc n < k" "k < attempts - Suc n + (out_sent out' - out_sent out)" for k
      using that c ih pos sent by (cases "k = attempts - n") auto
    with c ih show ?thesis unfolding sent by auto
  qed
qed simp

lemma post_loop_answered:
  assumes "n \<le> attempts" and "0 < n"
    and "out' = post_loop lib env isN attempts n out"
    and "out_sent out < out_sent out'" and "answered (env (attempts - n + (out_sent out' - out_sent out)))"
  shows "out_err out' = nil_err"
  using assms
proof (induction n arbitrary: out)
  case (Suc n)
  let ?e = "env (attempts - n)"
  obtain out1 cont where step: "post_attempt lib ?e isN attempts (attempts - n) out = (out1, cont)"
    by fastforce
  have pos: "attempts - n = Suc (attempts - Suc n)" using Suc.prems by simp
  show ?case
  proof (cases cont)
    case False
    with step Suc.prems have out': "out' = out1" by simp
    from post_attempt_final [OF step False] Suc.prems(4,5) pos show ?thesis
      unfolding out' by (auto split: if_splits)
  next
    case True
    with step Suc.prems have out': "out' = post_loop lib env isN attempts n out1" by simp
    note c = post_attempt_continue [OF step True]
    then have "0 < n" using Suc.prems by auto
    have "out_sent out1 \<noteq> out_sent out'"
    proof
      assume "out_sent out1 = out_sent out'"
      with c have "attempts - Suc n + (out_sent out' - out_sent out) = attempts - n"
        using pos by simp
      with c Suc.prems(5) show False by simp
    qed
    moreover have "out_sent out1 \<le> out_sent out'"
      using post_loop_ok [OF _ \<open>0 < n\<close> out'] Suc.prems by simp
    ultimately have lt: "out_sent out1 < out_sent out'" by simp
    have "attempts - n + (out_sent out' - out_sent out1) = attempts - Suc n + (out_sent out' - out_sent out)"
      using c lt pos by auto
    then have "answered (env (attempts - n + (out_sent out' - out_sent out1)))"
      using Suc.prems(5) by (simp only:)
    moreover have "n \<le> attempts" using Suc.prems(1) by simp
    ultimately show ?thesis by (intro Suc.IH [OF _ \<open>0 < n\<close> out' lt])
  qed
qed simp

lemma build_post_error: "build_post rid r b cid tok = Inl err \<Longrightarrow> err \<noteq> nil_err"
  by (auto simp: build_post_def Let_def split: if_splits option.splits)

lemma post_attempts_pos: "0 < post_attempts configured"
  by (simp add: post_attempts_def defaultResponseRetryAttempts_def)

lemma finish_post_simps [simp]:
  "out_err (finish_post now out) = out_err out" "out_sent (finish_post now out) = out_sent out"
  "out_delays (finish_post now out) = out_delays out"
  by (simp_all add: finish_post_def Let_def)

lemma fresh_outcome_simps [simp]: "out_sent (fresh_outcome dh) = 0" "out_delays (fresh_outcome dh) = []"
  by (simp_all add: fresh_outcome_def)

abbreviation is_notification :: "tunnel_response option \<Rightarrow> bool" where
  "is_notification r \<equiv> map_option tr_type r = Some ResponseTypeJSONRPCNotification"

lemma PostResponse_facts:
  assumes "out = PostResponse lib n dh rid r b cid tok env now"
  shows "out_sent out \<le> post_attempts n"
    and "\<lbrakk>1 \<le> k; k < out_sent out\<rbrakk> \<Longrightarrow> replay_safe (is_notification r) (env k)"
    and "out_err out = nil_err \<longleftrightarrow> 0 < out_sent out \<and> answered (env (out_sent out))"
proof -
  let ?a = "post_attempts n"
  have "out_sent out \<le> ?a \<and>
    (\<forall>k. 1 \<le> k \<and> k < out_sent out \<longrightarrow> replay_safe (is_notification r) (env k)) \<and>
    (out_err out = nil_err \<longleftrightarrow> 0 < out_sent out \<and> answered (env (out_sent out)))"
  proof (cases "build_post rid r b cid tok")
    case (Inl err)
    then show ?thesis
      using assms build_post_error [OF Inl] by (simp add: PostResponse_def)
  next
    case (Inr req)
    let ?l = "post_loop lib env (is_notification r) ?a ?a (fresh_outcome dh)"
    have out: "out_sent out = out_sent ?l" "out_err out = out_err ?l"
      using assms Inr by (simp_all add: PostResponse_def Let_def)
    show ?thesis
      using post_loop_ok [where out' = ?l, OF order.refl post_attempts_pos refl]
        post_loop_answered [where out' = ?l, OF order.refl post_attempts_pos refl]
      unfolding out by (auto simp: Suc_le_eq)
  qed
  then show "out_sent out \<le> ?a"
    and "\<lbrakk>1 \<le> k; k < out_sent out\<rbrakk> \<Longrightarrow> replay_safe (is_notification r) (env k)"
    and "out_err out = nil_err \<longleftrightarrow> 0 < out_sent out \<and> answered (env (out_sent out))" by blast+
qed

section \<open>Sanitized headers\<close>

definition passes :: "header \<Rightarrow> string list \<Rightarrow> string \<Rightarrow> string \<Rightarrow> bool" where
  "passes headers options k v \<longleftrightarrow> v \<noteq> [] \<and>
     (\<exists>(name, vs) \<in> set headers. v \<in> set vs \<and>
        canonicalResponseHeaderName (to_lower name) = Some k \<and> to_lower name \<notin> set options)"

definition all_pass :: "header \<Rightarrow> string list \<Rightarrow> header \<Rightarrow> bool" where
  "all_pass headers options h \<longleftrightarrow> (\<forall>(k, vs) \<in> set h. vs \<noteq> [] \<and> (\<forall>v \<in> set vs. passes headers options k v))"

lemma all_pass_append:
  "\<lbrakk>all_pass hs os h; passes hs os k v\<rbrakk> \<Longrightarrow> all_pass hs os (append_value h k v)"
proof -
  assume all: "all_pass hs os h" and v: "passes hs os k v"
  have old: "passes hs os k x" if "map_of h k = Some ws" "x \<in> set ws" for ws x
    using all map_of_SomeD [OF that(1)] that(2) unfolding all_pass_def by blast
  show ?thesis
    using all v old by (cases "map_of h k") (auto simp: all_pass_def append_value_def)
qed

lemma all_pass_values:
  assumes "all_pass hs os h" and "\<And>v. v \<in> set vs \<Longrightarrow> v \<noteq> [] \<Longrightarrow> passes hs os k v"
  shows "all_pass hs os (foldl (\<lambda>h v. if v \<noteq> [] then append_value h k v else h) h vs)"
  using assms by (induction vs arbitrary: h) (auto simp: all_pass_append)

lemma all_pass_add:
  assumes "all_pass hs os h"
  shows "all_pass hs os (add_sanitized hs os h name)"
proof (cases "canonicalResponseHeaderName (to_lower name)")
  case (Some k)
  have "passes hs os k v" if "to_lower name \<notin> set os" "map_of hs name = Some vs" "v \<in> set vs" "v \<noteq> []" for vs v
    using that Some map_of_SomeD [OF that(2)] unfolding passes_def by fastforce
  then show ?thesis
    using assms Some by (auto simp: add_sanitized_def intro!: all_pass_values split: option.splits)
qed (use assms in \<open>simp add: add_sanitized_def\<close>)

lemma all_pass_foldl: "all_pass hs os h \<Longrightarrow> all_pass hs os (foldl (add_sanitized hs os) h names)"
  by (induction names arbitrary: h) (simp_all add: all_pass_add)

section \<open>Properties\<close>

text \<open>
  C20. A notification is never delivered twice by retrying: \<open>PostResponse\<close>
  sends it again only after an attempt whose request was not written or that
  was answered 429, both of which tunnel-service cannot have accepted.
\<close>

theorem notification_not_replayed:
  assumes "out = PostResponse lib n dh rid r b cid tok env now"
    and "is_notification r" and "1 \<le> k" and "k < out_sent out"
  shows "(case ae_exchange (env k) of Inl _ \<Rightarrow> \<not> ae_written (env k) | Inr resp \<Rightarrow> hr_code resp = 429)"
  using PostResponse_facts(2) [OF assms(1,3,4)] assms(2)
  by (auto simp: replay_safe_def split: sum.splits)

definition example_answer :: "int \<Rightarrow> goerr + http_response" where
  "example_answer code = Inr \<lparr>hr_code = code, hr_status = [], hr_header = [],
     hr_body = \<lparr>hb_data = [], hb_err = []\<rparr>\<rparr>"

definition example_attempts :: "nat \<Rightarrow> attempt_env" where
  "example_attempts k = \<lparr>ae_clone_err = [],
     ae_exchange = (if k = 1 then Inl [URLError, OpError ''dial'', Errno ECONNREFUSED]
                    else if k = 2 then example_answer 429 else example_answer 200),
     ae_written = False, ae_now = 5, ae_backoff = milliseconds 200, ae_slept = True, ae_ctx_err = []\<rparr>"

definition example_notification :: "tunnel_response option" where
  "example_notification = Some (NewJSONRPCNotification ''main'' ''7'' 200 [])"

lemma example_post:
  "out_sent (PostResponse example_lib 0 NewDeliveryHealth ''r'' example_notification [] None (Some ''t'')
     example_attempts 9) = 3"
proof -
  have "json_parse ''7'' = Some (JNum ''7'')" "Validate example_notification = None" by code_simp+
  then have "\<exists>req. build_post ''r'' example_notification [] None (Some ''t'') = Inr req"
    by (simp add: build_post_def example_notification_def NewJSONRPCNotification_def Let_def)
  then show ?thesis
    by (auto simp: PostResponse_def post_attempts_def defaultResponseRetryAttempts_def numeral_eq_Suc
        post_attempt_def example_attempts_def example_answer_def Let_def isRetryableResponseStatus_def
        split: prod.splits)
qed

theorem notification_not_replayed_witness:
  "(case ae_exchange (example_attempts 2) of
      Inl _ \<Rightarrow> \<not> ae_written (example_attempts 2) | Inr resp \<Rightarrow> hr_code resp = 429)"
proof (rule notification_not_replayed [OF refl])
  show "is_notification example_notification"
    by (simp add: example_notification_def NewJSONRPCNotification_def)
  show "2 < out_sent (PostResponse example_lib 0 NewDeliveryHealth ''r'' example_notification [] None (Some ''t'')
     example_attempts 9)"
    by (simp add: example_post)
qed simp

text \<open>
  \<open>PostResponse\<close> reports success exactly when it sent a request and the
  last one sent was answered 200 or 404, and it sends no more requests than the
  configured attempts (three by default).
\<close>

theorem post_response_success:
  "out_err (PostResponse lib n dh rid r b cid tok env now) = nil_err \<longleftrightarrow>
     0 < out_sent (PostResponse lib n dh rid r b cid tok env now) \<and>
     answered (env (out_sent (PostResponse lib n dh rid r b cid tok env now)))"
  by (rule PostResponse_facts(3) [OF refl])

text \<open>
  Retries are bounded, and a response that is not a notification is sent
  again only after a transport failure or one of the statuses 408, 429, 502,
  503 and 504.
\<close>

theorem post_response_retries:
  assumes "out = PostResponse lib n dh rid r b cid tok env now"
  shows "out_sent out \<le> post_attempts n \<and>
         (\<forall>k. 1 \<le> k \<and> k < out_sent out \<longrightarrow>
            (case ae_exchange (env k) of Inl _ \<Rightarrow> True | Inr resp \<Rightarrow> hr_code resp \<in> {408, 429, 502, 503, 504}))"
  using PostResponse_facts(1,2) [OF assms]
  by (fastforce simp: replay_safe_def isRetryableResponseStatus_def split: sum.splits)

theorem post_response_retries_witness: "3 \<le> post_attempts 0"
proof -
  have "out_sent (PostResponse example_lib 0 NewDeliveryHealth ''r'' example_notification [] None (Some ''t'')
     example_attempts 9) \<le> post_attempts 0"
    using post_response_retries [OF refl] by blast
  then show ?thesis by (simp add: example_post)
qed

text \<open>
  Only allowed response headers leave the client: every forwarded value is
  a non-empty value of a received header with an allowed name that the
  \<open>Connection\<close> header does not nominate, under its canonical name; the MCP
  server's \<open>X-Request-Id\<close> only as \<open>X-Tunnel-Mcp-Request-Id\<close>.
\<close>

theorem sanitized_headers_allowed:
  assumes "(k, vs) \<in> set (sanitizeMCPResponseHeaders headers)" and "v \<in> set vs"
  shows "v \<noteq> [] \<and> k \<noteq> ''X-Request-Id'' \<and>
    (\<exists>(name, ws) \<in> set headers. v \<in> set ws \<and> canonicalResponseHeaderName (to_lower name) = Some k \<and>
       to_lower name \<notin> set (connection_options headers (sort (map fst headers))))"
proof -
  have "all_pass headers (connection_options headers (sort (map fst headers)))
      (sanitizeMCPResponseHeaders headers)"
    unfolding sanitizeMCPResponseHeaders_def Let_def
    by (rule all_pass_foldl) (simp add: all_pass_def)
  with assms have p: "passes headers (connection_options headers (sort (map fst headers))) k v"
    unfolding all_pass_def by blast
  then have "\<exists>n. canonicalResponseHeaderName n = Some k" by (auto simp: passes_def)
  then have "k \<noteq> ''X-Request-Id''"
    by (auto simp: canonicalResponseHeaderName_def split: if_splits)
  with p show ?thesis by (simp add: passes_def)
qed

definition example_headers :: header where
  "example_headers = [(''X-Request-Id'', [''u'']), (''Set-Cookie'', [''c'']),
     (''Mcp-Session-Id'', [''s'']), (''Connection'', [''close, mcp-session-id''])]"

theorem sanitized_headers_allowed_witness:
  "sanitizeMCPResponseHeaders example_headers = [(''X-Tunnel-Mcp-Request-Id'', [''u''])] \<and>
   (\<exists>(name, ws) \<in> set example_headers. ''u'' \<in> set ws \<and>
      canonicalResponseHeaderName (to_lower name) = Some ''X-Tunnel-Mcp-Request-Id'')"
proof -
  have e: "sanitizeMCPResponseHeaders example_headers = [(''X-Tunnel-Mcp-Request-Id'', [''u''])]"
    by code_simp
  then have "(''X-Tunnel-Mcp-Request-Id'', [''u'']) \<in> set (sanitizeMCPResponseHeaders example_headers)"
    by simp
  from sanitized_headers_allowed [OF this, of "''u''"] e show ?thesis by auto
qed

end
