(* ===== verification/ControlApi.thy ===== *)
theory ControlApi
  imports Http Capabilities
begin

text \<open>
  Other calls to the control plane: the headers every request carries
  (\<open>roundtripper.go\<close>, \<open>pkg/runtimeconfig/http_headers.go\<close>, the API key and
  bearer token checks of \<open>config.go\<close>), the tunnel metadata and the managed
  Cloudflare runtime (\<open>tunnel_service_client.go\<close>).
\<close>

section \<open>Credentials\<close>

datatype key_error = MissingKey | MalformedKey

definition key_byte :: "char \<Rightarrow> bool" where
  "key_byte c \<longleftrightarrow> (let n = (of_char c :: nat) in
     is_digit c \<or> (65 \<le> n \<and> n \<le> 90) \<or> (97 \<le> n \<and> n \<le> 122) \<or> c = CHR ''_'' \<or> c = CHR ''-'')"

definition controlPlaneAPIKeyPattern :: "string \<Rightarrow> bool" where
  "controlPlaneAPIKeyPattern s \<longleftrightarrow> s \<noteq> [] \<and> list_all key_byte s"

definition ValidateControlPlaneAPIKey :: "string \<Rightarrow> key_error option" where
  "ValidateControlPlaneAPIKey key =
     (if key = [] then Some MissingKey
      else if trim_space key \<noteq> key then Some MalformedKey
      else if \<not> controlPlaneAPIKeyPattern key then Some MalformedKey
      else None)"

definition bearer_byte :: "char \<Rightarrow> bool" where
  "bearer_byte c \<longleftrightarrow> key_byte c \<or> c \<in> set ''.~+/''"

definition bearerTokenPattern :: "string \<Rightarrow> bool" where
  "bearerTokenPattern s \<longleftrightarrow> takeWhile bearer_byte s \<noteq> [] \<and>
     list_all (\<lambda>c. c = CHR ''='') (dropWhile bearer_byte s)"

text \<open>The token provider is optional; its answer is an error or a token.\<close>

definition BearerToken :: "string \<Rightarrow> (goerr + string) option \<Rightarrow> goerr + string" where
  "BearerToken apiKey provider = (case provider of
     None \<Rightarrow> (if ValidateControlPlaneAPIKey apiKey = None then Inr apiKey
              else Inl [ErrText ''control plane API key''])
   | Some (Inl err) \<Rightarrow> Inl err
   | Some (Inr token) \<Rightarrow>
       (if bearerTokenPattern token then Inr token
        else Inl [ErrText ''workload identity returned a malformed bearer token'']))"

section \<open>Operator headers\<close>

definition validHTTPHeaderFieldName :: "string \<Rightarrow> bool" where
  "validHTTPHeaderFieldName name \<longleftrightarrow> name \<noteq> [] \<and> list_all header_name_byte name"

definition validHTTPHeaderFieldValue :: "string \<Rightarrow> bool" where
  "validHTTPHeaderFieldValue value \<longleftrightarrow>
     list_all (\<lambda>c. \<not> ((of_char c :: nat) < 32 \<and> c \<noteq> CHR 0x09 \<or> (of_char c :: nat) = 127)) value"

datatype extra_header_error = InvalidHeaderName string | InvalidHeaderValue string | ConflictingHeader string

type_synonym extra_headers = "(string \<times> string) list"

fun normalize_extra :: "extra_headers \<Rightarrow> extra_headers \<Rightarrow> extra_header_error + extra_headers" where
  "normalize_extra normalized [] = Inr normalized"
| "normalize_extra normalized ((name, value) # hs) =
     (if \<not> validHTTPHeaderFieldName name then Inl (InvalidHeaderName name)
      else let canonicalName = canonical_header_key name in
        if \<not> validHTTPHeaderFieldValue value then Inl (InvalidHeaderValue canonicalName)
        else case map_of normalized canonicalName of
          Some existing \<Rightarrow>
            if existing \<noteq> value then Inl (ConflictingHeader canonicalName)
            else normalize_extra normalized hs
        | None \<Rightarrow> normalize_extra (normalized @ [(canonicalName, value)]) hs)"

definition NormalizeExtraHeaders :: "extra_headers \<Rightarrow> extra_header_error + extra_headers" where
  "NormalizeExtraHeaders headers = normalize_extra [] headers"

section \<open>Request headers\<close>

definition MCPServerInfoHeaderName :: string where
  "MCPServerInfoHeaderName = ''X-Tunnel-MCP-Server-Info''"

definition protected_names :: "string list" where
  "protected_names = [''Authorization'', ''Accept'', ''User-Agent'', ''X-Tunnel-Client-Name'',
     ''X-Tunnel-Client-Version'', ''X-Tunnel-Client-Wire-Protocol-Version'',
     ''X-Tunnel-Client-Instance-Id'', ''X-Tunnel-Shard-Token'', ''X-Tunnel-Client-Capabilities'']"

definition isProtectedControlPlaneHeader :: "string \<Rightarrow> bool" where
  "isProtectedControlPlaneHeader key \<longleftrightarrow>
     equal_fold (trim_space key) MCPServerInfoHeaderName \<or> canonical_header_key key \<in> set protected_names"

definition applyExtraHeaders :: "extra_headers \<Rightarrow> header \<Rightarrow> header" where
  "applyExtraHeaders extra h =
     foldl (\<lambda>h (k, v). if isProtectedControlPlaneHeader k then h else header_set h k v) h extra"

record round_tripper =
  crt_userAgent :: string
  crt_organizationID :: string
  crt_version :: string
  crt_instanceID :: string
  crt_extraHeaders :: extra_headers
  crt_traceContextEnabled :: bool

text \<open>The operator's headers, then the organization.\<close>

definition finish_headers :: "round_tripper \<Rightarrow> header \<Rightarrow> header" where
  "finish_headers c h = (let h' = applyExtraHeaders (crt_extraHeaders c) h in
     if crt_organizationID c \<noteq> [] then header_set h' ''OpenAI-Organization'' (crt_organizationID c) else h')"

text \<open>
  The headers of a request before it goes to the network; the bearer token and
  the MCP server info are what their providers answered for this request.
\<close>

definition RoundTrip_headers :: "round_tripper \<Rightarrow> goerr + string \<Rightarrow> (goerr + string) option \<Rightarrow> header \<Rightarrow>
    goerr + header" where
  "RoundTrip_headers c bearer mcpServerInfo h = (case bearer of
     Inl err \<Rightarrow> Inl err
   | Inr token \<Rightarrow>
       (let h1 = header_set h ''Authorization'' (''Bearer '' @ token);
            h2 = header_set h1 ''Accept'' ''application/json'';
            h3 = header_set h2 ''User-Agent'' (crt_userAgent c);
            h4 = header_set h3 ''X-Tunnel-Client-Name'' ''oai-tunnel-client'';
            h5 = header_set h4 ''X-Tunnel-Client-Version'' (crt_version c);
            h6 = header_set h5 ''X-Tunnel-Client-Wire-Protocol-Version'' ''2026-08-25'';
            h7 = header_set h6 ''X-Tunnel-Client-Instance-Id'' (crt_instanceID c);
            h8 = header_set h7 ''X-Tunnel-Client-Capabilities'' Advertised;
            h9 = (if crt_traceContextEnabled c
                  then header_set h8 ''X-Tunnel-Client-Capabilities'' (Advertised @ '','' @ TraceContextV1)
                  else h8)
        in case mcpServerInfo of
             None \<Rightarrow> Inr (finish_headers c h9)
           | Some (Inl err) \<Rightarrow> Inl (ErrText ''control-plane round tripper: MCP server info'' # err)
           | Some (Inr info) \<Rightarrow>
               Inr (finish_headers c (if info \<noteq> [] then header_set h9 MCPServerInfoHeaderName info else h9))))"

section \<open>Tunnel metadata\<close>

text \<open>\<open>json.Decoder.Decode\<close> reads the first value of the stream.\<close>

definition json_decode :: "http_body \<Rightarrow> json option" where
  "json_decode b = map_option fst (pvalue (Suc (2 * length (hb_data b))) (skip_ws (hb_data b)))"

record tunnel_metadata =
  tm_id :: string
  tm_name :: string
  tm_description :: string

definition decode_metadata :: "json \<Rightarrow> tunnel_metadata option" where
  "decode_metadata v = (case v of
     JNull \<Rightarrow> Some \<lparr>tm_id = [], tm_name = [], tm_description = []\<rparr>
   | JObj ms \<Rightarrow>
       (case (string_field ''id'' ms, string_field ''name'' ms, string_field ''description'' ms) of
          (Some i, Some n, Some d) \<Rightarrow> Some \<lparr>tm_id = i, tm_name = n, tm_description = d\<rparr>
        | _ \<Rightarrow> None)
   | _ \<Rightarrow> None)"

definition FetchTunnelMetadata :: "stdlib \<Rightarrow> gotime \<Rightarrow> goerr \<Rightarrow> goerr + http_response \<Rightarrow>
    goerr + tunnel_metadata" where
  "FetchTunnelMetadata lib now build_err exchange =
     (if build_err \<noteq> nil_err then
        Inl (ErrText ''controlplane client: build tunnel metadata request'' # build_err)
      else case exchange of
        Inl err \<Rightarrow> Inl (ErrText ''controlplane client: fetch tunnel metadata'' # err)
      | Inr resp \<Rightarrow>
          if hr_code resp < 200 \<or> hr_code resp \<ge> 300 then
            Inl [APIStatus (newAPIStatusError lib ''controlplane client: unexpected metadata status'' resp now)]
          else (case Option.bind (json_decode (hr_body resp)) decode_metadata of
                  None \<Rightarrow> Inl [ErrText ''controlplane client: decode tunnel metadata'', ErrText ''json'']
                | Some m \<Rightarrow> Inr m))"

section \<open>Managed Cloudflare runtime\<close>

record cloudflare_metadata =
  cf_tunnel_id :: string
  cf_name :: string
  cf_account_id :: string
  cf_created_at :: string

record cloudflare_runtime =
  cr_tunnel :: cloudflare_metadata
  cr_token :: string

text \<open>The pointer to the metadata: \<open>null\<close> stores nil, an object fills or allocates.\<close>

fun assign_cloudflare :: "cloudflare_metadata option option \<Rightarrow> json \<Rightarrow> cloudflare_metadata option option" where
  "assign_cloudflare None _ = None"
| "assign_cloudflare (Some _) JNull = Some None"
| "assign_cloudflare (Some p) (JObj ms) =
     (let old = (case p of None \<Rightarrow> \<lparr>cf_tunnel_id = [], cf_name = [], cf_account_id = [], cf_created_at = []\<rparr>
                 | Some m \<Rightarrow> m) in
      case (string_field_from (cf_tunnel_id old) ''tunnel_id'' ms, string_field_from (cf_name old) ''name'' ms,
            string_field_from (cf_account_id old) ''account_id'' ms,
            string_field_from (cf_created_at old) ''created_at'' ms) of
        (Some t, Some n, Some a, Some c) \<Rightarrow>
          Some (Some \<lparr>cf_tunnel_id = t, cf_name = n, cf_account_id = a, cf_created_at = c\<rparr>)
      | _ \<Rightarrow> None)"
| "assign_cloudflare (Some _) _ = None"

definition decode_runtime :: "json \<Rightarrow> (cloudflare_metadata option \<times> string) option" where
  "decode_runtime v = (case v of
     JNull \<Rightarrow> Some (None, [])
   | JObj ms \<Rightarrow>
       (case (foldl assign_cloudflare (Some None) (map snd (field_values ''cloudflare_tunnel'' ms)),
              string_field ''runtime_token'' ms) of
          (Some t, Some tok) \<Rightarrow> Some (t, tok)
        | _ \<Rightarrow> None)
   | _ \<Rightarrow> None)"

definition isRetryableManagedCloudflareStatus :: "int \<Rightarrow> bool" where
  "isRetryableManagedCloudflareStatus code \<longleftrightarrow> code = 429 \<or> (500 \<le> code \<and> code \<le> 599)"

definition managedCloudflareRetryWaitError :: "goerr \<Rightarrow> goerr" where
  "managedCloudflareRetryWaitError ctx_err =
     (if ctx_err \<noteq> nil_err
      then ErrText ''controlplane client: managed Cloudflare runtime retry wait'' # ctx_err
      else [ErrText ''controlplane client: managed Cloudflare runtime retry wait interrupted''])"

record fetch_env =
  fe_exchange :: "goerr + http_response"
  fe_now :: gotime
  fe_backoff :: duration
  fe_slept :: bool
  fe_ctx_err :: goerr

definition accept_runtime :: "http_response \<Rightarrow> goerr + cloudflare_runtime" where
  "accept_runtime resp = (case Option.bind (json_decode (hr_body resp)) decode_runtime of
     None \<Rightarrow> Inl [ErrText ''controlplane client: decode managed Cloudflare runtime response'']
   | Some (None, _) \<Rightarrow> Inl [ErrText ''controlplane client: invalid managed Cloudflare runtime response'']
   | Some (Some t, tok) \<Rightarrow>
       if trim_space (cf_tunnel_id t) = [] \<or> trim_space (cf_name t) = []
          \<or> trim_space (cf_account_id t) = [] \<or> trim_space tok = []
       then Inl [ErrText ''controlplane client: invalid managed Cloudflare runtime response'']
       else Inr \<lparr>cr_tunnel = t, cr_token = tok\<rparr>)"

text \<open>
  The loop of \<open>FetchManagedCloudflareTunnel\<close>: the result, the number of
  requests sent and the delays waited; \<open>n\<close> is the number of attempts left.
\<close>

fun fetch_loop :: "stdlib \<Rightarrow> (nat \<Rightarrow> fetch_env) \<Rightarrow> nat \<Rightarrow> nat \<Rightarrow>
    (goerr + cloudflare_runtime) \<times> nat \<times> duration list" where
  "fetch_loop lib env attempts 0 =
     (Inl [ErrText ''controlplane client: exhausted managed Cloudflare runtime retries''], 0, [])"
| "fetch_loop lib env attempts (Suc n) =
     (let attempt = attempts - n; e = env attempt;
          retry = (\<lambda>delay. if \<not> fe_slept e
                     then (Inl (managedCloudflareRetryWaitError (fe_ctx_err e)), 1, [delay])
                     else (case fetch_loop lib env attempts n of
                             (r, sent, delays) \<Rightarrow> (r, Suc sent, delay # delays)))
      in case fe_exchange e of
           Inl err \<Rightarrow>
             if attempt = attempts
             then (Inl [ErrText ''controlplane client: fetch managed Cloudflare runtime''], 1, [])
             else retry (fe_backoff e)
         | Inr resp \<Rightarrow>
             if hr_code resp < 200 \<or> hr_code resp \<ge> 300 then
               (let st = newSecretAPIStatusError lib
                      ''controlplane client: unexpected managed Cloudflare runtime status'' resp (fe_now e)
                in if \<not> isRetryableManagedCloudflareStatus (hr_code resp) \<or> attempt = attempts
                   then (Inl [APIStatus st], 1, [])
                   else retry (retryDelay (fe_backoff e) (ase_retry_after st) (ase_has_retry_after st)))
             else (accept_runtime resp, 1, []))"

definition fetch_attempts :: "int \<Rightarrow> nat" where
  "fetch_attempts configured = nat (if configured \<le> 0 then 3 else configured)"

text \<open>\<open>available\<close> is false for a client built without its secret transport.\<close>

definition FetchManagedCloudflareTunnel :: "stdlib \<Rightarrow> bool \<Rightarrow> goerr \<Rightarrow> int \<Rightarrow> (nat \<Rightarrow> fetch_env) \<Rightarrow>
    (goerr + cloudflare_runtime) \<times> nat \<times> duration list" where
  "FetchManagedCloudflareTunnel lib available build_err configured env =
     (if \<not> available then
        (Inl [ErrText ''controlplane client: managed Cloudflare runtime client is unavailable''], 0, [])
      else if build_err \<noteq> nil_err then
        (Inl [ErrText ''controlplane client: build managed Cloudflare runtime request''], 0, [])
      else fetch_loop lib env (fetch_attempts configured) (fetch_attempts configured))"

section \<open>Lemmas\<close>

lemma protected_mcp_info:
  assumes "canonical_header_key k = canonical_header_key MCPServerInfoHeaderName"
  shows "isProtectedControlPlaneHeader k"
proof -
  have c: "canonical_header_key MCPServerInfoHeaderName = ''X-Tunnel-Mcp-Server-Info''"
    by code_simp
  have "list_all header_name_byte k"
  proof (rule ccontr)
    assume "\<not> list_all header_name_byte k"
    then have "k = ''X-Tunnel-Mcp-Server-Info''"
      using assms c by (simp add: canonical_header_key_def)
    moreover have "list_all header_name_byte ''X-Tunnel-Mcp-Server-Info''" by code_simp
    ultimately show False using \<open>\<not> list_all header_name_byte k\<close> by simp
  qed
  then have "trim_space k = k"
    unfolding trim_space_def
    by (intro trim_by_none) (auto simp: list_all_iff dest: header_name_byte_not_space)
  moreover have "to_lower k = to_lower MCPServerInfoHeaderName"
    using arg_cong [OF assms, of to_lower] by (simp add: text_simps)
  ultimately show ?thesis by (simp add: isProtectedControlPlaneHeader_def equal_fold_def)
qed

lemma applyExtraHeaders_get:
  assumes "\<And>k. canonical_header_key k = canonical_header_key name \<Longrightarrow> isProtectedControlPlaneHeader k"
  shows "header_get (applyExtraHeaders extra h) name = header_get h name"
proof (induction extra arbitrary: h)
  case (Cons kv extra)
  show ?case
    using Cons.IH assms by (cases kv) (auto simp: applyExtraHeaders_def header_get_set)
qed (simp add: applyExtraHeaders_def)

lemma protected_canonical:
  "list_all (\<lambda>n. canonical_header_key n = n \<and> n \<noteq> ''Openai-Organization'') protected_names"
  by code_simp

lemma applyExtraHeaders_protected:
  "name \<in> set protected_names \<Longrightarrow> header_get (applyExtraHeaders extra h) name = header_get h name"
  using protected_canonical
  by (intro applyExtraHeaders_get) (auto simp: isProtectedControlPlaneHeader_def list_all_iff)

lemma organization_other:
  "name \<in> set protected_names \<Longrightarrow>
   header_get (header_set h ''OpenAI-Organization'' v) name = header_get h name"
proof -
  assume "name \<in> set protected_names"
  then have "canonical_header_key name \<noteq> ''Openai-Organization''"
    using protected_canonical by (auto simp: list_all_iff)
  moreover have "canonical_header_key ''OpenAI-Organization'' = ''Openai-Organization''" by code_simp
  ultimately show ?thesis by (simp add: header_get_set)
qed

lemma finish_headers_get:
  "name \<in> set protected_names \<Longrightarrow> header_get (finish_headers c h) name = header_get h name"
  by (simp add: finish_headers_def Let_def organization_other applyExtraHeaders_protected)

lemma finish_headers_info: "header_get (finish_headers c h) MCPServerInfoHeaderName = header_get h MCPServerInfoHeaderName"
proof -
  have "canonical_header_key MCPServerInfoHeaderName \<noteq> canonical_header_key ''OpenAI-Organization''"
    by code_simp
  then show ?thesis
    by (simp add: finish_headers_def Let_def header_get_set applyExtraHeaders_get protected_mcp_info)
qed

lemma canonical_names:
  "canonical_header_key ''Authorization'' = ''Authorization''"
  "canonical_header_key ''Accept'' = ''Accept''"
  "canonical_header_key ''User-Agent'' = ''User-Agent''"
  "canonical_header_key ''X-Tunnel-Client-Name'' = ''X-Tunnel-Client-Name''"
  "canonical_header_key ''X-Tunnel-Client-Version'' = ''X-Tunnel-Client-Version''"
  "canonical_header_key ''X-Tunnel-Client-Wire-Protocol-Version'' = ''X-Tunnel-Client-Wire-Protocol-Version''"
  "canonical_header_key ''X-Tunnel-Client-Instance-Id'' = ''X-Tunnel-Client-Instance-Id''"
  "canonical_header_key ''X-Tunnel-Shard-Token'' = ''X-Tunnel-Shard-Token''"
  "canonical_header_key ''X-Tunnel-Client-Capabilities'' = ''X-Tunnel-Client-Capabilities''"
  "canonical_header_key MCPServerInfoHeaderName = ''X-Tunnel-Mcp-Server-Info''"
  by code_simp+

lemma normalize_extra_keeps:
  "normalize_extra acc hs = Inr out \<Longrightarrow> map_of acc k = Some v \<Longrightarrow> map_of out k = Some v"
proof (induction acc hs rule: normalize_extra.induct)
  case (2 acc name w hs)
  show ?case
  proof (cases "map_of acc (canonical_header_key name)")
    case None
    with 2 show ?thesis by (auto simp: Let_def map_add_def split: if_splits)
  qed (use 2 in \<open>auto simp: Let_def split: if_splits\<close>)
qed simp

lemma normalize_extra_all:
  "normalize_extra acc hs = Inr out \<Longrightarrow> (name, v) \<in> set hs \<Longrightarrow>
   validHTTPHeaderFieldName name \<and> validHTTPHeaderFieldValue v \<and>
   map_of out (canonical_header_key name) = Some v"
proof (induction acc hs rule: normalize_extra.induct)
  case (2 acc n w hs)
  let ?k = "canonical_header_key n"
  from 2(3) have ok: "validHTTPHeaderFieldName n" "validHTTPHeaderFieldValue w"
    by (auto simp: Let_def split: if_splits)
  show ?case
  proof (cases "map_of acc ?k")
    case None
    with 2(3) ok have run: "normalize_extra (acc @ [(?k, w)]) hs = Inr out" by (simp add: Let_def)
    have "map_of out ?k = Some w"
      using normalize_extra_keeps [OF run, of ?k w] None by (simp add: map_add_def)
    then show ?thesis using 2(1) [OF _ refl _ None run] 2(4) ok by auto
  next
    case (Some existing)
    with 2(3) ok have run: "existing = w" "normalize_extra acc hs = Inr out"
      by (auto simp: Let_def split: if_splits)
    have "map_of out ?k = Some w"
      using normalize_extra_keeps [OF run(2), of ?k w] Some run(1) by simp
    then show ?thesis using 2(2) [OF _ refl _ Some _ run(2)] 2(4) ok run by auto
  qed
qed simp

text \<open>A response of another status than 2xx with its body removed.\<close>

definition scrub :: "fetch_env \<Rightarrow> fetch_env" where
  "scrub e = (case fe_exchange e of
     Inl _ \<Rightarrow> e
   | Inr resp \<Rightarrow> if hr_code resp < 200 \<or> hr_code resp \<ge> 300
                 then e\<lparr>fe_exchange := Inr (resp\<lparr>hr_body := \<lparr>hb_data = [], hb_err = nil_err\<rparr>\<rparr>)\<rparr> else e)"

lemma newSecret_scrub:
  "newSecretAPIStatusError lib p (resp\<lparr>hr_body := b\<rparr>) now = newSecretAPIStatusError lib p resp now"
  by (simp add: newSecretAPIStatusError_def)

lemma fetch_loop_scrub: "fetch_loop lib (\<lambda>k. scrub (env k)) attempts n = fetch_loop lib env attempts n"
proof (induction n)
  case (Suc n)
  then show ?case
    by (simp add: scrub_def Let_def newSecret_scrub split: sum.splits)
qed simp

lemma fetch_loop_sent: "fst (snd (fetch_loop lib env attempts n)) \<le> n"
  by (induction n) (auto simp: Let_def split: sum.splits prod.splits)

lemma fetch_loop_token:
  "fst (fetch_loop lib env attempts n) = Inr r \<Longrightarrow>
   trim_space (cr_token r) \<noteq> [] \<and> trim_space (cf_tunnel_id (cr_tunnel r)) \<noteq> [] \<and>
   trim_space (cf_name (cr_tunnel r)) \<noteq> [] \<and> trim_space (cf_account_id (cr_tunnel r)) \<noteq> []"
proof (induction n)
  case (Suc n)
  then show ?case
    by (auto simp: Let_def accept_runtime_def split: sum.splits prod.splits if_splits option.splits)
qed simp

section \<open>Properties\<close>

text \<open>
  Operator headers cannot replace what the client sends on its own
  account: whatever extra headers are configured, credential, shard token,
  user agent, instance, capabilities and MCP server info arrive as the client
  set them.
\<close>

theorem protected_headers_kept:
  assumes "RoundTrip_headers c (Inr token) info h = Inr h'"
  shows "header_get h' ''Authorization'' = ''Bearer '' @ token \<and>
         header_get h' ''X-Tunnel-Shard-Token'' = header_get h ''X-Tunnel-Shard-Token'' \<and>
         header_get h' ''User-Agent'' = crt_userAgent c \<and>
         header_get h' ''X-Tunnel-Client-Instance-Id'' = crt_instanceID c \<and>
         header_get h' ''X-Tunnel-Client-Capabilities'' =
           (if crt_traceContextEnabled c then Advertised @ '','' @ TraceContextV1 else Advertised) \<and>
         (\<forall>i. info = Some (Inr i) \<and> i \<noteq> [] \<longrightarrow> header_get h' MCPServerInfoHeaderName = i)"
proof -
  obtain g where h': "h' = finish_headers c g"
      and g: "header_get g ''Authorization'' = ''Bearer '' @ token"
        "header_get g ''X-Tunnel-Shard-Token'' = header_get h ''X-Tunnel-Shard-Token''"
        "header_get g ''User-Agent'' = crt_userAgent c"
        "header_get g ''X-Tunnel-Client-Instance-Id'' = crt_instanceID c"
        "header_get g ''X-Tunnel-Client-Capabilities'' =
           (if crt_traceContextEnabled c then Advertised @ '','' @ TraceContextV1 else Advertised)"
        "\<forall>i. info = Some (Inr i) \<and> i \<noteq> [] \<longrightarrow> header_get g MCPServerInfoHeaderName = i"
    using assms unfolding RoundTrip_headers_def Let_def
    by (cases info) (auto simp: header_get_set canonical_names split: sum.splits)
  show ?thesis by (simp add: h' finish_headers_get protected_names_def finish_headers_info g)
qed

definition example_tripper :: round_tripper where
  "example_tripper = \<lparr>crt_userAgent = ''ua'', crt_organizationID = ''org'', crt_version = ''1'',
     crt_instanceID = ''id'', crt_extraHeaders = [(''authorization'', ''stolen''), (''X-Extra'', ''e'')],
     crt_traceContextEnabled = False\<rparr>"

theorem protected_headers_kept_witness:
  "\<exists>h'. RoundTrip_headers example_tripper (Inr ''key'') None [] = Inr h' \<and>
        header_get h' ''Authorization'' = ''Bearer key'' \<and> header_get h' ''X-Extra'' = ''e''"
proof -
  obtain h' where h': "RoundTrip_headers example_tripper (Inr ''key'') None [] = Inr h'"
    by (simp add: RoundTrip_headers_def Let_def)
  have "header_get (projr (RoundTrip_headers example_tripper (Inr ''key'') None [])) ''X-Extra'' = ''e''"
    by code_simp
  with protected_headers_kept [OF h'] h' show ?thesis by simp
qed

text \<open>
  The bearer credential of a request cannot break its header: a token that
  passes is not empty and holds no control character.
\<close>

theorem bearer_token_safe:
  assumes "BearerToken apiKey provider = Inr token"
  shows "token \<noteq> [] \<and> validHTTPHeaderFieldValue token"
proof -
  have byte: "32 \<le> (of_char c :: nat) \<and> (of_char c :: nat) \<noteq> 127" if "bearer_byte c \<or> c = CHR ''=''" for c
    using that by (auto simp: bearer_byte_def key_byte_def is_digit_def Let_def)
  have "token \<noteq> [] \<and> (\<forall>c \<in> set token. bearer_byte c \<or> c = CHR ''='')"
  proof (cases provider)
    case None
    then have "controlPlaneAPIKeyPattern token"
      using assms by (auto simp: BearerToken_def ValidateControlPlaneAPIKey_def split: if_splits)
    then show ?thesis by (auto simp: controlPlaneAPIKeyPattern_def bearer_byte_def list_all_iff)
  next
    case (Some r)
    then have pat: "bearerTokenPattern token"
      using assms by (auto simp: BearerToken_def split: sum.splits if_splits)
    have "set token = set (takeWhile bearer_byte token @ dropWhile bearer_byte token)" by simp
    then have "set token = set (takeWhile bearer_byte token) \<union> set (dropWhile bearer_byte token)"
      by (simp only: set_append)
    moreover have "token \<noteq> []" using pat by (auto simp: bearerTokenPattern_def)
    ultimately show ?thesis
      using pat by (auto simp: bearerTokenPattern_def list_all_iff dest: set_takeWhileD)
  qed
  then show ?thesis
    using byte by (fastforce simp: validHTTPHeaderFieldValue_def list_all_iff)
qed

theorem bearer_token_safe_witness: "validHTTPHeaderFieldValue ''a.b=''"
proof -
  have "BearerToken [] (Some (Inr ''a.b='')) = Inr ''a.b=''" by code_simp
  from bearer_token_safe [OF this] show ?thesis by blast
qed

text \<open>
  Normalizing operator headers loses and changes nothing: when it
  succeeds, every configured header is valid and its value is the one stored
  under its canonical name, in whatever order the map is read; two spellings of
  one name with different values are refused.
\<close>

theorem normalized_headers_faithful:
  assumes "NormalizeExtraHeaders headers = Inr out" and "(name, v) \<in> set headers"
  shows "validHTTPHeaderFieldName name \<and> validHTTPHeaderFieldValue v \<and>
         map_of out (canonical_header_key name) = Some v"
  using assms by (simp add: NormalizeExtraHeaders_def normalize_extra_all)

theorem normalized_headers_faithful_witness:
  "NormalizeExtraHeaders [(''x-a'', ''1''), (''X-A'', ''1'')] = Inr [(''X-A'', ''1'')] \<and>
   map_of [(''X-A'', ''1'')] (canonical_header_key ''x-a'') = Some ''1''"
proof -
  have "NormalizeExtraHeaders [(''x-a'', ''1''), (''X-A'', ''1'')] = Inr [(''X-A'', ''1'')]" by code_simp
  with normalized_headers_faithful [OF this, of "''x-a''" "''1''"] show ?thesis by simp
qed

text \<open>
  The runtime-token endpoint leaks no response body through errors: the
  outcome, its errors, the number of requests and the waits are the same when
  the bodies of all responses of another status than 2xx are removed.
\<close>

theorem secret_bodies_do_not_matter:
  "FetchManagedCloudflareTunnel lib available build_err configured (\<lambda>k. scrub (env k)) =
   FetchManagedCloudflareTunnel lib available build_err configured env"
  by (simp add: FetchManagedCloudflareTunnel_def fetch_loop_scrub)

text \<open>
  A fetched runtime is complete: it comes with a token, tunnel, name and
  account that are not blank, after no more requests than the configured
  attempts.
\<close>

theorem fetched_runtime_complete:
  assumes "FetchManagedCloudflareTunnel lib available build_err configured env = (Inr r, sent, delays)"
  shows "trim_space (cr_token r) \<noteq> [] \<and> trim_space (cf_tunnel_id (cr_tunnel r)) \<noteq> [] \<and>
         trim_space (cf_name (cr_tunnel r)) \<noteq> [] \<and> trim_space (cf_account_id (cr_tunnel r)) \<noteq> [] \<and>
         sent \<le> fetch_attempts configured"
proof -
  have "fetch_loop lib env (fetch_attempts configured) (fetch_attempts configured) = (Inr r, sent, delays)"
    using assms by (auto simp: FetchManagedCloudflareTunnel_def split: if_splits)
  then show ?thesis
    using fetch_loop_token [of lib env "fetch_attempts configured" "fetch_attempts configured" r]
      fetch_loop_sent [of lib env "fetch_attempts configured" "fetch_attempts configured"]
    by simp
qed

definition example_fetch :: "nat \<Rightarrow> fetch_env" where
  \<open>example_fetch k = \<lparr>fe_exchange = (if k = 1 then Inl [EOF] else Inr \<lparr>hr_code = 200, hr_status = [],
       hr_header = [], hr_body = \<lparr>hb_data =
         ''{"cloudflare_tunnel":{"tunnel_id":"t","name":"n","account_id":"a"},"runtime_token":"k"}'',
         hb_err = []\<rparr>\<rparr>),
     fe_now = 0, fe_backoff = 1, fe_slept = True, fe_ctx_err = []\<rparr>\<close>

definition example_runtime :: cloudflare_runtime where
  "example_runtime = \<lparr>cr_tunnel = \<lparr>cf_tunnel_id = ''t'', cf_name = ''n'', cf_account_id = ''a'',
     cf_created_at = []\<rparr>, cr_token = ''k''\<rparr>"

theorem fetched_runtime_complete_witness:
  "FetchManagedCloudflareTunnel example_lib True [] 0 example_fetch = (Inr example_runtime, 2, [1]) \<and>
   2 \<le> fetch_attempts 0"
proof -
  have acc: "accept_runtime (projr (fe_exchange (example_fetch 2))) = Inr example_runtime" by code_simp
  have r: "FetchManagedCloudflareTunnel example_lib True [] 0 example_fetch = (Inr example_runtime, 2, [1])"
    using acc by (simp add: FetchManagedCloudflareTunnel_def fetch_attempts_def numeral_eq_Suc example_fetch_def)
  with fetched_runtime_complete [OF r] show ?thesis by simp
qed

end
