(* ===== verification/Poller.thy ===== *)
theory Poller
  imports Commands Health Retry
begin

text \<open>
  The polling loop (\<open>pkg/controlplane/internal/poller.go\<close>) and the queue
  between poller and dispatcher (\<open>queueAdapter\<close> in
  \<open>pkg/controlplane/fx/fxmodule.go\<close> over a Go channel).

  One iteration of the loop is a function of the state and of what the
  iteration meets: the fetcher's answer, how far the dispatcher has drained the
  queue, and where the context ends. Runs are lists of such environments.
\<close>

section \<open>The command queue\<close>

text \<open>
  A buffered channel: its capacity, the commands in it, and, for the proofs,
  the commands received from it and all commands ever sent to it.
\<close>

record command_queue =
  cq_cap :: nat
  cq_buf :: "polled_command list"
  cq_taken :: "polled_command list"
  cq_sent :: "polled_command list"

definition new_queue :: "nat \<Rightarrow> command_queue" where
  "new_queue n = \<lparr>cq_cap = n, cq_buf = [], cq_taken = [], cq_sent = []\<rparr>"

definition Capacity :: "command_queue \<Rightarrow> int" where
  "Capacity q = int (cq_cap q)"

definition Length :: "command_queue \<Rightarrow> int" where
  "Length q = int (length (cq_buf q))"

text \<open>The dispatcher receives the first \<open>n\<close> commands.\<close>

definition take_commands :: "nat \<Rightarrow> command_queue \<Rightarrow> command_queue" where
  "take_commands n q = q\<lparr>cq_taken := cq_taken q @ take n (cq_buf q), cq_buf := drop n (cq_buf q)\<rparr>"

text \<open>
  One attempt to send: whether the context has ended when the loop looks at it,
  how many commands the dispatcher takes meanwhile, and whether the select
  leaves through the context. A send into a full channel waits until the
  dispatcher has taken a command; an unbuffered channel hands over directly.
\<close>

record send_try =
  st_ctx_done :: bool
  st_taken :: nat
  st_closed :: bool
  st_now :: gotime

definition Enqueue :: "command_queue \<Rightarrow> send_try \<Rightarrow> polled_command \<Rightarrow> command_queue \<times> bool" where
  "Enqueue q t cmd =
     (let q1 = take_commands (st_taken t) q in
      if st_closed t then (q1, False)
      else if cq_cap q = 0 then
        (q1\<lparr>cq_taken := cq_taken q1 @ [cmd], cq_sent := cq_sent q1 @ [cmd]\<rparr>, True)
      else
        (let q2 = (if length (cq_buf q1) < cq_cap q1 then q1 else take_commands 1 q1)
         in (q2\<lparr>cq_buf := cq_buf q2 @ [cmd], cq_sent := cq_sent q2 @ [cmd]\<rparr>, True)))"

definition queue_ok :: "command_queue \<Rightarrow> bool" where
  "queue_ok q \<longleftrightarrow> cq_taken q @ cq_buf q = cq_sent q \<and> length (cq_buf q) \<le> cq_cap q"

section \<open>The poller\<close>

definition defaultQueueFullDelay :: duration where
  "defaultQueueFullDelay = milliseconds 100"

definition defaultBackoffMin :: duration where
  "defaultBackoffMin = milliseconds 200"

definition defaultBackoffMax :: duration where
  "defaultBackoffMax = seconds 10"

definition maxPollBatchSize :: int where
  "maxPollBatchSize = 25"

record poller =
  po_queue :: command_queue
  po_qhealth :: queue_health
  po_health :: poll_health
  po_hadPollError :: bool
  po_backoff :: nat                  \<comment> \<open>delays drawn since the last reset\<close>
  po_pollTimeout :: duration
  po_pollGuardrail :: duration
  po_polled :: nat
  po_enqueued :: nat
  po_droppedInvalid :: nat
  po_droppedClosed :: nat
  po_pollErrors :: nat
  po_ages :: "duration list"
  po_retryDelays :: "duration list"

definition NewPoller :: "command_queue \<Rightarrow> duration \<Rightarrow> duration \<Rightarrow> poller" where
  "NewPoller q pollTimeout guardrail =
     (let t = PollTimeoutOrDefault pollTimeout; g = PollDeadlineGuardrailOrDefault guardrail in
      \<lparr>po_queue = q, po_qhealth = NewQueueHealth,
       po_health = NewPollHealth t (PollDeadlineTimeoutOrDefault t g),
       po_hadPollError = False, po_backoff = 0, po_pollTimeout = t, po_pollGuardrail = g,
       po_polled = 0, po_enqueued = 0, po_droppedInvalid = 0, po_droppedClosed = 0,
       po_pollErrors = 0, po_ages = [], po_retryDelays = []\<rparr>)"

definition availableSlots :: "command_queue \<Rightarrow> int" where
  "availableSlots q =
     (let capacity = Capacity q in
      if capacity = 0 then 1
      else let available = capacity - Length q in if available < 0 then 0 else available)"

definition pollLimit :: "int \<Rightarrow> int" where
  "pollLimit available = (if available > maxPollBatchSize then maxPollBatchSize else available)"

definition waitForQueue :: "poller \<Rightarrow> gotime \<Rightarrow> gotime \<Rightarrow> bool \<Rightarrow> poller \<times> bool" where
  "waitForQueue p start stop ctx_done =
     (let h = Backpressured (po_health p) start;
          q = Backpressure (Backpressure (po_qhealth p) start True) stop False
      in (p\<lparr>po_health := h, po_qhealth := q\<rparr>, \<not> ctx_done))"

text \<open>The delay handed to the sleep; \<open>slept\<close> says whether it ran to its end.\<close>

definition waitForRetry :: "duration \<Rightarrow> bool \<Rightarrow> duration \<times> bool" where
  "waitForRetry d slept = (if d \<le> 0 then defaultBackoffMin else d, slept)"

definition pollErrorKind :: "goerr \<Rightarrow> string" where
  "pollErrorKind e =
     (if errors_is e DeadlineExceeded then ''timeout''
      else if errors_is e Canceled then ''context_canceled''
      else if net_timeout e then ''timeout''
      else ''other'')"

definition recordCommandAge :: "poller \<Rightarrow> polled_command \<Rightarrow> poller" where
  "recordCommandAge p cmd =
     (let enqueuedAt = bc_enqueued (command_base cmd); polledAt = bc_polled_at (command_base cmd) in
      if enqueuedAt = 0 \<or> polledAt = 0 then p
      else let age = time_sub polledAt enqueuedAt in
        if age < 0 then p else p\<lparr>po_ages := po_ages p @ [age]\<rparr>)"

text \<open>
  \<open>enqueueWithBackpressure\<close> over the adapter: a send that fails has met the
  end of the context, so the wait that follows ends with it and the loop stops.
\<close>

definition enqueueWithBackpressure :: "poller \<Rightarrow> send_try \<Rightarrow> polled_command \<Rightarrow> poller \<times> bool" where
  "enqueueWithBackpressure p t cmd =
     (if st_ctx_done t then (p, False)
      else case Enqueue (po_queue p) t cmd of
        (q, True) \<Rightarrow> (p\<lparr>po_queue := q, po_qhealth := Enqueued (po_qhealth p) (st_now t)\<rparr>, True)
      | (q, False) \<Rightarrow> waitForQueue (p\<lparr>po_queue := q\<rparr>) (st_now t) (st_now t) True)"

definition enqueue_command :: "poller \<Rightarrow> send_try \<Rightarrow> polled_command \<Rightarrow> poller \<times> bool" where
  "enqueue_command p t cmd = enqueueWithBackpressure (recordCommandAge p cmd) t cmd"

text \<open>
  The loop over the commands of one poll, over the queue interface: the new
  state, and how many commands were sent, had no type, or met a closed context.
\<close>

fun publish :: "('q \<Rightarrow> 't \<Rightarrow> 'c \<Rightarrow> 'q \<times> bool) \<Rightarrow> ('c \<Rightarrow> bool) \<Rightarrow> (nat \<Rightarrow> 't) \<Rightarrow> nat \<Rightarrow> 'q \<Rightarrow> 'c list \<Rightarrow>
    'q \<times> nat \<times> nat \<times> nat" where
  "publish enq typed tries idx q [] = (q, 0, 0, 0)"
| "publish enq typed tries idx q (c # cs) =
     (if \<not> typed c then
        (case publish enq typed tries (Suc idx) q cs of
           (q', enqueued, invalid, closed) \<Rightarrow> (q', enqueued, Suc invalid, closed))
      else case enq q (tries idx) c of
        (q', True) \<Rightarrow>
          (case publish enq typed tries (Suc idx) q' cs of
             (q'', enqueued, invalid, closed) \<Rightarrow> (q'', Suc enqueued, invalid, closed))
      | (q', False) \<Rightarrow>
          (q', 0, length (filter (\<lambda>r. \<not> typed r) cs), Suc (length (filter typed cs))))"

definition is_typed :: "polled_command \<Rightarrow> bool" where
  "is_typed c \<longleftrightarrow> commandType c \<noteq> []"

record iteration =
  it_ctx_done :: bool
  it_drained :: nat
  it_queue_closed :: bool
  it_start :: gotime
  it_stop :: gotime
  it_poll :: "int \<Rightarrow> polled_command list \<times> string \<times> goerr"   \<comment> \<open>the fetcher's answer to a limit\<close>
  it_ctx_err :: goerr
  it_backoff :: "nat \<Rightarrow> duration"                              \<comment> \<open>the delay of the n-th failure in a row\<close>
  it_slept :: bool
  it_tries :: "nat \<Rightarrow> send_try"

definition failed_iteration :: "poller \<Rightarrow> iteration \<Rightarrow> goerr \<Rightarrow> poller \<times> bool" where
  "failed_iteration p it err =
     (if it_ctx_err it \<noteq> nil_err \<and> errors_is err Canceled then (p, False)
      else
        (let drawn = it_backoff it (po_backoff p);
             delay = (case as_api_status err of
                        None \<Rightarrow> drawn
                      | Some st \<Rightarrow> retryDelay drawn (ase_retry_after st) (ase_has_retry_after st));
             (category, code) = healthFailure err;
             (slept_for, woke) = waitForRetry delay (it_slept it)
         in (p\<lparr>po_hadPollError := True, po_pollErrors := Suc (po_pollErrors p),
               po_backoff := Suc (po_backoff p),
               po_health := Failed (po_health p) (it_stop it) category code delay,
               po_retryDelays := po_retryDelays p @ [slept_for]\<rparr>, woke)))"

definition poll_iteration :: "poller \<Rightarrow> iteration \<Rightarrow> poller \<times> bool" where
  "poll_iteration p it =
     (if it_ctx_done it then (p, False)
      else
        (let p0 = p\<lparr>po_queue := take_commands (it_drained it) (po_queue p)\<rparr>;
             available = availableSlots (po_queue p0)
         in if available \<le> 0 then waitForQueue p0 (it_start it) (it_stop it) (it_queue_closed it)
            else
              (let p1 = p0\<lparr>po_health := StartAttempt (po_health p0) (it_start it)\<rparr>
               in case it_poll it (pollLimit available) of
                    (commands, requestID, err) \<Rightarrow>
                      if err \<noteq> nil_err then failed_iteration p1 it err
                      else
                        (let p2 = p1\<lparr>po_hadPollError := False, po_backoff := 0,
                                     po_health := Succeeded (po_health p1) (it_stop it)\<rparr>
                         in if commands = [] then (p2, True)
                            else (case publish enqueue_command is_typed (it_tries it) 0 p2 commands of
                                    (p3, enqueued, invalid, closed) \<Rightarrow>
                                      (p3\<lparr>po_polled := po_polled p3 + length commands,
                                          po_enqueued := po_enqueued p3 + enqueued,
                                          po_droppedInvalid := po_droppedInvalid p3 + invalid,
                                          po_droppedClosed := po_droppedClosed p3 + closed\<rparr>, True))))))"

fun poller_run :: "poller \<Rightarrow> iteration list \<Rightarrow> poller" where
  "poller_run p [] = p"
| "poller_run p (it # its) =
     (case poll_iteration p it of
        (p', True) \<Rightarrow> poller_run p' its
      | (p', False) \<Rightarrow> p'\<lparr>po_health := Poll_Stopped (po_health p') (it_stop it)\<rparr>)"

section \<open>The queue interface\<close>

text \<open>What the poller relies on: a send that succeeds appends the command, one that fails adds nothing.\<close>

locale send_queue =
  fixes enq :: "'q \<Rightarrow> 't \<Rightarrow> 'c \<Rightarrow> 'q \<times> bool"
    and sent :: "'q \<Rightarrow> 'c list"
    and ok :: "'q \<Rightarrow> bool"
  assumes enq_ok: "ok q \<Longrightarrow> ok (fst (enq q t c))"
    and enq_sent: "sent (fst (enq q t c)) = sent q @ (if snd (enq q t c) then [c] else [])"
begin

lemma publish_counts:
  "publish enq typed tries idx q cs = (q', e, i, x) \<Longrightarrow>
     e + i + x = length cs \<and> i = length (filter (\<lambda>c. \<not> typed c) cs) \<and>
     sent q' = sent q @ take e (filter typed cs)"
proof (induction cs arbitrary: idx q q' e i x)
  case (Cons c cs)
  show ?case
  proof (cases "typed c")
    case False
    then show ?thesis using Cons by (auto split: prod.splits)
  next
    case True
    obtain q1 b where step: "enq q (tries idx) c = (q1, b)" by fastforce
    have sent1: "sent q1 = sent q @ (if b then [c] else [])"
      using enq_sent [of q "tries idx" c] step by simp
    show ?thesis
    proof (cases b)
      case False
      with True step Cons.prems sent1 show ?thesis
        using sum_length_filter_compl [of typed cs] by auto
    next
      case b: True
      obtain q2 e2 i2 x2 where rest: "publish enq typed tries (Suc idx) q1 cs = (q2, e2, i2, x2)"
        by (metis prod_cases4)
      with True b step Cons.prems have "q' = q2" "e = Suc e2" "i = i2" "x = x2" by auto
      with Cons.IH [OF rest] True b sent1 show ?thesis by auto
    qed
  qed
qed simp

lemma publish_ok: "ok q \<Longrightarrow> ok (fst (publish enq typed tries idx q cs))"
proof (induction cs arbitrary: idx q)
  case (Cons c cs)
  have "ok (fst (enq q (tries idx) c))" using enq_ok Cons.prems .
  with Cons show ?case by (auto split: prod.splits bool.splits) (metis fst_conv)+
qed simp

lemma publish_open:
  "\<lbrakk>\<And>q k c. snd (enq q (tries k) c); publish enq typed tries idx q cs = (q', e, i, x)\<rbrakk> \<Longrightarrow> x = 0"
proof (induction cs arbitrary: idx q q' e i x)
  case (Cons c cs)
  obtain q1 where "enq q (tries idx) c = (q1, True)"
    using Cons.prems(1) [of q idx c] by (metis prod.collapse)
  with Cons show ?case by (auto split: prod.splits if_splits)
qed simp

end

lemma take_commands_ok: "queue_ok q \<Longrightarrow> queue_ok (take_commands n q)"
  by (auto simp: queue_ok_def take_commands_def)

lemma take_commands_simps [simp]:
  "cq_sent (take_commands n q) = cq_sent q" "cq_cap (take_commands n q) = cq_cap q"
  by (simp_all add: take_commands_def)

lemma Enqueue_ok: "queue_ok q \<Longrightarrow> queue_ok (fst (Enqueue q t c))"
proof -
  assume "queue_ok q"
  then have q1: "queue_ok (take_commands (st_taken t) q)" by (rule take_commands_ok)
  then have "queue_ok (take_commands 1 (take_commands (st_taken t) q))" by (rule take_commands_ok)
  with q1 show ?thesis
    by (auto simp: Enqueue_def Let_def queue_ok_def take_commands_def)
qed

lemma Enqueue_sent: "cq_sent (fst (Enqueue q t c)) = cq_sent q @ (if snd (Enqueue q t c) then [c] else [])"
  by (simp add: Enqueue_def Let_def)

interpretation channel: send_queue Enqueue cq_sent queue_ok
  by unfold_locales (rule Enqueue_ok, assumption, rule Enqueue_sent)

text \<open>The poller state as a queue: its own part of the law comes from the channel's.\<close>

lemma recordCommandAge_simps [simp]:
  "po_queue (recordCommandAge p c) = po_queue p" "po_polled (recordCommandAge p c) = po_polled p"
  "po_enqueued (recordCommandAge p c) = po_enqueued p"
  "po_droppedInvalid (recordCommandAge p c) = po_droppedInvalid p"
  "po_droppedClosed (recordCommandAge p c) = po_droppedClosed p"
  by (simp_all add: recordCommandAge_def Let_def)

lemma waitForQueue_simps [simp]:
  "po_queue (fst (waitForQueue p a b d)) = po_queue p" "po_polled (fst (waitForQueue p a b d)) = po_polled p"
  "po_enqueued (fst (waitForQueue p a b d)) = po_enqueued p"
  "po_droppedInvalid (fst (waitForQueue p a b d)) = po_droppedInvalid p"
  "po_droppedClosed (fst (waitForQueue p a b d)) = po_droppedClosed p"
  "snd (waitForQueue p a b d) = (\<not> d)"
  by (simp_all add: waitForQueue_def Let_def)

definition counters :: "poller \<Rightarrow> nat \<times> nat \<times> nat \<times> nat" where
  "counters p = (po_polled p, po_enqueued p, po_droppedInvalid p, po_droppedClosed p)"

lemma enqueue_command_counters: "counters (fst (enqueue_command p t c)) = counters p"
  by (auto simp: enqueue_command_def enqueueWithBackpressure_def counters_def split: prod.splits bool.splits)

lemma enqueue_command_ok: "queue_ok (po_queue p) \<Longrightarrow> queue_ok (po_queue (fst (enqueue_command p t c)))"
  using channel.enq_ok [of "po_queue p" t c]
  by (auto simp: enqueue_command_def enqueueWithBackpressure_def split: prod.splits bool.splits)

lemma enqueue_command_sent:
  "cq_sent (po_queue (fst (enqueue_command p t c))) =
     cq_sent (po_queue p) @ (if snd (enqueue_command p t c) then [c] else [])"
  using channel.enq_sent [of "po_queue p" t c]
  by (auto simp: enqueue_command_def enqueueWithBackpressure_def split: prod.splits bool.splits)

interpretation publisher: send_queue enqueue_command "\<lambda>p. cq_sent (po_queue p)" "\<lambda>p. queue_ok (po_queue p)"
  by unfold_locales (rule enqueue_command_ok, assumption, rule enqueue_command_sent)

interpretation publisher_counters:
  send_queue enqueue_command "\<lambda>p. cq_sent (po_queue p)" "\<lambda>p. counters p = k"
  by unfold_locales (simp add: enqueue_command_counters, rule enqueue_command_sent)

definition poller_ok :: "poller \<Rightarrow> bool" where
  "poller_ok p \<longleftrightarrow> queue_ok (po_queue p) \<and> length (cq_sent (po_queue p)) = po_enqueued p \<and>
     po_polled p = po_enqueued p + po_droppedInvalid p + po_droppedClosed p"

lemma publish_step:
  assumes "publish enqueue_command is_typed tries 0 p cs = (p', e, i, x)"
  shows "counters p' = counters p" and "queue_ok (po_queue p) \<Longrightarrow> queue_ok (po_queue p')"
    and "e + i + x = length cs"
    and "cq_sent (po_queue p') = cq_sent (po_queue p) @ take e (filter is_typed cs)"
    and "e \<le> length (filter is_typed cs)"
proof -
  show "counters p' = counters p"
    using publisher_counters.publish_ok [of p "counters p" is_typed tries 0 cs] assms by simp
  show "queue_ok (po_queue p')" if "queue_ok (po_queue p)"
    using publisher.publish_ok [OF that, of is_typed tries 0 cs] assms by simp
  note facts = publisher.publish_counts [OF assms]
  then show "e + i + x = length cs"
    "cq_sent (po_queue p') = cq_sent (po_queue p) @ take e (filter is_typed cs)" by blast+
  from facts show "e \<le> length (filter is_typed cs)"
    using sum_length_filter_compl [of is_typed cs] by linarith
qed

lemma failed_iteration_ok: "poller_ok (fst (failed_iteration p it err)) = poller_ok p"
  by (simp add: failed_iteration_def poller_ok_def waitForRetry_def Let_def split: prod.splits)

lemma poll_iteration_ok:
  assumes "poller_ok p"
  shows "poller_ok (fst (poll_iteration p it))"
proof -
  let ?p0 = "p\<lparr>po_queue := take_commands (it_drained it) (po_queue p)\<rparr>"
  let ?p1 = "?p0\<lparr>po_health := StartAttempt (po_health ?p0) (it_start it)\<rparr>"
  let ?p2 = "?p1\<lparr>po_hadPollError := False, po_backoff := 0,
                 po_health := Succeeded (po_health ?p1) (it_stop it)\<rparr>"
  have p0: "poller_ok ?p0" using assms by (simp add: poller_ok_def take_commands_ok)
  then have p1: "poller_ok ?p1" and p2: "poller_ok ?p2" by (simp_all add: poller_ok_def)
  obtain cmds rid err where poll:
      "it_poll it (pollLimit (availableSlots (po_queue ?p0))) = (cmds, rid, err)"
    by (metis prod_cases3)
  obtain p3 e i x where pub: "publish enqueue_command is_typed (it_tries it) 0 ?p2 cmds = (p3, e, i, x)"
    by (metis prod_cases4)
  note s = publish_step [OF pub]
  have p3: "poller_ok (p3\<lparr>po_polled := po_polled p3 + length cmds, po_enqueued := po_enqueued p3 + e,
      po_droppedInvalid := po_droppedInvalid p3 + i, po_droppedClosed := po_droppedClosed p3 + x\<rparr>)"
    using p2 s by (simp add: poller_ok_def counters_def)
  show ?thesis
    using assms p0 p1 p2 p3 poll pub
    by (simp add: poll_iteration_def Let_def failed_iteration_ok)
       (simp add: poller_ok_def)
qed

lemma poller_run_ok: "poller_ok p \<Longrightarrow> poller_ok (poller_run p its)"
proof (induction its arbitrary: p)
  case (Cons it its)
  obtain p' b where it: "poll_iteration p it = (p', b)" by fastforce
  then have "poller_ok p'" using poll_iteration_ok [OF Cons.prems, of it] by simp
  moreover from this have "poller_ok (p'\<lparr>po_health := h\<rparr>)" for h by (simp add: poller_ok_def)
  ultimately show ?case using Cons.IH it by (cases b) simp_all
qed simp

lemma poller_from_start: "poller_ok (poller_run (NewPoller (new_queue n) timeout guardrail) its)"
  by (rule poller_run_ok) (simp add: poller_ok_def NewPoller_def new_queue_def queue_ok_def Let_def)

section \<open>Properties\<close>

text \<open>
  Nothing the poller pulls gets lost unnoticed: over every run, the
  commands polled are the ones enqueued, plus the ones dropped for want of a
  type, plus the ones dropped because the client was shutting down; the
  dispatcher receives the enqueued ones in order, each once, and the channel
  never holds more than its capacity.
\<close>

theorem poller_accounts_for_every_command:
  "poller_ok (poller_run (NewPoller (new_queue n) timeout guardrail) its)"
  by (rule poller_from_start)

text \<open>
  While the context is open, an iteration that polls successfully enqueues
  every typed command it pulled, in the order of the response, even when the
  service sent more than there was room for.
\<close>

theorem open_iteration_enqueues_all:
  assumes "\<not> it_ctx_done it" and "\<forall>k. \<not> st_ctx_done (it_tries it k) \<and> \<not> st_closed (it_tries it k)"
    and "0 < availableSlots (take_commands (it_drained it) (po_queue p))"
    and "it_poll it (pollLimit (availableSlots (take_commands (it_drained it) (po_queue p)))) = (cmds, rid, nil_err)"
  shows "cq_sent (po_queue (fst (poll_iteration p it))) = cq_sent (po_queue p) @ filter is_typed cmds \<and>
         snd (poll_iteration p it)"
proof -
  let ?p0 = "p\<lparr>po_queue := take_commands (it_drained it) (po_queue p)\<rparr>"
  let ?p1 = "?p0\<lparr>po_health := StartAttempt (po_health ?p0) (it_start it)\<rparr>"
  let ?p2 = "?p1\<lparr>po_hadPollError := False, po_backoff := 0,
                 po_health := Succeeded (po_health ?p1) (it_stop it)\<rparr>"
  obtain p3 e i x where pub: "publish enqueue_command is_typed (it_tries it) 0 ?p2 cmds = (p3, e, i, x)"
    by (metis prod_cases4)
  have "snd (enqueue_command q (it_tries it k) c)" for q k c
    using assms(2) by (auto simp: enqueue_command_def enqueueWithBackpressure_def Enqueue_def Let_def)
  then have "x = 0" using publisher.publish_open [OF _ pub] by blast
  then have "e = length (filter is_typed cmds)"
    using publisher.publish_counts [OF pub] sum_length_filter_compl [of is_typed cmds] by simp
  then have sent: "cq_sent (po_queue p3) = cq_sent (po_queue p) @ filter is_typed cmds"
    using publish_step(4) [OF pub] by simp
  then show ?thesis
    using assms(1,3,4) pub by (simp add: poll_iteration_def Let_def)
qed

definition example_iteration :: iteration where
  "example_iteration = \<lparr>it_ctx_done = False, it_drained = 0, it_queue_closed = False, it_start = 1, it_stop = 2,
     it_poll = (\<lambda>_. ([OauthDiscoveryCommand example_base, UntypedCommand example_base,
                      OauthDiscoveryCommand example_base], ''id'', [])),
     it_ctx_err = [], it_backoff = (\<lambda>_. milliseconds 200), it_slept = True,
     it_tries = (\<lambda>_. \<lparr>st_ctx_done = False, st_taken = 0, st_closed = False, st_now = 3\<rparr>)\<rparr>"

theorem open_iteration_enqueues_all_witness:
  "cq_sent (po_queue (fst (poll_iteration (NewPoller (new_queue 1) 0 0) example_iteration))) =
     [OauthDiscoveryCommand example_base, OauthDiscoveryCommand example_base]"
proof -
  have q: "po_queue (NewPoller (new_queue 1) 0 0) = new_queue 1" by (simp add: NewPoller_def Let_def)
  have slots: "availableSlots (take_commands (it_drained example_iteration) (new_queue 1)) = 1"
    by (simp add: example_iteration_def availableSlots_def Capacity_def Length_def new_queue_def
        take_commands_def Let_def)
  show ?thesis
    using open_iteration_enqueues_all [of example_iteration "NewPoller (new_queue 1) 0 0", unfolded q slots]
    by (simp add: example_iteration_def new_queue_def is_typed_def)
qed

text \<open>
  The limit of a poll is at least one, at most 25, and no more than the
  free slots of a buffered queue.
\<close>

theorem poll_limit_bounds:
  assumes "0 < availableSlots q"
  shows "1 \<le> pollLimit (availableSlots q) \<and> pollLimit (availableSlots q) \<le> maxPollBatchSize \<and>
         (cq_cap q = 0 \<or> pollLimit (availableSlots q) \<le> Capacity q - Length q)"
  using assms
  by (auto simp: pollLimit_def maxPollBatchSize_def availableSlots_def Capacity_def Let_def split: if_splits)

theorem poll_limit_bounds_witness: "pollLimit (availableSlots (new_queue 40)) \<le> maxPollBatchSize"
  using poll_limit_bounds [of "new_queue 40"]
  by (simp add: availableSlots_def Capacity_def Length_def new_queue_def)

text \<open>
  A failed poll backs off and goes on: unless the client is shutting down,
  the wait is positive, at least the backoff delay and at least a
  \<open>Retry-After\<close> hint of the service; the health shows the failure with its
  bounded category, and the next backoff delay is a later one of the sequence
  until a poll succeeds.
\<close>

theorem failed_poll_backs_off:
  assumes "err \<noteq> nil_err" and "\<not> (it_ctx_err it \<noteq> nil_err \<and> errors_is err Canceled)"
    and "failed_iteration p it err = (p', continue)"
  shows "continue = it_slept it \<and> po_hadPollError p' \<and> po_backoff p' = Suc (po_backoff p) \<and>
         cs_status (Poll_Snapshot (po_health p') now) = StatusDegraded \<and>
         (\<exists>d. po_retryDelays p' = po_retryDelays p @ [d] \<and> 0 < d \<and> it_backoff it (po_backoff p) \<le> d \<and>
            (\<forall>st. as_api_status err = Some st \<and> ase_has_retry_after st \<longrightarrow> ase_retry_after st \<le> d))"
proof -
  have "increment v > 0" for v :: "64 word"
    using unat_increment [of v] by (simp add: word_gt_0 unat_eq_0 [symmetric])
  then show ?thesis
    using assms
    by (auto simp: failed_iteration_def waitForRetry_def Let_def Failed_def ph_sig_def Poll_Snapshot_def
        retryDelay_def defaultBackoffMin_def split: prod.splits option.splits if_splits)
qed

theorem failed_poll_backs_off_witness:
  "\<exists>d. po_retryDelays (fst (failed_iteration (NewPoller (new_queue 1) 0 0) example_iteration [HTTPTimeout])) = [d]
       \<and> milliseconds 200 \<le> d"
proof -
  obtain p' c where f: "failed_iteration (NewPoller (new_queue 1) 0 0) example_iteration [HTTPTimeout] = (p', c)"
    by fastforce
  have "\<exists>d. po_retryDelays p' = [d] \<and> milliseconds 200 \<le> d"
    using failed_poll_backs_off [OF _ _ f, of 0] by (auto simp: example_iteration_def NewPoller_def Let_def)
  then show ?thesis unfolding f by simp
qed

end
