(* ===== verification/Startup.thy ===== *)
theory Startup
  imports Types
begin

text \<open>
  Startup: the one-shot results other components wait for (\<open>ProbeState\<close> in
  \<open>pkg/mcpclient/probe_state.go\<close>, \<open>StartupCatalogState\<close> and publication
  acknowledgements in \<open>pkg/runtimeharpoon/hostbus/hostbus.go\<close>, \<open>MetadataState\<close>
  in \<open>pkg/controlplane/metadata.go\<close>), and the gates in
  \<open>pkg/controlplane/fx/fxmodule.go\<close> that hold back the first poll.

  A wait looks at the cell when it starts and again when it wakes up: the two
  cells are arguments, related by the results that were set in between. \<open>None\<close>
  as the value of a wait means that it is still blocked.
\<close>

section \<open>One-shot cells\<close>

record probe_state =
  ps_done :: bool
  ps_checkedAt :: gotime
  ps_err :: goerr

definition NewProbeState :: probe_state where
  "NewProbeState = \<lparr>ps_done = False, ps_checkedAt = 0, ps_err = nil_err\<rparr>"

definition Probe_Set :: "probe_state \<Rightarrow> gotime \<times> goerr \<Rightarrow> probe_state" where
  "Probe_Set p r = (if ps_done p then p
     else p\<lparr>ps_checkedAt := fst r, ps_err := snd r, ps_done := True\<rparr>)"

definition Probe_IsDone :: "probe_state option \<Rightarrow> bool" where
  "Probe_IsDone p = (case p of None \<Rightarrow> False | Some s \<Rightarrow> ps_done s)"

definition Probe_Wait :: "probe_state option \<Rightarrow> probe_state option \<Rightarrow> duration \<Rightarrow> (gotime \<times> goerr) option" where
  "Probe_Wait now later timeout = (case (now, later) of
     (Some p, Some p') \<Rightarrow>
       if ps_done p then Some (ps_checkedAt p, ps_err p)
       else if timeout \<le> 0 then None
       else if ps_done p' then Some (ps_checkedAt p', ps_err p')
       else None
   | _ \<Rightarrow> None)"

text \<open>
  \<open>WaitUntilDone\<close> returns through the cell or through the context, either one
  when both are ready: \<open>prefer_ctx\<close> is the choice of the select.
\<close>

definition WaitUntilDone :: "probe_state option \<Rightarrow> bool \<Rightarrow> goerr \<Rightarrow> goerr option" where
  "WaitUntilDone p prefer_ctx ctx_err = (case p of
     None \<Rightarrow> Some [ErrText ''mcp probe state is nil'']
   | Some s \<Rightarrow>
       if ctx_err \<noteq> nil_err \<and> (prefer_ctx \<or> \<not> ps_done s) then Some ctx_err
       else if ps_done s then Some nil_err
       else None)"

fun is_probe_status :: "err_node \<Rightarrow> bool" where
  "is_probe_status (ProbeHTTPStatus _) = True"
| "is_probe_status _ = False"

definition IsAuthRequiredProbeError :: "goerr \<Rightarrow> bool" where
  "IsAuthRequiredProbeError e =
     (case errors_as e is_probe_status of ProbeHTTPStatus c # _ \<Rightarrow> c = 401 | _ \<Rightarrow> False)"

definition NewProbeHTTPStatusError :: "int \<Rightarrow> goerr \<Rightarrow> goerr" where
  "NewProbeHTTPStatusError code cause =
     (if cause = nil_err \<or> code = 0 then cause else ProbeHTTPStatus code # cause)"

fun is_probe_timeout :: "err_node \<Rightarrow> bool" where
  "is_probe_timeout (ProbeTimeout _) = True"
| "is_probe_timeout _ = False"

definition IsTimeoutProbeError :: "goerr \<Rightarrow> bool" where
  "IsTimeoutProbeError e \<longleftrightarrow> errors_as e is_probe_timeout \<noteq> []"

fun is_startup_timeout :: "err_node \<Rightarrow> bool" where
  "is_startup_timeout (StartupWaitTimeout _) = True"
| "is_startup_timeout _ = False"

definition IsStartupWaitTimeoutError :: "goerr \<Rightarrow> bool" where
  "IsStartupWaitTimeoutError e \<longleftrightarrow> errors_as e is_startup_timeout \<noteq> []"

record startup_catalog =
  sc_done :: bool
  sc_err :: goerr
  sc_completedAt :: gotime

definition NewStartupCatalogState :: startup_catalog where
  "NewStartupCatalogState = \<lparr>sc_done = False, sc_err = nil_err, sc_completedAt = 0\<rparr>"

definition Catalog_Complete :: "startup_catalog \<Rightarrow> gotime \<times> goerr \<Rightarrow> startup_catalog" where
  "Catalog_Complete s r = (if sc_done s then s
     else s\<lparr>sc_err := snd r, sc_completedAt := fst r, sc_done := True\<rparr>)"

definition Catalog_Snapshot :: "startup_catalog option \<Rightarrow> bool \<times> gotime \<times> goerr" where
  "Catalog_Snapshot s = (case s of
     None \<Rightarrow> (False, 0, nil_err)
   | Some c \<Rightarrow> (sc_completedAt c \<noteq> 0, sc_completedAt c, sc_err c))"

definition Catalog_Wait :: "startup_catalog option \<Rightarrow> startup_catalog option \<Rightarrow> goerr \<Rightarrow> goerr option" where
  "Catalog_Wait now later ctx_err = (case (now, later) of
     (Some c, Some c') \<Rightarrow>
       if sc_done c then Some (sc_err c)
       else if sc_done c' then Some (sc_err c')
       else if ctx_err \<noteq> nil_err then Some ctx_err
       else None
   | _ \<Rightarrow> Some [ErrText ''hostbus: startup catalog state is required''])"

record 'm metadata_state =
  md_done :: bool
  md_metadata :: "'m option"
  md_err :: goerr

definition NewMetadataState :: "'m metadata_state" where
  "NewMetadataState = \<lparr>md_done = False, md_metadata = None, md_err = nil_err\<rparr>"

definition Metadata_Set :: "'m metadata_state \<Rightarrow> 'm option \<times> goerr \<Rightarrow> 'm metadata_state" where
  "Metadata_Set m r = (if md_done m then m
     else m\<lparr>md_metadata := fst r, md_err := snd r, md_done := True\<rparr>)"

definition Metadata_Wait :: "'m metadata_state \<Rightarrow> 'm metadata_state \<Rightarrow> ('m option \<times> goerr) option" where
  "Metadata_Wait now later =
     (if md_done now then Some (md_metadata now, md_err now)
      else if md_done later then Some (md_metadata later, md_err later)
      else None)"

text \<open>A publication acknowledgement: a buffered channel that is filled once.\<close>

type_synonym publication_ack = "goerr option"

definition Ack_complete :: "publication_ack \<Rightarrow> goerr \<Rightarrow> publication_ack" where
  "Ack_complete a err = (case a of None \<Rightarrow> Some err | Some e \<Rightarrow> Some e)"

text \<open>A bundle is acknowledged after its finalization, which only startup bundles have.\<close>

definition AcknowledgeAfter :: "publication_ack option \<Rightarrow> goerr \<Rightarrow> goerr option \<Rightarrow> publication_ack option" where
  "AcknowledgeAfter ack err beforeAck = (case ack of
     None \<Rightarrow> None
   | Some a \<Rightarrow>
       Some (Ack_complete a
         (if err = nil_err then (case beforeAck of None \<Rightarrow> err | Some e \<Rightarrow> e) else err)))"

datatype bus_exit = BusClosed | BusContext | BusDelivered

definition bus_publish :: "bus_exit \<Rightarrow> goerr \<Rightarrow> goerr" where
  "bus_publish exit ctx_err = (case exit of
     BusClosed \<Rightarrow> [ErrText ''hostbus: closed'']
   | BusContext \<Rightarrow> ctx_err
   | BusDelivered \<Rightarrow> nil_err)"

text \<open>
  \<open>PublishAndWait\<close>: how the delivery ends, the acknowledgement seen at once
  and at wake-up, and whether the bus or the context ended the wait.
\<close>

definition PublishAndWait :: "bus_exit \<Rightarrow> goerr \<Rightarrow> publication_ack \<Rightarrow> publication_ack \<Rightarrow> bool \<Rightarrow>
    goerr option" where
  "PublishAndWait exit ctx_err now later closed =
     (if bus_publish exit ctx_err \<noteq> nil_err then Some (bus_publish exit ctx_err)
      else case now of
        Some e \<Rightarrow> Some e
      | None \<Rightarrow>
          (case later of
             Some e \<Rightarrow> Some e
           | None \<Rightarrow>
               if closed then Some [ErrText ''hostbus: closed'']
               else if ctx_err \<noteq> nil_err then Some ctx_err
               else None))"

section \<open>The first result wins\<close>

locale one_shot =
  fixes put :: "'c \<Rightarrow> 'v \<Rightarrow> 'c"
    and result :: "'c \<Rightarrow> 'v option"
  assumes put_empty: "result c = None \<Longrightarrow> result (put c v) = Some v"
    and put_full: "result c \<noteq> None \<Longrightarrow> put c v = c"
begin

lemma settled: "result c \<noteq> None \<Longrightarrow> foldl put c vs = c"
  by (induction vs) (simp_all add: put_full)

lemma first_wins: "result c = None \<Longrightarrow> result (foldl put c vs) = (case vs of [] \<Rightarrow> None | v # _ \<Rightarrow> Some v)"
  by (cases vs) (simp_all add: put_empty settled)

end

definition probe_result :: "probe_state \<Rightarrow> (gotime \<times> goerr) option" where
  "probe_result p = (if ps_done p then Some (ps_checkedAt p, ps_err p) else None)"

definition catalog_result :: "startup_catalog \<Rightarrow> (gotime \<times> goerr) option" where
  "catalog_result s = (if sc_done s then Some (sc_completedAt s, sc_err s) else None)"

definition metadata_result :: "'m metadata_state \<Rightarrow> ('m option \<times> goerr) option" where
  "metadata_result m = (if md_done m then Some (md_metadata m, md_err m) else None)"

interpretation probe_cell: one_shot Probe_Set probe_result
  by unfold_locales (auto simp: Probe_Set_def probe_result_def split: if_splits)

interpretation catalog_cell: one_shot Catalog_Complete catalog_result
  by unfold_locales (auto simp: Catalog_Complete_def catalog_result_def split: if_splits)

interpretation metadata_cell: one_shot Metadata_Set metadata_result
  by unfold_locales (auto simp: Metadata_Set_def metadata_result_def split: if_splits)

interpretation ack_cell: one_shot Ack_complete "\<lambda>a. a"
  by unfold_locales (auto simp: Ack_complete_def)

section \<open>Gates before the first poll\<close>

text \<open>\<open>bus\<close> is \<open>None\<close> for no bus, else whether it supports acknowledgements.\<close>

definition requiresStartupCatalog :: "(bool \<times> channel list) option \<Rightarrow> startup_catalog option \<Rightarrow> bool option \<Rightarrow> bool" where
  "requiresStartupCatalog controlPlane catalog bus =
     (if catalog = None then False
      else if bus = Some False then False
      else case controlPlane of
        Some (configured, channels) \<Rightarrow> \<not> (configured \<and> ChannelHarpoon \<notin> set channels)
      | None \<Rightarrow> True)"

definition waitForStartupCatalogBeforePolling :: "(bool \<times> channel list) option \<Rightarrow>
    startup_catalog option \<Rightarrow> startup_catalog option \<Rightarrow> bool option \<Rightarrow> goerr \<Rightarrow> bool option" where
  "waitForStartupCatalogBeforePolling controlPlane now later bus ctx_err =
     (if \<not> requiresStartupCatalog controlPlane now bus then Some (ctx_err = nil_err)
      else case Catalog_Wait now later ctx_err of
        None \<Rightarrow> None
      | Some err \<Rightarrow> if err \<noteq> nil_err then Some False else Some (ctx_err = nil_err))"

definition waitForMCPStartupBeforePolling :: "duration option \<Rightarrow> probe_state option \<Rightarrow> bool \<Rightarrow> goerr \<Rightarrow> bool option" where
  "waitForMCPStartupBeforePolling startupWait probe prefer_ctx ctx_err =
     (case startupWait of
        None \<Rightarrow> Some True
      | Some t \<Rightarrow>
          if t \<le> 0 then Some True
          else if probe = None then Some True
          else map_option (\<lambda>err. err = nil_err) (WaitUntilDone probe prefer_ctx ctx_err))"

text \<open>The goroutine of \<open>runPoller\<close>: whether it reaches \<open>Poller.Run\<close>.\<close>

definition starts_polling :: "duration option \<Rightarrow> probe_state option \<Rightarrow> bool \<Rightarrow> (bool \<times> channel list) option \<Rightarrow>
    startup_catalog option \<Rightarrow> startup_catalog option \<Rightarrow> bool option \<Rightarrow> goerr \<Rightarrow> goerr \<Rightarrow> bool" where
  "starts_polling startupWait probe prefer_ctx controlPlane now later bus ctx_err1 ctx_err2 \<longleftrightarrow>
     waitForMCPStartupBeforePolling startupWait probe prefer_ctx ctx_err1 = Some True \<and>
     waitForStartupCatalogBeforePolling controlPlane now later bus ctx_err2 = Some True"

definition newStartupCatalogReadinessGate :: "(bool \<times> channel list) option \<Rightarrow> startup_catalog option \<Rightarrow>
    bool option \<Rightarrow> startup_catalog option" where
  "newStartupCatalogReadinessGate controlPlane catalog bus =
     (if requiresStartupCatalog controlPlane catalog bus then catalog else None)"

definition Gate_Readiness :: "startup_catalog option \<Rightarrow> bool \<times> string" where
  "Gate_Readiness g = (case g of
     None \<Rightarrow> (True, [])
   | Some c \<Rightarrow>
       (let (dn, _, err) = Catalog_Snapshot (Some c) in
        if \<not> dn then (False, ''startup catalog pending'')
        else if err \<noteq> nil_err then (False, ''startup catalog failed'')
        else (True, [])))"

section \<open>Properties\<close>

lemma catalog_run:
  "foldl Catalog_Complete NewStartupCatalogState (r # rs) = Catalog_Complete NewStartupCatalogState r"
  using catalog_cell.settled [of "Catalog_Complete NewStartupCatalogState r" rs]
  by (simp add: Catalog_Complete_def catalog_result_def NewStartupCatalogState_def)

text \<open>
  The first result wins: however often and from however many goroutines
  the startup catalog is completed, every later reader sees the first result.
\<close>

theorem catalog_first_result_wins:
  "foldl Catalog_Complete NewStartupCatalogState (r # rs) = Catalog_Complete NewStartupCatalogState r \<and>
   Catalog_Wait (Some NewStartupCatalogState)
     (Some (foldl Catalog_Complete NewStartupCatalogState (r # rs))) ctx_err = Some (snd r)"
  unfolding catalog_run
  by (simp add: Catalog_Wait_def Catalog_Complete_def NewStartupCatalogState_def)

text \<open>
  No poll before the catalog: where the startup catalog is required, the
  poller starts only once the catalog has been completed without error, and
  from then on the readiness gate reports ready, whatever else is reported
  later. A completion time is never the zero time.
\<close>

theorem polling_waits_for_catalog:
  assumes "starts_polling w probe c controlPlane (Some now) (Some later) bus e1 e2"
    and "requiresStartupCatalog controlPlane (Some now) bus"
    and "now = foldl Catalog_Complete NewStartupCatalogState rs"
    and "later = foldl Catalog_Complete now rs'"
    and "\<forall>r \<in> set (rs @ rs'). fst r \<noteq> 0"
  shows "e2 = nil_err \<and> sc_done later \<and> sc_err later = nil_err \<and>
         Gate_Readiness (Some (foldl Catalog_Complete later rs'')) = (True, [])"
proof -
  have e2: "e2 = nil_err" and wait: "Catalog_Wait (Some now) (Some later) e2 = Some nil_err"
    using assms(1,2)
    by (auto simp: starts_polling_def waitForStartupCatalogBeforePolling_def split: if_splits option.splits)
  have run: "later = foldl Catalog_Complete NewStartupCatalogState (rs @ rs')"
    using assms(3,4) by simp
  obtain r ts where rts: "rs @ rs' = r # ts"
  proof (cases "rs @ rs'")
    case Nil
    then have "\<not> sc_done now" "\<not> sc_done later"
      using assms(3,4) by (simp_all add: NewStartupCatalogState_def)
    with wait e2 show ?thesis by (simp add: Catalog_Wait_def)
  qed (use that in blast)
  have later: "later = Catalog_Complete NewStartupCatalogState r"
    and more: "foldl Catalog_Complete later rs'' = later"
    using run rts catalog_run [of r ts] catalog_run [of r "ts @ rs''"] by simp_all
  have now: "sc_done now \<Longrightarrow> now = later"
    using assms(4) catalog_cell.settled [of now rs'] by (simp add: catalog_result_def)
  have "sc_done later" "fst r \<noteq> 0"
    using later assms(5) rts by (simp_all add: Catalog_Complete_def NewStartupCatalogState_def)
  moreover have "sc_err later = nil_err"
    using wait now \<open>sc_done later\<close> by (auto simp: Catalog_Wait_def split: if_splits)
  ultimately show ?thesis
    unfolding more using e2 later
    by (simp add: Gate_Readiness_def Catalog_Snapshot_def Catalog_Complete_def NewStartupCatalogState_def)
qed

theorem polling_waits_for_catalog_witness:
  "Gate_Readiness (Some (foldl Catalog_Complete (Catalog_Complete NewStartupCatalogState (5, []))
     [(6, [ErrText ''late''])])) = (True, [])"
proof -
  have "starts_polling None None False None (Some NewStartupCatalogState)
      (Some (Catalog_Complete NewStartupCatalogState (5, []))) (Some True) [] []"
    by (simp add: starts_polling_def waitForMCPStartupBeforePolling_def
        waitForStartupCatalogBeforePolling_def requiresStartupCatalog_def Catalog_Wait_def
        Catalog_Complete_def NewStartupCatalogState_def)
  from polling_waits_for_catalog [OF this _ _ , of "[]" "[(5, [])]" "[(6, [ErrText ''late''])]"]
  show ?thesis by (simp add: requiresStartupCatalog_def)
qed

text \<open>
  A startup publication that returns without error was acknowledged
  without error, after its finalization: a closed bus or an ended context is
  never mistaken for a registered catalog.
\<close>

theorem publication_acknowledged:
  assumes "PublishAndWait exit ctx_err now later closed = Some nil_err"
    and "exit = BusContext \<longrightarrow> ctx_err \<noteq> nil_err"
    and "later = foldl Ack_complete now errs"
  shows "exit = BusDelivered \<and> later = Some nil_err"
proof -
  have "exit = BusDelivered"
    using assms(1,2) by (auto simp: PublishAndWait_def bus_publish_def split: bus_exit.splits if_splits)
  moreover have "later = now" if "now \<noteq> None"
    using assms(3) ack_cell.settled [OF that] by simp
  ultimately show ?thesis
    using assms(1) by (auto simp: PublishAndWait_def bus_publish_def split: option.splits if_splits)
qed

theorem publication_acknowledged_witness:
  "foldl Ack_complete None [nil_err, [EOF]] = Some nil_err"
  using publication_acknowledged [of BusDelivered "[]" None "foldl Ack_complete None [nil_err, [EOF]]" False
      "[nil_err, [EOF]]"]
  by (simp add: PublishAndWait_def bus_publish_def Ack_complete_def)

end
