(* ===== verification/Failure.thy ===== *)
theory Failure
  imports Http Commands
begin

text \<open>
  Tunnel failures (\<open>pkg/dispatcher/internal/tunnel_failure.go\<close>): the bounded
  classification of a target failure into a source and a transport error kind,
  and the JSON-RPC error response that carries it to the caller.

  The two classifiers inspect the same chain of errors in different orders;
  the lemmas show that they agree. \<open>encode_message\<close> is \<open>jsonrpc.EncodeMessage\<close>
  of the MCP SDK.
\<close>

section \<open>The taxonomy\<close>

datatype tunnel_failure_source =
    SourceTargetHTTP | SourceDNS | SourceTLS | SourceConnect | SourceTransportClosed
  | SourceTimeout | SourceProtocol | SourceClientInternal

fun source_name :: "tunnel_failure_source \<Rightarrow> string" where
  "source_name SourceTargetHTTP = ''target_http''"
| "source_name SourceDNS = ''dns''"
| "source_name SourceTLS = ''tls''"
| "source_name SourceConnect = ''connect''"
| "source_name SourceTransportClosed = ''transport_closed''"
| "source_name SourceTimeout = ''timeout''"
| "source_name SourceProtocol = ''protocol''"
| "source_name SourceClientInternal = ''client_internal''"

datatype transport_error_kind =
    KindUnspecified | KindClosedPipe | KindConnectionAborted | KindConnectionClosed
  | KindConnectionRefused | KindConnectionReset | KindDial | KindDNS | KindEOF
  | KindHostUnreachable | KindHTTPStatus | KindInvalidMCPError | KindInvalidProtocolResponse
  | KindMalformedJSON | KindNetworkUnreachable | KindNonProtocolResponse
  | KindResponseBodyMissing | KindResponseBodyTooLarge | KindResponseBodyUnreadable
  | KindTimeout | KindTLS | KindUnexpectedEOF | KindUnknown | KindCanceled

fun kind_name :: "transport_error_kind \<Rightarrow> string" where
  "kind_name KindUnspecified = []"
| "kind_name KindClosedPipe = ''closed_pipe''"
| "kind_name KindConnectionAborted = ''connection_aborted''"
| "kind_name KindConnectionClosed = ''connection_closed''"
| "kind_name KindConnectionRefused = ''connection_refused''"
| "kind_name KindConnectionReset = ''connection_reset''"
| "kind_name KindDial = ''dial''"
| "kind_name KindDNS = ''dns''"
| "kind_name KindEOF = ''eof''"
| "kind_name KindHostUnreachable = ''host_unreachable''"
| "kind_name KindHTTPStatus = ''http_status''"
| "kind_name KindInvalidMCPError = ''invalid_mcp_error''"
| "kind_name KindInvalidProtocolResponse = ''invalid_protocol_response''"
| "kind_name KindMalformedJSON = ''malformed_json''"
| "kind_name KindNetworkUnreachable = ''network_unreachable''"
| "kind_name KindNonProtocolResponse = ''non_protocol_response''"
| "kind_name KindResponseBodyMissing = ''response_body_missing''"
| "kind_name KindResponseBodyTooLarge = ''response_body_too_large''"
| "kind_name KindResponseBodyUnreadable = ''response_body_unreadable''"
| "kind_name KindTimeout = ''timeout''"
| "kind_name KindTLS = ''tls''"
| "kind_name KindUnexpectedEOF = ''unexpected_eof''"
| "kind_name KindUnknown = ''unknown''"
| "kind_name KindCanceled = ''canceled''"

record tunnel_failure =
  tf_version :: int
  tf_source :: tunnel_failure_source
  tf_kind :: transport_error_kind
  tf_upstream_response_received :: bool
  tf_upstream_status :: int

section \<open>Classification\<close>

definition newProtocolFailureError :: "goerr \<Rightarrow> goerr" where
  "newProtocolFailureError cause = ProtocolFailure # cause"

fun is_non_protocol :: "err_node \<Rightarrow> bool" where
  "is_non_protocol (NonProtocolResponse _) = True"
| "is_non_protocol _ = False"

fun transportErrorKindFromNonProtocolResponse :: "non_protocol_kind \<Rightarrow> transport_error_kind" where
  "transportErrorKindFromNonProtocolResponse BodyMissing = KindResponseBodyMissing"
| "transportErrorKindFromNonProtocolResponse BodyUnreadable = KindResponseBodyUnreadable"
| "transportErrorKindFromNonProtocolResponse BodyTooLarge = KindResponseBodyTooLarge"
| "transportErrorKindFromNonProtocolResponse MalformedJSON = KindMalformedJSON"
| "transportErrorKindFromNonProtocolResponse InvalidMCPError = KindInvalidMCPError"
| "transportErrorKindFromNonProtocolResponse OtherNonProtocol = KindNonProtocolResponse"

definition as_non_protocol :: "goerr \<Rightarrow> non_protocol_kind option" where
  "as_non_protocol e = (case errors_as e is_non_protocol of
     NonProtocolResponse k # _ \<Rightarrow> Some k | _ \<Rightarrow> None)"

definition has_protocol_failure :: "goerr \<Rightarrow> bool" where
  "has_protocol_failure e \<longleftrightarrow> ProtocolFailure \<in> set e"

fun is_dns :: "err_node \<Rightarrow> bool" where
  "is_dns (DNSError _) = True"
| "is_dns _ = False"

definition isTLSFailure :: "goerr \<Rightarrow> bool" where
  "isTLSFailure e \<longleftrightarrow> TLSFailure \<in> set e"

text \<open>\<open>errors.As\<close> to \<open>interface{ Timeout() bool }\<close>, and the method of what it finds.\<close>

definition has_timeout_method :: "err_node \<Rightarrow> bool" where
  "has_timeout_method n \<longleftrightarrow> timeout_method [n] \<noteq> None"

definition timed_out :: "goerr \<Rightarrow> bool" where
  "timed_out e \<longleftrightarrow> timeout_method (errors_as e has_timeout_method) = Some True"

fun is_op_error :: "err_node \<Rightarrow> bool" where
  "is_op_error (OpError _) = True"
| "is_op_error _ = False"

definition is_dial :: "goerr \<Rightarrow> bool" where
  "is_dial e \<longleftrightarrow> (case errors_as e is_op_error of
     OpError operation # _ \<Rightarrow> equal_fold operation ''dial'' | _ \<Rightarrow> False)"

abbreviation error_status :: "int \<Rightarrow> bool" where
  "error_status c \<equiv> 400 \<le> c \<and> c \<le> 599"

definition classifyTransportErrorKind :: "int \<Rightarrow> goerr \<Rightarrow> transport_error_kind" where
  "classifyTransportErrorKind statusCode err = (case as_non_protocol err of
     Some kind \<Rightarrow> transportErrorKindFromNonProtocolResponse kind
   | None \<Rightarrow>
       if error_status statusCode then KindHTTPStatus
       else if has_protocol_failure err then KindInvalidProtocolResponse
       else if errors_is err ClosedPipe \<or> errors_is err (Errno EPIPE) then KindClosedPipe
       else if errors_is err EOF then KindEOF
       else if errors_is err UnexpectedEOF then KindUnexpectedEOF
       else if errors_is err NetClosed \<or> errors_is err ConnectionClosed then KindConnectionClosed
       else if errors_is err (Errno ECONNRESET) then KindConnectionReset
       else if errors_is err (Errno ECONNABORTED) then KindConnectionAborted
       else if errors_as err is_dns \<noteq> [] then KindDNS
       else if isTLSFailure err then KindTLS
       else if errors_is err DeadlineExceeded then KindTimeout
       else if timed_out err then KindTimeout
       else if errors_is err (Errno ECONNREFUSED) then KindConnectionRefused
       else if errors_is err (Errno ENETUNREACH) then KindNetworkUnreachable
       else if errors_is err (Errno EHOSTUNREACH) then KindHostUnreachable
       else if is_dial err then KindDial
       else if errors_is err Canceled then KindCanceled
       else KindUnknown)"

definition classifyTunnelFailure :: "int \<Rightarrow> goerr \<Rightarrow> tunnel_failure" where
  "classifyTunnelFailure statusCode err =
     (let kind = (if classifyTransportErrorKind statusCode err = KindCanceled then KindUnspecified
                  else classifyTransportErrorKind statusCode err);
          failure = \<lparr>tf_version = 1, tf_source = SourceClientInternal, tf_kind = kind,
                     tf_upstream_response_received = False, tf_upstream_status = 0\<rparr>
      in if error_status statusCode then
           failure\<lparr>tf_source := SourceTargetHTTP, tf_upstream_response_received := True,
                   tf_upstream_status := statusCode\<rparr>
         else if as_non_protocol err \<noteq> None then failure\<lparr>tf_source := SourceProtocol\<rparr>
         else if has_protocol_failure err then failure\<lparr>tf_source := SourceProtocol\<rparr>
         else if errors_is err ClosedPipe \<or> errors_is err EOF \<or> errors_is err UnexpectedEOF \<or>
                 errors_is err NetClosed \<or> errors_is err ConnectionClosed \<or>
                 errors_is err (Errno EPIPE) \<or> errors_is err (Errno ECONNRESET) \<or>
                 errors_is err (Errno ECONNABORTED)
         then failure\<lparr>tf_source := SourceTransportClosed\<rparr>
         else if errors_as err is_dns \<noteq> [] then failure\<lparr>tf_source := SourceDNS\<rparr>
         else if isTLSFailure err then failure\<lparr>tf_source := SourceTLS\<rparr>
         else if errors_is err DeadlineExceeded then failure\<lparr>tf_source := SourceTimeout\<rparr>
         else if timed_out err then failure\<lparr>tf_source := SourceTimeout\<rparr>
         else if is_dial err then failure\<lparr>tf_source := SourceConnect\<rparr>
         else if errors_is err (Errno ECONNREFUSED) \<or> errors_is err (Errno ENETUNREACH) \<or>
                 errors_is err (Errno EHOSTUNREACH)
         then failure\<lparr>tf_source := SourceConnect\<rparr>
         else failure)"

section \<open>The error response\<close>

definition StatusText :: "int \<Rightarrow> string" where
  "StatusText code = (case map_of
     [(100, ''Continue''), (101, ''Switching Protocols''), (102, ''Processing''),
      (103, ''Early Hints''), (200, ''OK''), (201, ''Created''), (202, ''Accepted''),
      (203, ''Non-Authoritative Information''), (204, ''No Content''),
      (205, ''Reset Content''), (206, ''Partial Content''), (207, ''Multi-Status''),
      (208, ''Already Reported''), (226, ''IM Used''), (300, ''Multiple Choices''),
      (301, ''Moved Permanently''), (302, ''Found''), (303, ''See Other''),
      (304, ''Not Modified''), (305, ''Use Proxy''), (307, ''Temporary Redirect''),
      (308, ''Permanent Redirect''), (400, ''Bad Request''), (401, ''Unauthorized''),
      (402, ''Payment Required''), (403, ''Forbidden''), (404, ''Not Found''),
      (405, ''Method Not Allowed''), (406, ''Not Acceptable''),
      (407, ''Proxy Authentication Required''), (408, ''Request Timeout''),
      (409, ''Conflict''), (410, ''Gone''), (411, ''Length Required''),
      (412, ''Precondition Failed''), (413, ''Request Entity Too Large''),
      (414, ''Request URI Too Long''), (415, ''Unsupported Media Type''),
      (416, ''Requested Range Not Satisfiable''), (417, ''Expectation Failed''),
      (418, ''I'' @ [CHR 0x27] @ ''m a teapot''), (421, ''Misdirected Request''),
      (422, ''Unprocessable Entity''), (423, ''Locked''), (424, ''Failed Dependency''),
      (425, ''Too Early''), (426, ''Upgrade Required''), (428, ''Precondition Required''),
      (429, ''Too Many Requests''), (431, ''Request Header Fields Too Large''),
      (451, ''Unavailable For Legal Reasons''), (500, ''Internal Server Error''),
      (501, ''Not Implemented''), (502, ''Bad Gateway''), (503, ''Service Unavailable''),
      (504, ''Gateway Timeout''), (505, ''HTTP Version Not Supported''),
      (506, ''Variant Also Negotiates''), (507, ''Insufficient Storage''),
      (508, ''Loop Detected''), (510, ''Not Extended''),
      (511, ''Network Authentication Required'')] code of
     None \<Rightarrow> [] | Some t \<Rightarrow> t)"

definition quoted :: "string \<Rightarrow> string" where
  "quoted s = [CHR 0x22] @ s @ [CHR 0x22]"

definition json_member :: "string \<Rightarrow> string \<Rightarrow> string" where
  "json_member name v = quoted name @ '':'' @ v"

text \<open>
  \<open>json.Marshal\<close> of \<open>tunnelFailureData\<close>: members in struct order, those marked
  \<open>omitempty\<close> left out when zero. Every name is free of characters to escape.
\<close>

definition tunnelFailureData :: "tunnel_failure \<Rightarrow> string" where
  "tunnelFailureData f =
     ''{'' @ json_member ''tunnel_failure''
       (''{'' @ json_member ''version'' (show_int (tf_version f)) @
        '','' @ json_member ''source'' (quoted (source_name (tf_source f))) @
        (if kind_name (tf_kind f) = [] then []
         else '','' @ json_member ''transport_error_kind'' (quoted (kind_name (tf_kind f)))) @
        '','' @ json_member ''upstream_response_received''
                 (if tf_upstream_response_received f then ''true'' else ''false'') @
        (if tf_upstream_status f = 0 then []
         else '','' @ json_member ''upstream_status'' (show_int (tf_upstream_status f))) @
        ''}'') @ ''}''"

definition CodeInternalError :: int where
  "CodeInternalError = - 32603"

type_synonym encoder = "rpc_message \<Rightarrow> goerr + string"

definition buildTunnelFailureJSONRPCErrorResponse ::
  "encoder \<Rightarrow> rpc_id \<Rightarrow> int \<Rightarrow> tunnel_failure \<Rightarrow> goerr + string" where
  "buildTunnelFailureJSONRPCErrorResponse encode_message req_id statusCode failure =
     (let code = (if statusCode = 0 then 500 else statusCode);
          message = (if StatusText code = [] then ''MCP transport error'' else StatusText code)
      in encode_message (Response req_id
           (Some (RpcError CodeInternalError message (tunnelFailureData failure))) []))"

definition normalizeTransportStatusCode :: "int \<Rightarrow> goerr \<Rightarrow> int" where
  "normalizeTransportStatusCode statusCode err =
     (if statusCode \<noteq> 0 then statusCode else if err \<noteq> nil_err then 502 else 200)"

section \<open>Lemmas\<close>

lemmas failure_defs = classifyTunnelFailure_def classifyTransportErrorKind_def Let_def

text \<open>What a source admits as the kind that goes with it.\<close>

definition kinds_of :: "tunnel_failure_source \<Rightarrow> transport_error_kind set" where
  "kinds_of s = (case s of
     SourceTargetHTTP \<Rightarrow>
       {KindHTTPStatus, KindInvalidMCPError, KindMalformedJSON, KindNonProtocolResponse,
        KindResponseBodyMissing, KindResponseBodyTooLarge, KindResponseBodyUnreadable}
   | SourceProtocol \<Rightarrow>
       {KindInvalidProtocolResponse, KindInvalidMCPError, KindMalformedJSON, KindNonProtocolResponse,
        KindResponseBodyMissing, KindResponseBodyTooLarge, KindResponseBodyUnreadable}
   | SourceTransportClosed \<Rightarrow>
       {KindClosedPipe, KindEOF, KindUnexpectedEOF, KindConnectionClosed, KindConnectionReset,
        KindConnectionAborted}
   | SourceDNS \<Rightarrow> {KindDNS}
   | SourceTLS \<Rightarrow> {KindTLS}
   | SourceTimeout \<Rightarrow> {KindTimeout}
   | SourceConnect \<Rightarrow>
       {KindConnectionRefused, KindNetworkUnreachable, KindHostUnreachable, KindDial}
   | SourceClientInternal \<Rightarrow> {KindUnknown, KindUnspecified})"

lemma non_protocol_kinds:
  "transportErrorKindFromNonProtocolResponse k \<in> kinds_of SourceProtocol \<inter> kinds_of SourceTargetHTTP"
  "transportErrorKindFromNonProtocolResponse k \<noteq> KindCanceled"
  by (cases k; simp add: kinds_of_def)+

lemma classified_upstream:
  "tf_upstream_response_received (classifyTunnelFailure c e) = error_status c"
  "tf_upstream_status (classifyTunnelFailure c e) = (if error_status c then c else 0)"
  "tf_source (classifyTunnelFailure c e) = SourceTargetHTTP \<longleftrightarrow> error_status c"
  by (simp_all add: classifyTunnelFailure_def Let_def)

lemma kind_public: "tf_kind (classifyTunnelFailure c e) =
   (if classifyTransportErrorKind c e = KindCanceled then KindUnspecified
    else classifyTransportErrorKind c e)"
  by (simp add: classifyTunnelFailure_def Let_def)

lemma kind_agrees_with_status:
  "error_status c \<Longrightarrow> tf_kind (classifyTunnelFailure c e) \<in> kinds_of SourceTargetHTTP"
  using non_protocol_kinds
  by (auto simp: kind_public classifyTransportErrorKind_def kinds_of_def split: option.splits)

lemma kind_agrees_without_status:
  assumes "\<not> error_status c"
  shows "tf_kind (classifyTunnelFailure c e) \<in> kinds_of (tf_source (classifyTunnelFailure c e))"
proof -
  have no_status: "error_status c \<longleftrightarrow> False" using assms by blast
  show ?thesis
  proof (cases "as_non_protocol e")
    case (Some k)
    then show ?thesis
      using non_protocol_kinds [of k]
      by (simp only: failure_defs no_status if_False option.case) simp
  next
    case None
    then show ?thesis
      by (simp only: failure_defs no_status if_False option.case)
        (simp add: kinds_of_def split del: if_split split: if_split_asm if_split)
  qed
qed

lemma kind_agrees:
  "tf_kind (classifyTunnelFailure c e) \<in> kinds_of (tf_source (classifyTunnelFailure c e))"
  using kind_agrees_with_status kind_agrees_without_status classified_upstream(3) by metis

lemma normalize_status_nonzero [simp]: "normalizeTransportStatusCode c e \<noteq> 0"
  by (simp add: normalizeTransportStatusCode_def)

section \<open>Properties\<close>

text \<open>
  The failure a caller sees is bounded and consistent: it says that the
  target answered exactly for a status between 400 and 599, and then carries
  that status; it never reports a local cancellation; and its kind is always
  one that belongs to its source, although the two classifiers test the error
  chain in different orders.
\<close>

theorem tunnel_failure_consistent:
  "(tf_upstream_response_received (classifyTunnelFailure status err) \<longleftrightarrow> 400 \<le> status \<and> status \<le> 599) \<and>
   tf_upstream_status (classifyTunnelFailure status err) =
     (if 400 \<le> status \<and> status \<le> 599 then status else 0) \<and>
   tf_kind (classifyTunnelFailure status err) \<noteq> KindCanceled \<and>
   tf_kind (classifyTunnelFailure status err) \<in> kinds_of (tf_source (classifyTunnelFailure status err))"
  by (simp add: classified_upstream kind_agrees) (simp add: kind_public)

end
