(* ===== verification/JsonText.thy ===== *)
theory JsonText
  imports Json "HOL-Library.Char_ord" "HOL-Library.List_Lexorder"
begin

text \<open>
  Writing JSON the way \<open>json.Marshal\<close> does, and the fields the MCP side decodes:
  pointers to strings, string lists and maps of raw values. A pointer field is
  nil until a value is read and again after a \<open>null\<close>; a map field that occurs
  twice is extended, a list field starts anew. The theory also holds the two
  checks of text the MCP side makes, UTF-8 validity and \<open>time.DateOnly\<close>.

  Strings are compared byte by byte, as Go compares them.
\<close>

section \<open>Writing JSON\<close>

definition hex_char :: "nat \<Rightarrow> char" where
  "hex_char n = (if n < 10 then char_of (48 + n) else char_of (87 + n))"

definition u_escape :: "char \<Rightarrow> string" where
  "u_escape c = [CHR 0x5C] @ ''u00'' @ [hex_char (of_char c div 16), hex_char (of_char c mod 16)]"

definition json_escape :: "char \<Rightarrow> string" where
  "json_escape c =
     (if c = CHR 0x22 \<or> c = CHR 0x5C then [CHR 0x5C, c]
      else if c = CHR 0x08 then [CHR 0x5C, CHR ''b'']
      else if c = CHR 0x0C then [CHR 0x5C, CHR ''f'']
      else if c = CHR 0x0A then [CHR 0x5C, CHR ''n'']
      else if c = CHR 0x0D then [CHR 0x5C, CHR ''r'']
      else if c = CHR 0x09 then [CHR 0x5C, CHR ''t'']
      else if (of_char c :: nat) < 32 \<or> c \<in> set ''<>&'' then u_escape c
      else [c])"

text \<open>The line separators U+2028 and U+2029 are escaped too.\<close>

fun json_chars :: "string \<Rightarrow> string" where
  "json_chars [] = []"
| "json_chars (c # s) =
     (if c = CHR 0xE2 \<and> take 2 s = [CHR 0x80, CHR 0xA8] then [CHR 0x5C] @ ''u2028'' @ json_chars (drop 2 s)
      else if c = CHR 0xE2 \<and> take 2 s = [CHR 0x80, CHR 0xA9] then [CHR 0x5C] @ ''u2029'' @ json_chars (drop 2 s)
      else json_escape c @ json_chars s)"

definition json_string :: "string \<Rightarrow> string" where
  "json_string s = [CHR 0x22] @ json_chars s @ [CHR 0x22]"

text \<open>How \<open>json.Marshal\<close> copies a \<open>RawMessage\<close>: white space between tokens goes.\<close>

fun compact_raw :: "bool \<Rightarrow> string \<Rightarrow> string" where
  "compact_raw q [] = []"
| "compact_raw False (c # t) =
     (if json_ws c then compact_raw False t
      else c # compact_raw (c = CHR 0x22) t)"
| "compact_raw True [c] = (if c \<in> set ''<>&'' then u_escape c else [c])"
| "compact_raw True (c # d # t) =
     (if c = CHR 0x5C then c # d # compact_raw True t
      else if c = CHR 0x22 then c # compact_raw False (d # t)
      else if c \<in> set ''<>&'' then u_escape c @ compact_raw True (d # t)
      else c # compact_raw True (d # t))"

type_synonym raw_object = "(string \<times> string) list"

fun join_members :: "string list \<Rightarrow> string" where
  "join_members [] = []"
| "join_members [m] = m"
| "join_members (m # n # ms) = m @ '','' @ join_members (n # ms)"

definition marshal_object :: "raw_object \<Rightarrow> string" where
  "marshal_object ms = ''{'' @
     join_members (map (\<lambda>(k, raw). json_string k @ '':'' @ compact_raw False raw) (sort_key fst ms)) @ ''}''"

definition object_put :: "raw_object \<Rightarrow> string \<Rightarrow> string \<Rightarrow> raw_object" where
  "object_put ms k v = filter (\<lambda>(n, _). n \<noteq> k) ms @ [(k, v)]"

section \<open>Raw objects\<close>

lemma map_of_filter_other: "n \<noteq> k \<Longrightarrow> map_of (filter (\<lambda>(m, _). m \<noteq> k) ms) n = map_of ms n"
  by (induction ms) auto

lemma map_of_filter_same: "map_of (filter (\<lambda>(m, _). m \<noteq> k) ms) k = None"
  by (induction ms) auto

lemma map_of_object_put [simp]:
  "map_of (object_put ms k v) n = (if n = k then Some v else map_of ms n)"
  by (auto simp: object_put_def map_add_def map_of_filter_other map_of_filter_same split: option.splits)

section \<open>Pointer, list and map fields\<close>

fun assign_ptr_string :: "string option option \<Rightarrow> json \<Rightarrow> string option option" where
  "assign_ptr_string None _ = None"
| "assign_ptr_string (Some _) (JStr s) = Some (Some s)"
| "assign_ptr_string (Some _) JNull = Some None"
| "assign_ptr_string (Some _) _ = None"

definition ptr_string_field :: "string \<Rightarrow> member list \<Rightarrow> string option option" where
  "ptr_string_field name ms = foldl assign_ptr_string (Some None) (map snd (field_values name ms))"

fun put_members :: "raw_object \<Rightarrow> member list \<Rightarrow> raw_object" where
  "put_members m [] = m"
| "put_members m ((k, raw, _) # ms) = put_members (object_put m k raw) ms"

fun assign_raw_map :: "raw_object option option \<Rightarrow> json \<Rightarrow> raw_object option option" where
  "assign_raw_map None _ = None"
| "assign_raw_map (Some _) JNull = Some None"
| "assign_raw_map (Some m) (JObj ms) = Some (Some (put_members (case m of None \<Rightarrow> [] | Some q \<Rightarrow> q) ms))"
| "assign_raw_map (Some _) _ = None"

definition raw_map_field :: "string \<Rightarrow> member list \<Rightarrow> raw_object option option" where
  "raw_map_field name ms = foldl assign_raw_map (Some None) (map snd (field_values name ms))"

definition raw_value_field :: "string \<Rightarrow> member list \<Rightarrow> string" where
  "raw_value_field name ms = (case rev (field_values name ms) of [] \<Rightarrow> [] | (raw, _) # _ \<Rightarrow> raw)"

text \<open>\<open>json.Unmarshal\<close> of a whole text into a map of raw values, a string, a struct.\<close>

definition unmarshal_raw_map :: "string \<Rightarrow> raw_object option option" where
  "unmarshal_raw_map raw = (case json_parse raw of None \<Rightarrow> None | Some v \<Rightarrow> assign_raw_map (Some None) v)"

definition unmarshal_string :: "string \<Rightarrow> string option" where
  "unmarshal_string raw = (case json_parse raw of None \<Rightarrow> None | Some v \<Rightarrow> assign_string (Some []) v)"

definition unmarshal_ptr_string :: "string \<Rightarrow> string option option" where
  "unmarshal_ptr_string raw = (case json_parse raw of None \<Rightarrow> None | Some v \<Rightarrow> assign_ptr_string (Some None) v)"

definition unmarshal_struct :: "string \<Rightarrow> member list option" where
  "unmarshal_struct raw = (case json_parse raw of
     Some (JObj ms) \<Rightarrow> Some ms | Some JNull \<Rightarrow> Some [] | _ \<Rightarrow> None)"

section \<open>Text\<close>

definition between :: "nat \<Rightarrow> nat \<Rightarrow> char \<Rightarrow> bool" where
  "between lo hi c \<longleftrightarrow> lo \<le> of_char c \<and> of_char c \<le> hi"

text \<open>\<open>utf8.Valid\<close>: no surrogates, no overlong forms, nothing above U+10FFFF.\<close>

fun utf8_valid :: "string \<Rightarrow> bool" where
  "utf8_valid [] = True"
| "utf8_valid (c # s) = (let n = (of_char c :: nat) in
     if n < 128 then utf8_valid s
     else if 194 \<le> n \<and> n \<le> 223 then
       (case s of a # r \<Rightarrow> between 128 191 a \<and> utf8_valid r | _ \<Rightarrow> False)
     else if 224 \<le> n \<and> n \<le> 239 then
       (case s of
          a # b # r \<Rightarrow> between (if n = 224 then 160 else 128) (if n = 237 then 159 else 191) a \<and>
            between 128 191 b \<and> utf8_valid r
        | _ \<Rightarrow> False)
     else if 240 \<le> n \<and> n \<le> 244 then
       (case s of
          a # b # d # r \<Rightarrow> between (if n = 240 then 144 else 128) (if n = 244 then 143 else 191) a \<and>
            between 128 191 b \<and> between 128 191 d \<and> utf8_valid r
        | _ \<Rightarrow> False)
     else False)"

definition days_in :: "nat \<Rightarrow> nat \<Rightarrow> nat" where
  "days_in y m =
     (if m = 2 then (if y mod 4 = 0 \<and> (y mod 100 \<noteq> 0 \<or> y mod 400 = 0) then 29 else 28)
      else if m \<in> {4, 6, 9, 11} then 30 else 31)"

text \<open>What \<open>time.Parse(time.DateOnly, v)\<close> accepts.\<close>

definition date_only :: "string \<Rightarrow> bool" where
  "date_only v \<longleftrightarrow> length v = 10 \<and> list_all is_digit (take 4 v) \<and> v ! 4 = CHR ''-'' \<and>
     list_all is_digit (take 2 (drop 5 v)) \<and> v ! 7 = CHR ''-'' \<and> list_all is_digit (drop 8 v) \<and>
     (let y = digits_value (take 4 v); m = digits_value (take 2 (drop 5 v)); d = digits_value (drop 8 v)
      in 1 \<le> m \<and> m \<le> 12 \<and> 1 \<le> d \<and> d \<le> days_in y m)"

end
