(* ===== verification/TraceForward.thy ===== *)
theory TraceForward
  imports Commands JsonText
begin

text \<open>
  Forwarding of the trace context to the MCP server
  (\<open>pkg/dispatcher/internal/trace_context.go\<close>): the standard trace fields are
  added to \<open>params._meta\<close> of a copy of the request, unless the customer already
  supplies a carrier or the parameters cannot be rewritten unambiguously.

  \<open>propagate\<close> stands for the OpenTelemetry propagator: it gives the carrier that
  \<open>Inject\<close> fills after \<open>Extract\<close>, or \<open>None\<close> when the trace state does not parse
  or the span context is not valid.
\<close>

section \<open>The rewrite\<close>

definition decodeTraceObject :: "string \<Rightarrow> raw_object option" where
  "decodeTraceObject raw = (case json_parse raw of
     Some (JObj ms) \<Rightarrow>
       if distinct (map fst ms) then Some (map (\<lambda>(k, r, _). (k, r)) ms) else None
   | _ \<Rightarrow> None)"

definition carrier_header :: "header \<Rightarrow> bool" where
  "carrier_header h \<longleftrightarrow>
     list_ex (\<lambda>(name, _). equal_fold name ''traceparent'' \<or> equal_fold name ''tracestate'') h"

definition trace_usable :: "trace_context \<Rightarrow> bool" where
  "trace_usable tc \<longleftrightarrow> length (tc_traceparent tc) = 55 \<and> has_prefix ''00-'' (tc_traceparent tc) \<and>
     length (tc_tracestate tc) \<le> 512"

definition optional_object :: "string option \<Rightarrow> raw_object option" where
  "optional_object raw = (case raw of None \<Rightarrow> Some [] | Some r \<Rightarrow> decodeTraceObject r)"

definition add_carrier :: "(string \<times> string) list \<Rightarrow> raw_object \<Rightarrow> raw_object" where
  "add_carrier carrier meta = foldl (\<lambda>m (k, v). object_put m k (json_string v)) meta carrier"

definition rewrite_params :: "(string \<times> string) list \<Rightarrow> string \<Rightarrow> raw_object option" where
  "rewrite_params carrier raw_params =
     (case optional_object (if raw_params = [] then None else Some raw_params) of
        None \<Rightarrow> None
      | Some params \<Rightarrow>
          (case optional_object (map_of params ''_meta'') of
             None \<Rightarrow> None
           | Some meta \<Rightarrow>
               if map_of meta ''traceparent'' \<noteq> None \<or> map_of meta ''tracestate'' \<noteq> None then None
               else Some (object_put params ''_meta'' (marshal_object (add_carrier carrier meta)))))"

definition forwardTraceContext ::
  "(trace_context \<Rightarrow> (string \<times> string) list option) \<Rightarrow> rpc_message \<Rightarrow> header \<Rightarrow> trace_context option
   \<Rightarrow> rpc_message" where
  "forwardTraceContext propagate req headers trace = (case (req, trace) of
     (Request i method params, Some tc) \<Rightarrow>
       if \<not> trace_usable tc \<or> carrier_header headers then req
       else (case propagate tc of
          None \<Rightarrow> req
        | Some carrier \<Rightarrow>
            (case rewrite_params carrier params of
               None \<Rightarrow> req
             | Some members \<Rightarrow> Request i method (marshal_object members)))
   | _ \<Rightarrow> req)"

section \<open>Lemmas\<close>

lemma map_of_add_carrier:
  "n \<notin> fst ` set carrier \<Longrightarrow> map_of (add_carrier carrier meta) n = map_of meta n"
  by (induction carrier arbitrary: meta) (auto simp: add_carrier_def)

lemma rewrite_params_keeps:
  assumes "rewrite_params carrier raw = Some members" and "n \<noteq> ''_meta''"
  shows "\<exists>params. optional_object (if raw = [] then None else Some raw) = Some params \<and>
                  map_of members n = map_of params n"
  using assms by (auto simp: rewrite_params_def split: option.splits if_splits)

lemma forwardTraceContext_id:
  "\<exists>p'. forwardTraceContext propagate (Request i m p) h t = Request i m p'"
  by (auto simp: forwardTraceContext_def split: option.splits)

lemma forwardTraceContext_Response [simp]:
  "forwardTraceContext propagate (Response i e r) h t = Response i e r"
  by (simp add: forwardTraceContext_def)

end
