(* ===== verification/Forwarding.thy ===== *)
theory Forwarding
  imports Failure
begin

text \<open>
  Forwarding of MCP responses (\<open>forwardResponses\<close>, \<open>forwardNotification\<close> and
  their helpers in \<open>pkg/dispatcher/internal/processor.go\<close>), with the outcome
  that the dispatcher keeps for one command (\<open>recordWorkFailure\<close> in
  \<open>pkg/dispatcher/internal/health.go\<close>).

  The target and the control plane act through scripts: a list of what the
  successive reads of the connection return, and a function that gives the
  result of the n-th post. Every call that leaves the process is recorded in
  the work record, in order. A loop whose script is used up has not returned
  and has the value \<open>None\<close>.
\<close>

section \<open>Contexts\<close>

text \<open>
  The state of a context: live, or done by its response deadline, its
  connection lifetime, a cancellation or the deadline of its parent.
\<close>

datatype ctx_state = CtxLive | CtxResponseDeadline | CtxTTL | CtxCanceled | CtxDeadline

fun ctx_Err :: "ctx_state \<Rightarrow> goerr" where
  "ctx_Err CtxLive = nil_err"
| "ctx_Err CtxResponseDeadline = [DeadlineExceeded]"
| "ctx_Err CtxTTL = [DeadlineExceeded]"
| "ctx_Err CtxCanceled = [Canceled]"
| "ctx_Err CtxDeadline = [DeadlineExceeded]"

fun ctx_Cause :: "ctx_state \<Rightarrow> goerr" where
  "ctx_Cause CtxLive = nil_err"
| "ctx_Cause CtxResponseDeadline = [ResponseDeadline]"
| "ctx_Cause CtxTTL = [ConnectionTTL]"
| "ctx_Cause CtxCanceled = [Canceled]"
| "ctx_Cause CtxDeadline = [DeadlineExceeded]"

definition responseDeadlineReached :: "ctx_state \<Rightarrow> bool" where
  "responseDeadlineReached ctx \<longleftrightarrow> errors_is (ctx_Cause ctx) ResponseDeadline"

definition connectionTTLReached :: "ctx_state \<Rightarrow> bool" where
  "connectionTTLReached ctx \<longleftrightarrow> errors_is (ctx_Cause ctx) ConnectionTTL"

section \<open>The work record\<close>

datatype conn_action =
    ConnWrite header rpc_message
  | ConnClose
  | ConnRetire bool
  | ConnPreserve bool
  | ConnTerminate header

record work =
  wk_failed :: bool
  wk_timed_out :: bool
  wk_posts :: "(string \<times> tunnel_response \<times> goerr) list"
  wk_conn :: "conn_action list"

definition no_work :: work where
  "no_work = \<lparr>wk_failed = False, wk_timed_out = False, wk_posts = [], wk_conn = []\<rparr>"

definition recordWorkFailure :: "ctx_state \<Rightarrow> goerr \<Rightarrow> int \<Rightarrow> work \<Rightarrow> work" where
  "recordWorkFailure ctx err status w =
     (let timedOut = (errors_is err DeadlineExceeded \<or> errors_is (ctx_Cause ctx) ResponseDeadline \<or>
                      errors_is (ctx_Cause ctx) ConnectionTTL \<or> status = 408 \<or> status = 504 \<or>
                      net_timeout err)
      in if errors_is err Canceled \<and> \<not> timedOut then w
         else w\<lparr>wk_failed := True, wk_timed_out := wk_timed_out w \<or> timedOut\<rparr>)"

type_synonym post_script = "nat \<Rightarrow> goerr \<times> ctx_state"

definition postTunnelResponse ::
  "post_script \<Rightarrow> string \<Rightarrow> tunnel_response \<Rightarrow> work \<Rightarrow> work \<times> goerr" where
  "postTunnelResponse posts requestID response w =
     (let (err, ctx) = posts (length (wk_posts w));
          w' = w\<lparr>wk_posts := wk_posts w @ [(requestID, response, err)]\<rparr>
      in (if err \<noteq> nil_err then recordWorkFailure ctx err 0 w' else w', err))"

definition conn_event :: "conn_action \<Rightarrow> work \<Rightarrow> work" where
  "conn_event e w = w\<lparr>wk_conn := wk_conn w @ [e]\<rparr>"

section \<open>Headers and timing\<close>

definition isSSEContentType :: "string \<Rightarrow> bool" where
  "isSSEContentType v \<longleftrightarrow> v \<noteq> [] \<and> has_prefix ''text/event-stream'' (to_lower (trim_space v))"

definition jsonRPCResponseHeaders :: "header \<Rightarrow> header" where
  "jsonRPCResponseHeaders h = (let contentType = header_get h ''Content-Type'' in
     if contentType = [] \<or> \<not> isSSEContentType contentType
     then header_set h ''Content-Type'' ''application/json'' else h)"

type_synonym transport_kind = string

abbreviation MCPTransportHTTPStreamable :: transport_kind where
  "MCPTransportHTTPStreamable \<equiv> ''http-streamable''"

abbreviation MCPTransportStdio :: transport_kind where
  "MCPTransportStdio \<equiv> ''stdio''"

definition withResponseTiming ::
  "tunnel_response \<Rightarrow> transport_kind \<Rightarrow> gotime \<Rightarrow> gotime \<Rightarrow> tunnel_response" where
  "withResponseTiming response kind startedAt completedAt =
     (let elapsed = time_sub completedAt startedAt in
      if startedAt = 0 \<or> completedAt = 0 then response
      else if elapsed < 0 \<or> elapsed > MaxTargetElapsedUS * 1000 then response
      else if kind \<noteq> MCPTransportStdio \<and> kind \<noteq> MCPTransportHTTPStreamable then response
      else the (WithTiming (Some response)
        \<lparr>rt_version = 1,
         rt_transport = (if kind = MCPTransportStdio then ''stdio'' else ''streamable_http''),
         rt_target_elapsed_us = elapsed div 1000\<rparr>))"

section \<open>Forwarding\<close>

record write_result =
  wr_status :: int
  wr_headers :: header
  wr_preserved :: "string option"   \<comment> \<open>the payload of a \<open>PreservedMCPError\<close>\<close>
  wr_started :: gotime
  wr_completed :: gotime

record connection =
  cn_retires :: "bool option"    \<comment> \<open>\<open>RetireResponseDeadline\<close>, when implemented\<close>
  cn_preserves :: "bool option"  \<comment> \<open>\<open>PreserveAfterResponseCompletion\<close>, when implemented\<close>

record forwarding =
  fw_encode :: encoder
  fw_posts :: post_script
  fw_request_id :: string
  fw_rpc_id :: rpc_id
  fw_code :: int
  fw_headers :: header
  fw_channel :: channel
  fw_kind :: transport_kind
  fw_started :: gotime

record read_step =
  rd_result :: "goerr + rpc_message option"
  rd_ctx :: ctx_state
  rd_now :: gotime

text \<open>The terminal error response; the flag says whether it was delivered.\<close>

definition postTerminalErrorResponse :: "forwarding \<Rightarrow> ctx_state \<Rightarrow> goerr \<Rightarrow> work \<Rightarrow> work \<times> bool" where
  "postTerminalErrorResponse fw ctx cause w =
     (if cause = nil_err then (w, False)
      else
        (let w = recordWorkFailure ctx cause 0 w in
         case buildTunnelFailureJSONRPCErrorResponse (fw_encode fw) (fw_rpc_id fw) 502
                (classifyTunnelFailure 0 cause) of
           Inl _ \<Rightarrow> (w, False)
         | Inr encodedError \<Rightarrow>
             (let (w, err) = postTunnelResponse (fw_posts fw) (fw_request_id fw)
                    (NewTunnelResponse (fw_channel fw) encodedError 502
                      (jsonRPCResponseHeaders (fw_headers fw))) w
              in (w, err = nil_err))))"

text \<open>Whether to keep forwarding notifications, or the error that ends the loop.\<close>

definition forwardNotification :: "forwarding \<Rightarrow> rpc_message \<Rightarrow> work \<Rightarrow> work \<times> (goerr + bool)" where
  "forwardNotification fw notifyMsg w =
     (case fw_encode fw notifyMsg of
        Inl e \<Rightarrow> (w, Inl (newProtocolFailureError e))
      | Inr encoded \<Rightarrow>
          if encoded = [] then
            (w, Inl (newProtocolFailureError [ErrText ''encoded notification from MCP server was empty'']))
          else
            (let h = (if header_get (fw_headers fw) ''Content-Type'' = []
                      then header_set (fw_headers fw) ''Content-Type'' ''text/event-stream''
                      else fw_headers fw);
                 (w, err) = postTunnelResponse (fw_posts fw) (fw_request_id fw)
                   (NewJSONRPCNotification (fw_channel fw) encoded (fw_code fw) h) w
             in (w, Inr (err = nil_err))))"

text \<open>
  The exit of the read loop: \<open>responseDelivered\<close>, \<open>terminalResponseDelivered\<close>
  and \<open>mcpResponseReceived\<close>.
\<close>

type_synonym forward_exit = "work \<times> bool \<times> bool \<times> bool"

definition terminal_error :: "forwarding \<Rightarrow> ctx_state \<Rightarrow> goerr \<Rightarrow> work \<Rightarrow> forward_exit" where
  "terminal_error fw ctx cause w =
     (let (w, delivered) = postTerminalErrorResponse fw ctx cause w in (w, delivered, False, False))"

definition forward_response :: "forwarding \<Rightarrow> read_step \<Rightarrow> rpc_message \<Rightarrow> rpc_id \<Rightarrow> work \<Rightarrow> forward_exit" where
  "forward_response fw step response i w =
     (case fw_encode fw response of
        Inl e \<Rightarrow> terminal_error fw (rd_ctx step) (newProtocolFailureError e) w
      | Inr encoded \<Rightarrow>
          if encoded = [] then
            terminal_error fw (rd_ctx step)
              (newProtocolFailureError [ErrText ''encoded response from MCP server was empty'']) w
          else if i = NoId then
            terminal_error fw (rd_ctx step)
              (newProtocolFailureError [ErrText ''received response without valid ID from MCP server'']) w
          else if i \<noteq> fw_rpc_id fw then
            terminal_error fw (rd_ctx step)
              (newProtocolFailureError [ErrText ''received response with mismatched ID from MCP server'']) w
          else
            (let (w, err) = postTunnelResponse (fw_posts fw) (fw_request_id fw)
                   (withResponseTiming
                     (NewTunnelResponse (fw_channel fw) encoded (fw_code fw)
                       (jsonRPCResponseHeaders (fw_headers fw)))
                     (fw_kind fw) (fw_started fw) (rd_now step)) w
             in (w, err = nil_err, err = nil_err, True)))"

fun forward_loop :: "forwarding \<Rightarrow> bool \<Rightarrow> read_step list \<Rightarrow> work \<Rightarrow> forward_exit option" where
  "forward_loop fw enabled [] w = None"
| "forward_loop fw enabled (step # steps) w = (case rd_result step of
     Inl readErr \<Rightarrow>
       (let w = recordWorkFailure (rd_ctx step) readErr 0 w in
        if errors_is readErr ConnectionClosed \<or> errors_is readErr EOF then
          Some (terminal_error fw (rd_ctx step) readErr w)
        else if errors_is readErr DeadlineExceeded \<or> errors_is readErr Canceled then
          Some (w, False, False, False)
        else Some (terminal_error fw (rd_ctx step) readErr w))
   | Inr None \<Rightarrow>
       Some (terminal_error fw (rd_ctx step)
         (newProtocolFailureError [ErrText ''received nil message from MCP server without error'']) w)
   | Inr (Some (Request NoId method params)) \<Rightarrow>
       if \<not> enabled then forward_loop fw enabled steps w
       else
         (case forwardNotification fw (Request NoId method params) w of
            (w, Inl err) \<Rightarrow> Some (recordWorkFailure (rd_ctx step) err 0 w, False, False, False)
          | (w, Inr keepForwarding) \<Rightarrow> forward_loop fw keepForwarding steps w)
   | Inr (Some (Request _ _ _)) \<Rightarrow>
       Some (terminal_error fw (rd_ctx step)
         (newProtocolFailureError [ErrText ''received non-response message from MCP server'']) w)
   | Inr (Some (Response i e r)) \<Rightarrow> Some (forward_response fw step (Response i e r) i w))"

definition retireExpiredResponseConnection :: "ctx_state \<Rightarrow> connection \<Rightarrow> work \<Rightarrow> work \<times> bool" where
  "retireExpiredResponseConnection ctx conn w =
     (if \<not> responseDeadlineReached ctx then (w, False)
      else (case cn_retires conn of
         None \<Rightarrow> (w, False)
       | Some b \<Rightarrow> (conn_event (ConnRetire b) w, b)))"

definition retire_or_close :: "ctx_state \<Rightarrow> connection \<Rightarrow> work \<Rightarrow> work" where
  "retire_or_close ctx conn w =
     (case retireExpiredResponseConnection ctx conn w of
        (w, retired) \<Rightarrow> if retired then w else conn_event ConnClose w)"

text \<open>The deferred cleanup; \<open>ctx\<close> is the state of the context when it runs.\<close>

definition finish_forwarding :: "ctx_state \<Rightarrow> connection \<Rightarrow> bool \<Rightarrow> bool \<Rightarrow> work \<Rightarrow> work" where
  "finish_forwarding ctx conn terminalResponseDelivered mcpResponseReceived w =
     (if terminalResponseDelivered \<or> mcpResponseReceived \<and> responseDeadlineReached ctx then w
      else if mcpResponseReceived then
        (case cn_preserves conn of
           None \<Rightarrow> retire_or_close ctx conn w
         | Some b \<Rightarrow>
             let w = conn_event (ConnPreserve b) w in
             if b then w else retire_or_close ctx conn w)
      else retire_or_close ctx conn w)"

definition forwardResponses ::
  "forwarding \<Rightarrow> connection \<Rightarrow> read_step list \<Rightarrow> ctx_state \<Rightarrow> work \<Rightarrow> (work \<times> bool) option" where
  "forwardResponses fw conn reads exit_ctx w = (case forward_loop fw True reads w of
     None \<Rightarrow> None
   | Some (w, delivered, terminal, received) \<Rightarrow>
       Some (finish_forwarding exit_ctx conn terminal received w, delivered))"

section \<open>Lemmas\<close>

named_theorems work_simps \<open>what the operations leave of the work record\<close>

lemma deadline_reached_iff [work_simps]:
  "responseDeadlineReached ctx \<longleftrightarrow> ctx = CtxResponseDeadline"
  by (cases ctx) (simp_all add: responseDeadlineReached_def)

lemma ttl_reached_iff [work_simps]: "connectionTTLReached ctx \<longleftrightarrow> ctx = CtxTTL"
  by (cases ctx) (simp_all add: connectionTTLReached_def)

lemma record_keeps [work_simps]:
  "wk_posts (recordWorkFailure ctx err st w) = wk_posts w"
  "wk_conn (recordWorkFailure ctx err st w) = wk_conn w"
  by (simp_all add: recordWorkFailure_def Let_def)

lemma record_sticky:
  "wk_failed w \<Longrightarrow> wk_failed (recordWorkFailure ctx err st w)"
  "wk_timed_out w \<Longrightarrow> wk_timed_out (recordWorkFailure ctx err st w)"
  by (simp_all add: recordWorkFailure_def Let_def)

lemma conn_event_keeps [work_simps]:
  "wk_posts (conn_event e w) = wk_posts w" "wk_failed (conn_event e w) = wk_failed w"
  "wk_timed_out (conn_event e w) = wk_timed_out w" "wk_conn (conn_event e w) = wk_conn w @ [e]"
  by (simp_all add: conn_event_def)

lemma post_effect:
  assumes "postTunnelResponse posts rid resp w = (w', err)"
  shows "wk_posts w' = wk_posts w @ [(rid, resp, err)]" "wk_conn w' = wk_conn w"
  using assms by (auto simp: postTunnelResponse_def Let_def work_simps split: prod.splits if_splits)

lemma retire_or_close_effect [work_simps]:
  "wk_posts (retire_or_close ctx conn w) = wk_posts w"
  by (auto simp: retire_or_close_def retireExpiredResponseConnection_def work_simps split: option.splits)

lemma finish_keeps_posts [work_simps]:
  "wk_posts (finish_forwarding ctx conn t r w) = wk_posts w"
  by (simp add: finish_forwarding_def Let_def work_simps split: option.splits)

lemma new_response_type [simp]:
  "tr_type (NewTunnelResponse ch p c h) = ResponseTypeJSONRPCResponse"
  "tr_channel (NewTunnelResponse ch p c h) = ch" "tr_response (NewTunnelResponse ch p c h) = p"
  "tr_code (NewTunnelResponse ch p c h) = c" "tr_headers (NewTunnelResponse ch p c h) = h"
  by (simp_all add: NewTunnelResponse_def)

lemma new_notification_type [simp]:
  "tr_type (NewJSONRPCNotification ch p c h) = ResponseTypeJSONRPCNotification"
  "tr_channel (NewJSONRPCNotification ch p c h) = ch"
  "tr_response (NewJSONRPCNotification ch p c h) = p"
  by (simp_all add: NewJSONRPCNotification_def)

lemma timing_keeps [simp]:
  "tr_type (withResponseTiming r k s c) = tr_type r"
  "tr_channel (withResponseTiming r k s c) = tr_channel r"
  "tr_response (withResponseTiming r k s c) = tr_response r"
  "tr_code (withResponseTiming r k s c) = tr_code r"
  "tr_headers (withResponseTiming r k s c) = tr_headers r"
  by (simp_all add: withResponseTiming_def WithTiming_def Let_def)

text \<open>The terminal response of a command: what the target answered, or a failure envelope.\<close>

definition answer_of :: "forwarding \<Rightarrow> read_step list \<Rightarrow> tunnel_response \<Rightarrow> bool" where
  "answer_of fw reads resp \<longleftrightarrow>
     (\<exists>e r. Inr (Some (Response (fw_rpc_id fw) e r)) \<in> rd_result ` set reads \<and>
            fw_encode fw (Response (fw_rpc_id fw) e r) = Inr (tr_response resp)) \<and>
     tr_code resp = fw_code fw"

definition failure_of :: "forwarding \<Rightarrow> tunnel_response \<Rightarrow> bool" where
  "failure_of fw resp \<longleftrightarrow> tr_code resp = 502 \<and>
     (\<exists>cause. buildTunnelFailureJSONRPCErrorResponse (fw_encode fw) (fw_rpc_id fw) 502
                (classifyTunnelFailure 0 cause) = Inr (tr_response resp))"

definition terminal_post ::
  "forwarding \<Rightarrow> read_step list \<Rightarrow> bool \<Rightarrow> bool \<Rightarrow> string \<times> tunnel_response \<times> goerr \<Rightarrow> bool" where
  "terminal_post fw reads delivered received p = (case p of (rid, resp, err) \<Rightarrow>
     rid = fw_request_id fw \<and> tr_type resp = ResponseTypeJSONRPCResponse \<and>
     tr_channel resp = fw_channel fw \<and> (delivered \<longleftrightarrow> err = nil_err) \<and>
     (if received then answer_of fw reads resp else failure_of fw resp))"

definition notify_post :: "forwarding \<Rightarrow> string \<times> tunnel_response \<times> goerr \<Rightarrow> bool" where
  "notify_post fw p = (case p of (rid, resp, err) \<Rightarrow>
     rid = fw_request_id fw \<and> tr_type resp = ResponseTypeJSONRPCNotification \<and>
     tr_channel resp = fw_channel fw)"

definition exit_ok :: "forwarding \<Rightarrow> read_step list \<Rightarrow> work \<Rightarrow> forward_exit \<Rightarrow> bool" where
  "exit_ok fw reads w x = (case x of (w', delivered, terminal, received) \<Rightarrow>
     wk_conn w' = wk_conn w \<and> (terminal \<longleftrightarrow> delivered \<and> received) \<and>
     (wk_posts w' = wk_posts w \<and> \<not> delivered \<and> \<not> received \<or>
      (\<exists>p. wk_posts w' = wk_posts w @ [p] \<and> terminal_post fw reads delivered received p)))"

lemma terminal_error_exit: "exit_ok fw reads w (terminal_error fw ctx cause w)"
proof (cases "cause = nil_err \<or>
    (\<exists>e. buildTunnelFailureJSONRPCErrorResponse (fw_encode fw) (fw_rpc_id fw) 502
            (classifyTunnelFailure 0 cause) = Inl e)")
  case True
  then show ?thesis
    by (auto simp: terminal_error_def postTerminalErrorResponse_def exit_ok_def work_simps)
next
  case False
  then obtain enc where enc: "cause \<noteq> nil_err"
    "buildTunnelFailureJSONRPCErrorResponse (fw_encode fw) (fw_rpc_id fw) 502
       (classifyTunnelFailure 0 cause) = Inr enc"
    by (metis sum.exhaust)
  let ?resp = "NewTunnelResponse (fw_channel fw) enc 502 (jsonRPCResponseHeaders (fw_headers fw))"
  obtain w' err where post: "postTunnelResponse (fw_posts fw) (fw_request_id fw) ?resp
      (recordWorkFailure ctx cause 0 w) = (w', err)"
    by (metis surj_pair)
  have "failure_of fw ?resp" using enc by (auto simp: failure_of_def)
  then show ?thesis
    using enc post post_effect [OF post]
    by (simp add: terminal_error_def postTerminalErrorResponse_def exit_ok_def terminal_post_def work_simps)
qed

lemma forward_response_exit:
  assumes "rd_result step = Inr (Some (Response i e r))" and "step \<in> set reads"
  shows "exit_ok fw reads w (forward_response fw step (Response i e r) i w)"
proof (cases "fw_encode fw (Response i e r)")
  case (Inr enc)
  show ?thesis
  proof (cases "enc = [] \<or> i = NoId \<or> i \<noteq> fw_rpc_id fw")
    case True
    then show ?thesis
      using Inr by (auto simp: forward_response_def terminal_error_exit)
  next
    case False
    then have ids: "enc \<noteq> []" "fw_rpc_id fw \<noteq> NoId" "i = fw_rpc_id fw" by auto
    let ?resp = "withResponseTiming (NewTunnelResponse (fw_channel fw) enc (fw_code fw)
        (jsonRPCResponseHeaders (fw_headers fw))) (fw_kind fw) (fw_started fw) (rd_now step)"
    obtain w' err where post: "postTunnelResponse (fw_posts fw) (fw_request_id fw) ?resp w = (w', err)"
      by (metis surj_pair)
    have "answer_of fw reads ?resp"
      using ids Inr assms unfolding answer_of_def by (force simp: image_iff)
    then show ?thesis
      using ids Inr post post_effect [OF post]
      by (simp add: forward_response_def exit_ok_def terminal_post_def)
  qed
qed (simp add: forward_response_def terminal_error_exit)

text \<open>The notifications the target sends before anything else.\<close>

fun is_note :: "read_step \<Rightarrow> bool" where
  "is_note step = (case rd_result step of Inr (Some (Request NoId _ _)) \<Rightarrow> True | _ \<Rightarrow> False)"

fun leading_notes :: "read_step list \<Rightarrow> rpc_message list" where
  "leading_notes [] = []"
| "leading_notes (step # steps) = (case rd_result step of
     Inr (Some (Request NoId method params)) \<Rightarrow> Request NoId method params # leading_notes steps
   | _ \<Rightarrow> [])"

abbreviation post_ok :: "string \<times> tunnel_response \<times> goerr \<Rightarrow> bool" where
  "post_ok p \<equiv> snd (snd p) = nil_err"

definition forwarded ::
  "forwarding \<Rightarrow> read_step list \<Rightarrow> bool \<Rightarrow> (string \<times> tunnel_response \<times> goerr) list \<Rightarrow> bool \<Rightarrow> bool \<Rightarrow> bool" where
  "forwarded fw reads enabled ps delivered received \<longleftrightarrow>
     (\<exists>ns ts. ps = ns @ ts \<and> list_all (notify_post fw) ns \<and>
        map (\<lambda>p. Inr (tr_response (fst (snd p)))) ns =
          map (fw_encode fw) (take (length ns) (leading_notes reads)) \<and>
        list_all post_ok (butlast ns) \<and> (\<not> enabled \<longrightarrow> ns = []) \<and>
        (enabled \<and> received \<and> list_all post_ok ns \<longrightarrow> length ns = length (leading_notes reads)) \<and>
        (ts = [] \<and> \<not> delivered \<and> \<not> received \<or>
         (\<exists>p. ts = [p] \<and> terminal_post fw reads delivered received p)))"

lemma exit_forwarded:
  assumes "exit_ok fw reads w (w', d, t, r)" and "leading_notes reads = []"
  shows "\<exists>ps. wk_posts w' = wk_posts w @ ps \<and> forwarded fw reads enabled ps d r \<and>
              wk_conn w' = wk_conn w \<and> (t \<longleftrightarrow> d \<and> r)"
  using assms unfolding exit_ok_def forwarded_def by force

lemma terminal_post_later:
  "terminal_post fw steps d r p \<Longrightarrow> terminal_post fw (step # steps) d r p"
  by (auto simp: terminal_post_def answer_of_def split: prod.splits if_splits)

lemma forwarded_skip:
  assumes "forwarded fw steps False ps d r" and "is_note step"
  shows "forwarded fw (step # steps) False ps d r"
  using assms(1) terminal_post_later unfolding forwarded_def by fastforce

lemma forwarded_note:
  assumes step: "rd_result step = Inr (Some (Request NoId m q))"
    and p: "notify_post fw p" "fw_encode fw (Request NoId m q) = Inr (tr_response (fst (snd p)))"
    and rest: "forwarded fw steps (post_ok p) ps d r"
  shows "forwarded fw (step # steps) True (p # ps) d r"
proof -
  from rest obtain ns ts where ns: "ps = ns @ ts" "list_all (notify_post fw) ns"
      "map (\<lambda>p. Inr (tr_response (fst (snd p)))) ns =
         map (fw_encode fw) (take (length ns) (leading_notes steps))"
      "list_all post_ok (butlast ns)" "\<not> post_ok p \<longrightarrow> ns = []"
      "post_ok p \<and> r \<and> list_all post_ok ns \<longrightarrow> length ns = length (leading_notes steps)"
      "ts = [] \<and> \<not> d \<and> \<not> r \<or> (\<exists>p. ts = [p] \<and> terminal_post fw steps d r p)"
    unfolding forwarded_def by blast
  have "list_all post_ok (butlast (p # ns))" using ns(4,5) by (cases ns) auto
  then show ?thesis
    using ns step p terminal_post_later [of fw steps d r _ step]
    unfolding forwarded_def by (intro exI [of _ "p # ns"] exI [of _ ts]) auto
qed

lemma forwardNotification_cases:
  assumes "forwardNotification fw msg w = (w', x)"
  obtains (Failed) err where "x = Inl err" "w' = w"
  | (Posted) p where "x = Inr (post_ok p)" "wk_posts w' = wk_posts w @ [p]" "wk_conn w' = wk_conn w"
      "notify_post fw p" "fw_encode fw msg = Inr (tr_response (fst (snd p)))"
proof (cases "\<exists>enc. fw_encode fw msg = Inr enc \<and> enc \<noteq> []")
  case False
  then show ?thesis
    using assms Failed by (cases "fw_encode fw msg") (auto simp: forwardNotification_def)
next
  case True
  then obtain enc where enc: "fw_encode fw msg = Inr enc" "enc \<noteq> []" by blast
  define h where "h = (if header_get (fw_headers fw) ''Content-Type'' = []
    then header_set (fw_headers fw) ''Content-Type'' ''text/event-stream'' else fw_headers fw)"
  obtain v err where post: "postTunnelResponse (fw_posts fw) (fw_request_id fw)
      (NewJSONRPCNotification (fw_channel fw) enc (fw_code fw) h) w = (v, err)"
    by (metis surj_pair)
  then have "w' = v" "x = Inr (err = nil_err)"
    using assms enc by (simp_all add: forwardNotification_def h_def [symmetric])
  then show ?thesis
    using Posted [of "(fw_request_id fw, NewJSONRPCNotification (fw_channel fw) enc (fw_code fw) h, err)"]
      post_effect [OF post] enc by (simp add: notify_post_def)
qed

lemma exit_ok_record [simp]: "exit_ok fw reads (recordWorkFailure c e st w) x = exit_ok fw reads w x"
  by (simp add: exit_ok_def work_simps)

lemma exit_ok_silent [simp]: "exit_ok fw reads w (recordWorkFailure c e st w, False, False, False)"
  by (simp add: exit_ok_def work_simps)

lemma terminal_error_record [simp]:
  "exit_ok fw reads w (terminal_error fw ctx cause (recordWorkFailure c e st w))"
  using terminal_error_exit [of fw reads "recordWorkFailure c e st w" ctx cause] by simp

text \<open>Anything but a notification ends the loop.\<close>

lemma forward_loop_ends:
  assumes "\<not> is_note step"
  shows "case forward_loop fw enabled (step # steps) w of
           None \<Rightarrow> False | Some x \<Rightarrow> exit_ok fw (step # steps) w x"
proof (cases "rd_result step")
  case (Inl err)
  then show ?thesis by (simp add: Let_def)
next
  case (Inr m)
  show ?thesis
  proof (cases m)
    case None
    then show ?thesis using Inr by (simp add: terminal_error_exit)
  next
    case (Some msg)
    show ?thesis
    proof (cases msg)
      case (Request i meth params)
      then have "i \<noteq> NoId" using assms Inr Some by auto
      then show ?thesis
        using Inr Some Request by (cases i) (simp_all add: terminal_error_exit)
    next
      case (Response i e r)
      then show ?thesis using Inr Some by (simp add: forward_response_exit)
    qed
  qed
qed

lemma forward_loop_posts:
  "forward_loop fw enabled reads w = Some (w', d, t, r) \<Longrightarrow>
   \<exists>ps. wk_posts w' = wk_posts w @ ps \<and> forwarded fw reads enabled ps d r \<and>
        wk_conn w' = wk_conn w \<and> (t \<longleftrightarrow> d \<and> r)"
proof (induction reads arbitrary: enabled w)
  case (Cons step steps)
  show ?case
  proof (cases "is_note step")
    case False
    then have none: "leading_notes (step # steps) = []"
      by (auto split: sum.splits option.splits rpc_message.splits rpc_id.splits)
    have "exit_ok fw (step # steps) w (w', d, t, r)"
      using forward_loop_ends [OF False, where fw = fw and enabled = enabled and steps = steps and w = w] Cons.prems
      by (simp del: forward_loop.simps)
    from exit_forwarded [OF this none] show ?thesis .
  next
    case isn: True
    then obtain m q where step: "rd_result step = Inr (Some (Request NoId m q))"
      by (auto split: sum.splits option.splits rpc_message.splits rpc_id.splits)
    show ?thesis
    proof (cases enabled)
      case False
      then have "forward_loop fw False steps w = Some (w', d, t, r)"
        using Cons.prems step by simp
      from Cons.IH [OF this] obtain ps where ps: "wk_posts w' = wk_posts w @ ps"
          "forwarded fw steps False ps d r" "wk_conn w' = wk_conn w" "t \<longleftrightarrow> d \<and> r"
        by blast
      have "forwarded fw (step # steps) False ps d r" using ps(2) isn by (rule forwarded_skip)
      then show ?thesis using False ps by auto
    next
      case True
      obtain v x where fn: "forwardNotification fw (Request NoId m q) w = (v, x)"
        by (metis surj_pair)
      from fn show ?thesis
      proof (cases rule: forwardNotification_cases)
        case (Failed err)
        then have "w' = recordWorkFailure (rd_ctx step) err 0 w" "\<not> d" "\<not> t" "\<not> r"
          using Cons.prems step True fn by auto
        then show ?thesis
          unfolding forwarded_def by (intro exI [of _ "[]"]) (simp add: work_simps)
      next
        case (Posted p)
        then have "forward_loop fw (post_ok p) steps v = Some (w', d, t, r)"
          using Cons.prems step True fn by simp
        from Cons.IH [OF this] obtain ps where ps: "wk_posts w' = wk_posts v @ ps"
            "forwarded fw steps (post_ok p) ps d r" "wk_conn w' = wk_conn v" "t \<longleftrightarrow> d \<and> r"
          by blast
        have "forwarded fw (step # steps) True (p # ps) d r"
          using forwarded_note [OF step] Posted ps by blast
        then show ?thesis using Posted ps True by auto
      qed
    qed
  qed
qed simp

text \<open>The loop returns once the target sends anything but a notification.\<close>

lemma forward_loop_returns:
  "list_ex (\<lambda>step. \<not> is_note step) reads \<Longrightarrow> forward_loop fw enabled reads w \<noteq> None"
proof (induction reads arbitrary: enabled w)
  case (Cons step steps)
  show ?case
  proof (cases "is_note step")
    case False
    then show ?thesis
      using forward_loop_ends [OF False, where fw = fw and enabled = enabled and steps = steps and w = w] by (auto split: option.splits)
  next
    case True
    then obtain m q where "rd_result step = Inr (Some (Request NoId m q))"
      by (auto split: sum.splits option.splits rpc_message.splits rpc_id.splits)
    then show ?thesis
      using Cons True by (auto split: prod.splits sum.splits)
  qed
qed simp

lemma forward_responses_posts:
  assumes "forwardResponses fw conn reads exit_ctx w = Some (w', d)"
  shows "\<exists>ns final. wk_posts w' = wk_posts w @ ns @ final \<and> list_all (notify_post fw) ns \<and>
    length final \<le> 1 \<and> (d \<longrightarrow> final \<noteq> []) \<and>
    list_all (\<lambda>(rid, resp, _). rid = fw_request_id fw \<and> tr_channel resp = fw_channel fw) final"
proof -
  obtain v t r where loop: "forward_loop fw True reads w = Some (v, d, t, r)"
      and w': "w' = finish_forwarding exit_ctx conn t r v"
    using assms by (auto simp: forwardResponses_def split: option.splits)
  from forward_loop_posts [OF loop] obtain ps where
    ps: "wk_posts v = wk_posts w @ ps" "forwarded fw reads True ps d r" by blast
  from ps(2) obtain ns ts where "ps = ns @ ts" "list_all (notify_post fw) ns"
      "ts = [] \<and> \<not> d \<and> \<not> r \<or> (\<exists>p. ts = [p] \<and> terminal_post fw reads d r p)"
    unfolding forwarded_def by blast
  then show ?thesis
    using w' ps(1)
    by (intro exI [of _ ns] exI [of _ ts]) (auto simp: work_simps terminal_post_def)
qed

text \<open>
  A terminal response is always posted when messages encode and no read fails
  because the context is done.
\<close>

definition encodes_all :: "encoder \<Rightarrow> bool" where
  "encodes_all enc \<longleftrightarrow> (\<forall>m. \<exists>s. enc m = Inr s \<and> s \<noteq> [])"

definition target_read :: "read_step \<Rightarrow> bool" where
  "target_read step = (case rd_result step of
     Inl e \<Rightarrow> e \<noteq> nil_err \<and> \<not> errors_is e DeadlineExceeded \<and> \<not> errors_is e Canceled | Inr _ \<Rightarrow> True)"

definition terminal_posted :: "work \<Rightarrow> work \<Rightarrow> bool" where
  "terminal_posted w w' \<longleftrightarrow> (\<exists>ns p. wk_posts w' = wk_posts w @ ns @ [p] \<and>
     list_all (\<lambda>q. tr_type (fst (snd q)) = ResponseTypeJSONRPCNotification) ns \<and>
     tr_type (fst (snd p)) \<noteq> ResponseTypeJSONRPCNotification)"

lemma terminal_posted_keeps [simp]:
  "terminal_posted (recordWorkFailure c e st w) w' = terminal_posted w w'"
  "terminal_posted w (recordWorkFailure c e st w') = terminal_posted w w'"
  "terminal_posted (conn_event ev w) w' = terminal_posted w w'"
  "terminal_posted w (finish_forwarding c cn t r w') = terminal_posted w w'"
  by (simp_all add: terminal_posted_def work_simps)

lemma post_terminal:
  assumes "tr_type resp \<noteq> ResponseTypeJSONRPCNotification"
  shows "terminal_posted w (fst (postTunnelResponse posts rid resp w))"
proof -
  have "wk_posts (fst (postTunnelResponse posts rid resp w))
      = wk_posts w @ [] @ [(rid, resp, snd (postTunnelResponse posts rid resp w))]"
    using post_effect(1) [of posts rid resp w] by (metis append_Nil prod.collapse)
  with assms show ?thesis
    unfolding terminal_posted_def by (intro exI [of _ "[]"] exI) (auto simp: list_all_iff)
qed

lemma build_failure_encodes:
  "encodes_all enc \<Longrightarrow> \<exists>s. buildTunnelFailureJSONRPCErrorResponse enc i st f = Inr s"
  unfolding encodes_all_def buildTunnelFailureJSONRPCErrorResponse_def Let_def by metis

lemma terminal_error_posts:
  assumes "encodes_all (fw_encode fw)" and "cause \<noteq> nil_err"
  shows "terminal_posted w (fst (terminal_error fw ctx cause w))"
proof -
  obtain enc where enc: "buildTunnelFailureJSONRPCErrorResponse (fw_encode fw) (fw_rpc_id fw) 502
      (classifyTunnelFailure 0 cause) = Inr enc"
    using build_failure_encodes [OF assms(1)] by blast
  show ?thesis
    using post_terminal [of "NewTunnelResponse (fw_channel fw) enc 502 (jsonRPCResponseHeaders (fw_headers fw))"
        "recordWorkFailure ctx cause 0 w"] enc assms(2)
    by (simp add: terminal_error_def postTerminalErrorResponse_def split_beta Let_def)
qed

lemma forward_response_posts:
  assumes "encodes_all (fw_encode fw)"
  shows "terminal_posted w (fst (forward_response fw step msg i w))"
proof -
  obtain enc where enc: "fw_encode fw msg = Inr enc" "enc \<noteq> []"
    using assms unfolding encodes_all_def by blast
  show ?thesis
    using enc terminal_error_posts [OF assms]
    by (simp add: forward_response_def split_beta post_terminal newProtocolFailureError_def)
qed

lemma terminal_posted_after_note:
  assumes "wk_posts v = wk_posts w @ [p]" "notify_post fw p" "terminal_posted v w'"
  shows "terminal_posted w w'"
proof -
  obtain ns q where "wk_posts w' = wk_posts v @ ns @ [q]"
      "list_all (\<lambda>q. tr_type (fst (snd q)) = ResponseTypeJSONRPCNotification) ns"
      "tr_type (fst (snd q)) \<noteq> ResponseTypeJSONRPCNotification"
    using assms(3) unfolding terminal_posted_def by blast
  with assms(1,2) show ?thesis
    unfolding terminal_posted_def
    by (intro exI [of _ "p # ns"] exI [of _ q]) (auto simp: notify_post_def)
qed

lemma forward_loop_answers:
  assumes "encodes_all (fw_encode fw)"
  shows "\<lbrakk>list_all target_read reads; list_ex (\<lambda>step. \<not> is_note step) reads\<rbrakk> \<Longrightarrow>
    \<exists>x. forward_loop fw enabled reads w = Some x \<and> terminal_posted w (fst x)"
proof (induction reads arbitrary: enabled w)
  case (Cons step steps)
  show ?case
  proof (cases "rd_result step")
    case (Inl e)
    then have "e \<noteq> nil_err" "\<not> errors_is e DeadlineExceeded" "\<not> errors_is e Canceled"
      using Cons.prems by (simp_all add: target_read_def)
    then show ?thesis
      using Inl terminal_error_posts [OF assms, of e "recordWorkFailure (rd_ctx step) e 0 w"]
      by (simp add: Let_def del: split_paired_Ex)
  next
    case (Inr m)
    show ?thesis
    proof (cases "is_note step")
      case False
      then show ?thesis
        using Inr terminal_error_posts [OF assms] forward_response_posts [OF assms]
        by (auto simp: newProtocolFailureError_def simp del: split_paired_Ex
            split: option.splits rpc_message.splits rpc_id.splits)
    next
      case True
      then obtain meth q where step: "rd_result step = Inr (Some (Request NoId meth q))"
        by (auto split: sum.splits option.splits rpc_message.splits rpc_id.splits)
      have rest: "list_all target_read steps" "list_ex (\<lambda>step. \<not> is_note step) steps"
        using Cons.prems True by simp_all
      obtain v x where fn: "forwardNotification fw (Request NoId meth q) w = (v, x)"
        by (metis surj_pair)
      from fn show ?thesis
      proof (cases rule: forwardNotification_cases)
        case (Failed err)
        obtain enc where "fw_encode fw (Request NoId meth q) = Inr enc" "enc \<noteq> []"
          using assms unfolding encodes_all_def by blast
        with fn Failed have False by (auto simp: forwardNotification_def split: prod.splits)
        then show ?thesis ..
      next
        case (Posted p)
        then show ?thesis
          using Cons.IH [OF rest, of "post_ok p" v] Cons.IH [OF rest, of False w] step fn
            terminal_posted_after_note [of v w p fw]
          by (cases enabled) auto
      qed
    qed
  qed
qed simp

text \<open>Which connections stay open.\<close>

definition kept_open :: "ctx_state \<Rightarrow> connection \<Rightarrow> bool \<Rightarrow> bool \<Rightarrow> bool" where
  "kept_open ctx conn terminal received \<longleftrightarrow>
     terminal \<or> received \<and> (ctx = CtxResponseDeadline \<or> cn_preserves conn = Some True) \<or>
     ctx = CtxResponseDeadline \<and> cn_retires conn = Some True"

lemma retire_or_close_conn:
  "\<exists>evs. wk_conn (retire_or_close ctx conn w) = wk_conn w @ evs \<and>
     filter (\<lambda>e. e = ConnClose) evs =
       (if ctx = CtxResponseDeadline \<and> cn_retires conn = Some True then [] else [ConnClose])"
  by (auto simp: retire_or_close_def retireExpiredResponseConnection_def work_simps split: option.splits)

lemma finish_forwarding_conn:
  "\<exists>evs. wk_conn (finish_forwarding ctx conn t r w) = wk_conn w @ evs \<and>
     filter (\<lambda>e. e = ConnClose) evs = (if kept_open ctx conn t r then [] else [ConnClose])"
proof (cases "r \<and> \<not> t \<and> ctx \<noteq> CtxResponseDeadline \<and> cn_preserves conn \<noteq> None")
  case True
  then obtain b where b: "cn_preserves conn = Some b" by auto
  show ?thesis
    using True b retire_or_close_conn [of ctx conn "conn_event (ConnPreserve b) w"]
    by (auto simp: finish_forwarding_def kept_open_def work_simps)
next
  case False
  then show ?thesis
    using retire_or_close_conn [of ctx conn w]
    by (auto simp: finish_forwarding_def kept_open_def work_simps)
qed

section \<open>Properties\<close>

text \<open>
  C4. What the caller receives for a request: first the target's
  notifications, in the order they were read, each posted once, and none after
  a post failed; then at most one terminal response, on the same request and
  channel. If the target answered, that is its answer, byte for byte as
  encoded, and it bears the identifier of the request; otherwise it is a failure
  envelope with status 502. \<open>forwardResponses\<close> reports delivery exactly when
  the terminal post was accepted, and when the target answered and no post
  failed, no notification is missing.
\<close>

theorem forward_responses_contract:
  assumes "forwardResponses fw conn reads exit_ctx w = Some (w', delivered)"
  shows "\<exists>ns final received.
    wk_posts w' = wk_posts w @ ns @ final \<and>
    list_all (notify_post fw) ns \<and> list_all post_ok (butlast ns) \<and>
    map (\<lambda>p. Inr (tr_response (fst (snd p)))) ns =
      map (fw_encode fw) (take (length ns) (leading_notes reads)) \<and>
    (received \<and> list_all post_ok ns \<longrightarrow> length ns = length (leading_notes reads)) \<and>
    (final = [] \<and> \<not> delivered \<and> \<not> received \<or>
     (\<exists>p. final = [p] \<and> terminal_post fw reads delivered received p))"
proof -
  obtain v d t r where loop: "forward_loop fw True reads w = Some (v, d, t, r)"
      and w': "w' = finish_forwarding exit_ctx conn t r v" "delivered = d"
    using assms by (auto simp: forwardResponses_def split: option.splits)
  from forward_loop_posts [OF loop] obtain ps where
    ps: "wk_posts v = wk_posts w @ ps" "forwarded fw reads True ps d r" by blast
  from ps(2) obtain ns ts where "ps = ns @ ts" "list_all (notify_post fw) ns"
      "map (\<lambda>p. Inr (tr_response (fst (snd p)))) ns =
         map (fw_encode fw) (take (length ns) (leading_notes reads))"
      "list_all post_ok (butlast ns)"
      "r \<and> list_all post_ok ns \<longrightarrow> length ns = length (leading_notes reads)"
      "ts = [] \<and> \<not> d \<and> \<not> r \<or> (\<exists>p. ts = [p] \<and> terminal_post fw reads d r p)"
    unfolding forwarded_def by blast
  then show ?thesis
    using w' ps(1) by (intro exI [of _ ns] exI [of _ ts] exI [of _ r]) (simp add: work_simps)
qed

definition example_forwarding :: forwarding where
  "example_forwarding = \<lparr>fw_encode = \<lambda>m. Inr (case m of Request _ method _ \<Rightarrow> method | Response _ _ r \<Rightarrow> r),
     fw_posts = \<lambda>_. (nil_err, CtxLive), fw_request_id = ''r1'', fw_rpc_id = IntId 7, fw_code = 200,
     fw_headers = [], fw_channel = ''main'', fw_kind = ''stdio'', fw_started = 1000\<rparr>"

definition example_reads :: "read_step list" where
  "example_reads =
     [\<lparr>rd_result = Inr (Some (Request NoId ''n1'' [])), rd_ctx = CtxLive, rd_now = 2000\<rparr>,
      \<lparr>rd_result = Inr (Some (Response (IntId 7) None ''answer'')), rd_ctx = CtxLive, rd_now = 3000\<rparr>]"

lemma example_forwarded:
  "\<exists>w'. forwardResponses example_forwarding \<lparr>cn_retires = None, cn_preserves = None\<rparr> example_reads
     CtxLive no_work = Some (w', True) \<and> map (\<lambda>p. tr_response (fst (snd p))) (wk_posts w') = [''n1'', ''answer'']"
  by (simp add: forwardResponses_def example_forwarding_def example_reads_def no_work_def
      forwardNotification_def forward_response_def postTunnelResponse_def finish_forwarding_def)

theorem forward_responses_contract_witness:
  "\<exists>w' ns final. forwardResponses example_forwarding \<lparr>cn_retires = None, cn_preserves = None\<rparr>
     example_reads CtxLive no_work = Some (w', True) \<and>
     wk_posts w' = ns @ final \<and> list_all (notify_post example_forwarding) ns \<and> length final = 1"
proof -
  obtain w' where w': "forwardResponses example_forwarding \<lparr>cn_retires = None, cn_preserves = None\<rparr>
      example_reads CtxLive no_work = Some (w', True)"
    using example_forwarded by blast
  from forward_responses_contract [OF w'] obtain ns final where
    "wk_posts w' = wk_posts no_work @ ns @ final" "list_all (notify_post example_forwarding) ns"
    "length final = 1" by fastforce
  with w' show ?thesis by (auto simp: no_work_def)
qed

text \<open>
  Forwarding returns once the target sends anything but a notification,
  and it then closes the connection exactly once, except where the connection
  must survive: after a delivered answer, after an answer whose delivery expired
  or that the connection asks to outlive, and when an expired request is retired.
\<close>

theorem forwarding_connection_fate:
  assumes "list_ex (\<lambda>step. \<not> is_note step) reads"
  shows "\<exists>w' delivered terminal received evs.
    forwardResponses fw conn reads exit_ctx w = Some (w', delivered) \<and>
    (terminal \<longleftrightarrow> delivered \<and> received) \<and>
    wk_conn w' = wk_conn w @ evs \<and>
    filter (\<lambda>e. e = ConnClose) evs = (if kept_open exit_ctx conn terminal received then [] else [ConnClose])"
proof -
  obtain v d t r where loop: "forward_loop fw True reads w = Some (v, d, t, r)"
    using forward_loop_returns [OF assms] by (metis option.exhaust prod_cases4)
  from forward_loop_posts [OF loop] have v: "wk_conn v = wk_conn w" "t \<longleftrightarrow> d \<and> r" by auto
  have fin: "forwardResponses fw conn reads exit_ctx w = Some (finish_forwarding exit_ctx conn t r v, d)"
    by (simp add: forwardResponses_def loop)
  obtain evs where "wk_conn (finish_forwarding exit_ctx conn t r v) = wk_conn v @ evs"
      "filter (\<lambda>e. e = ConnClose) evs = (if kept_open exit_ctx conn t r then [] else [ConnClose])"
    using finish_forwarding_conn by blast
  then show ?thesis
    using v fin
    by (intro exI [of _ "finish_forwarding exit_ctx conn t r v"] exI [of _ d] exI [of _ t]
        exI [of _ r] exI [of _ evs]) simp
qed

theorem forwarding_connection_fate_witness:
  "\<exists>w' d. forwardResponses example_forwarding \<lparr>cn_retires = None, cn_preserves = None\<rparr>
     example_reads CtxLive no_work = Some (w', d)"
proof -
  have "list_ex (\<lambda>step. \<not> is_note step) example_reads" by (simp add: example_reads_def)
  from forwarding_connection_fate [OF this] show ?thesis by blast
qed

end
