(* ===== verification/Processor.thy ===== *)
theory Processor
  imports Forwarding TraceForward
begin

unbundle bit_operations_syntax

text \<open>
  The dispatcher's processor (\<open>pkg/dispatcher/internal/processor.go\<close>): its
  construction from channel bindings, and \<open>Process\<close>, which delivers one polled
  command to the MCP target of its channel and posts what comes back.

  What the outside world does during one call is a \<open>process_env\<close>: results of
  the transport's operations, of the posts, and the state of the command's
  context at each point where the code looks at it. \<open>Process\<close> has the value
  \<open>None\<close> while the target keeps the response stream open.
\<close>

section \<open>Request id forwarding\<close>

type_synonym request_id_forwarding = "8 word"

definition ForwardRequestIDMCP :: request_id_forwarding where "ForwardRequestIDMCP = 1"
definition ForwardRequestIDHarpoon :: request_id_forwarding where "ForwardRequestIDHarpoon = 2"
definition ForwardRequestIDOAuth :: request_id_forwarding where "ForwardRequestIDOAuth = 4"
definition ForwardRequestIDNone :: request_id_forwarding where "ForwardRequestIDNone = 8"

definition AllowsMCP :: "request_id_forwarding \<Rightarrow> bool" where
  "AllowsMCP surfaces \<longleftrightarrow> surfaces AND ForwardRequestIDNone = 0 \<and>
     (surfaces = 0 \<or> surfaces AND ForwardRequestIDMCP \<noteq> 0)"

section \<open>Construction\<close>

datatype transport =
    PlainTransport
  | SessionTerminatingTransport   \<comment> \<open>also implements \<open>TerminateSession\<close>\<close>

record channel_binding =
  cb_transport :: "transport option"
  cb_kind :: transport_kind
  cb_priority :: int
  cb_routable :: "(gotime \<Rightarrow> bool) option"   \<comment> \<open>the gate, asked at the time of a command\<close>
  cb_supports_mcp :: bool
  cb_supports_oauth :: bool
  cb_supports_session_termination :: bool

type_synonym channel_config = channel_binding

definition isRoutable :: "channel_config \<Rightarrow> gotime \<Rightarrow> bool" where
  "isRoutable c now = (case cb_routable c of None \<Rightarrow> True | Some f \<Rightarrow> f now)"

record mcp_config =
  mc_connection_max_ttl :: duration
  mc_kind :: transport_kind
  mc_server_url :: bool
  mc_forward_trace :: bool
  mc_extra_headers :: "string list"
  mc_forward_request_id :: request_id_forwarding

record control_plane_config =
  cp_poll_channels_configured :: bool
  cp_poll_channels :: "channel list"

record processor_params =
  pp_logger :: bool
  pp_bindings :: "(channel \<times> channel_binding) list"
  pp_responder :: bool
  pp_mcp_config :: "mcp_config option"
  pp_oauth_client :: bool
  pp_control_plane :: "control_plane_config option"
  pp_meter_provider :: bool
  pp_metrics :: goerr

record processor =
  pr_channels :: "(channel \<times> channel_config) list"
  pr_connection_max_ttl :: duration
  pr_forward_trace :: bool
  pr_forward_request_id :: request_id_forwarding
  pr_server_url :: bool

datatype processor_error =
    NilLogger | NilResponder | NilMCPConfig | NonPositiveTTL | NilControlPlaneConfig
  | NilMeterProvider | NilOAuthClient | MetricsFailed goerr | MissingServerURL
  | InvalidChannelName channel | DuplicateChannel channel | NilTransport channel
  | OAuthOnOtherChannel channel | MissingChannels "channel list" | RequiredWithoutMCP channel

definition requiredProcessorChannels :: "control_plane_config \<Rightarrow> channel list" where
  "requiredProcessorChannels cfg =
     (if cp_poll_channels_configured cfg then cp_poll_channels cfg else [DefaultChannel, ChannelHarpoon])"

definition missingRequiredChannels :: "(channel \<times> channel_config) list \<Rightarrow> channel list \<Rightarrow> channel list" where
  "missingRequiredChannels channels required = filter (\<lambda>c. map_of channels c = None) required"

fun register_channels :: "control_plane_config \<Rightarrow> (channel \<times> channel_config) list \<Rightarrow>
    (channel \<times> channel_binding) list \<Rightarrow> processor_error + (channel \<times> channel_config) list" where
  "register_channels cfg channels [] = Inr channels"
| "register_channels cfg channels ((rawChannelName, binding) # bindings) =
     (let channelName = Canonical rawChannelName in
      if channelName = [] then Inl (InvalidChannelName rawChannelName)
      else if cp_poll_channels_configured cfg \<and> channelName \<notin> set (cp_poll_channels cfg) then
        register_channels cfg channels bindings
      else if map_of channels channelName \<noteq> None then Inl (DuplicateChannel channelName)
      else if cb_supports_mcp binding \<and> cb_transport binding = None then Inl (NilTransport channelName)
      else if channelName \<noteq> DefaultChannel \<and> cb_supports_oauth binding then
        Inl (OAuthOnOtherChannel channelName)
      else register_channels cfg (channels @ [(channelName, binding)]) bindings)"

definition check_required :: "(channel \<times> channel_config) list \<Rightarrow> channel list \<Rightarrow> processor_error option" where
  "check_required channels required =
     (if missingRequiredChannels channels required \<noteq> [] then
        Some (MissingChannels (missingRequiredChannels channels required))
      else map_option RequiredWithoutMCP
        (find (\<lambda>c. \<not> cb_supports_mcp (the (map_of channels c))) required))"

definition trace_owned_by_customer :: "string list \<Rightarrow> bool" where
  "trace_owned_by_customer names \<longleftrightarrow>
     list_ex (\<lambda>n. equal_fold n ''traceparent'' \<or> equal_fold n ''tracestate'') names"

definition NewProcessor :: "processor_params \<Rightarrow> processor_error + processor" where
  "NewProcessor p =
     (if \<not> pp_logger p then Inl NilLogger
      else if \<not> pp_responder p then Inl NilResponder
      else (case pp_mcp_config p of
        None \<Rightarrow> Inl NilMCPConfig
      | Some mcp \<Rightarrow>
          if mc_connection_max_ttl mcp \<le> 0 then Inl NonPositiveTTL
          else (case pp_control_plane p of
            None \<Rightarrow> Inl NilControlPlaneConfig
          | Some cfg \<Rightarrow>
              if \<not> pp_meter_provider p then Inl NilMeterProvider
              else if \<not> pp_oauth_client p then Inl NilOAuthClient
              else if pp_metrics p \<noteq> nil_err then Inl (MetricsFailed (pp_metrics p))
              else if (mc_kind mcp = [] \<or> mc_kind mcp = MCPTransportHTTPStreamable) \<and> \<not> mc_server_url mcp \<and>
                      (\<not> cp_poll_channels_configured cfg \<or> DefaultChannel \<in> set (cp_poll_channels cfg))
              then Inl MissingServerURL
              else (case register_channels cfg [] (pp_bindings p) of
                Inl e \<Rightarrow> Inl e
              | Inr channels \<Rightarrow>
                  (case check_required channels (requiredProcessorChannels cfg) of
                     Some e \<Rightarrow> Inl e
                   | None \<Rightarrow>
                       Inr \<lparr>pr_channels = channels,
                            pr_connection_max_ttl = mc_connection_max_ttl mcp,
                            pr_forward_trace = mc_forward_trace mcp \<and>
                              \<not> trace_owned_by_customer (mc_extra_headers mcp),
                            pr_forward_request_id = mc_forward_request_id mcp,
                            pr_server_url = mc_server_url mcp\<rparr>)))))"

section \<open>The world of one call\<close>

record process_env =
  pe_encode :: encoder
  pe_propagate :: "trace_context \<Rightarrow> (string \<times> string) list option"
  pe_tracing :: "trace_context option option"   \<comment> \<open>local tracing, when enabled, and its carrier\<close>
  pe_posts :: post_script
  pe_now :: gotime
  pe_parent :: ctx_state
  pe_connect :: "goerr + connection"
  pe_connected :: ctx_state
  pe_write :: "write_result \<times> goerr"
  pe_written :: ctx_state
  pe_reads :: "read_step list"
  pe_exit :: ctx_state          \<comment> \<open>of the forwarding context when forwarding returns\<close>
  pe_after :: ctx_state         \<comment> \<open>of the command context after forwarding\<close>
  pe_terminate :: "int \<times> header \<times> goerr"
  pe_terminated :: ctx_state
  pe_candidates :: "goerr + nat"
  pe_metadata :: "goerr + string \<times> int \<times> header"
  pe_fetched :: ctx_state
  pe_end :: ctx_state           \<comment> \<open>of the command context when \<open>Process\<close> returns\<close>

section \<open>Small helpers\<close>

definition defaultAcceptHeaderValue :: string where
  "defaultAcceptHeaderValue = ''application/json, text/event-stream''"

definition ensureDefaultAcceptHeader :: "header \<Rightarrow> header" where
  "ensureDefaultAcceptHeader h =
     (if header_get h ''Accept'' = [] then header_set h ''Accept'' defaultAcceptHeaderValue else h)"

definition buildJSONRPCErrorResponse ::
  "encoder \<Rightarrow> rpc_id \<Rightarrow> int \<Rightarrow> string option \<Rightarrow> goerr + string" where
  "buildJSONRPCErrorResponse encode_message req_id statusCode cause =
     (let code = (if statusCode = 0 then 500 else statusCode);
          text = (if StatusText code = [] then ''mcp transport error'' else StatusText code);
          message = (case cause of None \<Rightarrow> text | Some c \<Rightarrow> text @ '': '' @ c)
      in encode_message (Response req_id (Some (RpcError CodeInternalError message [])) []))"

text \<open>\<open>%q\<close> of a channel name, which has no character to escape.\<close>

definition unsupported_channel :: "channel \<Rightarrow> string" where
  "unsupported_channel ch = ''unsupported channel '' @ quoted ch"

definition unsupported_payload :: "channel \<Rightarrow> string" where
  "unsupported_payload ch =
     ''{'' @ json_member ''error''
       (''{'' @ json_member ''code'' (quoted ''unsupported_channel'') @ '','' @
        json_member ''message'' (json_string (unsupported_channel ch)) @ '','' @
        json_member ''type'' (quoted ''invalid_request_error'') @ ''}'') @ ''}''"

type_synonym process_result = "(work \<times> goerr) option"

section \<open>Commands\<close>

definition rejectUnsupportedChannel ::
  "process_env \<Rightarrow> polled_command \<Rightarrow> channel \<Rightarrow> work \<Rightarrow> process_result" where
  "rejectUnsupportedChannel env cmd ch w =
     (let err = [ErrText (unsupported_channel ch)];
          rid = bc_request_id (command_base cmd);
          post = (\<lambda>response. let (w, post_err) = postTunnelResponse (pe_posts env) rid response w in
                    Some (w, if post_err \<noteq> nil_err then post_err else err))
      in case cmd of
           JsonRpcCommand _ (Request i _ _) _ _ \<Rightarrow>
             (case buildJSONRPCErrorResponse (pe_encode env) i 400 (Some (unsupported_channel ch)) of
                Inl e \<Rightarrow> Some (w, ErrText ''build channel error response'' # e)
              | Inr encoded \<Rightarrow> post (NewTunnelResponse ch encoded 400 []))
         | JsonRpcCommand _ (Response _ _ _) _ _ \<Rightarrow> Some (w, err)
         | OauthDiscoveryCommand _ \<Rightarrow>
             post (NewOAuthDiscoveryResponse ch (unsupported_payload ch) 400 [])
         | SessionTerminationCommand _ \<Rightarrow> post (NewSessionTerminationResponse ch 400 [])
         | UntypedCommand _ \<Rightarrow> Some (w, err))"

text \<open>A failed connection: a request gets an error response, a notification an acknowledgement.\<close>

definition connect_failed ::
  "process_env \<Rightarrow> string \<Rightarrow> rpc_id \<Rightarrow> channel \<Rightarrow> goerr \<Rightarrow> work \<Rightarrow> work \<times> goerr" where
  "connect_failed env rid i ch err w =
     (let w = recordWorkFailure (pe_connected env) err 0 w;
          status = normalizeTransportStatusCode 0 err
      in if ctx_Err (pe_connected env) \<noteq> nil_err then (w, ctx_Err (pe_connected env))
         else if i = NoId then postTunnelResponse (pe_posts env) rid (NewNotificationAck ch status []) w
         else (case buildTunnelFailureJSONRPCErrorResponse (pe_encode env) i status
                      (classifyTunnelFailure 0 err) of
            Inl e \<Rightarrow> (w, ErrText ''encode error response'' # e)
          | Inr encoded \<Rightarrow>
              postTunnelResponse (pe_posts env) rid
                (NewTunnelResponse ch encoded status
                  (header_set [] ''Content-Type'' ''application/json'')) w))"

definition outgoing_headers :: "processor \<Rightarrow> channel_config \<Rightarrow> channel \<Rightarrow> header \<Rightarrow> header" where
  "outgoing_headers p cfg ch h =
     (let headers = ensureDefaultAcceptHeader h in
      if ch \<noteq> ChannelHarpoon \<and> (cb_kind cfg = [] \<or> cb_kind cfg = MCPTransportHTTPStreamable) \<and>
         \<not> AllowsMCP (pr_forward_request_id p)
      then header_del headers ''X-Request-Id'' else headers)"

definition outgoing_request ::
  "processor \<Rightarrow> process_env \<Rightarrow> channel_config \<Rightarrow> header \<Rightarrow> trace_context option \<Rightarrow> rpc_message \<Rightarrow> rpc_message" where
  "outgoing_request p env cfg headers trace req =
     (if pr_forward_trace p \<and> (cb_kind cfg = MCPTransportStdio \<or> cb_kind cfg = MCPTransportHTTPStreamable) then
        (case pe_tracing env of
           Some carrier \<Rightarrow> forwardTraceContext (pe_propagate env) req [] carrier
         | None \<Rightarrow> forwardTraceContext (pe_propagate env) req headers trace)
      else req)"

definition preserved_error ::
  "process_env \<Rightarrow> string \<Rightarrow> rpc_id \<Rightarrow> channel_config \<Rightarrow> channel \<Rightarrow> write_result \<Rightarrow> int \<Rightarrow> string \<Rightarrow> work \<Rightarrow> work \<times> goerr" where
  "preserved_error env rid i cfg ch wr statusCode payload w =
     (let response = NewTunnelResponse ch payload statusCode (jsonRPCResponseHeaders (wr_headers wr));
          response = (if i = NoId then response
                      else withResponseTiming response (cb_kind cfg) (wr_started wr) (wr_completed wr))
      in postTunnelResponse (pe_posts env) rid response w)"

definition upstream_error ::
  "process_env \<Rightarrow> string \<Rightarrow> rpc_id \<Rightarrow> channel \<Rightarrow> write_result \<Rightarrow> goerr \<Rightarrow> int \<Rightarrow> work \<Rightarrow> work \<times> goerr" where
  "upstream_error env rid i ch wr err statusCode w =
     (case buildTunnelFailureJSONRPCErrorResponse (pe_encode env) i statusCode
             (classifyTunnelFailure (wr_status wr) err) of
        Inl e \<Rightarrow> (w, ErrText ''encode error response'' # e)
      | Inr encoded \<Rightarrow>
          (let h = (if header_get (wr_headers wr) ''Content-Type'' = []
                    then header_set (wr_headers wr) ''Content-Type'' ''application/json''
                    else wr_headers wr)
           in postTunnelResponse (pe_posts env) rid (NewTunnelResponse ch encoded statusCode h) w))"

definition forward_answer ::
  "process_env \<Rightarrow> string \<Rightarrow> rpc_id \<Rightarrow> channel_config \<Rightarrow> channel \<Rightarrow> connection \<Rightarrow> write_result \<Rightarrow> int \<Rightarrow> work \<Rightarrow> process_result" where
  "forward_answer env rid i cfg ch conn wr statusCode w =
     (case forwardResponses
             \<lparr>fw_encode = pe_encode env, fw_posts = pe_posts env, fw_request_id = rid,
              fw_rpc_id = i, fw_code = statusCode, fw_headers = wr_headers wr, fw_channel = ch,
              fw_kind = cb_kind cfg, fw_started = wr_started wr\<rparr>
             conn (pe_reads env) (pe_exit env) w of
        None \<Rightarrow> None
      | Some (w, responseDelivered) \<Rightarrow>
          Some (w, if \<not> responseDelivered \<and> responseDeadlineReached (pe_after env)
                   then ctx_Err (pe_after env) else nil_err))"

definition after_write ::
  "process_env \<Rightarrow> string \<Rightarrow> rpc_id \<Rightarrow> channel_config \<Rightarrow> channel \<Rightarrow> connection \<Rightarrow> work \<Rightarrow> process_result" where
  "after_write env rid i cfg ch conn w =
     (let (wr, err) = pe_write env;
          statusCode = normalizeTransportStatusCode (wr_status wr) err;
          failed = (err \<noteq> nil_err \<or> 400 \<le> statusCode);
          w = (if failed then recordWorkFailure (pe_written env) err statusCode w else w)
      in case wr_preserved wr of
           Some payload \<Rightarrow> Some (preserved_error env rid i cfg ch wr statusCode payload w)
         | None \<Rightarrow>
             if failed then Some (upstream_error env rid i ch wr err statusCode w)
             else if i = NoId then
               Some (postTunnelResponse (pe_posts env) rid
                 (NewNotificationAck ch statusCode (wr_headers wr)) w)
             else forward_answer env rid i cfg ch conn wr statusCode w)"

definition processJsonRpcCommand ::
  "processor \<Rightarrow> process_env \<Rightarrow> base_command \<Rightarrow> rpc_message \<Rightarrow> trace_context option \<Rightarrow> channel_config \<Rightarrow> channel \<Rightarrow> work \<Rightarrow> process_result" where
  "processJsonRpcCommand p env base msg trace cfg ch w = (case msg of
     Response _ _ _ \<Rightarrow> Some (w, [ErrText ''unexpected command type''])
   | Request i method params \<Rightarrow>
       (let rid = bc_request_id base in
        case pe_connect env of
          Inl err \<Rightarrow> Some (connect_failed env rid i ch err w)
        | Inr conn \<Rightarrow>
            if ctx_Err (pe_connected env) \<noteq> nil_err then
              Some (retire_or_close (pe_connected env) conn w, ctx_Err (pe_connected env))
            else
              (let headers = outgoing_headers p cfg ch (bc_headers base);
                   req = outgoing_request p env cfg headers trace (Request i method params);
                   w = conn_event (ConnWrite headers req) w
               in if ctx_Err (pe_written env) \<noteq> nil_err then
                    Some (retire_or_close (pe_written env) conn w, ctx_Err (pe_written env))
                  else after_write env rid i cfg ch conn w)))"

definition processSessionTerminationCommand ::
  "processor \<Rightarrow> process_env \<Rightarrow> base_command \<Rightarrow> channel_config \<Rightarrow> channel \<Rightarrow> ctx_state \<Rightarrow> work \<Rightarrow> work \<times> goerr" where
  "processSessionTerminationCommand p env base cfg ch ctx w =
     (let rid = bc_request_id base in
      if \<not> cb_supports_session_termination cfg then
        postTunnelResponse (pe_posts env) rid (NewSessionTerminationResponse ch 405 [])
          (recordWorkFailure ctx nil_err 405 w)
      else (case cb_transport cfg of
        Some SessionTerminatingTransport \<Rightarrow>
          (let headers = (if \<not> AllowsMCP (pr_forward_request_id p)
                          then header_del (bc_headers base) ''X-Request-Id'' else bc_headers base);
               w = conn_event (ConnTerminate headers) w;
               (status, respHeader, err) = pe_terminate env;
               statusCode = normalizeTransportStatusCode status err;
               w = (if err \<noteq> nil_err \<or> 400 \<le> statusCode
                    then recordWorkFailure (pe_terminated env) err statusCode w else w)
           in postTunnelResponse (pe_posts env) rid
                (NewSessionTerminationResponse ch statusCode respHeader) w)
      | _ \<Rightarrow> (w, [ErrText ''dispatcher processor: MCP transport does not support session termination''])))"

text \<open>
  OAuth discovery. \<open>pe_candidates\<close> is the number of candidate URLs,
  \<open>pe_metadata\<close> the document \<open>FetchOAuthMetadata\<close> selects, which it
  wraps for the main channel. Publishing the discovered hosts on the bus never
  changes what is posted.
\<close>

definition processOauthDiscoveryCommand ::
  "processor \<Rightarrow> process_env \<Rightarrow> base_command \<Rightarrow> work \<Rightarrow> work \<times> goerr" where
  "processOauthDiscoveryCommand p env base w =
     (if \<not> pr_server_url p then (w, [ErrText ''dispatcher processor: missing MCP server URL''])
      else (case pe_candidates env of
        Inl e \<Rightarrow> (w, e)
      | Inr n \<Rightarrow>
          if n = 0 then (w, [ErrText ''dispatcher processor: missing OAuth metadata URLs''])
          else (case pe_metadata env of
            Inl e \<Rightarrow> (w, e)
          | Inr (body, code, h) \<Rightarrow>
              postTunnelResponse (pe_posts env) (bc_request_id base)
                (NewOAuthDiscoveryResponse DefaultChannel body code h)
                (if 400 \<le> code then recordWorkFailure (pe_fetched env) nil_err code w else w))))"

section \<open>Process\<close>

text \<open>\<open>context.WithDeadlineCause\<close>: a parent that is done wins over the new deadline.\<close>

definition install_deadline :: "ctx_state \<Rightarrow> gotime \<Rightarrow> gotime option \<Rightarrow> ctx_state" where
  "install_deadline parent now deadline =
     (if parent \<noteq> CtxLive then parent
      else (case deadline of
         None \<Rightarrow> CtxLive
       | Some d \<Rightarrow> if d \<le> now then CtxResponseDeadline else CtxLive))"

definition command_channel :: "base_command \<Rightarrow> channel" where
  "command_channel base = (if bc_channel base = [] then DefaultChannel else Canonical (bc_channel base))"

definition route_command ::
  "processor \<Rightarrow> process_env \<Rightarrow> polled_command \<Rightarrow> ctx_state \<Rightarrow> work \<Rightarrow> process_result" where
  "route_command p env cmd ctx w =
     (let base = command_base cmd; ch = command_channel base in
      case map_of (pr_channels p) ch of
        None \<Rightarrow> rejectUnsupportedChannel env cmd ch w
      | Some cfg \<Rightarrow>
          if \<not> isRoutable cfg (pe_now env) \<or> \<not> cb_supports_mcp cfg then
            rejectUnsupportedChannel env cmd ch w
          else (case cmd of
            JsonRpcCommand _ msg trace _ \<Rightarrow> processJsonRpcCommand p env base msg trace cfg ch w
          | OauthDiscoveryCommand _ \<Rightarrow>
              if ch \<noteq> DefaultChannel \<or> \<not> cb_supports_oauth cfg then rejectUnsupportedChannel env cmd ch w
              else Some (processOauthDiscoveryCommand p env base w)
          | SessionTerminationCommand _ \<Rightarrow>
              Some (processSessionTerminationCommand p env base cfg ch ctx w)
          | UntypedCommand _ \<Rightarrow> Some (w, [ErrText ''unexpected command type''])))"

text \<open>The deferred function: an expired command is dropped without an error.\<close>

definition drop_expired :: "ctx_state \<Rightarrow> work \<times> goerr \<Rightarrow> work \<times> goerr" where
  "drop_expired ctx r = (case r of (w, err) \<Rightarrow>
     if responseDeadlineReached ctx \<and> (errors_is err Canceled \<or> errors_is err DeadlineExceeded)
     then (recordWorkFailure ctx [DeadlineExceeded] 0 w, nil_err) else (w, err))"

definition Process :: "processor \<Rightarrow> process_env \<Rightarrow> polled_command option \<Rightarrow> work \<Rightarrow> process_result" where
  "Process p env cmd_opt w = (case cmd_opt of
     None \<Rightarrow> Some (w, [ErrText ''dispatcher processor: nil command''])
   | Some cmd \<Rightarrow>
       (let base = command_base cmd;
            ctx = install_deadline (pe_parent env) (pe_now env) (bc_deadline base)
        in if bc_shard_token base = [] then
             Some (w, [ErrText ''dispatcher processor: missing shard token for request''])
           else if responseDeadlineReached ctx then
             Some (recordWorkFailure ctx [DeadlineExceeded] 0 w, nil_err)
           else map_option (drop_expired (pe_end env)) (route_command p env cmd ctx w)))"

section \<open>Construction is checked\<close>

definition channels_ok :: "control_plane_config \<Rightarrow> (channel \<times> channel_config) list \<Rightarrow> bool" where
  "channels_ok cfg channels \<longleftrightarrow> distinct (map fst channels) \<and>
     list_all (\<lambda>(ch, c). ch \<noteq> [] \<and> Canonical ch = ch \<and>
        (cp_poll_channels_configured cfg \<longrightarrow> ch \<in> set (cp_poll_channels cfg)) \<and>
        (cb_supports_mcp c \<longrightarrow> cb_transport c \<noteq> None) \<and>
        (cb_supports_oauth c \<longrightarrow> ch = DefaultChannel)) channels"

lemma register_channels_ok:
  "\<lbrakk>register_channels cfg channels bindings = Inr channels'; channels_ok cfg channels\<rbrakk>
   \<Longrightarrow> channels_ok cfg channels'"
proof (induction cfg channels bindings rule: register_channels.induct)
  case (2 cfg channels raw b bindings)
  show ?case
  proof (cases "cp_poll_channels_configured cfg \<and> Canonical raw \<notin> set (cp_poll_channels cfg)")
    case True
    then show ?thesis using 2 by (auto simp: Let_def split: if_splits)
  next
    case False
    then have "channels_ok cfg (channels @ [(Canonical raw, b)])"
      using "2.prems"
      by (auto simp: channels_ok_def Let_def Canonical_idem map_of_eq_None_iff split: if_splits)
    then show ?thesis using 2 False by (auto simp: Let_def split: if_splits)
  qed
qed simp

lemma check_required_ok:
  assumes "check_required channels required = None" and "c \<in> set required"
  obtains cfg where "map_of channels c = Some cfg" "cb_supports_mcp cfg"
proof -
  have "missingRequiredChannels channels required = []"
    and all: "cb_supports_mcp (the (map_of channels c))"
    using assms by (auto simp: check_required_def find_None_iff split: if_splits)
  then obtain cfg where "map_of channels c = Some cfg"
    using assms(2) by (auto simp: missingRequiredChannels_def filter_empty_conv)
  then show ?thesis using all that by simp
qed

section \<open>What a command may post\<close>

definition command_posts :: "string \<Rightarrow> channel \<Rightarrow> (string \<times> tunnel_response \<times> goerr) list \<Rightarrow> bool" where
  "command_posts rid ch ps \<longleftrightarrow>
     list_all (\<lambda>(r, resp, _). r = rid \<and> tr_channel resp = ch) ps \<and>
     list_all (\<lambda>(_, resp, _). tr_type resp = ResponseTypeJSONRPCNotification) (butlast ps)"

lemma command_posts_Nil [simp]: "command_posts rid ch []"
  by (simp add: command_posts_def)

lemma command_posts_single [simp]: "command_posts rid ch [(rid, resp, err)] \<longleftrightarrow> tr_channel resp = ch"
  by (simp add: command_posts_def)

definition adds_posts :: "work \<Rightarrow> string \<Rightarrow> channel \<Rightarrow> work \<Rightarrow> bool" where
  "adds_posts w rid ch w' \<longleftrightarrow> (\<exists>ps. wk_posts w' = wk_posts w @ ps \<and> command_posts rid ch ps)"

lemma adds_posts_record [simp]:
  "adds_posts (recordWorkFailure c e s w) rid ch w' = adds_posts w rid ch w'"
  "adds_posts w rid ch (recordWorkFailure c e s w') = adds_posts w rid ch w'"
  "adds_posts (conn_event ev w) rid ch w' = adds_posts w rid ch w'"
  "adds_posts w rid ch (conn_event ev w') = adds_posts w rid ch w'"
  "adds_posts w rid ch (retire_or_close c cn w') = adds_posts w rid ch w'"
  by (simp_all add: adds_posts_def work_simps)

lemma adds_posts_refl [simp]: "adds_posts w rid ch w"
  by (simp add: adds_posts_def)

lemma post_adds:
  "tr_channel resp = ch \<Longrightarrow> adds_posts w rid ch (fst (postTunnelResponse posts rid resp w))"
  using post_effect(1) [of posts rid resp w] by (cases "postTunnelResponse posts rid resp w") (auto simp: adds_posts_def)

lemma post_adds_from:
  "\<lbrakk>wk_posts v = wk_posts w; tr_channel resp = ch\<rbrakk>
   \<Longrightarrow> adds_posts w rid ch (fst (postTunnelResponse posts rid resp v))"
  using post_adds [of resp ch v rid posts] by (simp add: adds_posts_def)

lemma new_channels [simp]:
  "tr_channel (NewNotificationAck ch c h) = ch" "tr_channel (NewOAuthDiscoveryResponse ch p c h) = ch"
  "tr_channel (NewSessionTerminationResponse ch c h) = ch"
  "tr_type (NewNotificationAck ch c h) = ResponseTypeNotificationAcknowledgment"
  "tr_type (NewOAuthDiscoveryResponse ch p c h) = ResponseTypeOAuthDiscovery"
  "tr_type (NewSessionTerminationResponse ch c h) = ResponseTypeSessionTermination"
  by (simp_all add: NewNotificationAck_def NewOAuthDiscoveryResponse_def NewSessionTerminationResponse_def)

definition result_ok :: "work \<Rightarrow> string \<Rightarrow> channel \<Rightarrow> process_result \<Rightarrow> bool" where
  "result_ok w rid ch r = (case r of None \<Rightarrow> True | Some (w', _) \<Rightarrow> adds_posts w rid ch w')"

lemma result_ok_simps [simp]:
  "result_ok w rid ch (Some x) = adds_posts w rid ch (fst x)" "result_ok w rid ch None"
  by (simp_all add: result_ok_def split: prod.splits)

lemma result_ok_start [simp]:
  "result_ok (recordWorkFailure c e s w) rid ch r = result_ok w rid ch r"
  "result_ok (conn_event ev w) rid ch r = result_ok w rid ch r"
  by (cases r; simp)+

lemma rejectUnsupportedChannel_ok:
  "result_ok w (bc_request_id (command_base cmd)) ch (rejectUnsupportedChannel env cmd ch w)"
proof (cases cmd)
  case (JsonRpcCommand b msg t ct)
  then show ?thesis
    using post_adds [of _ ch w]
    by (auto simp: rejectUnsupportedChannel_def Let_def split_beta split: rpc_message.splits sum.splits)
qed (auto simp: rejectUnsupportedChannel_def Let_def split_beta post_adds)

lemma connect_failed_ok: "adds_posts w rid ch (fst (connect_failed env rid i ch err w))"
  using post_adds [of _ ch "recordWorkFailure (pe_connected env) err 0 w" rid]
  by (auto simp: connect_failed_def Let_def split: sum.splits)

lemma preserved_error_ok:
  "adds_posts w rid ch (fst (preserved_error env rid i cfg ch wr st payload w))"
  by (auto simp: preserved_error_def Let_def intro: post_adds)

lemma upstream_error_ok: "adds_posts w rid ch (fst (upstream_error env rid i ch wr err st w))"
  by (auto simp: upstream_error_def Let_def post_adds split: sum.splits)

lemma list_all_butlast_append:
  assumes "list_all P ns" "length ts \<le> 1" shows "list_all P (butlast (ns @ ts))"
  using assms by (cases ts) (auto simp: butlast_append list_all_iff dest: in_set_butlastD)

lemma forward_answer_ok: "result_ok w rid ch (forward_answer env rid i cfg ch conn wr st w)"
proof -
  let ?fw = "\<lparr>fw_encode = pe_encode env, fw_posts = pe_posts env, fw_request_id = rid,
              fw_rpc_id = i, fw_code = st, fw_headers = wr_headers wr, fw_channel = ch,
              fw_kind = cb_kind cfg, fw_started = wr_started wr\<rparr>"
  show ?thesis
  proof (cases "forwardResponses ?fw conn (pe_reads env) (pe_exit env) w")
    case None
    then show ?thesis by (simp add: forward_answer_def)
  next
    case (Some r)
    obtain w' d where r: "r = (w', d)" by (cases r)
    from forward_responses_posts [OF Some [unfolded r]] obtain ns final where
      posts: "wk_posts w' = wk_posts w @ ns @ final" "list_all (notify_post ?fw) ns" "length final \<le> 1"
        "list_all (\<lambda>(a, resp, _). a = rid \<and> tr_channel resp = ch) final"
      by auto
    have "list_all (\<lambda>(_, resp, _). tr_type resp = ResponseTypeJSONRPCNotification) ns"
        "list_all (\<lambda>(a, resp, _). a = rid \<and> tr_channel resp = ch) ns"
      using posts(2) by (auto simp: list_all_iff notify_post_def)
    then have "command_posts rid ch (ns @ final)"
      using posts(3,4) list_all_butlast_append [of _ ns final] by (simp add: command_posts_def)
    then show ?thesis
      using Some r posts(1) by (auto simp: forward_answer_def adds_posts_def)
  qed
qed

lemma after_write_ok: "result_ok w rid ch (after_write env rid i cfg ch conn w)"
proof -
  obtain wr err where wr: "pe_write env = (wr, err)" by (metis surj_pair)
  let ?st = "normalizeTransportStatusCode (wr_status wr) err"
  show ?thesis
  proof (cases "err \<noteq> nil_err \<or> 400 \<le> ?st")
    case True
    let ?v = "recordWorkFailure (pe_written env) err ?st w"
    have "after_write env rid i cfg ch conn w = (case wr_preserved wr of
        Some payload \<Rightarrow> Some (preserved_error env rid i cfg ch wr ?st payload ?v)
      | None \<Rightarrow> Some (upstream_error env rid i ch wr err ?st ?v))"
      unfolding after_write_def wr Let_def prod.case using True by (simp only: if_True)
    then show ?thesis
      using preserved_error_ok [of ?v] upstream_error_ok [of ?v] by (simp split: option.split)
  next
    case False
    have "after_write env rid i cfg ch conn w = (case wr_preserved wr of
        Some payload \<Rightarrow> Some (preserved_error env rid i cfg ch wr ?st payload w)
      | None \<Rightarrow> if i = NoId
          then Some (postTunnelResponse (pe_posts env) rid (NewNotificationAck ch ?st (wr_headers wr)) w)
          else forward_answer env rid i cfg ch conn wr ?st w)"
      unfolding after_write_def wr Let_def prod.case using False by (simp only: if_False)
    then show ?thesis
      using preserved_error_ok forward_answer_ok by (simp add: post_adds split: option.split)
  qed
qed

lemma processJsonRpcCommand_ok:
  "result_ok w (bc_request_id base) ch (processJsonRpcCommand p env base msg trace cfg ch w)"
proof (cases msg)
  case (Request i m q)
  show ?thesis
  proof (cases "pe_connect env")
    case (Inl e)
    then show ?thesis using Request by (simp add: processJsonRpcCommand_def connect_failed_ok)
  next
    case (Inr conn)
    then show ?thesis
      using Request after_write_ok [of "conn_event _ w"] by (simp add: processJsonRpcCommand_def Let_def)
  qed
qed (simp add: processJsonRpcCommand_def)

lemma terminate_ok:
  "adds_posts w (bc_request_id base) ch (fst (processSessionTerminationCommand p env base cfg ch ctx w))"
  by (auto simp: processSessionTerminationCommand_def Let_def post_adds_from work_simps
      split: option.splits transport.splits prod.splits)

lemma oauth_ok:
  "adds_posts w (bc_request_id base) DefaultChannel (fst (processOauthDiscoveryCommand p env base w))"
  by (auto simp: processOauthDiscoveryCommand_def post_adds_from work_simps split: sum.splits)

lemma route_command_ok:
  "result_ok w (bc_request_id (command_base cmd)) (command_channel (command_base cmd))
     (route_command p env cmd ctx w)"
  using rejectUnsupportedChannel_ok [of w cmd] processJsonRpcCommand_ok [of w] terminate_ok [of w]
    oauth_ok [of w "command_base cmd"]
  by (auto simp: route_command_def Let_def split: option.splits polled_command.splits)

lemma drop_expired_keeps:
  "wk_posts (fst (drop_expired ctx r)) = wk_posts (fst r)"
  "wk_conn (fst (drop_expired ctx r)) = wk_conn (fst r)"
  by (simp_all add: drop_expired_def work_simps split: prod.splits)

lemma Process_routed:
  assumes "Process p env (Some cmd) w = Some r"
  obtains (Dropped) "wk_posts (fst r) = wk_posts w" "wk_conn (fst r) = wk_conn w"
  | (Routed) ctx q where "route_command p env cmd ctx w = Some q"
      "wk_posts (fst r) = wk_posts (fst q)" "wk_conn (fst r) = wk_conn (fst q)"
  using assms
  by (auto simp: Process_def Let_def drop_expired_keeps record_keeps simp del: fst_conv
      split: if_splits) (auto simp: record_keeps)

lemma process_posts_own:
  assumes "Process p env (Some cmd) w = Some (w', err)"
  shows "\<exists>ps. wk_posts w' = wk_posts w @ ps \<and>
    list_all (\<lambda>(rid, resp, _). rid = bc_request_id (command_base cmd) \<and>
                tr_channel resp = command_channel (command_base cmd)) ps \<and>
    list_all (\<lambda>(_, resp, _). tr_type resp = ResponseTypeJSONRPCNotification) (butlast ps)"
proof -
  from assms have "adds_posts w (bc_request_id (command_base cmd)) (command_channel (command_base cmd)) w'"
  proof (cases rule: Process_routed)
    case Dropped
    then show ?thesis by (simp add: adds_posts_def)
  next
    case (Routed ctx q)
    then show ?thesis using route_command_ok [of w cmd p env ctx] by (simp add: adds_posts_def)
  qed
  then show ?thesis by (auto simp: adds_posts_def command_posts_def)
qed

text \<open>Rejecting a channel posts a status 400 and uses no connection.\<close>

definition rejected_posts :: "channel \<Rightarrow> work \<Rightarrow> work \<Rightarrow> bool" where
  "rejected_posts ch w w' \<longleftrightarrow> (\<exists>ps. wk_posts w' = wk_posts w @ ps \<and>
     list_all (\<lambda>(_, resp, _). tr_code resp = 400 \<and> tr_channel resp = ch) ps)"

lemma post_400:
  assumes "tr_code resp = 400" "tr_channel resp = ch"
  shows "wk_conn (fst (postTunnelResponse posts rid resp w)) = wk_conn w"
    "rejected_posts ch w (fst (postTunnelResponse posts rid resp w))"
  using post_effect [of posts rid resp w] assms
  by (cases "postTunnelResponse posts rid resp w"; simp add: rejected_posts_def)+

lemma new_codes [simp]:
  "tr_code (NewNotificationAck ch c h) = c" "tr_code (NewOAuthDiscoveryResponse ch p c h) = c"
  "tr_code (NewSessionTerminationResponse ch c h) = c"
  by (simp_all add: NewNotificationAck_def NewOAuthDiscoveryResponse_def NewSessionTerminationResponse_def)

lemma reject_only_posts:
  "\<exists>x. rejectUnsupportedChannel env cmd ch w = Some x \<and> wk_conn (fst x) = wk_conn w \<and>
       rejected_posts ch w (fst x)"
proof -
  have none: "rejected_posts ch w w" by (simp add: rejected_posts_def)
  show ?thesis
  proof (cases cmd)
    case (JsonRpcCommand b msg t ct)
    then show ?thesis
      using none
      by (cases msg) (simp_all add: rejectUnsupportedChannel_def Let_def split_beta post_400
          split: sum.split del: split_paired_Ex)
  qed (simp_all add: rejectUnsupportedChannel_def Let_def split_beta post_400 none del: split_paired_Ex)
qed

section \<open>What a command must post\<close>

lemma forward_answer_posts:
  assumes "encodes_all (pe_encode env)" "list_all target_read (pe_reads env)"
    "list_ex (\<lambda>step. \<not> is_note step) (pe_reads env)"
  shows "\<exists>x. forward_answer env rid i cfg ch conn wr st w = Some x \<and> terminal_posted w (fst x)"
proof -
  let ?fw = "\<lparr>fw_encode = pe_encode env, fw_posts = pe_posts env, fw_request_id = rid,
              fw_rpc_id = i, fw_code = st, fw_headers = wr_headers wr, fw_channel = ch,
              fw_kind = cb_kind cfg, fw_started = wr_started wr\<rparr>"
  obtain w' d t r where "forward_loop ?fw True (pe_reads env) w = Some (w', d, t, r)"
      "terminal_posted w w'"
    using forward_loop_answers [of ?fw "pe_reads env" True w] assms by auto
  then show ?thesis by (simp add: forward_answer_def forwardResponses_def)
qed

lemma upstream_error_posts:
  assumes "encodes_all (pe_encode env)"
  shows "terminal_posted w (fst (upstream_error env rid i ch wr err st w))"
proof -
  obtain s where "buildTunnelFailureJSONRPCErrorResponse (pe_encode env) i st
      (classifyTunnelFailure (wr_status wr) err) = Inr s"
    using build_failure_encodes [OF assms] by blast
  then show ?thesis by (simp add: upstream_error_def Let_def post_terminal)
qed

lemma preserved_error_posts:
  "terminal_posted w (fst (preserved_error env rid i cfg ch wr st payload w))"
  by (simp add: preserved_error_def Let_def post_terminal)

lemma terminal_posted_conn:
  "terminal_posted (conn_event ev w) w' \<Longrightarrow> terminal_posted w w'"
  by simp

lemma after_write_posts:
  assumes "encodes_all (pe_encode env)" "list_all target_read (pe_reads env)"
    "list_ex (\<lambda>step. \<not> is_note step) (pe_reads env)"
  shows "\<exists>x. after_write env rid i cfg ch conn w = Some x \<and> terminal_posted w (fst x)"
proof -
  obtain wr err where wr: "pe_write env = (wr, err)" by (metis surj_pair)
  let ?st = "normalizeTransportStatusCode (wr_status wr) err"
  let ?v = "recordWorkFailure (pe_written env) err ?st w"
  show ?thesis
  proof (cases "err \<noteq> nil_err \<or> 400 \<le> ?st")
    case True
    then have "after_write env rid i cfg ch conn w = (case wr_preserved wr of
        Some payload \<Rightarrow> Some (preserved_error env rid i cfg ch wr ?st payload ?v)
      | None \<Rightarrow> Some (upstream_error env rid i ch wr err ?st ?v))"
      unfolding after_write_def wr Let_def prod.case by (simp only: if_True)
    then show ?thesis
      using preserved_error_posts [of ?v] upstream_error_posts [OF assms(1), of ?v]
      by (simp split: option.split del: split_paired_Ex)
  next
    case False
    then have "after_write env rid i cfg ch conn w = (case wr_preserved wr of
        Some payload \<Rightarrow> Some (preserved_error env rid i cfg ch wr ?st payload w)
      | None \<Rightarrow> if i = NoId
          then Some (postTunnelResponse (pe_posts env) rid (NewNotificationAck ch ?st (wr_headers wr)) w)
          else forward_answer env rid i cfg ch conn wr ?st w)"
      unfolding after_write_def wr Let_def prod.case by (simp only: if_False)
    then show ?thesis
      using preserved_error_posts forward_answer_posts [OF assms]
      by (simp add: post_terminal split: option.split del: split_paired_Ex)
  qed
qed

lemma connect_failed_posts:
  assumes "encodes_all (pe_encode env)" "pe_connected env = CtxLive"
  shows "terminal_posted w (fst (connect_failed env rid i ch err w))"
proof -
  obtain s where "buildTunnelFailureJSONRPCErrorResponse (pe_encode env) i
      (normalizeTransportStatusCode 0 err) (classifyTunnelFailure 0 err) = Inr s"
    using build_failure_encodes [OF assms(1)] by blast
  then show ?thesis
    using assms(2) post_terminal [of _ "recordWorkFailure CtxLive err 0 w"]
    by (simp add: connect_failed_def Let_def)
qed

lemma reject_posts:
  assumes "encodes_all (pe_encode env)"
  shows "\<exists>x. rejectUnsupportedChannel env (JsonRpcCommand base (Request i m q) t ct) ch w = Some x \<and>
             terminal_posted w (fst x)"
proof -
  obtain s where "buildJSONRPCErrorResponse (pe_encode env) i 400 (Some (unsupported_channel ch)) = Inr s"
    using assms unfolding buildJSONRPCErrorResponse_def encodes_all_def Let_def by blast
  then show ?thesis
    by (simp add: rejectUnsupportedChannel_def Let_def split_beta post_terminal del: split_paired_Ex)
qed

lemma jsonrpc_posts:
  assumes "encodes_all (pe_encode env)" "list_all target_read (pe_reads env)"
    "list_ex (\<lambda>step. \<not> is_note step) (pe_reads env)"
    "pe_connected env = CtxLive" "pe_written env = CtxLive"
  shows "\<exists>x. processJsonRpcCommand p env base (Request i m q) t cfg ch w = Some x \<and>
             terminal_posted w (fst x)"
proof (cases "pe_connect env")
  case (Inl err)
  then show ?thesis
    using connect_failed_posts [OF assms(1,4)]
    by (simp add: processJsonRpcCommand_def del: split_paired_Ex)
next
  case (Inr conn)
  then show ?thesis
    using after_write_posts [OF assms(1-3), where w = "conn_event _ w"] assms(4,5)
    by (simp add: processJsonRpcCommand_def Let_def del: split_paired_Ex)
qed

lemma command_answers:
  assumes "encodes_all (pe_encode env)"
    and "list_all target_read (pe_reads env)" "list_ex (\<lambda>step. \<not> is_note step) (pe_reads env)"
    and "pe_parent env = CtxLive" "pe_connected env = CtxLive" "pe_written env = CtxLive"
    and "case bc_deadline base of None \<Rightarrow> True | Some d \<Rightarrow> pe_now env < d"
    and "bc_shard_token base \<noteq> []"
  shows "\<exists>w' err. Process p env (Some (JsonRpcCommand base (Request i m q) t ct)) w = Some (w', err) \<and>
                  terminal_posted w w'"
proof -
  let ?cmd = "JsonRpcCommand base (Request i m q) t ct"
  have live: "install_deadline (pe_parent env) (pe_now env) (bc_deadline base) = CtxLive"
    using assms(4,7) by (simp add: install_deadline_def split: option.splits)
  have "\<exists>x. route_command p env ?cmd CtxLive w = Some x \<and> terminal_posted w (fst x)"
    using reject_posts [OF assms(1)] jsonrpc_posts [OF assms(1-3,5,6)]
    by (simp add: route_command_def Let_def del: split_paired_Ex split: option.split)
  then obtain v e where "route_command p env ?cmd CtxLive w = Some (v, e)" "terminal_posted w v" by auto
  then show ?thesis
    using live assms(8) by (simp add: Process_def Let_def work_simps drop_expired_def)
qed

section \<open>An example\<close>

definition example_binding :: channel_binding where
  "example_binding = \<lparr>cb_transport = Some PlainTransport, cb_kind = ''stdio'', cb_priority = 0,
     cb_routable = None, cb_supports_mcp = True, cb_supports_oauth = False,
     cb_supports_session_termination = False\<rparr>"

definition example_params :: processor_params where
  "example_params = \<lparr>pp_logger = True, pp_bindings = [('' Main'', example_binding)], pp_responder = True,
     pp_mcp_config = Some \<lparr>mc_connection_max_ttl = 5, mc_kind = ''stdio'', mc_server_url = False,
       mc_forward_trace = False, mc_extra_headers = [], mc_forward_request_id = 0\<rparr>,
     pp_oauth_client = True,
     pp_control_plane = Some \<lparr>cp_poll_channels_configured = True, cp_poll_channels = [''main'']\<rparr>,
     pp_meter_provider = True, pp_metrics = nil_err\<rparr>"

definition example_processor :: processor where
  "example_processor = \<lparr>pr_channels = [(''main'', example_binding)], pr_connection_max_ttl = 5,
     pr_forward_trace = False, pr_forward_request_id = 0, pr_server_url = False\<rparr>"

definition example_call :: "rpc_id \<Rightarrow> channel \<Rightarrow> polled_command" where
  "example_call i ch = JsonRpcCommand
     \<lparr>bc_request_id = ''r1'', bc_enqueued = 1, bc_polled_at = 2, bc_headers = [], bc_session_id = None,
      bc_shard_token = ''t'', bc_channel = ch, bc_deadline = Some 100\<rparr>
     (Request i ''tools/call'' []) None None"

text \<open>A target that sends a notification and then closes the stream.\<close>

definition example_world :: process_env where
  "example_world = \<lparr>pe_encode = \<lambda>m. Inr (case m of Request _ _ _ \<Rightarrow> ''q'' | Response _ _ _ \<Rightarrow> ''s''),
     pe_propagate = \<lambda>_. None, pe_tracing = None, pe_posts = \<lambda>_. (nil_err, CtxLive), pe_now = 50,
     pe_parent = CtxLive, pe_connect = Inr \<lparr>cn_retires = None, cn_preserves = None\<rparr>,
     pe_connected = CtxLive,
     pe_write = (\<lparr>wr_status = 0, wr_headers = [], wr_preserved = None, wr_started = 51, wr_completed = 52\<rparr>,
                 nil_err),
     pe_written = CtxLive,
     pe_reads = [\<lparr>rd_result = Inr (Some (Request NoId ''progress'' [])), rd_ctx = CtxLive, rd_now = 60\<rparr>,
                 \<lparr>rd_result = Inl [EOF], rd_ctx = CtxLive, rd_now = 70\<rparr>],
     pe_exit = CtxLive, pe_after = CtxLive, pe_terminate = (0, [], nil_err), pe_terminated = CtxLive,
     pe_candidates = Inr 0, pe_metadata = Inl [EOF], pe_fetched = CtxLive, pe_end = CtxLive\<rparr>"

lemma example_world_ok:
  "encodes_all (pe_encode example_world)" "list_all target_read (pe_reads example_world)"
  "list_ex (\<lambda>step. \<not> is_note step) (pe_reads example_world)" "pe_parent example_world = CtxLive"
  "pe_connected example_world = CtxLive" "pe_written example_world = CtxLive" "pe_now example_world = 50"
  by (simp_all add: example_world_def encodes_all_def target_read_def split: rpc_message.split)

section \<open>Properties\<close>

text \<open>
  C1. Whatever the target, the control plane and the context do, everything a
  command posts goes to its own request and its own channel, and only the last
  post can be anything but a progress notification: a command is answered at
  most once.
\<close>

theorem command_answered_at_most_once:
  assumes "Process p env (Some cmd) w = Some (w', err)"
  shows "\<exists>ps. wk_posts w' = wk_posts w @ ps \<and>
    list_all (\<lambda>(rid, resp, _). rid = bc_request_id (command_base cmd) \<and>
                tr_channel resp = command_channel (command_base cmd)) ps \<and>
    list_all (\<lambda>(_, resp, _). tr_type resp = ResponseTypeJSONRPCNotification) (butlast ps)"
  using process_posts_own [OF assms] .

theorem command_answered_at_most_once_witness:
  "\<exists>w' err ps. Process example_processor example_world (Some (example_call (IntId 1) ''other'')) no_work
       = Some (w', err) \<and> wk_posts w' = ps \<and> list_all (\<lambda>(rid, _). rid = ''r1'') ps"
proof -
  obtain w' err where r: "Process example_processor example_world
      (Some (example_call (IntId 1) ''other'')) no_work = Some (w', err)"
    by (simp add: Process_def Let_def example_call_def example_world_def install_deadline_def work_simps
        route_command_def command_channel_def example_processor_def Canonical_def trim_space_def
        trim_by_def is_space_def to_lower_def lower_char_def rejectUnsupportedChannel_def
        buildJSONRPCErrorResponse_def postTunnelResponse_def drop_expired_def)
  from command_answered_at_most_once [OF r] show ?thesis
    using r by (auto simp: no_work_def example_call_def list_all_iff)
qed





text \<open>
  A command whose response deadline has passed is dropped: nothing is
  posted, no connection is used, no error is returned, and the work counts as
  failed and timed out.
\<close>

theorem expired_command_dropped:
  assumes "bc_deadline (command_base cmd) = Some d" "d \<le> pe_now env" "pe_parent env = CtxLive"
    and "bc_shard_token (command_base cmd) \<noteq> []"
  shows "\<exists>w'. Process p env (Some cmd) w = Some (w', nil_err) \<and> wk_posts w' = wk_posts w \<and>
              wk_conn w' = wk_conn w \<and> wk_failed w' \<and> wk_timed_out w'"
  using assms
  by (simp add: Process_def Let_def install_deadline_def work_simps)
    (simp add: recordWorkFailure_def Let_def)

theorem expired_command_dropped_witness:
  "\<exists>w'. Process example_processor (example_world\<lparr>pe_now := 100\<rparr>)
     (Some (example_call (IntId 1) ''main'')) no_work = Some (w', nil_err) \<and> wk_posts w' = []"
  using expired_command_dropped [of "example_call (IntId 1) ''main''" 100 "example_world\<lparr>pe_now := 100\<rparr>"
      example_processor no_work]
  by (auto simp: example_call_def example_world_ok no_work_def)

text \<open>
  A processor that is accepted is complete: every channel it must serve is
  bound to a transport and supports MCP, no channel is bound twice, every name
  is in canonical form, only channels that are polled are bound, and OAuth is
  supported on the main channel only.
\<close>

theorem processor_construction:
  assumes "NewProcessor params = Inr p" "pp_control_plane params = Some cfg"
  shows "distinct (map fst (pr_channels p)) \<and> 0 < pr_connection_max_ttl p \<and>
    (\<forall>ch \<in> set (requiredProcessorChannels cfg). \<exists>c. map_of (pr_channels p) ch = Some c \<and>
        cb_supports_mcp c \<and> cb_transport c \<noteq> None) \<and>
    list_all (\<lambda>(ch, c). Canonical ch = ch \<and> ch \<noteq> [] \<and>
        (cp_poll_channels_configured cfg \<longrightarrow> ch \<in> set (cp_poll_channels cfg)) \<and>
        (cb_supports_oauth c \<longrightarrow> ch = DefaultChannel)) (pr_channels p)"
proof -
  obtain channels where reg: "register_channels cfg [] (pp_bindings params) = Inr channels"
      and req: "check_required channels (requiredProcessorChannels cfg) = None"
      and p: "pr_channels p = channels" "0 < pr_connection_max_ttl p"
    using assms by (auto simp: NewProcessor_def split: if_splits option.splits sum.splits)
  have ok: "channels_ok cfg channels"
    using register_channels_ok [OF reg] by (simp add: channels_ok_def)
  have "\<exists>c. map_of channels ch = Some c \<and> cb_supports_mcp c \<and> cb_transport c \<noteq> None"
    if "ch \<in> set (requiredProcessorChannels cfg)" for ch
  proof -
    obtain c where c: "map_of channels ch = Some c" "cb_supports_mcp c"
      using check_required_ok [OF req \<open>ch \<in> set (requiredProcessorChannels cfg)\<close>] by blast
    then have "(ch, c) \<in> set channels" by (simp add: map_of_SomeD)
    then show ?thesis using ok c by (auto simp: channels_ok_def list_all_iff)
  qed
  then show ?thesis using ok p by (auto simp: channels_ok_def list_all_iff)
qed

lemma example_constructed: "NewProcessor example_params = Inr example_processor"
proof -
  have "Canonical '' Main'' = ''main''" by code_simp
  then show ?thesis
    by (simp add: DefaultChannel_def NewProcessor_def example_params_def example_processor_def example_binding_def
        check_required_def missingRequiredChannels_def requiredProcessorChannels_def)
qed

theorem processor_construction_witness:
  "\<exists>c. map_of (pr_channels example_processor) ''main'' = Some c \<and> cb_supports_mcp c"
  using processor_construction [OF example_constructed]
  by (auto simp: example_params_def requiredProcessorChannels_def)

end
