(* ===== verification/Listener.thy ===== *)
theory Listener
  imports Processor Health "HOL-Library.Multiset"
begin

text \<open>
  The dispatcher's queue listener (\<open>pkg/dispatcher/internal/queue_listener.go\<close>):
  it receives commands from the queue and hands each to a bounded worker pool,
  or runs it itself when the pool refuses the task.

  The listener and its workers run concurrently. Each atomic action is a
  function on the listener's state, and \<open>listener_step\<close> lets the actions
  interleave in every order. The pool (\<open>ants\<close>) may refuse a task at any time;
  a task it accepts runs once.
\<close>

section \<open>State\<close>

record listener =
  ls_received :: "polled_command list"                \<comment> \<open>in the order of the queue\<close>
  ls_submitted :: "polled_command list"               \<comment> \<open>accepted by the pool, not begun\<close>
  ls_running :: "(polled_command \<times> int) list"        \<comment> \<open>with the slot of each\<close>
  ls_inline :: "(polled_command \<times> int) option"       \<comment> \<open>what the listener itself runs\<close>
  ls_done :: "(polled_command \<times> work \<times> goerr) list"
  ls_stopped :: bool
  ls_queue_health :: queue_health
  ls_activity :: activity_health

definition listener_Start :: "int option \<Rightarrow> queue_health \<Rightarrow> listener" where
  "listener_Start limit qh =
     \<lparr>ls_received = [], ls_submitted = [], ls_running = [], ls_inline = None, ls_done = [],
      ls_stopped = False, ls_queue_health = qh,
      ls_activity = Accepting (NewActivityHealth limit) True\<rparr>"

section \<open>Construction\<close>

datatype listener_error =
    ListenerNilLogger | ListenerNilProcessor | ListenerNilQueue | ListenerNilMCPConfig
  | NonPositiveConcurrency | ListenerNilMeterProvider | NilPoolFactory | PoolFailed goerr
  | ListenerMetricsFailed goerr

record listener_params =
  lp_logger :: bool
  lp_processor :: bool
  lp_queue :: bool
  lp_max_concurrent :: "int option"   \<comment> \<open>\<open>None\<close> for a nil MCP config\<close>
  lp_meter_provider :: bool
  lp_make_pool :: "(int \<Rightarrow> goerr) option"
  lp_metrics :: goerr

text \<open>The size of the worker pool, or why there is no listener.\<close>

definition newQueueListener :: "listener_params \<Rightarrow> listener_error + int" where
  "newQueueListener p =
     (if \<not> lp_logger p then Inl ListenerNilLogger
      else if \<not> lp_processor p then Inl ListenerNilProcessor
      else if \<not> lp_queue p then Inl ListenerNilQueue
      else (case lp_max_concurrent p of
        None \<Rightarrow> Inl ListenerNilMCPConfig
      | Some n \<Rightarrow>
          if n \<le> 0 then Inl NonPositiveConcurrency
          else if \<not> lp_meter_provider p then Inl ListenerNilMeterProvider
          else (case lp_make_pool p of
            None \<Rightarrow> Inl NilPoolFactory
          | Some makePool \<Rightarrow>
              if makePool n \<noteq> nil_err then Inl (PoolFailed (makePool n))
              else if lp_metrics p \<noteq> nil_err then Inl (ListenerMetricsFailed (lp_metrics p))
              else Inr n)))"

section \<open>Actions\<close>

text \<open>A receive from the queue; the pool accepts the task.\<close>

definition receive_submit :: "gotime \<Rightarrow> polled_command \<Rightarrow> listener \<Rightarrow> listener" where
  "receive_submit now cmd l = l\<lparr>ls_received := ls_received l @ [cmd],
     ls_queue_health := Dequeued (ls_queue_health l) now, ls_submitted := ls_submitted l @ [cmd]\<rparr>"

text \<open>A worker begins: \<open>processObserved\<close> up to the call of \<open>Process\<close>.\<close>

definition begin_task :: "gotime \<Rightarrow> polled_command \<Rightarrow> listener \<Rightarrow> listener" where
  "begin_task now cmd l = (let (slot, h) = begin_work (ls_activity l) now in
     l\<lparr>ls_submitted := remove1 cmd (ls_submitted l), ls_running := (cmd, slot) # ls_running l,
       ls_activity := h\<rparr>)"

text \<open>A receive whose task the pool refuses: the listener begins the command itself.\<close>

definition receive_inline :: "gotime \<Rightarrow> gotime \<Rightarrow> polled_command \<Rightarrow> listener \<Rightarrow> listener" where
  "receive_inline now begun cmd l = (let (slot, h) = begin_work (ls_activity l) begun in
     l\<lparr>ls_received := ls_received l @ [cmd], ls_queue_health := Dequeued (ls_queue_health l) now,
       ls_inline := Some (cmd, slot), ls_activity := h\<rparr>)"

text \<open>
  \<open>processObserved\<close> after \<open>Process\<close> returned \<open>err\<close> with work record \<open>w\<close>;
  \<open>ctx\<close> is the state of the listener's context.
\<close>

definition work_outcome :: "ctx_state \<Rightarrow> work \<Rightarrow> goerr \<Rightarrow> work" where
  "work_outcome ctx w err = (if err \<noteq> nil_err then recordWorkFailure ctx err 0 w else w)"

definition finish_observed ::
  "ctx_state \<Rightarrow> gotime \<Rightarrow> polled_command \<Rightarrow> int \<Rightarrow> work \<Rightarrow> goerr \<Rightarrow> listener \<Rightarrow> listener" where
  "finish_observed ctx now cmd slot w err l =
     l\<lparr>ls_done := ls_done l @ [(cmd, w, err)],
       ls_activity := finish_work (ls_activity l) slot now (wk_failed (work_outcome ctx w err))
         (wk_timed_out (work_outcome ctx w err))\<rparr>"

text \<open>The context ends or the queue is closed: no further command is received.\<close>

definition stop_listener :: "listener \<Rightarrow> listener" where
  "stop_listener l = l\<lparr>ls_stopped := True, ls_activity := Accepting (ls_activity l) False\<rparr>"

definition release_listener :: "listener \<Rightarrow> listener" where
  "release_listener l = l\<lparr>ls_activity := Activity_Stopped (ls_activity l)\<rparr>"

section \<open>Interleaving\<close>

text \<open>The commands in execution.\<close>

definition executing :: "listener \<Rightarrow> (polled_command \<times> int) list" where
  "executing l = (case ls_inline l of None \<Rightarrow> [] | Some x \<Rightarrow> [x]) @ ls_running l"

inductive listener_step :: "processor \<Rightarrow> listener \<Rightarrow> listener \<Rightarrow> bool" for p where
  ReceiveSubmit: "\<lbrakk>\<not> ls_stopped l; ls_inline l = None\<rbrakk> \<Longrightarrow> listener_step p l (receive_submit now cmd l)"
| ReceiveInline: "\<lbrakk>\<not> ls_stopped l; ls_inline l = None; begun \<noteq> 0; length (executing l) + 1 < 2 ^ 64\<rbrakk>
    \<Longrightarrow> listener_step p l (receive_inline now begun cmd l)"
| BeginTask: "\<lbrakk>cmd \<in> set (ls_submitted l); now \<noteq> 0; length (executing l) + 1 < 2 ^ 64\<rbrakk>
    \<Longrightarrow> listener_step p l (begin_task now cmd l)"
| FinishTask: "\<lbrakk>(cmd, slot) \<in> set (ls_running l); Process p env (Some cmd) no_work = Some (w, err)\<rbrakk>
    \<Longrightarrow> listener_step p l ((finish_observed ctx now cmd slot w err l)
          \<lparr>ls_running := remove1 (cmd, slot) (ls_running l)\<rparr>)"
| FinishInline: "\<lbrakk>ls_inline l = Some (cmd, slot); Process p env (Some cmd) no_work = Some (w, err)\<rbrakk>
    \<Longrightarrow> listener_step p l ((finish_observed ctx now cmd slot w err l)\<lparr>ls_inline := None\<rparr>)"
| StopListener: "\<lbrakk>\<not> ls_stopped l; ls_inline l = None\<rbrakk> \<Longrightarrow> listener_step p l (stop_listener l)"
| ReleaseListener: "ls_stopped l \<Longrightarrow> listener_step p l (release_listener l)"

inductive_cases listener_stepE: "listener_step p l l'"

inductive listener_reach :: "processor \<Rightarrow> listener \<Rightarrow> listener \<Rightarrow> bool" for p l0 where
  Initial: "listener_reach p l0 l0"
| Later: "\<lbrakk>listener_reach p l0 l; listener_step p l l'\<rbrakk> \<Longrightarrow> listener_reach p l0 l'"

section \<open>Lemmas\<close>

definition accounted :: "listener \<Rightarrow> bool" where
  "accounted l \<longleftrightarrow> mset (ls_received l) =
     mset (ls_submitted l) + mset (map fst (executing l)) + mset (map fst (ls_done l))"

definition slots_held :: "nat \<Rightarrow> listener \<Rightarrow> bool" where
  "slots_held n l \<longleftrightarrow> slots_ok n (ls_activity l) (map snd (executing l))"

lemma executing_None: "ls_inline l = None \<Longrightarrow> executing l = ls_running l"
  by (simp add: executing_def)

lemma mset_map_fst_remove1:
  "(c, s) \<in> set xs \<Longrightarrow> mset (map fst xs) = add_mset c (mset (map fst (remove1 (c, s) xs)))"
  by (induction xs) auto

lemma step_accounted:
  assumes "listener_step p l l'" "accounted l"
  shows "accounted l'"
  using assms
proof cases
  case (FinishTask cmd slot env w err ctx now)
  then show ?thesis
    using assms(2) mset_map_fst_remove1 [OF FinishTask(2)]
    by (simp add: accounted_def executing_def finish_observed_def del: mset_map)
next
  case (ReceiveInline begun now cmd)
  then show ?thesis
    using assms(2) by (simp add: accounted_def receive_inline_def executing_def split_beta)
next
  case (BeginTask cmd now)
  then show ?thesis
    using assms(2) by (simp add: accounted_def begin_task_def executing_def split_beta)
qed (use assms(2) in \<open>auto simp: accounted_def receive_submit_def executing_def finish_observed_def
      stop_listener_def release_listener_def\<close>)

text \<open>The order of the held slots does not matter.\<close>

lemma slots_ok_perm: "mset held = mset held' \<Longrightarrow> slots_ok n h held = slots_ok n h held'"
proof -
  assume eq: "mset held = mset held'"
  then have "set held = set held'" "length held = length held'"
    by (auto dest: mset_eq_setD mset_eq_length)
  moreover have "distinct (filter (\<lambda>x. 0 \<le> x) held) = distinct (filter (\<lambda>x. 0 \<le> x) held')"
    using eq by (metis mset_filter mset_eq_imp_distinct_iff)
  ultimately show ?thesis by (simp add: slots_ok_def)
qed

lemma begin_slots:
  assumes "slots_ok n h held" "now \<noteq> 0" "length held + 1 < 2 ^ 64"
    and "mset held' = add_mset (fst (begin_work h now)) (mset held)"
  shows "slots_ok n (snd (begin_work h now)) held'"
proof -
  have "slots_ok n (snd (begin_work h now)) (fst (begin_work h now) # held)"
    using slots_ok_begin [OF assms(1) _ assms(2,3)] by (metis prod.collapse)
  then show ?thesis using slots_ok_perm assms(4) by (metis mset.simps(2))
qed

lemma finish_slots:
  assumes "slots_ok n h held" "mset held = add_mset slot (mset held')"
  shows "slots_ok n (finish_work h slot now f t) held'"
proof -
  have "slots_ok n h ([] @ slot # held')"
    using assms slots_ok_perm by (metis append_Nil mset.simps(2))
  from slots_ok_finish [OF this] show ?thesis by simp
qed

lemma slots_ok_lifecycle:
  "slots_ok n (Accepting h a) held = slots_ok n h held"
  "slots_ok n (Activity_Stopped h) held = slots_ok n h held"
  by (simp_all add: slots_ok_def Accepting_def Activity_Stopped_def)

lemma mset_map_snd_remove1:
  "(c, s) \<in> set xs \<Longrightarrow> mset (map snd xs) = add_mset s (mset (map snd (remove1 (c, s) xs)))"
  by (induction xs) auto

lemma step_slots:
  assumes "listener_step p l l'" "slots_held n l"
  shows "slots_held n l'"
  using assms
proof cases
  case (ReceiveInline begun now cmd)
  then show ?thesis
    using assms(2) unfolding slots_held_def
    by (auto simp: receive_inline_def executing_def split_beta intro!: begin_slots)
next
  case (BeginTask cmd now)
  then show ?thesis
    using assms(2) unfolding slots_held_def
    by (auto simp: begin_task_def executing_def split_beta intro!: begin_slots split: option.splits)
next
  case (FinishTask cmd slot env w err ctx now)
  then show ?thesis
    using assms(2) mset_map_snd_remove1 [OF FinishTask(2)] unfolding slots_held_def
    by (auto simp: finish_observed_def executing_def intro!: finish_slots simp del: mset_map)
next
  case (FinishInline cmd slot env w err ctx now)
  then show ?thesis
    using assms(2) unfolding slots_held_def
    by (auto simp: finish_observed_def executing_def intro!: finish_slots)
qed (use assms(2) in \<open>auto simp: slots_held_def receive_submit_def executing_def stop_listener_def
      release_listener_def slots_ok_lifecycle\<close>)

lemma start_ok:
  "accounted (listener_Start limit qh)"
  "slots_held (length (ah_starts (NewActivityHealth limit))) (listener_Start limit qh)"
  using slots_ok_new by (simp_all add: accounted_def listener_Start_def slots_held_def slots_ok_lifecycle executing_def)

lemma reach_ok:
  "listener_reach p (listener_Start limit qh) l \<Longrightarrow>
   accounted l \<and> slots_held (length (ah_starts (NewActivityHealth limit))) l"
  by (induction rule: listener_reach.induct) (auto simp: start_ok step_accounted step_slots)

text \<open>Every finished command has the outcome of one call of \<open>Process\<close>.\<close>

definition done_by_process :: "processor \<Rightarrow> listener \<Rightarrow> bool" where
  "done_by_process p l \<longleftrightarrow>
     (\<forall>(cmd, w, err) \<in> set (ls_done l). \<exists>env. Process p env (Some cmd) no_work = Some (w, err))"

lemma step_done:
  assumes "listener_step p l l'" "done_by_process p l"
  shows "done_by_process p l'"
  using assms
  by cases (auto simp: done_by_process_def receive_submit_def receive_inline_def begin_task_def
      finish_observed_def stop_listener_def release_listener_def split: prod.splits)

lemma reach_done: "listener_reach p (listener_Start limit qh) l \<Longrightarrow> done_by_process p l"
  by (induction rule: listener_reach.induct) (auto simp: step_done, simp add: done_by_process_def listener_Start_def)

section \<open>Properties\<close>

text \<open>
  The dispatcher neither loses nor repeats a command. However receives,
  refusals by the pool, workers and shutdown interleave, every received command
  is at every moment in exactly one place: submitted, in execution, or finished;
  a finished command was given to \<open>Process\<close> once; and the activity observer's
  count of active commands is the number in execution.
\<close>

theorem dispatcher_accounts_for_every_command:
  assumes "listener_reach p (listener_Start limit qh) l"
  shows "mset (ls_received l) =
           mset (ls_submitted l) + mset (map fst (executing l)) + mset (map fst (ls_done l)) \<and>
         (\<forall>(cmd, w, err) \<in> set (ls_done l). \<exists>env. Process p env (Some cmd) no_work = Some (w, err)) \<and>
         unat (ah_active (ls_activity l)) = length (executing l)"
  using reach_ok [OF assms] reach_done [OF assms]
  by (simp add: accounted_def done_by_process_def slots_held_def slots_ok_def)

lemma example_listener:
  "listener_reach example_processor (listener_Start (Some 2) NewQueueHealth)
     (receive_inline 5 6 (example_call NoId ''main'') (receive_submit 4 (example_call (IntId 1) ''main'')
        (listener_Start (Some 2) NewQueueHealth)))"
  by (rule Later, rule Later, rule Initial, rule ReceiveSubmit)
    (simp_all add: listener_Start_def, rule ReceiveInline,
     simp_all add: receive_submit_def executing_def)

theorem dispatcher_accounts_for_every_command_witness:
  "unat (ah_active (ls_activity (receive_inline 5 6 (example_call NoId ''main'')
     (receive_submit 4 (example_call (IntId 1) ''main'') (listener_Start (Some 2) NewQueueHealth))))) = 1"
  using dispatcher_accounts_for_every_command [OF example_listener]
  by (simp add: receive_inline_def receive_submit_def executing_def listener_Start_def split_beta)

end
