(* ===== verification/Pipeline.thy ===== *)
theory Pipeline
  imports Listener Poll Poller Delivery ControlApi Startup
begin

text \<open>
  Where the components meet: what decoding guarantees to the dispatcher, what
  the poller's queue hands to the listener, and what the processor hands to
  \<open>PostResponse\<close>. The lemmas here serve the properties of the root theory.
\<close>

section \<open>From decoding to dispatch\<close>

lemma command_ok_base: "command_ok p cmd \<Longrightarrow> base_ok p (command_base cmd)"
  by (cases cmd) auto

lemma command_ok_typed: "command_ok p cmd \<Longrightarrow> is_typed cmd"
  by (cases cmd) (auto simp: is_typed_def)

lemma base_ok_channel:
  assumes "base_ok p b"
  shows "command_channel b = bc_channel b" "NormalizeChannel (bc_channel b) = Some (bc_channel b)"
    "bc_channel b \<noteq> []"
  using assms NormalizeChannel_fixpoint channelPattern_Nil
  by (auto simp: base_ok_def command_channel_def)

lemma decoded_ok:
  "cmd \<in> set (fst (decodeCommands pt dm body limit polledAt)) \<Longrightarrow> command_ok polledAt cmd"
  by (auto simp: decodeCommands_def dest: decode_all_ok split: sum.splits option.splits)

section \<open>From the processor to delivery\<close>

text \<open>
  A response that \<open>PostResponse\<close> accepts for sending: it validates on its
  channel, and its payload, if any, is JSON.
\<close>

definition deliverable :: "channel \<Rightarrow> tunnel_response \<Rightarrow> bool" where
  "deliverable ch resp \<longleftrightarrow> tr_channel resp = ch \<and> Validate (Some resp) = None \<and>
     (tr_response resp \<noteq> [] \<longrightarrow> json_parse (tr_response resp) \<noteq> None)"

definition encodes_json :: "encoder \<Rightarrow> bool" where
  "encodes_json enc \<longleftrightarrow> (\<forall>m. \<exists>s. enc m = Inr s \<and> json_parse s \<noteq> None)"

lemma json_parse_Nil [simp]: "json_parse [] = None"
  by code_simp

lemma encodes_jsonD: "\<lbrakk>encodes_json enc; enc m = Inr s\<rbrakk> \<Longrightarrow> s \<noteq> [] \<and> json_parse s \<noteq> None"
  unfolding encodes_json_def by (metis json_parse_Nil sum.inject(2))

lemma encodes_json_Inl: "encodes_json enc \<Longrightarrow> enc m \<noteq> Inl e"
  unfolding encodes_json_def by (metis Inl_Inr_False)

definition adds_deliverable :: "channel \<Rightarrow> work \<Rightarrow> work \<Rightarrow> bool" where
  "adds_deliverable ch w w' \<longleftrightarrow> (\<exists>ps. wk_posts w' = wk_posts w @ ps \<and>
     list_all (\<lambda>p. deliverable ch (fst (snd p))) ps)"

lemma adds_deliverable_keeps [simp]:
  "adds_deliverable ch (recordWorkFailure c e s w) w' = adds_deliverable ch w w'"
  "adds_deliverable ch w (recordWorkFailure c e s w') = adds_deliverable ch w w'"
  "adds_deliverable ch (conn_event ev w) w' = adds_deliverable ch w w'"
  "adds_deliverable ch w (conn_event ev w') = adds_deliverable ch w w'"
  "adds_deliverable ch w (retire_or_close c cn w') = adds_deliverable ch w w'"
  "adds_deliverable ch w w"
  by (simp_all add: adds_deliverable_def work_simps)

lemma post_deliverable:
  "deliverable ch resp \<Longrightarrow> adds_deliverable ch w (fst (postTunnelResponse posts rid resp w))"
  using post_effect(1) [of posts rid resp w]
  by (cases "postTunnelResponse posts rid resp w") (auto simp: adds_deliverable_def)

lemma deliverable_payload:
  assumes "NormalizeChannel ch = Some ch" "tr_channel resp = ch" "json_parse (tr_response resp) \<noteq> None"
    and "tr_type resp \<in> {ResponseTypeJSONRPCResponse, ResponseTypeJSONRPCNotification}"
  shows "deliverable ch resp"
  using assms json_parse_Nil by (auto simp: deliverable_def Validate_def)

lemma deliverable_ack: "NormalizeChannel ch = Some ch \<Longrightarrow> deliverable ch (NewNotificationAck ch c h)"
  by (simp add: deliverable_def Validate_def NewNotificationAck_def)

lemma forwarded_deliverable:
  assumes "encodes_json (fw_encode fw)" "NormalizeChannel (fw_channel fw) = Some (fw_channel fw)"
    and "forwarded fw reads e ps d r"
  shows "list_all (\<lambda>p. deliverable (fw_channel fw) (fst (snd p))) ps"
proof -
  from assms(3) obtain ns ts where ps: "ps = ns @ ts" and ns: "list_all (notify_post fw) ns"
      and enc: "map (\<lambda>p. Inr (tr_response (fst (snd p)))) ns =
        map (fw_encode fw) (take (length ns) (leading_notes reads))"
      and ts: "ts = [] \<and> \<not> d \<and> \<not> r \<or> (\<exists>p. ts = [p] \<and> terminal_post fw reads d r p)"
    unfolding forwarded_def by blast
  have "json_parse (tr_response (fst (snd p))) \<noteq> None" if "p \<in> set ns" for p
  proof -
    have "Inr (tr_response (fst (snd p))) \<in> set (map (fw_encode fw) (take (length ns) (leading_notes reads)))"
      using that unfolding enc [symmetric] by auto
    then obtain m where "fw_encode fw m = Inr (tr_response (fst (snd p)))" by auto
    then show ?thesis using encodes_jsonD [OF assms(1)] by blast
  qed
  then have "list_all (\<lambda>p. deliverable (fw_channel fw) (fst (snd p))) ns"
    using ns by (auto simp: list_all_iff notify_post_def intro!: deliverable_payload [OF assms(2)])
  moreover have "deliverable (fw_channel fw) (fst (snd p))" if "terminal_post fw reads d r p" for p
  proof (rule deliverable_payload [OF assms(2)])
    have "\<exists>m. fw_encode fw m = Inr (tr_response (fst (snd p)))"
      using that by (auto simp: terminal_post_def answer_of_def failure_of_def
          buildTunnelFailureJSONRPCErrorResponse_def Let_def split: prod.splits if_splits)
    then show "json_parse (tr_response (fst (snd p))) \<noteq> None"
      using encodes_jsonD [OF assms(1)] by blast
  qed (use that in \<open>auto simp: terminal_post_def\<close>)
  ultimately show ?thesis using ps ts by auto
qed

lemma forward_answer_deliverable:
  assumes "encodes_json (pe_encode env)" "NormalizeChannel ch = Some ch"
    and "forward_answer env rid i cfg ch conn wr st w = Some (w', err)"
  shows "adds_deliverable ch w w'"
proof -
  let ?fw = "\<lparr>fw_encode = pe_encode env, fw_posts = pe_posts env, fw_request_id = rid,
              fw_rpc_id = i, fw_code = st, fw_headers = wr_headers wr, fw_channel = ch,
              fw_kind = cb_kind cfg, fw_started = wr_started wr\<rparr>"
  obtain v d t r where loop: "forward_loop ?fw True (pe_reads env) w = Some (v, d, t, r)"
      and w': "w' = finish_forwarding (pe_exit env) conn t r v"
    using assms(3) by (auto simp: forward_answer_def forwardResponses_def split: option.splits)
  from forward_loop_posts [OF loop] obtain ps where
    ps: "wk_posts v = wk_posts w @ ps" "forwarded ?fw (pe_reads env) True ps d r" by blast
  have "list_all (\<lambda>p. deliverable ch (fst (snd p))) ps"
    using forwarded_deliverable [OF _ _ ps(2)] assms(1,2) by simp
  then show ?thesis using ps(1) w' by (auto simp: adds_deliverable_def work_simps)
qed

lemma failure_parses:
  "\<lbrakk>encodes_json enc; buildTunnelFailureJSONRPCErrorResponse enc i st f = Inr s\<rbrakk> \<Longrightarrow> json_parse s \<noteq> None"
  using encodes_jsonD by (auto simp: buildTunnelFailureJSONRPCErrorResponse_def Let_def)

lemma upstream_error_deliverable:
  assumes "encodes_json (pe_encode env)" "NormalizeChannel ch = Some ch"
  shows "adds_deliverable ch w (fst (upstream_error env rid i ch wr err st w))"
  using failure_parses [OF assms(1)] deliverable_payload [OF assms(2)]
  by (auto simp: upstream_error_def Let_def intro!: post_deliverable split: sum.splits)

lemma connect_failed_deliverable:
  assumes "encodes_json (pe_encode env)" "NormalizeChannel ch = Some ch"
  shows "adds_deliverable ch w (fst (connect_failed env rid i ch err w))"
proof -
  have "adds_deliverable ch w (fst (postTunnelResponse posts rid resp
      (recordWorkFailure (pe_connected env) err 0 w)))" if "deliverable ch resp" for posts resp
    using post_deliverable [OF that, of "recordWorkFailure (pe_connected env) err 0 w"] by simp
  then show ?thesis
    using failure_parses [OF assms(1)] deliverable_payload [OF assms(2)] deliverable_ack [OF assms(2)]
    by (auto simp: connect_failed_def Let_def split: sum.splits)
qed

lemma preserved_error_deliverable:
  assumes "NormalizeChannel ch = Some ch" "json_parse payload \<noteq> None"
  shows "adds_deliverable ch w (fst (preserved_error env rid i cfg ch wr st payload w))"
  using assms by (auto simp: preserved_error_def Let_def intro!: post_deliverable deliverable_payload)

lemma after_write_deliverable:
  assumes "encodes_json (pe_encode env)" "NormalizeChannel ch = Some ch"
    and "\<And>payload. wr_preserved (fst (pe_write env)) = Some payload \<Longrightarrow> json_parse payload \<noteq> None"
    and "after_write env rid i cfg ch conn w = Some (w', e)"
  shows "adds_deliverable ch w w'"
proof -
  obtain wr err where wr: "pe_write env = (wr, err)" by (metis surj_pair)
  let ?st = "normalizeTransportStatusCode (wr_status wr) err"
  obtain v where v: "wk_posts v = wk_posts w" and cases:
    "(\<exists>payload. wr_preserved wr = Some payload \<and> (w', e) = preserved_error env rid i cfg ch wr ?st payload v) \<or>
     (w', e) = upstream_error env rid i ch wr err ?st v \<or>
     (w', e) = postTunnelResponse (pe_posts env) rid (NewNotificationAck ch ?st (wr_headers wr)) v \<or>
     forward_answer env rid i cfg ch conn wr ?st v = Some (w', e)"
  proof (cases "err \<noteq> nil_err \<or> 400 \<le> ?st")
    case True
    then show ?thesis
      using assms(4) that [of "recordWorkFailure (pe_written env) err ?st w"]
      by (auto simp: after_write_def wr Let_def record_keeps split: option.splits)
  next
    case False
    then show ?thesis
      using assms(4) that [of w] by (auto simp: after_write_def wr Let_def split: option.splits if_splits)
  qed
  have "adds_deliverable ch v w'"
    using cases preserved_error_deliverable [OF assms(2), of _ v] assms(3) wr
      upstream_error_deliverable [OF assms(1,2), of v] forward_answer_deliverable [OF assms(1,2)]
      post_deliverable [OF deliverable_ack [OF assms(2)], of v]
    by (metis fst_conv)
  then show ?thesis using v by (simp add: adds_deliverable_def)
qed

lemma reject_deliverable:
  assumes "encodes_json (pe_encode env)" "NormalizeChannel ch = Some ch"
    and "rejectUnsupportedChannel env (JsonRpcCommand b msg t ct) ch w = Some (w', e)"
  shows "adds_deliverable ch w w'"
proof (cases msg)
  case (Request i m q)
  obtain s where s: "buildJSONRPCErrorResponse (pe_encode env) i 400 (Some (unsupported_channel ch)) = Inr s"
      "json_parse s \<noteq> None"
    using assms(1) unfolding buildJSONRPCErrorResponse_def encodes_json_def Let_def by blast
  have "deliverable ch (NewTunnelResponse ch s 400 [])"
    using s(2) by (simp add: deliverable_payload [OF assms(2)])
  then show ?thesis
    using assms(3) s(1) Request post_deliverable [of ch "NewTunnelResponse ch s 400 []" w]
    by (auto simp: rejectUnsupportedChannel_def Let_def split_beta)
qed (use assms(3) in \<open>auto simp: rejectUnsupportedChannel_def Let_def\<close>)

lemma jsonrpc_deliverable:
  assumes "encodes_json (pe_encode env)" "NormalizeChannel ch = Some ch"
    and "\<And>payload. wr_preserved (fst (pe_write env)) = Some payload \<Longrightarrow> json_parse payload \<noteq> None"
    and "processJsonRpcCommand p env base msg trace cfg ch w = Some (w', e)"
  shows "adds_deliverable ch w w'"
proof (cases msg)
  case (Request i m q)
  show ?thesis
  proof (cases "pe_connect env")
    case (Inl err)
    then show ?thesis
      using Request assms(4) connect_failed_deliverable [OF assms(1,2), of w "bc_request_id base" i err]
      by (auto simp: processJsonRpcCommand_def)
  next
    case (Inr conn)
    then show ?thesis
      using Request assms(4) after_write_deliverable [OF assms(1-3), of "bc_request_id base" i cfg conn]
      by (auto simp: processJsonRpcCommand_def Let_def split: if_splits) (metis adds_deliverable_keeps(3))
  qed
qed (use assms(4) in \<open>auto simp: processJsonRpcCommand_def\<close>)

lemma process_deliverable:
  assumes "encodes_json (pe_encode env)" "NormalizeChannel (command_channel base) = Some (command_channel base)"
    and "\<And>payload. wr_preserved (fst (pe_write env)) = Some payload \<Longrightarrow> json_parse payload \<noteq> None"
    and "Process p env (Some (JsonRpcCommand base msg t ct)) w = Some r"
  shows "adds_deliverable (command_channel base) w (fst r)"
  using assms(4)
proof (cases rule: Process_routed)
  case Dropped
  then show ?thesis by (simp add: adds_deliverable_def)
next
  case (Routed ctx q)
  obtain v e where q: "q = (v, e)" by (cases q)
  have "adds_deliverable (command_channel base) w v"
    using Routed(1) q reject_deliverable [OF assms(1,2)] jsonrpc_deliverable [OF assms(1-3)]
    by (auto simp: route_command_def Let_def split: option.splits if_splits)
  then show ?thesis using Routed q by (simp add: adds_deliverable_def)
qed

lemma build_post_deliverable:
  assumes "deliverable ch resp" "ch \<noteq> []" "rid \<noteq> []" "token \<noteq> []"
  shows "\<exists>req. build_post rid (Some resp) nil_err cid (Some token) = Inr req \<and>
    po_shard_token req = token \<and> rp_request_id (po_payload req) = rid \<and> rp_channel (po_payload req) = ch"
  using assms by (auto simp: deliverable_def build_post_def Let_def)

section \<open>An example\<close>

definition example_rpc_body :: string where
  \<open>example_rpc_body = ''{"commands":[{"command_type":"jsonrpc","request_id":"r","shard_token":"t","jsonrpc":{}}]}''\<close>

lemma decode_rpc_example:
  "decodeCommands (\<lambda>_. None) (\<lambda>_. Some (Request (IntId 1) ''m'' [])) (Inr example_rpc_body) 1 5 =
     ([JsonRpcCommand example_base (Request (IntId 1) ''m'' []) None None], nil_err)"
  by code_simp

definition example_json_world :: process_env where
  "example_json_world = example_world\<lparr>pe_encode := \<lambda>_. Inr ''{}''\<rparr>"

lemma example_json_world_ok:
  "encodes_json (pe_encode example_json_world)" "wr_preserved (fst (pe_write example_json_world)) = None"
proof -
  have "json_parse ''{}'' = Some (JObj [])" by code_simp
  then show "encodes_json (pe_encode example_json_world)"
    by (simp add: encodes_json_def example_json_world_def)
qed (simp add: example_json_world_def example_world_def)

lemma example_json_answered:
  "\<exists>w err. Process example_processor example_json_world
     (Some (JsonRpcCommand example_base (Request (IntId 1) ''m'' []) None None)) no_work = Some (w, err) \<and>
     wk_posts w \<noteq> []"
proof -
  have "\<exists>w err. Process example_processor example_json_world
     (Some (JsonRpcCommand example_base (Request (IntId 1) ''m'' []) None None)) no_work = Some (w, err) \<and>
     terminal_posted no_work w"
    by (rule command_answers)
      (simp_all add: example_json_world_def example_world_def encodes_all_def target_read_def example_base_def)
  then show ?thesis by (auto simp: terminal_posted_def)
qed

lemma example_queue:
  "cq_taken (po_queue (poller_run (NewPoller (new_queue 1) 0 0) [example_iteration])) =
     [OauthDiscoveryCommand example_base]"
  by code_simp

end
