(* ===== verification/JsonWrite.thy ===== *)
theory JsonWrite
  imports JsonText
begin

text \<open>
  A whole document as \<open>json.Marshal\<close> writes it, and that parsing it gives the
  document back. The numbers of a document are natural literals, which is what
  the modelled payloads have, and the raw text that the parser keeps with a
  member is the text of its value.
\<close>

section \<open>Documents\<close>

fun json_text :: "json \<Rightarrow> string" where
  "json_text JNull = ''null''"
| "json_text (JBool b) = (if b then ''true'' else ''false'')"
| "json_text (JNum n) = n"
| "json_text (JStr s) = json_string s"
| "json_text (JArr vs) = ''['' @ join_members (map json_text vs) @ '']''"
| "json_text (JObj ms) = ''{'' @ join_members (map (\<lambda>(k, raw, v). json_string k @ '':'' @ json_text v) ms) @ ''}''"

definition natural_literal :: "string \<Rightarrow> bool" where
  "natural_literal n \<longleftrightarrow> n \<noteq> [] \<and> list_all is_digit n \<and> (hd n = CHR ''0'' \<longrightarrow> n = ''0'')"

fun json_wf :: "json \<Rightarrow> bool" where
  "json_wf (JNum n) = natural_literal n"
| "json_wf (JArr vs) = list_all json_wf vs"
| "json_wf (JObj ms) = list_all (\<lambda>(k, raw, v). raw = json_text v \<and> json_wf v) ms"
| "json_wf _ = True"

text \<open>An object from its names and values.\<close>

definition json_obj :: "(string \<times> json) list \<Rightarrow> json" where
  "json_obj kvs = JObj (map (\<lambda>(k, v). (k, json_text v, v)) kvs)"

lemma json_obj_wf [simp]: "json_wf (json_obj kvs) \<longleftrightarrow> list_all (\<lambda>(k, v). json_wf v) kvs"
  by (auto simp: json_obj_def list_all_iff)

section \<open>Strings\<close>

lemma hex_digit_char: "d < 16 \<Longrightarrow> hex_digit (hex_char d) = Some d"
proof -
  assume "d < 16"
  then have "d < 10 \<or> d \<in> {10, 11, 12, 13, 14, 15}" by auto
  then show ?thesis
    by (elim disjE) (auto simp: hex_digit_def hex_char_def Let_def)
qed

lemma lex_plain:
  "c \<noteq> CHR 0x22 \<Longrightarrow> c \<noteq> CHR 0x5C \<Longrightarrow> \<not> (of_char c :: nat) < 32 \<Longrightarrow>
     lex_string (Suc n) (c # t) = map_option (\<lambda>(v, q). (c # v, q)) (lex_string n t)"
  by simp

lemma lex_u_escape:
  assumes "(of_char c :: nat) < 128"
  shows "lex_string (Suc n) (u_escape c @ t) = map_option (\<lambda>(v, q). (c # v, q)) (lex_string n t)"
proof -
  have "hex_digit (hex_char (of_char c div 16)) = Some (of_char c div 16)"
    "hex_digit (hex_char (of_char c mod 16)) = Some (of_char c mod 16)"
    using assms by (simp_all add: hex_digit_char)
  moreover have "hex_digit (CHR ''0'') = Some 0" by (simp add: hex_digit_def Let_def)
  moreover have "(of_char c :: nat) div 16 * 16 + of_char c mod 16 = of_char c" by simp
  ultimately have "unicode_escape (''00'' @ [hex_char (of_char c div 16), hex_char (of_char c mod 16)] @ t) = Some ([c], t)"
    using assms by (simp add: unicode_escape_def hex4_def utf8_def)
  then show ?thesis by (simp add: u_escape_def)
qed

lemma lex_escaped:
  "lex_string (Suc n) (json_escape c @ t) = map_option (\<lambda>(v, q). (c # v, q)) (lex_string n t)"
proof (cases "c \<in> {CHR 0x22, CHR 0x5C, CHR 0x08, CHR 0x0C, CHR 0x0A, CHR 0x0D, CHR 0x09}")
  case True
  then show ?thesis by (auto simp: json_escape_def simple_escape_def)
next
  case False
  then have esc: "json_escape c = (if (of_char c :: nat) < 32 \<or> c \<in> set ''<>&'' then u_escape c else [c])"
    by (simp add: json_escape_def)
  show ?thesis
  proof (cases "(of_char c :: nat) < 32 \<or> c \<in> set ''<>&''")
    case True
    then have "(of_char c :: nat) < 128" by auto
    from lex_u_escape [OF this, of n t] True esc show ?thesis by presburger
  next
    case plain: False
    with False lex_plain [of c n t] esc show ?thesis by simp
  qed
qed

lemma separator_chars:
  "char_of (226 :: nat) = CHR 0xE2" "char_of (128 :: nat) = CHR 0x80" "char_of (168 :: nat) = CHR 0xA8"
  "char_of (169 :: nat) = CHR 0xA9"
  by code_simp+

lemma lex_separator:
  "lex_string (Suc n) ([CHR 0x5C] @ ''u2028'' @ t) =
     map_option (\<lambda>(v, q). (CHR 0xE2 # CHR 0x80 # CHR 0xA8 # v, q)) (lex_string n t)"
  "lex_string (Suc n) ([CHR 0x5C] @ ''u2029'' @ t) =
     map_option (\<lambda>(v, q). (CHR 0xE2 # CHR 0x80 # CHR 0xA9 # v, q)) (lex_string n t)"
  by (simp_all add: unicode_escape_def hex4_def hex_digit_def utf8_def Let_def separator_chars)

lemma json_escape_nonempty: "0 < length (json_escape c)"
  by (simp add: json_escape_def u_escape_def)

lemma lex_json_chars:
  "length (json_chars s) < n \<Longrightarrow> lex_string n (json_chars s @ CHR 0x22 # t) = Some (s, t)"
proof (induction s arbitrary: n rule: json_chars.induct)
  case 1
  then show ?case by (cases n) simp_all
next
  case (2 c s)
  then obtain m where m: "n = Suc m" by (cases n) auto
  let ?a = "c = CHR 0xE2 \<and> take 2 s = [CHR 0x80, CHR 0xA8]"
  let ?b = "c = CHR 0xE2 \<and> take 2 s = [CHR 0x80, CHR 0xA9]"
  have split: "s = take 2 s @ drop 2 s" by simp
  show ?case
  proof (cases "?a \<or> ?b")
    case True
    then consider ?a | ?b "\<not> ?a" by auto
    then show ?thesis
    proof cases
      case 1
      with 2 m have "lex_string m (json_chars (drop 2 s) @ CHR 0x22 # t) = Some (drop 2 s, t)" by simp
      with 1 m lex_separator(1) [of m "json_chars (drop 2 s) @ CHR 0x22 # t"] show ?thesis
        by (simp del: lex_string.simps) (metis append_Cons append_Nil split)
    next
      case b: 2
      with 2 m have "lex_string m (json_chars (drop 2 s) @ CHR 0x22 # t) = Some (drop 2 s, t)" by simp
      with b m lex_separator(2) [of m "json_chars (drop 2 s) @ CHR 0x22 # t"] show ?thesis
        by (simp del: lex_string.simps) (metis append_Cons append_Nil split)
    qed
  next
    case False
    then have eq: "json_chars (c # s) = json_escape c @ json_chars s" by auto
    with 2(4) m have "length (json_escape c) + length (json_chars s) < Suc m"
      by (simp del: json_chars.simps)
    with json_escape_nonempty [of c] have "length (json_chars s) < m" by linarith
    with 2(3) False have "lex_string m (json_chars s @ CHR 0x22 # t) = Some (s, t)" by blast
    with eq m lex_escaped [of m c "json_chars s @ CHR 0x22 # t"] show ?thesis
      by (simp del: lex_string.simps json_chars.simps)
  qed
qed

section \<open>Round trip\<close>

definition ends :: "string \<Rightarrow> bool" where
  "ends rest \<longleftrightarrow> rest = [] \<or> hd rest \<in> {CHR '','', CHR '']'', CHR ''}''}"

lemma ends_simps [simp]: "ends []" "ends (CHR '','' # t)" "ends (CHR '']'' # t)" "ends (CHR ''}'' # t)"
  by (simp_all add: ends_def)

lemma takeWhile_digits: "list_all is_digit n \<Longrightarrow> ends rest \<Longrightarrow> dropWhile is_digit (n @ rest) = rest"
proof (induction n)
  case Nil
  then show ?case by (cases rest) (auto simp: ends_def is_digit_def)
qed simp

lemma lex_natural:
  assumes "natural_literal n" and "ends rest"
  shows "lex_number (n @ rest) = Some (n, rest)"
proof -
  obtain c m where n: "n = c # m" using assms(1) by (cases n) (auto simp: natural_literal_def)
  have c: "is_digit c" "list_all is_digit m" "c = CHR ''0'' \<Longrightarrow> m = []"
    using assms(1) by (auto simp: natural_literal_def n)
  have "lex_int (n @ rest) = Some rest"
    using c takeWhile_digits [OF c(2) assms(2)] by (auto simp: lex_int_def n)
  moreover have "lex_frac rest = Some rest" "lex_exp rest = Some rest"
    using assms(2) by (auto simp: lex_frac_def lex_exp_def ends_def split: list.splits)
  moreover have "c \<noteq> CHR ''-''" using c(1) by (auto simp: is_digit_def)
  ultimately show ?thesis by (simp add: lex_number_def n Let_def)
qed

lemma text_head: "json_wf v \<Longrightarrow> \<exists>c t. json_text v = c # t \<and> \<not> json_ws c \<and> c \<notin> {CHR '']'', CHR ''}''}"
proof (cases v)
  case (JNum n)
  moreover assume "json_wf v"
  ultimately show ?thesis
    by (cases n) (auto simp: natural_literal_def is_digit_def json_ws_def)
qed (auto simp: json_string_def json_ws_def)

lemma skip_ws_text: "json_wf v \<Longrightarrow> skip_ws (json_text v @ r) = json_text v @ r"
  using text_head [of v] by (auto simp: skip_ws_def)

lemma skip_ws_punct [simp]:
  "skip_ws (CHR '','' # t) = CHR '','' # t" "skip_ws (CHR '']'' # t) = CHR '']'' # t"
  "skip_ws (CHR ''}'' # t) = CHR ''}'' # t" "skip_ws (CHR '':'' # t) = CHR '':'' # t"
  "skip_ws (CHR 0x22 # t) = CHR 0x22 # t" "skip_ws [] = []"
  by (simp_all add: skip_ws_def json_ws_def)

lemma pvalue_natural:
  assumes "natural_literal n" and "ends rest" and "0 < fuel"
  shows "pvalue fuel (n @ rest) = Some (JNum n, rest)"
proof -
  obtain c m where n: "n = c # m" using assms(1) by (cases n) (auto simp: natural_literal_def)
  have "is_digit c" using assms(1) by (simp add: natural_literal_def n)
  then have "c \<notin> {CHR ''{'', CHR ''['', CHR 0x22, CHR ''t'', CHR ''f'', CHR ''n''}" by (auto simp: is_digit_def)
  with lex_natural [OF assms(1,2)] assms(3) show ?thesis
    by (cases fuel) (auto simp: n has_prefix_def)
qed

lemma pvalue_string:
  assumes "0 < fuel"
  shows "pvalue fuel (json_string s @ rest) = Some (JStr s, rest)"
  using assms lex_json_chars [of s "Suc (length (json_chars s @ CHR 0x22 # rest))" rest]
  by (cases fuel) (simp_all add: json_string_def del: lex_string.simps)

definition reads_back :: "json \<Rightarrow> bool" where
  "reads_back v \<longleftrightarrow> (\<forall>fuel rest. 2 * length (json_text v) < fuel \<longrightarrow> ends rest \<longrightarrow>
     pvalue fuel (json_text v @ rest) = Some (v, rest))"

lemma pelems_reads_back:
  assumes "vs \<noteq> []" and "\<And>v. v \<in> set vs \<Longrightarrow> reads_back v \<and> json_wf v"
    and "2 * length (join_members (map json_text vs)) + 1 < fuel"
  shows "pelems fuel (join_members (map json_text vs) @ CHR '']'' # rest) = Some (vs, rest)"
  using assms
proof (induction vs arbitrary: fuel)
  case (Cons v vs)
  then obtain n where n: "fuel = Suc n" by (cases fuel) auto
  have v: "reads_back v" using Cons.prems(2) by simp
  show ?case
  proof (cases vs)
    case Nil
    then show ?thesis using v Cons.prems(3) by (simp add: n reads_back_def)
  next
    case (Cons w ws)
    have "pelems n (join_members (map json_text vs) @ CHR '']'' # rest) = Some (vs, rest)"
      using Cons.IH Cons.prems Cons n \<open>vs = w # ws\<close> by simp
    moreover have "json_wf w" using Cons.prems(2) Cons by simp
    moreover have "\<exists>t. join_members (map json_text vs) = json_text w @ t"
      using Cons by (cases ws) auto
    moreover have "pvalue n (json_text v @ CHR '','' # join_members (map json_text vs) @ CHR '']'' # rest) =
        Some (v, CHR '','' # join_members (map json_text vs) @ CHR '']'' # rest)"
      using v Cons.prems(3) Cons by (simp add: n reads_back_def)
    ultimately show ?thesis
      using Cons by (auto simp: n skip_ws_text)
  qed
qed simp

definition member_text :: "member \<Rightarrow> string" where
  "member_text m = (case m of (k, raw, v) \<Rightarrow> json_string k @ '':'' @ json_text v)"

lemma member_text_length: "length (member_text (k, raw, v)) = length (json_chars k) + 3 + length (json_text v)"
  by (simp add: member_text_def json_string_def)

lemma json_text_obj: "json_text (JObj ms) = ''{'' @ join_members (map member_text ms) @ ''}''"
  by (simp add: member_text_def cong: map_cong)

lemma pmembers_first:
  assumes "reads_back v" and "json_wf v" and "2 * length (json_text v) < n" and "ends rest"
  shows "pmembers (Suc n) (member_text (k, raw, v) @ rest) =
    (case rest of
       [] \<Rightarrow> None
     | e # q \<Rightarrow>
         if e = CHR '','' then
           map_option (\<lambda>(ms, q'). ((k, json_text v, v) # ms, q')) (pmembers n (skip_ws q))
         else if e = CHR ''}'' then Some ([(k, json_text v, v)], q) else None)"
proof -
  have "lex_string (length (member_text (k, raw, v) @ rest)) (json_chars k @ CHR 0x22 # CHR '':'' # json_text v @ rest)
      = Some (k, CHR '':'' # json_text v @ rest)"
    by (rule lex_json_chars) (simp add: member_text_def json_string_def)
  moreover have "pvalue n (json_text v @ rest) = Some (v, rest)"
    using assms by (simp add: reads_back_def)
  moreover have "skip_ws rest = rest"
    using assms(4) by (cases rest) (auto simp: ends_def)
  ultimately show ?thesis
    using skip_ws_text [OF assms(2), of rest]
    by (simp add: member_text_def json_string_def Let_def del: lex_string.simps split: list.splits)
qed

lemma pmembers_reads_back:
  assumes "ms \<noteq> []" and "\<And>k raw v. (k, raw, v) \<in> set ms \<Longrightarrow> reads_back v \<and> json_wf v \<and> raw = json_text v"
    and "2 * length (join_members (map member_text ms)) < fuel"
  shows "pmembers fuel (join_members (map member_text ms) @ CHR ''}'' # rest) = Some (ms, rest)"
  using assms
proof (induction ms arbitrary: fuel)
  case (Cons m ms)
  obtain k raw v where m: "m = (k, raw, v)" by (cases m)
  obtain n where n: "fuel = Suc n" using Cons.prems(3) by (cases fuel) auto
  have v: "reads_back v" "json_wf v" "raw = json_text v" using Cons.prems(2) [of k raw v] m by auto
  show ?case
  proof (cases ms)
    case Nil
    then have "2 * length (json_text v) < n"
      using Cons.prems(3) by (simp add: m n member_text_length)
    from pmembers_first [OF v(1,2) this, of "CHR ''}'' # rest" k raw] Nil v(3) show ?thesis by (simp add: m n)
  next
    case ms: (Cons m' ms')
    have len: "2 * length (json_text v) < n" "2 * length (join_members (map member_text ms)) < n"
      using Cons.prems(3) ms by (simp_all add: m n member_text_length)
    have head: "\<exists>t. join_members (map member_text ms) = CHR 0x22 # t"
      using ms by (cases m'; cases ms') (auto simp: member_text_def json_string_def)
    have "pmembers n (join_members (map member_text ms) @ CHR ''}'' # rest) = Some (ms, rest)"
      using Cons.IH [OF _ _ len(2)] Cons.prems(2) ms by auto
    with pmembers_first [OF v(1,2) len(1), of "CHR '','' # join_members (map member_text ms) @ CHR ''}'' # rest" k raw]
      head ms v(3) show ?thesis by (auto simp: m n)
  qed
qed simp

lemma all_read_back: "json_wf v \<Longrightarrow> reads_back v"
proof (induction v rule: json_text.induct)
  case 1
  show ?case
    unfolding reads_back_def
  proof (intro allI impI)
    fix fuel :: nat and rest
    assume "2 * length (json_text JNull) < fuel"
    then show "pvalue fuel (json_text JNull @ rest) = Some (JNull, rest)"
      by (cases fuel) (auto simp: has_prefix_def)
  qed
next
  case (2 b)
  show ?case
    unfolding reads_back_def
  proof (intro allI impI)
    fix fuel :: nat and rest
    assume "2 * length (json_text (JBool b)) < fuel"
    then show "pvalue fuel (json_text (JBool b) @ rest) = Some (JBool b, rest)"
      by (cases fuel) (auto simp: has_prefix_def)
  qed
next
  case (5 vs)
  have IH: "reads_back v \<and> json_wf v" if "v \<in> set vs" for v
    using 5 that by (simp add: list_all_iff)
  show ?case
    unfolding reads_back_def
  proof (intro allI impI)
    fix fuel :: nat and rest
    assume len: "2 * length (json_text (JArr vs)) < fuel"
    then obtain n where n: "fuel = Suc n" by (cases fuel) auto
    show "pvalue fuel (json_text (JArr vs) @ rest) = Some (JArr vs, rest)"
    proof (cases vs)
      case Nil
      then show ?thesis by (simp add: n)
    next
      case (Cons w ws)
      obtain c t where c: "json_text w = c # t" "\<not> json_ws c" "c \<noteq> CHR '']''"
        using text_head [of w] IH [of w] Cons by auto
      have "\<exists>t. join_members (map json_text vs) = json_text w @ t" using Cons by (cases ws) auto
      moreover have "pelems n (join_members (map json_text vs) @ CHR '']'' # rest) = Some (vs, rest)"
        using len IH Cons by (intro pelems_reads_back) (auto simp: n)
      ultimately show ?thesis using c by (auto simp: n skip_ws_def)
    qed
  qed
next
  case (6 ms)
  have IH: "reads_back v \<and> json_wf v \<and> raw = json_text v" if "(k, raw, v) \<in> set ms" for k raw v
    using 6 that by (auto simp: list_all_iff)
  show ?case
    unfolding reads_back_def
  proof (intro allI impI)
    fix fuel :: nat and rest
    assume len: "2 * length (json_text (JObj ms)) < fuel"
    then obtain n where n: "fuel = Suc n" by (cases fuel) auto
    show "pvalue fuel (json_text (JObj ms) @ rest) = Some (JObj ms, rest)"
    proof (cases ms)
      case Nil
      then show ?thesis by (simp add: n)
    next
      case (Cons m' ms')
      have "\<exists>t. join_members (map member_text ms) = CHR 0x22 # t"
        using Cons by (cases m'; cases ms') (auto simp: member_text_def json_string_def)
      moreover have "pmembers n (join_members (map member_text ms) @ CHR ''}'' # rest) = Some (ms, rest)"
        using len IH Cons unfolding json_text_obj by (intro pmembers_reads_back) (auto simp: n)
      ultimately show ?thesis unfolding json_text_obj by (auto simp: n skip_ws_def json_ws_def)
    qed
  qed
qed (auto simp: reads_back_def pvalue_natural pvalue_string)

lemma json_parse_text:
  assumes "json_wf v"
  shows "json_parse (json_text v) = Some v"
proof -
  have "pvalue (Suc (2 * length (json_text v))) (json_text v @ []) = Some (v, [])"
    using all_read_back [OF assms] unfolding reads_back_def by (metis ends_simps(1) lessI)
  then show ?thesis using skip_ws_text [OF assms, of "[]"] by (simp add: json_parse_def)
qed

end
