(* ===== verification/Observation.thy ===== *)
theory Observation
  imports Commands JsonText Startup
begin

text \<open>
  Passive discovery evidence of the MCP child
  (\<open>pkg/mcpclient/protocol_observation.go\<close>, with the details of
  \<open>pkg/healthstate/mcp.go\<close>): what \<open>initialize\<close>, \<open>server/discover\<close> and
  \<open>tools/list\<close> responses showed, bounded, and only of the child and the
  discovery attempt that is current.

  A request that was written gives a token; a response counts only while the
  token's child, epochs and catalog revision are still the current ones.
  \<open>sha256\<close> is the hash of a cursor, \<open>now\<close> the clock, and the random bytes of a
  new child's generation are an argument. The mutex makes each operation atomic.
\<close>

section \<open>State\<close>

record mcp_initialize =
  in_ok :: bool
  in_identity_complete :: bool
  in_limited :: bool
  in_observed_at :: "gotime option"
  in_protocol_version :: string
  in_server_name :: string
  in_server_version :: string
  in_capability_names :: "string list"

record mcp_server_discover =
  sd_ok :: bool
  sd_limited :: bool
  sd_observed_at :: "gotime option"
  sd_supported_versions :: "string list"
  sd_capability_names :: "string list"

record mcp_tools_list =
  tl_ok :: bool
  tl_observed_at :: "gotime option"
  tl_tool_names :: "string list"
  tl_retained_count :: nat
  tl_complete :: bool
  tl_partial :: bool
  tl_limited :: bool

definition no_initialize :: mcp_initialize where
  "no_initialize = \<lparr>in_ok = False, in_identity_complete = False, in_limited = False, in_observed_at = None,
     in_protocol_version = [], in_server_name = [], in_server_version = [], in_capability_names = []\<rparr>"

definition no_server_discover :: mcp_server_discover where
  "no_server_discover = \<lparr>sd_ok = False, sd_limited = False, sd_observed_at = None,
     sd_supported_versions = [], sd_capability_names = []\<rparr>"

definition no_tools :: mcp_tools_list where
  "no_tools = \<lparr>tl_ok = False, tl_observed_at = None, tl_tool_names = [], tl_retained_count = 0,
     tl_complete = False, tl_partial = False, tl_limited = False\<rparr>"

record mcp_details =
  md_channel :: string
  md_transport :: string
  md_child_state :: string
  md_child_generation :: string
  md_initialize_epoch :: "64 word"
  md_server_discover_epoch :: "64 word"
  md_evidence :: string
  md_initialize :: mcp_initialize
  md_server_discover :: "mcp_server_discover option"
  md_tools_list :: mcp_tools_list

type_synonym digest = string

record observation = mcp_details +
  ob_probe :: "probe_state option"
  ob_state :: string
  ob_reason :: string
  ob_observedAt :: "gotime option"
  ob_epochLimited :: bool
  ob_serverDiscoverEpochLimited :: bool
  ob_catalogRevision :: "64 word"
  ob_catalogLimited :: bool
  ob_catalogActive :: bool
  ob_catalogProtocolVersion :: string
  ob_pages :: nat
  ob_nextCursor :: digest
  ob_hasNextCursor :: bool
  ob_seenCursors :: "digest list"

definition no_digest :: digest where
  "no_digest = replicate 32 (CHR 0x00)"

record observation_token =
  tk_generation :: string
  tk_epoch :: "64 word"
  tk_serverDiscoverEpoch :: "64 word"
  tk_revision :: "64 word"
  tk_method :: string
  tk_protocolVersion :: string
  tk_acceptPage :: bool

definition no_token :: observation_token where
  "no_token = \<lparr>tk_generation = [], tk_epoch = 0, tk_serverDiscoverEpoch = 0, tk_revision = 0,
     tk_method = [], tk_protocolVersion = [], tk_acceptPage = False\<rparr>"

text \<open>What the constructor reads of the configuration: \<open>AllowNoMain\<close>, the transport
  kind and that of the main channel's binding.\<close>

record observed_config =
  oc_allowNoMain :: bool
  oc_transportKind :: string
  oc_mainBinding :: "string option"

definition blank_observation :: "probe_state option \<Rightarrow> observation" where
  "blank_observation probe = \<lparr>md_channel = DefaultChannel, md_transport = [], md_child_state = [],
     md_child_generation = [], md_initialize_epoch = 0, md_server_discover_epoch = 0,
     md_evidence = ''same_child'', md_initialize = no_initialize, md_server_discover = None,
     md_tools_list = no_tools, ob_probe = probe, ob_state = ''not_observed'', ob_reason = [],
     ob_observedAt = None, ob_epochLimited = False, ob_serverDiscoverEpochLimited = False,
     ob_catalogRevision = 0, ob_catalogLimited = False, ob_catalogActive = False,
     ob_catalogProtocolVersion = [], ob_pages = 0, ob_nextCursor = no_digest, ob_hasNextCursor = False,
     ob_seenCursors = []\<rparr>"

definition NewProtocolObservation :: "observed_config option \<Rightarrow> probe_state option \<Rightarrow> observation" where
  "NewProtocolObservation cfg probe = (case cfg of
     None \<Rightarrow> (blank_observation probe)\<lparr>ob_state := ''disabled'', md_evidence := ''not_configured''\<rparr>
   | Some c \<Rightarrow>
       if oc_allowNoMain c then
         (blank_observation probe)\<lparr>ob_state := ''disabled'', md_evidence := ''not_configured''\<rparr>
       else
         (let kind = (case oc_mainBinding c of None \<Rightarrow> oc_transportKind c | Some k \<Rightarrow> k);
              kind = (if kind = [] then ''http-streamable'' else kind);
              ob = (blank_observation probe)\<lparr>md_transport := kind\<rparr>
          in if kind = ''stdio'' then ob\<lparr>md_child_state := ''not_started''\<rparr>
             else ob\<lparr>md_evidence := ''unsupported_transport'',
                     ob_reason := ''same_child_evidence_unavailable''\<rparr>))"

section \<open>Snapshots\<close>

record mcp_snapshot =
  ms_status :: string
  ms_state :: string
  ms_reason :: string
  ms_observed_at :: "gotime option"
  ms_limited :: bool
  ms_startup_probe :: "(string \<times> gotime option) option"
  ms_details :: mcp_details

definition startup_probe :: "probe_state \<Rightarrow> string \<times> gotime option" where
  "startup_probe p = (case Probe_Wait (Some p) (Some p) 0 of
     None \<Rightarrow> (''pending'', None)
   | Some (at, err) \<Rightarrow>
       (if err = nil_err then ''succeeded''
        else if IsAuthRequiredProbeError err then ''auth_required''
        else if IsTimeoutProbeError err then ''timed_out''
        else ''failed'', Some at))"

definition Observation_Snapshot :: "observation \<Rightarrow> mcp_snapshot" where
  "Observation_Snapshot ob =
     \<lparr>ms_status =
        (if ob_state ob = ''disabled'' then ''disabled''
         else if ob_state ob \<in> {''initialized'', ''server_discovered'', ''discovered''} then ''ok''
         else if ob_state ob \<in> {''failed'', ''closed''} then ''degraded''
         else ''unknown''),
      ms_state = ob_state ob, ms_reason = ob_reason ob, ms_observed_at = ob_observedAt ob,
      ms_limited = (in_limited (md_initialize ob) \<or> tl_limited (md_tools_list ob) \<or> ob_epochLimited ob \<or>
        ob_serverDiscoverEpochLimited ob \<or>
        (case md_server_discover ob of None \<Rightarrow> False | Some d \<Rightarrow> sd_limited d) \<or> ob_catalogLimited ob),
      ms_startup_probe =
        (if md_transport ob = ''http-streamable'' then map_option startup_probe (ob_probe ob) else None),
      ms_details = mcp_details.truncate ob\<rparr>"

section \<open>Operations on the catalog\<close>

definition resetCatalogLocked :: "observation \<Rightarrow> observation" where
  "resetCatalogLocked ob = ob\<lparr>md_tools_list := no_tools, ob_catalogActive := False,
     ob_catalogProtocolVersion := [], ob_pages := 0, ob_hasNextCursor := False,
     ob_nextCursor := no_digest, ob_seenCursors := []\<rparr>"

definition invalidateCatalogLocked :: "string \<Rightarrow> bool \<Rightarrow> observation \<Rightarrow> observation" where
  "invalidateCatalogLocked reason limited ob = ob\<lparr>ob_catalogActive := False, ob_hasNextCursor := False,
     md_tools_list := (md_tools_list ob)\<lparr>tl_complete := False, tl_partial := True,
       tl_limited := tl_limited (md_tools_list ob) \<or> limited\<rparr>,
     ob_reason := reason\<rparr>"

definition advanceCatalogLocked :: "observation \<Rightarrow> observation \<times> bool" where
  "advanceCatalogLocked ob =
     (if ob_catalogLimited ob \<or> ob_catalogRevision ob = - 1 then
        (invalidateCatalogLocked ''catalog_revision_limit'' True (ob\<lparr>ob_catalogLimited := True\<rparr>), False)
      else (ob\<lparr>ob_catalogRevision := ob_catalogRevision ob + 1\<rparr>, True))"

definition restoreProtocolStateLocked :: "observation \<Rightarrow> observation" where
  "restoreProtocolStateLocked ob =
     (let ob = (case md_server_discover ob of
          Some d \<Rightarrow> if sd_ok d then ob\<lparr>ob_state := ''server_discovered'', ob_observedAt := sd_observed_at d\<rparr>
            else if in_ok (md_initialize ob)
            then ob\<lparr>ob_state := ''initialized'', ob_observedAt := in_observed_at (md_initialize ob)\<rparr>
            else ob\<lparr>ob_state := ''not_observed'', ob_observedAt := None\<rparr>
        | None \<Rightarrow> if in_ok (md_initialize ob)
            then ob\<lparr>ob_state := ''initialized'', ob_observedAt := in_observed_at (md_initialize ob)\<rparr>
            else ob\<lparr>ob_state := ''not_observed'', ob_observedAt := None\<rparr>)
      in ob\<lparr>ob_reason := []\<rparr>)"

section \<open>The child\<close>

definition beginChild :: "nat list \<Rightarrow> observation \<Rightarrow> observation \<times> string" where
  "beginChild random ob =
     (let generation = concat (map (\<lambda>b. [hex_char (b div 16 mod 16), hex_char (b mod 16)]) random) in
      (resetCatalogLocked (ob\<lparr>md_child_generation := generation, md_child_state := ''starting'',
         md_initialize_epoch := 0, md_server_discover_epoch := 0, md_initialize := no_initialize,
         md_server_discover := None, md_tools_list := no_tools, ob_state := ''not_observed'', ob_reason := [],
         ob_observedAt := None, ob_epochLimited := False, ob_serverDiscoverEpochLimited := False,
         ob_catalogLimited := False, ob_catalogRevision := 0\<rparr>), generation))"

definition childStarted :: "string \<Rightarrow> observation \<Rightarrow> observation" where
  "childStarted generation ob =
     (if generation = md_child_generation ob \<and> md_child_state ob = ''starting''
      then ob\<lparr>md_child_state := ''running''\<rparr> else ob)"

definition childClosed :: "string \<Rightarrow> string \<Rightarrow> gotime \<Rightarrow> observation \<Rightarrow> observation" where
  "childClosed generation reason now ob =
     (if generation = [] \<or> generation \<noteq> md_child_generation ob \<or> md_child_state ob = ''closed'' then ob
      else (resetCatalogLocked (ob\<lparr>md_child_state := ''closed'', md_initialize := no_initialize,
             md_server_discover := None\<rparr>))
           \<lparr>ob_state := ''closed'', ob_reason := reason, ob_observedAt := Some now\<rparr>)"

section \<open>Cursors and names\<close>

abbreviation maxObservationResultBytes :: nat where "maxObservationResultBytes \<equiv> 1048576"
abbreviation maxObservationParamsBytes :: nat where "maxObservationParamsBytes \<equiv> 8192"
abbreviation maxObservationCursorBytes :: nat where "maxObservationCursorBytes \<equiv> 4096"
abbreviation maxObservationPages :: nat where "maxObservationPages \<equiv> 32"
abbreviation maxObservationToolNames :: nat where "maxObservationToolNames \<equiv> 256"
abbreviation maxObservationToolBytes :: nat where "maxObservationToolBytes \<equiv> 128"
abbreviation maxObservationNamesJSON :: nat where "maxObservationNamesJSON \<equiv> 16384"
abbreviation maxObservationIdentity :: nat where "maxObservationIdentity \<equiv> 256"
abbreviation maxObservationVersions :: nat where "maxObservationVersions \<equiv> 32"

text \<open>
  Malformed UTF-8 and unpaired surrogate escapes are refused: \<open>encoding/json\<close>
  would replace them.
\<close>

function valid_escapes :: "string \<Rightarrow> bool" where
  "valid_escapes [] = True"
| "valid_escapes (c # s) =
     (if c \<noteq> CHR 0x5C then valid_escapes s
      else case s of
        [] \<Rightarrow> False
      | e # r \<Rightarrow>
          if e \<noteq> CHR ''u'' then valid_escapes r
          else case hex4 r of
            None \<Rightarrow> False
          | Some (v, q) \<Rightarrow>
              if 56320 \<le> v \<and> v \<le> 57343 then False
              else if v < 55296 \<or> 56319 < v then valid_escapes q
              else if take 2 q \<noteq> [CHR 0x5C, CHR ''u''] then False
              else case hex4 (drop 2 q) of
                None \<Rightarrow> False
              | Some (low, t) \<Rightarrow> 56320 \<le> low \<and> low \<le> 57343 \<and> valid_escapes t)"
  by pat_completeness auto
termination
  by (relation "measure length") (auto dest!: hex4_length)

definition validObservationUnicode :: "string \<Rightarrow> bool" where
  "validObservationUnicode raw \<longleftrightarrow> utf8_valid raw \<and> valid_escapes raw"

text \<open>The digest, whether there is a cursor, whether it is valid, whether it is too large.\<close>

type_synonym cursor_result = "digest \<times> bool \<times> bool \<times> bool"

definition decodeObservationCursor :: "(string \<Rightarrow> digest) \<Rightarrow> string \<Rightarrow> cursor_result" where
  "decodeObservationCursor sha256 raw =
     (if raw = [] then (no_digest, False, True, False)
      else if raw = ''null'' \<or> \<not> validObservationUnicode raw then (no_digest, False, False, False)
      else case unmarshal_string raw of
        None \<Rightarrow> (no_digest, False, False, False)
      | Some cursor \<Rightarrow>
          if length cursor > maxObservationCursorBytes then (no_digest, True, False, True)
          else (sha256 cursor, True, True, False))"

definition observationCursor :: "(string \<Rightarrow> digest) \<Rightarrow> string \<Rightarrow> cursor_result" where
  "observationCursor sha256 params =
     (if length params > maxObservationParamsBytes then (no_digest, False, False, True)
      else if params = [] \<or> params = ''null'' then (no_digest, False, True, False)
      else case unmarshal_struct params of
        None \<Rightarrow> (no_digest, False, False, False)
      | Some ms \<Rightarrow> decodeObservationCursor sha256 (raw_value_field ''cursor'' ms))"

text \<open>\<open>slices.Sort\<close> and \<open>slices.Compact\<close>.\<close>

definition sort_compact :: "string list \<Rightarrow> string list" where
  "sort_compact names = remdups_adj (sort names)"

fun fit_names :: "nat \<Rightarrow> nat \<Rightarrow> string list \<Rightarrow> string list \<times> bool" where
  "fit_names i bytes [] = ([], False)"
| "fit_names i bytes (name # names) =
     (let size = length (json_string name) + (if i > 0 then 1 else 0) in
      if bytes + size > maxObservationNamesJSON then ([], True)
      else (let (kept, limited) = fit_names (Suc i) (bytes + size) names in (name # kept, limited)))"

definition boundedObservationNames :: "string list \<Rightarrow> string list \<times> bool" where
  "boundedObservationNames names =
     (let names = sort_compact names; limited = (length names > maxObservationToolNames);
          names = (if limited then take maxObservationToolNames names else names);
          (kept, cut) = fit_names 0 2 names
      in (kept, limited \<or> cut))"

section \<open>Parsing results\<close>

definition is_raw_object :: "string \<Rightarrow> bool" where
  "is_raw_object raw \<longleftrightarrow> (case unmarshal_raw_map raw of Some (Some _) \<Rightarrow> True | _ \<Rightarrow> False)"

abbreviation known_capabilities :: "string list" where
  "known_capabilities \<equiv> [''completions'', ''logging'', ''prompts'', ''resources'', ''tasks'', ''tools'']"

fun capability_names :: "raw_object \<Rightarrow> string list \<Rightarrow> string list option" where
  "capability_names caps [] = Some []"
| "capability_names caps (c # cs) = (case map_of caps c of
     None \<Rightarrow> capability_names caps cs
   | Some raw \<Rightarrow>
       if is_raw_object raw then map_option ((#) c) (capability_names caps cs) else None)"

definition observedCapabilityNames :: "raw_object \<Rightarrow> string list option" where
  "observedCapabilityNames caps = capability_names caps known_capabilities"

type_synonym server_info = "string option \<times> string option"

fun assign_server_info :: "server_info option option \<Rightarrow> json \<Rightarrow> server_info option option" where
  "assign_server_info None _ = None"
| "assign_server_info (Some _) JNull = Some None"
| "assign_server_info (Some p) (JObj ms) =
     (let (n, v) = (case p of None \<Rightarrow> (None, None) | Some q \<Rightarrow> q) in
      case (foldl assign_ptr_string (Some n) (map snd (field_values ''name'' ms)),
            foldl assign_ptr_string (Some v) (map snd (field_values ''version'' ms))) of
        (Some n', Some v') \<Rightarrow> Some (Some (n', v'))
      | _ \<Rightarrow> None)"
| "assign_server_info (Some _) _ = None"

definition bounded_identity :: "string \<Rightarrow> string" where
  "bounded_identity s = (if length s > maxObservationIdentity then [] else s)"

definition parseObservedInitialize :: "string \<Rightarrow> mcp_initialize option" where
  "parseObservedInitialize raw =
     (if \<not> validObservationUnicode raw then None
      else case unmarshal_struct raw of
        None \<Rightarrow> None
      | Some ms \<Rightarrow>
          (case (ptr_string_field ''protocolVersion'' ms,
                 foldl assign_server_info (Some None) (map snd (field_values ''serverInfo'' ms)),
                 raw_map_field ''capabilities'' ms) of
             (Some (Some pv), Some (Some (Some n, Some v)), Some (Some caps)) \<Rightarrow>
               if pv = [] \<or> n = [] then None
               else (case observedCapabilityNames caps of
                  None \<Rightarrow> None
                | Some names \<Rightarrow>
                    (let long = (length pv > maxObservationIdentity \<or> length n > maxObservationIdentity \<or>
                                 length v > maxObservationIdentity)
                     in Some \<lparr>in_ok = True, in_identity_complete = (\<not> long), in_limited = long,
                          in_observed_at = None, in_protocol_version = bounded_identity pv,
                          in_server_name = bounded_identity n, in_server_version = bounded_identity v,
                          in_capability_names = names\<rparr>))
           | _ \<Rightarrow> None))"

text \<open>A list field of strings: a null element of a new list is the empty string.\<close>

fun assign_ptr_strings :: "string list option option \<Rightarrow> json \<Rightarrow> string list option option" where
  "assign_ptr_strings None _ = None"
| "assign_ptr_strings (Some _) JNull = Some None"
| "assign_ptr_strings (Some _) (JArr vs) = map_option Some (string_elems vs)"
| "assign_ptr_strings (Some _) _ = None"

definition complete_result_type :: "string \<Rightarrow> bool" where
  "complete_result_type raw \<longleftrightarrow> raw = [] \<or> unmarshal_ptr_string raw = Some (Some ''complete'')"

text \<open>The retained versions and whether one was too long.\<close>

fun observed_versions :: "string list \<Rightarrow> (string list \<times> bool) option" where
  "observed_versions [] = Some ([], False)"
| "observed_versions (v # vs) =
     (if v = [] \<or> \<not> date_only v then None
      else map_option (\<lambda>(kept, limited).
             if length v > maxObservationIdentity then (kept, True) else (v # kept, limited))
             (observed_versions vs))"

definition retain_versions :: "string \<Rightarrow> string list \<Rightarrow> string list \<times> bool \<Rightarrow> string list \<times> bool" where
  "retain_versions requested offered kl =
     (let (kept, limited) = kl; sorted_kept = sort_compact kept;
          over = (length sorted_kept > maxObservationVersions);
          versions = (if over then take maxObservationVersions sorted_kept else sorted_kept);
          versions = (if requested \<in> set offered \<and> requested \<notin> set versions
                      then sort (versions[length versions - 1 := requested]) else versions)
      in (versions, limited \<or> over))"

definition parseObservedServerDiscover :: "string \<Rightarrow> string \<Rightarrow> mcp_server_discover option" where
  "parseObservedServerDiscover raw requestedVersion =
     (if \<not> validObservationUnicode raw then None
      else case unmarshal_struct raw of
        None \<Rightarrow> None
      | Some ms \<Rightarrow>
          (case (foldl assign_ptr_strings (Some None) (map snd (field_values ''supportedVersions'' ms)),
                 raw_map_field ''capabilities'' ms) of
             (Some (Some versions), Some (Some caps)) \<Rightarrow>
               if versions = [] \<or> \<not> complete_result_type (raw_value_field ''resultType'' ms) then None
               else (case (observedCapabilityNames caps, observed_versions versions) of
                  (Some names, Some kl) \<Rightarrow>
                    (let (retained, limited) = retain_versions requestedVersion versions kl
                     in Some \<lparr>sd_ok = True, sd_limited = limited, sd_observed_at = None,
                          sd_supported_versions = retained, sd_capability_names = names\<rparr>)
                | _ \<Rightarrow> None)
           | _ \<Rightarrow> None))"

record observed_page =
  pg_names :: "string list"
  pg_nextCursor :: digest
  pg_hasNextCursor :: bool
  pg_limited :: bool

fun tool_elems :: "json list \<Rightarrow> string option list option" where
  "tool_elems [] = Some []"
| "tool_elems (v # vs) =
     (case (case v of JObj ms \<Rightarrow> ptr_string_field ''name'' ms | JNull \<Rightarrow> Some None | _ \<Rightarrow> None, tool_elems vs) of
        (Some n, Some ns) \<Rightarrow> Some (n # ns) | _ \<Rightarrow> None)"

fun assign_tools :: "string option list option option \<Rightarrow> json \<Rightarrow> string option list option option" where
  "assign_tools None _ = None"
| "assign_tools (Some _) JNull = Some None"
| "assign_tools (Some _) (JArr vs) = map_option Some (tool_elems vs)"
| "assign_tools (Some _) _ = None"

text \<open>The names that fit and whether one was too long; \<open>None\<close> when a tool has no name.\<close>

fun tool_names :: "string option list \<Rightarrow> (string list \<times> bool) option" where
  "tool_names [] = Some ([], False)"
| "tool_names (t # ts) = (case t of
     None \<Rightarrow> None
   | Some n \<Rightarrow>
       if n = [] then None
       else map_option (\<lambda>(names, limited).
              if length n > maxObservationToolBytes then (names, True) else (n # names, limited))
              (tool_names ts))"

text \<open>The result is the page, or with \<open>Inl\<close> the \<open>limited\<close> flag of a page that is not valid.\<close>

definition parseObservedTools :: "(string \<Rightarrow> digest) \<Rightarrow> string \<Rightarrow> bool + observed_page" where
  "parseObservedTools sha256 raw =
     (if \<not> validObservationUnicode raw then Inl False
      else case unmarshal_struct raw of
        None \<Rightarrow> Inl False
      | Some ms \<Rightarrow>
          (case foldl assign_tools (Some None) (map snd (field_values ''tools'' ms)) of
             Some (Some tools) \<Rightarrow>
               (let (cursor, hasNext, valid, limited) =
                      decodeObservationCursor sha256 (raw_value_field ''nextCursor'' ms)
                in if \<not> valid then Inl limited
                   else case tool_names tools of
                     None \<Rightarrow> Inl False
                   | Some (names, long) \<Rightarrow>
                       (let (names, cut) = boundedObservationNames names
                        in Inr \<lparr>pg_names = names, pg_nextCursor = cursor, pg_hasNextCursor = hasNext,
                                pg_limited = (limited \<or> long \<or> cut)\<rparr>))
           | _ \<Rightarrow> Inl False))"

section \<open>Requests\<close>

definition request_initialize :: "string \<Rightarrow> observation \<Rightarrow> observation \<times> observation_token" where
  "request_initialize generation ob =
     (if md_initialize_epoch ob = - 1 then
        ((resetCatalogLocked (ob\<lparr>ob_epochLimited := True, md_initialize := no_initialize\<lparr>in_limited := True\<rparr>\<rparr>))
           \<lparr>ob_state := ''not_observed'', ob_reason := ''initialize_epoch_limit''\<rparr>, no_token)
      else
        (let ob = (resetCatalogLocked (ob\<lparr>md_initialize_epoch := md_initialize_epoch ob + 1,
               md_initialize := no_initialize, md_server_discover := None\<rparr>))
               \<lparr>ob_state := ''not_observed'', ob_reason := [], ob_observedAt := None\<rparr>
         in (ob, no_token\<lparr>tk_generation := generation, tk_epoch := md_initialize_epoch ob,
               tk_serverDiscoverEpoch := md_server_discover_epoch ob, tk_method := ''initialize''\<rparr>)))"

definition request_discover ::
  "string \<Rightarrow> string \<Rightarrow> string \<Rightarrow> gotime \<Rightarrow> observation \<Rightarrow> observation \<times> observation_token" where
  "request_discover generation params protocolVersion now ob =
     (if protocolVersion = [] \<or> ob_serverDiscoverEpochLimited ob then (ob, no_token)
      else if md_server_discover_epoch ob = - 1 then
        ((restoreProtocolStateLocked (resetCatalogLocked (ob\<lparr>ob_serverDiscoverEpochLimited := True,
            md_server_discover := Some (no_server_discover\<lparr>sd_limited := True\<rparr>)\<rparr>)))
           \<lparr>ob_reason := ''server_discover_epoch_limit'', ob_observedAt := Some now\<rparr>, no_token)
      else
        (let (ob, advanced) = advanceCatalogLocked (ob\<lparr>
               md_server_discover_epoch := md_server_discover_epoch ob + 1, md_server_discover := None\<rparr>)
         in if \<not> advanced then (ob, no_token)
            else
              (let ob = restoreProtocolStateLocked (resetCatalogLocked ob)
               in if length params > maxObservationParamsBytes then
                    (ob\<lparr>md_server_discover := Some (no_server_discover\<lparr>sd_limited := True\<rparr>),
                        ob_reason := ''observation_params_limit'', ob_observedAt := Some now\<rparr>, no_token)
                  else (ob, no_token\<lparr>tk_generation := generation, tk_epoch := md_initialize_epoch ob,
                     tk_serverDiscoverEpoch := md_server_discover_epoch ob,
                     tk_revision := ob_catalogRevision ob, tk_method := ''server/discover'',
                     tk_protocolVersion := protocolVersion\<rparr>))))"

definition advanceCatalogIfFirstLocked :: "bool \<Rightarrow> bool \<Rightarrow> string \<Rightarrow> observation \<Rightarrow> observation \<times> bool" where
  "advanceCatalogIfFirstLocked hasCursor valid protocolVersion ob =
     (if ob_catalogLimited ob then (ob, False)
      else if \<not> hasCursor \<and> valid then
        (let (ob, advanced) = advanceCatalogLocked ob
         in if \<not> advanced then (ob, False)
            else (restoreProtocolStateLocked
                    ((resetCatalogLocked ob)\<lparr>ob_catalogProtocolVersion := protocolVersion\<rparr>), True))
      else (ob, True))"

definition refuse_page :: "string \<Rightarrow> bool \<Rightarrow> observation \<Rightarrow> observation" where
  "refuse_page reason limited ob = fst (advanceCatalogLocked (invalidateCatalogLocked reason limited ob))"

definition request_tools :: "(string \<Rightarrow> digest) \<Rightarrow> string \<Rightarrow> string \<Rightarrow> string \<Rightarrow> observation
    \<Rightarrow> observation \<times> observation_token" where
  "request_tools sha256 generation params protocolVersion ob =
     (let (cursor, hasCursor, valid, limited) = observationCursor sha256 params in
      if \<not> in_ok (md_initialize ob) \<and> protocolVersion = [] then (ob, no_token)
      else
        (let (ob, advanced) = advanceCatalogIfFirstLocked hasCursor valid protocolVersion ob
         in if \<not> advanced then (ob, no_token)
            else
              (let token = no_token\<lparr>tk_generation := generation, tk_epoch := md_initialize_epoch ob,
                     tk_serverDiscoverEpoch := md_server_discover_epoch ob,
                     tk_revision := ob_catalogRevision ob, tk_method := ''tools/list'',
                     tk_protocolVersion := protocolVersion\<rparr>
               in if \<not> valid then (refuse_page ''invalid_tools_cursor'' limited ob, token)
                  else if hasCursor \<and> protocolVersion \<noteq> ob_catalogProtocolVersion ob then
                    (refuse_page ''tools_protocol_mismatch'' False ob, token)
                  else if hasCursor \<and> (\<not> ob_catalogActive ob \<or> \<not> ob_hasNextCursor ob \<or> cursor \<noteq> ob_nextCursor ob) then
                    (refuse_page ''tools_cursor_mismatch'' False ob, token)
                  else
                    (let ob = (if hasCursor then ob
                               else ob\<lparr>ob_catalogActive := True, ob_catalogProtocolVersion := protocolVersion\<rparr>)
                     in if ob_pages ob \<ge> maxObservationPages then
                          (refuse_page ''tools_page_limit'' True ob, token)
                        else (ob, token\<lparr>tk_acceptPage := True\<rparr>)))))"

definition requestWritten :: "(string \<Rightarrow> digest) \<Rightarrow> gotime \<Rightarrow> string \<Rightarrow> rpc_message \<Rightarrow> string \<Rightarrow> observation
    \<Rightarrow> observation \<times> observation_token" where
  "requestWritten sha256 now generation req protocolVersion ob = (case req of
     Request i m params \<Rightarrow>
       if i = NoId \<or> m \<notin> {''initialize'', ''server/discover'', ''tools/list''} then (ob, no_token)
       else if generation = [] \<or> generation \<noteq> md_child_generation ob \<or> md_child_state ob \<noteq> ''running'' \<or>
               ob_epochLimited ob then (ob, no_token)
       else if m = ''initialize'' then request_initialize generation ob
       else if m = ''server/discover'' then request_discover generation params protocolVersion now ob
       else request_tools sha256 generation params protocolVersion ob
   | _ \<Rightarrow> (ob, no_token))"

section \<open>Responses\<close>

definition tokenMatchesLocked :: "observation \<Rightarrow> observation_token \<Rightarrow> bool" where
  "tokenMatchesLocked ob token \<longleftrightarrow>
     tk_generation token \<noteq> [] \<and> tk_generation token = md_child_generation ob \<and>
     md_child_state ob = ''running'' \<and> tk_epoch token = md_initialize_epoch ob \<and> \<not> ob_epochLimited ob \<and>
     (tk_method token = ''initialize'' \<or>
      tk_serverDiscoverEpoch token = md_server_discover_epoch ob \<and> \<not> ob_serverDiscoverEpochLimited ob \<and>
      tk_revision token = ob_catalogRevision ob \<and> \<not> ob_catalogLimited ob)"

definition fail_state :: "string \<Rightarrow> bool \<Rightarrow> gotime \<Rightarrow> observation \<Rightarrow> observation" where
  "fail_state reason limited now ob =
     (let ob = (if limited then restoreProtocolStateLocked ob else ob\<lparr>ob_state := ''failed''\<rparr>)
      in ob\<lparr>ob_reason := reason, ob_observedAt := Some now\<rparr>)"

definition observation_failed :: "gotime \<Rightarrow> observation_token \<Rightarrow> string \<Rightarrow> bool \<Rightarrow> observation \<Rightarrow> observation" where
  "observation_failed now token reason limited ob =
     (if \<not> tokenMatchesLocked ob token then ob
      else if tk_method token = ''tools/list'' then
        (let (ob, advanced) = advanceCatalogLocked (invalidateCatalogLocked reason limited ob)
         in if advanced then fail_state reason limited now ob else ob)
      else if tk_method token = ''server/discover'' then
        (let (ob, advanced) = advanceCatalogLocked (resetCatalogLocked
               (ob\<lparr>md_server_discover := Some (no_server_discover\<lparr>sd_limited := limited\<rparr>)\<rparr>))
         in if advanced then fail_state reason limited now ob else ob)
      else fail_state reason limited now (ob\<lparr>md_initialize := no_initialize\<lparr>in_limited := limited\<rparr>\<rparr>))"

definition publishInitialize :: "gotime \<Rightarrow> observation_token \<Rightarrow> mcp_initialize \<Rightarrow> observation \<Rightarrow> observation" where
  "publishInitialize now token result ob =
     (if \<not> tokenMatchesLocked ob token then ob
      else ob\<lparr>md_initialize := result\<lparr>in_observed_at := Some now\<rparr>, ob_state := ''initialized'',
              ob_reason := [], ob_observedAt := Some now\<rparr>)"

definition publishServerDiscover ::
  "gotime \<Rightarrow> observation_token \<Rightarrow> mcp_server_discover \<Rightarrow> observation \<Rightarrow> observation" where
  "publishServerDiscover now token result ob =
     (if \<not> tokenMatchesLocked ob token then ob
      else ob\<lparr>md_server_discover := Some (result\<lparr>sd_observed_at := Some now\<rparr>),
              ob_state := ''server_discovered'', ob_reason := [], ob_observedAt := Some now\<rparr>)"

definition publishTools :: "gotime \<Rightarrow> observation_token \<Rightarrow> observed_page \<Rightarrow> observation \<Rightarrow> observation" where
  "publishTools now token page ob =
     (if \<not> tokenMatchesLocked ob token \<or> \<not> tk_acceptPage token \<or> \<not> ob_catalogActive ob then ob
      else
        (let (names, limited) = boundedObservationNames (tl_tool_names (md_tools_list ob) @ pg_names page);
             tools = (md_tools_list ob)\<lparr>tl_ok := True, tl_observed_at := Some now, tl_tool_names := names,
               tl_retained_count := length names,
               tl_limited := (tl_limited (md_tools_list ob) \<or> pg_limited page \<or> limited)\<rparr>;
             ob = ob\<lparr>md_tools_list := tools, ob_pages := Suc (ob_pages ob),
               ob_hasNextCursor := pg_hasNextCursor page, ob_nextCursor := pg_nextCursor page,
               ob_state := ''discovered'', ob_reason := [], ob_observedAt := Some now\<rparr>
         in if pg_hasNextCursor page \<and> pg_nextCursor page \<in> set (ob_seenCursors ob) then
              invalidateCatalogLocked ''tools_cursor_cycle'' False ob
            else
              (let complete = (\<not> pg_hasNextCursor page \<and> \<not> tl_limited tools)
               in ob\<lparr>ob_seenCursors := (if pg_hasNextCursor page then pg_nextCursor page # ob_seenCursors ob
                                        else ob_seenCursors ob),
                     md_tools_list := tools\<lparr>tl_complete := complete, tl_partial := \<not> complete\<rparr>,
                     ob_catalogActive := pg_hasNextCursor page\<rparr>)))"

definition observation_response ::
  "(string \<Rightarrow> digest) \<Rightarrow> gotime \<Rightarrow> observation_token \<Rightarrow> rpc_message \<Rightarrow> observation \<Rightarrow> observation" where
  "observation_response sha256 now token resp ob = (case resp of
     Response i err result \<Rightarrow>
       if tk_generation token = [] then ob
       else if err \<noteq> None then observation_failed now token ''mcp_discovery_error'' False ob
       else if length result > maxObservationResultBytes then
         observation_failed now token ''observation_result_limit'' True ob
       else if tk_method token = ''initialize'' then
         (case parseObservedInitialize result of
            None \<Rightarrow> observation_failed now token ''invalid_initialize_result'' False ob
          | Some r \<Rightarrow> publishInitialize now token r ob)
       else if tk_method token = ''server/discover'' then
         (case parseObservedServerDiscover result (tk_protocolVersion token) of
            None \<Rightarrow> observation_failed now token ''invalid_server_discover_result'' False ob
          | Some r \<Rightarrow> publishServerDiscover now token r ob)
       else if tk_method token = ''tools/list'' \<and> tk_acceptPage token then
         (case parseObservedTools sha256 result of
            Inl limited \<Rightarrow> observation_failed now token ''invalid_tools_result'' limited ob
          | Inr page \<Rightarrow> publishTools now token page ob)
       else ob
   | _ \<Rightarrow> ob)"

definition listChanged :: "gotime \<Rightarrow> string \<Rightarrow> observation \<Rightarrow> observation" where
  "listChanged now generation ob =
     (if generation \<noteq> md_child_generation ob \<or> md_child_state ob \<noteq> ''running'' \<or>
         \<not> in_ok (md_initialize ob) \<and>
         (case md_server_discover ob of None \<Rightarrow> True | Some d \<Rightarrow> \<not> sd_ok d) \<and>
         \<not> tl_ok (md_tools_list ob) \<and> \<not> ob_catalogActive ob then ob
      else
        (let (ob, advanced) = advanceCatalogLocked ob
         in if \<not> advanced then ob
            else (restoreProtocolStateLocked
                    ((resetCatalogLocked ob)\<lparr>md_tools_list := no_tools\<lparr>tl_partial := True\<rparr>\<rparr>))
                 \<lparr>ob_reason := ''tools_list_changed'', ob_observedAt := Some now\<rparr>))"

section \<open>Runs\<close>

datatype observation_event =
    BeginChild "nat list"
  | ChildStarted string
  | ChildClosed string string gotime
  | RequestWritten gotime string rpc_message string
  | ResponseRead gotime observation_token rpc_message
  | RequestFailed gotime observation_token string bool
  | ListChanged gotime string

fun observe :: "(string \<Rightarrow> digest) \<Rightarrow> observation \<Rightarrow> observation_event \<Rightarrow> observation" where
  "observe sha256 ob (BeginChild random) = fst (beginChild random ob)"
| "observe sha256 ob (ChildStarted g) = childStarted g ob"
| "observe sha256 ob (ChildClosed g reason now) = childClosed g reason now ob"
| "observe sha256 ob (RequestWritten now g req pv) = fst (requestWritten sha256 now g req pv ob)"
| "observe sha256 ob (ResponseRead now token resp) = observation_response sha256 now token resp ob"
| "observe sha256 ob (RequestFailed now token reason limited) = observation_failed now token reason limited ob"
| "observe sha256 ob (ListChanged now g) = listChanged now g ob"

section \<open>Evidence belongs to the running child\<close>

definition discovered :: "observation \<Rightarrow> bool" where
  "discovered ob \<longleftrightarrow> (case md_server_discover ob of None \<Rightarrow> False | Some d \<Rightarrow> sd_ok d)"

definition json_names_size :: "string list \<Rightarrow> nat" where
  "json_names_size names = 2 + sum_list (map (\<lambda>n. length (json_string n)) names) + (length names - 1)"

definition names_bounded :: "string list \<Rightarrow> bool" where
  "names_bounded names \<longleftrightarrow> sorted names \<and> distinct names \<and> length names \<le> maxObservationToolNames \<and>
     json_names_size names \<le> maxObservationNamesJSON"

definition tools_ok :: "mcp_tools_list \<Rightarrow> bool" where
  "tools_ok t \<longleftrightarrow> names_bounded (tl_tool_names t) \<and> tl_retained_count t = length (tl_tool_names t) \<and>
     (tl_complete t \<longrightarrow> tl_ok t \<and> \<not> tl_limited t \<and> \<not> tl_partial t)"

definition versions_ok :: "string list \<Rightarrow> bool" where
  "versions_ok vs \<longleftrightarrow> sorted vs \<and> distinct vs \<and> length vs \<le> maxObservationVersions \<and> list_all date_only vs"

definition discover_ok :: "observation \<Rightarrow> bool" where
  "discover_ok ob \<longleftrightarrow> (case md_server_discover ob of None \<Rightarrow> True | Some d \<Rightarrow>
     versions_ok (sd_supported_versions d) \<and> (sd_ok d \<longrightarrow> sd_supported_versions d \<noteq> []))"

definition initialize_ok :: "mcp_initialize \<Rightarrow> bool" where
  "initialize_ok i \<longleftrightarrow> length (in_protocol_version i) \<le> maxObservationIdentity \<and>
     length (in_server_name i) \<le> maxObservationIdentity \<and>
     length (in_server_version i) \<le> maxObservationIdentity \<and>
     set (in_capability_names i) \<subseteq> set known_capabilities"

definition live_evidence :: "observation \<Rightarrow> bool" where
  "live_evidence ob \<longleftrightarrow> in_ok (md_initialize ob) \<or> discovered ob \<or> tl_ok (md_tools_list ob) \<or> ob_catalogActive ob"

definition observation_ok :: "observation \<Rightarrow> bool" where
  "observation_ok ob \<longleftrightarrow> (live_evidence ob \<longrightarrow> md_child_state ob = ''running'') \<and>
     tools_ok (md_tools_list ob) \<and> discover_ok ob \<and> initialize_ok (md_initialize ob)"

lemma sorted_distinct_remdups_adj: "sorted (xs :: 'a :: linorder list) \<Longrightarrow> distinct (remdups_adj xs)"
  by (induction xs rule: remdups_adj.induct) (auto simp: order.antisym)

lemma sort_compact_props: "sorted (sort_compact names)" "distinct (sort_compact names)"
  "set (sort_compact names) = set names"
  by (simp_all add: sort_compact_def sorted_remdups_adj sorted_distinct_remdups_adj)

lemma fit_names_prefix: "fst (fit_names i bytes names) = take (length (fst (fit_names i bytes names))) names"
  by (induction i bytes names rule: fit_names.induct) (auto simp: Let_def split: prod.splits)

lemma fit_names_size:
  "bytes \<le> maxObservationNamesJSON \<Longrightarrow>
   bytes + sum_list (map (\<lambda>n. length (json_string n)) (fst (fit_names i bytes names))) +
     (if i = 0 then length (fst (fit_names i bytes names)) - 1 else length (fst (fit_names i bytes names)))
   \<le> maxObservationNamesJSON"
proof (induction i bytes names rule: fit_names.induct)
  case (2 i bytes name names)
  then show ?case by (fastforce simp: Let_def split: prod.splits if_splits)
qed simp

lemma fit_names_all: "\<not> snd (fit_names i bytes names) \<Longrightarrow> fst (fit_names i bytes names) = names"
  by (induction i bytes names rule: fit_names.induct) (auto simp: Let_def split: prod.splits if_splits)

lemma boundedObservationNames_unlimited:
  "\<not> snd (boundedObservationNames names) \<Longrightarrow> fst (boundedObservationNames names) = sort_compact names"
  using fit_names_all [of 0 2 "sort_compact names"]
  by (auto simp: boundedObservationNames_def Let_def split: prod.splits if_splits)

lemma boundedObservationNames_bounded: "names_bounded (fst (boundedObservationNames names))"
proof -
  let ?s = "sort_compact names"
  let ?t = "if length ?s > maxObservationToolNames then take maxObservationToolNames ?s else ?s"
  let ?k = "fst (fit_names 0 2 ?t)"
  have k: "fst (boundedObservationNames names) = ?k"
    by (simp add: boundedObservationNames_def Let_def split: prod.splits)
  have t: "sorted ?t" "distinct ?t" "length ?t \<le> maxObservationToolNames"
    using sort_compact_props [of names] by simp_all
  obtain n where n: "?k = take n ?t" using fit_names_prefix by blast
  have "sorted ?k \<and> distinct ?k \<and> length ?k \<le> maxObservationToolNames"
    unfolding n using t(3) by (simp only: t(1,2) sorted_wrt_take distinct_take length_take) simp
  moreover have "json_names_size ?k \<le> maxObservationNamesJSON"
    using fit_names_size [of 2 0 ?t] by (simp add: json_names_size_def)
  ultimately show ?thesis by (simp add: k names_bounded_def)
qed

lemma date_only_short: "date_only v \<Longrightarrow> length v \<le> maxObservationIdentity \<and> v \<noteq> []"
  by (auto simp: date_only_def)

lemma observed_versions_all:
  "observed_versions vs = Some (kept, limited) \<Longrightarrow> kept = vs \<and> \<not> limited \<and> list_all date_only vs"
  by (induction vs arbitrary: kept limited) (auto dest: date_only_short split: if_splits)

lemma replace_last_ok:
  assumes "sorted v" "distinct v" "v \<noteq> []" "x \<notin> set v"
  shows "sorted (sort (v[length v - 1 := x]))" "distinct (sort (v[length v - 1 := x]))"
    "length (sort (v[length v - 1 := x])) = length v" "x \<in> set (sort (v[length v - 1 := x]))"
    "set (sort (v[length v - 1 := x])) \<subseteq> insert x (set v)"
proof -
  show "x \<in> set (sort (v[length v - 1 := x]))" using assms(3) by (simp add: set_update_memI)
  show "distinct (sort (v[length v - 1 := x]))" using assms by (simp add: distinct_list_update)
qed (simp_all add: set_update_subset_insert)

lemma retain_versions_ok:
  assumes "list_all date_only offered" and "offered \<noteq> []"
    and "retain_versions requested offered (offered, False) = (versions, limited)"
  shows "versions_ok versions \<and> versions \<noteq> [] \<and> set versions \<subseteq> set offered \<and>
         (requested \<in> set offered \<longrightarrow> requested \<in> set versions) \<and>
         (\<not> limited \<longrightarrow> set versions = set offered)"
proof -
  define u where "u = sort_compact offered"
  define v where "v = (if length u > maxObservationVersions then take maxObservationVersions u else u)"
  have u: "sorted u" "distinct u" "set u = set offered" "u \<noteq> []"
    unfolding u_def using sort_compact_props [of offered] assms(2) by (auto simp flip: set_empty)
  then have v: "sorted v" "distinct v" "length v \<le> maxObservationVersions" "v \<noteq> []" "set v \<subseteq> set offered"
    using set_take_subset [of maxObservationVersions u] by (auto simp: v_def)
  have r: "versions = (if requested \<in> set offered \<and> requested \<notin> set v
               then sort (v[length v - 1 := requested]) else v)" "limited = (length u > maxObservationVersions)"
    using assms(3) unfolding retain_versions_def u_def [symmetric] Let_def prod.case v_def by auto
  have all: "\<not> limited \<Longrightarrow> set v = set offered" using u by (simp add: r v_def)
  have "set versions \<subseteq> set offered"
    using v(5) replace_last_ok(5) [OF v(1,2,4), of requested] by (auto simp: r(1))
  then have "list_all date_only versions" using assms(1) by (auto simp: list_all_iff)
  moreover have "versions \<noteq> []"
    using v(4) replace_last_ok(3) [OF v(1,2,4), of requested] unfolding r(1) by (metis length_0_conv)
  ultimately show ?thesis
    using v all replace_last_ok [OF v(1,2,4), of requested] \<open>set versions \<subseteq> set offered\<close>
    by (cases "requested \<in> set offered \<and> requested \<notin> set v") (auto simp: r(1) versions_ok_def)
qed

lemma capability_names_known: "capability_names caps cs = Some ns \<Longrightarrow> set ns \<subseteq> set cs"
  by (induction cs arbitrary: ns) (auto split: option.splits if_splits)

lemma parseObservedInitialize_ok: "parseObservedInitialize raw = Some i \<Longrightarrow> initialize_ok i \<and> in_ok i"
proof -
  assume "parseObservedInitialize raw = Some i"
  then obtain caps names where "observedCapabilityNames caps = Some names" "in_capability_names i = names"
      "in_ok i" "\<exists>a b c. in_protocol_version i = bounded_identity a \<and> in_server_name i = bounded_identity b \<and>
        in_server_version i = bounded_identity c"
    by (fastforce simp: parseObservedInitialize_def Let_def split: if_splits option.splits prod.splits)
  then show ?thesis
    using capability_names_known [of caps known_capabilities names]
    by (auto simp: observedCapabilityNames_def initialize_ok_def bounded_identity_def)
qed

lemma parseObservedServerDiscover_ok:
  assumes "parseObservedServerDiscover raw requested = Some d"
  shows "versions_ok (sd_supported_versions d) \<and> sd_supported_versions d \<noteq> []"
proof -
  obtain versions kl retained limited where
    kl: "observed_versions versions = Some kl" "versions \<noteq> []"
      "retain_versions requested versions kl = (retained, limited)" "sd_supported_versions d = retained"
    using assms by (auto simp: parseObservedServerDiscover_def Let_def split: if_splits option.splits prod.splits)
  moreover have "kl = (versions, False) \<and> list_all date_only versions"
    using kl(1) observed_versions_all by (metis (full_types) prod.exhaust)
  ultimately show ?thesis using retain_versions_ok by metis
qed

subsection \<open>Preservation\<close>

lemmas ok_defs = observation_ok_def live_evidence_def discovered_def discover_ok_def tools_ok_def

lemma blank_parts [simp]:
  "tools_ok no_tools" "initialize_ok no_initialize" "names_bounded []" "versions_ok []"
  "initialize_ok (no_initialize\<lparr>in_limited := l\<rparr>)" "\<not> tl_ok no_tools" "\<not> in_ok no_initialize"
  "\<not> sd_ok no_server_discover" "sd_supported_versions no_server_discover = []"
  by (simp_all add: tools_ok_def no_tools_def initialize_ok_def no_initialize_def names_bounded_def
      json_names_size_def versions_ok_def no_server_discover_def)

lemma resetCatalog_ok: "observation_ok ob \<Longrightarrow> observation_ok (resetCatalogLocked ob)"
  by (auto simp: resetCatalogLocked_def observation_ok_def live_evidence_def discovered_def discover_ok_def)

lemma invalidateCatalog_ok: "observation_ok ob \<Longrightarrow> observation_ok (invalidateCatalogLocked r l ob)"
  by (auto simp: invalidateCatalogLocked_def ok_defs)

lemma advanceCatalog_ok: "observation_ok ob \<Longrightarrow> observation_ok (fst (advanceCatalogLocked ob))"
  by (auto simp: advanceCatalogLocked_def ok_defs invalidateCatalogLocked_def)

lemma restoreProtocolState_ok [simp]: "observation_ok (restoreProtocolStateLocked ob) = observation_ok ob"
  by (auto simp: restoreProtocolStateLocked_def ok_defs Let_def split: option.splits)

lemma labels_ok [simp]:
  "observation_ok (ob\<lparr>ob_state := x\<rparr>) = observation_ok ob" "observation_ok (ob\<lparr>ob_reason := x\<rparr>) = observation_ok ob"
  "observation_ok (ob\<lparr>ob_observedAt := t\<rparr>) = observation_ok ob"
  "observation_ok (ob\<lparr>ob_catalogProtocolVersion := x\<rparr>) = observation_ok ob"
  "observation_ok (ob\<lparr>ob_epochLimited := b\<rparr>) = observation_ok ob"
  "observation_ok (ob\<lparr>ob_serverDiscoverEpochLimited := b\<rparr>) = observation_ok ob"
  "observation_ok (ob\<lparr>md_initialize_epoch := n\<rparr>) = observation_ok ob"
  "observation_ok (ob\<lparr>md_server_discover_epoch := n\<rparr>) = observation_ok ob"
  by (simp_all add: ok_defs)

lemma forget_ok:
  "observation_ok ob \<Longrightarrow> observation_ok (ob\<lparr>md_initialize := no_initialize\<lparr>in_limited := l\<rparr>\<rparr>)"
  "observation_ok ob \<Longrightarrow> observation_ok (ob\<lparr>md_initialize := no_initialize\<rparr>)"
  "observation_ok ob \<Longrightarrow> observation_ok (ob\<lparr>md_server_discover := None\<rparr>)"
  "observation_ok ob \<Longrightarrow> observation_ok (ob\<lparr>md_server_discover := Some (no_server_discover\<lparr>sd_limited := l\<rparr>)\<rparr>)"
  by (auto simp: ok_defs no_initialize_def no_server_discover_def initialize_ok_def)

lemma fail_state_ok: "observation_ok ob \<Longrightarrow> observation_ok (fail_state r l t ob)"
  by (simp add: fail_state_def Let_def)

lemma refuse_page_ok: "observation_ok ob \<Longrightarrow> observation_ok (refuse_page r l ob)"
  by (simp add: refuse_page_def advanceCatalog_ok invalidateCatalog_ok)

lemma advanceCatalogIfFirst_ok:
  "observation_ok ob \<Longrightarrow> observation_ok (fst (advanceCatalogIfFirstLocked c v pv ob))"
  using advanceCatalog_ok [of ob]
  by (auto simp: advanceCatalogIfFirstLocked_def resetCatalog_ok split: prod.splits)

lemma advance_keeps_child: "md_child_state (fst (advanceCatalogLocked ob)) = md_child_state ob"
  by (simp add: advanceCatalogLocked_def invalidateCatalogLocked_def)

lemma advance_first_keeps_child:
  "md_child_state (fst (advanceCatalogIfFirstLocked c v pv ob)) = md_child_state ob"
  using advance_keeps_child [of ob]
  by (auto simp: advanceCatalogIfFirstLocked_def restoreProtocolStateLocked_def resetCatalogLocked_def Let_def
      split: prod.splits option.splits)

lemma activate_ok:
  "observation_ok ob \<Longrightarrow> md_child_state ob = ''running'' \<Longrightarrow> observation_ok (ob\<lparr>ob_catalogActive := True\<rparr>)"
  by (auto simp: ok_defs)

lemma request_initialize_ok: "observation_ok ob \<Longrightarrow> observation_ok (fst (request_initialize g ob))"
  by (simp add: request_initialize_def Let_def resetCatalog_ok forget_ok)

lemma request_discover_ok: "observation_ok ob \<Longrightarrow> observation_ok (fst (request_discover g ps pv t ob))"
  using advanceCatalog_ok [of "ob\<lparr>md_server_discover_epoch := md_server_discover_epoch ob + 1,
      md_server_discover := None\<rparr>"]
  by (auto simp: request_discover_def Let_def resetCatalog_ok forget_ok split: prod.splits)

lemma request_tools_ok:
  assumes "observation_ok ob" and "md_child_state ob = ''running''"
  shows "observation_ok (fst (request_tools sha256 g ps pv ob))"
proof -
  obtain cursor hasCursor valid limited where c: "observationCursor sha256 ps = (cursor, hasCursor, valid, limited)"
    by (metis prod_cases4)
  obtain ob' a where a: "advanceCatalogIfFirstLocked hasCursor valid pv ob = (ob', a)" by fastforce
  have "observation_ok ob'" "md_child_state ob' = ''running''"
    using advanceCatalogIfFirst_ok [OF assms(1), of hasCursor valid pv]
      advance_first_keeps_child [of hasCursor valid pv ob] a assms(2) by simp_all
  moreover have "observation_ok (ob'\<lparr>ob_catalogActive := True, ob_catalogProtocolVersion := pv\<rparr>)"
    using activate_ok [of ob'] calculation by simp
  ultimately show ?thesis using assms(1) by (simp add: request_tools_def c a refuse_page_ok Let_def)
qed

lemma requestWritten_ok: "observation_ok ob \<Longrightarrow> observation_ok (fst (requestWritten sha256 t g req pv ob))"
  by (auto simp: requestWritten_def request_initialize_ok request_discover_ok request_tools_ok
      split: rpc_message.splits)

lemma observation_failed_ok: "observation_ok ob \<Longrightarrow> observation_ok (observation_failed t token r l ob)"
  using advanceCatalog_ok [OF invalidateCatalog_ok [of ob r l]]
    advanceCatalog_ok [OF resetCatalog_ok [OF forget_ok(4) [of ob l]]]
  by (auto simp: observation_failed_def fail_state_ok forget_ok split: prod.splits)

lemma publishInitialize_ok:
  "observation_ok ob \<Longrightarrow> initialize_ok r \<Longrightarrow> observation_ok (publishInitialize t token r ob)"
  by (auto simp: publishInitialize_def ok_defs initialize_ok_def tokenMatchesLocked_def)

lemma publishServerDiscover_ok:
  "observation_ok ob \<Longrightarrow> versions_ok (sd_supported_versions r) \<Longrightarrow> sd_supported_versions r \<noteq> [] \<Longrightarrow>
   observation_ok (publishServerDiscover t token r ob)"
  by (auto simp: publishServerDiscover_def ok_defs tokenMatchesLocked_def)

lemma publishTools_ok:
  assumes "observation_ok ob"
  shows "observation_ok (publishTools t token page ob)"
proof (cases "tokenMatchesLocked ob token \<and> tk_acceptPage token \<and> ob_catalogActive ob")
  case True
  then have "md_child_state ob = ''running''" by (simp add: tokenMatchesLocked_def)
  moreover have "names_bounded (fst (boundedObservationNames (tl_tool_names (md_tools_list ob) @ pg_names page)))"
    by (rule boundedObservationNames_bounded)
  ultimately show ?thesis
    using True assms by (auto simp: publishTools_def Let_def ok_defs invalidateCatalogLocked_def split: prod.splits)
qed (auto simp: publishTools_def assms)

lemma observation_response_ok: "observation_ok ob \<Longrightarrow> observation_ok (observation_response sha256 t token resp ob)"
  by (auto simp: observation_response_def observation_failed_ok publishTools_ok
      intro!: publishInitialize_ok publishServerDiscover_ok
      dest!: parseObservedInitialize_ok parseObservedServerDiscover_ok
      split: rpc_message.splits option.splits sum.splits)

lemma listChanged_ok: "observation_ok ob \<Longrightarrow> observation_ok (listChanged t g ob)"
proof -
  assume ok: "observation_ok ob"
  obtain ob' a where a: "advanceCatalogLocked ob = (ob', a)" by fastforce
  then have "observation_ok ob'" using advanceCatalog_ok [OF ok] by simp
  moreover from this have "observation_ok ((resetCatalogLocked ob')\<lparr>md_tools_list := no_tools\<lparr>tl_partial := True\<rparr>\<rparr>)"
    by (auto simp: resetCatalogLocked_def observation_ok_def live_evidence_def discovered_def discover_ok_def
        tools_ok_def no_tools_def)
  ultimately show ?thesis using ok by (simp add: listChanged_def a)
qed

lemma child_ok:
  "observation_ok ob \<Longrightarrow> observation_ok (childStarted g ob)"
  "observation_ok ob \<Longrightarrow> observation_ok (childClosed g r t ob)"
  "observation_ok (fst (beginChild random ob))"
proof -
  show "observation_ok ob \<Longrightarrow> observation_ok (childStarted g ob)"
    by (auto simp: childStarted_def ok_defs)
qed (auto simp: childClosed_def beginChild_def resetCatalogLocked_def observation_ok_def live_evidence_def
      discovered_def discover_ok_def Let_def)

interpretation observation_inv: invariant_system "observe sha256" observation_ok
proof
  fix ob ev
  assume "observation_ok ob"
  then show "observation_ok (observe sha256 ob ev)"
    by (cases ev) (simp_all add: child_ok requestWritten_ok observation_response_ok observation_failed_ok listChanged_ok)
qed

section \<open>Superseded tokens\<close>

text \<open>Within one child the epochs and the catalog revision only grow.\<close>

definition progress_le :: "observation \<Rightarrow> observation \<Rightarrow> bool" where
  "progress_le ob ob' \<longleftrightarrow> md_initialize_epoch ob \<le> md_initialize_epoch ob' \<and>
     md_server_discover_epoch ob \<le> md_server_discover_epoch ob' \<and> ob_catalogRevision ob \<le> ob_catalogRevision ob'"

definition token_superseded :: "observation \<Rightarrow> observation_token \<Rightarrow> bool" where
  "token_superseded ob token \<longleftrightarrow> tk_epoch token < md_initialize_epoch ob \<or>
     tk_method token \<noteq> ''initialize'' \<and>
     (tk_serverDiscoverEpoch token < md_server_discover_epoch ob \<or> tk_revision token < ob_catalogRevision ob)"

fun observe_child :: "(string \<Rightarrow> digest) \<Rightarrow> observation \<Rightarrow> observation_event \<Rightarrow> observation" where
  "observe_child sha256 ob (BeginChild random) = ob"
| "observe_child sha256 ob ev = observe sha256 ob ev"

lemma progress_refl [simp]: "progress_le ob ob"
  by (simp add: progress_le_def)

lemma progress_trans: "progress_le a b \<Longrightarrow> progress_le b c \<Longrightarrow> progress_le a c"
  by (auto simp: progress_le_def)

lemma counters_simps [simp]:
  "md_initialize_epoch (resetCatalogLocked ob) = md_initialize_epoch ob"
  "md_server_discover_epoch (resetCatalogLocked ob) = md_server_discover_epoch ob"
  "ob_catalogRevision (resetCatalogLocked ob) = ob_catalogRevision ob"
  "md_initialize_epoch (invalidateCatalogLocked r l ob) = md_initialize_epoch ob"
  "md_server_discover_epoch (invalidateCatalogLocked r l ob) = md_server_discover_epoch ob"
  "ob_catalogRevision (invalidateCatalogLocked r l ob) = ob_catalogRevision ob"
  "md_initialize_epoch (restoreProtocolStateLocked ob) = md_initialize_epoch ob"
  "md_server_discover_epoch (restoreProtocolStateLocked ob) = md_server_discover_epoch ob"
  "ob_catalogRevision (restoreProtocolStateLocked ob) = ob_catalogRevision ob"
  "md_initialize_epoch (fail_state r l t ob) = md_initialize_epoch ob"
  "md_server_discover_epoch (fail_state r l t ob) = md_server_discover_epoch ob"
  "ob_catalogRevision (fail_state r l t ob) = ob_catalogRevision ob"
  by (simp_all add: resetCatalogLocked_def invalidateCatalogLocked_def restoreProtocolStateLocked_def
      fail_state_def Let_def split: option.splits)

lemma advance_progress: "advanceCatalogLocked ob = (ob', a) \<Longrightarrow> progress_le ob ob'"
  by (auto simp: advanceCatalogLocked_def progress_le_def word_inc_le split: if_splits)

lemma refuse_progress: "progress_le ob (refuse_page r l ob)"
  using advance_progress [of "invalidateCatalogLocked r l ob"]
  by (cases "advanceCatalogLocked (invalidateCatalogLocked r l ob)") (simp add: refuse_page_def progress_le_def)

lemma advance_first_progress: "advanceCatalogIfFirstLocked c v pv ob = (ob', a) \<Longrightarrow> progress_le ob ob'"
  using advance_progress [of ob]
  by (auto simp: advanceCatalogIfFirstLocked_def progress_le_def split: if_splits prod.splits)

lemma request_tools_progress: "progress_le ob (fst (request_tools sha256 g ps pv ob))"
proof -
  obtain cursor hasCursor valid limited where c: "observationCursor sha256 ps = (cursor, hasCursor, valid, limited)"
    by (metis prod_cases4)
  obtain ob' a where a: "advanceCatalogIfFirstLocked hasCursor valid pv ob = (ob', a)" by fastforce
  let ?ob = "ob'\<lparr>ob_catalogActive := True, ob_catalogProtocolVersion := pv\<rparr>"
  have "progress_le ob ob'" using a by (rule advance_first_progress)
  moreover from this have "progress_le ob (refuse_page r l ob')" "progress_le ob ?ob"
      "progress_le ob (refuse_page r l ?ob)" for r l
    using progress_trans [OF _ refuse_progress] by (auto simp: progress_le_def)
  ultimately show ?thesis by (simp add: request_tools_def c a Let_def)
qed

lemma requestWritten_progress: "progress_le ob (fst (requestWritten sha256 t g req pv ob))"
proof -
  have "progress_le ob (fst (request_discover g ps pv t ob))" for ps
    using advance_progress [of "ob\<lparr>md_server_discover_epoch := md_server_discover_epoch ob + 1,
        md_server_discover := None\<rparr>"]
    by (auto simp: request_discover_def Let_def progress_le_def intro: order.trans [OF word_inc_le] split: prod.splits)
  moreover have "progress_le ob (fst (request_initialize g ob))"
    by (simp add: request_initialize_def Let_def progress_le_def word_inc_le)
  ultimately show ?thesis
    by (auto simp: requestWritten_def request_tools_progress split: rpc_message.splits)
qed

lemma failed_progress: "progress_le ob (observation_failed t token r l ob)"
  using advance_progress [of "invalidateCatalogLocked r l ob"]
    advance_progress [of "resetCatalogLocked (ob\<lparr>md_server_discover := Some (no_server_discover\<lparr>sd_limited := l\<rparr>)\<rparr>)"]
  by (auto simp: observation_failed_def progress_le_def split: prod.splits)

lemma response_progress: "progress_le ob (observation_response sha256 t token resp ob)"
proof -
  have "progress_le ob (publishTools t token page ob)" for page
    by (auto simp: publishTools_def Let_def progress_le_def split: prod.splits)
  moreover have "progress_le ob (publishInitialize t token i ob)" "progress_le ob (publishServerDiscover t token d ob)"
    for i d by (simp_all add: publishInitialize_def publishServerDiscover_def progress_le_def)
  ultimately show ?thesis
    by (auto simp: observation_response_def failed_progress split: rpc_message.splits option.splits sum.splits)
qed

lemma listChanged_progress: "progress_le ob (listChanged t g ob)"
  using advance_progress [of ob] by (auto simp: listChanged_def progress_le_def split: prod.splits)

interpretation child_progress: monotone_system "observe_child sha256" progress_le
proof
  fix ob ev
  show "progress_le ob (observe_child sha256 ob ev)"
    by (cases ev) (simp_all add: requestWritten_progress response_progress failed_progress listChanged_progress,
      simp_all add: childStarted_def childClosed_def progress_le_def)
qed (use progress_trans in simp_all)

lemma superseded_mono: "token_superseded ob token \<Longrightarrow> progress_le ob ob' \<Longrightarrow> token_superseded ob' token"
  by (auto simp: token_superseded_def progress_le_def)

lemma superseded_no_match: "token_superseded ob token \<Longrightarrow> \<not> tokenMatchesLocked ob token"
  by (auto simp: token_superseded_def tokenMatchesLocked_def)

lemma no_match_ignored:
  "\<not> tokenMatchesLocked ob token \<Longrightarrow> observation_response sha256 t token resp ob = ob"
  "\<not> tokenMatchesLocked ob token \<Longrightarrow> observation_failed t token r l ob = ob"
  by (auto simp: observation_response_def observation_failed_def publishTools_def publishInitialize_def
      publishServerDiscover_def split: rpc_message.splits option.splits sum.splits)

section \<open>A complete catalog\<close>

fun publish_pages :: "observation \<Rightarrow> (gotime \<times> observation_token \<times> observed_page) list \<Rightarrow> observation" where
  "publish_pages ob [] = ob"
| "publish_pages ob ((now, token, page) # ps) = publish_pages (publishTools now token page ob) ps"

definition page_accepted :: "observation \<Rightarrow> observation_token \<Rightarrow> bool" where
  "page_accepted ob token \<longleftrightarrow> tokenMatchesLocked ob token \<and> tk_acceptPage token \<and> ob_catalogActive ob"

fun accepted_names :: "observation \<Rightarrow> (gotime \<times> observation_token \<times> observed_page) list \<Rightarrow> string list" where
  "accepted_names ob [] = []"
| "accepted_names ob ((now, token, page) # ps) =
     (if page_accepted ob token then pg_names page else []) @ accepted_names (publishTools now token page ob) ps"

lemma sort_compact_eq: "set a = set b \<Longrightarrow> sort_compact a = sort_compact b"
  by (metis sort_compact_props sorted_distinct_set_unique)

lemma publishTools_names:
  assumes "\<not> tl_limited (md_tools_list (publishTools now token page ob))"
    and "tl_tool_names (md_tools_list ob) = sort_compact ns"
  shows "tl_tool_names (md_tools_list (publishTools now token page ob)) =
           sort_compact (ns @ (if page_accepted ob token then pg_names page else [])) \<and>
         \<not> tl_limited (md_tools_list ob)"
proof (cases "page_accepted ob token")
  case True
  let ?n = "tl_tool_names (md_tools_list ob) @ pg_names page"
  have "\<not> snd (boundedObservationNames ?n)" "\<not> tl_limited (md_tools_list ob)"
    "tl_tool_names (md_tools_list (publishTools now token page ob)) = fst (boundedObservationNames ?n)"
    using True assms(1)
    by (auto simp: page_accepted_def publishTools_def invalidateCatalogLocked_def Let_def split: prod.splits if_splits)
  then show ?thesis
    using True boundedObservationNames_unlimited [of ?n] sort_compact_eq [of ?n "ns @ pg_names page"]
    by (simp add: assms(2) sort_compact_props(3))
next
  case False
  then have "publishTools now token page ob = ob" by (auto simp: page_accepted_def publishTools_def)
  then show ?thesis using assms False by simp
qed

lemma publish_pages_limited:
  "tl_limited (md_tools_list ob) \<Longrightarrow> tl_limited (md_tools_list (publish_pages ob ps))"
  by (induction ob ps rule: publish_pages.induct)
     (auto simp: publishTools_def invalidateCatalogLocked_def Let_def split: prod.splits)

lemma publish_pages_names:
  "\<not> tl_limited (md_tools_list (publish_pages ob ps)) \<Longrightarrow> tl_tool_names (md_tools_list ob) = sort_compact ns \<Longrightarrow>
   tl_tool_names (md_tools_list (publish_pages ob ps)) = sort_compact (ns @ accepted_names ob ps)"
proof (induction ob ps arbitrary: ns rule: publish_pages.induct)
  case (2 ob now token page ps)
  have "\<not> tl_limited (md_tools_list (publishTools now token page ob))"
    using 2(2) publish_pages_limited by auto
  from 2(1) [OF _ conjunct1 [OF publishTools_names [OF this 2(3)]]] 2(2) show ?case by simp
qed simp

lemma observation_bounded_start: "observation_ok (NewProtocolObservation cfg probe)"
  by (auto simp: NewProtocolObservation_def blank_observation_def observation_ok_def live_evidence_def
      discovered_def discover_ok_def Let_def split: option.splits)

section \<open>Properties\<close>

text \<open>
  Passive evidence about the MCP child is bounded and never outlives the
  child. After any sequence of events, a successful initialize, discovery or
  tool list is only held while the child runs; the tool names are sorted,
  distinct, at most 256 and at most 16 KiB as JSON; the versions are sorted,
  distinct dates, at most 32; identity strings are at most 256 bytes; and a
  catalog that is called complete is neither limited nor partial.
\<close>

theorem observation_bounded_and_live:
  "observation_ok (foldl (observe sha256) (NewProtocolObservation cfg probe) events)"
  using observation_bounded_start by (rule observation_inv.inv_run)

text \<open>
  A response that comes too late is ignored for the rest of the child. Once a
  later initialize (or, for discovery and tool lists, a later discovery or
  catalog) has superseded the token of a request, no sequence of events of that
  child makes the token count again: its response and its failure leave the
  observation as it is.
\<close>

theorem superseded_response_ignored:
  assumes "token_superseded ob token"
    and "list_all (\<lambda>ev. \<forall>random. ev \<noteq> BeginChild random) events"
    and "ob' = foldl (observe sha256) ob events"
  shows "observation_response sha256 now token resp ob' = ob' \<and>
         observation_failed now token reason limited ob' = ob'"
proof -
  have "foldl (observe sha256) ob events = foldl (observe_child sha256) ob events"
    using assms(2)
  proof (induction events arbitrary: ob)
    case (Cons ev evs)
    then show ?case by (cases ev) simp_all
  qed simp
  then have "token_superseded ob' token"
    using superseded_mono [OF assms(1) child_progress.below_run] assms(3) by simp
  then show ?thesis using no_match_ignored superseded_no_match by blast
qed

definition example_running :: observation where
  "example_running = foldl (observe (\<lambda>s. s))
     (NewProtocolObservation (Some \<lparr>oc_allowNoMain = False, oc_transportKind = ''stdio'', oc_mainBinding = None\<rparr>) None)
     [BeginChild [171], ChildStarted ''ab'', RequestWritten 1 ''ab'' (Request (IntId 1) ''initialize'' []) []]"

lemma example_running_epoch: "md_initialize_epoch example_running = 1" "md_child_state example_running = ''running''"
    "md_child_generation example_running = ''ab''"
  by code_simp+

theorem superseded_response_ignored_witness:
  "observation_response (\<lambda>s. s) 5 (no_token\<lparr>tk_generation := ''ab'', tk_method := ''initialize''\<rparr>)
     (Response (IntId 1) None ''{}'') example_running = example_running"
  using superseded_response_ignored [of example_running "no_token\<lparr>tk_generation := ''ab'', tk_method := ''initialize''\<rparr>"
      "[]" example_running "\<lambda>s. s"]
  by (simp add: token_superseded_def example_running_epoch no_token_def)

text \<open>
  A tool catalog that is reported complete is exactly what the server
  listed: after any pages from an empty catalog, the tool names are the sorted
  set of the names on the accepted pages, with nothing lost and nothing added.
\<close>

theorem complete_catalog_exact:
  assumes "md_tools_list ob = no_tools"
    and "tools_ok (md_tools_list (publish_pages ob pages))"
    and "tl_complete (md_tools_list (publish_pages ob pages))"
  shows "set (tl_tool_names (md_tools_list (publish_pages ob pages))) = set (accepted_names ob pages) \<and>
         sorted (tl_tool_names (md_tools_list (publish_pages ob pages))) \<and>
         distinct (tl_tool_names (md_tools_list (publish_pages ob pages)))"
proof -
  have "tl_tool_names (md_tools_list (publish_pages ob pages)) = sort_compact (accepted_names ob pages)"
    using publish_pages_names [of ob pages "[]"] assms
    by (simp add: tools_ok_def no_tools_def sort_compact_def)
  then show ?thesis by (simp add: sort_compact_props)
qed

definition example_catalog :: "observation \<times> observation_token" where
  "example_catalog = requestWritten (\<lambda>s. s) 2 ''ab'' (Request (IntId 2) ''tools/list'' []) ''2026-07-28'' example_running"

definition example_page :: observed_page where
  "example_page = \<lparr>pg_names = [''echo''], pg_nextCursor = no_digest, pg_hasNextCursor = False, pg_limited = False\<rparr>"

lemma example_catalog_steps:
  "md_tools_list (fst example_catalog) = no_tools"
  "tl_complete (md_tools_list (publish_pages (fst example_catalog) [(3, snd example_catalog, example_page)]))"
  "accepted_names (fst example_catalog) [(3, snd example_catalog, example_page)] = [''echo'']"
  by code_simp+

lemma publish_pages_ok: "observation_ok ob \<Longrightarrow> observation_ok (publish_pages ob ps)"
  by (induction ob ps rule: publish_pages.induct) (simp_all add: publishTools_ok)

lemma example_running_ok: "observation_ok example_running"
  unfolding example_running_def using observation_bounded_start by (intro observation_inv.inv_run) simp

theorem complete_catalog_exact_witness:
  "set (tl_tool_names (md_tools_list
     (publish_pages (fst example_catalog) [(3, snd example_catalog, example_page)]))) = {''echo''}"
proof -
  let ?ps = "[(3, snd example_catalog, example_page)]"
  have "observation_ok (publish_pages (fst example_catalog) ?ps)"
    unfolding example_catalog_def by (intro publish_pages_ok requestWritten_ok example_running_ok)
  then have "tools_ok (md_tools_list (publish_pages (fst example_catalog) ?ps))"
    by (simp add: observation_ok_def)
  from complete_catalog_exact [OF example_catalog_steps(1) this example_catalog_steps(2)]
  show ?thesis by (simp add: example_catalog_steps(3) del: accepted_names.simps publish_pages.simps)
qed

end
