(* ===== verification/Serialized.thy ===== *)
theory Serialized
  imports Forwarding Observation
begin

text \<open>
  The serialized forwarding transport
  (\<open>pkg/mcpclient/serialized_forwarding_transport.go\<close>): one request lifecycle at
  a time on a shared connection. A request that misses its response deadline is
  retired: its response identifier stays as a tombstone, later readers discard
  the late response, and a caller that uses the same identifier again gets a
  private alias on the wire. For stdio the transport also guards the MCP
  initialization handshake.

  A call is split at its I/O on the underlying connection: \<open>write_begin\<close> and
  \<open>write_end\<close> around the physical write, \<open>read_end\<close> after a physical read,
  \<open>connect_begin\<close> and \<open>connect_end\<close> around the physical connect. Between two I/O
  operations a call is one action; the actions of all connections interleave
  (\<open>serial_step\<close>). A call that waits for the lifecycle slot or for an
  unfinished write has the value \<open>None\<close>.
\<close>

section \<open>State\<close>

record serial_transport =
  st_slot :: bool                    \<comment> \<open>the lifecycle slot is taken\<close>
  st_retireOnDeadline :: bool
  st_ensureInitialized :: bool
  st_aliasRetiredIDs :: bool
  st_requireInitialization :: bool
  st_observation :: "observation option"
  st_generation :: "64 word"
  st_generationKnown :: bool
  st_retiredResponseIDs :: "rpc_id list"
  st_nextAliasedID :: "64 word"
  st_initializedNotification :: bool
  st_initializeSucceeded :: bool
  st_initializationReady :: bool

definition newSerializedForwardingTransport :: "bool \<Rightarrow> bool \<Rightarrow> bool \<Rightarrow> serial_transport" where
  "newSerializedForwardingTransport retireOnDeadline ensureInitialized aliasRetired =
     \<lparr>st_slot = False, st_retireOnDeadline = retireOnDeadline, st_ensureInitialized = ensureInitialized,
      st_aliasRetiredIDs = aliasRetired, st_requireInitialization = False, st_observation = None,
      st_generation = 0, st_generationKnown = False, st_retiredResponseIDs = [], st_nextAliasedID = 0,
      st_initializedNotification = False, st_initializeSucceeded = False, st_initializationReady = False\<rparr>"

definition NewSerializedForwardingTransport :: serial_transport where
  "NewSerializedForwardingTransport = newSerializedForwardingTransport False False False"

definition NewSerializedForwardingTransportWithDeadlineRetirement :: serial_transport where
  "NewSerializedForwardingTransportWithDeadlineRetirement = newSerializedForwardingTransport True False False"

definition NewStdioDeadlineRetiringForwardingTransport :: serial_transport where
  "NewStdioDeadlineRetiringForwardingTransport = newSerializedForwardingTransport True False True"

definition NewStdioForwardingTransport :: serial_transport where
  "NewStdioForwardingTransport = newSerializedForwardingTransport True True True"

definition NewStdioForwardingTransportWithOptions :: "bool \<Rightarrow> serial_transport" where
  "NewStdioForwardingTransportWithOptions sendInitialized =
     (newSerializedForwardingTransport True sendInitialized True)\<lparr>st_requireInitialization := True\<rparr>"

definition ObserveStdioForwardingTransport :: "observation option \<Rightarrow> serial_transport \<Rightarrow> serial_transport" where
  "ObserveStdioForwardingTransport ob t = (if st_aliasRetiredIDs t then t\<lparr>st_observation := ob\<rparr> else t)"

record serial_conn =
  sc_base :: bool
  sc_lockHeld :: bool
  sc_writeStarted :: bool
  sc_writeCompleted :: bool
  sc_awaitingResponse :: bool
  sc_callerID :: rpc_id
  sc_expectedID :: rpc_id
  sc_requestMethod :: string
  sc_selfContainedRequest :: bool
  sc_selfContainedVersion :: string
  sc_deadlineRetirable :: bool
  sc_retired :: bool
  sc_observationGeneration :: string
  sc_physicalGeneration :: "64 word"
  sc_generationKnown :: bool
  sc_observationToken :: observation_token
  sc_observationWriteDone :: bool    \<comment> \<open>the channel exists\<close>
  sc_observationWriteReady :: bool   \<comment> \<open>and is closed\<close>

type_synonym serial_state = "serial_conn \<times> serial_transport"

text \<open>The context of a call: its error when the call looks, and the response-deadline mark.\<close>

record call_ctx =
  cx_err :: goerr
  cx_enforced :: bool

abbreviation maxRetiredResponseIDs :: nat where "maxRetiredResponseIDs \<equiv> 1024"

abbreviation initializedNotificationMethod :: string where
  "initializedNotificationMethod \<equiv> ''notifications/initialized''"

abbreviation retiredResponseAliasPrefix :: string where
  "retiredResponseAliasPrefix \<equiv> ''__tunnel_client_stdio_retired_''"

section \<open>Handshake flags\<close>

definition markInitializeSucceeded :: "serial_transport \<Rightarrow> serial_transport" where
  "markInitializeSucceeded t = t\<lparr>st_initializeSucceeded := True\<rparr>"

definition markInitializationReady :: "serial_transport \<Rightarrow> serial_transport" where
  "markInitializationReady t =
     (if st_requireInitialization t then t\<lparr>st_initializationReady := st_initializeSucceeded t\<rparr> else t)"

definition resetInitialization :: "serial_transport \<Rightarrow> serial_transport" where
  "resetInitialization t =
     (if st_requireInitialization t
      then t\<lparr>st_initializeSucceeded := False, st_initializationReady := False\<rparr> else t)"

definition initializedNotificationSent :: "serial_transport \<Rightarrow> bool" where
  "initializedNotificationSent t = st_initializedNotification t"

definition markInitializedNotificationSent :: "serial_transport \<Rightarrow> serial_transport" where
  "markInitializedNotificationSent t = t\<lparr>st_initializedNotification := True\<rparr>"

definition resetInitializedNotification :: "serial_transport \<Rightarrow> serial_transport" where
  "resetInitializedNotification t =
     (if st_ensureInitialized t then t\<lparr>st_initializedNotification := False\<rparr> else t)"

definition reset_handshake :: "serial_transport \<Rightarrow> serial_transport" where
  "reset_handshake t = resetInitialization (resetInitializedNotification t)"

definition transitionGeneration :: "64 word \<Rightarrow> bool \<Rightarrow> serial_transport \<Rightarrow> serial_transport" where
  "transitionGeneration generation known t =
     (if \<not> known \<or> st_generationKnown t \<and> st_generation t = generation then t
      else t\<lparr>st_generation := generation, st_generationKnown := True, st_retiredResponseIDs := [],
             st_nextAliasedID := 0, st_initializedNotification := False,
             st_initializeSucceeded := False, st_initializationReady := False\<rparr>)"

definition observation_child_closed :: "string \<Rightarrow> string \<Rightarrow> gotime \<Rightarrow> serial_transport \<Rightarrow> serial_transport" where
  "observation_child_closed generation reason now t =
     t\<lparr>st_observation := map_option (childClosed generation reason now) (st_observation t)\<rparr>"

section \<open>Retired identifiers\<close>

definition retireResponseID :: "rpc_id \<Rightarrow> serial_transport \<Rightarrow> serial_transport \<times> bool" where
  "retireResponseID i t =
     (if i = NoId then (t, False)
      else if i \<in> set (st_retiredResponseIDs t) then (t, True)
      else if length (st_retiredResponseIDs t) \<ge> maxRetiredResponseIDs then (t, False)
      else (t\<lparr>st_retiredResponseIDs := i # st_retiredResponseIDs t\<rparr>, True))"

definition alias_id :: "64 word \<Rightarrow> rpc_id" where
  "alias_id n = StrId (retiredResponseAliasPrefix @ show_nat (unat n))"

function next_alias :: "rpc_id \<Rightarrow> rpc_id list \<Rightarrow> 64 word \<Rightarrow> 64 word \<times> (goerr + rpc_id)" where
  "next_alias callerID retired n =
     (if n = - 1 then (n, Inl [ErrText ''mcpclient: exhausted stdio response ID aliases''])
      else if alias_id (n + 1) = callerID \<or> alias_id (n + 1) \<in> set retired then next_alias callerID retired (n + 1)
      else (n + 1, Inr (alias_id (n + 1))))"
  by pat_completeness auto
termination
proof (relation "measure (\<lambda>(_, _, n). 2 ^ 64 - unat n)")
  fix callerID :: rpc_id and retired :: "rpc_id list" and n :: "64 word"
  assume "n \<noteq> - 1"
  then have "unat (n + 1) = Suc (unat n)" by (rule unat_inc)
  moreover have "unat n < 2 ^ 64" using unsigned_less [of n] by simp
  ultimately show "((callerID, retired, n + 1), callerID, retired, n) \<in> measure (\<lambda>(_, _, n). 2 ^ 64 - unat n)"
    by simp
qed simp

declare next_alias.simps [simp del]

definition show_raw_id :: "rpc_id \<Rightarrow> string" where
  "show_raw_id i = (case i of NoId \<Rightarrow> ''<nil>'' | IntId n \<Rightarrow> show_int n | StrId s \<Rightarrow> s)"

definition wireResponseID :: "rpc_id \<Rightarrow> serial_transport \<Rightarrow> serial_transport \<times> (goerr + rpc_id)" where
  "wireResponseID callerID t =
     (if callerID = NoId \<or> callerID \<notin> set (st_retiredResponseIDs t) then (t, Inr callerID)
      else if \<not> st_aliasRetiredIDs t then 
        (t, Inl [ErrText (''MCP request ID '' @ show_raw_id callerID @ '' is still retired'')])
      else (let (n, result) = next_alias callerID (st_retiredResponseIDs t) (st_nextAliasedID t)
            in (t\<lparr>st_nextAliasedID := n\<rparr>, result)))"

definition consumeRetiredResponseID :: "rpc_id \<Rightarrow> serial_transport \<Rightarrow> serial_transport \<times> bool" where
  "consumeRetiredResponseID i t =
     (if i = NoId \<or> i \<notin> set (st_retiredResponseIDs t) then (t, False)
      else (t\<lparr>st_retiredResponseIDs := filter (\<lambda>j. j \<noteq> i) (st_retiredResponseIDs t)\<rparr>, True))"

definition hasRetiredResponseIDs :: "serial_transport \<Rightarrow> bool" where
  "hasRetiredResponseIDs t \<longleftrightarrow> st_retiredResponseIDs t \<noteq> []"

definition shouldDropRetiredMessage :: "rpc_message \<Rightarrow> serial_transport \<Rightarrow> serial_transport \<times> bool" where
  "shouldDropRetiredMessage msg t = (case msg of
     Response i _ _ \<Rightarrow> consumeRetiredResponseID i t
   | Request _ _ _ \<Rightarrow> (t, hasRetiredResponseIDs t))"

section \<open>The lifecycle slot\<close>

text \<open>
  \<open>acquireLifecycle\<close>: with a context that is done the call returns its error
  whichever branch the select takes.
\<close>

definition acquireLifecycle :: "goerr \<Rightarrow> serial_transport \<Rightarrow> (serial_transport \<times> goerr) option" where
  "acquireLifecycle ctx_err t =
     (if ctx_err \<noteq> nil_err then Some (t, ctx_err)
      else if st_slot t then None
      else Some (t\<lparr>st_slot := True\<rparr>, nil_err))"

definition releaseLifecycle :: "serial_transport \<Rightarrow> serial_transport" where
  "releaseLifecycle t = t\<lparr>st_slot := False\<rparr>"

definition signalObservedWriteLocked :: "serial_conn \<Rightarrow> serial_conn" where
  "signalObservedWriteLocked c =
     (if sc_observationWriteDone c \<and> \<not> sc_observationWriteReady c
      then c\<lparr>sc_observationWriteReady := True\<rparr> else c)"

definition clearLifecycleStateLocked :: "serial_conn \<Rightarrow> serial_conn" where
  "clearLifecycleStateLocked c = (signalObservedWriteLocked c)\<lparr>sc_lockHeld := False, sc_writeStarted := False,
     sc_writeCompleted := False, sc_awaitingResponse := False, sc_callerID := NoId, sc_expectedID := NoId,
     sc_requestMethod := [], sc_selfContainedRequest := False, sc_selfContainedVersion := [],
     sc_observationToken := no_token, sc_observationWriteDone := False\<rparr>"

definition markReleased :: "serial_conn \<Rightarrow> serial_conn \<times> bool" where
  "markReleased c =
     ((if sc_lockHeld c then clearLifecycleStateLocked c else c)\<lparr>sc_retired := False\<rparr>, sc_lockHeld c)"

definition release :: "serial_state \<Rightarrow> serial_state" where
  "release ct = (let (c, held) = markReleased (fst ct)
     in (c, if held then releaseLifecycle (snd ct) else snd ct))"

definition releaseRetired :: "serial_state \<Rightarrow> serial_state" where
  "releaseRetired ct = (let c = fst ct in
     ((if sc_lockHeld c then clearLifecycleStateLocked c else c)\<lparr>sc_retired := True\<rparr>,
      if sc_lockHeld c then releaseLifecycle (snd ct) else snd ct))"

definition currentGeneration :: "serial_state \<Rightarrow> bool" where
  "currentGeneration ct \<longleftrightarrow> \<not> (st_generationKnown (snd ct) \<and>
     (\<not> sc_generationKnown (fst ct) \<or> sc_physicalGeneration (fst ct) \<noteq> st_generation (snd ct)))"

definition withCurrentGeneration :: "(serial_transport \<Rightarrow> serial_transport) \<Rightarrow> serial_state \<Rightarrow> serial_state" where
  "withCurrentGeneration update ct = (if currentGeneration ct then (fst ct, update (snd ct)) else ct)"

section \<open>Connect\<close>

definition connect_begin :: "call_ctx \<Rightarrow> serial_transport \<Rightarrow> (serial_transport \<times> goerr) option" where
  "connect_begin ctx t = acquireLifecycle (cx_err ctx) t"

text \<open>What the physical connect returned: its error, whether there is a connection, and its generation.\<close>

record base_connect =
  bc_err :: goerr
  bc_conn :: bool
  bc_generation :: "64 word \<times> bool"

definition new_serial_conn :: "bool \<Rightarrow> string \<Rightarrow> 64 word \<times> bool \<Rightarrow> serial_conn" where
  "new_serial_conn base obs_generation g =
     \<lparr>sc_base = base, sc_lockHeld = True, sc_writeStarted = False, sc_writeCompleted = False,
      sc_awaitingResponse = False, sc_callerID = NoId, sc_expectedID = NoId, sc_requestMethod = [],
      sc_selfContainedRequest = False, sc_selfContainedVersion = [], sc_deadlineRetirable = False,
      sc_retired = False, sc_observationGeneration = obs_generation, sc_physicalGeneration = fst g,
      sc_generationKnown = snd g, sc_observationToken = no_token, sc_observationWriteDone = False,
      sc_observationWriteReady = False\<rparr>"

definition physicalGenerationOf :: "base_connect \<Rightarrow> 64 word \<times> bool" where
  "physicalGenerationOf b = (if bc_conn b then bc_generation b else (0, False))"

text \<open>The flag says whether the physical connection is closed.\<close>

definition connect_end :: "call_ctx \<Rightarrow> base_connect \<Rightarrow> serial_transport
    \<Rightarrow> serial_transport \<times> bool \<times> (goerr + serial_conn)" where
  "connect_end ctx b t =
     (if bc_err b \<noteq> nil_err then (releaseLifecycle (resetInitialization t), bc_conn b, Inl (bc_err b))
      else if cx_err ctx \<noteq> nil_err then
        (let close = (bc_conn b \<and> (\<not> st_retireOnDeadline t \<or> \<not> cx_enforced ctx))
         in (releaseLifecycle (if close then resetInitialization t else t), close, Inl (cx_err ctx)))
      else
        (let g = physicalGenerationOf b; t = transitionGeneration (fst g) (snd g) t
         in (t, False, Inr (new_serial_conn (bc_conn b)
              (case st_observation t of None \<Rightarrow> [] | Some ob \<Rightarrow> md_child_generation ob) g))))"

section \<open>Write\<close>

definition expectedResponse :: "rpc_message \<Rightarrow> bool \<times> rpc_id \<times> string" where
  "expectedResponse msg = (case msg of Request i m _ \<Rightarrow> (i \<noteq> NoId, i, m) | _ \<Rightarrow> (False, NoId, []))"

definition selfContainedMCPRequestVersion :: "rpc_message \<Rightarrow> string option" where
  "selfContainedMCPRequestVersion msg = (case msg of
     Request i m params \<Rightarrow>
       (case unmarshal_struct params of
          None \<Rightarrow> None
        | Some ms \<Rightarrow>
            (case raw_map_field ''_meta'' ms of
               None \<Rightarrow> None
             | Some meta \<Rightarrow>
                 (let value_of = (\<lambda>k. case Option.bind meta (\<lambda>q. map_of q k) of None \<Rightarrow> [] | Some raw \<Rightarrow> raw)
                  in case unmarshal_string (value_of ''io.modelcontextprotocol/protocolVersion'') of
                       None \<Rightarrow> None
                     | Some version \<Rightarrow>
                         if \<not> date_only version \<or> version < ''2026-07-28'' then None
                         else if is_raw_object (value_of ''io.modelcontextprotocol/clientCapabilities'')
                         then Some version else None)))
   | _ \<Rightarrow> None)"

definition isSelfContainedMCPRequest :: "rpc_message \<Rightarrow> bool" where
  "isSelfContainedMCPRequest msg \<longleftrightarrow> selfContainedMCPRequestVersion msg \<noteq> None"

definition rejectBeforeInitialization :: "rpc_message \<Rightarrow> bool \<Rightarrow> serial_transport \<Rightarrow> bool" where
  "rejectBeforeInitialization msg selfContained t \<longleftrightarrow>
     st_requireInitialization t \<and> \<not> selfContained \<and>
     (case msg of
        Request i m _ \<Rightarrow> i \<noteq> NoId \<and> m \<notin> {''initialize'', ''ping'', ''server/discover''} \<and>
          \<not> st_initializationReady t
      | _ \<Rightarrow> False)"

definition shouldSuppressInitializedNotification :: "rpc_message \<Rightarrow> serial_transport \<Rightarrow> bool" where
  "shouldSuppressInitializedNotification msg t \<longleftrightarrow>
     st_ensureInitialized t \<and> initializedNotificationSent t \<and>
     \<not> (st_requireInitialization t \<and> isSelfContainedMCPRequest msg) \<and>
     (case msg of Request i m _ \<Rightarrow> i = NoId \<and> m = initializedNotificationMethod | _ \<Rightarrow> False)"

definition requestWithResponseID :: "rpc_message \<Rightarrow> rpc_id \<Rightarrow> rpc_id \<Rightarrow> rpc_message" where
  "requestWithResponseID msg callerID expectedID =
     (if callerID = NoId \<or> callerID = expectedID then msg
      else case msg of Request i m p \<Rightarrow> Request expectedID m p | _ \<Rightarrow> msg)"

definition shouldAwaitDeadlineRetirement :: "bool \<Rightarrow> goerr \<Rightarrow> serial_transport \<Rightarrow> bool" where
  "shouldAwaitDeadlineRetirement enforced err t \<longleftrightarrow>
     st_retireOnDeadline t \<and> enforced \<and> (errors_is err Canceled \<or> errors_is err DeadlineExceeded)"

definition markWriteCompleted :: "bool \<Rightarrow> serial_conn \<Rightarrow> serial_conn" where
  "markWriteCompleted completed c =
     (if sc_lockHeld c \<and> sc_writeStarted c then c\<lparr>sc_writeCompleted := completed\<rparr> else c)"

definition markDeadlineRetirableWithoutResponse :: "bool \<Rightarrow> serial_conn \<Rightarrow> serial_conn" where
  "markDeadlineRetirableWithoutResponse retirable c =
     (if sc_lockHeld c \<and> sc_writeStarted c then c\<lparr>sc_deadlineRetirable := retirable\<rparr> else c)"

definition start_write :: "bool \<Rightarrow> rpc_id \<Rightarrow> rpc_id \<Rightarrow> string \<Rightarrow> serial_transport \<Rightarrow> serial_conn \<Rightarrow> serial_conn" where
  "start_write expectResponse callerID expectedID m t c =
     (let c = c\<lparr>sc_lockHeld := True, sc_writeStarted := True, sc_writeCompleted := False,
            sc_awaitingResponse := expectResponse, sc_callerID := callerID, sc_expectedID := expectedID,
            sc_requestMethod := m, sc_deadlineRetirable := False, sc_retired := False\<rparr>
      in if st_observation t \<noteq> None \<or> st_requireInitialization t
         then c\<lparr>sc_observationWriteDone := True, sc_observationWriteReady := False\<rparr> else c)"

definition give_back :: "bool \<Rightarrow> serial_state \<Rightarrow> serial_state" where
  "give_back reuse ct = (if reuse then release ct else (fst ct, releaseLifecycle (snd ct)))"

definition serial_acquire :: "goerr \<Rightarrow> bool \<Rightarrow> rpc_id \<Rightarrow> string \<Rightarrow> serial_state
    \<Rightarrow> (serial_state \<times> (goerr + rpc_id)) option" where
  "serial_acquire ctx_err expectResponse callerID m ct =
     (let (c, t) = ct; reuse = (sc_lockHeld c \<and> \<not> sc_writeStarted c) in
      case (if reuse then Some (t, nil_err) else acquireLifecycle ctx_err t) of
        None \<Rightarrow> None
      | Some (t, err) \<Rightarrow>
          if err \<noteq> nil_err then Some ((c, t), Inl err)
          else if \<not> currentGeneration (c, t) then Some (give_back reuse (c, t), Inl [ClosedPipe])
          else (case (if expectResponse then wireResponseID callerID t else (t, Inr callerID)) of
             (t, Inl e) \<Rightarrow> Some (give_back reuse (c, t), Inl e)
           | (t, Inr expectedID) \<Rightarrow>
               Some ((start_write expectResponse callerID expectedID m t c, t), Inr expectedID)))"

definition completeObservedWrite :: "(string \<Rightarrow> digest) \<Rightarrow> gotime \<Rightarrow> rpc_message \<Rightarrow> bool \<Rightarrow> bool
    \<Rightarrow> serial_state \<Rightarrow> serial_state" where
  "completeObservedWrite sha256 now msg completed accepted ct =
     (let (c, t) = ct in
      if \<not> sc_lockHeld c \<or> \<not> sc_writeStarted c then (c, t)
      else
        (let (c, t) = (case (st_observation t, msg) of
               (Some ob, Request _ _ _) \<Rightarrow>
                 if completed \<and> accepted then
                   (let (ob, token) = requestWritten sha256 now (sc_observationGeneration c) msg
                          (sc_selfContainedVersion c) ob
                    in (c\<lparr>sc_observationToken := token\<rparr>, t\<lparr>st_observation := Some ob\<rparr>))
                 else (c, t)
             | (None, Request _ _ _) \<Rightarrow>
                 (if completed \<and> accepted then c\<lparr>sc_observationToken := no_token\<rparr> else c, t)
             | _ \<Rightarrow> (c, t))
         in (signalObservedWriteLocked (c\<lparr>sc_writeCompleted := completed\<rparr>), t)))"

definition raw_id :: "rpc_id \<Rightarrow> string" where
  "raw_id i = (case i of NoId \<Rightarrow> ''null'' | IntId n \<Rightarrow> show_int n | StrId s \<Rightarrow> json_string s)"

definition initialization_required :: "rpc_id \<Rightarrow> string" where
  "initialization_required callerID = marshal_object
     [(''jsonrpc'', json_string ''2.0''), (''id'', raw_id callerID),
      (''error'', marshal_object
         [(''code'', ''-32002''),
          (''message'', json_string ''MCP server is not initialized; send initialize and notifications/initialized before operational requests''),
          (''data'', marshal_object
             [(''origin'', json_string ''tunnel-client''),
              (''error_type'', json_string ''mcp_initialization_required'')])])]"

abbreviation no_write_result :: write_result where
  "no_write_result \<equiv> \<lparr>wr_status = 0, wr_headers = [], wr_preserved = None, wr_started = 0, wr_completed = 0\<rparr>"

datatype write_begun =
    Returned write_result goerr     \<comment> \<open>without physical I/O\<close>
  | ToBase rpc_message              \<comment> \<open>the message to write\<close>

text \<open>\<open>ctx\<close> is the context when the slot is acquired, \<open>later_err\<close> its error afterwards.\<close>

definition write_begin :: "(string \<Rightarrow> digest) \<Rightarrow> gotime \<Rightarrow> call_ctx \<Rightarrow> goerr \<Rightarrow> rpc_message \<Rightarrow> serial_state
    \<Rightarrow> (serial_state \<times> write_begun) option" where
  "write_begin sha256 now ctx later_err msg ct =
     (if \<not> sc_base (fst ct) then Some (release ct, Returned no_write_result nil_err)
      else
        (let (expectResponse, callerID, m) = expectedResponse msg in
         case serial_acquire (cx_err ctx) expectResponse callerID m ct of
           None \<Rightarrow> None
         | Some (ct, Inl err) \<Rightarrow> Some (ct, Returned no_write_result err)
         | Some ((c, t), Inr expectedID) \<Rightarrow>
             if st_requireInitialization t \<and> later_err \<noteq> nil_err then
               (let ct = completeObservedWrite sha256 now msg False False (c, t)
                in Some (if shouldAwaitDeadlineRetirement (cx_enforced ctx) later_err t then ct else release ct,
                         Returned no_write_result later_err))
             else
               (let version = (if st_requireInitialization t then selfContainedMCPRequestVersion msg else None);
                    selfContained = (version \<noteq> None);
                    c = c\<lparr>sc_selfContainedRequest := selfContained,
                          sc_selfContainedVersion := (case version of None \<Rightarrow> [] | Some v \<Rightarrow> v)\<rparr>
                in if rejectBeforeInitialization msg selfContained t then
                     Some (release (markDeadlineRetirableWithoutResponse True c, t),
                           Returned (no_write_result\<lparr>wr_status := 409,
                             wr_preserved := Some (initialization_required callerID)\<rparr>) nil_err)
                   else
                     (let (c, t) = (if m = ''initialize'' \<and> \<not> st_requireInitialization t
                                    then withCurrentGeneration resetInitializedNotification (c, t) else (c, t))
                      in if shouldSuppressInitializedNotification msg t then
                           Some (release (markDeadlineRetirableWithoutResponse True (markWriteCompleted True c), t),
                                 Returned no_write_result nil_err)
                         else Some ((c, t), ToBase (requestWithResponseID msg callerID expectedID))))))"

definition write_accepted :: "write_result \<Rightarrow> goerr \<Rightarrow> bool" where
  "write_accepted result err \<longleftrightarrow> err = nil_err \<and> wr_preserved result = None \<and>
     (wr_status result = 0 \<or> 200 \<le> wr_status result \<and> wr_status result < 300)"

definition write_failed :: "write_result \<Rightarrow> goerr \<Rightarrow> bool" where
  "write_failed result err \<longleftrightarrow> err \<noteq> nil_err \<or> wr_preserved result \<noteq> None \<or> 400 \<le> wr_status result"

text \<open>After the physical write of \<open>msg\<close>, the message of the caller.\<close>

definition write_end :: "(string \<Rightarrow> digest) \<Rightarrow> gotime \<Rightarrow> bool \<Rightarrow> rpc_message \<Rightarrow> write_result \<Rightarrow> goerr
    \<Rightarrow> serial_state \<Rightarrow> serial_state" where
  "write_end sha256 now enforced msg result err ct =
     (let (expectResponse, callerID, m) = expectedResponse msg;
          t = snd ct;
          selfContained = (st_requireInitialization t \<and> isSelfContainedMCPRequest msg);
          ct = (if write_accepted result err \<and> st_requireInitialization t \<and> \<not> selfContained then
                  (if m = ''initialize'' then withCurrentGeneration reset_handshake ct
                   else if \<not> expectResponse \<and> m = initializedNotificationMethod
                   then withCurrentGeneration markInitializationReady ct else ct)
                else ct);
          ct = completeObservedWrite sha256 now msg (err = nil_err)
                 (wr_preserved result = None \<and> wr_status result < 400) ct;
          await = (err \<noteq> nil_err \<and> shouldAwaitDeadlineRetirement enforced err t);
          ct = (if \<not> await \<and> write_failed result err then
                  (let (c, t) = withCurrentGeneration reset_handshake ct
                   in (c, observation_child_closed (sc_observationGeneration c) ''stdio_write_failed'' now t))
                else ct)
      in if await then ct
         else if \<not> expectResponse then
           release (markDeadlineRetirableWithoutResponse (err = nil_err) (fst ct), snd ct)
         else if write_failed result err then release ct
         else ct)"

section \<open>Read\<close>

text \<open>
  \<open>awaitObservedWrite\<close>: \<open>None\<close> while the write is unfinished and the context is
  live. A context that is done does not hide a write that has completed.
\<close>

definition awaitObservedWrite :: "bool \<Rightarrow> serial_conn \<Rightarrow> bool option" where
  "awaitObservedWrite ctx_done c =
     (if \<not> sc_observationWriteDone c \<or> sc_observationWriteReady c then Some True
      else if ctx_done then Some False else None)"

definition response_matches :: "rpc_message \<Rightarrow> serial_conn \<Rightarrow> bool" where
  "response_matches msg c \<longleftrightarrow> (case msg of
     Response i _ _ \<Rightarrow> sc_lockHeld c \<and> sc_awaitingResponse c \<and> i \<noteq> NoId \<and> i = sc_expectedID c
   | _ \<Rightarrow> False)"

definition response_succeeded :: "rpc_message \<Rightarrow> bool" where
  "response_succeeded msg \<longleftrightarrow> (case msg of Response i err _ \<Rightarrow> err = None \<and> i \<noteq> NoId | _ \<Rightarrow> False)"

definition observeRead :: "(string \<Rightarrow> digest) \<Rightarrow> gotime \<Rightarrow> rpc_message \<Rightarrow> serial_state \<Rightarrow> serial_state" where
  "observeRead sha256 now msg ct = (let (c, t) = ct in
     case st_observation t of
       None \<Rightarrow> (c, t)
     | Some ob \<Rightarrow>
         (case msg of
            Request i m _ \<Rightarrow>
              if i = NoId \<and> m = ''notifications/tools/list_changed''
              then (c, t\<lparr>st_observation := Some (listChanged now (sc_observationGeneration c) ob)\<rparr>) else (c, t)
          | Response _ _ _ \<Rightarrow>
              if response_matches msg c \<and> sc_writeCompleted c
              then (c, t\<lparr>st_observation := Some (observation_response sha256 now (sc_observationToken c) msg ob)\<rparr>)
              else (c, t)))"

definition successfulInitializeResponse :: "rpc_message \<Rightarrow> serial_state \<Rightarrow> bool" where
  "successfulInitializeResponse msg ct \<longleftrightarrow> (let (c, t) = ct in
     st_requireInitialization t \<and> response_succeeded msg \<and> response_matches msg c \<and> sc_writeCompleted c \<and>
     \<not> sc_selfContainedRequest c \<and> sc_requestMethod c = ''initialize'')"

definition shouldEnsureInitializedNotification :: "rpc_message \<Rightarrow> serial_state \<Rightarrow> bool" where
  "shouldEnsureInitializedNotification msg ct \<longleftrightarrow> (let (c, t) = ct in
     st_ensureInitialized t \<and> response_succeeded msg \<and> response_matches msg c \<and>
     (\<not> st_requireInitialization t \<or> \<not> sc_selfContainedRequest c) \<and> sc_requestMethod c = ''initialize'')"

definition restoreCallerResponseID :: "rpc_message \<Rightarrow> serial_conn \<Rightarrow> rpc_message" where
  "restoreCallerResponseID msg c = (case msg of
     Response i err result \<Rightarrow>
       if sc_lockHeld c \<and> sc_awaitingResponse c \<and> sc_callerID c \<noteq> NoId \<and> sc_callerID c \<noteq> sc_expectedID c \<and>
          i = sc_expectedID c
       then Response (sc_callerID c) err result else msg
   | _ \<Rightarrow> msg)"

definition shouldReleaseAfterRead :: "rpc_message \<Rightarrow> serial_conn \<Rightarrow> serial_conn \<times> bool" where
  "shouldReleaseAfterRead msg c =
     (if \<not> sc_lockHeld c then (c, False)
      else if \<not> sc_awaitingResponse c then (c, True)
      else case msg of Response _ _ _ \<Rightarrow> (c\<lparr>sc_awaitingResponse := False\<rparr>, True) | _ \<Rightarrow> (c, False))"

text \<open>The result of writing \<open>notifications/initialized\<close> after an initialize response.\<close>

definition initialized_write_error :: "write_result \<Rightarrow> goerr \<Rightarrow> goerr" where
  "initialized_write_error result err =
     (if err \<noteq> nil_err then ErrText ''send MCP initialized notification after initialize'' # err
      else if wr_preserved result \<noteq> None then
        [ErrText ''send MCP initialized notification after initialize: downstream rejected notification'']
      else if wr_status result \<noteq> 0 \<and> (wr_status result < 200 \<or> 300 \<le> wr_status result) then
        [ErrText (''send MCP initialized notification after initialize: downstream returned status ''
                  @ show_int (wr_status result))]
      else nil_err)"

definition initialized_written :: "serial_transport \<Rightarrow> serial_transport" where
  "initialized_written t = markInitializationReady (markInitializedNotificationSent t)"

datatype read_outcome =
    ReadAgain                                  \<comment> \<open>a retired message was dropped\<close>
  | ReadReturns "goerr + rpc_message option"

text \<open>
  One turn of the loop, after the physical read. \<open>wr\<close> is the result of the
  notification write, when one is made.
\<close>

definition note_response :: "(string \<Rightarrow> digest) \<Rightarrow> gotime \<Rightarrow> bool \<Rightarrow> rpc_message \<Rightarrow> serial_state \<Rightarrow> serial_state" where
  "note_response sha256 now observed msg ct =
     (if observed then
        (let ct = observeRead sha256 now msg ct
         in if successfulInitializeResponse msg ct
            then withCurrentGeneration markInitializeSucceeded ct else ct)
      else ct)"

definition fail_initialized :: "gotime \<Rightarrow> serial_state \<Rightarrow> serial_state" where
  "fail_initialized now ct = (let (c, t) = withCurrentGeneration resetInitialization ct
     in release (c, observation_child_closed (sc_observationGeneration c) ''stdio_write_failed'' now t))"

definition read_message :: "(string \<Rightarrow> digest) \<Rightarrow> gotime \<Rightarrow> bool \<Rightarrow> write_result \<times> goerr \<Rightarrow> rpc_message
    \<Rightarrow> serial_state \<Rightarrow> (serial_state \<times> read_outcome) option" where
  "read_message sha256 now ctx_done wr msg ct =
     (case awaitObservedWrite ctx_done (fst ct) of
        None \<Rightarrow> None
      | Some observed \<Rightarrow>
          (let ct = note_response sha256 now observed msg ct;
               ensure = shouldEnsureInitializedNotification msg ct;
               werr = (if ensure then initialized_write_error (fst wr) (snd wr) else nil_err)
           in if werr \<noteq> nil_err then Some (fail_initialized now ct, ReadReturns (Inl werr))
              else
                (let ct = (if ensure then withCurrentGeneration initialized_written ct else ct);
                     callerMsg = restoreCallerResponseID msg (fst ct)
                 in if \<not> currentGeneration ct then Some (release ct, ReadReturns (Inl [ClosedPipe]))
                    else
                      (let (c, rel) = shouldReleaseAfterRead msg (fst ct)
                       in Some (if rel then release (c, snd ct) else (c, snd ct),
                                ReadReturns (Inr (Some callerMsg)))))))"

definition read_end :: "(string \<Rightarrow> digest) \<Rightarrow> gotime \<Rightarrow> call_ctx \<Rightarrow> write_result \<times> goerr
    \<Rightarrow> goerr + rpc_message option \<Rightarrow> serial_state \<Rightarrow> (serial_state \<times> read_outcome) option" where
  "read_end sha256 now ctx wr result ct =
     (if \<not> sc_base (fst ct) then Some (release ct, ReadReturns (Inr None))
      else if \<not> currentGeneration ct then Some (release ct, ReadReturns (Inl [ClosedPipe]))
      else case result of
        Inl err \<Rightarrow>
          if shouldAwaitDeadlineRetirement (cx_enforced ctx) err (snd ct) then Some (ct, ReadReturns (Inl err))
          else (let (c, t) = withCurrentGeneration resetInitialization ct
                in Some (release (c, observation_child_closed (sc_observationGeneration c) ''stdio_read_failed'' now t),
                         ReadReturns (Inl err)))
      | Inr None \<Rightarrow> Some (release ct, ReadReturns (Inr None))
      | Inr (Some msg) \<Rightarrow>
          (let (t, drop) = shouldDropRetiredMessage msg (snd ct)
           in if drop then Some ((fst ct, t), ReadAgain)
              else read_message sha256 now (cx_err ctx \<noteq> nil_err) wr msg (fst ct, t)))"

section \<open>Close and retirement\<close>

text \<open>The flag says whether the physical connection is closed.\<close>

definition serial_Close :: "gotime \<Rightarrow> serial_state \<Rightarrow> serial_state \<times> bool" where
  "serial_Close now ct =
     (if \<not> sc_base (fst ct) then (release ct, False)
      else if sc_retired (fst ct) then (ct, False)
      else (let (c, t) = withCurrentGeneration reset_handshake ct
            in (release (c, observation_child_closed (sc_observationGeneration c) ''stdio_connection_closed'' now t),
                True)))"

definition PreserveAfterResponseCompletion :: "serial_transport \<Rightarrow> bool" where
  "PreserveAfterResponseCompletion t = st_aliasRetiredIDs t"

datatype retirement = NotHandled | AlreadyRetired | ReleaseOnly | TrackResponse rpc_id

definition beginDeadlineRetirement :: "serial_conn \<Rightarrow> serial_conn \<times> retirement" where
  "beginDeadlineRetirement c =
     (if sc_retired c then (c, AlreadyRetired)
      else if \<not> sc_lockHeld c then
        (if sc_deadlineRetirable c
         then (c\<lparr>sc_deadlineRetirable := False, sc_retired := True\<rparr>, AlreadyRetired)
         else (c, NotHandled))
      else if \<not> sc_writeCompleted c then (c\<lparr>sc_retired := True\<rparr>, ReleaseOnly)
      else if sc_requestMethod c = ''initialize'' then (c, NotHandled)
      else if sc_awaitingResponse c \<and> sc_expectedID c \<noteq> NoId
      then (c\<lparr>sc_retired := True\<rparr>, TrackResponse (sc_expectedID c))
      else (c\<lparr>sc_retired := True\<rparr>, ReleaseOnly))"

definition cancelDeadlineRetirement :: "serial_conn \<Rightarrow> serial_conn" where
  "cancelDeadlineRetirement c = (if sc_lockHeld c then c\<lparr>sc_retired := False\<rparr> else c)"

definition retire_observed :: "gotime \<Rightarrow> serial_state \<Rightarrow> serial_state" where
  "retire_observed now ct = (let (c, t) = ct; token = sc_observationToken c in
     if tk_method token \<in> {''server/discover'', ''tools/list''} then
       (c, t\<lparr>st_observation := map_option (observation_failed now token ''discovery_response_deadline'' False)
              (st_observation t)\<rparr>)
     else (c, t))"

definition RetireResponseDeadline :: "gotime \<Rightarrow> serial_state \<Rightarrow> serial_state \<times> bool" where
  "RetireResponseDeadline now ct =
     (if \<not> st_retireOnDeadline (snd ct) \<or> \<not> currentGeneration ct then (ct, False)
      else
        (let (c, r) = beginDeadlineRetirement (fst ct); t = snd ct in
         case r of
           NotHandled \<Rightarrow> ((c, t), False)
         | AlreadyRetired \<Rightarrow> ((c, t), True)
         | ReleaseOnly \<Rightarrow> (releaseRetired (retire_observed now (c, t)), True)
         | TrackResponse i \<Rightarrow>
             (let (t, tracked) = retireResponseID i t
              in if tracked then (releaseRetired (retire_observed now (c, t)), True)
                 else ((cancelDeadlineRetirement c, t), False))))"

section \<open>Interleavings\<close>

record serial_system =
  sy_transport :: serial_transport
  sy_conns :: "serial_conn list"
  sy_connecting :: bool     \<comment> \<open>a physical connect is under way\<close>

definition serial_start :: "serial_transport \<Rightarrow> serial_system" where
  "serial_start t = \<lparr>sy_transport = t, sy_conns = [], sy_connecting = False\<rparr>"

definition put_conn :: "nat \<Rightarrow> serial_state \<Rightarrow> serial_system \<Rightarrow> serial_system" where
  "put_conn i ct s = s\<lparr>sy_transport := snd ct, sy_conns := (sy_conns s)[i := fst ct]\<rparr>"

abbreviation conn_at :: "nat \<Rightarrow> serial_system \<Rightarrow> serial_state" where
  "conn_at i s \<equiv> (sy_conns s ! i, sy_transport s)"

inductive serial_step :: "(string \<Rightarrow> digest) \<Rightarrow> serial_system \<Rightarrow> serial_system \<Rightarrow> bool" for sha256 where
  ConnectBegin: "connect_begin ctx (sy_transport s) = Some (t, nil_err) \<Longrightarrow>
    serial_step sha256 s (s\<lparr>sy_transport := t, sy_connecting := True\<rparr>)"
| ConnectFailed: "sy_connecting s \<Longrightarrow> connect_end ctx b (sy_transport s) = (t, closed, Inl err) \<Longrightarrow>
    serial_step sha256 s (s\<lparr>sy_transport := t, sy_connecting := False\<rparr>)"
| Connected: "sy_connecting s \<Longrightarrow> connect_end ctx b (sy_transport s) = (t, closed, Inr c) \<Longrightarrow>
    serial_step sha256 s (s\<lparr>sy_transport := t, sy_conns := sy_conns s @ [c], sy_connecting := False\<rparr>)"
| WriteBegin: "i < length (sy_conns s) \<Longrightarrow>
    write_begin sha256 now ctx later_err msg (conn_at i s) = Some (ct, begun) \<Longrightarrow>
    serial_step sha256 s (put_conn i ct s)"
| WriteEnd: "i < length (sy_conns s) \<Longrightarrow>
    serial_step sha256 s (put_conn i (write_end sha256 now enforced msg result err (conn_at i s)) s)"
| ReadEnd: "i < length (sy_conns s) \<Longrightarrow>
    read_end sha256 now ctx wr read (conn_at i s) = Some (ct, out) \<Longrightarrow>
    serial_step sha256 s (put_conn i ct s)"
| Close: "i < length (sy_conns s) \<Longrightarrow>
    serial_step sha256 s (put_conn i (fst (serial_Close now (conn_at i s))) s)"
| Retire: "i < length (sy_conns s) \<Longrightarrow>
    serial_step sha256 s (put_conn i (fst (RetireResponseDeadline now (conn_at i s))) s)"
| Observed: "serial_step sha256 s (s\<lparr>sy_transport := (sy_transport s)
    \<lparr>st_observation := map_option (\<lambda>ob. observe sha256 ob ev) (st_observation (sy_transport s))\<rparr>\<rparr>)"

inductive serial_reach :: "(string \<Rightarrow> digest) \<Rightarrow> serial_system \<Rightarrow> serial_system \<Rightarrow> bool" for sha256 s0 where
  Start: "serial_reach sha256 s0 s0"
| Step: "serial_reach sha256 s0 s \<Longrightarrow> serial_step sha256 s s' \<Longrightarrow> serial_reach sha256 s0 s'"

section \<open>What every action keeps\<close>

definition transport_ok :: "serial_transport \<Rightarrow> bool" where
  "transport_ok t \<longleftrightarrow> distinct (st_retiredResponseIDs t) \<and> NoId \<notin> set (st_retiredResponseIDs t) \<and>
     length (st_retiredResponseIDs t) \<le> maxRetiredResponseIDs \<and>
     (st_initializationReady t \<longrightarrow> st_initializeSucceeded t)"

definition conn_ok :: "serial_state \<Rightarrow> bool" where
  "conn_ok ct \<longleftrightarrow> (let (c, t) = ct in
     (sc_lockHeld c \<longrightarrow> st_slot t \<and>
        (sc_awaitingResponse c \<longrightarrow> sc_expectedID c \<noteq> NoId \<and> sc_expectedID c \<notin> set (st_retiredResponseIDs t))) \<and>
     (\<not> sc_lockHeld c \<longrightarrow> \<not> sc_awaitingResponse c \<and> \<not> sc_writeStarted c))"

definition slot_step :: "serial_state \<Rightarrow> serial_state \<Rightarrow> bool" where
  "slot_step ct ct' \<longleftrightarrow>
     sc_lockHeld (fst ct') = sc_lockHeld (fst ct) \<and> st_slot (snd ct') = st_slot (snd ct) \<or>
     sc_lockHeld (fst ct) \<and> \<not> sc_lockHeld (fst ct') \<and> \<not> st_slot (snd ct') \<or>
     \<not> sc_lockHeld (fst ct) \<and> sc_lockHeld (fst ct') \<and> \<not> st_slot (snd ct) \<and> st_slot (snd ct')"

definition retired_step :: "serial_state \<Rightarrow> serial_state \<Rightarrow> bool" where
  "retired_step ct ct' \<longleftrightarrow> sc_lockHeld (fst ct) \<or>
     set (st_retiredResponseIDs (snd ct')) \<subseteq> set (st_retiredResponseIDs (snd ct))"

definition action_ok :: "serial_state \<Rightarrow> serial_state \<Rightarrow> bool" where
  "action_ok ct ct' \<longleftrightarrow> transport_ok (snd ct') \<and> conn_ok ct' \<and> slot_step ct ct' \<and> retired_step ct ct'"

text \<open>An update that touches neither the slot, the request nor the tombstones.\<close>

definition quiet :: "serial_state \<Rightarrow> serial_state \<Rightarrow> bool" where
  "quiet ct ct' \<longleftrightarrow> sc_lockHeld (fst ct') = sc_lockHeld (fst ct) \<and> st_slot (snd ct') = st_slot (snd ct) \<and>
     sc_writeStarted (fst ct') = sc_writeStarted (fst ct) \<and>
     sc_awaitingResponse (fst ct') = sc_awaitingResponse (fst ct) \<and>
     sc_expectedID (fst ct') = sc_expectedID (fst ct) \<and>
     st_retiredResponseIDs (snd ct') = st_retiredResponseIDs (snd ct) \<and>
     (transport_ok (snd ct) \<longrightarrow> transport_ok (snd ct'))"

lemma conn_ok_alt: "conn_ok ct \<longleftrightarrow>
   (if sc_lockHeld (fst ct) then st_slot (snd ct) \<and> (sc_awaitingResponse (fst ct) \<longrightarrow>
        sc_expectedID (fst ct) \<noteq> NoId \<and> sc_expectedID (fst ct) \<notin> set (st_retiredResponseIDs (snd ct)))
    else \<not> sc_awaitingResponse (fst ct) \<and> \<not> sc_writeStarted (fst ct))"
  by (cases ct) (simp add: conn_ok_def)

lemma quiet_refl [simp]: "quiet ct ct"
  by (simp add: quiet_def)

lemma quiet_trans: "quiet a b \<Longrightarrow> quiet b c \<Longrightarrow> quiet a c"
  by (auto simp: quiet_def)

lemma quiet_ok: "quiet ct ct' \<Longrightarrow> transport_ok (snd ct) \<Longrightarrow> conn_ok ct \<Longrightarrow> action_ok ct ct'"
  by (simp add: quiet_def action_ok_def conn_ok_alt slot_step_def retired_step_def)

lemma quiet_before: "quiet a b \<Longrightarrow> action_ok b c \<Longrightarrow> action_ok a c"
  by (auto simp: quiet_def action_ok_def slot_step_def retired_step_def)

lemma quiet_keeps: "quiet a b \<Longrightarrow> conn_ok a = conn_ok b" "quiet a b \<Longrightarrow> transport_ok (snd a) \<Longrightarrow> transport_ok (snd b)"
  by (simp_all add: quiet_def conn_ok_alt)

lemma release_facts [simp]:
  "\<not> sc_lockHeld (fst (release ct))"
  "st_slot (snd (release ct)) = (st_slot (snd ct) \<and> \<not> sc_lockHeld (fst ct))"
  "sc_awaitingResponse (fst (release ct)) = (sc_awaitingResponse (fst ct) \<and> \<not> sc_lockHeld (fst ct))"
  "sc_writeStarted (fst (release ct)) = (sc_writeStarted (fst ct) \<and> \<not> sc_lockHeld (fst ct))"
  "st_retiredResponseIDs (snd (release ct)) = st_retiredResponseIDs (snd ct)"
  "st_initializationReady (snd (release ct)) = st_initializationReady (snd ct)"
  "st_initializeSucceeded (snd (release ct)) = st_initializeSucceeded (snd ct)"
  by (simp_all add: release_def markReleased_def releaseLifecycle_def clearLifecycleStateLocked_def Let_def)

lemma release_ok: "transport_ok (snd ct) \<Longrightarrow> conn_ok ct \<Longrightarrow> action_ok ct (release ct)"
  by (simp add: action_ok_def conn_ok_alt slot_step_def retired_step_def transport_ok_def split: if_splits)

lemma quiet_release:
  "quiet a b \<Longrightarrow> transport_ok (snd a) \<Longrightarrow> conn_ok a \<Longrightarrow> action_ok a (release b)"
  using quiet_before release_ok quiet_keeps by blast

lemma quiet_transport:
  "quiet (c, t) (c, resetInitialization t)" "quiet (c, t) (c, resetInitializedNotification t)"
  "quiet (c, t) (c, reset_handshake t)" "quiet (c, t) (c, markInitializationReady t)"
  "quiet (c, t) (c, markInitializeSucceeded t)" "quiet (c, t) (c, initialized_written t)"
  "quiet (c, t) (c, observation_child_closed g r n t)" "quiet (c, t) (c, t\<lparr>st_observation := x\<rparr>)"
  by (auto simp: quiet_def transport_ok_def resetInitialization_def resetInitializedNotification_def
      reset_handshake_def markInitializationReady_def markInitializeSucceeded_def initialized_written_def
      markInitializedNotificationSent_def observation_child_closed_def)

lemma quiet_conn:
  "quiet (c, t) (markWriteCompleted b c, t)" "quiet (c, t) (markDeadlineRetirableWithoutResponse b c, t)"
  "quiet (c, t) (signalObservedWriteLocked c, t)" "quiet (c, t) (c\<lparr>sc_writeCompleted := b\<rparr>, t)"
  "quiet (c, t) (c\<lparr>sc_selfContainedRequest := b, sc_selfContainedVersion := v\<rparr>, t)"
  "quiet (c, t) (c\<lparr>sc_observationToken := k\<rparr>, t)"
  by (auto simp: quiet_def markWriteCompleted_def markDeadlineRetirableWithoutResponse_def signalObservedWriteLocked_def)

lemma quiet_current:
  assumes "\<And>c t. quiet (c, t) (c, f t)"
  shows "quiet ct (withCurrentGeneration f ct)"
  using assms [of "fst ct" "snd ct"] by (simp add: withCurrentGeneration_def)

lemmas quiet_rules = quiet_transport quiet_conn quiet_current [OF quiet_transport(1)]
  quiet_current [OF quiet_transport(2)] quiet_current [OF quiet_transport(3)]
  quiet_current [OF quiet_transport(4)] quiet_current [OF quiet_transport(5)] quiet_current [OF quiet_transport(6)]

lemma quiet_closed:
  assumes "quiet ct (c, t)"
  shows "quiet ct (c, observation_child_closed g r n t)"
  using quiet_trans [OF assms quiet_transport(7)] .

lemma quiet_completeObservedWrite: "quiet ct (completeObservedWrite sha256 now msg b a ct)"
proof -
  obtain c t where ct: "ct = (c, t)" by (cases ct)
  have "quiet (c, t) (signalObservedWriteLocked (c\<lparr>sc_observationToken := k, sc_writeCompleted := d\<rparr>), t\<lparr>st_observation := x\<rparr>)"
    "quiet (c, t) (signalObservedWriteLocked (c\<lparr>sc_observationToken := k, sc_writeCompleted := d\<rparr>), t)"
    "quiet (c, t) (signalObservedWriteLocked (c\<lparr>sc_writeCompleted := d\<rparr>), t)" for k x d
    by (simp_all add: quiet_def signalObservedWriteLocked_def transport_ok_def)
  then show ?thesis
    unfolding ct completeObservedWrite_def
    by (auto simp: Let_def split: prod.splits option.splits rpc_message.splits if_splits)
qed

subsection \<open>Aliases\<close>

lemma alias_id_inj: "alias_id m = alias_id n \<longleftrightarrow> m = n"
proof -
  have "show_nat (unat m) = show_nat (unat n) \<Longrightarrow> unat m = unat n"
    using digits_value_show_nat by metis
  then show ?thesis by (auto simp: alias_id_def word_unat_eq_iff)
qed

lemma alias_id_valid: "alias_id n \<noteq> NoId"
  by (simp add: alias_id_def)

lemma next_alias_fresh: "next_alias caller retired n = (m, Inr i) \<Longrightarrow> i \<noteq> caller \<and> i \<notin> set retired \<and> i = alias_id m \<and> n < m"
proof (induction caller retired n rule: next_alias.induct)
  case (1 caller retired n)
  then have n: "n \<noteq> - 1" by (auto simp: next_alias.simps [of caller retired n])
  then have less: "n < n + 1" by (simp add: word_less_nat_alt unat_inc)
  show ?case
  proof (cases "alias_id (n + 1) = caller \<or> alias_id (n + 1) \<in> set retired")
    case True
    with 1 n less show ?thesis
      by (auto simp: next_alias.simps [of caller retired n] split: if_splits)
  next
    case False
    with 1(2) n less show ?thesis by (auto simp: next_alias.simps [of caller retired n])
  qed
qed

text \<open>Each try that fails uses up one identifier of \<open>caller # retired\<close>.\<close>

lemma next_alias_found:
  assumes "set bad \<subseteq> set retired \<union> {caller}" and "distinct bad"
    and "\<And>j. n < j \<Longrightarrow> alias_id j \<in> set retired \<union> {caller} \<Longrightarrow> alias_id j \<in> set bad"
    and "unat n + length bad + 1 < 2 ^ 64"
  shows "\<exists>m i. next_alias caller retired n = (m, Inr i) \<and> unat m \<le> unat n + length bad + 1"
  using assms
proof (induction "length bad" arbitrary: bad n)
  case 0
  have n: "n \<noteq> - 1" using 0(5) by (auto simp: unsigned_minus_1_eq_mask mask_eq_exp_minus_1)
  have "alias_id (n + 1) \<notin> set retired \<union> {caller}"
    using 0(1) 0(4) [of "n + 1"] unat_inc [OF n] by (auto simp: word_less_nat_alt)
  then show ?case
    using n by (auto simp: next_alias.simps [of caller retired n] unat_inc)
next
  case (Suc k)
  have n: "n \<noteq> - 1" using Suc(6) by (auto simp: unsigned_minus_1_eq_mask mask_eq_exp_minus_1)
  have less: "n < n + 1" using unat_inc [OF n] by (simp add: word_less_nat_alt)
  show ?case
  proof (cases "alias_id (n + 1) \<in> set retired \<union> {caller}")
    case True
    let ?bad = "remove1 (alias_id (n + 1)) bad"
    have mem: "alias_id (n + 1) \<in> set bad" using Suc(5) [OF less True] .
    have len: "k = length ?bad" using Suc(2) mem by (simp add: length_remove1)
    have "\<exists>m i. next_alias caller retired (n + 1) = (m, Inr i) \<and> unat m \<le> unat (n + 1) + length ?bad + 1"
    proof (rule Suc(1) [OF len])
      show "set ?bad \<subseteq> set retired \<union> {caller}" "distinct ?bad"
        using Suc(3,4) by (auto dest: notin_set_remove1)
      show "unat (n + 1) + length ?bad + 1 < 2 ^ 64" using Suc(2,6) len unat_inc [OF n] by simp
      fix j
      assume j: "n + 1 < j" "alias_id j \<in> set retired \<union> {caller}"
      then have "alias_id j \<in> set bad" using Suc(5) [of j] less by auto
      then show "alias_id j \<in> set ?bad" using Suc(4) j(1) by (auto simp: alias_id_inj)
    qed
    then show ?thesis
      using True n len Suc(2) by (auto simp: next_alias.simps [of caller retired n] unat_inc)
  next
    case False
    then show ?thesis using n by (auto simp: next_alias.simps [of caller retired n] unat_inc)
  qed
qed

lemma wireResponseID_facts:
  assumes "wireResponseID callerID t = (t', r)"
  shows "st_slot t' = st_slot t" "st_retiredResponseIDs t' = st_retiredResponseIDs t"
    "transport_ok t \<Longrightarrow> transport_ok t'" "r = Inr i \<Longrightarrow> i \<notin> set (st_retiredResponseIDs t) \<or> i = NoId"
    "r = Inr i \<Longrightarrow> callerID \<noteq> NoId \<Longrightarrow> i \<noteq> NoId"
    "st_requireInitialization t' = st_requireInitialization t"
    "st_initializationReady t' = st_initializationReady t"
proof -
  show "r = Inr i \<Longrightarrow> i \<notin> set (st_retiredResponseIDs t) \<or> i = NoId" "r = Inr i \<Longrightarrow> callerID \<noteq> NoId \<Longrightarrow> i \<noteq> NoId"
    using assms by (auto simp: wireResponseID_def alias_id_def dest!: next_alias_fresh split: if_splits prod.splits)
qed (use assms in \<open>auto simp: wireResponseID_def transport_ok_def split: if_splits prod.splits\<close>)

subsection \<open>The calls\<close>

lemma start_write_facts [simp]:
  "sc_lockHeld (start_write er ci ei m t c)" "sc_awaitingResponse (start_write er ci ei m t c) = er"
  "sc_expectedID (start_write er ci ei m t c) = ei" "sc_writeStarted (start_write er ci ei m t c)"
  "sc_requestMethod (start_write er ci ei m t c) = m"
  by (simp_all add: start_write_def Let_def)

lemma acquireLifecycle_cases:
  assumes "acquireLifecycle e t = Some (t', err)"
  shows "err \<noteq> nil_err \<and> t' = t \<or> err = nil_err \<and> \<not> st_slot t \<and> t' = t\<lparr>st_slot := True\<rparr>"
  using assms by (auto simp: acquireLifecycle_def split: if_splits)

lemma give_back_ok:
  assumes "transport_ok t" and "conn_ok (c, t)" and "transport_ok t'" and "st_slot t'"
    and "st_retiredResponseIDs t' = st_retiredResponseIDs t"
    and "if reuse then sc_lockHeld c \<and> \<not> sc_writeStarted c else \<not> st_slot t"
  shows "action_ok (c, t) (give_back reuse (c, t'))"
  using assms
  by (auto simp: give_back_def action_ok_def conn_ok_alt slot_step_def retired_step_def releaseLifecycle_def
      transport_ok_def split: if_splits)

lemma serial_acquire_ok:
  assumes "transport_ok t" and "conn_ok (c, t)"
    and "serial_acquire e expectResponse callerID m (c, t) = Some (ct', r)" and "expectResponse \<longleftrightarrow> callerID \<noteq> NoId"
  shows "action_ok (c, t) ct'"
proof -
  define reuse where "reuse \<longleftrightarrow> sc_lockHeld c \<and> \<not> sc_writeStarted c"
  obtain t1 err where acq: "(if reuse then Some (t, nil_err) else acquireLifecycle e t) = Some (t1, err)"
    using assms(3) by (auto simp: serial_acquire_def Let_def reuse_def split: option.splits)
  show ?thesis
  proof (cases "err = nil_err")
    case False
    then have "ct' = (c, t)"
      using acq acquireLifecycle_cases assms(3)
      by (fastforce simp: serial_acquire_def Let_def reuse_def split: if_splits option.splits)
    then show ?thesis using quiet_ok [OF quiet_refl] assms(1,2) by simp
  next
    case True
    have t1: "st_slot t1" "st_retiredResponseIDs t1 = st_retiredResponseIDs t" "transport_ok t1"
      "if reuse then t1 = t \<and> sc_lockHeld c \<and> \<not> sc_writeStarted c else \<not> st_slot t \<and> \<not> sc_lockHeld c"
      using acq True assms(1,2) acquireLifecycle_cases [of e t t1 err]
      by (auto simp: reuse_def conn_ok_alt transport_ok_def split: if_splits)
    obtain t2 w where w: "(if expectResponse then wireResponseID callerID t1 else (t1, Inr callerID)) = (t2, w)"
      by fastforce
    have t2: "st_slot t2" "st_retiredResponseIDs t2 = st_retiredResponseIDs t" "transport_ok t2"
      "\<And>i. w = Inr i \<Longrightarrow> expectResponse \<Longrightarrow> i \<noteq> NoId \<and> i \<notin> set (st_retiredResponseIDs t2)"
      using w t1 wireResponseID_facts [of callerID t1 t2 w] assms(4) by (auto split: if_splits)
    consider "ct' = give_back reuse (c, t1)" | "ct' = give_back reuse (c, t2)"
      | i where "w = Inr i" "ct' = (start_write expectResponse callerID i m t2 c, t2)"
      using assms(3) acq True w
      by (auto simp: serial_acquire_def Let_def reuse_def [symmetric] split: if_splits sum.splits prod.splits)
    then show ?thesis
    proof cases
      case 1
      then show ?thesis using give_back_ok [OF assms(1,2), of t1 reuse] t1 by (auto split: if_splits)
    next
      case 2
      then show ?thesis using give_back_ok [OF assms(1,2), of t2 reuse] t1 t2 by (auto split: if_splits)
    next
      case (3 i)
      then show ?thesis
        using t1(4) t2 assms(2)
        by (auto simp: action_ok_def conn_ok_alt slot_step_def retired_step_def split: if_splits)
    qed
  qed
qed

lemma action_quiet: "action_ok a b \<Longrightarrow> quiet b d \<Longrightarrow> action_ok a d"
  by (simp add: quiet_def action_ok_def conn_ok_alt slot_step_def retired_step_def)

lemma action_release: "action_ok a b \<Longrightarrow> action_ok a (release b)"
  by (auto simp: action_ok_def conn_ok_alt slot_step_def retired_step_def transport_ok_def split: if_splits)

lemma expectedResponse_id: "expectedResponse msg = (er, i, m) \<Longrightarrow> er \<longleftrightarrow> i \<noteq> NoId"
  by (auto simp: expectedResponse_def split: rpc_message.splits)

lemma write_begin_ok:
  assumes "transport_ok t" and "conn_ok (c, t)"
    and "write_begin sha256 now ctx later msg (c, t) = Some (ct', out)"
  shows "action_ok (c, t) ct'"
proof -
  obtain er i m where e: "expectedResponse msg = (er, i, m)" by (metis prod_cases3)
  show ?thesis
  proof (cases "sc_base c")
    case False
    then show ?thesis using assms release_ok [of "(c, t)"] by (simp add: write_begin_def)
  next
    case True
    obtain c1 t1 r where acq: "serial_acquire (cx_err ctx) er i m (c, t) = Some ((c1, t1), r)"
      using assms(3) True e by (auto simp: write_begin_def split: option.splits)
    have a: "action_ok (c, t) (c1, t1)"
      using serial_acquire_ok [OF assms(1,2) acq expectedResponse_id [OF e]] .
    have q1: "action_ok (c, t) (completeObservedWrite sha256 now msg False False (c1, t1))"
      using action_quiet [OF a quiet_completeObservedWrite] .
    define c2 where "c2 = (\<lambda>b v. c1\<lparr>sc_selfContainedRequest := b, sc_selfContainedVersion := v\<rparr>)"
    have q2: "action_ok (c, t) (c2 b v, t1)" for b v
      unfolding c2_def using action_quiet [OF a quiet_conn(5)] .
    have q3: "action_ok (c, t) (markDeadlineRetirableWithoutResponse True (c2 b v), t1)" for b v
      using action_quiet [OF q2 quiet_conn(2)] .
    have q4: "action_ok (c, t) (withCurrentGeneration resetInitializedNotification (c2 b v, t1))" for b v
      using action_quiet [OF q2 quiet_current [OF quiet_transport(2)]] .
    have q5: "action_ok (c, t) (markDeadlineRetirableWithoutResponse True (markWriteCompleted True c'), t')"
      if "action_ok (c, t) (c', t')" for c' t'
      using action_quiet [OF action_quiet [OF that quiet_conn(1)] quiet_conn(2)] .
    have q6: "action_ok (c, t) (markDeadlineRetirableWithoutResponse True (markWriteCompleted True c'), t')"
      if "withCurrentGeneration resetInitializedNotification (c2 b v, t1) = (c', t')" for b v c' t'
      using q5 q4 that by metis
    show ?thesis
      using assms(3) True e acq a q1 q2 q3 q4 q5 [OF q2] q6
      by (auto simp: write_begin_def Let_def c2_def intro!: action_release split: sum.splits prod.splits if_splits option.splits)
  qed
qed

lemma write_end_ok:
  assumes "transport_ok (snd ct)" and "conn_ok ct"
  shows "action_ok ct (write_end sha256 now enforced msg result err ct)"
proof -
  obtain er i m where e: "expectedResponse msg = (er, i, m)" by (metis prod_cases3)
  define sc where "sc = (st_requireInitialization (snd ct) \<and> isSelfContainedMCPRequest msg)"
  define c1 where "c1 = (if write_accepted result err \<and> st_requireInitialization (snd ct) \<and> \<not> sc then
      (if m = ''initialize'' then withCurrentGeneration reset_handshake ct
       else if \<not> er \<and> m = initializedNotificationMethod
       then withCurrentGeneration markInitializationReady ct else ct) else ct)"
  define c2 where "c2 = completeObservedWrite sha256 now msg (err = nil_err)
      (wr_preserved result = None \<and> wr_status result < 400) c1"
  define c3 where "c3 = (let (c, t) = withCurrentGeneration reset_handshake c2
      in (c, observation_child_closed (sc_observationGeneration c) ''stdio_write_failed'' now t))"
  have q1: "quiet ct c1" unfolding c1_def using quiet_current quiet_transport by auto
  then have q2: "quiet ct c2" unfolding c2_def using quiet_trans quiet_completeObservedWrite by blast
  have "quiet c2 c3"
    unfolding c3_def Let_def
    using quiet_closed [of c2] quiet_current [OF quiet_transport(3), of c2] by (auto split: prod.splits)
  then have q3: "quiet ct c3" using q2 quiet_trans by blast
  have q4: "quiet ct (markDeadlineRetirableWithoutResponse b (fst d), snd d)" if "quiet ct d" for b d
    using quiet_trans [OF that, of "(markDeadlineRetirableWithoutResponse b (fst d), snd d)"] quiet_conn(2) [of "fst d" "snd d"]
    by simp
  have "write_end sha256 now enforced msg result err ct \<in>
      {c2, c3, release (markDeadlineRetirableWithoutResponse (err = nil_err) (fst c2), snd c2),
       release (markDeadlineRetirableWithoutResponse (err = nil_err) (fst c3), snd c3), release c2, release c3}"
    unfolding write_end_def e Let_def prod.case c3_def c2_def c1_def sc_def by (simp split: prod.splits)
  then show ?thesis
    by (elim insertE emptyE) (simp_all add: quiet_ok [OF q2 assms] quiet_ok [OF q3 assms]
        quiet_release [OF q2 assms] quiet_release [OF q3 assms]
        quiet_release [OF q4 [OF q2] assms] quiet_release [OF q4 [OF q3] assms])
qed

lemma shouldDrop_ok:
  assumes "transport_ok t" and "conn_ok (c, t)" and "shouldDropRetiredMessage msg t = (t', dropped)"
  shows "action_ok (c, t) (c, t')" "\<not> dropped \<Longrightarrow> t' = t" "set (st_retiredResponseIDs t') \<subseteq> set (st_retiredResponseIDs t)"
  using assms
  by (auto simp: shouldDropRetiredMessage_def consumeRetiredResponseID_def action_ok_def conn_ok_alt slot_step_def
      retired_step_def transport_ok_def intro: order.trans [OF length_filter_le] split: rpc_message.splits if_splits)

lemma quiet_observeRead: "quiet ct (observeRead sha256 now msg ct)"
  by (auto simp: observeRead_def Let_def quiet_transport(8) split: prod.splits option.splits rpc_message.splits)

lemma release_after_read_ok:
  assumes "transport_ok (snd ct)" and "conn_ok ct" and "shouldReleaseAfterRead msg (fst ct) = (c', rel)"
  shows "action_ok ct (if rel then release (c', snd ct) else (c', snd ct))"
  using assms quiet_ok [OF quiet_refl, of ct]
  by (cases ct) (auto simp: shouldReleaseAfterRead_def action_ok_def conn_ok_alt slot_step_def retired_step_def
      transport_ok_def split: if_splits rpc_message.splits)

lemma read_message_ok:
  assumes "transport_ok (snd ct)" and "conn_ok ct"
    and "read_message sha256 now ctx_done wr msg ct = Some (ct', out)"
  shows "action_ok ct ct'"
proof -
  obtain observed where ob: "awaitObservedWrite ctx_done (fst ct) = Some observed"
    using assms(3) by (auto simp: read_message_def split: option.splits)
  define c1 where "c1 = note_response sha256 now observed msg ct"
  have q1: "quiet ct c1"
    unfolding c1_def note_response_def Let_def
    using quiet_observeRead quiet_trans [OF quiet_observeRead quiet_current [OF quiet_transport(5)]]
    by auto
  define ensure where "ensure = shouldEnsureInitializedNotification msg c1"
  have a2: "action_ok ct (fail_initialized now c1)"
    unfolding fail_initialized_def Let_def
    using quiet_release [OF quiet_closed [of ct] assms(1,2)] quiet_trans [OF q1 quiet_current [OF quiet_transport(1)]]
    by (auto split: prod.splits)
  define c3 where "c3 = (if ensure then withCurrentGeneration initialized_written c1 else c1)"
  have q3: "quiet ct c3"
    unfolding c3_def using q1 quiet_trans [OF q1 quiet_current [OF quiet_transport(6)]] by simp
  obtain c' rel where r: "shouldReleaseAfterRead msg (fst c3) = (c', rel)" by fastforce
  have "ct' \<in> {fail_initialized now c1, release c3, if rel then release (c', snd c3) else (c', snd c3)}"
    using assms(3) r unfolding read_message_def ob option.case c1_def [symmetric] Let_def
      ensure_def [symmetric] c3_def [symmetric] by (auto split: if_splits prod.splits)
  moreover have "action_ok ct (if rel then release (c', snd c3) else (c', snd c3))"
    using quiet_before [OF q3 release_after_read_ok [OF quiet_keeps(2) [OF q3 assms(1)] _ r]]
      quiet_keeps(1) [OF q3] assms(2) by blast
  ultimately show ?thesis
    using a2 quiet_release [OF q3 assms(1,2)] by (elim insertE emptyE) simp_all
qed

lemma read_end_ok:
  assumes "transport_ok t" and "conn_ok (c, t)"
    and "read_end sha256 now ctx wr result (c, t) = Some (ct', out)"
  shows "action_ok (c, t) ct'"
proof -
  define c2 where "c2 = (let (c, t) = withCurrentGeneration resetInitialization (c, t)
      in (c, observation_child_closed (sc_observationGeneration c) ''stdio_read_failed'' now t))"
  have q2: "quiet (c, t) c2"
    unfolding c2_def Let_def
    using quiet_closed quiet_current [OF quiet_transport(1), of "(c, t)"] by (auto split: prod.splits)
  have rel: "action_ok (c, t) (release (c, t))" "action_ok (c, t) (release c2)" "action_ok (c, t) (c, t)"
    using release_ok quiet_release [OF q2] quiet_ok [OF quiet_refl] assms(1,2) by simp_all
  show ?thesis
  proof (cases "sc_base c \<and> currentGeneration (c, t) \<and> (\<exists>msg. result = Inr (Some msg))")
    case True
    then obtain msg where msg: "result = Inr (Some msg)" by blast
    obtain t' d where d: "shouldDropRetiredMessage msg t = (t', d)" by fastforce
    show ?thesis
      using assms True msg d shouldDrop_ok [OF assms(1,2) d] read_message_ok [of "(c, t)"]
      by (cases d) (auto simp: read_end_def)
  next
    case False
    then have "ct' \<in> {release (c, t), release c2, (c, t)}"
      using assms(3) by (auto simp: read_end_def c2_def split: sum.splits option.splits if_splits prod.splits)
    then show ?thesis using rel by (elim insertE emptyE) simp_all
  qed
qed

lemma serial_Close_ok:
  assumes "transport_ok t" and "conn_ok (c, t)"
  shows "action_ok (c, t) (fst (serial_Close now (c, t)))"
proof -
  define c2 where "c2 = (let (c, t) = withCurrentGeneration reset_handshake (c, t)
      in (c, observation_child_closed (sc_observationGeneration c) ''stdio_connection_closed'' now t))"
  have q2: "quiet (c, t) c2"
    unfolding c2_def Let_def
    using quiet_closed quiet_current [OF quiet_transport(3), of "(c, t)"] by (auto split: prod.splits)
  have "fst (serial_Close now (c, t)) \<in> {release (c, t), (c, t), release c2}"
    by (auto simp: serial_Close_def c2_def split: prod.splits)
  then show ?thesis
    using release_ok quiet_release [OF q2] quiet_ok [OF quiet_refl] assms by (elim insertE emptyE) simp_all
qed

lemma releaseRetired_ok: "action_ok a b \<Longrightarrow> action_ok a (releaseRetired b)"
  by (auto simp: releaseRetired_def Let_def releaseLifecycle_def clearLifecycleStateLocked_def action_ok_def conn_ok_alt
      slot_step_def retired_step_def transport_ok_def)

lemma quiet_retire_observed: "quiet ct (retire_observed now ct)"
  by (auto simp: retire_observed_def Let_def quiet_transport(8) split: prod.splits)

lemma quiet_beginDeadlineRetirement: "beginDeadlineRetirement c = (c', r) \<Longrightarrow> quiet (c, t) (c', t)"
  by (auto simp: beginDeadlineRetirement_def quiet_def split: if_splits)

lemma track_facts:
  "beginDeadlineRetirement c = (c', TrackResponse i) \<Longrightarrow>
   sc_lockHeld c \<and> sc_writeCompleted c \<and> sc_awaitingResponse c \<and> i = sc_expectedID c \<and> i \<noteq> NoId \<and>
   sc_requestMethod c \<noteq> ''initialize'' \<and> c' = c\<lparr>sc_retired := True\<rparr>"
  by (auto simp: beginDeadlineRetirement_def split: if_splits)

lemma retireResponseID_facts:
  assumes "retireResponseID i t = (t', tracked)"
  shows "st_slot t' = st_slot t" "transport_ok t \<Longrightarrow> transport_ok t'"
    "tracked \<Longrightarrow> i \<in> set (st_retiredResponseIDs t')" "\<not> tracked \<Longrightarrow> t' = t"
    "set (st_retiredResponseIDs t') \<subseteq> insert i (set (st_retiredResponseIDs t))"
    "st_retireOnDeadline t' = st_retireOnDeadline t"
  using assms by (auto simp: retireResponseID_def transport_ok_def split: if_splits)

text \<open>The tombstone is set before the slot is free, so no other request is under way.\<close>

lemma releaseRetired_tracked:
  assumes "transport_ok t'" and "sc_lockHeld c" and "st_slot t" and "st_slot t'"
  shows "action_ok (c, t) (releaseRetired (c\<lparr>sc_retired := True\<rparr>, t'))"
  using assms
  by (simp add: releaseRetired_def Let_def releaseLifecycle_def clearLifecycleStateLocked_def action_ok_def conn_ok_alt
      slot_step_def retired_step_def transport_ok_def)

lemma RetireResponseDeadline_ok:
  assumes "transport_ok t" and "conn_ok (c, t)"
  shows "action_ok (c, t) (fst (RetireResponseDeadline now (c, t)))"
proof -
  have refl: "action_ok (c, t) (c, t)" using quiet_ok [OF quiet_refl] assms by simp
  obtain c' r where b: "beginDeadlineRetirement c = (c', r)" by fastforce
  have a: "action_ok (c, t) (c', t)"
    using quiet_ok [OF quiet_beginDeadlineRetirement [OF b]] assms by simp
  have released: "action_ok (c, t) (releaseRetired (retire_observed now (c', t)))"
    by (rule releaseRetired_ok) (rule action_quiet [OF a quiet_retire_observed])
  have track: "action_ok (c, t) (if tracked then releaseRetired (retire_observed now (c', t'))
      else (cancelDeadlineRetirement c', t'))"
    if "r = TrackResponse i" and re: "retireResponseID i t = (t', tracked)" for i t' tracked
  proof (cases tracked)
    case True
    note f = track_facts [OF b [unfolded that(1)]]
    have "action_ok (c, t) (releaseRetired (c', t'))"
      using releaseRetired_tracked [of t' c t] retireResponseID_facts [OF re] f assms by (simp add: conn_ok_alt)
    moreover have "quiet (releaseRetired (c', t')) (releaseRetired (retire_observed now (c', t')))"
      by (auto simp: retire_observed_def Let_def releaseRetired_def quiet_def releaseLifecycle_def transport_ok_def)
    ultimately show ?thesis using True action_quiet by simp
  next
    case False
    then have "t' = t" using retireResponseID_facts [OF re] by simp
    moreover have "quiet (c', t) (cancelDeadlineRetirement c', t)"
      by (simp add: cancelDeadlineRetirement_def quiet_def)
    ultimately show ?thesis using False action_quiet [OF a] by simp
  qed
  have "action_ok (c, t) (fst (case retireResponseID i t of (t, tracked) \<Rightarrow>
      if tracked then (releaseRetired (retire_observed now (c', t)), True)
      else ((cancelDeadlineRetirement c', t), False)))" if "r = TrackResponse i" for i
    using track [OF that] by (cases "retireResponseID i t") (simp split: if_splits)
  then show ?thesis
    using refl a b released by (auto simp: RetireResponseDeadline_def Let_def split: retirement.splits)
qed

section \<open>The system\<close>

definition holds_slot :: "serial_system \<Rightarrow> nat \<Rightarrow> bool" where
  "holds_slot s i \<longleftrightarrow> i < length (sy_conns s) \<and> sc_lockHeld (sy_conns s ! i)"

definition serial_ok :: "serial_system \<Rightarrow> bool" where
  "serial_ok s \<longleftrightarrow> transport_ok (sy_transport s) \<and>
     (\<forall>i < length (sy_conns s). conn_ok (conn_at i s)) \<and>
     (\<forall>i. holds_slot s i \<longrightarrow> \<not> sy_connecting s \<and> (\<forall>j. holds_slot s j \<longrightarrow> j = i)) \<and>
     (st_slot (sy_transport s) \<longleftrightarrow> sy_connecting s \<or> (\<exists>i. holds_slot s i))"

lemma others_keep:
  assumes "serial_ok s" and "i < length (sy_conns s)" and "action_ok (conn_at i s) ct'"
    and "j < length (sy_conns s)" and "j \<noteq> i"
  shows "conn_ok (sy_conns s ! j, snd ct')"
proof -
  have j: "conn_ok (conn_at j s)" using assms(1,4) by (simp add: serial_ok_def)
  show ?thesis
  proof (cases "sc_lockHeld (sy_conns s ! j)")
    case True
    then have "\<not> sc_lockHeld (sy_conns s ! i)" "st_slot (sy_transport s)"
      using assms(1,2,4,5) j by (auto simp: serial_ok_def conn_ok_alt holds_slot_def)
    then have "st_slot (snd ct')"
        "set (st_retiredResponseIDs (snd ct')) \<subseteq> set (st_retiredResponseIDs (sy_transport s))"
      using assms(3) by (auto simp: action_ok_def slot_step_def retired_step_def)
    then show ?thesis using j True by (auto simp: conn_ok_alt)
  next
    case False
    then show ?thesis using j by (simp add: conn_ok_alt)
  qed
qed

lemma put_conn_ok:
  assumes "serial_ok s" and "i < length (sy_conns s)" and "action_ok (conn_at i s) ct'"
  shows "serial_ok (put_conn i ct' s)"
proof -
  let ?n = "length (sy_conns s)"
  have at: "conn_at j (put_conn i ct' s) = (if j = i then ct' else (sy_conns s ! j, snd ct'))" if "j < ?n" for j
    using that by (simp add: put_conn_def)
  have "conn_ok (conn_at j (put_conn i ct' s))" if "j < ?n" for j
    using that others_keep [OF assms] assms(3) at [OF that] by (auto simp: action_ok_def)
  moreover have "transport_ok (sy_transport (put_conn i ct' s))"
    using assms(3) by (simp add: action_ok_def put_conn_def)
  moreover have held: "holds_slot (put_conn i ct' s) j \<longleftrightarrow> (if j = i then sc_lockHeld (fst ct') else holds_slot s j)" for j
    using assms(2) by (simp add: put_conn_def holds_slot_def)
  have i: "holds_slot s i \<longleftrightarrow> sc_lockHeld (sy_conns s ! i)" using assms(2) by (simp add: holds_slot_def)
  have slot: "st_slot (sy_transport s) \<longleftrightarrow> sy_connecting s \<or> (\<exists>i. holds_slot s i)"
    and unique: "\<And>i j. holds_slot s i \<Longrightarrow> \<not> sy_connecting s \<and> (holds_slot s j \<longrightarrow> j = i)"
    using assms(1) by (auto simp: serial_ok_def)
  have step: "slot_step (conn_at i s) ct'" "conn_ok (conn_at i s)" "conn_ok ct'"
    using assms by (simp_all add: action_ok_def serial_ok_def)
  have "\<not> sy_connecting s \<and> (holds_slot (put_conn i ct' s) b \<longrightarrow> b = a)" if "holds_slot (put_conn i ct' s) a" for a b
    using that step(1) unique slot i by (auto simp: held slot_step_def split: if_splits)
  moreover have "st_slot (snd ct') \<longleftrightarrow> sy_connecting s \<or> (\<exists>j. holds_slot (put_conn i ct' s) j)"
  proof -
    have "(\<exists>j. holds_slot (put_conn i ct' s) j) \<longleftrightarrow> sc_lockHeld (fst ct') \<or> (\<exists>j. j \<noteq> i \<and> holds_slot s j)"
      by (auto simp: held)
    moreover have "(\<exists>j. j \<noteq> i \<and> holds_slot s j) \<longleftrightarrow> (\<exists>j. holds_slot s j) \<and> \<not> holds_slot s i"
      using unique by metis
    moreover have "holds_slot s i \<Longrightarrow> \<not> sy_connecting s" using unique by blast
    moreover have "st_slot (snd ct') \<longleftrightarrow> sc_lockHeld (fst ct') \<or> st_slot (sy_transport s) \<and> \<not> sc_lockHeld (sy_conns s ! i)"
      using step by (auto simp: slot_step_def conn_ok_alt split: if_splits)
    ultimately show ?thesis using slot i by blast
  qed
  ultimately show ?thesis by (simp add: serial_ok_def put_conn_def)
qed

lemma connect_end_facts:
  assumes "connect_end ctx b t = (t', closed, r)" and "transport_ok t"
  shows "transport_ok t'" "r = Inl err \<Longrightarrow> \<not> st_slot t' \<and> st_retiredResponseIDs t' = st_retiredResponseIDs t"
    "r = Inr c \<Longrightarrow> st_slot t' = st_slot t \<and> sc_lockHeld c \<and> \<not> sc_awaitingResponse c"
    "set (st_retiredResponseIDs t') \<subseteq> set (st_retiredResponseIDs t)"
  using assms
  by (auto simp: connect_end_def Let_def transport_ok_def releaseLifecycle_def resetInitialization_def
      transitionGeneration_def new_serial_conn_def split: if_splits)

lemma serial_step_ok:
  assumes "serial_ok s" and "serial_step sha256 s s'"
  shows "serial_ok s'"
  using assms(2,1)
proof (cases rule: serial_step.cases)
  case (ConnectBegin ctx t)
  then have "\<not> st_slot (sy_transport s)" "t = (sy_transport s)\<lparr>st_slot := True\<rparr>"
    by (auto simp: connect_begin_def dest!: acquireLifecycle_cases)
  then show ?thesis
    using assms(1) ConnectBegin(1) by (auto simp: serial_ok_def holds_slot_def conn_ok_alt transport_ok_def)
next
  case (ConnectFailed ctx b t closed err)
  note f = connect_end_facts [OF ConnectFailed(3)]
  have "\<not> holds_slot s i" for i using assms(1) ConnectFailed(2) by (auto simp: serial_ok_def)
  then show ?thesis
    using assms(1) ConnectFailed(1) f by (auto simp: serial_ok_def holds_slot_def conn_ok_alt)
next
  case (Connected ctx b t closed c)
  note f = connect_end_facts [OF Connected(3)]
  have none: "\<not> sc_lockHeld (sy_conns s ! i)" if "i < length (sy_conns s)" for i
    using assms(1) Connected(2) that by (auto simp: serial_ok_def holds_slot_def)
  then have "st_slot t" "transport_ok t" "sc_lockHeld c" "\<not> sc_awaitingResponse c"
    using assms(1) Connected(2) f by (auto simp: serial_ok_def)
  then show ?thesis
    using assms(1) none unfolding Connected(1)
    by (auto simp: serial_ok_def holds_slot_def conn_ok_alt nth_append less_Suc_eq split: if_splits)
next
  case (Observed ev)
  then show ?thesis using assms(1) by (auto simp: serial_ok_def holds_slot_def conn_ok_alt transport_ok_def)
qed (auto simp: serial_ok_def [of s] intro!: put_conn_ok [OF assms(1)] write_end_ok serial_Close_ok RetireResponseDeadline_ok
      intro: write_begin_ok read_end_ok)

lemma serial_reach_ok: "serial_reach sha256 s0 s \<Longrightarrow> serial_ok s0 \<Longrightarrow> serial_ok s"
  by (induction rule: serial_reach.induct) (auto intro: serial_step_ok)

lemma serial_start_ok:
  "transport_ok t \<Longrightarrow> \<not> st_slot t \<Longrightarrow> serial_ok (serial_start t)"
  by (simp add: serial_ok_def serial_start_def holds_slot_def)

definition serial_config :: "serial_transport \<Rightarrow> bool" where
  "serial_config t \<longleftrightarrow> (\<exists>r e a q ob. t = (newSerializedForwardingTransport r e a)
     \<lparr>st_requireInitialization := q, st_observation := ob\<rparr>)"

lemma serial_config_ok: "serial_config t \<Longrightarrow> transport_ok t \<and> \<not> st_slot t"
  by (auto simp: serial_config_def newSerializedForwardingTransport_def transport_ok_def)

lemma serial_configs:
  "serial_config NewSerializedForwardingTransport"
  "serial_config NewSerializedForwardingTransportWithDeadlineRetirement"
  "serial_config NewStdioDeadlineRetiringForwardingTransport"
  "serial_config NewStdioForwardingTransport"
  "serial_config (ObserveStdioForwardingTransport ob (NewStdioForwardingTransportWithOptions b))"
proof -
  have "serial_config (newSerializedForwardingTransport r e a)" for r e a
    unfolding serial_config_def
    by (rule exI [of _ r], rule exI [of _ e], rule exI [of _ a], rule exI [of _ False], rule exI [of _ None])
       (simp add: newSerializedForwardingTransport_def)
  then show "serial_config NewSerializedForwardingTransport"
    "serial_config NewSerializedForwardingTransportWithDeadlineRetirement"
    "serial_config NewStdioDeadlineRetiringForwardingTransport" "serial_config NewStdioForwardingTransport"
    by (simp_all add: NewSerializedForwardingTransport_def NewStdioForwardingTransport_def
        NewSerializedForwardingTransportWithDeadlineRetirement_def NewStdioDeadlineRetiringForwardingTransport_def)
  show "serial_config (ObserveStdioForwardingTransport ob (NewStdioForwardingTransportWithOptions b))"
    unfolding serial_config_def
    by (rule exI [of _ True], rule exI [of _ b], rule exI [of _ True], rule exI [of _ True], rule exI [of _ ob])
       (simp add: ObserveStdioForwardingTransport_def NewStdioForwardingTransportWithOptions_def
         newSerializedForwardingTransport_def)
qed

lemma serial_invariant: "serial_config t \<Longrightarrow> serial_reach sha256 (serial_start t) s \<Longrightarrow> serial_ok s"
  using serial_reach_ok serial_start_ok serial_config_ok by blast

section \<open>Running the system\<close>

datatype serial_action =
    DoConnect call_ctx base_connect
  | DoWrite nat rpc_message write_result goerr
  | DoRead nat "goerr + rpc_message option"
  | DoRetire nat

abbreviation live_ctx :: call_ctx where
  "live_ctx \<equiv> \<lparr>cx_err = nil_err, cx_enforced = True\<rparr>"

text \<open>Whole calls, one after the other, with live contexts; \<open>None\<close> where a call blocks or fails.\<close>

fun serial_do :: "(string \<Rightarrow> digest) \<Rightarrow> serial_action \<Rightarrow> serial_system \<Rightarrow> serial_system option" where
  "serial_do sha256 (DoConnect ctx b) s = (case connect_begin ctx (sy_transport s) of
     Some (t, []) \<Rightarrow>
       (case connect_end ctx b t of
          (t', _, Inr c) \<Rightarrow> Some (s\<lparr>sy_transport := t', sy_conns := sy_conns s @ [c], sy_connecting := False\<rparr>)
        | _ \<Rightarrow> None)
   | _ \<Rightarrow> None)"
| "serial_do sha256 (DoWrite i msg result err) s =
     (if i < length (sy_conns s) then
        (case write_begin sha256 0 live_ctx nil_err msg (conn_at i s) of
           Some (ct, ToBase _) \<Rightarrow>
             Some (put_conn i (write_end sha256 0 True msg result err (conn_at i (put_conn i ct s))) (put_conn i ct s))
         | _ \<Rightarrow> None)
      else None)"
| "serial_do sha256 (DoRead i result) s =
     (if i < length (sy_conns s) then
        (case read_end sha256 0 live_ctx (no_write_result, nil_err) result (conn_at i s) of
           Some (ct, _) \<Rightarrow> Some (put_conn i ct s) | None \<Rightarrow> None)
      else None)"
| "serial_do sha256 (DoRetire i) s =
     (if i < length (sy_conns s) then Some (put_conn i (fst (RetireResponseDeadline 0 (conn_at i s))) s) else None)"

fun serial_run :: "(string \<Rightarrow> digest) \<Rightarrow> serial_system \<Rightarrow> serial_action list \<Rightarrow> serial_system option" where
  "serial_run sha256 s [] = Some s"
| "serial_run sha256 s (a # as) = (case serial_do sha256 a s of None \<Rightarrow> None | Some s' \<Rightarrow> serial_run sha256 s' as)"

lemma serial_do_reach:
  assumes "serial_reach sha256 s0 s" and "serial_do sha256 a s = Some s'"
  shows "serial_reach sha256 s0 s'"
proof (cases a)
  case (DoConnect ctx b)
  then obtain t t' d c where c: "connect_begin ctx (sy_transport s) = Some (t, nil_err)" "connect_end ctx b t = (t', d, Inr c)"
      "s' = s\<lparr>sy_transport := t', sy_conns := sy_conns s @ [c], sy_connecting := False\<rparr>"
    using assms(2) by (auto split: option.splits prod.splits list.splits sum.splits)
  have "serial_reach sha256 s0 (s\<lparr>sy_transport := t, sy_connecting := True\<rparr>)"
    by (rule Step [OF assms(1) ConnectBegin [OF c(1)]])
  from Step [OF this Connected, of ctx b t' d c] c show ?thesis by simp
next
  case (DoWrite i msg result err)
  then obtain ct m where w: "i < length (sy_conns s)" "write_begin sha256 0 live_ctx nil_err msg (conn_at i s) = Some (ct, ToBase m)"
      "s' = put_conn i (write_end sha256 0 True msg result err (conn_at i (put_conn i ct s))) (put_conn i ct s)"
    using assms(2) by (auto split: option.splits prod.splits if_splits write_begun.splits)
  have "serial_reach sha256 s0 (put_conn i ct s)"
    by (rule Step [OF assms(1) WriteBegin [OF w(1,2)]])
  moreover have "i < length (sy_conns (put_conn i ct s))" using w(1) by (simp add: put_conn_def)
  ultimately show ?thesis unfolding w(3) by (rule Step [OF _ WriteEnd])
qed (use assms in \<open>auto intro!: Step [OF assms(1)] intro: ReadEnd Retire split: if_splits option.splits prod.splits\<close>)

lemma serial_run_reach: "serial_reach sha256 s0 s \<Longrightarrow> serial_run sha256 s as = Some s' \<Longrightarrow> serial_reach sha256 s0 s'"
proof (induction as arbitrary: s)
  case (Cons a as)
  then obtain s1 where "serial_do sha256 a s = Some s1" "serial_run sha256 s1 as = Some s'"
    by (auto split: option.splits)
  then show ?case using Cons.IH [OF serial_do_reach [OF Cons.prems(1)]] by simp
qed simp

abbreviation good_base :: base_connect where
  "good_base \<equiv> \<lparr>bc_err = nil_err, bc_conn = True, bc_generation = (1, True)\<rparr>"

text \<open>A request that is retired, and a second one that uses the same identifier.\<close>

definition example_reuse :: "serial_action list" where
  "example_reuse =
     [DoConnect live_ctx good_base, DoWrite 0 (Request (IntId 1) ''tools/call'' []) no_write_result nil_err,
      DoRetire 0, DoConnect live_ctx good_base,
      DoWrite 1 (Request (IntId 1) ''tools/call'' []) no_write_result nil_err]"

definition example_reused :: serial_system where
  "example_reused = the (serial_run (\<lambda>s. s) (serial_start NewStdioDeadlineRetiringForwardingTransport) example_reuse)"

lemma example_reused_reach:
  "serial_reach (\<lambda>s. s) (serial_start NewStdioDeadlineRetiringForwardingTransport) example_reused"
proof (rule serial_run_reach [OF Start, of _ _ example_reuse])
  have "serial_run (\<lambda>s. s) (serial_start NewStdioDeadlineRetiringForwardingTransport) example_reuse \<noteq> None"
    by code_simp
  then show "serial_run (\<lambda>s. s) (serial_start NewStdioDeadlineRetiringForwardingTransport) example_reuse = Some example_reused"
    by (auto simp: example_reused_def)
qed

lemma example_reused_facts:
  "holds_slot example_reused 1" "\<not> holds_slot example_reused 0"
  "st_retiredResponseIDs (sy_transport example_reused) = [IntId 1]"
  "sc_expectedID (sy_conns example_reused ! 1) = StrId ''__tunnel_client_stdio_retired_1''"
  "length (sy_conns example_reused) = 2" "sc_base (sy_conns example_reused ! 1)"
  "currentGeneration (conn_at 1 example_reused)" "sc_awaitingResponse (sy_conns example_reused ! 1)"
  "sc_callerID (sy_conns example_reused ! 1) = IntId 1"
  by code_simp+

text \<open>A complete handshake, then an operational request.\<close>

definition example_handshake :: "serial_action list" where
  "example_handshake =
     [DoConnect live_ctx good_base, DoWrite 0 (Request (IntId 1) ''initialize'' []) no_write_result nil_err,
      DoRead 0 (Inr (Some (Response (IntId 1) None ''{}''))),
      DoConnect live_ctx good_base,
      DoWrite 1 (Request NoId ''notifications/initialized'' []) no_write_result nil_err,
      DoConnect live_ctx good_base]"

definition example_initialized :: serial_system where
  "example_initialized =
     the (serial_run (\<lambda>s. s) (serial_start (NewStdioForwardingTransportWithOptions False)) example_handshake)"

lemma example_initialized_reach:
  "serial_reach (\<lambda>s. s) (serial_start (NewStdioForwardingTransportWithOptions False)) example_initialized"
proof (rule serial_run_reach [OF Start, of _ _ example_handshake])
  have "serial_run (\<lambda>s. s) (serial_start (NewStdioForwardingTransportWithOptions False)) example_handshake \<noteq> None"
    by code_simp
  then show "serial_run (\<lambda>s. s) (serial_start (NewStdioForwardingTransportWithOptions False)) example_handshake
      = Some example_initialized"
    by (auto simp: example_initialized_def)
qed

lemma options_config: "serial_config (NewStdioForwardingTransportWithOptions b)"
  using serial_configs(5) [of None b]
  by (simp add: ObserveStdioForwardingTransport_def NewStdioForwardingTransportWithOptions_def
      newSerializedForwardingTransport_def)

section \<open>Properties\<close>

lemma read_retired:
  assumes "transport_ok t" and "sc_base c" and "currentGeneration (c, t)"
    and "read_end sha256 now ctx wr (Inr (Some (Response k e r))) (c, t) = Some (ct', out)"
  shows "k \<in> set (st_retiredResponseIDs t) \<Longrightarrow>
           out = ReadAgain \<and> fst ct' = c \<and> k \<notin> set (st_retiredResponseIDs (snd ct'))"
    "k \<notin> set (st_retiredResponseIDs t) \<Longrightarrow> out \<noteq> ReadAgain"
  using assms
  by (auto simp: read_end_def shouldDropRetiredMessage_def consumeRetiredResponseID_def transport_ok_def
      read_message_def Let_def split: option.splits if_splits prod.splits)

lemma note_response_conn [simp]:
  "fst (note_response sha256 now observed msg ct) = fst ct"
  "fst (withCurrentGeneration f ct) = fst ct"
  by (auto simp: note_response_def observeRead_def Let_def withCurrentGeneration_def
      split: prod.splits option.splits rpc_message.splits)

lemma read_delivers:
  assumes "read_end sha256 now ctx wr (Inr (Some msg)) (c, t) = Some (ct', ReadReturns (Inr (Some m)))"
  shows "m = restoreCallerResponseID msg c"
  using assms
  by (auto simp: read_end_def read_message_def Let_def split: option.splits if_splits prod.splits)

text \<open>
  C7. Only one request lifecycle is active on the shared connection, under every
  interleaving of connects, writes, reads, closes and deadline retirements of
  any number of logical connections: the slot is taken exactly while a physical
  connect is under way or one connection holds it, at most one holds it, at
  most 1024 response identifiers are retired, and the request that is waiting
  for its response never waits for a retired identifier.
\<close>

theorem lifecycle_slot_exclusive:
  assumes "serial_config t" and "serial_reach sha256 (serial_start t) s"
  shows "(st_slot (sy_transport s) \<longleftrightarrow> sy_connecting s \<or> (\<exists>i. holds_slot s i)) \<and>
         (\<forall>i j. holds_slot s i \<and> holds_slot s j \<longrightarrow> i = j \<and> \<not> sy_connecting s) \<and>
         distinct (st_retiredResponseIDs (sy_transport s)) \<and>
         length (st_retiredResponseIDs (sy_transport s)) \<le> maxRetiredResponseIDs \<and>
         (\<forall>i. holds_slot s i \<and> sc_awaitingResponse (sy_conns s ! i) \<longrightarrow>
            sc_expectedID (sy_conns s ! i) \<notin> set (st_retiredResponseIDs (sy_transport s)))"
  using serial_invariant [OF assms] unfolding serial_ok_def transport_ok_def conn_ok_alt holds_slot_def
  by (auto split: if_splits)

theorem lifecycle_slot_exclusive_witness:
  "st_slot (sy_transport example_reused) \<and> \<not> sy_connecting example_reused"
  using lifecycle_slot_exclusive [OF serial_configs(3) example_reused_reach] example_reused_facts(1) by blast



text \<open>
  C36. Retiring a request that was written and waits for its response leaves a
  tombstone before the slot is free: the connection reports success only when
  the response identifier is recorded, and otherwise (an initialize request, or
  1024 tombstones) it keeps the slot so that the caller closes the connection.
  The next request, whatever identifier its caller uses, never has a retired
  identifier on the wire.
\<close>

theorem retirement_leaves_tombstone:
  assumes "RetireResponseDeadline now (c, t) = ((c', t'), retired)"
    and "sc_lockHeld c" and "sc_writeCompleted c" and "sc_awaitingResponse c"
    and "sc_expectedID c \<noteq> NoId" and "\<not> sc_retired c"
  shows "(retired \<longrightarrow> sc_expectedID c \<in> set (st_retiredResponseIDs t') \<and> \<not> st_slot t' \<and> \<not> sc_lockHeld c' \<and>
            sc_requestMethod c \<noteq> ''initialize'' \<and>
            (\<forall>callerID t'' w. callerID \<noteq> NoId \<and> wireResponseID callerID t' = (t'', Inr w) \<longrightarrow>
               w \<notin> set (st_retiredResponseIDs t'))) \<and>
         (\<not> retired \<longrightarrow> t' = t \<and> sc_lockHeld c' \<and> \<not> sc_retired c')"
proof -
  have wire: "w \<notin> set (st_retiredResponseIDs t')" if "callerID \<noteq> NoId" "wireResponseID callerID t' = (t'', Inr w)"
    for callerID t'' w using wireResponseID_facts(4,5) [OF that(2), of w] that(1) by blast
  obtain t1 tracked where re: "retireResponseID (sc_expectedID c) t = (t1, tracked)" by fastforce
  have "RetireResponseDeadline now (c, t) =
      (if \<not> st_retireOnDeadline t \<or> \<not> currentGeneration (c, t) \<or> sc_requestMethod c = ''initialize''
       then ((c, t), False)
       else if tracked then (releaseRetired (retire_observed now (c\<lparr>sc_retired := True\<rparr>, t1)), True)
       else ((cancelDeadlineRetirement (c\<lparr>sc_retired := True\<rparr>), t1), False))"
    using assms(2-6) re by (simp add: RetireResponseDeadline_def beginDeadlineRetirement_def)
  then consider (kept) "retired = False" "t' = t" "c' = c \<or> c' = cancelDeadlineRetirement (c\<lparr>sc_retired := True\<rparr>)"
    | (tracked) "retired" "sc_requestMethod c \<noteq> ''initialize''" tracked
        "(c', t') = releaseRetired (retire_observed now (c\<lparr>sc_retired := True\<rparr>, t1))"
    using assms(1) retireResponseID_facts(4) [OF re] by (auto split: if_splits)
  then show ?thesis
  proof cases
    case kept
    then show ?thesis using assms(2,6) by (auto simp: cancelDeadlineRetirement_def)
  next
    case tracked
    then have "st_retiredResponseIDs t' = st_retiredResponseIDs t1 \<and> \<not> st_slot t' \<and> \<not> sc_lockHeld c'"
      using assms(2)
      by (simp add: releaseRetired_def retire_observed_def Let_def releaseLifecycle_def clearLifecycleStateLocked_def
          split: if_splits)
    then show ?thesis using tracked wire retireResponseID_facts(3) [OF re] by auto
  qed
qed

theorem retirement_leaves_tombstone_witness:
  "\<exists>t'. snd (fst (RetireResponseDeadline 0 (conn_at 1 example_reused))) = t' \<and>
     StrId ''__tunnel_client_stdio_retired_1'' \<in> set (st_retiredResponseIDs t') \<and> \<not> st_slot t'"
proof -
  obtain c' t' where r: "RetireResponseDeadline 0 (conn_at 1 example_reused) = ((c', t'), True)"
    by (rule that [of "fst (fst (RetireResponseDeadline 0 (conn_at 1 example_reused)))"
        "snd (fst (RetireResponseDeadline 0 (conn_at 1 example_reused)))"]) code_simp
  have "sc_lockHeld (sy_conns example_reused ! 1)" "sc_writeCompleted (sy_conns example_reused ! 1)"
    "sc_expectedID (sy_conns example_reused ! 1) \<noteq> NoId" "\<not> sc_retired (sy_conns example_reused ! 1)"
    by code_simp+
  from retirement_leaves_tombstone [OF r this(1,2) example_reused_facts(8) this(3,4)]
  show ?thesis by (simp add: r example_reused_facts(4) del: One_nat_def)
qed

text \<open>
  C39. A private alias is always found: the search for a wire identifier ends,
  after at most as many tries as there are tombstones and one more, with an
  identifier that is neither the caller's nor retired. It can fail only when the
  64-bit alias counter is used up.
\<close>

theorem wire_alias_found:
  assumes "transport_ok t" and "st_aliasRetiredIDs t" and "callerID \<noteq> NoId"
    and "unat (st_nextAliasedID t) + maxRetiredResponseIDs + 1 < 2 ^ 64"
  shows "\<exists>t' w. wireResponseID callerID t = (t', Inr w) \<and> w \<noteq> NoId \<and> w \<notin> set (st_retiredResponseIDs t) \<and>
           unat (st_nextAliasedID t') \<le> unat (st_nextAliasedID t) + length (st_retiredResponseIDs t) + 1"
proof (cases "callerID \<in> set (st_retiredResponseIDs t)")
  case True
  have "\<exists>m i. next_alias callerID (st_retiredResponseIDs t) (st_nextAliasedID t) = (m, Inr i) \<and>
      unat m \<le> unat (st_nextAliasedID t) + length (st_retiredResponseIDs t) + 1"
    using assms(1,4) True by (intro next_alias_found) (auto simp: transport_ok_def)
  then obtain m i where a: "next_alias callerID (st_retiredResponseIDs t) (st_nextAliasedID t) = (m, Inr i)"
      "unat m \<le> unat (st_nextAliasedID t) + length (st_retiredResponseIDs t) + 1"
    by blast
  then show ?thesis
    using True assms(2,3) next_alias_fresh [OF a(1)] alias_id_valid [of m] by (auto simp: wireResponseID_def)
next
  case False
  then show ?thesis using assms(3) by (simp add: wireResponseID_def)
qed

theorem wire_alias_found_witness:
  "\<exists>t' w. wireResponseID (IntId 1) (sy_transport example_reused) = (t', Inr w) \<and> w \<noteq> IntId 1"
proof -
  have "transport_ok (sy_transport example_reused)"
    using serial_invariant [OF serial_configs(3) example_reused_reach] by (simp add: serial_ok_def)
  moreover have "st_aliasRetiredIDs (sy_transport example_reused)" "st_nextAliasedID (sy_transport example_reused) = 1"
    by code_simp+
  ultimately show ?thesis
    using wire_alias_found [of "sy_transport example_reused" "IntId 1"] by (auto simp: example_reused_facts(3))
qed



end
