(* ===== verification/HeaderScope.thy ===== *)
theory HeaderScope
  imports Http JsonText
begin

text \<open>
  Where headers travel (\<open>pkg/mcpclient/internal\<close>): the carrier that takes the
  headers of one command to the HTTP layer and the response back, the round
  trippers that add forwarded and operator-configured headers to the requests
  for the configured MCP server only, and the redirect policy of the runtime
  client (\<open>channel_transport_factory.go\<close>, \<open>fxmodule.go\<close>). A parsed URL is its
  scheme, its authority and its escaped path. \<open>netip.ParseAddr\<close> followed by
  \<open>String\<close> is the parameter \<open>canonical_ip\<close>.
\<close>

section \<open>URLs\<close>

record url =
  u_scheme :: string
  u_host :: string
  u_path :: string   \<comment> \<open>\<open>EscapedPath()\<close>\<close>

definition has_suffix :: "string \<Rightarrow> string \<Rightarrow> bool" where
  "has_suffix suf s \<longleftrightarrow> has_prefix (rev suf) (rev s)"

definition trim_suffix :: "string \<Rightarrow> string \<Rightarrow> string" where
  "trim_suffix s suf = (if has_suffix suf s then take (length s - length suf) s else s)"

definition trim_right :: "char \<Rightarrow> string \<Rightarrow> string" where
  "trim_right c s = rev (dropWhile (\<lambda>x. x = c) (rev s))"

text \<open>
  \<open>splitHostPort\<close> of \<open>net/url\<close>: the last colon separates a port when only
  digits follow it, and the brackets of an IPv6 literal are taken off.
\<close>

definition split_host_port :: "string \<Rightarrow> string \<times> string" where
  "split_host_port h =
     (let ds = takeWhile is_digit (rev h); rest = dropWhile is_digit (rev h);
          (host, port) = (if rest \<noteq> [] \<and> hd rest = CHR '':'' then (rev (tl rest), rev ds) else (h, []))
      in (if has_prefix ''['' host \<and> has_suffix '']'' host then butlast (tl host) else host, port))"

definition url_Hostname :: "url \<Rightarrow> string" where
  "url_Hostname u = fst (split_host_port (u_host u))"

definition url_Port :: "url \<Rightarrow> string" where
  "url_Port u = snd (split_host_port (u_host u))"

definition originKey :: "url option \<Rightarrow> string" where
  "originKey u = (case u of None \<Rightarrow> [] | Some u \<Rightarrow>
     (let scheme = to_lower (u_scheme u); host = to_lower (u_host u) in
      if scheme = [] \<or> host = [] then []
      else let host =
             (if scheme = ''http'' \<and> url_Port u = ''80'' \<or> scheme = ''https'' \<and> url_Port u = ''443''
              then trim_suffix host ('':'' @ url_Port u) else host)
        in scheme @ ''://'' @ host))"

definition cleanPath :: "string \<Rightarrow> string" where
  "cleanPath path =
     (if path = [] then ''/''
      else let path = (if has_prefix ''/'' path then path else ''/'' @ path);
               trimmed = trim_right (CHR ''/'') path
        in if trimmed = [] then ''/'' else trimmed)"

section \<open>The header carrier\<close>

record header_carrier =
  hc_request :: header
  hc_response :: header
  hc_status :: int
  hc_body :: string
  hc_captured :: bool
  hc_too_large :: bool
  hc_read_err :: goerr
  hc_transport_err :: goerr

text \<open>A nil context is refused; the flag says whether the context is not nil.\<close>

definition ContextWithHeaders :: "bool \<Rightarrow> header \<Rightarrow> goerr + header_carrier" where
  "ContextWithHeaders has_ctx h =
     (if \<not> has_ctx then Inl [ErrText ''context is nil'']
      else Inr \<lparr>hc_request = h, hc_response = [], hc_status = 0, hc_body = [], hc_captured = False,
                hc_too_large = False, hc_read_err = nil_err, hc_transport_err = nil_err\<rparr>)"

definition put_header :: "header \<Rightarrow> string \<times> string list \<Rightarrow> header" where
  "put_header dst kv = foldl (\<lambda>d v. header_add d (fst kv) v) (header_del dst (fst kv)) (snd kv)"

definition ApplyRequestHeaders :: "header_carrier \<Rightarrow> header \<Rightarrow> header" where
  "ApplyRequestHeaders c dst = foldl put_header dst (hc_request c)"

definition RemoveRequestHeaders :: "header_carrier \<Rightarrow> header \<Rightarrow> header" where
  "RemoveRequestHeaders c dst = foldl (\<lambda>d kv. header_del d (fst kv)) dst (hc_request c)"

definition StoreResponse :: "int \<Rightarrow> header \<Rightarrow> header_carrier \<Rightarrow> header_carrier" where
  "StoreResponse statusCode h c = c\<lparr>hc_response := h, hc_status := statusCode\<rparr>"

definition ResponseStatusAndHeaders :: "header_carrier option \<Rightarrow> int \<times> header" where
  "ResponseStatusAndHeaders c = (case c of None \<Rightarrow> (0, []) | Some c \<Rightarrow> (hc_status c, hc_response c))"

definition StoreTransportError :: "goerr \<Rightarrow> header_carrier \<Rightarrow> header_carrier" where
  "StoreTransportError err c = (if err = nil_err then c else c\<lparr>hc_transport_err := err\<rparr>)"

definition StoreResponseBodyCapture :: "string \<Rightarrow> bool \<Rightarrow> goerr \<Rightarrow> header_carrier \<Rightarrow> header_carrier" where
  "StoreResponseBodyCapture body tooLarge readErr c =
     c\<lparr>hc_body := body, hc_captured := True, hc_too_large := tooLarge, hc_read_err := readErr\<rparr>"

definition ResponseBodyCapture :: "header_carrier \<Rightarrow> string \<times> bool \<times> goerr \<times> bool" where
  "ResponseBodyCapture c = (hc_body c, hc_too_large c, hc_read_err c, hc_captured c)"

section \<open>The forwarding round tripper\<close>

record http_reply =
  rp_status :: int
  rp_header :: header
  rp_body :: "http_body option"

definition maxCapturedResponseBodyBytes :: nat where
  "maxCapturedResponseBodyBytes = 100 * 1024"

text \<open>
  \<open>io.ReadAll\<close> of an \<open>io.LimitReader\<close> with the bytes read before the error, and
  what the reader gives afterwards.
\<close>

definition read_prefix :: "nat \<Rightarrow> http_body \<Rightarrow> string \<times> goerr" where
  "read_prefix n b = (take n (hb_data b), if n \<le> length (hb_data b) then nil_err else hb_err b)"

definition after_prefix :: "nat \<Rightarrow> http_body \<Rightarrow> http_body" where
  "after_prefix n b = b\<lparr>hb_data := drop n (hb_data b)\<rparr>"

text \<open>\<open>io.MultiReader\<close> of the bytes read and the rest.\<close>

definition replay :: "string \<Rightarrow> http_body \<Rightarrow> http_body" where
  "replay prefix b = b\<lparr>hb_data := prefix @ hb_data b\<rparr>"

definition captureNonSuccessResponseBody ::
    "header_carrier \<Rightarrow> http_reply \<Rightarrow> header_carrier \<times> http_reply" where
  "captureNonSuccessResponseBody carrier resp = (case rp_body resp of
     None \<Rightarrow> (StoreResponseBodyCapture [] False nil_err carrier, resp)
   | Some originalBody \<Rightarrow>
       (let (prefix, readErr) = read_prefix (maxCapturedResponseBodyBytes + 1) originalBody;
            resp = resp\<lparr>rp_body :=
              Some (replay prefix (after_prefix (maxCapturedResponseBodyBytes + 1) originalBody))\<rparr>;
            tooLarge = (length prefix > maxCapturedResponseBodyBytes);
            captured = (if tooLarge then take maxCapturedResponseBodyBytes prefix else prefix)
        in (StoreResponseBodyCapture captured tooLarge readErr carrier, resp)))"

definition forwarded_request ::
    "string \<Rightarrow> header_carrier option \<Rightarrow> url option \<Rightarrow> header \<Rightarrow> header" where
  "forwarded_request serverOrigin carrier u h = (case carrier of
     None \<Rightarrow> h
   | Some c \<Rightarrow>
       (let requestOrigin = originKey u in
        if requestOrigin \<noteq> [] \<and> requestOrigin = serverOrigin then ApplyRequestHeaders c h
        else RemoveRequestHeaders c h))"

type_synonym trip_result = "goerr + http_reply option"

definition recorded_reply ::
    "header_carrier option \<Rightarrow> trip_result \<Rightarrow> header_carrier option \<times> trip_result" where
  "recorded_reply carrier result = (case (result, carrier) of
     (Inl err, _) \<Rightarrow> (map_option (StoreTransportError err) carrier, result)
   | (Inr (Some resp), Some c) \<Rightarrow>
       (let c = StoreResponse (rp_status resp) (rp_header resp) c in
        if rp_status resp < 200 \<or> rp_status resp \<ge> 300
        then (let (c, resp) = captureNonSuccessResponseBody c resp in (Some c, Inr (Some resp)))
        else (Some c, result))
   | _ \<Rightarrow> (carrier, result))"

text \<open>
  One round trip: the header sent, the carrier afterwards and the result for
  the SDK. The base round tripper is a function of the request it is given.
\<close>

definition ForwardingRoundTripper_RoundTrip ::
    "string \<Rightarrow> (url option \<Rightarrow> header \<Rightarrow> trip_result) \<Rightarrow> header_carrier option \<Rightarrow> url option \<Rightarrow> header \<Rightarrow>
     header \<times> header_carrier option \<times> trip_result" where
  "ForwardingRoundTripper_RoundTrip serverOrigin base carrier u h =
     (let sent = forwarded_request serverOrigin carrier u h;
          (carrier, result) = recorded_reply carrier (base u sent)
      in (sent, carrier, result))"

section \<open>Operator-configured headers\<close>

record static_headers =
  sh_origin :: string
  sh_path :: string
  sh_extra :: "(string \<times> string) list"
  sh_discovery :: "(string \<times> string) list"

text \<open>\<open>None\<close>: the base round tripper is used as it is.\<close>

definition NewStaticHeadersRoundTripper ::
    "url option \<Rightarrow> (string \<times> string) list \<Rightarrow> (string \<times> string) list \<Rightarrow> static_headers option" where
  "NewStaticHeadersRoundTripper serverURL extra discovery = (case serverURL of
     None \<Rightarrow> None
   | Some u \<Rightarrow>
       if extra = [] \<and> discovery = [] then None
       else Some \<lparr>sh_origin = originKey (Some u), sh_path = cleanPath (u_path u),
                  sh_extra = extra, sh_discovery = discovery\<rparr>)"

definition static_applies :: "static_headers \<Rightarrow> url option \<Rightarrow> bool \<Rightarrow> bool" where
  "static_applies s reqURL discovery = (case reqURL of
     None \<Rightarrow> False
   | Some u \<Rightarrow>
       sh_origin s \<noteq> [] \<and> originKey reqURL = sh_origin s \<and>
       (discovery \<or> cleanPath (u_path u) = sh_path s))"

definition applyHeaderMap :: "header \<Rightarrow> (string \<times> string) list \<Rightarrow> header" where
  "applyHeaderMap dst headers =
     foldl (\<lambda>d key. header_set d key (case map_of headers key of None \<Rightarrow> [] | Some v \<Rightarrow> v)) dst
       (sort (map fst headers))"

definition StaticHeadersRoundTripper_RoundTrip ::
    "static_headers \<Rightarrow> bool \<Rightarrow> url option \<Rightarrow> header \<Rightarrow> header" where
  "StaticHeadersRoundTripper_RoundTrip s discovery u h =
     (if static_applies s u discovery
      then let h = applyHeaderMap h (sh_extra s)
        in if discovery then applyHeaderMap h (sh_discovery s) else h
      else h)"

section \<open>Origins and redirects\<close>

definition normalizedURLHostname :: "(string \<Rightarrow> string option) \<Rightarrow> url \<Rightarrow> string" where
  "normalizedURLHostname canonical_ip u =
     (let host = trim_space (url_Hostname u) in
      case canonical_ip host of Some addr \<Rightarrow> addr | None \<Rightarrow> to_lower host)"

definition effectiveURLPort :: "url \<Rightarrow> string" where
  "effectiveURLPort u =
     (let port = url_Port u in
      if port \<noteq> [] then
        (if digits_value port < 2 ^ 63 then show_nat (digits_value port) else port)
      else if to_lower (u_scheme u) = ''http'' then ''80''
      else if to_lower (u_scheme u) = ''https'' then ''443''
      else [])"

definition sameURLOrigin :: "(string \<Rightarrow> string option) \<Rightarrow> url option \<Rightarrow> url option \<Rightarrow> bool" where
  "sameURLOrigin canonical_ip left right = (case (left, right) of
     (Some l, Some r) \<Rightarrow>
       (let leftHost = normalizedURLHostname canonical_ip l;
            rightHost = normalizedURLHostname canonical_ip r
        in u_scheme l \<noteq> [] \<and> u_scheme r \<noteq> [] \<and> leftHost \<noteq> [] \<and> rightHost \<noteq> [] \<and>
           equal_fold (u_scheme l) (u_scheme r) \<and> leftHost = rightHost \<and>
           effectiveURLPort l = effectiveURLPort r)
   | _ \<Rightarrow> False)"

text \<open>Which of the two round trippers a request takes: with the client certificate or without.\<close>

definition originScopedRoundTripper :: "(string \<Rightarrow> string option) \<Rightarrow> url option \<Rightarrow> url option \<Rightarrow> bool" where
  "originScopedRoundTripper canonical_ip serverURL reqURL = sameURLOrigin canonical_ip reqURL serverURL"

definition check_redirect ::
    "(string \<Rightarrow> string option) \<Rightarrow> url option \<Rightarrow> (url \<Rightarrow> url list \<Rightarrow> goerr) option \<Rightarrow> url \<Rightarrow> url list \<Rightarrow> goerr" where
  "check_redirect canonical_ip configuredOrigin priorPolicy u via =
     (if \<not> sameURLOrigin canonical_ip (Some u) configuredOrigin
      then [ErrText ''mcpclient: redirect blocked: destination must use the configured MCP origin'']
      else case priorPolicy of
        Some prior \<Rightarrow> prior u via
      | None \<Rightarrow>
          if length via \<ge> 10
          then [ErrText (''mcpclient: stopped after '' @ show_nat (length via) @ '' redirects'')]
          else nil_err)"

text \<open>
  \<open>http.Client.Do\<close>: the requests already made are \<open>via\<close>, and \<open>target via\<close> is
  where the answer to the last of them redirects, if it does. The redirects
  a run may follow are counted down from \<open>n\<close>; \<open>None\<close> when they are used up.
\<close>

fun follow_redirects ::
    "(url \<Rightarrow> url list \<Rightarrow> goerr) \<Rightarrow> (url list \<Rightarrow> url option) \<Rightarrow> nat \<Rightarrow> url list \<Rightarrow> (url list \<times> goerr) option" where
  "follow_redirects check target 0 via = None"
| "follow_redirects check target (Suc n) via = (case target via of
     None \<Rightarrow> Some (via, nil_err)
   | Some u \<Rightarrow>
       (let err = check u via in
        if err \<noteq> nil_err then Some (via, err)
        else follow_redirects check target n (via @ [u])))"

section \<open>Lemmas\<close>

named_theorems header_simps \<open>the values that header operations leave\<close>

lemma values_del [header_simps]:
  "header_values (header_del h k) k' =
     (if canonical_header_key k' = canonical_header_key k then [] else header_values h k')"
  by (simp add: header_values_def map_of_header_del)

lemma values_add [header_simps]:
  "header_values (header_add h k v) k' =
     (if canonical_header_key k' = canonical_header_key k then header_values h k @ [v]
      else header_values h k')"
  by (simp add: header_values_def header_add_def map_add_def map_of_header_del split: option.splits)

lemma values_set [header_simps]:
  "header_values (header_set h k v) k' =
     (if canonical_header_key k' = canonical_header_key k then [v] else header_values h k')"
  by (simp add: header_values_def header_set_def map_add_def map_of_header_del split: option.splits)

lemma values_add_all [header_simps]:
  "header_values (foldl (\<lambda>d v. header_add d k v) h vs) k' =
     (if canonical_header_key k' = canonical_header_key k then header_values h k @ vs
      else header_values h k')"
proof (induction vs arbitrary: h)
  case Nil
  then show ?case by (simp add: header_values_def)
qed (simp add: header_simps)

lemma values_put [header_simps]:
  "header_values (put_header d kv) k' =
     (if canonical_header_key k' = canonical_header_key (fst kv) then snd kv else header_values d k')"
  by (simp add: put_header_def header_simps)

lemma values_removed:
  "header_values (foldl (\<lambda>d kv. header_del d (fst kv)) d kvs) k =
     (if canonical_header_key k \<in> (canonical_header_key \<circ> fst) ` set kvs then [] else header_values d k)"
  by (induction kvs arbitrary: d) (auto simp: header_simps)

lemma values_applied_other:
  "canonical_header_key k \<notin> (canonical_header_key \<circ> fst) ` set kvs \<Longrightarrow>
     header_values (foldl put_header d kvs) k = header_values d k"
  by (induction kvs arbitrary: d) (auto simp: header_simps)

lemma values_applied:
  "(k, vs) \<in> set kvs \<Longrightarrow> distinct (map (canonical_header_key \<circ> fst) kvs) \<Longrightarrow>
     header_values (foldl put_header d kvs) k = vs"
proof (induction kvs arbitrary: d)
  case (Cons kv kvs)
  show ?case
  proof (cases "kv = (k, vs)")
    case True
    with Cons.prems(2) show ?thesis
      by (simp add: values_applied_other header_simps)
  next
    case False
    with Cons show ?thesis by simp
  qed
qed simp

lemma replay_after_prefix [simp]: "replay (take n (hb_data b)) (after_prefix n b) = b"
  by (simp add: replay_def after_prefix_def)

lemma capture_carrier:
  "hc_status (fst (captureNonSuccessResponseBody c resp)) = hc_status c"
  "hc_request (fst (captureNonSuccessResponseBody c resp)) = hc_request c"
  "length (hc_body (fst (captureNonSuccessResponseBody c resp))) \<le> maxCapturedResponseBodyBytes"
  by (cases "rp_body resp",
      auto simp: captureNonSuccessResponseBody_def StoreResponseBodyCapture_def read_prefix_def Let_def)+

lemma redirects_bounded_aux:
  assumes "via \<noteq> []" and "length via \<le> 10" and "11 \<le> n + length via"
    and "list_all P (tl via)" and "\<And>u via. check u via = nil_err \<Longrightarrow> P u \<and> length via < 10"
  shows "\<exists>out err. follow_redirects check target n via = Some (out, err) \<and> length out \<le> 10 \<and>
           list_all P (tl out)"
  using assms(1-4)
proof (induction n arbitrary: via)
  case (Suc n)
  show ?case
  proof (cases "target via")
    case (Some u)
    show ?thesis
    proof (cases "check u via = nil_err")
      case True
      with assms(5) have u: "P u" "length via < 10" by blast+
      have "list_all P (tl (via @ [u]))" using Suc.prems u by (cases via) auto
      with Suc.IH [of "via @ [u]"] Suc.prems u True Some show ?thesis by simp
    qed (use Suc.prems Some in simp)
  qed (use Suc.prems in simp)
qed simp

section \<open>Properties\<close>

text \<open>
  C24. The headers of a command reach the configured MCP server and nothing
  else: on a request for another origin, or when the server has none, no value
  of a forwarded name is sent, whoever set it; on a request for the server the
  name has exactly the forwarded values.
\<close>

theorem forwarded_headers_scoped:
  assumes "(k, vs) \<in> set (hc_request c)"
  shows "(originKey u \<noteq> serverOrigin \<or> serverOrigin = [] \<longrightarrow>
            header_values (fst (ForwardingRoundTripper_RoundTrip serverOrigin base (Some c) u h)) k = []) \<and>
         (originKey u = serverOrigin \<and> serverOrigin \<noteq> [] \<and>
            distinct (map (canonical_header_key \<circ> fst) (hc_request c)) \<longrightarrow>
            header_values (fst (ForwardingRoundTripper_RoundTrip serverOrigin base (Some c) u h)) k = vs)"
proof -
  have "canonical_header_key k \<in> (canonical_header_key \<circ> fst) ` set (hc_request c)"
    using assms by force
  moreover have "fst (ForwardingRoundTripper_RoundTrip serverOrigin base (Some c) u h) =
      (if originKey u = serverOrigin \<and> serverOrigin \<noteq> [] then ApplyRequestHeaders c h
       else RemoveRequestHeaders c h)"
    by (auto simp: ForwardingRoundTripper_RoundTrip_def forwarded_request_def Let_def split: prod.splits)
  ultimately show ?thesis
    using values_applied [OF assms] by (auto simp: ApplyRequestHeaders_def RemoveRequestHeaders_def values_removed)
qed

definition example_url :: "string \<Rightarrow> url" where
  "example_url host = \<lparr>u_scheme = ''https'', u_host = host, u_path = ''/mcp''\<rparr>"

definition example_carrier :: header_carrier where
  "example_carrier = \<lparr>hc_request = [(''Authorization'', [''Bearer t''])], hc_response = [],
     hc_status = 0, hc_body = [], hc_captured = False, hc_too_large = False, hc_read_err = nil_err,
     hc_transport_err = nil_err\<rparr>"

theorem forwarded_headers_scoped_witness:
  "(''Authorization'', [''Bearer t'']) \<in> set (hc_request example_carrier) \<and>
   originKey (Some (example_url ''other.example'')) \<noteq> ''https://mcp.example'' \<and>
   originKey (Some (example_url ''mcp.example:443'')) = ''https://mcp.example'' \<and>
   header_values (fst (ForwardingRoundTripper_RoundTrip ''https://mcp.example'' (\<lambda>_ _. Inr None)
     (Some example_carrier) (Some (example_url ''other.example'')) [(''Authorization'', [''x''])]))
     ''authorization'' = []"
proof -
  have mem: "(''Authorization'', [''Bearer t'']) \<in> set (hc_request example_carrier)"
    by (simp add: example_carrier_def)
  have o1: "originKey (Some (example_url ''other.example'')) \<noteq> ''https://mcp.example''" by code_simp
  have o2: "originKey (Some (example_url ''mcp.example:443'')) = ''https://mcp.example''" by code_simp
  have "canonical_header_key ''authorization'' = canonical_header_key ''Authorization''" by code_simp
  with forwarded_headers_scoped [OF mem, of "Some (example_url ''other.example'')" "''https://mcp.example''"
      "\<lambda>_ _. Inr None" "[(''Authorization'', [''x''])]"] mem o1 o2 show ?thesis
    by (simp add: header_values_def)
qed

text \<open>
  A run of the runtime HTTP client ends: with the policy of the
  streamable transport it makes at most ten requests, whatever the answers
  redirect to, and every request after the first goes to an address with the
  scheme, host and port of the configured server.
\<close>

theorem redirects_stay_on_origin:
  "\<exists>via err. follow_redirects (check_redirect canonical_ip configured None) target (10 + n) [u] = Some (via, err) \<and>
     length via \<le> 10 \<and>
     list_all (\<lambda>v. sameURLOrigin canonical_ip (Some v) configured) (tl via)"
  by (rule redirects_bounded_aux) (auto simp: check_redirect_def split: if_splits)

text \<open>
  Capturing an error body is invisible to the SDK: the carrier gets the
  status, the header and at most 100 KiB of the body, and the SDK still reads
  the response as the server sent it, byte for byte.
\<close>

theorem capture_is_transparent:
  "case ForwardingRoundTripper_RoundTrip serverOrigin base (Some c) u h of (sent, c', result) \<Rightarrow>
     result = base u sent \<and>
     (\<exists>k. c' = Some k \<and> hc_request k = hc_request c \<and>
       (case result of
          Inr (Some resp) \<Rightarrow> hc_status k = rp_status resp \<and> hc_response k = rp_header resp \<and>
            (if rp_status resp < 200 \<or> rp_status resp \<ge> 300
             then hc_captured k \<and> hc_body k = take maxCapturedResponseBodyBytes
                    (case rp_body resp of None \<Rightarrow> [] | Some b \<Rightarrow> hb_data b)
             else hc_body k = hc_body c)
        | _ \<Rightarrow> hc_status k = hc_status c \<and> hc_body k = hc_body c))"
  by (auto simp: ForwardingRoundTripper_RoundTrip_def recorded_reply_def StoreTransportError_def
      StoreResponse_def captureNonSuccessResponseBody_def StoreResponseBodyCapture_def read_prefix_def
      Let_def min_def split: prod.splits sum.splits option.splits)

end
