(* ===== verification/McpTransport.thy ===== *)
theory McpTransport
  imports HeaderScope Forwarding
begin

text \<open>
  The transports under the dispatcher (\<open>pkg/mcpclient\<close>): the forwarding
  connection, which turns one SDK write into a status, a header and a
  preserved MCP error (\<open>forwarding_transport_impl.go\<close>), and the shared
  connection, which lets all commands of a channel use one physical
  connection (\<open>shared_connection_transport.go\<close>).

  The SDK's connection is not code of this repository: what its write does is
  the list of round trips it makes through \<open>ForwardingRoundTripper\<close> and the
  error it returns, and \<open>jsonrpc.DecodeMessage\<close> is the parameter \<open>decode\<close>.
\<close>

section \<open>Preserved errors\<close>

text \<open>\<open>strconv.ParseInt\<close> of a JSON number literal in base ten and 64 bits.\<close>

definition parse_int64 :: "string \<Rightarrow> int option" where
  "parse_int64 s =
     (let neg = has_prefix ''-'' s; ds = (if neg then tl s else s);
          n = (if neg then - int (digits_value ds) else int (digits_value ds))
      in if ds = [] \<or> \<not> list_all is_digit ds \<or> n < min_i64 \<or> n > max_i64 then None else Some n)"

fun assign_ptr_int :: "int option option \<Rightarrow> json \<Rightarrow> int option option" where
  "assign_ptr_int None _ = None"
| "assign_ptr_int (Some _) JNull = Some None"
| "assign_ptr_int (Some _) (JNum n) = map_option Some (parse_int64 n)"
| "assign_ptr_int (Some _) _ = None"

text \<open>The \<open>error\<close> member: a pointer to the pointers to code and message.\<close>

type_synonym raw_error = "int option \<times> string option"

fun assign_raw_error :: "raw_error option option \<Rightarrow> json \<Rightarrow> raw_error option option" where
  "assign_raw_error None _ = None"
| "assign_raw_error (Some _) JNull = Some None"
| "assign_raw_error (Some p) (JObj ms) =
     (let (c, m) = (case p of None \<Rightarrow> (None, None) | Some q \<Rightarrow> q) in
      case (foldl assign_ptr_int (Some c) (map snd (field_values ''code'' ms)),
            foldl assign_ptr_string (Some m) (map snd (field_values ''message'' ms))) of
        (Some c, Some m) \<Rightarrow> Some (Some (c, m))
      | _ \<Rightarrow> None)"
| "assign_raw_error (Some _) _ = None"

record raw_error_response =
  re_jsonrpc :: string
  re_method :: string
  re_result :: string
  re_error :: "raw_error option"

definition unmarshal_error_response :: "string \<Rightarrow> raw_error_response option" where
  "unmarshal_error_response body = (case unmarshal_struct body of
     None \<Rightarrow> None
   | Some ms \<Rightarrow>
       (case (string_field ''jsonrpc'' ms,
              foldl assign_raw_error (Some None) (map snd (field_values ''error'' ms))) of
          (Some v, Some e) \<Rightarrow>
            Some \<lparr>re_jsonrpc = v, re_method = raw_value_field ''method'' ms,
                  re_result = raw_value_field ''result'' ms, re_error = e\<rparr>
        | _ \<Rightarrow> None))"

type_synonym decoder = "string \<Rightarrow> goerr + rpc_message"

definition newNonProtocolResponseError :: "non_protocol_kind \<Rightarrow> goerr \<Rightarrow> goerr" where
  "newNonProtocolResponseError kind cause = NonProtocolResponse kind # cause"

text \<open>The payload and the code of the preserved error, or the error that says why there is none.\<close>

definition preservedMCPError ::
    "decoder \<Rightarrow> rpc_message \<Rightarrow> header_carrier option \<Rightarrow> goerr + string \<times> int" where
  "preservedMCPError decode msg carrier = (case msg of
     Response _ _ _ \<Rightarrow> Inl (newNonProtocolResponseError InvalidMCPError nil_err)
   | Request i _ _ \<Rightarrow>
       if i = NoId then Inl (newNonProtocolResponseError InvalidMCPError nil_err)
       else case carrier of
         None \<Rightarrow> Inl (newNonProtocolResponseError BodyMissing nil_err)
       | Some c \<Rightarrow>
           (let (body, tooLarge, readErr, captured) = ResponseBodyCapture c in
            if \<not> captured then Inl (newNonProtocolResponseError BodyMissing nil_err)
            else if readErr \<noteq> nil_err then Inl (newNonProtocolResponseError BodyUnreadable readErr)
            else if tooLarge then Inl (newNonProtocolResponseError BodyTooLarge nil_err)
            else if body = [] then Inl (newNonProtocolResponseError BodyMissing nil_err)
            else if json_parse body = None then Inl (newNonProtocolResponseError MalformedJSON nil_err)
            else case unmarshal_error_response body of
              None \<Rightarrow> Inl (newNonProtocolResponseError InvalidMCPError [ErrText ''json''])
            | Some raw \<Rightarrow>
                (case re_error raw of
                   Some (Some code, Some _) \<Rightarrow>
                     if re_jsonrpc raw \<noteq> ''2.0'' \<or> re_method raw \<noteq> [] \<or> re_result raw \<noteq> []
                     then Inl (newNonProtocolResponseError InvalidMCPError nil_err)
                     else (case decode body of
                         Inl decodeErr \<Rightarrow> Inl (newNonProtocolResponseError InvalidMCPError decodeErr)
                       | Inr (Response j (Some e) r) \<Rightarrow>
                           if j = NoId \<or> j \<noteq> i
                           then Inl (newNonProtocolResponseError InvalidMCPError nil_err)
                           else Inr (body, code)
                       | Inr _ \<Rightarrow> Inl (newNonProtocolResponseError InvalidMCPError nil_err))
                 | _ \<Rightarrow> Inl (newNonProtocolResponseError InvalidMCPError nil_err))))"

section \<open>The forwarding connection\<close>

text \<open>
  \<open>preserves\<close> is what the connection answers to
  \<open>preserveConnectionOnContextCancellation\<close>, \<open>None\<close> when it has no such method;
  \<open>enforced\<close> says whether the context carries the response-deadline mark.
\<close>

definition shouldCloseAfterForwardingError :: "bool option \<Rightarrow> bool \<Rightarrow> goerr \<Rightarrow> bool" where
  "shouldCloseAfterForwardingError preserves enforced err =
     (if err = nil_err then False
      else if \<not> errors_is err Canceled \<and> \<not> errors_is err DeadlineExceeded then True
      else if \<not> enforced then True
      else preserves \<noteq> Some True)"

text \<open>One round trip of the SDK's write: the request it makes and the base round tripper.\<close>

record sdk_trip =
  tp_url :: "url option"
  tp_header :: header
  tp_base :: "url option \<Rightarrow> header \<Rightarrow> trip_result"

definition make_trip :: "string \<Rightarrow> header_carrier \<Rightarrow> sdk_trip \<Rightarrow> header_carrier" where
  "make_trip serverOrigin c tp =
     (case ForwardingRoundTripper_RoundTrip serverOrigin (tp_base tp) (Some c) (tp_url tp) (tp_header tp) of
        (_, c', _) \<Rightarrow> (case c' of None \<Rightarrow> c | Some k \<Rightarrow> k))"

record write_call =
  wc_ctx :: bool                \<comment> \<open>the context is not nil\<close>
  wc_enforced :: bool           \<comment> \<open>it has the response-deadline mark\<close>
  wc_preserves :: "bool option"
  wc_origin :: string           \<comment> \<open>of the round tripper's server\<close>
  wc_trips :: "sdk_trip list"
  wc_err :: goerr               \<comment> \<open>what the SDK's write returns\<close>
  wc_started :: gotime
  wc_completed :: gotime

definition empty_write_result :: write_result where
  "empty_write_result = \<lparr>wr_status = 0, wr_headers = [], wr_preserved = None, wr_started = 0, wr_completed = 0\<rparr>"

text \<open>The result and the error of the write, and whether it closed the connection.\<close>

definition forwardingConnection_Write ::
    "decoder \<Rightarrow> write_call \<Rightarrow> header \<Rightarrow> rpc_message \<Rightarrow> write_result \<times> goerr \<times> bool" where
  "forwardingConnection_Write decode wc hdr msg = (case ContextWithHeaders (wc_ctx wc) hdr of
     Inl err \<Rightarrow> (empty_write_result, err, False)
   | Inr carrier \<Rightarrow>
       (let carrier = foldl (make_trip (wc_origin wc)) carrier (wc_trips wc);
            (st, hs) = ResponseStatusAndHeaders (Some carrier);
            result = \<lparr>wr_status = st, wr_headers = hs, wr_preserved = None,
                      wr_started = wc_started wc, wr_completed = wc_completed wc\<rparr>;
            err = wc_err wc;
            closed = (err \<noteq> nil_err \<and>
              shouldCloseAfterForwardingError (wc_preserves wc) (wc_enforced wc) err)
        in if st \<noteq> 0 \<and> (st < 200 \<or> st \<ge> 300)
           then (case preservedMCPError decode msg (Some carrier) of
                   Inr (payload, _) \<Rightarrow> (result\<lparr>wr_preserved := Some payload\<rparr>, nil_err, closed)
                 | Inl responseErr \<Rightarrow> (result, responseErr, closed))
           else (result, err, closed)))"

definition forwardingConnection_Read ::
    "bool option \<Rightarrow> bool \<Rightarrow> rpc_message option \<times> goerr \<Rightarrow> (rpc_message option \<times> goerr) \<times> bool" where
  "forwardingConnection_Read preserves enforced outcome =
     (outcome, snd outcome \<noteq> nil_err \<and> shouldCloseAfterForwardingError preserves enforced (snd outcome))"

section \<open>Session termination\<close>

datatype sdk_transport = StreamableTransport string | LoggingTransport sdk_transport | OtherTransport

fun unwrapStreamableClientTransport :: "sdk_transport \<Rightarrow> string option" where
  "unwrapStreamableClientTransport (StreamableTransport endpoint) = Some endpoint"
| "unwrapStreamableClientTransport (LoggingTransport t) = unwrapStreamableClientTransport t"
| "unwrapStreamableClientTransport OtherTransport = None"

text \<open>
  The call the termination makes: a \<open>DELETE\<close> to the endpoint with its header
  (\<open>build\<close> and \<open>send\<close> are \<open>http.NewRequest\<close> and \<open>Client.Do\<close>), or \<open>Connect\<close>
  and \<open>Close\<close> of an SDK connection, whose round trips fill the carrier.
\<close>

definition terminateStreamableSession ::
    "(string \<Rightarrow> goerr) \<Rightarrow> (string \<Rightarrow> header \<Rightarrow> goerr + int \<times> header) \<Rightarrow> string \<Rightarrow> header \<Rightarrow> int \<times> header \<times> goerr" where
  "terminateStreamableSession build send endpoint headers =
     (let err = build endpoint in
      if err \<noteq> nil_err then (0, [], err)
      else case send endpoint headers of
        Inl err \<Rightarrow> (0, [], err)
      | Inr (status, hs) \<Rightarrow> (status, hs, nil_err))"

record sdk_close =
  sc_connect :: goerr
  sc_trips :: "sdk_trip list"
  sc_close :: goerr

definition forwardingTransport_TerminateSession ::
    "(string \<Rightarrow> goerr) \<Rightarrow> (string \<Rightarrow> header \<Rightarrow> goerr + int \<times> header) \<Rightarrow> string \<Rightarrow> sdk_close \<Rightarrow>
     sdk_transport \<Rightarrow> bool \<Rightarrow> bool \<Rightarrow> header \<Rightarrow> int \<times> header \<times> goerr" where
  "forwardingTransport_TerminateSession build send serverOrigin cl base has_ctx enforced headers =
     (case ContextWithHeaders has_ctx headers of
        Inl err \<Rightarrow> (0, [], err)
      | Inr carrier \<Rightarrow>
          (case (unwrapStreamableClientTransport base,
                 enforced \<or> SessionIDFromHeaders headers \<noteq> None) of
             (Some endpoint, True) \<Rightarrow> terminateStreamableSession build send endpoint headers
           | _ \<Rightarrow>
               if sc_connect cl \<noteq> nil_err then (0, [], sc_connect cl)
               else (case ResponseStatusAndHeaders
                            (Some (foldl (make_trip serverOrigin) carrier (sc_trips cl))) of
                       (st, hs) \<Rightarrow> (st, hs, sc_close cl))))"

section \<open>The shared connection\<close>

text \<open>
  A physical connection of the base transport is numbered in the order of
  creation, a logical one by its place in \<open>xt_conns\<close>. The generation that the
  child supervisor reports is an argument of the operations, since it changes
  without the transport's lock. A base that an operation detaches is closed
  right after the lock is released; \<open>xt_closed\<close> has these in order.
\<close>

record shared_connection =
  cx_base :: "nat option"
  cx_written :: bool
  cx_generation :: "64 word"
  cx_known :: bool

record shared_transport =
  xt_preserve :: bool
  xt_restart :: bool
  xt_versioned :: bool
  xt_conn :: "nat option"
  xt_conns :: "shared_connection list"
  xt_bases :: nat
  xt_closed :: "nat list"

definition newSharedConnectionTransportWithPolicies :: "bool \<Rightarrow> bool \<Rightarrow> bool \<Rightarrow> shared_transport" where
  "newSharedConnectionTransportWithPolicies versioned preserve restart =
     \<lparr>xt_preserve = preserve, xt_restart = restart, xt_versioned = versioned, xt_conn = None,
      xt_conns = [], xt_bases = 0, xt_closed = []\<rparr>"

definition NewSharedConnectionTransport :: "bool \<Rightarrow> shared_transport" where
  "NewSharedConnectionTransport versioned = newSharedConnectionTransportWithPolicies versioned False False"

definition NewInitializeRestartingSharedConnectionTransport :: "bool \<Rightarrow> shared_transport" where
  "NewInitializeRestartingSharedConnectionTransport versioned =
     newSharedConnectionTransportWithPolicies versioned False True"

definition newContextCancellationPreservingSharedConnectionTransport :: "bool \<Rightarrow> shared_transport" where
  "newContextCancellationPreservingSharedConnectionTransport versioned =
     newSharedConnectionTransportWithPolicies versioned True False"

definition connectionCurrentLocked :: "64 word \<Rightarrow> shared_transport \<Rightarrow> shared_connection \<Rightarrow> bool" where
  "connectionCurrentLocked gen t c \<longleftrightarrow> \<not> xt_versioned t \<or> \<not> cx_known c \<or> cx_generation c = gen"

definition close_base :: "nat option \<Rightarrow> shared_transport \<Rightarrow> shared_transport" where
  "close_base b t = (case b of None \<Rightarrow> t | Some n \<Rightarrow> t\<lparr>xt_closed := xt_closed t @ [n]\<rparr>)"

definition emptied :: "shared_connection \<Rightarrow> shared_connection" where
  "emptied c = c\<lparr>cx_base := None, cx_written := False\<rparr>"

definition new_shared :: "nat \<Rightarrow> 64 word option \<Rightarrow> shared_connection" where
  "new_shared b g = \<lparr>cx_base = Some b, cx_written = False,
     cx_generation = (case g of None \<Rightarrow> 0 | Some w \<Rightarrow> w), cx_known = (g \<noteq> None)\<rparr>"

text \<open>\<open>Connect\<close> of the base: its error, and the generation the new connection reports, if it reports one.\<close>

type_synonym connect_result = "goerr \<times> 64 word option"

datatype connect_outcome = ConnectAgain | Connected nat | ConnectFailed goerr

text \<open>One pass of the loop in \<open>Connect\<close>, from taking the lock to releasing it.\<close>

definition connect_pass :: "64 word \<Rightarrow> connect_result \<Rightarrow> shared_transport \<Rightarrow> shared_transport \<times> connect_outcome" where
  "connect_pass gen r t = (case xt_conn t of
     Some i \<Rightarrow>
       (let c = xt_conns t ! i in
        if connectionCurrentLocked gen t c then (t, Connected i)
        else (close_base (cx_base c)
                (t\<lparr>xt_conns := (xt_conns t)[i := emptied c], xt_conn := None\<rparr>), ConnectAgain))
   | None \<Rightarrow>
       (case r of (err, g) \<Rightarrow>
          if err \<noteq> nil_err then (t, ConnectFailed err)
          else (t\<lparr>xt_conns := xt_conns t @ [new_shared (xt_bases t) g],
                  xt_conn := Some (length (xt_conns t)), xt_bases := Suc (xt_bases t)\<rparr>,
                Connected (length (xt_conns t)))))"

text \<open>The loop alone, with the generation and the base's answer of each pass.\<close>

fun shared_Connect ::
    "(64 word \<times> connect_result) list \<Rightarrow> shared_transport \<Rightarrow> (shared_transport \<times> connect_outcome) option" where
  "shared_Connect [] t = None"
| "shared_Connect ((gen, r) # ps) t = (case connect_pass gen r t of
     (t', ConnectAgain) \<Rightarrow> shared_Connect ps t'
   | done \<Rightarrow> Some done)"

definition captureSharedGeneration :: "shared_transport \<Rightarrow> nat \<Rightarrow> 64 word \<times> bool" where
  "captureSharedGeneration t i =
     (if cx_known (xt_conns t ! i) then (cx_generation (xt_conns t ! i), True) else (0, False))"

definition shared_invalidate :: "shared_transport \<Rightarrow> shared_transport" where
  "shared_invalidate t = (case xt_conn t of
     None \<Rightarrow> t
   | Some i \<Rightarrow> close_base (cx_base (xt_conns t ! i))
       (t\<lparr>xt_conns := (xt_conns t)[i := emptied (xt_conns t ! i)], xt_conn := None\<rparr>))"

definition currentBase :: "64 word \<Rightarrow> shared_transport \<Rightarrow> nat \<Rightarrow> nat option" where
  "currentBase gen t i =
     (if connectionCurrentLocked gen t (xt_conns t ! i) then cx_base (xt_conns t ! i) else None)"

definition markWritten :: "nat \<Rightarrow> shared_transport \<Rightarrow> shared_transport" where
  "markWritten i t = t\<lparr>xt_conns := (xt_conns t)[i := (xt_conns t ! i)\<lparr>cx_written := True\<rparr>]\<rparr>"

fun isInitializeRequest :: "rpc_message \<Rightarrow> bool" where
  "isInitializeRequest (Request _ m _) = (m = ''initialize'')"
| "isInitializeRequest (Response _ _ _) = False"

definition restartForInitialize ::
    "nat \<Rightarrow> rpc_message \<Rightarrow> connect_result \<Rightarrow> shared_transport \<Rightarrow> shared_transport \<times> goerr" where
  "restartForInitialize i msg r t =
     (if \<not> xt_restart t \<or> \<not> isInitializeRequest msg then (t, nil_err)
      else if xt_conn t \<noteq> Some i \<or> \<not> cx_written (xt_conns t ! i) then (t, nil_err)
      else if fst r \<noteq> nil_err then (t, fst r)
      else (close_base (cx_base (xt_conns t ! i))
              (t\<lparr>xt_conns := (xt_conns t)[i := (xt_conns t ! i)\<lparr>cx_base := Some (xt_bases t), cx_written := False\<rparr>],
                 xt_bases := Suc (xt_bases t)\<rparr>), nil_err))"

definition shared_detach :: "nat \<Rightarrow> shared_transport \<Rightarrow> shared_transport \<times> nat option" where
  "shared_detach i t =
     (t\<lparr>xt_conns := (xt_conns t)[i := emptied (xt_conns t ! i)],
        xt_conn := (if xt_conn t = Some i then None else xt_conn t)\<rparr>, cx_base (xt_conns t ! i))"

definition sharedConnection_Close :: "nat \<Rightarrow> shared_transport \<Rightarrow> shared_transport" where
  "sharedConnection_Close i t = (case shared_detach i t of (t, b) \<Rightarrow> close_base b t)"

text \<open>
  The base a read uses, \<open>io.ErrClosedPipe\<close> when there is none; and a whole
  write, with the error of the base's write and the base it went to.
\<close>

definition sharedConnection_Read :: "64 word \<Rightarrow> shared_transport \<Rightarrow> nat \<Rightarrow> goerr + nat" where
  "sharedConnection_Read gen t i = (case currentBase gen t i of
     None \<Rightarrow> Inl [ClosedPipe] | Some b \<Rightarrow> Inr b)"

definition sharedConnection_Write ::
    "64 word \<Rightarrow> nat \<Rightarrow> rpc_message \<Rightarrow> connect_result \<Rightarrow> goerr \<Rightarrow> shared_transport \<Rightarrow>
     shared_transport \<times> goerr \<times> nat option" where
  "sharedConnection_Write gen i msg r werr t =
     (let (t, err) = restartForInitialize i msg r t in
      if err \<noteq> nil_err then (t, err, None)
      else case currentBase gen t i of
        None \<Rightarrow> (t, [ClosedPipe], None)
      | Some b \<Rightarrow> (if werr = nil_err then markWritten i t else t, werr, Some b))"

text \<open>What may happen to the transport, in the order in which the lock is taken.\<close>

datatype shared_event =
    XConnect "64 word" connect_result
  | XInvalidate
  | XRestart nat rpc_message connect_result
  | XWritten nat
  | XClose nat

fun shared_step :: "shared_transport \<Rightarrow> shared_event \<Rightarrow> shared_transport" where
  "shared_step t (XConnect gen r) = fst (connect_pass gen r t)"
| "shared_step t XInvalidate = shared_invalidate t"
| "shared_step t (XRestart i msg r) =
     (if i < length (xt_conns t) then fst (restartForInitialize i msg r t) else t)"
| "shared_step t (XWritten i) = (if i < length (xt_conns t) then markWritten i t else t)"
| "shared_step t (XClose i) = (if i < length (xt_conns t) then sharedConnection_Close i t else t)"

definition shared_inv :: "shared_transport \<Rightarrow> bool" where
  "shared_inv t \<longleftrightarrow>
     (\<forall>i. xt_conn t = Some i \<longrightarrow> i < length (xt_conns t)) \<and>
     (\<forall>i b. i < length (xt_conns t) \<longrightarrow> cx_base (xt_conns t ! i) = Some b \<longrightarrow> xt_conn t = Some i) \<and>
     (\<forall>b. b < xt_bases t \<longleftrightarrow> b \<in> set (xt_closed t) \<or>
        (\<exists>i. xt_conn t = Some i \<and> cx_base (xt_conns t ! i) = Some b)) \<and>
     (\<forall>i b. xt_conn t = Some i \<longrightarrow> cx_base (xt_conns t ! i) = Some b \<longrightarrow> b \<notin> set (xt_closed t)) \<and>
     distinct (xt_closed t)"

section \<open>Lemmas on the shared connection\<close>

lemmas shared_defs = connect_pass_def shared_invalidate_def restartForInitialize_def markWritten_def
  sharedConnection_Close_def shared_detach_def close_base_def emptied_def

lemma shared_new: "shared_inv (newSharedConnectionTransportWithPolicies v p r)"
  by (simp add: shared_inv_def newSharedConnectionTransportWithPolicies_def)

lemma shared_invI:
  assumes "\<And>i. xt_conn t = Some i \<Longrightarrow> i < length (xt_conns t)"
    and "\<And>i b. i < length (xt_conns t) \<Longrightarrow> cx_base (xt_conns t ! i) = Some b \<Longrightarrow> xt_conn t = Some i"
    and "\<And>b. b < xt_bases t \<longleftrightarrow> b \<in> set (xt_closed t) \<or>
        (\<exists>i. xt_conn t = Some i \<and> cx_base (xt_conns t ! i) = Some b)"
    and "\<And>i b. xt_conn t = Some i \<Longrightarrow> cx_base (xt_conns t ! i) = Some b \<Longrightarrow> b \<notin> set (xt_closed t)"
    and "distinct (xt_closed t)"
  shows "shared_inv t"
  using assms unfolding shared_inv_def by blast

lemma shared_invD:
  assumes "shared_inv t"
  shows "xt_conn t = Some i \<Longrightarrow> i < length (xt_conns t)"
    and "i < length (xt_conns t) \<Longrightarrow> cx_base (xt_conns t ! i) = Some b \<Longrightarrow> xt_conn t = Some i"
    and "b < xt_bases t \<longleftrightarrow> b \<in> set (xt_closed t) \<or>
        (\<exists>i. xt_conn t = Some i \<and> cx_base (xt_conns t ! i) = Some b)"
    and "xt_conn t = Some i \<Longrightarrow> cx_base (xt_conns t ! i) = Some b \<Longrightarrow> b \<notin> set (xt_closed t)"
    and "distinct (xt_closed t)"
  using assms unfolding shared_inv_def by blast+

text \<open>
  Every operation that lets go of a connection empties it: the base, if any,
  moves to the closed ones, and the transport forgets the connection.
\<close>

definition let_go :: "nat \<Rightarrow> shared_transport \<Rightarrow> shared_transport" where
  "let_go i t = close_base (cx_base (xt_conns t ! i))
     (t\<lparr>xt_conns := (xt_conns t)[i := emptied (xt_conns t ! i)],
        xt_conn := (if xt_conn t = Some i then None else xt_conn t)\<rparr>)"

lemma let_go_simps [simp]:
  "xt_conn (let_go i t) = (if xt_conn t = Some i then None else xt_conn t)"
  "xt_conns (let_go i t) = (xt_conns t)[i := emptied (xt_conns t ! i)]"
  "xt_bases (let_go i t) = xt_bases t"
  "xt_closed (let_go i t) =
     xt_closed t @ (case cx_base (xt_conns t ! i) of None \<Rightarrow> [] | Some b \<Rightarrow> [b])"
  by (simp_all add: let_go_def close_base_def split: option.splits)

lemma let_go_inv:
  assumes "shared_inv t" and "i < length (xt_conns t)"
  shows "shared_inv (let_go i t)"
proof (rule shared_invI, goal_cases)
  case (1 j)
  then show ?case using shared_invD(1) [OF assms(1), of j] by (simp split: if_splits)
next
  case (2 j b)
  then show ?case
    using shared_invD(2) [OF assms(1), of j b] assms(2)
    by (cases "i = j") (simp_all add: emptied_def)
next
  case (3 b)
  show ?case
    using shared_invD(2) [OF assms, of b] shared_invD(3) [OF assms(1), of b]
    by (auto simp: nth_list_update emptied_def split: option.splits if_splits)
next
  case (4 j b)
  then show ?case
    using shared_invD(2) [OF assms] shared_invD(4) [OF assms(1), of j b]
    by (cases "cx_base (xt_conns t ! i)") (auto simp: nth_list_update split: if_splits)
next
  case 5
  show ?case
    using shared_invD(2) [OF assms] shared_invD(4) [OF assms(1), of i] shared_invD(5) [OF assms(1)]
    by (cases "cx_base (xt_conns t ! i)") auto
qed

definition opened :: "64 word option \<Rightarrow> shared_transport \<Rightarrow> shared_transport" where
  "opened g t = t\<lparr>xt_conns := xt_conns t @ [new_shared (xt_bases t) g],
     xt_conn := Some (length (xt_conns t)), xt_bases := Suc (xt_bases t)\<rparr>"

lemma connect_pass_cases:
  "fst (connect_pass gen r t) = t \<or>
   (\<exists>i. xt_conn t = Some i \<and> fst (connect_pass gen r t) = let_go i t) \<or>
   (\<exists>g. xt_conn t = None \<and> fst (connect_pass gen r t) = opened g t)"
  by (cases r) (auto simp: connect_pass_def let_go_def opened_def Let_def split: option.splits)

lemma opened_inv:
  assumes inv: "shared_inv t" and none: "xt_conn t = None"
  shows "shared_inv (opened g t)"
proof -
  note invD = shared_invD [OF inv]
  have closed: "b < xt_bases t \<longleftrightarrow> b \<in> set (xt_closed t)" for b
    using invD(3) [of b] none by simp
  have free: "i < length (xt_conns t) \<Longrightarrow> cx_base (xt_conns t ! i) = None" for i
    using invD(2) [of i] none by (cases "cx_base (xt_conns t ! i)") auto
  show ?thesis
    using closed free invD(5)
    by (intro shared_invI) (auto simp: opened_def new_shared_def nth_append less_Suc_eq split: if_splits)
qed

lemma connect_pass_inv: "shared_inv t \<Longrightarrow> shared_inv (fst (connect_pass gen r t))"
  using connect_pass_cases [of gen r t] let_go_inv opened_inv shared_invD(1) by metis

lemma invalidate_let_go:
  "shared_invalidate t = (case xt_conn t of None \<Rightarrow> t | Some i \<Rightarrow> let_go i t)"
  by (simp add: shared_invalidate_def let_go_def split: option.splits)

lemma close_let_go: "sharedConnection_Close i t = let_go i t"
  by (simp add: sharedConnection_Close_def shared_detach_def let_go_def)

lemma restart_cases:
  "restartForInitialize i msg r t = (t', err) \<Longrightarrow>
     t' = t \<and> (xt_restart t \<longrightarrow> isInitializeRequest msg \<longrightarrow> err = nil_err \<longrightarrow>
       xt_conn t = Some i \<longrightarrow> \<not> cx_written (xt_conns t ! i)) \<or>
     xt_conn t = Some i \<and> cx_written (xt_conns t ! i) \<and> err = nil_err \<and>
     t' = close_base (cx_base (xt_conns t ! i))
       (t\<lparr>xt_conns := (xt_conns t)[i := (xt_conns t ! i)\<lparr>cx_base := Some (xt_bases t), cx_written := False\<rparr>],
          xt_bases := Suc (xt_bases t)\<rparr>)"
  by (auto simp: restartForInitialize_def split: if_splits sum.splits)

lemma restart_inv:
  assumes inv: "shared_inv t" and "restartForInitialize i msg r t = (t', err)"
  shows "shared_inv t'"
  using restart_cases [OF assms(2)]
proof (elim disjE conjE)
  assume cur: "xt_conn t = Some i"
    and t': "t' = close_base (cx_base (xt_conns t ! i))
       (t\<lparr>xt_conns := (xt_conns t)[i := (xt_conns t ! i)\<lparr>cx_base := Some (xt_bases t), cx_written := False\<rparr>],
          xt_bases := Suc (xt_bases t)\<rparr>)"
  note invD = shared_invD [OF inv]
  have i: "i < length (xt_conns t)" using cur by (rule invD(1))
  have old: "b < xt_bases t \<longleftrightarrow> b \<in> set (xt_closed t) \<or> cx_base (xt_conns t ! i) = Some b" for b
    using invD(3) [of b] cur by auto
  show ?thesis
    unfolding t'
  proof (rule shared_invI, goal_cases)
    case (2 j b)
    then show ?case using cur i invD(2) [of j b] by (auto simp: close_base_def nth_list_update split: option.splits if_splits)
  next
    case (3 b)
    then show ?case using cur i old [of b] by (auto simp: close_base_def less_Suc_eq split: option.splits)
  next
    case (4 j b)
    then show ?case using cur i old [of b] by (auto simp: close_base_def split: option.splits)
  qed (use cur i invD(4, 5) in \<open>auto simp: close_base_def split: option.splits\<close>)
qed (use inv in simp)

lemma written_inv: "shared_inv t \<Longrightarrow> i < length (xt_conns t) \<Longrightarrow> shared_inv (markWritten i t)"
  unfolding markWritten_def
  by (rule shared_invI) (auto simp: nth_list_update dest: shared_invD split: if_splits)

lemma shared_step_inv: "shared_inv t \<Longrightarrow> shared_inv (shared_step t e)"
proof (cases e)
  case (XRestart i msg r)
  moreover assume "shared_inv t"
  ultimately show ?thesis
    using restart_inv [of t i msg r] by (cases "restartForInitialize i msg r t") simp
qed (auto simp: connect_pass_inv invalidate_let_go close_let_go written_inv
    intro: let_go_inv shared_invD(1) split: option.splits)

interpretation shared_system: invariant_system shared_step shared_inv
  by unfold_locales (rule shared_step_inv)

text \<open>
  Serialised use: whole writes, one at a time. The log has the messages the
  bases accepted, newest first.
\<close>

datatype serial_use =
    UConnect "64 word" connect_result
  | UInvalidate
  | UWrite "64 word" nat rpc_message connect_result goerr
  | UClose nat

type_synonym accepted_log = "(nat \<times> rpc_message) list"

fun serial_use_step :: "shared_transport \<times> accepted_log \<Rightarrow> serial_use \<Rightarrow> shared_transport \<times> accepted_log" where
  "serial_use_step (t, log) (UConnect gen r) = (fst (connect_pass gen r t), log)"
| "serial_use_step (t, log) UInvalidate = (shared_invalidate t, log)"
| "serial_use_step (t, log) (UWrite gen i msg r werr) =
     (if i < length (xt_conns t)
      then (case sharedConnection_Write gen i msg r werr t of
              (t', err, b) \<Rightarrow> (t', (case b of Some n \<Rightarrow> if err = nil_err then [(n, msg)] else [] | None \<Rightarrow> []) @ log))
      else (t, log))"
| "serial_use_step (t, log) (UClose i) =
     (if i < length (xt_conns t) then sharedConnection_Close i t else t, log)"

fun sessions_fresh :: "accepted_log \<Rightarrow> bool" where
  "sessions_fresh [] = True"
| "sessions_fresh ((b, m) # log) =
     ((isInitializeRequest m \<longrightarrow> b \<notin> fst ` set log) \<and> sessions_fresh log)"

definition use_inv :: "shared_transport \<times> accepted_log \<Rightarrow> bool" where
  "use_inv s \<longleftrightarrow> (case s of (t, log) \<Rightarrow>
     shared_inv t \<and> xt_restart t \<and> fst ` set log \<subseteq> {..<xt_bases t} \<and>
     (\<forall>i b. xt_conn t = Some i \<longrightarrow> cx_base (xt_conns t ! i) = Some b \<longrightarrow> b \<in> fst ` set log \<longrightarrow>
        cx_written (xt_conns t ! i)) \<and>
     sessions_fresh log)"

lemma restart_kept [simp]:
  "xt_restart (close_base b t) = xt_restart t" "xt_restart (let_go i t) = xt_restart t"
  "xt_restart (opened g t) = xt_restart t" "xt_restart (markWritten i t) = xt_restart t"
  by (simp_all add: close_base_def let_go_def opened_def markWritten_def split: option.splits)

lemma let_go_use: "use_inv (t, log) \<Longrightarrow> i < length (xt_conns t) \<Longrightarrow> use_inv (let_go i t, log)"
  using let_go_inv [of t i] by (auto simp: use_inv_def nth_list_update split: if_splits)

lemma opened_use: "use_inv (t, log) \<Longrightarrow> xt_conn t = None \<Longrightarrow> use_inv (opened g t, log)"
  using opened_inv [of t g] by (auto simp: use_inv_def opened_def new_shared_def)

lemma connect_use: "use_inv (t, log) \<Longrightarrow> use_inv (fst (connect_pass gen r t), log)"
  using connect_pass_cases [of gen r t] let_go_use opened_use shared_invD(1)
  by (metis (no_types, lifting) case_prod_conv use_inv_def)

text \<open>After the restart check, an \<open>initialize\<close> meets a base that has accepted nothing.\<close>

lemma restart_use:
  assumes inv: "use_inv (t, log)" and res: "restartForInitialize i msg r t = (t', nil_err)"
  shows "use_inv (t', log) \<and> length (xt_conns t') = length (xt_conns t) \<and>
    (isInitializeRequest msg \<longrightarrow> xt_conn t' = Some i \<longrightarrow> \<not> cx_written (xt_conns t' ! i))"
  using restart_cases [OF res]
proof (elim disjE conjE)
  assume "t' = t" "xt_restart t \<longrightarrow> isInitializeRequest msg \<longrightarrow> nil_err = nil_err \<longrightarrow>
    xt_conn t = Some i \<longrightarrow> \<not> cx_written (xt_conns t ! i)"
  then show ?thesis using inv by (auto simp: use_inv_def)
next
  assume cur: "xt_conn t = Some i"
    and t': "t' = close_base (cx_base (xt_conns t ! i))
       (t\<lparr>xt_conns := (xt_conns t)[i := (xt_conns t ! i)\<lparr>cx_base := Some (xt_bases t), cx_written := False\<rparr>],
          xt_bases := Suc (xt_bases t)\<rparr>)"
  from inv have "shared_inv t" by (simp add: use_inv_def)
  then have "shared_inv t'" using res by (rule restart_inv)
  moreover have "i < length (xt_conns t)" using inv cur shared_invD(1) by (auto simp: use_inv_def)
  ultimately show ?thesis
    using inv cur by (auto simp: use_inv_def t' close_base_def split: option.splits)
qed

lemma write_use:
  assumes inv: "use_inv (t, log)" and i: "i < length (xt_conns t)"
  shows "use_inv (serial_use_step (t, log) (UWrite gen i msg r werr))"
proof -
  obtain t' err where res: "restartForInitialize i msg r t = (t', err)" by fastforce
  show ?thesis
  proof (cases "err = nil_err")
    case False
    with res have "t' = t" using restart_cases [OF res] by auto
    with False res inv i show ?thesis by (simp add: sharedConnection_Write_def)
  next
    case True
    with restart_use [OF inv] res have
      inv': "use_inv (t', log)" and i': "i < length (xt_conns t')"
      and fresh: "isInitializeRequest msg \<longrightarrow> xt_conn t' = Some i \<longrightarrow> \<not> cx_written (xt_conns t' ! i)"
      using i by auto
    show ?thesis
    proof (cases "werr = nil_err \<and> currentBase gen t' i \<noteq> None")
      case False
      with True res inv' i show ?thesis
        by (auto simp: sharedConnection_Write_def split: option.splits)
    next
      case ok: True
      then obtain b where b: "cx_base (xt_conns t' ! i) = Some b" "currentBase gen t' i = Some b"
        by (auto simp: currentBase_def split: if_splits)
      have cur: "xt_conn t' = Some i"
        using inv' b(1) i' shared_invD(2) by (auto simp: use_inv_def)
      have lt: "b < xt_bases t'"
        using inv' cur b(1) shared_invD(3) [of t' b] by (auto simp: use_inv_def)
      have "sessions_fresh ((b, msg) # log)"
        using inv' cur b fresh by (auto simp: use_inv_def)
      then have "use_inv (markWritten i t', (b, msg) # log)"
        using inv' i' lt written_inv cur by (auto simp: use_inv_def markWritten_def)
      then show ?thesis
        using res True ok b i by (simp add: sharedConnection_Write_def)
    qed
  qed
qed

interpretation serial_use: invariant_system serial_use_step use_inv
proof
  fix s e
  assume inv: "use_inv s"
  obtain t log where s: "s = (t, log)" by fastforce
  have cur: "xt_conn t = Some i \<Longrightarrow> i < length (xt_conns t)" for i
    using inv shared_invD(1) by (auto simp: use_inv_def s)
  show "use_inv (serial_use_step s e)"
  proof (cases e)
    case (UWrite gen i msg r werr)
    then show ?thesis using inv write_use by (cases "i < length (xt_conns t)") (auto simp: s)
  qed (use inv cur in \<open>auto simp: s connect_use invalidate_let_go close_let_go
        intro: let_go_use split: option.splits\<close>)
qed

section \<open>Lemmas on the forwarding connection\<close>

text \<open>What the carrier has after the trips of a write: the last answer, with its body when it is an error.\<close>

definition reply_of :: "sdk_trip list \<Rightarrow> http_reply \<Rightarrow> bool" where
  "reply_of tps resp \<longleftrightarrow> (\<exists>tp\<in>set tps. \<exists>sent. tp_base tp (tp_url tp) sent = Inr (Some resp))"

abbreviation non_success :: "int \<Rightarrow> bool" where
  "non_success st \<equiv> st < 200 \<or> st \<ge> 300"

definition body_of :: "http_reply \<Rightarrow> string" where
  "body_of resp = (case rp_body resp of None \<Rightarrow> [] | Some b \<Rightarrow> hb_data b)"

definition carries :: "sdk_trip list \<Rightarrow> header_carrier \<Rightarrow> bool" where
  "carries tps c \<longleftrightarrow> hc_status c = 0 \<and> \<not> hc_captured c \<or>
     (\<exists>resp. reply_of tps resp \<and> hc_status c = rp_status resp \<and> hc_response c = rp_header resp \<and>
        (non_success (rp_status resp) \<longrightarrow>
           hc_captured c \<and> (\<not> hc_too_large c \<longrightarrow> hc_body c = body_of resp \<and>
             length (hc_body c) \<le> maxCapturedResponseBodyBytes)))"

lemma reply_of_mono: "reply_of tps resp \<Longrightarrow> reply_of (tps @ later) resp"
  by (auto simp: reply_of_def)

lemma carries_mono: "carries tps c \<Longrightarrow> carries (tps @ later) c"
  unfolding carries_def using reply_of_mono by blast

lemma captured_ok:
  assumes "captureNonSuccessResponseBody c resp = (c', resp')"
  shows "hc_status c' = hc_status c \<and> hc_response c' = hc_response c \<and> hc_captured c' \<and>
    (\<not> hc_too_large c' \<longrightarrow> hc_body c' = body_of resp \<and> length (hc_body c') \<le> maxCapturedResponseBodyBytes)"
  using assms
  by (auto simp: captureNonSuccessResponseBody_def StoreResponseBodyCapture_def read_prefix_def body_of_def
      Let_def split: option.splits)

lemma make_trip_carries: "carries tps c \<Longrightarrow> carries (tps @ [tp]) (make_trip o' c tp)"
proof -
  assume c: "carries tps c"
  define sent where "sent = forwarded_request o' (Some c) (tp_url tp) (tp_header tp)"
  have trip: "make_trip o' c tp = the (fst (recorded_reply (Some c) (tp_base tp (tp_url tp) sent)))"
    by (auto simp: make_trip_def ForwardingRoundTripper_RoundTrip_def Let_def sent_def recorded_reply_def
        split: prod.splits option.splits sum.splits)
  show ?thesis
  proof (cases "\<exists>resp. tp_base tp (tp_url tp) sent = Inr (Some resp)")
    case False
    then have "make_trip o' c tp = c \<or> (\<exists>e. make_trip o' c tp = c\<lparr>hc_transport_err := e\<rparr>)"
      by (auto simp: trip recorded_reply_def StoreTransportError_def split: sum.splits option.splits)
    with carries_mono [OF c, of "[tp]"] show ?thesis by (auto simp: carries_def)
  next
    case True
    then obtain resp where resp: "tp_base tp (tp_url tp) sent = Inr (Some resp)" by blast
    then have r: "reply_of (tps @ [tp]) resp" by (auto simp: reply_of_def)
    let ?k = "StoreResponse (rp_status resp) (rp_header resp) c"
    obtain k resp' where cap: "captureNonSuccessResponseBody ?k resp = (k, resp')" by fastforce
    show ?thesis
      using r captured_ok [OF cap] resp cap
      by (auto simp: trip recorded_reply_def carries_def StoreResponse_def Let_def)
  qed
qed

lemma trips_carry: "carries done c \<Longrightarrow> carries (done @ tps) (foldl (make_trip o') c tps)"
proof (induction tps arbitrary: "done" c)
  case (Cons tp tps)
  from Cons.IH [OF make_trip_carries [OF Cons.prems]] show ?case by simp
qed simp

lemma preserved_iff:
  "preservedMCPError decode msg carrier = Inr (p, code) \<longleftrightarrow>
     (\<exists>c i m ps raw e r txt. carrier = Some c \<and> msg = Request i m ps \<and> i \<noteq> NoId \<and>
        hc_captured c \<and> hc_read_err c = nil_err \<and> \<not> hc_too_large c \<and> p = hc_body c \<and> p \<noteq> [] \<and>
        json_parse p \<noteq> None \<and> unmarshal_error_response p = Some raw \<and>
        re_error raw = Some (Some code, Some txt) \<and> re_jsonrpc raw = ''2.0'' \<and>
        re_method raw = [] \<and> re_result raw = [] \<and> decode p = Inr (Response i (Some e) r))"
  by (cases msg; cases carrier)
    (auto simp: preservedMCPError_def ResponseBodyCapture_def Let_def
      split: if_splits option.splits sum.splits rpc_message.splits prod.splits)

lemma preserved_error_kind:
  "preservedMCPError decode msg carrier = Inl err \<Longrightarrow> \<exists>k cause. err = NonProtocolResponse k # cause"
  by (auto simp: preservedMCPError_def newNonProtocolResponseError_def Let_def
      split: rpc_message.splits if_splits option.splits sum.splits prod.splits)

lemma write_carries:
  assumes "ContextWithHeaders b hdr = Inr c"
  shows "carries tps (foldl (make_trip o') c tps)"
proof -
  have "carries [] c" using assms by (auto simp: ContextWithHeaders_def carries_def split: if_splits)
  from trips_carry [OF this] show ?thesis by simp
qed

section \<open>Properties\<close>

text \<open>
  C21. A preserved MCP error is exactly what the server sent: the whole body,
  at most 100 KiB, of an answer that arrived during this write, with that
  answer's status and header. It is valid JSON, the SDK decodes it to an error
  response with the identifier of the request that was written, and it is
  never reported together with a transport error.
\<close>

theorem preserved_error_exact:
  assumes wr: "forwardingConnection_Write decode wc hdr msg = (res, err, closed)"
    and p: "wr_preserved res = Some p"
  shows "err = nil_err \<and> non_success (wr_status res) \<and> json_parse p \<noteq> None \<and>
    (\<exists>i m ps e r. msg = Request i m ps \<and> i \<noteq> NoId \<and> decode p = Inr (Response i (Some e) r)) \<and>
    (\<exists>resp. reply_of (wc_trips wc) resp \<and> wr_status res = rp_status resp \<and>
       wr_headers res = rp_header resp \<and> p = body_of resp \<and> length p \<le> maxCapturedResponseBodyBytes)"
proof -
  obtain c where c: "ContextWithHeaders (wc_ctx wc) hdr = Inr c"
    using wr p by (cases "ContextWithHeaders (wc_ctx wc) hdr")
      (auto simp: forwardingConnection_Write_def empty_write_result_def)
  define k where "k = foldl (make_trip (wc_origin wc)) c (wc_trips wc)"
  have st: "hc_status k \<noteq> 0" "non_success (hc_status k)" "wr_status res = hc_status k"
    "wr_headers res = hc_response k" "err = nil_err"
    and pres: "\<exists>code. preservedMCPError decode msg (Some k) = Inr (p, code)"
    using wr p c
    by (auto simp: forwardingConnection_Write_def ResponseStatusAndHeaders_def Let_def k_def [symmetric]
        split: if_splits sum.splits prod.splits)
  have "carries (wc_trips wc) k" unfolding k_def by (rule write_carries [OF c])
  with st pres show ?thesis by (auto simp: preserved_iff carries_def)
qed


definition example_error_body :: string where
  "example_error_body = ''{'' @ json_member ''jsonrpc'' (quoted ''2.0'') @ '','' @ json_member ''id'' ''1'' @ '','' @
     json_member ''error'' (''{'' @ json_member ''code'' ''-32600'' @ '','' @
       json_member ''message'' (quoted ''m'') @ ''}'') @ ''}''"

definition example_reply :: "string \<Rightarrow> http_reply" where
  "example_reply body = \<lparr>rp_status = 400, rp_header = [],
     rp_body = Some \<lparr>hb_data = body, hb_err = nil_err\<rparr>\<rparr>"

definition example_write :: "string \<Rightarrow> write_call" where
  "example_write body = \<lparr>wc_ctx = True, wc_enforced = False, wc_preserves = None,
     wc_origin = ''https://mcp.example'',
     wc_trips = [\<lparr>tp_url = None, tp_header = [], tp_base = \<lambda>_ _. Inr (Some (example_reply body))\<rparr>],
     wc_err = [ErrText ''Bad Request''], wc_started = 1, wc_completed = 2\<rparr>"

definition example_decode :: decoder where
  "example_decode _ = Inr (Response (IntId 1) (Some (RpcError (- 32600) ''m'' [])) [])"

definition example_captured :: "string \<Rightarrow> header_carrier" where
  "example_captured body = \<lparr>hc_request = [], hc_response = [], hc_status = 400, hc_body = body,
     hc_captured = True, hc_too_large = False, hc_read_err = nil_err, hc_transport_err = nil_err\<rparr>"

lemma example_write_result:
  assumes "length body \<le> maxCapturedResponseBodyBytes"
  shows "\<exists>res err closed. forwardingConnection_Write decode (example_write body) [] msg = (res, err, closed) \<and>
    wr_status res = 400 \<and> closed \<and>
    (case preservedMCPError decode msg (Some (example_captured body)) of
       Inr (payload, _) \<Rightarrow> wr_preserved res = Some payload | Inl e \<Rightarrow> wr_preserved res = None)"
proof -
  have "foldl (make_trip ''https://mcp.example'')
      \<lparr>hc_request = [], hc_response = [], hc_status = 0, hc_body = [], hc_captured = False,
       hc_too_large = False, hc_read_err = nil_err, hc_transport_err = nil_err\<rparr>
      (wc_trips (example_write body)) = example_captured body"
    using assms
    by (simp add: example_write_def example_reply_def example_captured_def make_trip_def
        ForwardingRoundTripper_RoundTrip_def recorded_reply_def captureNonSuccessResponseBody_def
        read_prefix_def StoreResponse_def StoreResponseBodyCapture_def Let_def)
  then show ?thesis
    by (simp add: forwardingConnection_Write_def ContextWithHeaders_def example_write_def Let_def
        ResponseStatusAndHeaders_def shouldCloseAfterForwardingError_def split: sum.splits prod.splits)
      (auto simp: example_captured_def)
qed

lemma example_preserved:
  "preservedMCPError example_decode (Request (IntId 1) ''tools/call'' [])
     (Some (example_captured example_error_body)) = Inr (example_error_body, - 32600)"
  "preservedMCPError example_decode (Request (IntId 1) ''tools/call'' [])
     (Some (example_captured ''not json'')) = Inl [NonProtocolResponse MalformedJSON]"
  by code_simp+

theorem preserved_error_exact_witness:
  "\<exists>res err closed. forwardingConnection_Write example_decode (example_write example_error_body) []
      (Request (IntId 1) ''tools/call'' []) = (res, err, closed) \<and>
    wr_preserved res = Some example_error_body \<and> err = nil_err \<and> wr_status res = 400 \<and> closed"
proof -
  have "length example_error_body \<le> maxCapturedResponseBodyBytes"
    by (simp add: example_error_body_def json_member_def quoted_def maxCapturedResponseBodyBytes_def)
  from example_write_result [OF this, of example_decode "Request (IntId 1) ''tools/call'' []"]
  obtain res err closed where w: "forwardingConnection_Write example_decode (example_write example_error_body) []
      (Request (IntId 1) ''tools/call'' []) = (res, err, closed)" "wr_status res = 400" "closed"
    "wr_preserved res = Some example_error_body"
    by (auto simp: example_preserved)
  from preserved_error_exact [OF w(1,4)] w show ?thesis by blast
qed


text \<open>
  C22. One physical connection at a time: in every run of a shared transport, a
  base that a logical connection can read or write is open, is the base of the
  transport's current connection and is of the generation the child has now;
  every other base the transport ever made has been closed, and none twice.
\<close>

theorem one_physical_connection:
  assumes "t = foldl shared_step (newSharedConnectionTransportWithPolicies versioned preserve restart) es"
    and "i < length (xt_conns t)" and "currentBase gen t i = Some b"
  shows "xt_conn t = Some i \<and> b \<notin> set (xt_closed t) \<and> distinct (xt_closed t) \<and>
    insert b (set (xt_closed t)) = {..<xt_bases t} \<and>
    (xt_versioned t \<and> cx_known (xt_conns t ! i) \<longrightarrow> cx_generation (xt_conns t ! i) = gen)"
proof -
  have inv: "shared_inv t" unfolding assms(1) by (rule shared_system.inv_run [OF shared_new])
  note invD = shared_invD [OF inv]
  have base: "cx_base (xt_conns t ! i) = Some b" "connectionCurrentLocked gen t (xt_conns t ! i)"
    using assms(3) by (auto simp: currentBase_def split: if_splits)
  have cur: "xt_conn t = Some i" using invD(2) assms(2) base(1) .
  have "x < xt_bases t \<longleftrightarrow> x = b \<or> x \<in> set (xt_closed t)" for x
    using invD(3) [of x] cur base(1) by auto
  then show ?thesis
    using cur base invD(4, 5) by (auto simp: connectionCurrentLocked_def)
qed

theorem one_physical_connection_witness:
  "\<exists>t b. currentBase 2 t 1 = Some b \<and> xt_conn t = Some 1 \<and> b = 1 \<and> xt_closed t = [0]"
proof -
  let ?t = "foldl shared_step (newSharedConnectionTransportWithPolicies True True False)
    [XConnect 1 (nil_err, Some 1), XConnect 2 (nil_err, Some 2), XConnect 2 (nil_err, Some 2)]"
  have "1 < length (xt_conns ?t)" "currentBase 2 ?t 1 = Some 1" "xt_closed ?t = [0]" by code_simp+
  with one_physical_connection [OF refl this(1,2)] show ?thesis by blast
qed

text \<open>
  Used one request at a time, the initialize-restarting transport never
  sends \<open>initialize\<close> to a session that has accepted a message before: every
  accepted \<open>initialize\<close> is the first message of its physical connection.
\<close>

theorem initialize_on_fresh_session:
  "sessions_fresh (snd (foldl serial_use_step
     (NewInitializeRestartingSharedConnectionTransport versioned, []) es))"
proof -
  have "use_inv (NewInitializeRestartingSharedConnectionTransport versioned, [])"
    using shared_new
    by (simp add: use_inv_def NewInitializeRestartingSharedConnectionTransport_def)
      (simp add: newSharedConnectionTransportWithPolicies_def)
  from serial_use.inv_run [OF this, of es] show ?thesis
    by (cases "foldl serial_use_step (NewInitializeRestartingSharedConnectionTransport versioned, []) es")
      (simp add: use_inv_def)
qed

end
