(* ===== verification/StdioChild.thy ===== *)
theory StdioChild
  imports Observation
begin

text \<open>
  The supervisor of a stdio MCP command (\<open>pkg/mcpclient/stdio_command.go\<close>):
  the child process, its generation, the arbitration of the ways a child can
  disappear, the restart with its delay, forwarded signals and the request to
  shut the client down.

  A step of the model is what one goroutine does while it holds the mutex, or
  one action outside it. What a goroutine still has to do after it released
  the mutex is a list of actions in \<open>sd_tasks\<close>, and the goroutines that restart
  a child are the entries of \<open>sd_recoveries\<close>; the steps of all of them may
  interleave in any order. Operating-system calls are inputs of the steps:
  whether a pipe or a process could be made, its process identifier and the time.
\<close>

section \<open>State\<close>

record child =
  ch_number :: nat      \<comment> \<open>the \<open>exec.Cmd\<close>, numbered as they are made\<close>
  ch_pid :: "int option" \<comment> \<open>its \<open>Process\<close>, once started\<close>

datatype recovery_phase = NotSpawned | Retiring | Delaying | Prepared "64 word" goerr | Finished

record recovery =
  rc_cancelled :: bool
  rc_phase :: recovery_phase
  rc_delay :: duration

datatype stdio_action =
    ClosePipes nat
  | ObserveClosed string string
  | CallChildLost
  | CheckShutdown
  | ShutdownOnce
  | StartRecovery nat
  | CancelRecovery nat
  | StopSignals
  | Terminate nat

record stdio_transport =
  sd_observation :: "observation option"
  sd_observationGeneration :: string
  sd_commandArgs :: "string list"
  sd_commandLabel :: string
  sd_policy :: string
  sd_generation :: "64 word"
  sd_childStartedAt :: gotime
  sd_restartDelay :: duration
  sd_active :: bool
  sd_recovering :: bool
  sd_recoveryCancel :: "nat option"
  sd_cmd :: "child option"
  sd_signals :: bool
  sd_started :: bool
  sd_stopping :: bool
  sd_signalForwarded :: bool
  sd_once :: bool
  sd_made :: nat                       \<comment> \<open>commands prepared so far\<close>
  sd_recoveries :: "recovery list"
  sd_tasks :: "stdio_action list list"
  sd_starts :: nat                     \<comment> \<open>processes started so far\<close>
  sd_handled :: "64 word list"         \<comment> \<open>the generations whose loss was handled\<close>
  sd_lost_calls :: nat
  sd_closed_pipes :: "nat list"
  sd_shutdowns :: "int list"           \<comment> \<open>the exit codes of the shutdown requests\<close>

abbreviation stdioRestartInitialDelay :: duration where "stdioRestartInitialDelay \<equiv> milliseconds 100"
abbreviation stdioRestartMaxDelay :: duration where "stdioRestartMaxDelay \<equiv> seconds 5"
abbreviation stdioRestartStableTime :: duration where "stdioRestartStableTime \<equiv> seconds 30"

definition newStdioCommandTransport :: "observation option \<Rightarrow> stdio_transport" where
  "newStdioCommandTransport ob =
     \<lparr>sd_observation = ob, sd_observationGeneration = [], sd_commandArgs = [], sd_commandLabel = [],
      sd_policy = [], sd_generation = 0, sd_childStartedAt = 0, sd_restartDelay = 0, sd_active = False,
      sd_recovering = False, sd_recoveryCancel = None, sd_cmd = None, sd_signals = False,
      sd_started = False, sd_stopping = False, sd_signalForwarded = False, sd_once = False,
      sd_made = 0, sd_recoveries = [], sd_tasks = [], sd_starts = 0, sd_handled = [],
      sd_lost_calls = 0, sd_closed_pipes = [], sd_shutdowns = []\<rparr>"

record stdio_config =
  sf_command :: string
  sf_args :: "string list"
  sf_policy :: string

fun join_with :: "string \<Rightarrow> string list \<Rightarrow> string" where
  "join_with sep [] = []"
| "join_with sep [x] = x"
| "join_with sep (x # y # xs) = x @ sep @ join_with sep (y # xs)"

text \<open>\<open>prep\<close> is the error of making the pipes (\<open>prepareChild\<close>), nil when they could be made.\<close>

definition stdio_Transport ::
    "stdio_config option \<Rightarrow> bool \<Rightarrow> goerr \<Rightarrow> stdio_transport \<Rightarrow> stdio_transport \<times> goerr" where
  "stdio_Transport cfg has_lifecycle prep t = (case cfg of
     None \<Rightarrow> (t, [ErrText ''mcpclient: mcp config is required for stdio transport''])
   | Some c \<Rightarrow>
       if sf_args c = [] then (t, [ErrText ''mcpclient: mcp.command is required for stdio transport''])
       else if \<not> has_lifecycle then (t, [ErrText ''mcpclient: lifecycle is required for stdio transport''])
       else if sf_policy c \<notin> {[], ''restart'', ''exit''} then
         (t, [ErrText ''mcpclient: invalid stdio failure policy''])
       else if sd_cmd t \<noteq> None then (t, nil_err)
       else
         (let label = trim_space (sf_command c);
              t = t\<lparr>sd_commandArgs := sf_args c, sd_policy := sf_policy c,
                    sd_commandLabel := (if label = [] then join_with '' '' (sf_args c) else label),
                    sd_generation := 1\<rparr>
          in if prep \<noteq> nil_err then (t, prep)
             else (t\<lparr>sd_cmd := Some \<lparr>ch_number = sd_made t, ch_pid = None\<rparr>, sd_made := Suc (sd_made t)\<rparr>, nil_err)))"

section \<open>Connecting\<close>

definition errStdioChildRestarting :: goerr where
  "errStdioChildRestarting = [ErrText ''mcpclient: stdio MCP command is restarting'']"

text \<open>The generation to connect to; then, after the SDK connected, the check that it is still current.\<close>

definition connect_generation :: "stdio_transport \<Rightarrow> goerr + 64 word" where
  "connect_generation t =
     (if \<not> sd_active t \<or> sd_stopping t \<or> sd_cmd t = None then Inl errStdioChildRestarting
      else Inr (sd_generation t))"

definition connect_still_current :: "64 word \<Rightarrow> stdio_transport \<Rightarrow> goerr + 64 word" where
  "connect_still_current generation t =
     (if sd_active t \<and> \<not> sd_stopping t \<and> sd_generation t = generation
      then Inr generation else Inl errStdioChildRestarting)"

section \<open>Starting\<close>

text \<open>What the supervisor notes when a process runs; \<open>random\<close> feeds the observation's identifier.\<close>

definition note_started :: "nat list \<Rightarrow> gotime \<Rightarrow> stdio_transport \<Rightarrow> stdio_transport" where
  "note_started random now t =
     (let t = t\<lparr>sd_childStartedAt := now, sd_active := True, sd_starts := Suc (sd_starts t)\<rparr> in
      case sd_observation t of
        None \<Rightarrow> t
      | Some ob \<Rightarrow>
          (let (ob, generation) = beginChild random ob in
           t\<lparr>sd_observation := Some (childStarted generation ob), sd_observationGeneration := generation\<rparr>))"

definition startSignalForwarding :: "stdio_transport \<Rightarrow> stdio_transport" where
  "startSignalForwarding t = (case sd_cmd t of
     Some c \<Rightarrow> if ch_pid c = None \<or> sd_signals t then t else t\<lparr>sd_signals := True\<rparr>
   | None \<Rightarrow> t)"

text \<open>\<open>pid\<close> is the identifier of the process, or the error of \<open>cmd.Start\<close>.\<close>

definition stdio_start ::
    "goerr + int \<Rightarrow> nat list \<Rightarrow> gotime \<Rightarrow> stdio_transport \<Rightarrow> stdio_transport \<times> goerr" where
  "stdio_start started random now t = (case sd_cmd t of
     None \<Rightarrow> (t, nil_err)
   | Some c \<Rightarrow>
       if sd_started t then (t, nil_err)
       else case started of
         Inl err \<Rightarrow> (t\<lparr>sd_closed_pipes := sd_closed_pipes t @ [ch_number c]\<rparr>,
                     ErrText ''mcpclient: start stdio command'' # err)
       | Inr pid \<Rightarrow>
           (startSignalForwarding
              (note_started random now (t\<lparr>sd_cmd := Some (c\<lparr>ch_pid := Some pid\<rparr>), sd_started := True\<rparr>)), nil_err))"

section \<open>Stopping\<close>

definition spawn :: "stdio_action list \<Rightarrow> stdio_transport \<Rightarrow> stdio_transport" where
  "spawn acts t = t\<lparr>sd_tasks := sd_tasks t @ [acts]\<rparr>"

definition observe_closed :: "string \<Rightarrow> stdio_transport \<Rightarrow> stdio_action list" where
  "observe_closed reason t =
     (if sd_observation t = None then [] else [ObserveClosed (sd_observationGeneration t) reason])"

definition stdio_stop :: "stdio_transport \<Rightarrow> stdio_transport" where
  "stdio_stop t =
     (let t = t\<lparr>sd_stopping := True, sd_active := False\<rparr>;
          cancel = (case sd_recoveryCancel t of None \<Rightarrow> [] | Some i \<Rightarrow> [CancelRecovery i])
      in case sd_cmd t of
           None \<Rightarrow> spawn (StopSignals # cancel) t
         | Some c \<Rightarrow>
             if \<not> sd_started t then spawn (StopSignals # cancel) t
             else spawn (StopSignals # cancel @ observe_closed ''child_stopped'' t @
                    [ClosePipes (ch_number c)] @ (if ch_pid c = None then [] else [Terminate (ch_number c)])) t)"

section \<open>Loss of the child\<close>

text \<open>
  The delay before the restart: the initial one for the first loss and after a
  stable run, otherwise twice the last one, at most the maximum.
\<close>

definition capped_double :: "duration \<Rightarrow> duration" where
  "capped_double d = (if i64 (d * 2) > stdioRestartMaxDelay then stdioRestartMaxDelay else i64 (d * 2))"

definition next_delay :: "gotime \<Rightarrow> stdio_transport \<Rightarrow> duration" where
  "next_delay now t =
     (if sd_restartDelay t = 0 \<or> time_sub now (sd_childStartedAt t) \<ge> stdioRestartStableTime
      then stdioRestartInitialDelay else capped_double (sd_restartDelay t))"

definition childLost :: "64 word \<Rightarrow> string \<Rightarrow> gotime \<Rightarrow> stdio_transport \<Rightarrow> stdio_transport" where
  "childLost generation observationReason now t =
     (if sd_stopping t \<or> \<not> sd_active t \<or> sd_generation t \<noteq> generation then t
      else
        (let delay = next_delay now t;
             exits = (sd_signalForwarded t \<or> sd_policy t = ''exit'');
             acts = (case sd_cmd t of None \<Rightarrow> [] | Some c \<Rightarrow> [ClosePipes (ch_number c)]) @
                    observe_closed observationReason t @ [CallChildLost] @
                    (if exits then [CheckShutdown] else [StartRecovery (length (sd_recoveries t))]);
             t = t\<lparr>sd_active := False, sd_recovering := True, sd_generation := sd_generation t + 1,
                   sd_restartDelay := delay, sd_handled := sd_handled t @ [generation]\<rparr>
         in spawn acts
              (if exits then t
               else t\<lparr>sd_recoveryCancel := Some (length (sd_recoveries t)),
                      sd_recoveries := sd_recoveries t @
                        [\<lparr>rc_cancelled = False, rc_phase = NotSpawned, rc_delay = delay\<rparr>]\<rparr>)))"

text \<open>\<open>stdioErrWriter\<close>, \<open>stdioEOFReader\<close> and \<open>waitForExit\<close> report a loss for the generation of their child.\<close>

definition stdioEOFReader_Read :: "64 word \<Rightarrow> goerr \<Rightarrow> gotime \<Rightarrow> stdio_transport \<Rightarrow> stdio_transport" where
  "stdioEOFReader_Read generation err now t =
     (if errors_is err EOF then childLost generation ''child_transport_closed'' now t else t)"

definition stdioErrWriter_Write :: "64 word \<Rightarrow> goerr \<Rightarrow> gotime \<Rightarrow> stdio_transport \<Rightarrow> stdio_transport" where
  "stdioErrWriter_Write generation err now t =
     (if err \<noteq> nil_err then childLost generation ''child_transport_closed'' now t else t)"

definition waitForExit :: "64 word \<Rightarrow> gotime \<Rightarrow> stdio_transport \<Rightarrow> stdio_transport" where
  "waitForExit generation now t = childLost generation ''child_exited'' now t"

section \<open>Restarting\<close>

text \<open>
  How \<open>retireChild\<close> ends the old process: which case of its \<open>select\<close> came
  first. Only an exit within the grace period spares the process the kill.
\<close>

datatype retire_event = ExitedInGrace | RecoveryCancelled | GraceOver

datatype child_call = CloseStdin | CloseStdout | SendSIGTERM | SendKill | AwaitExit

definition retireChild :: "bool \<Rightarrow> retire_event \<Rightarrow> child_call list" where
  "retireChild has_process ev =
     [CloseStdin, CloseStdout] @
     (if \<not> has_process then []
      else [SendSIGTERM] @ (case ev of ExitedInGrace \<Rightarrow> [AwaitExit] | _ \<Rightarrow> [SendKill, AwaitExit]))"

definition set_phase :: "nat \<Rightarrow> recovery_phase \<Rightarrow> stdio_transport \<Rightarrow> stdio_transport" where
  "set_phase i p t = t\<lparr>sd_recoveries := (sd_recoveries t)[i := (sd_recoveries t ! i)\<lparr>rc_phase := p\<rparr>]\<rparr>"

text \<open>After a failed attempt: give up when cancelled, else wait again, for twice as long.\<close>

definition retry_or_end :: "nat \<Rightarrow> stdio_transport \<Rightarrow> stdio_transport" where
  "retry_or_end i t =
     (let r = sd_recoveries t ! i in
      if rc_cancelled r then set_phase i Finished t
      else t\<lparr>sd_recoveries := (sd_recoveries t)[i := r\<lparr>rc_phase := Delaying,
               rc_delay := (if rc_delay r < stdioRestartMaxDelay then capped_double (rc_delay r) else rc_delay r)\<rparr>]\<rparr>)"

definition restart_attempt ::
    "nat \<Rightarrow> 64 word \<Rightarrow> goerr \<Rightarrow> goerr + int \<Rightarrow> nat list \<Rightarrow> gotime \<Rightarrow> stdio_transport \<Rightarrow> stdio_transport" where
  "restart_attempt i generation prep started random now t =
     (if prep \<noteq> nil_err then retry_or_end i t
      else
        (let n = sd_made t; t = t\<lparr>sd_made := Suc n\<rparr>; r = sd_recoveries t ! i in
         if sd_stopping t \<or> rc_cancelled r
         then set_phase i Finished (t\<lparr>sd_closed_pipes := sd_closed_pipes t @ [n]\<rparr>)
         else case started of
           Inl _ \<Rightarrow> retry_or_end i (t\<lparr>sd_closed_pipes := sd_closed_pipes t @ [n]\<rparr>)
         | Inr pid \<Rightarrow>
             set_phase i Finished
               ((note_started random now
                  (t\<lparr>sd_cmd := Some \<lparr>ch_number = n, ch_pid = Some pid\<rparr>, sd_generation := generation,
                     sd_restartDelay := rc_delay r\<rparr>))\<lparr>sd_recovering := False\<rparr>)))"

text \<open>
  One step of \<open>restartChild\<close>. The timer and the cancellation may both be
  ready; \<open>cancelled_first\<close> says which of them the \<open>select\<close> takes.
\<close>

record restart_input =
  ri_cancelled_first :: bool
  ri_prep :: goerr
  ri_started :: "goerr + int"
  ri_random :: "nat list"
  ri_now :: gotime

definition restartChild_step :: "nat \<Rightarrow> restart_input \<Rightarrow> stdio_transport \<Rightarrow> stdio_transport" where
  "restartChild_step i inp t =
     (let r = sd_recoveries t ! i in
      case rc_phase r of
        NotSpawned \<Rightarrow> t
      | Retiring \<Rightarrow> set_phase i Delaying t
      | Delaying \<Rightarrow>
          if ri_cancelled_first inp
          then (if rc_cancelled r then set_phase i Finished t else t)
          else set_phase i (Prepared (sd_generation t + 1) (ri_prep inp)) t
      | Prepared generation prep \<Rightarrow>
          restart_attempt i generation prep (ri_started inp) (ri_random inp) (ri_now inp) t
      | Finished \<Rightarrow> t)"

section \<open>Signals and shutdown\<close>

text \<open>\<open>delivered\<close> says whether the operating system took the signal for the process.\<close>

definition forwardSignal :: "bool \<Rightarrow> stdio_transport \<Rightarrow> stdio_transport" where
  "forwardSignal delivered t =
     (if sd_stopping t then t
      else if sd_recovering t \<or> \<not> sd_active t then
        spawn ((case sd_recoveryCancel t of None \<Rightarrow> [] | Some i \<Rightarrow> [CancelRecovery i]) @ [CheckShutdown])
          (t\<lparr>sd_signalForwarded := True\<rparr>)
      else (case sd_cmd t of
          None \<Rightarrow> t
        | Some c \<Rightarrow>
            (let t = t\<lparr>sd_signalForwarded := True\<rparr> in
             if ch_pid c = None \<or> \<not> delivered then spawn [CheckShutdown] t else t)))"

text \<open>The body of \<open>shutdownOnce\<close>; \<open>has_shutdowner\<close> is the configured shutdowner.\<close>

definition shutdown_once :: "bool \<Rightarrow> stdio_transport \<Rightarrow> stdio_transport" where
  "shutdown_once has_shutdowner t =
     (if sd_once t then t
      else let t = t\<lparr>sd_once := True\<rparr> in
        if \<not> has_shutdowner then t
        else t\<lparr>sd_shutdowns := sd_shutdowns t @ [if sd_signalForwarded t then 0 else 1]\<rparr>)"

text \<open>
  One action of a goroutine and what it has left to do. \<open>requestShutdown\<close> is
  \<open>CheckShutdown\<close>, which reads the stopping flag under the mutex, and \<open>ShutdownOnce\<close>.
\<close>

fun run_action :: "bool \<Rightarrow> gotime \<Rightarrow> stdio_action \<Rightarrow> stdio_transport \<Rightarrow> stdio_transport \<times> stdio_action list" where
  "run_action sh now (ClosePipes n) t = (t\<lparr>sd_closed_pipes := sd_closed_pipes t @ [n]\<rparr>, [])"
| "run_action sh now (ObserveClosed g reason) t =
     (t\<lparr>sd_observation := map_option (childClosed g reason now) (sd_observation t)\<rparr>, [])"
| "run_action sh now CallChildLost t = (t\<lparr>sd_lost_calls := Suc (sd_lost_calls t)\<rparr>, [])"
| "run_action sh now CheckShutdown t = (t, if sd_stopping t then [] else [ShutdownOnce])"
| "run_action sh now ShutdownOnce t = (shutdown_once sh t, [])"
| "run_action sh now (StartRecovery i) t = (set_phase i Retiring t, [])"
| "run_action sh now (CancelRecovery i) t =
     ((if i < length (sd_recoveries t)
       then t\<lparr>sd_recoveries := (sd_recoveries t)[i := (sd_recoveries t ! i)\<lparr>rc_cancelled := True\<rparr>]\<rparr> else t), [])"
| "run_action sh now StopSignals t = (t\<lparr>sd_signals := False\<rparr>, [])"
| "run_action sh now (Terminate n) t = (t, [])"

definition run_task :: "bool \<Rightarrow> gotime \<Rightarrow> nat \<Rightarrow> stdio_transport \<Rightarrow> stdio_transport" where
  "run_task sh now k t =
     (case sd_tasks t ! k of
        [] \<Rightarrow> t
      | a # acts \<Rightarrow>
          (let (t, more_acts) = run_action sh now a t in
           t\<lparr>sd_tasks := (sd_tasks t)[k := more_acts @ acts]\<rparr>))"

record stdio_runtime_info =
  info_pid :: int
  info_command :: string

definition StdioRuntimeInfo :: "stdio_transport \<Rightarrow> stdio_runtime_info" where
  "StdioRuntimeInfo t =
     \<lparr>info_pid = (case sd_cmd t of
        Some c \<Rightarrow> if sd_active t then (case ch_pid c of Some p \<Rightarrow> p | None \<Rightarrow> 0) else 0
      | None \<Rightarrow> 0),
      info_command = (if sd_commandLabel t = [] \<and> sd_cmd t \<noteq> None
        then join_with '' '' (sd_commandArgs t) else sd_commandLabel t)\<rparr>"

section \<open>Runs\<close>

datatype stdio_event =
    EvTransport "stdio_config option" bool goerr
  | EvStart "goerr + int" "nat list" gotime
  | EvStop
  | EvRead "64 word" goerr gotime
  | EvWrite "64 word" goerr gotime
  | EvExit "64 word" gotime
  | EvRestart nat restart_input
  | EvSignal bool
  | EvTask bool gotime nat

fun stdio_step :: "stdio_transport \<Rightarrow> stdio_event \<Rightarrow> stdio_transport" where
  "stdio_step t (EvTransport cfg lc prep) = fst (stdio_Transport cfg lc prep t)"
| "stdio_step t (EvStart started random now) = fst (stdio_start started random now t)"
| "stdio_step t EvStop = stdio_stop t"
| "stdio_step t (EvRead g err now) = stdioEOFReader_Read g err now t"
| "stdio_step t (EvWrite g err now) = stdioErrWriter_Write g err now t"
| "stdio_step t (EvExit g now) = waitForExit g now t"
| "stdio_step t (EvRestart i inp) = (if i < length (sd_recoveries t) then restartChild_step i inp t else t)"
| "stdio_step t (EvSignal delivered) = forwardSignal delivered t"
| "stdio_step t (EvTask sh now k) = (if k < length (sd_tasks t) then run_task sh now k t else t)"

section \<open>The state machine of the child\<close>

definition live :: "recovery \<Rightarrow> bool" where
  "live r \<longleftrightarrow> rc_phase r \<noteq> Finished"

definition generation_after :: "nat \<Rightarrow> bool \<Rightarrow> 64 word" where
  "generation_after losses recovering = of_nat (2 * losses + (if recovering then 0 else 1))"

definition losses_numbered :: "64 word list \<Rightarrow> bool" where
  "losses_numbered gs \<longleftrightarrow> gs = map (\<lambda>k. generation_after k False) [0..<length gs]"

lemma losses_numbered_Nil [simp]: "losses_numbered []"
  by (simp add: losses_numbered_def)

lemma losses_numbered_snoc:
  "losses_numbered (gs @ [generation_after (length gs) False]) = losses_numbered gs"
  by (simp add: losses_numbered_def)

definition delay_range :: "duration \<Rightarrow> bool" where
  "delay_range d \<longleftrightarrow> stdioRestartInitialDelay \<le> d \<and> d \<le> stdioRestartMaxDelay"

text \<open>
  What holds of one recovery: while it lives it is the last one, the transport
  has no active child, and a prepared replacement has the next generation.
\<close>

definition recovery_ok :: "stdio_transport \<Rightarrow> nat \<Rightarrow> bool" where
  "recovery_ok t i \<longleftrightarrow> delay_range (rc_delay (sd_recoveries t ! i)) \<and>
     (live (sd_recoveries t ! i) \<longrightarrow>
        Suc i = length (sd_recoveries t) \<and> \<not> sd_active t \<and> sd_recovering t \<and>
        (\<forall>g prep. rc_phase (sd_recoveries t ! i) = Prepared g prep \<longrightarrow> g = sd_generation t + 1))"

definition supervisor_ok :: "stdio_transport \<Rightarrow> bool" where
  "supervisor_ok t \<longleftrightarrow>
     (\<forall>i < length (sd_recoveries t). recovery_ok t i) \<and>
     (\<not> sd_started t \<longrightarrow> sd_handled t = [] \<and> sd_recoveries t = [] \<and> \<not> sd_active t \<and> \<not> sd_recovering t) \<and>
     (sd_cmd t = None \<longrightarrow> \<not> sd_started t) \<and>
     (sd_active t \<longrightarrow> \<not> sd_recovering t) \<and>
     (sd_cmd t \<noteq> None \<longrightarrow> sd_generation t = generation_after (length (sd_handled t)) (sd_recovering t)) \<and>
     losses_numbered (sd_handled t) \<and>
     (sd_restartDelay t = 0 \<or> delay_range (sd_restartDelay t)) \<and>
     (\<not> sd_once t \<longrightarrow> sd_shutdowns t = []) \<and> length (sd_shutdowns t) \<le> 1"

lemma supervisor_new: "supervisor_ok (newStdioCommandTransport ob)"
  by (simp add: supervisor_ok_def newStdioCommandTransport_def)

lemma note_started_simps [simp]:
  "sd_recoveries (note_started rnd now t) = sd_recoveries t" "sd_started (note_started rnd now t) = sd_started t"
  "sd_handled (note_started rnd now t) = sd_handled t" "sd_active (note_started rnd now t)"
  "sd_recovering (note_started rnd now t) = sd_recovering t" "sd_cmd (note_started rnd now t) = sd_cmd t"
  "sd_generation (note_started rnd now t) = sd_generation t" "sd_tasks (note_started rnd now t) = sd_tasks t"
  "sd_restartDelay (note_started rnd now t) = sd_restartDelay t" "sd_once (note_started rnd now t) = sd_once t"
  "sd_shutdowns (note_started rnd now t) = sd_shutdowns t" "sd_lost_calls (note_started rnd now t) = sd_lost_calls t"
  "sd_stopping (note_started rnd now t) = sd_stopping t" "sd_starts (note_started rnd now t) = Suc (sd_starts t)"
  by (simp_all add: note_started_def Let_def split: option.splits prod.splits)

lemma spawn_ok [simp]: "supervisor_ok (spawn acts t) = supervisor_ok t"
  by (simp add: spawn_def supervisor_ok_def recovery_ok_def)

lemma signals_ok [simp]: "supervisor_ok (startSignalForwarding t) = supervisor_ok t"
  by (simp add: startSignalForwarding_def supervisor_ok_def recovery_ok_def split: option.splits)

lemma capped_double_range: "delay_range d \<Longrightarrow> delay_range (capped_double d)"
  by (simp add: delay_range_def capped_double_def wrap_simps)

lemma next_delay_range: "supervisor_ok t \<Longrightarrow> delay_range (next_delay now t)"
  using capped_double_range [of "sd_restartDelay t"]
  by (auto simp: next_delay_def supervisor_ok_def delay_range_def)

lemma sup_transport_ok:
  assumes "supervisor_ok t"
  shows "supervisor_ok (fst (stdio_Transport cfg lc prep t))"
proof (cases "sd_cmd t")
  case None
  with assms have "sd_handled t = []" "sd_recoveries t = []" "\<not> sd_active t" "\<not> sd_recovering t" "\<not> sd_started t"
    by (auto simp: supervisor_ok_def)
  with assms None show ?thesis
    by (simp add: stdio_Transport_def supervisor_ok_def generation_after_def Let_def split: option.splits)
qed (use assms in \<open>simp add: stdio_Transport_def split: option.splits\<close>)

lemma sup_start_ok:
  assumes "supervisor_ok t"
  shows "supervisor_ok (fst (stdio_start started rnd now t))"
proof (cases "sd_started t \<or> sd_cmd t = None")
  case False
  with assms have "sd_handled t = []" "sd_recoveries t = []" "\<not> sd_active t" "\<not> sd_recovering t"
    by (auto simp: supervisor_ok_def)
  with assms False show ?thesis
    by (simp add: stdio_start_def split: option.splits sum.splits) (simp add: supervisor_ok_def)
qed (use assms in \<open>auto simp: stdio_start_def split: option.splits\<close>)

lemma stop_ok: "supervisor_ok t \<Longrightarrow> supervisor_ok (stdio_stop t)"
proof -
  assume "supervisor_ok t"
  then have "supervisor_ok (t\<lparr>sd_stopping := True, sd_active := False\<rparr>)"
    by (simp add: supervisor_ok_def recovery_ok_def)
  then show ?thesis by (simp add: stdio_stop_def Let_def split: option.splits)
qed

lemma generation_after_lost: "generation_after n False + 1 = generation_after (Suc n) True"
  by (simp add: generation_after_def)

lemma generation_after_restart: "generation_after n True + 1 = generation_after n False"
  by (simp add: generation_after_def)

lemma lost_ok: "supervisor_ok t \<Longrightarrow> supervisor_ok (childLost g reason now t)"
proof -
  assume ok: "supervisor_ok t"
  show ?thesis
  proof (cases "sd_stopping t \<or> \<not> sd_active t \<or> sd_generation t \<noteq> g")
    case False
    then have act: "sd_active t" "sd_generation t = g" by auto
    have started: "sd_started t" "sd_cmd t \<noteq> None" "\<not> sd_recovering t"
      using ok act by (auto simp: supervisor_ok_def)
    then have g: "g = generation_after (length (sd_handled t)) False"
      using ok act by (auto simp: supervisor_ok_def)
    have none: "\<not> live (sd_recoveries t ! i)" "delay_range (rc_delay (sd_recoveries t ! i))"
      if "i < length (sd_recoveries t)" for i
      using ok act that by (auto simp: supervisor_ok_def recovery_ok_def)
    define t' where "t' = childLost g reason now t"
    have core: "sd_handled t' = sd_handled t @ [g]" "\<not> sd_active t'" "sd_recovering t'"
      "sd_generation t' = g + 1" "sd_restartDelay t' = next_delay now t" "sd_cmd t' = sd_cmd t"
      "sd_started t' = sd_started t" "sd_once t' = sd_once t" "sd_shutdowns t' = sd_shutdowns t"
      using act False by (simp_all add: t'_def childLost_def spawn_def Let_def)
    have recs: "sd_recoveries t' = sd_recoveries t \<or>
        sd_recoveries t' = sd_recoveries t @ [\<lparr>rc_cancelled = False, rc_phase = NotSpawned, rc_delay = next_delay now t\<rparr>]"
      using act False by (simp add: t'_def childLost_def spawn_def Let_def)
    have "recovery_ok t' i" if "i < length (sd_recoveries t')" for i
      using that recs none core next_delay_range [OF ok, of now]
      by (auto simp: recovery_ok_def nth_append live_def less_Suc_eq)
    then have "supervisor_ok t'"
      using ok core started g next_delay_range [OF ok, of now]
      by (simp add: supervisor_ok_def losses_numbered_snoc generation_after_lost)
    then show ?thesis by (simp add: t'_def)
  qed (use ok in \<open>simp add: childLost_def\<close>)
qed

lemma set_phase_fields [simp]:
  "sd_active (set_phase i p t) = sd_active t" "sd_tasks (set_phase i p t) = sd_tasks t"
  "sd_handled (set_phase i p t) = sd_handled t" "sd_lost_calls (set_phase i p t) = sd_lost_calls t"
  "sd_generation (set_phase i p t) = sd_generation t" "sd_starts (set_phase i p t) = sd_starts t"
  "sd_stopping (set_phase i p t) = sd_stopping t" "sd_started (set_phase i p t) = sd_started t"
  "sd_recovering (set_phase i p t) = sd_recovering t" "sd_cmd (set_phase i p t) = sd_cmd t"
  "sd_once (set_phase i p t) = sd_once t" "sd_shutdowns (set_phase i p t) = sd_shutdowns t"
  "sd_restartDelay (set_phase i p t) = sd_restartDelay t"
  "length (sd_recoveries (set_phase i p t)) = length (sd_recoveries t)"
  by (simp_all add: set_phase_def)

lemma update_recovery_ok:
  assumes "supervisor_ok t" and "i < length (sd_recoveries t)" and "delay_range (rc_delay r)"
    and "live r \<Longrightarrow> live (sd_recoveries t ! i)"
    and "\<And>g prep. rc_phase r = Prepared g prep \<Longrightarrow> g = sd_generation t + 1"
  shows "supervisor_ok (t\<lparr>sd_recoveries := (sd_recoveries t)[i := r]\<rparr>)"
proof -
  have "recovery_ok (t\<lparr>sd_recoveries := (sd_recoveries t)[i := r]\<rparr>) j"
    if "j < length (sd_recoveries t)" for j
  proof -
    have "recovery_ok t j" using assms(1) that by (simp add: supervisor_ok_def)
    then show ?thesis using assms(2-5) by (cases "j = i") (auto simp: recovery_ok_def)
  qed
  then show ?thesis using assms(1,2) by (auto simp: supervisor_ok_def)
qed

lemma recovery_range: "supervisor_ok t \<Longrightarrow> i < length (sd_recoveries t) \<Longrightarrow>
    delay_range (rc_delay (sd_recoveries t ! i))"
  by (simp add: supervisor_ok_def recovery_ok_def)

lemma set_phase_ok:
  assumes "supervisor_ok t" and "i < length (sd_recoveries t)"
    and "p = Finished \<or> live (sd_recoveries t ! i) \<and> (\<forall>g prep. p = Prepared g prep \<longrightarrow> g = sd_generation t + 1)"
  shows "supervisor_ok (set_phase i p t)"
  unfolding set_phase_def using assms recovery_range [OF assms(1,2)]
  by (intro update_recovery_ok) (auto simp: live_def)

lemma retry_ok:
  assumes "supervisor_ok t" and "i < length (sd_recoveries t)" and "live (sd_recoveries t ! i)"
  shows "supervisor_ok (retry_or_end i t)"
  using assms set_phase_ok [OF assms(1,2)] recovery_range [OF assms(1,2)] capped_double_range
  by (auto simp: retry_or_end_def Let_def intro!: update_recovery_ok)

lemma bookkeeping_ok [simp]:
  "supervisor_ok (t\<lparr>sd_made := n\<rparr>) = supervisor_ok t"
  "supervisor_ok (t\<lparr>sd_closed_pipes := ps\<rparr>) = supervisor_ok t"
  "supervisor_ok (t\<lparr>sd_tasks := ts\<rparr>) = supervisor_ok t"
  "supervisor_ok (t\<lparr>sd_lost_calls := n\<rparr>) = supervisor_ok t"
  "supervisor_ok (t\<lparr>sd_observation := ob\<rparr>) = supervisor_ok t"
  "supervisor_ok (t\<lparr>sd_signals := b\<rparr>) = supervisor_ok t"
  "supervisor_ok (t\<lparr>sd_signalForwarded := b\<rparr>) = supervisor_ok t"
  by (simp_all add: supervisor_ok_def recovery_ok_def)

text \<open>A prepared recovery is the only live one, and its generation is the one after the loss.\<close>

lemma prepared_state:
  assumes ok: "supervisor_ok t" and i: "i < length (sd_recoveries t)"
    and ph: "rc_phase (sd_recoveries t ! i) = Prepared g prep"
  shows "sd_started t" "\<not> sd_active t" "g = generation_after (length (sd_handled t)) False"
    and "\<And>j. j < length (sd_recoveries t) \<Longrightarrow> j \<noteq> i \<Longrightarrow> \<not> live (sd_recoveries t ! j)"
proof -
  have r: "recovery_ok t i" using ok i by (simp add: supervisor_ok_def)
  have "live (sd_recoveries t ! i)" using ph by (simp add: live_def)
  with r ph have ri: "Suc i = length (sd_recoveries t)" "\<not> sd_active t" "sd_recovering t" "g = sd_generation t + 1"
    by (auto simp: recovery_ok_def)
  show "sd_started t" using ok i by (auto simp: supervisor_ok_def)
  then show "g = generation_after (length (sd_handled t)) False"
    using ok ri by (auto simp: supervisor_ok_def generation_after_restart)
  show "\<not> sd_active t" by (rule ri)
  show "\<not> live (sd_recoveries t ! j)" if "j < length (sd_recoveries t)" "j \<noteq> i" for j
  proof
    assume "live (sd_recoveries t ! j)"
    moreover have "recovery_ok t j" using ok that(1) by (simp add: supervisor_ok_def)
    ultimately show False using that(2) ri(1) by (simp add: recovery_ok_def)
  qed
qed

text \<open>The state once the replacement runs.\<close>

definition replaced :: "nat \<Rightarrow> 64 word \<Rightarrow> int \<Rightarrow> nat list \<Rightarrow> gotime \<Rightarrow> stdio_transport \<Rightarrow> stdio_transport" where
  "replaced i g pid random now t = set_phase i Finished
     ((note_started random now
        (t\<lparr>sd_made := Suc (sd_made t), sd_cmd := Some \<lparr>ch_number = sd_made t, ch_pid = Some pid\<rparr>, sd_generation := g,
           sd_restartDelay := rc_delay (sd_recoveries t ! i)\<rparr>))\<lparr>sd_recovering := False\<rparr>)"

lemma attempt_cases:
  "restart_attempt i g prep started random now t = retry_or_end i t \<or>
   (\<exists>ps n. restart_attempt i g prep started random now t =
      retry_or_end i (t\<lparr>sd_made := n, sd_closed_pipes := ps\<rparr>)) \<or>
   (\<exists>ps n. restart_attempt i g prep started random now t =
      set_phase i Finished (t\<lparr>sd_made := n, sd_closed_pipes := ps\<rparr>)) \<or>
   (\<exists>pid. \<not> sd_stopping t \<and> \<not> rc_cancelled (sd_recoveries t ! i) \<and>
      restart_attempt i g prep started random now t = replaced i g pid random now t)"
  by (cases started) (auto simp: restart_attempt_def replaced_def Let_def)

lemma replaced_ok:
  assumes ok: "supervisor_ok t" and i: "i < length (sd_recoveries t)"
    and ph: "rc_phase (sd_recoveries t ! i) = Prepared g prep"
  shows "supervisor_ok (replaced i g pid random now t)"
proof -
  note st = prepared_state [OF assms]
  have "recovery_ok (replaced i g pid random now t) j" if "j < length (sd_recoveries t)" for j
    using st(4) [OF that] recovery_range [OF ok that] i
    by (cases "j = i") (auto simp: recovery_ok_def replaced_def set_phase_def live_def)
  then show ?thesis
    using ok i st recovery_range [OF ok i] by (simp add: supervisor_ok_def replaced_def)
qed

lemma restart_ok:
  assumes ok: "supervisor_ok t" and i: "i < length (sd_recoveries t)"
  shows "supervisor_ok (restartChild_step i inp t)"
proof (cases "rc_phase (sd_recoveries t ! i)")
  case (Prepared g prep)
  then have "live (sd_recoveries t ! i)" by (simp add: live_def)
  then show ?thesis
    using attempt_cases [of i g prep "ri_started inp" "ri_random inp" "ri_now inp" t]
      retry_ok [OF ok i] retry_ok [of "t\<lparr>sd_made := n, sd_closed_pipes := ps\<rparr>" i for n ps]
      set_phase_ok [of "t\<lparr>sd_made := n, sd_closed_pipes := ps\<rparr>" i Finished for n ps]
      replaced_ok [OF ok i Prepared] ok i
    by (auto simp: restartChild_step_def Prepared)
qed (use ok i in \<open>auto simp: restartChild_step_def live_def intro: set_phase_ok\<close>)

lemma sup_signal_ok: "supervisor_ok t \<Longrightarrow> supervisor_ok (forwardSignal d t)"
  by (simp add: forwardSignal_def Let_def split: option.splits)

lemma shutdown_ok: "supervisor_ok t \<Longrightarrow> supervisor_ok (shutdown_once sh t)"
  by (auto simp: shutdown_once_def supervisor_ok_def recovery_ok_def Let_def)

lemma sup_action_ok:
  assumes "supervisor_ok t"
    and "\<And>i. a = StartRecovery i \<Longrightarrow> i < length (sd_recoveries t) \<and> live (sd_recoveries t ! i)"
  shows "supervisor_ok (fst (run_action sh now a t))"
proof (cases a)
  case (StartRecovery i)
  then show ?thesis using assms set_phase_ok [OF assms(1), of i Retiring] by simp
next
  case (CancelRecovery i)
  have "supervisor_ok (t\<lparr>sd_recoveries := (sd_recoveries t)[i := (sd_recoveries t ! i)\<lparr>rc_cancelled := True\<rparr>]\<rparr>)"
    if i: "i < length (sd_recoveries t)"
  proof (rule update_recovery_ok [OF assms(1) i])
    show "g = sd_generation t + 1"
      if "rc_phase ((sd_recoveries t ! i)\<lparr>rc_cancelled := True\<rparr>) = Prepared g prep" for g prep
      using that assms(1) i by (auto simp: supervisor_ok_def recovery_ok_def live_def)
  qed (use recovery_range [OF assms(1) i] in \<open>auto simp: live_def\<close>)
  with CancelRecovery assms(1) show ?thesis by simp
qed (use assms(1) shutdown_ok in auto)

section \<open>What goroutines still have to do\<close>

definition pending :: "(stdio_action \<Rightarrow> bool) \<Rightarrow> stdio_action list list \<Rightarrow> nat" where
  "pending p ts = length (filter p (concat ts))"

fun is_start_recovery :: "stdio_action \<Rightarrow> bool" where
  "is_start_recovery (StartRecovery _) = True"
| "is_start_recovery _ = False"

abbreviation calls :: "stdio_transport \<Rightarrow> nat" where
  "calls t \<equiv> pending (\<lambda>a. a = CallChildLost) (sd_tasks t)"

text \<open>
  A restart begins only as the last action of a goroutine, for a recovery that
  has not begun, and after the goroutine's own call of the loss callback.
\<close>

definition task_ok :: "stdio_transport \<Rightarrow> stdio_action list \<Rightarrow> bool" where
  "task_ok t task \<longleftrightarrow> (\<forall>a\<in>set (butlast task). \<not> is_start_recovery a) \<and>
     (\<forall>i. StartRecovery i \<in> set task \<longrightarrow>
        i < length (sd_recoveries t) \<and> rc_phase (sd_recoveries t ! i) = NotSpawned \<and>
        (calls t = 0 \<or> CallChildLost \<in> set task))"

definition tasks_ok :: "stdio_transport \<Rightarrow> bool" where
  "tasks_ok t \<longleftrightarrow>
     sd_lost_calls t + calls t = length (sd_handled t) \<and> calls t \<le> 1 \<and>
     pending is_start_recovery (sd_tasks t) \<le> 1 \<and>
     (sd_active t \<longrightarrow> calls t = 0) \<and>
     (\<forall>i < length (sd_recoveries t). rc_phase (sd_recoveries t ! i) \<notin> {NotSpawned, Finished} \<longrightarrow> calls t = 0) \<and>
     list_all (task_ok t) (sd_tasks t)"

lemma pending_snoc [simp]: "pending p (ts @ [acts]) = pending p ts + length (filter p acts)"
  by (simp add: pending_def)

lemma pending_update:
  "k < length ts \<Longrightarrow> pending p (ts[k := acts]) + length (filter p (ts ! k)) = pending p ts + length (filter p acts)"
proof (induction ts arbitrary: k)
  case (Cons x ts)
  then show ?case by (cases k) (auto simp: pending_def)
qed simp

lemma pending_pos: "task \<in> set ts \<Longrightarrow> a \<in> set task \<Longrightarrow> p a \<Longrightarrow> 0 < pending p ts"
  by (auto simp: pending_def filter_empty_conv)

lemma tasks_new: "tasks_ok (newStdioCommandTransport ob)"
  by (simp add: tasks_ok_def newStdioCommandTransport_def pending_def)

text \<open>An operation that keeps the tasks, the losses and every unfinished recovery keeps the property.\<close>

lemma tasks_kept:
  assumes "tasks_ok t" and "sd_tasks t' = sd_tasks t" and "sd_lost_calls t' = sd_lost_calls t"
    and "sd_handled t' = sd_handled t" and "sd_active t' \<Longrightarrow> sd_active t \<or> calls t = 0"
    and "length (sd_recoveries t') = length (sd_recoveries t)"
    and "\<And>i. \<lbrakk>i < length (sd_recoveries t); rc_phase (sd_recoveries t ! i) = NotSpawned\<rbrakk> \<Longrightarrow>
           rc_phase (sd_recoveries t' ! i) = NotSpawned"
    and "\<And>i. \<lbrakk>i < length (sd_recoveries t); rc_phase (sd_recoveries t' ! i) \<notin> {NotSpawned, Finished}\<rbrakk> \<Longrightarrow>
           rc_phase (sd_recoveries t ! i) \<notin> {NotSpawned, Finished}"
  shows "tasks_ok t'"
proof -
  have "task_ok t' task" if "task_ok t task" for task
    using that assms(2,6,7) by (auto simp: task_ok_def)
  then have "list_all (task_ok t') (sd_tasks t')"
    using assms(1,2) by (auto simp: tasks_ok_def list_all_iff)
  moreover have "calls t = 0" if "i < length (sd_recoveries t)"
      "rc_phase (sd_recoveries t' ! i) \<notin> {NotSpawned, Finished}" for i
    using assms(1) assms(8) [OF that] that(1) unfolding tasks_ok_def by blast
  moreover have "sd_active t' \<longrightarrow> calls t = 0"
    using assms(1,5) by (auto simp: tasks_ok_def)
  ultimately show ?thesis
    using assms(1-4,6) by (simp add: tasks_ok_def)
qed

lemma tasks_spawned:
  assumes "tasks_ok t" and "\<not> list_ex is_start_recovery acts" and "CallChildLost \<notin> set acts"
  shows "tasks_ok (spawn acts t)"
proof -
  have "filter (\<lambda>a. a = CallChildLost) acts = []" "filter is_start_recovery acts = []"
    using assms(2,3) by (auto simp: filter_empty_conv list_ex_iff)
  moreover have "\<forall>a\<in>set acts. \<not> is_start_recovery a" using assms(2) by (auto simp: list_ex_iff)
  moreover from this have "StartRecovery i \<notin> set acts" for i by force
  ultimately show ?thesis
    using assms(1) by (auto simp: tasks_ok_def task_ok_def spawn_def list_all_iff dest: in_set_butlastD)
qed

lemma transport_tasks: "tasks_ok t \<Longrightarrow> tasks_ok (fst (stdio_Transport cfg lc prep t))"
  by (erule tasks_kept) (auto simp: stdio_Transport_def Let_def split: option.splits if_splits)

lemma start_fields [simp]:
  "sd_recoveries (fst (stdio_start started rnd now t)) = sd_recoveries t"
  "sd_tasks (fst (stdio_start started rnd now t)) = sd_tasks t"
  "sd_handled (fst (stdio_start started rnd now t)) = sd_handled t"
  "sd_lost_calls (fst (stdio_start started rnd now t)) = sd_lost_calls t"
  by (simp_all add: stdio_start_def startSignalForwarding_def split: option.splits sum.splits)

lemma start_tasks:
  assumes "tasks_ok t" and "supervisor_ok t"
  shows "tasks_ok (fst (stdio_start started rnd now t))"
proof (cases "sd_started t \<or> sd_cmd t = None")
  case True
  then show ?thesis using assms(1) by (auto simp: stdio_start_def split: option.splits)
next
  case False
  then have "sd_handled t = []" using assms(2) by (auto simp: supervisor_ok_def)
  then have "calls t = 0" using assms(1) by (simp add: tasks_ok_def)
  then show ?thesis
    by (intro tasks_kept [OF assms(1)]) simp_all
qed

lemma stop_tasks: "tasks_ok t \<Longrightarrow> tasks_ok (stdio_stop t)"
proof -
  assume "tasks_ok t"
  then have "tasks_ok (t\<lparr>sd_stopping := True, sd_active := False\<rparr>)" by (rule tasks_kept) auto
  then show ?thesis
    by (auto simp: stdio_stop_def observe_closed_def Let_def intro!: tasks_spawned split: option.splits)
qed

lemma signal_tasks: "tasks_ok t \<Longrightarrow> tasks_ok (forwardSignal d t)"
proof -
  assume t: "tasks_ok t"
  then have "tasks_ok (t\<lparr>sd_signalForwarded := True\<rparr>)" by (rule tasks_kept) auto
  with t show ?thesis
    by (auto simp: forwardSignal_def Let_def intro!: tasks_spawned split: option.splits)
qed

lemma lost_tasks:
  assumes "tasks_ok t" and "supervisor_ok t"
  shows "tasks_ok (childLost g reason now t)"
proof (cases "sd_stopping t \<or> \<not> sd_active t \<or> sd_generation t \<noteq> g")
  case False
  then have act: "sd_active t" "sd_generation t = g" by auto
  have none: "\<not> live (sd_recoveries t ! i)" if "i < length (sd_recoveries t)" for i
    using assms(2) act that by (auto simp: supervisor_ok_def recovery_ok_def)
  have calls: "calls t = 0" using assms(1) act by (simp add: tasks_ok_def)
  have no_start: "StartRecovery i \<notin> set task" if "task \<in> set (sd_tasks t)" for i task
  proof
    assume "StartRecovery i \<in> set task"
    then have "i < length (sd_recoveries t)" "rc_phase (sd_recoveries t ! i) = NotSpawned"
      using assms(1) that by (auto simp: tasks_ok_def task_ok_def list_all_iff)
    with none show False by (auto simp: live_def)
  qed
  then have "pending is_start_recovery (sd_tasks t) = 0"
    by (auto simp: pending_def filter_empty_conv elim!: is_start_recovery.elims)
  then show ?thesis
    using False act calls none no_start assms(1)
    by (auto simp: childLost_def spawn_def tasks_ok_def task_ok_def observe_closed_def Let_def list_all_iff
        live_def nth_append less_Suc_eq split: option.splits)
qed (use assms(1) in \<open>simp add: childLost_def\<close>)

lemma set_phase_tasks:
  assumes "tasks_ok t" and "i < length (sd_recoveries t)"
    and "rc_phase (sd_recoveries t ! i) \<notin> {NotSpawned, Finished}"
  shows "tasks_ok (set_phase i p t)"
  using assms(2,3)
  by (intro tasks_kept [OF assms(1)]) (auto simp: set_phase_def nth_list_update split: if_splits)

lemma retry_tasks:
  assumes "tasks_ok t" and "i < length (sd_recoveries t)"
    and "rc_phase (sd_recoveries t ! i) \<notin> {NotSpawned, Finished}"
  shows "tasks_ok (retry_or_end i t)"
proof (cases "rc_cancelled (sd_recoveries t ! i)")
  case False
  then show ?thesis
    using assms(2,3)
    by (intro tasks_kept [OF assms(1)]) (auto simp: retry_or_end_def nth_list_update Let_def split: if_splits)
qed (simp add: retry_or_end_def set_phase_tasks [OF assms])

lemma bookkeeping_tasks [simp]:
  "tasks_ok (t\<lparr>sd_made := n, sd_closed_pipes := ps\<rparr>) = tasks_ok t"
  by (simp add: tasks_ok_def list_all_iff task_ok_def)

lemma replaced_tasks:
  assumes "tasks_ok t" and "i < length (sd_recoveries t)"
    and "rc_phase (sd_recoveries t ! i) = Prepared g prep"
  shows "tasks_ok (replaced i g pid rnd now t)"
proof (rule tasks_kept [OF assms(1)])
  show "sd_active t \<or> calls t = 0" using assms by (auto simp: tasks_ok_def)
qed (use assms in \<open>auto simp: replaced_def set_phase_def nth_list_update split: if_splits\<close>)

lemma restart_tasks:
  assumes "tasks_ok t" and i: "i < length (sd_recoveries t)"
  shows "tasks_ok (restartChild_step i inp t)"
proof (cases "rc_phase (sd_recoveries t ! i)")
  case (Prepared g prep)
  then show ?thesis
    using attempt_cases [of i g prep "ri_started inp" "ri_random inp" "ri_now inp" t]
      retry_tasks [OF assms] retry_tasks [of "t\<lparr>sd_made := n, sd_closed_pipes := ps\<rparr>" i for n ps]
      set_phase_tasks [of "t\<lparr>sd_made := n, sd_closed_pipes := ps\<rparr>" i Finished for n ps]
      replaced_tasks [OF assms Prepared] assms
    by (auto simp: restartChild_step_def Prepared)
qed (use assms in \<open>auto simp: restartChild_step_def intro: set_phase_tasks\<close>)

text \<open>What one action changes of the state that the tasks speak about.\<close>

lemma action_fields [simp]:
  "sd_tasks (fst (run_action sh now a t)) = sd_tasks t"
  "sd_handled (fst (run_action sh now a t)) = sd_handled t"
  "sd_active (fst (run_action sh now a t)) = sd_active t"
  "length (sd_recoveries (fst (run_action sh now a t))) = length (sd_recoveries t)"
  "sd_stopping (fst (run_action sh now a t)) = sd_stopping t"
  "sd_started (fst (run_action sh now a t)) = sd_started t"
  "sd_starts (fst (run_action sh now a t)) = sd_starts t"
  by (cases a; simp add: shutdown_once_def Let_def)+

lemma action_lost_calls:
  "sd_lost_calls (fst (run_action sh now a t)) = sd_lost_calls t + (if a = CallChildLost then 1 else 0)"
  by (cases a) (simp_all add: shutdown_once_def Let_def)

lemma action_phase:
  "(\<And>j. a \<noteq> StartRecovery j) \<Longrightarrow>
     map rc_phase (sd_recoveries (fst (run_action sh now a t))) = map rc_phase (sd_recoveries t)"
  by (cases a) (auto simp: shutdown_once_def Let_def map_update intro: list_update_same_conv [THEN iffD2])

lemma action_more:
  "filter (\<lambda>x. x = CallChildLost) (snd (run_action sh now a t)) = []"
  "filter is_start_recovery (snd (run_action sh now a t)) = []"
  by (cases a; simp)+

lemma run_task_eq:
  "sd_tasks t ! k = a # acts \<Longrightarrow>
     run_task sh now k t = (fst (run_action sh now a t))
       \<lparr>sd_tasks := (sd_tasks t)[k := snd (run_action sh now a t) @ acts]\<rparr>"
  by (simp add: run_task_def Let_def split: prod.splits) (metis action_fields(1) fst_conv)

lemma phase_nth: "map rc_phase xs = map rc_phase ys \<Longrightarrow> i < length xs \<Longrightarrow> rc_phase (xs ! i) = rc_phase (ys ! i)"
  by (metis length_map nth_map)

lemma run_task_pending:
  assumes "k < length (sd_tasks t)" and "sd_tasks t ! k = a # acts"
  shows "calls (run_task sh now k t) + (if a = CallChildLost then 1 else 0) = calls t"
    and "pending is_start_recovery (sd_tasks (run_task sh now k t)) + (if is_start_recovery a then 1 else 0) =
         pending is_start_recovery (sd_tasks t)"
  using pending_update [OF assms(1), of "\<lambda>x. x = CallChildLost" "snd (run_action sh now a t) @ acts"]
    pending_update [OF assms(1), of is_start_recovery "snd (run_action sh now a t) @ acts"]
  by (simp_all add: run_task_eq [OF assms(2)] assms(2) action_more split: if_splits)

lemma start_recovery_task:
  assumes "tasks_ok t" and "k < length (sd_tasks t)" and "sd_tasks t ! k = StartRecovery i # acts"
  shows "tasks_ok (run_task sh now k t)"
proof -
  have task: "task_ok t (StartRecovery i # acts)"
    using assms by (metis list_all_length tasks_ok_def)
  then have acts: "acts = []" by (cases acts) (auto simp: task_ok_def)
  have i: "i < length (sd_recoveries t)" "calls t = 0" "rc_phase (sd_recoveries t ! i) = NotSpawned"
    using task acts by (auto simp: task_ok_def)
  define t' where "t' = run_task sh now k t"
  have t': "t' = (set_phase i Retiring t)\<lparr>sd_tasks := (sd_tasks t)[k := []]\<rparr>"
    unfolding t'_def by (simp add: run_task_eq [OF assms(3)] acts)
  have calls: "calls t' = 0" and starts: "pending is_start_recovery (sd_tasks t') = 0"
    using run_task_pending [OF assms(2,3), of sh now] i(2) assms(1)
    by (auto simp: t'_def tasks_ok_def)
  have none: "\<not> is_start_recovery x" if "task \<in> set (sd_tasks t')" "x \<in> set task" for task x
    using that starts by (auto simp: pending_def filter_empty_conv)
  then have "task_ok t' task" if "task \<in> set (sd_tasks t')" for task
    using that by (auto simp: task_ok_def dest: in_set_butlastD) fastforce+
  then have "tasks_ok t'"
    using assms(1) calls starts i(2) by (simp add: tasks_ok_def list_all_iff) (simp add: t')
  then show ?thesis by (simp add: t'_def)
qed

lemma other_task:
  assumes t: "tasks_ok t" and k: "k < length (sd_tasks t)" and ts: "sd_tasks t ! k = a # acts"
    and a: "\<And>j. a \<noteq> StartRecovery j"
  shows "tasks_ok (run_task sh now k t)"
proof -
  define t' where "t' = run_task sh now k t"
  define b where "b = snd (run_action sh now a t) @ acts"
  have eq: "t' = (fst (run_action sh now a t))\<lparr>sd_tasks := (sd_tasks t)[k := b]\<rparr>"
    unfolding t'_def b_def by (rule run_task_eq [OF ts])
  have len: "length (sd_recoveries t') = length (sd_recoveries t)" by (simp add: eq)
  have ph: "rc_phase (sd_recoveries t' ! i) = rc_phase (sd_recoveries t ! i)"
    if "i < length (sd_recoveries t)" for i
    using phase_nth [of "sd_recoveries t'" "sd_recoveries t" i] action_phase [OF a, of sh now t] that len
    by (simp add: eq)
  have na: "\<not> is_start_recovery a" using a by (cases a) auto
  have c: "calls t' + (if a = CallChildLost then 1 else 0) = calls t"
      "pending is_start_recovery (sd_tasks t') = pending is_start_recovery (sd_tasks t)"
    using run_task_pending [OF k ts, of sh now] na by (auto simp: t'_def)
  have zero: "calls t' = 0" if "a = CallChildLost \<or> calls t = 0"
    using c(1) that t by (auto simp: tasks_ok_def)
  have kept: "task_ok t' task" if "task_ok t task" for task
    using that c(1) zero ph len by (auto simp: task_ok_def split: if_splits)
  have old: "task_ok t (a # acts)" using t k ts by (metis list_all_length tasks_ok_def)
  have sub: "x \<in> set acts" if "x \<in> set b" "is_start_recovery x \<or> x = CallChildLost" for x
    using that action_more [of sh now a t] by (auto simp: b_def filter_empty_conv)
  have "task_ok t' b"
  proof -
    have "\<not> is_start_recovery x" if "x \<in> set (butlast b)" for x
    proof
      assume "is_start_recovery x"
      with that have "x \<in> set (butlast acts)"
        using action_more(2) [of sh now a t] by (auto simp: b_def butlast_append filter_empty_conv split: if_splits
            dest: in_set_butlastD)
      with old \<open>is_start_recovery x\<close> show False by (auto simp: task_ok_def split: if_splits)
    qed
    moreover have "CallChildLost \<in> set b \<or> calls t' = 0" if "StartRecovery i \<in> set acts" for i
      using old that zero by (auto simp: task_ok_def b_def)
    moreover have "StartRecovery i \<in> set acts" if "StartRecovery i \<in> set b" for i
      using sub [OF that] by simp
    ultimately show ?thesis using old ph len by (auto simp: task_ok_def)
  qed
  then have "list_all (task_ok t') (sd_tasks t')"
    using t kept by (auto simp: eq list_all_iff tasks_ok_def dest!: set_update_subset_insert [THEN subsetD])
  moreover have "sd_lost_calls t' + calls t' = length (sd_handled t')"
    using t c(1) by (auto simp: eq action_lost_calls tasks_ok_def split: if_splits)
  ultimately have "tasks_ok t'"
    using t c zero ph len by (simp add: tasks_ok_def) (auto simp: eq)
  then show ?thesis by (simp add: t'_def)
qed

lemma run_task_tasks: "tasks_ok t \<Longrightarrow> k < length (sd_tasks t) \<Longrightarrow> tasks_ok (run_task sh now k t)"
proof (cases "sd_tasks t ! k")
  case (Cons a acts)
  then show "tasks_ok t \<Longrightarrow> k < length (sd_tasks t) \<Longrightarrow> ?thesis"
    using start_recovery_task other_task by (cases "is_start_recovery a") (fastforce elim: is_start_recovery.elims)+
qed (simp add: run_task_def)

lemma run_task_ok:
  assumes "supervisor_ok t" and "tasks_ok t" and "k < length (sd_tasks t)"
  shows "supervisor_ok (run_task sh now k t)"
proof (cases "sd_tasks t ! k")
  case (Cons a acts)
  have "task_ok t (a # acts)" using assms(2,3) Cons by (metis list_all_length tasks_ok_def)
  then have "supervisor_ok (fst (run_action sh now a t))"
    by (intro sup_action_ok [OF assms(1)]) (auto simp: task_ok_def live_def)
  then show ?thesis by (simp add: run_task_eq [OF Cons])
qed (use assms(1) in \<open>simp add: run_task_def\<close>)

definition stdio_inv :: "stdio_transport \<Rightarrow> bool" where
  "stdio_inv t \<longleftrightarrow> supervisor_ok t \<and> tasks_ok t"

interpretation stdio_system: invariant_system stdio_step stdio_inv
proof
  fix t e
  assume "stdio_inv t"
  then have t: "supervisor_ok t" "tasks_ok t" by (simp_all add: stdio_inv_def)
  show "stdio_inv (stdio_step t e)"
    using t by (cases e)
      (auto simp: stdio_inv_def stdioEOFReader_Read_def stdioErrWriter_Write_def waitForExit_def
        intro: sup_transport_ok transport_tasks sup_start_ok start_tasks stop_ok stop_tasks lost_ok lost_tasks
          restart_ok restart_tasks sup_signal_ok signal_tasks run_task_ok run_task_tasks)
qed

section \<open>After the stop\<close>

definition stopped_below :: "stdio_transport \<Rightarrow> stdio_transport \<Rightarrow> bool" where
  "stopped_below s t \<longleftrightarrow> sd_started s \<and> sd_stopping s \<and> \<not> sd_active s \<longrightarrow>
     sd_started t \<and> sd_stopping t \<and> \<not> sd_active t \<and> sd_starts t = sd_starts s \<and> sd_handled t = sd_handled s"

lemma stopped_attempt:
  assumes "sd_started t \<and> sd_stopping t \<and> \<not> sd_active t"
  shows "stopped_below t (restart_attempt i g prep started rnd now t)"
  using assms by (auto simp: stopped_below_def restart_attempt_def retry_or_end_def Let_def)

lemma stopped_step: "stopped_below t (stdio_step t e)"
proof (cases "sd_started t \<and> sd_stopping t \<and> \<not> sd_active t")
  case True
  then show ?thesis
  proof (cases e)
    case (EvTransport cfg lc prep)
    with True show ?thesis
      by (simp add: stopped_below_def stdio_Transport_def Let_def split: option.splits)
  next
    case (EvRestart i inp)
    with True stopped_attempt [OF True] show ?thesis
      by (auto simp: restartChild_step_def stopped_below_def Let_def split: recovery_phase.splits)
  next
    case (EvTask sh now k)
    with True show ?thesis
      by (cases "sd_tasks t ! k") (simp_all add: stopped_below_def run_task_eq, simp add: run_task_def)
  qed (auto simp: stopped_below_def stdio_start_def stdio_stop_def spawn_def childLost_def forwardSignal_def
      stdioEOFReader_Read_def stdioErrWriter_Write_def waitForExit_def Let_def split: option.splits)
qed (auto simp: stopped_below_def)

interpretation stop_progress: monotone_system stdio_step stopped_below
proof
  show "stopped_below s (stdio_step s e)" for s e by (rule stopped_step)
qed (auto simp: stopped_below_def)

section \<open>Properties\<close>

lemma stdio_run: "stdio_inv (foldl stdio_step (newStdioCommandTransport ob) es)"
  by (rule stdio_system.inv_run) (simp add: stdio_inv_def supervisor_new tasks_new)

lemma generation_after_inj:
  "k < 2 ^ 63 \<Longrightarrow> m < 2 ^ 63 \<Longrightarrow> generation_after k False = generation_after m False \<Longrightarrow> k = m"
proof -
  assume b: "k < 2 ^ 63" "m < 2 ^ 63" and eq: "generation_after k False = generation_after m False"
  have "take_bit 64 (2 * k + 1) = 2 * k + 1" "take_bit 64 (2 * m + 1) = 2 * m + 1"
    using b by (simp_all add: take_bit_nat_eq_self)
  moreover have "take_bit 64 (2 * k + 1) = take_bit 64 (2 * m + 1)"
    using eq unfolding generation_after_def word_of_nat_eq_iff by simp
  ultimately show "k = m" by simp
qed

text \<open>
  C23. One recovery at a time, and only after the clean-up of the last loss: in
  every run at most one restart is under way, while it is there is no active
  child, and whenever a child is active every loss before it has had its
  callback, so no logical connection of a lost child survives into the next
  one. The delays stay between 100 ms and 5 s, and a shutdown is requested at
  most once.
\<close>

theorem supervisor_recovers_in_order:
  "let t = foldl stdio_step (newStdioCommandTransport ob) es in
     length (filter live (sd_recoveries t)) \<le> 1 \<and>
     \<not> (sd_active t \<and> filter live (sd_recoveries t) \<noteq> []) \<and>
     \<not> (sd_active t \<and> sd_lost_calls t \<noteq> length (sd_handled t)) \<and>
     list_all (\<lambda>r. delay_range (rc_delay r)) (sd_recoveries t) \<and> length (sd_shutdowns t) \<le> 1"
proof -
  define t where "t = foldl stdio_step (newStdioCommandTransport ob) es"
  have inv: "supervisor_ok t" "tasks_ok t" using stdio_run [of ob es] by (simp_all add: stdio_inv_def t_def)
  have last: "Suc i = length (sd_recoveries t) \<and> \<not> sd_active t"
    if "i < length (sd_recoveries t)" "live (sd_recoveries t ! i)" for i
    using inv(1) that by (auto simp: supervisor_ok_def recovery_ok_def)
  have "\<not> live r" if "r \<in> set (butlast (sd_recoveries t))" for r
  proof -
    from that obtain i where "i < length (sd_recoveries t) - 1" "r = sd_recoveries t ! i"
      by (auto simp: in_set_conv_nth nth_butlast)
    moreover from this have "i < length (sd_recoveries t)" by simp
    ultimately show ?thesis using last [of i] by auto
  qed
  then have "filter live (butlast (sd_recoveries t)) = []" by (simp add: filter_empty_conv)
  then have one: "length (filter live (sd_recoveries t)) \<le> 1"
    by (cases "sd_recoveries t" rule: rev_cases) auto
  moreover have "\<not> (sd_active t \<and> filter live (sd_recoveries t) \<noteq> [])"
    using last by (auto simp: filter_empty_conv in_set_conv_nth)
  moreover have "\<not> (sd_active t \<and> sd_lost_calls t \<noteq> length (sd_handled t))"
    using inv(2) by (auto simp: tasks_ok_def)
  moreover have "list_all (\<lambda>r. delay_range (rc_delay r)) (sd_recoveries t)"
    using recovery_range [OF inv(1)] by (auto simp: list_all_length)
  moreover have "length (sd_shutdowns t) \<le> 1" using inv(1) by (simp add: supervisor_ok_def)
  ultimately show ?thesis by (simp add: t_def Let_def)
qed

text \<open>
  The loss of a child is handled once. The generations whose loss was
  handled are pairwise different, as long as fewer than \<open>2 ^ 63\<close> children were
  lost; the current one is none of them. So a later report for such a
  generation changes nothing, and a connection made to it is refused.
\<close>

theorem loss_handled_once:
  assumes "t = foldl stdio_step (newStdioCommandTransport ob) es"
    and "length (sd_handled t) < 2 ^ 63"
  shows "distinct (sd_handled t) \<and>
    (\<forall>g \<in> set (sd_handled t). childLost g reason now t = t \<and>
       connect_still_current g t = Inl errStdioChildRestarting)"
proof -
  have inv: "supervisor_ok t" using stdio_run [of ob es] by (simp add: stdio_inv_def assms(1))
  then have num: "sd_handled t = map (\<lambda>k. generation_after k False) [0..<length (sd_handled t)]"
    unfolding supervisor_ok_def losses_numbered_def by blast
  have "inj_on (\<lambda>k. generation_after k False) {0..<length (sd_handled t)}"
    using generation_after_inj assms(2) by (fastforce intro: inj_onI)
  then have "distinct (sd_handled t)" by (subst num) (simp add: distinct_map)
  moreover have "\<not> sd_active t \<or> sd_generation t \<noteq> g" if "g \<in> set (sd_handled t)" for g
  proof (rule ccontr)
    assume "\<not> (\<not> sd_active t \<or> sd_generation t \<noteq> g)"
    then have act: "sd_active t" "g = generation_after (length (sd_handled t)) False"
      using inv by (auto simp: supervisor_ok_def)
    have "set (sd_handled t) = (\<lambda>k. generation_after k False) ` {0..<length (sd_handled t)}"
      using arg_cong [OF num, of set] by simp
    with that obtain k where "k < length (sd_handled t)" "g = generation_after k False" by auto
    with act(2) generation_after_inj [of k "length (sd_handled t)"] assms(2) show False by simp
  qed
  ultimately show ?thesis by (auto simp: childLost_def connect_still_current_def)
qed

definition example_stdio :: stdio_config where
  "example_stdio = \<lparr>sf_command = ''server'', sf_args = [''server''], sf_policy = ''restart''\<rparr>"

definition example_restart :: restart_input where
  "example_restart = \<lparr>ri_cancelled_first = False, ri_prep = nil_err, ri_started = Inr 8, ri_random = [],
     ri_now = 9\<rparr>"

text \<open>A child that is lost and replaced.\<close>

definition example_loss :: "stdio_event list" where
  "example_loss = [EvTransport (Some example_stdio) True nil_err, EvStart (Inr 7) [] 1,
     EvWrite 1 [Errno EPIPE] 5, EvExit 1 6, EvTask True 6 0, EvTask True 6 0, EvTask True 6 0,
     EvRestart 0 example_restart, EvRestart 0 example_restart, EvRestart 0 example_restart]"

theorem loss_handled_once_witness:
  "\<exists>t. t = foldl stdio_step (newStdioCommandTransport None) example_loss \<and> sd_handled t = [1] \<and>
     sd_active t \<and> sd_starts t = 2 \<and> childLost 1 ''child_exited'' 7 t = t"
proof -
  let ?t = "foldl stdio_step (newStdioCommandTransport None) example_loss"
  have run: "sd_handled ?t = [1]" "sd_active ?t" "sd_starts ?t = 2"
    by (code_simp, code_simp, code_simp)
  then have "length (sd_handled ?t) < 2 ^ 63" by simp
  from loss_handled_once [OF refl this, of "''child_exited''" 7] run show ?thesis by auto
qed

text \<open>
  A stopped transport stays stopped: once \<open>stop\<close> ran on a started
  transport, no run of restarts, losses, signals or clean-up starts a process,
  makes a child active or begins another recovery.
\<close>

theorem no_child_after_stop:
  assumes "sd_started t"
  shows "let t' = foldl stdio_step (stdio_stop t) es in
     sd_stopping t' \<and> \<not> sd_active t' \<and> sd_starts t' = sd_starts t \<and> sd_handled t' = sd_handled t \<and>
     connect_generation t' = Inl errStdioChildRestarting"
proof -
  have stop: "sd_started (stdio_stop t)" "sd_stopping (stdio_stop t)" "\<not> sd_active (stdio_stop t)"
    "sd_starts (stdio_stop t) = sd_starts t" "sd_handled (stdio_stop t) = sd_handled t"
    using assms by (simp_all add: stdio_stop_def spawn_def Let_def split: option.splits)
  with stop_progress.below_run [of "stdio_stop t" es] show ?thesis
    by (simp add: stopped_below_def connect_generation_def Let_def)
qed

theorem no_child_after_stop_witness:
  "\<exists>t. sd_started t \<and> sd_active t \<and>
     sd_starts (foldl stdio_step (stdio_stop t) [EvExit 3 9, EvRestart 0 example_restart]) = sd_starts t"
proof -
  let ?t = "foldl stdio_step (newStdioCommandTransport None) example_loss"
  have run: "sd_started ?t" "sd_active ?t" by (code_simp, code_simp)
  from no_child_after_stop [OF run(1), of "[EvExit 3 9, EvRestart 0 example_restart]"] run
  show ?thesis by (metis (no_types, lifting))
qed

text \<open>
  One round of the restart loop: the delay, then the attempt. In a failing
  round the command cannot be prepared or the process does not start.
\<close>

definition restart_round :: "nat \<Rightarrow> stdio_transport \<Rightarrow> restart_input \<Rightarrow> stdio_transport" where
  "restart_round i t inp = restartChild_step i inp (restartChild_step i inp t)"

definition failing :: "restart_input \<Rightarrow> bool" where
  "failing inp \<longleftrightarrow> \<not> ri_cancelled_first inp \<and> (ri_prep inp \<noteq> nil_err \<or> (\<exists>err. ri_started inp = Inl err))"

definition waiting :: "nat \<Rightarrow> stdio_transport \<Rightarrow> bool" where
  "waiting i t \<longleftrightarrow> i < length (sd_recoveries t) \<and> rc_phase (sd_recoveries t ! i) = Delaying \<and>
     \<not> rc_cancelled (sd_recoveries t ! i) \<and> \<not> sd_stopping t"

lemma failing_round:
  assumes "waiting i t" and "failing inp"
  shows "waiting i (restart_round i t inp)" "sd_generation (restart_round i t inp) = sd_generation t"
  using assms
  by (auto simp: waiting_def failing_def restart_round_def restartChild_step_def set_phase_def restart_attempt_def
      retry_or_end_def Let_def split: sum.splits)

lemma failing_rounds:
  assumes "waiting i t" and "list_all failing inps"
  shows "waiting i (foldl (restart_round i) t inps) \<and>
         sd_generation (foldl (restart_round i) t inps) = sd_generation t"
  using assms failing_round by (induction inps arbitrary: t) auto

lemma successful_round:
  assumes "waiting i t" and "\<not> ri_cancelled_first inp" and "ri_prep inp = nil_err" and "ri_started inp = Inr pid"
  shows "let t' = restart_round i t inp in
     sd_active t' \<and> \<not> sd_recovering t' \<and> sd_generation t' = sd_generation t + 1 \<and>
     connect_generation t' = Inr (sd_generation t + 1) \<and> info_pid (StdioRuntimeInfo t') = pid \<and>
     rc_phase (sd_recoveries t' ! i) = Finished"
  using assms
  by (cases "sd_observation t")
    (simp_all add: waiting_def restart_round_def restartChild_step_def set_phase_def restart_attempt_def
      connect_generation_def StdioRuntimeInfo_def note_started_def Let_def split: prod.splits)

text \<open>
  A restart succeeds in the end: a recovery that has begun and is not
  cancelled survives any number of failed attempts, and the first attempt for
  which the operating system starts the command makes the new child active,
  under the next generation, open to connections and with its process.
\<close>

theorem restart_reaches_active:
  assumes "i < length (sd_recoveries t)" and "rc_phase (sd_recoveries t ! i) = Retiring"
    and "\<not> rc_cancelled (sd_recoveries t ! i)" and "\<not> sd_stopping t" and "list_all failing failed"
    and "\<not> ri_cancelled_first inp" and "ri_prep inp = nil_err" and "ri_started inp = Inr pid"
  shows "let t' = foldl (restart_round i) (restartChild_step i first t) (failed @ [inp]) in
     sd_active t' \<and> \<not> sd_recovering t' \<and> sd_generation t' = sd_generation t + 1 \<and>
     connect_generation t' = Inr (sd_generation t + 1) \<and> info_pid (StdioRuntimeInfo t') = pid \<and>
     rc_phase (sd_recoveries t' ! i) = Finished"
proof -
  have "waiting i (restartChild_step i first t)" "sd_generation (restartChild_step i first t) = sd_generation t"
    using assms(1-4) by (simp_all add: waiting_def restartChild_step_def set_phase_def)
  then show ?thesis
    using failing_rounds [OF _ assms(5)] successful_round [OF _ assms(6-8)] by (simp add: Let_def)
qed

theorem restart_reaches_active_witness:
  "\<exists>t. rc_phase (sd_recoveries t ! 0) = Retiring \<and> \<not> sd_active t \<and>
     sd_active (foldl (restart_round 0) (restartChild_step 0 example_restart t)
       ([example_restart\<lparr>ri_started := Inl [ErrText ''exec'']\<rparr>] @ [example_restart]))"
proof -
  let ?t = "foldl stdio_step (newStdioCommandTransport None) (take 7 example_loss)"
  have t: "0 < length (sd_recoveries ?t)" "rc_phase (sd_recoveries ?t ! 0) = Retiring"
    "\<not> rc_cancelled (sd_recoveries ?t ! 0)" "\<not> sd_stopping ?t" "\<not> sd_active ?t"
    by (code_simp, code_simp, code_simp, code_simp, code_simp)
  have "list_all failing [example_restart\<lparr>ri_started := Inl [ErrText ''exec'']\<rparr>]"
    "\<not> ri_cancelled_first example_restart" "ri_prep example_restart = nil_err" "ri_started example_restart = Inr 8"
    by (simp_all add: failing_def example_restart_def)
  from restart_reaches_active [OF t(1-4) this, of example_restart] t(2,5) show ?thesis
    unfolding Let_def by blast
qed

end
