(* ===== verification/ServerInfo.thy ===== *)
theory ServerInfo
  imports JsonWrite Errors Types
begin

text \<open>
  The MCP channel metadata that the client advertises in a control-plane
  header (\<open>pkg/mcpserverinfo\<close>): validation of the declarations and the two
  versions of the payload. The property reads the header back with the JSON
  parser of the development, as a control plane would.
\<close>

section \<open>Declarations\<close>

definition ServerInfo_MaxChannels :: nat where
  "ServerInfo_MaxChannels = 32"

definition MaxHeaderBytes :: nat where
  "MaxHeaderBytes = 4096"

record channel_decl =
  dc_name :: string
  dc_stateless :: bool
  dc_affinity :: bool

text \<open>The loop of \<open>validateDeclarations\<close>, with the channels seen so far.\<close>

fun validate_loop :: "channel list \<Rightarrow> channel_decl list \<Rightarrow> goerr + channel_decl list" where
  "validate_loop seen [] = Inr []"
| "validate_loop seen (d # ds) =
     (if dc_name d = [] then Inl [ErrText ''mcp server info: channel name is required'']
      else case NormalizeChannel (dc_name d) of
        None \<Rightarrow> Inl [ErrText ''mcp server info'', ErrText ''invalid channel'']
      | Some channel \<Rightarrow>
          if channel \<noteq> dc_name d then Inl [ErrText ''mcp server info: channel name is not canonical'']
          else if channel \<in> set seen then Inl [ErrText ''mcp server info: duplicate channel declaration'']
          else case validate_loop (channel # seen) ds of
            Inl e \<Rightarrow> Inl e
          | Inr validated \<Rightarrow>
              Inr (\<lparr>dc_name = channel, dc_stateless = dc_stateless d, dc_affinity = dc_affinity d\<rparr> # validated))"

definition validateDeclarations :: "channel_decl list \<Rightarrow> nat \<Rightarrow> goerr + channel_decl list" where
  "validateDeclarations ds maxChannels =
     (if ds = [] then Inl [ErrText ''mcp server info: at least one channel declaration is required'']
      else if length ds > maxChannels then
        Inl [ErrText ''mcp server info: channel declaration count exceeds maximum'']
      else validate_loop [] ds)"

section \<open>Payloads\<close>

definition v1Channel :: "channel_decl \<Rightarrow> json" where
  "v1Channel d = json_obj ((''name'', JStr (dc_name d)) #
     (if dc_affinity d then [(''proc_affinity'', JBool True)] else []))"

definition v2Channel :: "channel_decl \<Rightarrow> json" where
  "v2Channel d = json_obj ((''name'', JStr (dc_name d)) #
     (if dc_stateless d then [(''stateless'', JBool True)] else []) @
     (if dc_affinity d then [(''proc_affinity'', JBool True)] else []))"

definition info_payload :: "string \<Rightarrow> json list \<Rightarrow> json" where
  "info_payload version channels = json_obj [(''version'', JNum version), (''channels'', JArr channels)]"

definition info_marshal :: "json \<Rightarrow> nat \<Rightarrow> goerr + string" where
  "info_marshal payload maxHeaderBytes =
     (let encoded = json_text payload in
      if length encoded > maxHeaderBytes
      then Inl [ErrText ''mcp server info: serialized header size exceeds maximum''] else Inr encoded)"

definition buildV1 :: "channel_decl list \<Rightarrow> nat \<Rightarrow> nat \<Rightarrow> goerr + string" where
  "buildV1 ds maxChannels maxHeaderBytes = (case validateDeclarations ds maxChannels of
     Inl e \<Rightarrow> Inl e
   | Inr validated \<Rightarrow> info_marshal (info_payload ''1'' (map v1Channel validated)) maxHeaderBytes)"

definition buildV2 :: "channel_decl list \<Rightarrow> nat \<Rightarrow> nat \<Rightarrow> goerr + string" where
  "buildV2 ds maxChannels maxHeaderBytes = (case validateDeclarations ds maxChannels of
     Inl e \<Rightarrow> Inl e
   | Inr validated \<Rightarrow> info_marshal (info_payload ''2'' (map v2Channel validated)) maxHeaderBytes)"

definition BuildV1 :: "channel_decl list \<Rightarrow> goerr + string" where
  "BuildV1 ds = buildV1 ds ServerInfo_MaxChannels MaxHeaderBytes"

definition ServerInfo_Build :: "channel_decl list \<Rightarrow> goerr + string" where
  "ServerInfo_Build ds =
     (if list_ex dc_stateless ds then buildV2 ds ServerInfo_MaxChannels MaxHeaderBytes else BuildV1 ds)"

section \<open>Reading the header\<close>

fun read_flag :: "string \<Rightarrow> member list \<Rightarrow> bool" where
  "read_flag name [] = False"
| "read_flag name ((k, raw, v) # ms) = (if k = name then v = JBool True else read_flag name ms)"

fun read_channel :: "json \<Rightarrow> channel_decl option" where
  "read_channel (JObj ((k, raw, JStr n) # ms)) =
     (if k = ''name''
      then Some \<lparr>dc_name = n, dc_stateless = read_flag ''stateless'' ms, dc_affinity = read_flag ''proc_affinity'' ms\<rparr>
      else None)"
| "read_channel _ = None"

fun read_info :: "json \<Rightarrow> (string \<times> channel_decl option list) option" where
  "read_info (JObj [(a, raw, JNum v), (b, raw', JArr cs)]) =
     (if a = ''version'' \<and> b = ''channels'' then Some (v, map read_channel cs) else None)"
| "read_info _ = None"

section \<open>Lemmas\<close>

lemma validate_loop_ok:
  "validate_loop seen ds = Inr out \<Longrightarrow> out = ds \<and> distinct (map dc_name ds) \<and>
     (\<forall>d\<in>set ds. NormalizeChannel (dc_name d) = Some (dc_name d) \<and> dc_name d \<notin> set seen)"
proof (induction ds arbitrary: seen out)
  case (Cons d ds)
  from Cons.prems obtain rest where
    d: "NormalizeChannel (dc_name d) = Some (dc_name d)" "dc_name d \<notin> set seen"
      "validate_loop (dc_name d # seen) ds = Inr rest"
      "out = \<lparr>dc_name = dc_name d, dc_stateless = dc_stateless d, dc_affinity = dc_affinity d\<rparr> # rest"
    by (auto split: if_splits option.splits sum.splits)
  from Cons.IH [OF d(3)] d(1,2,4) show ?case by (cases d) auto
qed simp

lemma validated:
  "validateDeclarations ds n = Inr out \<Longrightarrow> out = ds \<and> ds \<noteq> [] \<and> length ds \<le> n \<and> distinct (map dc_name ds)"
  using validate_loop_ok [of "[]" ds out] by (auto simp: validateDeclarations_def split: if_splits)

lemma payload_wf:
  "json_wf (info_payload ''1'' (map v1Channel ds))" "json_wf (info_payload ''2'' (map v2Channel ds))"
proof -
  have "json_wf (v1Channel d)" "json_wf (v2Channel d)" for d by (simp_all add: v1Channel_def v2Channel_def)
  moreover have "natural_literal ''1''" "natural_literal ''2''" by code_simp+
  ultimately show "json_wf (info_payload ''1'' (map v1Channel ds))" "json_wf (info_payload ''2'' (map v2Channel ds))"
    by (simp_all add: info_payload_def list_all_iff)
qed

lemma read_v1: "\<not> dc_stateless d \<Longrightarrow> read_channel (v1Channel d) = Some d"
  by (cases d) (simp add: v1Channel_def json_obj_def)

lemma read_v2: "read_channel (v2Channel d) = Some d"
  by (cases d) (simp add: v2Channel_def json_obj_def)

lemma marshal_reads:
  assumes "info_marshal p n = Inr h" and "json_wf p"
  shows "length h \<le> n \<and> json_parse h = Some p"
  using assms json_parse_text by (auto simp: info_marshal_def Let_def split: if_splits)

section \<open>Properties\<close>

text \<open>
  The server-info header survives the wire: whatever \<open>Build\<close> accepts fits
  the protocol's bounds, has distinct channels, and parses back to exactly the
  declarations, with the lowest version that can carry them.
\<close>

theorem server_info_roundtrip:
  assumes "ServerInfo_Build ds = Inr h"
  shows "length h \<le> 4096 \<and> ds \<noteq> [] \<and> length ds \<le> 32 \<and> distinct (map dc_name ds) \<and>
    (\<exists>doc. json_parse h = Some doc \<and>
       read_info doc = Some (if list_ex dc_stateless ds then ''2'' else ''1'', map Some ds))"
proof (cases "list_ex dc_stateless ds")
  case True
  with assms have "buildV2 ds 32 4096 = Inr h"
    by (simp add: ServerInfo_Build_def ServerInfo_MaxChannels_def MaxHeaderBytes_def)
  then obtain out where out: "validateDeclarations ds 32 = Inr out"
      "info_marshal (info_payload ''2'' (map v2Channel out)) 4096 = Inr h"
    by (auto simp: buildV2_def split: sum.splits)
  from validated [OF out(1)] marshal_reads [OF out(2) payload_wf(2)] True show ?thesis
    by (auto simp: info_payload_def json_obj_def read_v2)
next
  case False
  with assms have "buildV1 ds 32 4096 = Inr h"
    by (simp add: ServerInfo_Build_def BuildV1_def ServerInfo_MaxChannels_def MaxHeaderBytes_def)
  then obtain out where out: "validateDeclarations ds 32 = Inr out"
      "info_marshal (info_payload ''1'' (map v1Channel out)) 4096 = Inr h"
    by (auto simp: buildV1_def split: sum.splits)
  have "\<forall>d\<in>set ds. \<not> dc_stateless d" using False by (auto simp: list_ex_iff)
  with validated [OF out(1)] marshal_reads [OF out(2) payload_wf(1)] False show ?thesis
    by (auto simp: info_payload_def json_obj_def read_v1)
qed

theorem server_info_roundtrip_witness:
  "\<exists>h. ServerInfo_Build [\<lparr>dc_name = ''main'', dc_stateless = True, dc_affinity = False\<rparr>] = Inr h \<and>
     length h \<le> 4096"
proof -
  let ?ds = "[\<lparr>dc_name = ''main'', dc_stateless = True, dc_affinity = False\<rparr>]"
  have "validateDeclarations ?ds 32 = Inr ?ds" by code_simp
  moreover have "length (json_text (info_payload ''2'' (map v2Channel ?ds))) \<le> 100" by code_simp
  ultimately obtain h where "ServerInfo_Build ?ds = Inr h"
    by (simp add: ServerInfo_Build_def buildV2_def ServerInfo_MaxChannels_def MaxHeaderBytes_def info_marshal_def Let_def)
  from server_info_roundtrip [OF this] this show ?thesis by blast
qed

end
