(* ===== verification/CallBuffer.thy ===== *)
theory CallBuffer
  imports Prelude
begin

text \<open>
  The ring buffer of recent harpoon calls (\<open>pkg/harpoon/call_buffer.go\<close>): a
  fixed array, the next slot and the number of slots in use. The specification
  is the list of all calls ever recorded, newest first; the lemmas show that
  the array holds its first hundred and that a snapshot reads them in order.
\<close>

section \<open>The buffer\<close>

definition callBufferSize :: nat where
  "callBufferSize = 100"

record call_entry =
  ce_timestamp :: gotime
  ce_label :: string
  ce_url :: string
  ce_meth :: string
  ce_status :: int
  ce_latency_ms :: int
  ce_response_content_type :: string
  ce_req_bytes :: int
  ce_resp_bytes :: int
  ce_error :: string
  ce_request_body :: string
  ce_response_body :: string
  ce_response_body_transformed :: string
  ce_body_is_base64 :: bool

definition no_call :: call_entry where
  "no_call = \<lparr>ce_timestamp = 0, ce_label = [], ce_url = [], ce_meth = [], ce_status = 0, ce_latency_ms = 0,
     ce_response_content_type = [], ce_req_bytes = 0, ce_resp_bytes = 0, ce_error = [], ce_request_body = [],
     ce_response_body = [], ce_response_body_transformed = [], ce_body_is_base64 = False\<rparr>"

record call_buffer =
  cb_entries :: "call_entry list"
  cb_next :: nat
  cb_count :: nat

definition NewCallBuffer :: call_buffer where
  "NewCallBuffer = \<lparr>cb_entries = replicate callBufferSize no_call, cb_next = 0, cb_count = 0\<rparr>"

definition RecordCall :: "call_buffer \<Rightarrow> call_entry \<Rightarrow> call_buffer" where
  "RecordCall b entry =
     (let n = length (cb_entries b) in
      if n = 0 then b
      else b\<lparr>cb_entries := (cb_entries b)[cb_next b := entry], cb_next := (cb_next b + 1) mod n,
             cb_count := (if cb_count b < n then cb_count b + 1 else cb_count b)\<rparr>)"

text \<open>The index of the i-th newest entry; the code adds the length when the difference is negative.\<close>

definition ring_index :: "call_buffer \<Rightarrow> nat \<Rightarrow> nat" where
  "ring_index b i =
     (let idx = int (cb_next b) - 1 - int i in
      nat (if idx < 0 then idx + int (length (cb_entries b)) else idx))"

text \<open>The loop of \<open>Snapshot\<close> from index \<open>i\<close>, with what it has collected.\<close>

function snapshot_loop :: "call_buffer \<Rightarrow> nat \<Rightarrow> string \<Rightarrow> nat \<Rightarrow> call_entry list \<Rightarrow> call_entry list" where
  "snapshot_loop b limit label i out =
     (if i < cb_count b \<and> length out < limit then
        (let entry = cb_entries b ! ring_index b i in
         if label \<noteq> [] \<and> ce_label entry \<noteq> label then snapshot_loop b limit label (Suc i) out
         else snapshot_loop b limit label (Suc i) (out @ [entry]))
      else out)"
  by pat_completeness auto
termination
  by (relation "measure (\<lambda>(b, limit, label, i, out). cb_count b - i)") auto

declare snapshot_loop.simps [simp del]

definition CallBuffer_Snapshot :: "call_buffer \<Rightarrow> int \<Rightarrow> string \<Rightarrow> call_entry list" where
  "CallBuffer_Snapshot b limit label =
     (let n = length (cb_entries b); m = cb_count b in
      if n = 0 \<or> m = 0 then []
      else let limit = (if limit \<le> 0 \<or> limit > int n then n else nat limit);
               limit = (if limit > m then m else limit)
        in snapshot_loop b limit (trim_space label) 0 [])"

section \<open>Refinement\<close>

text \<open>The i-th newest of the calls recorded so far is where \<open>ring_index\<close> looks.\<close>

definition ring_refines :: "call_buffer \<Rightarrow> call_entry list \<Rightarrow> bool" where
  "ring_refines b hist \<longleftrightarrow>
     length (cb_entries b) = callBufferSize \<and> cb_next b = length hist mod callBufferSize \<and>
     cb_count b = min (length hist) callBufferSize \<and>
     (\<forall>i < cb_count b. cb_entries b ! ring_index b i = hist ! i)"

lemma ring_index_zero:
  assumes "length (cb_entries b) = callBufferSize" and "cb_next b = Suc k mod callBufferSize"
  shows "ring_index b 0 = k mod callBufferSize"
  using assms by (auto simp: ring_index_def callBufferSize_def mod_Suc Let_def)

lemma ring_index_step:
  assumes "length (cb_entries b) = callBufferSize" and "length (cb_entries b') = callBufferSize"
    and "cb_next b < callBufferSize" and "cb_next b' = Suc (cb_next b) mod callBufferSize"
    and "Suc i < callBufferSize"
  shows "ring_index b' (Suc i) = ring_index b i" "ring_index b i \<noteq> cb_next b"
  using assms by (auto simp: ring_index_def callBufferSize_def mod_Suc Let_def split: if_splits)

lemma ring_new: "ring_refines NewCallBuffer []"
  by (simp add: ring_refines_def NewCallBuffer_def)

lemma ring_record: "ring_refines b hist \<Longrightarrow> ring_refines (RecordCall b e) (e # hist)"
proof -
  assume r: "ring_refines b hist"
  let ?b = "RecordCall b e"
  have size: "length (cb_entries b) = callBufferSize" "callBufferSize \<noteq> 0" "cb_next b < callBufferSize"
    using r by (simp_all add: ring_refines_def callBufferSize_def)
  have b: "cb_entries ?b = (cb_entries b)[cb_next b := e]" "cb_next ?b = Suc (cb_next b) mod callBufferSize"
    "cb_count ?b = min (Suc (length hist)) callBufferSize"
    using r size by (auto simp: RecordCall_def ring_refines_def Let_def)
  have hist: "cb_next b = length hist mod callBufferSize" "cb_count b = min (length hist) callBufferSize"
    using r by (simp_all add: ring_refines_def)
  have nxt: "cb_next ?b = Suc (length hist) mod callBufferSize"
    using b(2) hist(1) by (simp add: mod_Suc_eq)
  have "cb_entries ?b ! ring_index ?b i = (e # hist) ! i" if i: "i < cb_count ?b" for i
  proof (cases i)
    case 0
    have "ring_index ?b 0 = cb_next b"
      using ring_index_zero [of ?b "length hist"] b(1) size(1) nxt hist(1) by simp
    with 0 b(1) size show ?thesis by simp
  next
    case (Suc j)
    then have j: "j < cb_count b" "Suc j < callBufferSize" using i b(3) hist(2) by auto
    note step = ring_index_step [of b ?b j, OF size(1) _ size(3) b(2) j(2)]
    have "cb_entries ?b ! ring_index ?b i = cb_entries b ! ring_index b j"
      using step b(1) size(1) Suc by simp
    also have "\<dots> = hist ! j" using r j(1) by (simp add: ring_refines_def)
    finally show ?thesis using Suc by simp
  qed
  then show ?thesis
    using b size nxt by (simp add: ring_refines_def)
qed

lemma ring_run: "ring_refines (foldl RecordCall NewCallBuffer es) (rev es)"
  by (induction es rule: rev_induct) (simp_all add: ring_new ring_record)

text \<open>The loop collects the matching entries from \<open>i\<close> on, up to the limit.\<close>

lemma snapshot_loop_eq:
  assumes "ring_refines b hist"
  shows "snapshot_loop b limit label i out =
    out @ take (limit - length out)
      (filter (\<lambda>e. label = [] \<or> ce_label e = label) (drop i (take (cb_count b) hist)))"
  using assms
proof (induction b limit label i out rule: snapshot_loop.induct)
  case (1 b limit label i out)
  show ?case
  proof (cases "i < cb_count b \<and> length out < limit")
    case True
    define e where "e = hist ! i"
    have "cb_count b \<le> length hist" using 1(3) by (simp add: ring_refines_def)
    then have d: "drop i (take (cb_count b) hist) = e # drop (Suc i) (take (cb_count b) hist)"
      using True by (simp add: e_def Cons_nth_drop_Suc [symmetric])
    have entry: "cb_entries b ! ring_index b i = e" using 1(3) True by (simp add: ring_refines_def e_def)
    have room: "limit - length out = Suc (limit - Suc (length out))" using True by linarith
    show ?thesis
    proof (cases "label \<noteq> [] \<and> ce_label e \<noteq> label")
      case skip: True
      with 1(1) [OF True refl] 1(3) entry have "snapshot_loop b limit label (Suc i) out = out @
          take (limit - length out) (filter (\<lambda>e. label = [] \<or> ce_label e = label) (drop (Suc i) (take (cb_count b) hist)))"
        by simp
      with True skip entry d show ?thesis by (simp add: snapshot_loop.simps [of b limit label i out] Let_def)
    next
      case keep: False
      with 1(2) [OF True refl] 1(3) entry have "snapshot_loop b limit label (Suc i) (out @ [e]) = (out @ [e]) @
          take (limit - Suc (length out)) (filter (\<lambda>e. label = [] \<or> ce_label e = label) (drop (Suc i) (take (cb_count b) hist)))"
        by simp
      with True keep entry d room show ?thesis
        by (auto simp: snapshot_loop.simps [of b limit label i out] Let_def)
    qed
  next
    case False
    then show ?thesis by (auto simp: snapshot_loop.simps [of b limit label i out])
  qed
qed

section \<open>Properties\<close>

text \<open>
  The ring refines the list of recorded calls: after any calls, a snapshot
  gives exactly the newest hundred of them that have the label, newest first,
  cut to the limit; a limit that is not positive or above a hundred means all.
\<close>

theorem call_snapshot_newest_first:
  "CallBuffer_Snapshot (foldl RecordCall NewCallBuffer es) limit label =
     take (if limit \<le> 0 \<or> limit > 100 then 100 else nat limit)
       (filter (\<lambda>e. trim_space label = [] \<or> ce_label e = trim_space label) (take 100 (rev es)))"
proof -
  let ?b = "foldl RecordCall NewCallBuffer es"
  have r: "ring_refines ?b (rev es)" by (rule ring_run)
  then have n: "length (cb_entries ?b) = 100" "cb_count ?b = min (length es) 100"
    by (simp_all add: ring_refines_def callBufferSize_def)
  let ?f = "filter (\<lambda>e. trim_space label = [] \<or> ce_label e = trim_space label) (take (min (length es) 100) (rev es))"
  have same: "take (min (length es) 100) (rev es) = take 100 (rev es)" by (simp add: min_def)
  have le: "length ?f \<le> min (length es) 100" by (rule order_trans [OF length_filter_le]) simp
  have cut: "take (if m > k then k else m) ?f = take m ?f" if "k = min (length es) 100" for m k
    using le that by (auto simp: not_less)
  show ?thesis
  proof (cases "es = []")
    case True
    then show ?thesis using n by (simp add: CallBuffer_Snapshot_def)
  next
    case False
    then have c: "cb_count ?b \<noteq> 0" using n(2) by (simp add: min_def)
    have same': "take (cb_count ?b) (rev es) = take 100 (rev es)" using n(2) same by simp
    show ?thesis
      using n(1) c cut [OF n(2)] same
      by (simp add: CallBuffer_Snapshot_def snapshot_loop_eq [OF r] same' Let_def)
  qed
qed

end
