(* ===== verification/HttpGuard.thy ===== *)
theory HttpGuard
  imports HeaderScope
begin

text \<open>
  The guards of the local HTTP endpoints (\<open>pkg/httpguard/guard.go\<close>): handlers
  that answer loopback clients only, and state-changing requests of browsers
  only from the endpoint's own origin. \<open>net.ParseIP\<close> followed by \<open>IsLoopback\<close>
  is the parameter \<open>ip\<close>, \<open>None\<close> for text that is no address, and \<open>url.Parse\<close>
  the parameter \<open>parse\<close>.
\<close>

section \<open>Requests\<close>

record http_request =
  rq_meth :: string
  rq_header :: header
  rq_host :: string
  rq_tls :: bool
  rq_url_scheme :: string
  rq_remote_addr :: string
  rq_network :: string   \<comment> \<open>the connection's network, from the context\<close>

text \<open>\<open>net.SplitHostPort\<close>: the host, or \<open>None\<close> for its errors.\<close>

definition index_of :: "char \<Rightarrow> string \<Rightarrow> nat option" where
  "index_of c s = (if c \<in> set s then Some (length (takeWhile (\<lambda>x. x \<noteq> c) s)) else None)"

definition last_index :: "char \<Rightarrow> string \<Rightarrow> nat option" where
  "last_index c s = map_option (\<lambda>i. length s - 1 - i) (index_of c (rev s))"

definition SplitHostPort :: "string \<Rightarrow> (string \<times> string) option" where
  "SplitHostPort s = (case last_index (CHR '':'') s of
     None \<Rightarrow> None
   | Some i \<Rightarrow>
       if hd s = CHR ''['' then
         (case index_of (CHR '']'') s of
            None \<Rightarrow> None
          | Some e \<Rightarrow>
              if e + 1 \<noteq> i then None
              else if CHR ''['' \<in> set (drop 1 s) \<or> CHR '']'' \<in> set (drop (e + 1) s) then None
              else Some (take (e - 1) (drop 1 s), drop (i + 1) s))
       else if CHR '':'' \<in> set (take i s) then None
       else if CHR ''['' \<in> set s \<or> CHR '']'' \<in> set s then None
       else Some (take i s, drop (i + 1) s))"

section \<open>Loopback\<close>

definition IsLoopbackRequest :: "(string \<Rightarrow> bool option) \<Rightarrow> http_request \<Rightarrow> bool" where
  "IsLoopbackRequest ip r =
     (if rq_network r = ''unix'' then True
      else case SplitHostPort (rq_remote_addr r) of
        None \<Rightarrow> False
      | Some (host, _) \<Rightarrow> ip host = Some True)"

datatype handler_result = Forbidden string | Served

definition defaultLoopbackMessage :: string where
  "defaultLoopbackMessage = ''access is restricted to loopback; set --allow-remote-ui to override''"

definition defaultSameOriginMessage :: string where
  "defaultSameOriginMessage = ''unsafe browser request must be same-origin''"

text \<open>A handler maps a request to what is answered.\<close>

type_synonym handler = "http_request \<Rightarrow> handler_result"

definition LocalOnly :: "(string \<Rightarrow> bool option) \<Rightarrow> handler \<Rightarrow> string \<Rightarrow> handler" where
  "LocalOnly ip nxt message r =
     (if \<not> IsLoopbackRequest ip r
      then Forbidden (if message = [] then defaultLoopbackMessage else message) else nxt r)"

record guarded_mux =
  gm_allow_remote :: bool
  gm_message :: string

definition NewGuardedMux :: "bool \<Rightarrow> string \<Rightarrow> guarded_mux" where
  "NewGuardedMux allowRemote message =
     \<lparr>gm_allow_remote = allowRemote,
      gm_message = (if message = [] then defaultLoopbackMessage else message)\<rparr>"

text \<open>What \<open>Handle\<close> registers for a handler.\<close>

definition mux_guard :: "(string \<Rightarrow> bool option) \<Rightarrow> guarded_mux \<Rightarrow> handler \<Rightarrow> handler" where
  "mux_guard ip g nxt = (if gm_allow_remote g then nxt else LocalOnly ip nxt (gm_message g))"

section \<open>Same origin\<close>

definition isUnsafeMethod :: "string \<Rightarrow> bool" where
  "isUnsafeMethod m \<longleftrightarrow> m \<notin> {''GET'', ''HEAD'', ''OPTIONS'', ''TRACE''}"

definition requestScheme :: "http_request \<Rightarrow> string" where
  "requestScheme r = (if rq_tls r then ''https'' else if rq_url_scheme r \<noteq> [] then rq_url_scheme r else ''http'')"

definition isLocalAdminHost :: "(string \<Rightarrow> bool option) \<Rightarrow> string \<Rightarrow> bool" where
  "isLocalAdminHost ip host =
     (let host = trim_suffix (to_lower (trim_space host)) ''.'' in host = ''localhost'' \<or> ip host = Some True)"

definition requestURLMatchesOrigin ::
    "(string \<Rightarrow> bool option) \<Rightarrow> (string \<Rightarrow> url option) \<Rightarrow> http_request \<Rightarrow> string \<Rightarrow> bool" where
  "requestURLMatchesOrigin ip parse r raw = (case parse raw of
     None \<Rightarrow> False
   | Some u \<Rightarrow>
       if u_scheme u = [] \<or> u_host u = [] then False
       else if \<not> equal_fold (u_scheme u) (requestScheme r) \<or> \<not> equal_fold (u_host u) (rq_host r) then False
       else if IsLoopbackRequest ip r \<and> \<not> isLocalAdminHost ip (url_Hostname u) then False
       else True)"

definition IsSameOriginBrowserRequest ::
    "(string \<Rightarrow> bool option) \<Rightarrow> (string \<Rightarrow> url option) \<Rightarrow> http_request \<Rightarrow> bool" where
  "IsSameOriginBrowserRequest ip parse r =
     (let origin = trim_space (header_get (rq_header r) ''Origin'');
          referer = trim_space (header_get (rq_header r) ''Referer'')
      in if equal_fold (trim_space (header_get (rq_header r) ''Sec-Fetch-Site'')) ''cross-site'' then False
         else if origin \<noteq> [] then requestURLMatchesOrigin ip parse r origin
         else if referer \<noteq> [] then requestURLMatchesOrigin ip parse r referer
         else True)"

definition SameOriginUnsafe ::
    "(string \<Rightarrow> bool option) \<Rightarrow> (string \<Rightarrow> url option) \<Rightarrow> handler \<Rightarrow> string \<Rightarrow> handler" where
  "SameOriginUnsafe ip parse nxt message r =
     (if isUnsafeMethod (rq_meth r) \<and> \<not> IsSameOriginBrowserRequest ip parse r
      then Forbidden (if message = [] then defaultSameOriginMessage else message) else nxt r)"

section \<open>Properties\<close>

lemma LocalOnly_served: "LocalOnly ip nxt message r = Served \<Longrightarrow> IsLoopbackRequest ip r \<and> nxt r = Served"
  by (simp add: LocalOnly_def split: if_splits)

lemma mux_guard_served:
  "mux_guard ip (NewGuardedMux False message) nxt r = Served \<Longrightarrow> IsLoopbackRequest ip r \<and> nxt r = Served"
  using LocalOnly_served by (simp add: mux_guard_def NewGuardedMux_def)

text \<open>
  A page of another site cannot act on the local admin endpoint: behind
  both guards, a state-changing request that names an origin is served only if
  it comes from loopback, is not marked cross-site, and its origin has the
  request's scheme and host and is itself a local name or loopback address, so
  that a name rebound to loopback does not pass.
\<close>

theorem cross_site_requests_refused:
  assumes "mux_guard ip (NewGuardedMux False m1) (SameOriginUnsafe ip parse nxt m2) r = Served"
    and "isUnsafeMethod (rq_meth r)" and "trim_space (header_get (rq_header r) ''Origin'') \<noteq> []"
  shows "IsLoopbackRequest ip r \<and>
    \<not> equal_fold (trim_space (header_get (rq_header r) ''Sec-Fetch-Site'')) ''cross-site'' \<and>
    (\<exists>u. parse (trim_space (header_get (rq_header r) ''Origin'')) = Some u \<and>
       equal_fold (u_scheme u) (requestScheme r) \<and> equal_fold (u_host u) (rq_host r) \<and>
       isLocalAdminHost ip (url_Hostname u))"
proof -
  have loop: "IsLoopbackRequest ip r" "SameOriginUnsafe ip parse nxt m2 r = Served"
    using mux_guard_served [OF assms(1)] by auto
  then have same: "IsSameOriginBrowserRequest ip parse r"
    using assms(2) by (auto simp: SameOriginUnsafe_def split: if_splits)
  then have "requestURLMatchesOrigin ip parse r (trim_space (header_get (rq_header r) ''Origin''))"
    and "\<not> equal_fold (trim_space (header_get (rq_header r) ''Sec-Fetch-Site'')) ''cross-site''"
    using assms(3) by (auto simp: IsSameOriginBrowserRequest_def Let_def split: if_splits)
  with loop(1) show ?thesis
    by (auto simp: requestURLMatchesOrigin_def split: option.splits if_splits)
qed

definition example_ip :: "string \<Rightarrow> bool option" where
  "example_ip s = (if s = ''127.0.0.1'' \<or> s = ''::1'' then Some True else if s = ''10.0.0.7'' then Some False else None)"

definition example_parse :: "string \<Rightarrow> url option" where
  "example_parse raw = (if raw = ''http://localhost:8080''
     then Some \<lparr>u_scheme = ''http'', u_host = ''localhost:8080'', u_path = []\<rparr> else None)"

definition example_admin_request :: http_request where
  "example_admin_request = \<lparr>rq_meth = ''POST'', rq_header = [(''Origin'', [''http://localhost:8080''])],
     rq_host = ''localhost:8080'', rq_tls = False, rq_url_scheme = [], rq_remote_addr = ''[::1]:5000'', rq_network = ''tcp''\<rparr>"

theorem cross_site_requests_refused_witness:
  "mux_guard example_ip (NewGuardedMux False []) (SameOriginUnsafe example_ip example_parse (\<lambda>_. Served) [])
     example_admin_request = Served \<and> IsLoopbackRequest example_ip example_admin_request"
proof -
  have served: "mux_guard example_ip (NewGuardedMux False [])
      (SameOriginUnsafe example_ip example_parse (\<lambda>_. Served) []) example_admin_request = Served"
    by code_simp
  have "isUnsafeMethod (rq_meth example_admin_request)"
    "trim_space (header_get (rq_header example_admin_request) ''Origin'') \<noteq> []"
    by (code_simp, code_simp)
  from cross_site_requests_refused [OF served this] served show ?thesis by blast
qed

end
