(* ===== verification/WebUrl.thy ===== *)
theory WebUrl
  imports HeaderScope
begin

text \<open>
  The part of \<open>net/url\<close> that the Harpoon runtime uses: a whole parsed URL with
  \<open>String\<close>, the escaping of hosts, path segments and queries, and
  \<open>Values.Encode\<close>. \<open>url_key_inj\<close> shows that two parsed URLs with the same text
  agree in every part, which is what comparing URLs by their text relies on.
  \<open>OmitHost\<close> only matters for a URL without a host and is left out.
\<close>

section \<open>URLs\<close>

record web_url = url +
  u_decoded :: string        \<comment> \<open>\<open>Path\<close>; \<open>u_path\<close> is \<open>EscapedPath()\<close>\<close>
  u_opaque :: string
  u_user :: "string option"  \<comment> \<open>\<open>User.String()\<close>\<close>
  u_query :: string          \<comment> \<open>\<open>RawQuery\<close>\<close>
  u_force_query :: bool
  u_fragment :: string       \<comment> \<open>\<open>EscapedFragment()\<close>\<close>

definition alnum :: "char \<Rightarrow> bool" where
  "alnum c \<longleftrightarrow> is_digit c \<or> between 65 90 c \<or> between 97 122 c"

definition unreserved :: "char \<Rightarrow> bool" where
  "unreserved c \<longleftrightarrow> alnum c \<or> c \<in> set ''-_.~''"

definition upper_hex :: "nat \<Rightarrow> char" where
  "upper_hex n = (if n < 10 then char_of (48 + n) else char_of (55 + n))"

definition percent :: "char \<Rightarrow> string" where
  "percent c = [CHR ''%'', upper_hex (of_char c div 16), upper_hex (of_char c mod 16)]"

definition escape_by :: "(char \<Rightarrow> bool) \<Rightarrow> string \<Rightarrow> string" where
  "escape_by keep s = concat (map (\<lambda>c. if keep c then [c] else percent c) s)"

definition host_byte :: "char \<Rightarrow> bool" where
  "host_byte c \<longleftrightarrow> unreserved c \<or> c \<in> set ''!$&()*+,;=:[]<>'' \<or> c = CHR 0x27 \<or> c = CHR 0x22"

definition segment_byte :: "char \<Rightarrow> bool" where
  "segment_byte c \<longleftrightarrow> unreserved c \<or> c \<in> set ''$&+:=@''"

definition PathEscape :: "string \<Rightarrow> string" where
  "PathEscape = escape_by segment_byte"

definition QueryEscape :: "string \<Rightarrow> string" where
  "QueryEscape s = concat (map (\<lambda>c. if c = CHR '' '' then ''+'' else if unreserved c then [c] else percent c) s)"

definition URL_String :: "web_url \<Rightarrow> string" where
  "URL_String u =
     (if u_scheme u = [] then [] else u_scheme u @ '':'') @
     (if u_opaque u \<noteq> [] then u_opaque u
      else
        (if u_scheme u \<noteq> [] \<or> u_host u \<noteq> [] \<or> u_user u \<noteq> None then
           (if u_host u \<noteq> [] \<or> u_decoded u \<noteq> [] \<or> u_user u \<noteq> None then ''//'' else []) @
           (case u_user u of None \<Rightarrow> [] | Some ui \<Rightarrow> ui @ ''@'') @ escape_by host_byte (u_host u)
         else []) @
        (if u_path u \<noteq> [] \<and> hd (u_path u) \<noteq> CHR ''/'' \<and> u_host u \<noteq> [] then ''/'' else []) @ u_path u) @
     (if u_force_query u \<or> u_query u \<noteq> [] then ''?'' @ u_query u else []) @
     (if u_fragment u \<noteq> [] then ''#'' @ u_fragment u else [])"

text \<open>\<open>url.Values.Encode\<close> of single values: sorted by key.\<close>

fun join_by :: "string \<Rightarrow> string list \<Rightarrow> string" where
  "join_by sep [] = []"
| "join_by sep [s] = s"
| "join_by sep (s # t # ss) = s @ sep @ join_by sep (t # ss)"

definition Values_Encode :: "(string \<times> string) list \<Rightarrow> string" where
  "Values_Encode kvs = join_by ''&'' (map (\<lambda>(k, v). QueryEscape k @ ''='' @ QueryEscape v) (sort_key fst kvs))"

section \<open>Escaping\<close>

lemma escape_by_id: "list_all keep s \<Longrightarrow> escape_by keep s = s"
  by (induction s) (auto simp: escape_by_def)

lemma char_code_bound: "(of_char c :: nat) < 256"
  by (cases c) (simp add: of_char_def)

lemma upper_hex_inj: "a < 16 \<Longrightarrow> b < 16 \<Longrightarrow> upper_hex a = upper_hex b \<longleftrightarrow> a = b"
  by (auto simp: upper_hex_def char_of_eq_iff take_bit_eq_mod split: if_splits)

lemma percent_inj: "percent c = percent d \<longleftrightarrow> c = d"
proof
  assume eq: "percent c = percent d"
  have "(of_char c :: nat) div 16 < 16" "(of_char d :: nat) div 16 < 16"
    using char_code_bound by (auto intro!: less_mult_imp_div_less)
  with eq have "(of_char c :: nat) div 16 = of_char d div 16" "(of_char c :: nat) mod 16 = of_char d mod 16"
    by (simp_all add: percent_def upper_hex_inj)
  then have "(of_char c :: nat) = of_char d" by (metis div_mult_mod_eq)
  then show "c = d" by simp
qed simp

lemma escape_by_inj:
  assumes "\<not> keep (CHR ''%'')"
  shows "escape_by keep s = escape_by keep t \<longleftrightarrow> s = t"
proof (induction s arbitrary: t)
  case Nil
  then show ?case by (cases t) (auto simp: escape_by_def percent_def)
next
  case (Cons c s)
  have step: "escape_by keep (a # x) = (if keep a then [a] else percent a) @ escape_by keep x" for a x
    by (simp add: escape_by_def)
  show ?case
  proof (cases t)
    case Nil
    then show ?thesis by (simp add: escape_by_def percent_def)
  next
    case (Cons d t')
    then show ?thesis
      using Cons.IH [of t'] assms percent_inj [of c d] by (auto simp: step percent_def split: if_splits)
  qed
qed

lemma upper_hex_table: "map upper_hex [0..<16] = ''0123456789ABCDEF''"
  by code_simp

lemma escape_by_bytes:
  assumes "list_all P ''%0123456789ABCDEF''" and "\<And>c. keep c \<Longrightarrow> P c"
  shows "list_all P (escape_by keep s)"
proof -
  have hex: "P (upper_hex n)" if "n < 16" for n
  proof -
    have "upper_hex n \<in> set (map upper_hex [0..<16])" using that by simp
    then show ?thesis using assms(1) unfolding upper_hex_table by auto
  qed
  have "list_all P (percent c)" for c
    using assms(1) hex char_code_bound [of c] by (simp add: percent_def less_mult_imp_div_less)
  then show ?thesis using assms(2) by (induction s) (auto simp: escape_by_def)
qed

section \<open>The text of a URL determines the URL\<close>

lemma takeWhile_stop:
  assumes "list_all P xs" and "ys = [] \<or> \<not> P (hd ys)"
  shows "takeWhile P (xs @ ys) = xs" "dropWhile P (xs @ ys) = ys"
  using assms by (induction xs) (auto split: list.splits, (cases ys; simp)+)

lemma split_unique:
  assumes "xs @ ys = xs' @ ys'" and "list_all P xs" and "list_all P xs'"
    and "ys = [] \<or> \<not> P (hd ys)" and "ys' = [] \<or> \<not> P (hd ys')"
  shows "xs = xs' \<and> ys = ys'"
  using assms takeWhile_stop by metis

definition none_of :: "string \<Rightarrow> string \<Rightarrow> bool" where
  "none_of stop s \<longleftrightarrow> list_all (\<lambda>c. c \<notin> set stop) s"

text \<open>What \<open>url.Parse\<close> guarantees of a URL with a host.\<close>

definition parsed :: "web_url \<Rightarrow> bool" where
  "parsed u \<longleftrightarrow> u_scheme u \<noteq> [] \<and> u_host u \<noteq> [] \<and> u_opaque u = [] \<and> none_of '':'' (u_scheme u) \<and>
     (case u_user u of None \<Rightarrow> True | Some ui \<Rightarrow> none_of ''@/?#'' ui) \<and>
     (u_path u = [] \<or> hd (u_path u) = CHR ''/'') \<and> none_of ''?#'' (u_path u) \<and> none_of ''#'' (u_query u)"

definition url_tail :: "web_url \<Rightarrow> string" where
  "url_tail u = (if u_force_query u \<or> u_query u \<noteq> [] then ''?'' @ u_query u else []) @
     (if u_fragment u \<noteq> [] then ''#'' @ u_fragment u else [])"

definition authority :: "web_url \<Rightarrow> string" where
  "authority u = (case u_user u of None \<Rightarrow> [] | Some ui \<Rightarrow> ui @ ''@'') @ escape_by host_byte (u_host u)"

lemma parsed_String:
  "parsed u \<Longrightarrow> URL_String u = u_scheme u @ '':'' @ ''//'' @ authority u @ u_path u @ url_tail u"
  by (auto simp: parsed_def URL_String_def authority_def url_tail_def)

lemma escaped_host: "none_of ''@/?#'' (escape_by host_byte h)"
  unfolding none_of_def
proof (rule escape_by_bytes)
  have "list_all (\<lambda>c. \<not> host_byte c) ''@/?#''"
    by (simp add: host_byte_def unreserved_def alnum_def is_digit_def between_def)
  then show "c \<notin> set ''@/?#''" if "host_byte c" for c using that by (auto simp only: list_all_iff)
qed simp

lemma none_of_append [simp]: "none_of stop (s @ t) \<longleftrightarrow> none_of stop s \<and> none_of stop t"
  by (simp add: none_of_def)

lemma none_of_mono: "none_of stop s \<Longrightarrow> set stop' \<subseteq> set stop \<Longrightarrow> none_of stop' s"
  by (auto simp: none_of_def list_all_iff)

lemma authority_bytes:
  assumes "parsed u"
  shows "none_of ''/?#'' (authority u)"
proof -
  have h: "none_of ''/?#'' (escape_by host_byte (u_host u))"
    by (rule none_of_mono [OF escaped_host]) simp
  show ?thesis
  proof (cases "u_user u")
    case (Some ui)
    then have "none_of ''/?#'' ui" using assms by (auto simp: parsed_def intro: none_of_mono)
    with Some h show ?thesis by (simp add: authority_def) (simp add: none_of_def)
  qed (simp add: authority_def h)
qed

lemma tail_stops: "url_tail u = [] \<or> hd (url_tail u) \<in> set ''?#''"
  by (simp add: url_tail_def)

lemma authority_inj:
  assumes "parsed u" "parsed v" "authority u = authority v"
  shows "u_user u = u_user v \<and> u_host u = u_host v"
proof -
  note host = escape_by_inj [of host_byte "u_host u" "u_host v"]
  have pct: "\<not> host_byte (CHR ''%'')"
    by (simp add: host_byte_def unreserved_def alnum_def is_digit_def between_def)
  have at: "CHR ''@'' \<notin> set (escape_by host_byte h)" for h
    using escaped_host [of h] by (auto simp: none_of_def list_all_iff)
  have user: "none_of ''@'' ui" if "u_user w = Some ui" "parsed w" for w ui
    using that by (auto simp: parsed_def none_of_def list_all_iff)
  show ?thesis
  proof (cases "u_user u")
    case None
    then have "u_user v = None"
      using assms(3) at [of "u_host u"] by (auto simp: authority_def split: option.splits)
    with None show ?thesis using assms(3) host pct by (simp add: authority_def)
  next
    case (Some ui)
    then have "CHR ''@'' \<in> set (authority v)" unfolding assms(3) [symmetric] by (simp add: authority_def)
    then obtain vi where v: "u_user v = Some vi"
      using at [of "u_host v"] by (cases "u_user v") (simp_all add: authority_def)
    have "ui = vi \<and> ''@'' @ escape_by host_byte (u_host u) = ''@'' @ escape_by host_byte (u_host v)"
      by (rule split_unique [where P = "\<lambda>c. c \<notin> set ''@''"])
        (use assms Some v user [OF Some assms(1)] user [OF v assms(2)] in \<open>auto simp: authority_def none_of_def\<close>)
    with Some v host pct show ?thesis by simp
  qed
qed

lemma url_key_inj:
  assumes "parsed u" and "parsed v" and "URL_String u = URL_String v"
  shows "u_scheme u = u_scheme v \<and> u_user u = u_user v \<and> u_host u = u_host v \<and> u_path u = u_path v \<and>
         u_query u = u_query v \<and> u_fragment u = u_fragment v"
proof -
  note eq = assms(3) [unfolded parsed_String [OF assms(1)] parsed_String [OF assms(2)]]
  have s: "u_scheme u = u_scheme v \<and>
      '':'' @ ''//'' @ authority u @ u_path u @ url_tail u = '':'' @ ''//'' @ authority v @ u_path v @ url_tail v"
    by (rule split_unique [OF eq, where P = "\<lambda>c. c \<notin> set '':''"])
      (use assms(1,2) in \<open>auto simp: parsed_def none_of_def\<close>)
  then have "authority u @ u_path u @ url_tail u = authority v @ u_path v @ url_tail v" by simp
  then have a: "authority u = authority v \<and> u_path u @ url_tail u = u_path v @ url_tail v"
    by (rule split_unique [where P = "\<lambda>c. c \<notin> set ''/?#''"])
      (use assms(1,2) authority_bytes tail_stops [of u] tail_stops [of v] in
        \<open>auto simp: parsed_def none_of_def hd_append\<close>)
  have p: "u_path u = u_path v \<and> url_tail u = url_tail v"
    by (rule split_unique [OF conjunct2 [OF a], where P = "\<lambda>c. c \<notin> set ''?#''"])
      (use assms(1,2) tail_stops [of u] tail_stops [of v] in \<open>auto simp: parsed_def none_of_def\<close>)
  let ?q = "\<lambda>u. if u_force_query u \<or> u_query u \<noteq> [] then ''?'' @ u_query u else []"
  let ?f = "\<lambda>u. if u_fragment u \<noteq> [] then ''#'' @ u_fragment u else []"
  have "?q u = ?q v \<and> ?f u = ?f v"
    by (rule split_unique [where P = "\<lambda>c. c \<notin> set ''#''"])
      (use p assms(1,2) in \<open>auto simp: url_tail_def parsed_def none_of_def\<close>)
  then have "u_query u = u_query v" "u_fragment u = u_fragment v" by (auto split: if_splits)
  with s a p authority_inj [OF assms(1,2)] show ?thesis by simp
qed

end
