(* ===== verification/OutboundHeaders.thy ===== *)
theory OutboundHeaders
  imports HeaderScope
begin

text \<open>
  The header policy of outbound Harpoon calls (\<open>pkg/runtimeharpoon/server.go\<close>):
  which header names are blocked, what a caller's headers become on the way out,
  and the coarse classification of a dropped name that may be logged. The caller's
  headers are an association list in the order the Go map happens to be iterated.
\<close>

section \<open>Names\<close>

definition blockedOutboundHeaders :: "string list" where
  "blockedOutboundHeaders =
     [''accept-encoding'', ''cf-connecting-ip'', ''connection'', ''content-length'', ''cookie'', ''forwarded'',
      ''host'', ''keep-alive'', ''proxy-authenticate'', ''proxy-authorization'', ''proxy-connection'', ''te'',
      ''trailer'', ''transfer-encoding'', ''true-client-ip'', ''upgrade'', ''user-agent'', ''via'', ''x-client-ip'',
      ''x-cluster-client-ip'', ''x-custom-cf-witness-actor'', ''x-custom-cf-witness-authorization'',
      ''x-envoy-external-address'', ''x-forwarded-for'', ''x-forwarded-host'', ''x-forwarded-port'',
      ''x-forwarded-proto'', ''x-http-method'', ''x-http-method-override'', ''x-method-override'',
      ''x-openai-actor-authorization'', ''x-openai-authorization'', ''x-openai-authorization-error'',
      ''x-openai-internal-caller'', ''x-openai-skip-auth'', ''x-original-forwarded-for'', ''x-real-ip'',
      ''x-tunnel-traffic-source'']"

definition isBlockedOutboundHeader :: "string \<Rightarrow> bool" where
  "isBlockedOutboundHeader headerName =
     (let normalized = to_lower (trim_space headerName)
      in normalized = [] \<or> normalized \<in> set blockedOutboundHeaders)"

definition replace_char :: "char \<Rightarrow> char \<Rightarrow> string \<Rightarrow> string" where
  "replace_char a b = map (\<lambda>c. if c = a then b else c)"

definition isSensitiveHeaderName :: "string \<Rightarrow> bool" where
  "isSensitiveHeaderName headerName =
     list_ex (\<lambda>token. token \<in> {''authorization'', ''cookie'', ''key'', ''secret'', ''token'', ''password''})
       (split_on (CHR ''_'') (replace_char (CHR ''.'') (CHR ''_'') (replace_char (CHR ''-'') (CHR ''_'') (to_lower headerName))))"

definition classifyDroppedHeaderName :: "string \<Rightarrow> string" where
  "classifyDroppedHeaderName headerName =
     (let normalized = to_lower (trim_space headerName) in
      if normalized = [] then ''empty''
      else if isSensitiveHeaderName normalized then ''sensitive-name''
      else if normalized = ''user-agent'' then ''user-agent''
      else if has_prefix ''x-'' normalized then ''custom''
      else ''not-forwardable'')"

section \<open>Filtering\<close>

type_synonym caller_headers = "(string \<times> string) list"

definition connection_nominated :: "caller_headers \<Rightarrow> string list" where
  "connection_nominated headers =
     concat (map (\<lambda>(key, value).
       if equal_fold (trim_space key) ''connection''
       then filter (\<lambda>p. p \<noteq> []) (map (\<lambda>p. to_lower (trim_space p)) (split_on (CHR '','') value))
       else []) headers)"

definition drops :: "string list \<Rightarrow> string \<Rightarrow> bool" where
  "drops nominated key \<longleftrightarrow>
     isBlockedOutboundHeader (canonical_header_key (trim_space key)) \<or> to_lower (trim_space key) \<in> set nominated"

text \<open>The header to send, how many were dropped, and the classifications of those.\<close>

definition filterOutboundHeaders :: "caller_headers \<Rightarrow> header \<times> nat \<times> string list" where
  "filterOutboundHeaders headers =
     (let nominated = connection_nominated headers;
          named = filter (\<lambda>(key, _). trim_space key \<noteq> []) headers;
          dropped = filter (\<lambda>(key, _). drops nominated key) named;
          kept = filter (\<lambda>(key, _). \<not> drops nominated key) named
      in (foldl (\<lambda>h (key, value). header_set h (canonical_header_key (trim_space key)) value) [] kept,
          length dropped,
          remdups_adj (sort (map (\<lambda>(key, _). classifyDroppedHeaderName (canonical_header_key (trim_space key))) dropped))))"

section \<open>What may leave\<close>

lemma blocked_lower: "isBlockedOutboundHeader k \<longleftrightarrow> trim_space (to_lower k) \<in> set ([] # blockedOutboundHeaders)"
  by (simp add: isBlockedOutboundHeader_def Let_def trim_space_to_lower)

definition may_leave :: "caller_headers \<Rightarrow> string \<Rightarrow> string list \<Rightarrow> bool" where
  "may_leave headers k vs \<longleftrightarrow> \<not> isBlockedOutboundHeader k \<and>
     to_lower k \<notin> set (connection_nominated headers) \<and>
     (\<exists>(key, v) \<in> set headers. vs = [v] \<and> to_lower k = to_lower (trim_space key))"

lemma kept_may_leave:
  assumes "(key, v) \<in> set headers" and "\<not> drops (connection_nominated headers) key"
  shows "may_leave headers (canonical_header_key (canonical_header_key (trim_space key))) [v]"
proof -
  have "to_lower (canonical_header_key (canonical_header_key (trim_space key))) = to_lower (trim_space key)"
    by (simp add: text_simps)
  moreover have "\<not> isBlockedOutboundHeader (canonical_header_key (canonical_header_key (trim_space key)))"
    using assms(2) by (simp add: drops_def blocked_lower text_simps)
  ultimately show ?thesis using assms by (auto simp: may_leave_def drops_def)
qed

lemma filtered_may_leave:
  "list_all (\<lambda>(k, vs). may_leave headers k vs) (fst (filterOutboundHeaders headers))"
proof -
  have "list_all (\<lambda>(k, vs). may_leave headers k vs)
      (foldl (\<lambda>h (key, v). header_set h (canonical_header_key (trim_space key)) v) h kvs)"
    if "list_all (\<lambda>(key, v). (key, v) \<in> set headers \<and> \<not> drops (connection_nominated headers) key) kvs"
      "list_all (\<lambda>(k, vs). may_leave headers k vs) h" for kvs h
    using that
  proof (induction kvs arbitrary: h)
    case (Cons kv kvs)
    obtain key v where kv: "kv = (key, v)" by (cases kv)
    have "list_all (\<lambda>(k, vs). may_leave headers k vs) (header_set h (canonical_header_key (trim_space key)) v)"
      using Cons.prems kv by (auto simp: header_set_def header_del_def list_all_iff kept_may_leave)
    with Cons kv show ?case by simp
  qed simp
  from this [of "filter (\<lambda>(key, _). \<not> drops (connection_nominated headers) key)
      (filter (\<lambda>(key, _). trim_space key \<noteq> []) headers)" "[]"]
  show ?thesis unfolding filterOutboundHeaders_def Let_def by (auto simp: list_all_iff)
qed

end
