(* ===== verification/TemplatePolicy.thy ===== *)
theory TemplatePolicy
  imports WebUrl OutboundHeaders
begin

text \<open>
  The constraints that an operator puts on a Harpoon target template
  (\<open>pkg/runtimeharpoon/template.go\<close>, \<open>template_body.go\<close>, \<open>header_rules.go\<close>):
  checks of text and of portable patterns, identifiers in URLs, request bodies,
  and caller headers. Each constraint is compiled once and validated per call.
  \<open>regexp.Compile\<close> with \<open>MatchString\<close> is the parameter \<open>re\<close>, which gives for a
  pattern the strings it matches, or nothing for a pattern it refuses.
\<close>

section \<open>Text\<close>

type_synonym regexps = "string \<Rightarrow> (string \<Rightarrow> bool) option"

abbreviation maxTemplateValueBytes :: nat where "maxTemplateValueBytes \<equiv> 256"
abbreviation maxTemplateURLBytes :: nat where "maxTemplateURLBytes \<equiv> 4096"
abbreviation maxTemplateEnumValues :: nat where "maxTemplateEnumValues \<equiv> 64"
abbreviation maxTemplatePattern :: nat where "maxTemplatePattern \<equiv> 512"
abbreviation maxTemplateHeaders :: nat where "maxTemplateHeaders \<equiv> 32"
abbreviation maxTemplateHeaderBytes :: nat where "maxTemplateHeaderBytes \<equiv> 8192"
abbreviation maxTemplateDescription :: nat where "maxTemplateDescription \<equiv> 1024"
abbreviation maxTemplateExamples :: nat where "maxTemplateExamples \<equiv> 8"
abbreviation maxTemplateBodyBytes :: nat where "maxTemplateBodyBytes \<equiv> 100 * 1024"

definition fails :: "string \<Rightarrow> goerr" where
  "fails text = [ErrText text]"

definition validTemplateText :: "string \<Rightarrow> bool" where
  "validTemplateText s \<longleftrightarrow> utf8_valid s \<and> list_all (\<lambda>c. 32 \<le> (of_char c :: nat) \<and> of_char c \<noteq> (127 :: nat)) s"

definition validTemplateIdentifier :: "string \<Rightarrow> bool" where
  "validTemplateIdentifier s \<longleftrightarrow> s \<noteq> [] \<and> s \<noteq> ''.'' \<and> s \<noteq> ''..'' \<and> list_all unreserved s"

definition validTemplateHeaderValue :: "string \<Rightarrow> bool" where
  "validTemplateHeaderValue s \<longleftrightarrow> length s \<le> maxTemplateHeaderBytes \<and> validTemplateText s"

fun contains :: "string \<Rightarrow> string \<Rightarrow> bool" where
  "contains p [] \<longleftrightarrow> p = []"
| "contains p (c # s) \<longleftrightarrow> has_prefix p (c # s) \<or> contains p s"

text \<open>\<open>utf8.RuneCountInString\<close> of valid text: the bytes that are not continuations.\<close>

definition rune_count :: "string \<Rightarrow> nat" where
  "rune_count s = length (filter (\<lambda>c. \<not> between 128 191 c) s)"

definition printable_ascii :: "char \<Rightarrow> bool" where
  "printable_ascii = between 32 126"

text \<open>
  Values checked one after the other: the first that is refused, or that repeats
  an earlier one, decides the error. The sizes add up to at most the budget.
\<close>

fun check_values ::
    "nat \<Rightarrow> (string \<Rightarrow> bool) \<Rightarrow> goerr \<Rightarrow> goerr \<Rightarrow> (string \<Rightarrow> string) \<Rightarrow> string list \<Rightarrow> string list \<Rightarrow> goerr" where
  "check_values budget ok bad dup key seen [] = nil_err"
| "check_values budget ok bad dup key seen (v # vs) =
     (if length v > budget \<or> \<not> ok v then bad
      else if key v \<in> set seen then dup
      else check_values (budget - length v) ok bad dup key (key v # seen) vs)"

section \<open>Patterns\<close>

fun validateTemplatePattern :: "string \<Rightarrow> goerr" where
  "validateTemplatePattern [] = nil_err"
| "validateTemplatePattern (c # s) =
     (if \<not> printable_ascii c then fails ''parameter pattern must contain only printable ASCII''
      else if c = CHR 0x5C then
        (case s of
           [] \<Rightarrow> fails ''parameter pattern uses an unsupported escape''
         | e # r \<Rightarrow>
             if e \<notin> set ''dDsSwW.^$|?*+()[]{}/-'' \<and> e \<noteq> CHR 0x5C
             then fails ''parameter pattern uses an unsupported escape''
             else validateTemplatePattern r)
      else if c = CHR ''('' \<and> has_prefix ''?'' s \<and> \<not> has_prefix ''?:'' s
      then fails ''parameter pattern uses unsupported group syntax''
      else if has_prefix ''[[:'' (c # s) then fails ''parameter pattern cannot use POSIX character classes''
      else if has_prefix ''[]'' (c # s) \<or> has_prefix ''[^]'' (c # s)
      then fails ''parameter pattern must escape an initial closing bracket in a character class''
      else validateTemplatePattern s)"

text \<open>The bounds of a repetition, after its opening brace; the rest after the closing one.\<close>

definition repetition :: "string \<Rightarrow> goerr + string" where
  "repetition s =
     (let lo = takeWhile is_digit s; r = dropWhile is_digit s in
      if lo = [] \<or> (length lo > 1 \<and> hd lo = CHR ''0'')
      then Inl (fails ''body patterns must escape literal opening braces'')
      else
        (let (hi, r) = (if has_prefix '','' r then (takeWhile is_digit (tl r), dropWhile is_digit (tl r)) else ([], r)) in
         if length hi > 1 \<and> hd hi = CHR ''0''
         then Inl (fails ''body patterns cannot use leading zeros in repetition bounds'')
         else case r of
           [] \<Rightarrow> Inl (fails ''body patterns require valid repetition bounds'')
         | c # t \<Rightarrow> if c = CHR ''}'' then Inr t else Inl (fails ''body patterns require valid repetition bounds'')))"

lemma repetition_length: "repetition s = Inr t \<Longrightarrow> length t < length s"
proof -
  assume "repetition s = Inr t"
  moreover have "length (dropWhile is_digit u) \<le> length u" for u by (rule length_dropWhile_le)
  ultimately show ?thesis
    by (auto simp: repetition_def Let_def split: if_splits list.splits prod.splits)
      (metis (no_types, lifting) Suc_le_lessD le_trans length_Cons length_tl diff_le_self)+
qed

function body_pattern :: "bool \<Rightarrow> string \<Rightarrow> goerr" where
  "body_pattern inClass [] = nil_err"
| "body_pattern inClass (c # s) =
     (if c = CHR 0x5C then
        (case s of
           [] \<Rightarrow> nil_err
         | e # r \<Rightarrow>
             if e \<in> set ''dDsSwW'' \<or> (e = CHR ''-'' \<and> \<not> inClass)
             then fails ''body patterns require explicit ASCII classes and escaped syntax punctuation''
             else body_pattern inClass r)
      else if c = CHR ''['' then
        (if inClass \<or> has_prefix ''^'' s then fails ''body patterns cannot use nested or negated classes''
         else body_pattern True s)
      else if c = CHR '']'' then
        (if \<not> inClass then fails ''body patterns must escape literal closing brackets'' else body_pattern False s)
      else if c = CHR ''.'' \<and> \<not> inClass then fails ''body patterns cannot use wildcard dots''
      else if (c = CHR ''^'' \<or> c = CHR ''$'') \<and> \<not> inClass \<and> s \<noteq> [] \<and> hd s \<in> set ''*+?{''
      then fails ''body patterns cannot quantify anchors directly''
      else if c = CHR ''{'' \<and> \<not> inClass then
        (case repetition s of Inl err \<Rightarrow> err | Inr r \<Rightarrow> body_pattern inClass r)
      else if c = CHR ''}'' \<and> \<not> inClass then fails ''body patterns must escape literal closing braces''
      else body_pattern inClass s)"
  by pat_completeness auto
termination
  by (relation "measure (\<lambda>(_, s). length s)") (auto dest!: repetition_length)

definition validateTemplateBodyPattern :: "string \<Rightarrow> goerr" where
  "validateTemplateBodyPattern pattern =
     (case validateTemplatePattern pattern of [] \<Rightarrow> body_pattern False pattern | err \<Rightarrow> err)"

text \<open>A pattern is compiled to match whole strings.\<close>

definition whole :: "string \<Rightarrow> string" where
  "whole pattern = [CHR 0x5C] @ ''A(?:'' @ pattern @ '')'' @ [CHR 0x5C] @ ''z''"

section \<open>Parameters\<close>

record template_parameter =
  tp_type :: string
  tp_required :: bool
  tp_description :: string
  tp_examples :: "string list"
  tp_pattern :: string
  tp_enum :: "string list"
  tp_min :: int
  tp_max :: int
  tp_reserved :: "string list"

record compiled_parameter =
  cp_schema :: template_parameter
  cp_pattern :: "(string \<Rightarrow> bool) option"

definition param_validate :: "compiled_parameter \<Rightarrow> string \<Rightarrow> goerr" where
  "param_validate p s =
     (let schema = cp_schema p in
      if int (length s) < tp_min schema \<or> int (length s) > tp_max schema
      then fails ''identifier length is outside its bounds''
      else if \<not> validTemplateIdentifier s
      then fails ''identifier contains forbidden characters or path segments''
      else if list_ex (equal_fold s) (tp_reserved schema) then fails ''identifier is reserved''
      else if (case cp_pattern p of None \<Rightarrow> False | Some m \<Rightarrow> \<not> m s)
      then fails ''identifier does not match its pattern''
      else if tp_enum schema \<noteq> [] \<and> s \<notin> set (tp_enum schema) then fails ''identifier is outside its enum''
      else nil_err)"

definition no_budget :: "string list \<Rightarrow> nat" where
  "no_budget vs = sum_list (map length vs)"

definition compileTemplateParameter :: "regexps \<Rightarrow> template_parameter \<Rightarrow> goerr + compiled_parameter" where
  "compileTemplateParameter re schema =
     (if tp_type schema \<noteq> ''string'' \<or> \<not> tp_required schema
      then Inl (fails ''only required string parameters are supported'')
      else if length (tp_description schema) > maxTemplateDescription \<or> \<not> utf8_valid (tp_description schema)
      then Inl (fails ''parameter description must be valid UTF-8 within 1024 bytes'')
      else if length (tp_examples schema) > maxTemplateExamples
      then Inl (fails ''parameter examples exceed size limit'')
      else
        (let schema = (if tp_min schema = 0 then schema\<lparr>tp_min := 1\<rparr> else schema) in
         if tp_min schema < 1 \<or> tp_max schema < tp_min schema \<or> tp_max schema > int maxTemplateValueBytes
         then Inl (fails ''length bounds must be within 1 to 256'')
         else if tp_pattern schema = [] \<and> tp_enum schema = []
         then Inl (fails ''a pattern or enum is required'')
         else if length (tp_pattern schema) > maxTemplatePattern \<or> length (tp_enum schema) > maxTemplateEnumValues \<or>
           length (tp_reserved schema) > maxTemplateEnumValues
         then Inl (fails ''parameter constraints exceed size limits'')
         else if tp_pattern schema \<noteq> [] \<and> validateTemplatePattern (tp_pattern schema) \<noteq> nil_err
         then Inl (validateTemplatePattern (tp_pattern schema))
         else if tp_pattern schema \<noteq> [] \<and> re (whole (tp_pattern schema)) = None
         then Inl (fails ''invalid parameter pattern'')
         else
           (let p = \<lparr>cp_schema = schema,
                     cp_pattern = (if tp_pattern schema = [] then None else re (whole (tp_pattern schema)))\<rparr>;
                err1 = check_values (no_budget (tp_reserved schema))
                  (\<lambda>v. length v \<le> maxTemplateValueBytes \<and> validTemplateIdentifier v)
                  (fails ''invalid reserved identifier'') (fails ''duplicate reserved identifier'') to_lower []
                  (tp_reserved schema);
                err2 = check_values (no_budget (tp_enum schema)) (\<lambda>v. param_validate p v = nil_err)
                  (fails ''enum value violates parameter constraints'') (fails ''duplicate enum identifier'') (\<lambda>v. v) []
                  (tp_enum schema);
                err3 = check_values (no_budget (tp_examples schema)) (\<lambda>v. param_validate p v = nil_err)
                  (fails ''example value violates parameter constraints'') (fails ''duplicate example identifier'')
                  (\<lambda>v. v) [] (tp_examples schema)
            in if err1 \<noteq> nil_err then Inl err1
               else if err2 \<noteq> nil_err then Inl err2
               else if err3 \<noteq> nil_err then Inl err3
               else Inr p)))"

section \<open>Bodies\<close>

record body_validation =
  bv_json :: bool
  bv_pattern :: string
  bv_enum :: "string list"

record body_policy =
  bp_content_types :: "string list"
  bp_max_bytes :: int
  bp_required :: "bool option"
  bp_validation :: "body_validation option"

record compiled_body =
  cb_content_types :: "string list"
  cb_max_bytes :: int
  cb_required :: bool
  cb_validation :: body_validation
  cb_pattern :: "(string \<Rightarrow> bool) option"

text \<open>
  Escaped UTF-16 in the strings of a JSON text: what \<open>encoding/json\<close> would
  replace is refused.
\<close>

function json_strings :: "bool \<Rightarrow> string \<Rightarrow> bool" where
  "json_strings quoted [] = True"
| "json_strings quoted (c # s) =
     (if c = CHR 0x22 then json_strings (\<not> quoted) s
      else if \<not> quoted \<or> c \<noteq> CHR 0x5C then json_strings quoted s
      else case s of
        [] \<Rightarrow> False
      | e # r \<Rightarrow>
          if e \<noteq> CHR ''u'' then json_strings quoted r
          else case hex4 r of
            None \<Rightarrow> False
          | Some (v, q) \<Rightarrow>
              if 56320 \<le> v \<and> v \<le> 57343 then False
              else if v < 55296 \<or> 56319 < v then json_strings quoted q
              else if take 2 q \<noteq> [CHR 0x5C, CHR ''u''] then False
              else case hex4 (drop 2 q) of
                None \<Rightarrow> False
              | Some (low, t) \<Rightarrow> 56320 \<le> low \<and> low \<le> 57343 \<and> json_strings quoted t)"
  by pat_completeness auto
termination
  by (relation "measure (\<lambda>(_, s). length s)") (auto dest!: hex4_length)

definition validTemplateJSONStrings :: "string \<Rightarrow> bool" where
  "validTemplateJSONStrings raw \<longleftrightarrow> utf8_valid raw \<and> json_strings False raw"

definition body_validate :: "compiled_body option \<Rightarrow> string option \<Rightarrow> string option \<Rightarrow> goerr" where
  "body_validate policy body contentType = (case policy of
     None \<Rightarrow>
       if body \<noteq> None \<or> contentType \<noteq> None
       then fails ''template GET requests cannot contain body or content_type arguments'' else nil_err
   | Some p \<Rightarrow>
       (case (body, contentType) of
          (None, None) \<Rightarrow>
            if \<not> cb_required p then nil_err else fails ''template body and content_type must be supplied together''
        | (Some b, Some ct) \<Rightarrow>
            if ct \<notin> set (cb_content_types p) then fails ''template content type is not permitted''
            else if int (length b) > cb_max_bytes p \<or> (cb_required p \<and> b = []) \<or> \<not> utf8_valid b
            then fails ''template body violates its byte limit or required-body policy''
            else if bv_json (cb_validation p) \<and> (json_parse b = None \<or> \<not> validTemplateJSONStrings b)
            then fails ''template body must be valid JSON''
            else if (case cb_pattern p of None \<Rightarrow> False | Some m \<Rightarrow> \<not> m b)
            then fails ''template body does not match its pattern''
            else if bv_enum (cb_validation p) \<noteq> [] \<and> b \<notin> set (bv_enum (cb_validation p))
            then fails ''template body is outside its enum''
            else nil_err
        | _ \<Rightarrow> fails ''template body and content_type must be supplied together''))"

text \<open>
  \<open>mime.ParseMediaType\<close> is the parameter \<open>media\<close>: the media type and the number
  of its parameters.
\<close>

fun check_content_types ::
    "(string \<Rightarrow> (string \<times> nat) option) \<Rightarrow> bool \<Rightarrow> string list \<Rightarrow> string list \<Rightarrow> goerr" where
  "check_content_types media isJSON seen [] = nil_err"
| "check_content_types media isJSON seen (ct # cts) =
     (if media ct \<noteq> Some (ct, 0) \<or> CHR ''*'' \<in> set ct \<or> length ct > 128 \<or> CHR ''/'' \<notin> set ct
      then fails ''template content types must be canonical media types without parameters or wildcards''
      else if (ct = ''application/json'' \<or> has_suffix ''+json'' ct) \<and> \<not> isJSON
      then fails ''JSON content types require JSON body validation''
      else if ct \<in> set seen then fails ''duplicate template content type''
      else check_content_types media isJSON (ct # seen) cts)"

definition compileTemplateBodyPolicy ::
    "regexps \<Rightarrow> (string \<Rightarrow> (string \<times> nat) option) \<Rightarrow> string \<Rightarrow> body_policy option \<Rightarrow> goerr + compiled_body option" where
  "compileTemplateBodyPolicy re media httpMethod cfg =
     (if httpMethod = ''GET''
      then (if cfg \<noteq> None then Inl (fails ''template GET cannot configure a body policy'') else Inr None)
      else case map_option (\<lambda>c. (bp_content_types c, bp_max_bytes c, bp_required c, bp_validation c)) cfg of
        Some (cts, maxBytes, Some required, Some v) \<Rightarrow>
          if maxBytes \<le> 0 \<or> maxBytes > int maxTemplateBodyBytes
          then Inl (fails ''template body byte limit must be within 1 to 102400'')
          else if cts = [] \<or> length cts > 16
          then Inl (fails ''template body policy must allow 1 to 16 content types'')
          else if \<not> bv_json v \<and> bv_pattern v = [] \<and> bv_enum v = []
          then Inl (fails ''template body policy requires JSON, pattern, or enum validation'')
          else if length (bv_pattern v) > maxTemplatePattern \<or> length (bv_enum v) > maxTemplateEnumValues
          then Inl (fails ''template body validation exceeds size limits'')
          else if check_content_types media (bv_json v) [] cts \<noteq> nil_err
          then Inl (check_content_types media (bv_json v) [] cts)
          else if bv_pattern v \<noteq> [] \<and> validateTemplateBodyPattern (bv_pattern v) \<noteq> nil_err
          then Inl (fails ''unsupported template body pattern'')
          else if bv_pattern v \<noteq> [] \<and> re (whole (bv_pattern v)) = None
          then Inl (fails ''invalid template body pattern'')
          else
            (let p = \<lparr>cb_content_types = cts, cb_max_bytes = maxBytes, cb_required = required, cb_validation = v,
                      cb_pattern = (if bv_pattern v = [] then None else re (whole (bv_pattern v)))\<rparr>;
                 err = check_values maxTemplateBodyBytes
                   (\<lambda>b. body_validate (Some p) (Some b) (Some (hd cts)) = nil_err)
                   (fails ''template body enum violates body policy or size limits'')
                   (fails ''duplicate template body enum value'') (\<lambda>b. b) [] (bv_enum v)
             in if err \<noteq> nil_err then Inl err else Inr (Some p))
      | _ \<Rightarrow> Inl (fails ''template writes require an explicit body policy, required setting, and validation''))"

section \<open>Header rules\<close>

record header_validation =
  hv_pattern :: string
  hv_enum :: "string list option"
  hv_min :: "int option"
  hv_max :: "int option"

record header_rule =
  hr_name :: string
  hr_description :: string
  hr_required :: bool
  hr_credential :: bool
  hr_forward_as :: string
  hr_validation :: "header_validation option"
  hr_legacy :: bool

record compiled_rule =
  cr_schema :: header_rule
  cr_pattern :: "(string \<Rightarrow> bool) option"

definition canonicalTemplateHeader :: "string \<Rightarrow> goerr + string" where
  "canonicalTemplateHeader key =
     (if key = [] \<or> length key > 128 \<or> \<not> list_all header_name_byte key \<or> isBlockedOutboundHeader key
      then Inl (fails ''invalid or forbidden template header name'')
      else
        (let lower = to_lower key in
         if list_ex (\<lambda>p. has_prefix p lower)
              [''x-forwarded-'', ''x-envoy-'', ''x-original-'', ''x-rewrite-'', ''x-auth-request-''] \<or>
            lower \<in> {''remote-user'', ''x-remote-user'', ''x-authenticated-user''}
         then Inl (fails ''routing and identity headers are forbidden for templates'')
         else Inr (canonical_header_key key)))"

definition isReservedRichTemplateHeader :: "string \<Rightarrow> bool" where
  "isReservedRichTemplateHeader name =
     list_ex (\<lambda>p. has_prefix p (to_lower name)) [''proxy-'', ''mcp-'', ''x-mcp-'', ''x-tunnel-'', ''x-openai-'']"

definition supportedTemplateCredentialHeader :: "string \<Rightarrow> bool" where
  "supportedTemplateCredentialHeader name \<longleftrightarrow> to_lower name \<in> {''authorization'', ''x-api-key'', ''api-key''}"

definition isTemplateCredentialHeader :: "string \<Rightarrow> bool" where
  "isTemplateCredentialHeader key \<longleftrightarrow> isSensitiveHeaderName key \<or>
     list_ex (\<lambda>credential. contains credential (filter (\<lambda>c. c \<notin> set ''-_.'') (to_lower key)))
       [''apikey'', ''apitoken'', ''apisecret'', ''authtoken'', ''accesstoken'', ''refreshtoken'', ''idtoken'',
        ''sessiontoken'', ''bearertoken'', ''clientsecret'', ''clientpassword'', ''clienttoken'', ''clientkey'',
        ''accesskey'', ''secretkey'', ''sessionkey'', ''privatekey'', ''authkey'', ''authsecret'', ''signingkey'',
        ''authorization'', ''authentication'', ''credential'']"

definition rule_validate :: "compiled_rule \<Rightarrow> string \<Rightarrow> goerr" where
  "rule_validate r s =
     (if \<not> validTemplateHeaderValue s then fails ''invalid caller header value''
      else case hr_validation (cr_schema r) of
        None \<Rightarrow> nil_err
      | Some v \<Rightarrow>
          if (case hv_min v of None \<Rightarrow> False | Some m \<Rightarrow> int (rune_count s) < m) \<or>
             (case hv_max v of None \<Rightarrow> False | Some m \<Rightarrow> int (rune_count s) > m)
          then fails ''caller header length is outside its bounds''
          else if cr_pattern r \<noteq> None \<and> \<not> list_all printable_ascii s
          then fails ''caller header pattern requires printable ASCII''
          else if (case cr_pattern r of None \<Rightarrow> False | Some m \<Rightarrow> \<not> m s)
          then fails ''caller header does not match its pattern''
          else if (case hv_enum v of None \<Rightarrow> False | Some vs \<Rightarrow> vs \<noteq> [] \<and> s \<notin> set vs)
          then fails ''caller header is outside its enum''
          else nil_err)"

definition compileTemplateHeaderValidation :: "regexps \<Rightarrow> header_rule \<Rightarrow> goerr + compiled_rule" where
  "compileTemplateHeaderValidation re rule =
     (let credential_err =
        (if \<not> hr_credential rule then nil_err
         else case hr_validation rule of
           None \<Rightarrow> fails ''template credential rules require positive length bounds and a pattern''
         | Some v \<Rightarrow>
             if hv_enum v \<noteq> None then fails ''template credential rules cannot configure enum values''
             else case (hv_min v, hv_max v) of
               (Some lo, Some hi) \<Rightarrow>
                 if lo \<le> 0 \<or> hi \<le> 0 \<or> hv_pattern v = []
                 then fails ''template credential rules require positive length bounds and a pattern'' else nil_err
             | _ \<Rightarrow> fails ''template credential rules require positive length bounds and a pattern'')
      in
      if credential_err \<noteq> nil_err then Inl credential_err
      else case hr_validation rule of
        None \<Rightarrow> Inr \<lparr>cr_schema = rule, cr_pattern = None\<rparr>
      | Some v \<Rightarrow>
          if hv_enum v = Some [] then Inl (fails ''template header enum must not be empty'')
          else
            (let lo = (case hv_min v of None \<Rightarrow> 0 | Some m \<Rightarrow> m);
                 hi = (case hv_max v of None \<Rightarrow> int maxTemplateHeaderBytes | Some m \<Rightarrow> m);
                 enum = (case hv_enum v of None \<Rightarrow> [] | Some vs \<Rightarrow> vs) in
             if lo < 0 \<or> hi < lo \<or> hi > int maxTemplateHeaderBytes
             then Inl (fails ''template header length bounds must be within 0 to 8192'')
             else if length (hv_pattern v) > maxTemplatePattern \<or> length enum > maxTemplateEnumValues
             then Inl (fails ''template header constraints exceed size limits'')
             else if hv_pattern v \<noteq> [] \<and> validateTemplateBodyPattern (hv_pattern v) \<noteq> nil_err
             then Inl (fails ''unsupported template header pattern'')
             else if hv_pattern v \<noteq> [] \<and> re (whole (hv_pattern v)) = None
             then Inl (fails ''invalid template header pattern'')
             else
               (let r = \<lparr>cr_schema = rule,
                         cr_pattern = (if hv_pattern v = [] then None else re (whole (hv_pattern v)))\<rparr>;
                    err = check_values maxTemplateHeaderBytes (\<lambda>s. rule_validate r s = nil_err)
                      (fails ''template header enum violates its constraints or size limits'')
                      (fails ''duplicate template header enum value'') (\<lambda>s. s) [] enum
                in if err \<noteq> nil_err then Inl err else Inr r)))"

text \<open>One rule, for its source and its destination name, with the body policy and the fixed headers.\<close>

definition check_rule_name :: "bool \<Rightarrow> header \<Rightarrow> header_rule \<Rightarrow> string \<Rightarrow> goerr" where
  "check_rule_name writes fixed rule name =
     (if \<not> hr_legacy rule \<and> isReservedRichTemplateHeader name
      then fails ''reserved transport or identity header cannot be a runtime rule''
      else if writes \<and> (name = ''Content-Type'' \<or> name = ''Content-Encoding'')
      then fails ''template writes require the body policy content type and unencoded body bytes''
      else if name \<in> fst ` set fixed then fails ''template caller header conflicts with a fixed header''
      else if isTemplateCredentialHeader name \<and> (\<not> hr_credential rule \<or> \<not> supportedTemplateCredentialHeader name)
      then fails ''template authentication headers must be fixed by the operator or explicitly supported by a credential rule''
      else nil_err)"

type_synonym rule_map = "(string \<times> compiled_rule) list"

definition compile_rule ::
    "regexps \<Rightarrow> bool \<Rightarrow> header \<Rightarrow> rule_map \<Rightarrow> rule_map \<Rightarrow> header_rule \<Rightarrow> goerr + rule_map \<times> rule_map" where
  "compile_rule re writes fixed rules dests rule = (case canonicalTemplateHeader (hr_name rule) of
     Inl err \<Rightarrow> Inl err
   | Inr source \<Rightarrow>
       (case (if hr_forward_as rule \<noteq> [] then canonicalTemplateHeader (hr_forward_as rule) else Inr source) of
          Inl err \<Rightarrow> Inl err
        | Inr destination \<Rightarrow>
            (let names_err = (case check_rule_name writes fixed rule source of
                   [] \<Rightarrow> check_rule_name writes fixed rule destination | err \<Rightarrow> err) in
             if hr_legacy rule \<and> (hr_description rule \<noteq> [] \<or> hr_forward_as rule \<noteq> [] \<or> hr_required rule \<or>
                  hr_credential rule \<or> hr_validation rule \<noteq> None)
             then Inl (fails ''legacy template header rules cannot include structured settings'')
             else if \<not> hr_legacy rule \<and> (trim_space (hr_description rule) = [] \<or>
                  length (hr_description rule) > maxTemplateDescription \<or> \<not> validTemplateText (hr_description rule))
             then Inl (fails ''template header rules require a bounded nonempty description'')
             else if names_err \<noteq> nil_err then Inl names_err
             else if hr_credential rule \<and> \<not> supportedTemplateCredentialHeader source \<and>
                  \<not> supportedTemplateCredentialHeader destination
             then Inl (fails ''template credential rule must use a supported credential header'')
             else if source \<in> fst ` set rules then Inl (fails ''duplicate template caller header name'')
             else if destination \<in> fst ` set dests then Inl (fails ''duplicate template outgoing header name'')
             else case compileTemplateHeaderValidation re (rule\<lparr>hr_name := source, hr_forward_as := destination\<rparr>) of
               Inl err \<Rightarrow> Inl err
             | Inr compiled \<Rightarrow> Inr (rules @ [(source, compiled)], dests @ [(destination, compiled)]))))"

fun compile_rules ::
    "regexps \<Rightarrow> bool \<Rightarrow> header \<Rightarrow> rule_map \<times> rule_map \<Rightarrow> header_rule list \<Rightarrow> goerr + rule_map \<times> rule_map" where
  "compile_rules re writes fixed rd [] = Inr rd"
| "compile_rules re writes fixed rd (rule # rs) = (case compile_rule re writes fixed (fst rd) (snd rd) rule of
     Inl err \<Rightarrow> Inl err
   | Inr rd' \<Rightarrow> compile_rules re writes fixed rd' rs)"

definition compileHeaderRules ::
    "regexps \<Rightarrow> bool \<Rightarrow> header \<Rightarrow> header_rule list \<Rightarrow> goerr + rule_map \<times> rule_map" where
  "compileHeaderRules re writes fixed rs = (case compile_rules re writes fixed ([], []) rs of
     Inl err \<Rightarrow> Inl err
   | Inr (rules, dests) \<Rightarrow>
       if list_ex (\<lambda>(source, r). source \<noteq> hr_forward_as (cr_schema r) \<and> hr_forward_as (cr_schema r) \<in> fst ` set rules) rules
       then Inl (fails ''template header source and destination names overlap'')
       else Inr (rules, dests))"

end
