(* ===== verification/Template.thy ===== *)
theory Template
  imports TemplatePolicy JsonWrite
begin

text \<open>
  Compiled target templates (\<open>pkg/runtimeharpoon/template.go\<close>): compiling the
  operator's policy, rendering a URL from identifiers, checking the headers of a
  caller, and the check of the finished request at the outbound boundary. A Go map
  is an association list in the order it happens to be iterated; a parameter of a
  call is its string, or nothing when it is not a string. \<open>url.Parse\<close>,
  \<open>netip.ParseAddr\<close>, \<open>mime.ParseMediaType\<close>, regular expressions and SHA-256 are
  parameters, as is the user agent, which is set when the client is built.
\<close>

section \<open>Configuration\<close>

record template_config =
  tc_version :: int
  tc_origin :: string
  tc_allow_loopback :: bool
  tc_method :: string
  tc_body :: "body_policy option"
  tc_path :: string
  tc_query :: "(string \<times> string) list"
  tc_parameters :: "(string \<times> template_parameter) list"
  tc_headers :: "(string \<times> string) list"
  tc_allowed :: "string list option"
  tc_rules :: "header_rule list option"
  tc_rules_key :: string
  tc_follow :: bool

definition NormalizedHeaderRules :: "template_config \<Rightarrow> goerr + header_rule list" where
  "NormalizedHeaderRules t =
     (if tc_allowed t \<noteq> None \<and> (tc_rules t \<noteq> None \<or> tc_rules_key t = ''header_rules'')
      then Inl (fails ''header_rules and allowed_headers cannot be combined'')
      else case tc_rules t of
        Some rs \<Rightarrow> Inr rs
      | None \<Rightarrow> (case tc_allowed t of
          None \<Rightarrow> Inr []
        | Some names \<Rightarrow> Inr (map (\<lambda>n. \<lparr>hr_name = n, hr_description = [], hr_required = False, hr_credential = False,
            hr_forward_as = [], hr_validation = None, hr_legacy = True\<rparr>) names)))"

datatype template_part = Literal string | Placeholder string

record target_template =
  tt_method :: string
  tt_body :: "compiled_body option"
  tt_origin :: web_url
  tt_loopback :: bool
  tt_path :: "template_part list"
  tt_query :: "(string \<times> template_part) list"
  tt_parameters :: "(string \<times> compiled_parameter) list"
  tt_headers :: header
  tt_rules :: rule_map
  tt_dests :: rule_map
  tt_digest :: string
  tt_token :: string

text \<open>\<open>names\<close> of the code: the parameter names in order.\<close>

definition tt_names :: "target_template \<Rightarrow> string list" where
  "tt_names t = sort (map fst (tt_parameters t))"

section \<open>Rendering\<close>

definition part_value :: "(string \<times> string) list \<Rightarrow> template_part \<Rightarrow> string" where
  "part_value values p = (case p of
     Literal s \<Rightarrow> s
   | Placeholder n \<Rightarrow> (case map_of values n of None \<Rightarrow> [] | Some s \<Rightarrow> s))"

definition policyValue :: "template_part \<Rightarrow> string" where
  "policyValue p = (case p of Literal s \<Rightarrow> s | Placeholder n \<Rightarrow> ''{'' @ n @ ''}'')"

text \<open>
  \<open>EscapedPath\<close> of the result is \<open>RawPath\<close>, because it is a valid encoding of
  \<open>Path\<close>: the segments are escaped one by one.
\<close>

definition renderURL :: "target_template \<Rightarrow> (string \<times> string) list \<Rightarrow> web_url" where
  "renderURL t values =
     (let segments = map (part_value values) (tt_path t) in
      (tt_origin t)\<lparr>u_decoded := ''/'' @ join_by ''/'' segments,
        u_path := ''/'' @ join_by ''/'' (map PathEscape segments),
        u_query := Values_Encode (map (\<lambda>(key, p). (key, part_value values p)) (tt_query t))\<rparr>)"

type_synonym call_parameters = "(string \<times> string option) list"

fun collect_values ::
    "(string \<times> compiled_parameter) list \<Rightarrow> call_parameters \<Rightarrow> string list \<Rightarrow> goerr + (string \<times> string) list" where
  "collect_values ps params [] = Inr []"
| "collect_values ps params (name # names) = (case map_of params name of
     Some (Some s) \<Rightarrow>
       (case map_of ps name of
          None \<Rightarrow> Inl (fails ''no such parameter'')
        | Some p \<Rightarrow>
            if param_validate p s \<noteq> nil_err then Inl (ErrText (''parameter '' @ name) # param_validate p s)
            else case collect_values ps params names of
              Inl err \<Rightarrow> Inl err
            | Inr vs \<Rightarrow> Inr ((name, s) # vs))
   | _ \<Rightarrow> Inl (fails (''parameter '' @ name @ '' must be a string'')))"

definition Render :: "target_template \<Rightarrow> call_parameters \<Rightarrow> goerr + web_url" where
  "Render t params =
     (if length params \<noteq> length (tt_parameters t)
      then Inl (fails ''template parameter keys must match the declared schema'')
      else case collect_values (tt_parameters t) params (tt_names t) of
        Inl err \<Rightarrow> Inl err
      | Inr values \<Rightarrow>
          (let u = renderURL t values in
           if length (URL_String u) > maxTemplateURLBytes then Inl (fails ''rendered URL exceeds size limit'')
           else Inr u))"

section \<open>Compiling\<close>

definition templateNamePattern :: "string \<Rightarrow> bool" where
  "templateNamePattern s \<longleftrightarrow> s \<noteq> [] \<and> (between 65 90 (hd s) \<or> between 97 122 (hd s)) \<and>
     list_all (\<lambda>c. alnum c \<or> c = CHR ''_'') (tl s) \<and> length s \<le> 64"

definition compileTemplateOrigin ::
    "(string \<Rightarrow> web_url option) \<Rightarrow> (string \<Rightarrow> (bool \<times> string) option) \<Rightarrow> string \<Rightarrow> bool \<Rightarrow> goerr + web_url" where
  "compileTemplateOrigin parse_url parse_addr raw allowLoopbackHTTP =
     (if raw = [] \<or> length raw > maxTemplateURLBytes \<or>
         list_ex (\<lambda>c. c \<in> set ''{}%#'' \<or> c = CHR 0x5C) raw \<or> \<not> validTemplateText raw
      then Inl (fails ''invalid template origin'')
      else case parse_url raw of
        None \<Rightarrow> Inl (fails ''template origin must contain only a scheme, host, and optional port'')
      | Some u \<Rightarrow>
          (let hostname = url_Hostname (url.truncate u); port = url_Port (url.truncate u) in
           if u_host u = [] \<or> hostname = [] \<or> u_user u \<noteq> None \<or> u_opaque u \<noteq> [] \<or> u_query u \<noteq> [] \<or>
              u_force_query u \<or> u_fragment u \<noteq> [] \<or> (u_decoded u \<noteq> [] \<and> u_decoded u \<noteq> ''/'')
           then Inl (fails ''template origin must contain only a scheme, host, and optional port'')
           else if allowLoopbackHTTP \<and>
              (u_scheme u \<noteq> ''http'' \<or> parse_addr hostname \<noteq> Some (True, []) \<or> port = [])
           then Inl (fails ''allow_loopback_http requires an HTTP origin with a literal loopback IP and fixed port'')
           else if \<not> allowLoopbackHTTP \<and> u_scheme u \<noteq> ''https''
           then Inl (fails ''template origin must use HTTPS unless allow_loopback_http is enabled'')
           else if has_suffix '':'' (u_host u) then Inl (fails ''invalid template origin port'')
           else if port \<noteq> [] \<and> (digits_value port < 1 \<or> digits_value port > 65535)
           then Inl (fails ''invalid template origin port'')
           else Inr (u\<lparr>u_decoded := [], u_path := []\<rparr>)))"

definition compileTemplatePart :: "string \<Rightarrow> string list \<Rightarrow> string list \<Rightarrow> goerr + template_part \<times> string list" where
  "compileTemplatePart s declared used =
     (if \<not> list_ex (\<lambda>c. c \<in> set ''{}'') s then Inr (Literal s, used)
      else if \<not> has_prefix ''{'' s \<or> \<not> has_suffix ''}'' s
      then Inl (fails ''placeholder must occupy an entire path segment or query value'')
      else
        (let name = trim_suffix (tl s) ''}'' in
         if \<not> templateNamePattern name then Inl (fails ''invalid template placeholder'')
         else if name \<notin> set declared then Inl (fails ''template uses an undeclared parameter'')
         else Inr (Placeholder name, name # used)))"

definition literal_ok :: "(string \<Rightarrow> bool) \<Rightarrow> template_part \<Rightarrow> bool" where
  "literal_ok ok p = (case p of Literal s \<Rightarrow> ok s | Placeholder _ \<Rightarrow> True)"

fun compile_path ::
    "bool \<Rightarrow> string list \<Rightarrow> string list \<Rightarrow> string list \<Rightarrow> goerr + template_part list \<times> string list" where
  "compile_path root declared used [] = Inr ([], used)"
| "compile_path root declared used (segment # segments) = (case compileTemplatePart segment declared used of
     Inl err \<Rightarrow> Inl err
   | Inr (p, used') \<Rightarrow>
       if \<not> literal_ok (\<lambda>s. (s = [] \<and> root) \<or> validTemplateIdentifier s) p
       then Inl (fails ''template path contains an invalid literal segment'')
       else case compile_path root declared used' segments of
         Inl err \<Rightarrow> Inl err
       | Inr (ps, used'') \<Rightarrow> Inr (p # ps, used''))"

fun compile_query ::
    "string list \<Rightarrow> string list \<Rightarrow> (string \<times> string) list \<Rightarrow> goerr + (string \<times> template_part) list \<times> string list" where
  "compile_query declared used [] = Inr ([], used)"
| "compile_query declared used ((key, s) # kvs) =
     (if length key > 64 \<or> \<not> validTemplateIdentifier key then Inl (fails ''invalid template query field name'')
      else case compileTemplatePart s declared used of
        Inl err \<Rightarrow> Inl err
      | Inr (p, used') \<Rightarrow>
          if \<not> literal_ok (\<lambda>s. length s \<le> maxTemplateValueBytes \<and> validTemplateText s) p
          then Inl (fails ''invalid template query literal'')
          else case compile_query declared used' kvs of
            Inl err \<Rightarrow> Inl err
          | Inr (ps, used'') \<Rightarrow> Inr ((key, p) # ps, used''))"

fun compile_parameters ::
    "regexps \<Rightarrow> (string \<times> template_parameter) list \<Rightarrow> goerr + (string \<times> compiled_parameter) list" where
  "compile_parameters re [] = Inr []"
| "compile_parameters re ((name, schema) # ps) =
     (if \<not> templateNamePattern name then Inl (fails ''invalid template parameter name'')
      else case compileTemplateParameter re schema of
        Inl err \<Rightarrow> Inl (ErrText (''parameter '' @ name) # err)
      | Inr p \<Rightarrow> (case compile_parameters re ps of Inl err \<Rightarrow> Inl err | Inr cs \<Rightarrow> Inr ((name, p) # cs)))"

fun compile_headers :: "bool \<Rightarrow> header \<Rightarrow> (string \<times> string) list \<Rightarrow> goerr + header" where
  "compile_headers writes h [] = Inr h"
| "compile_headers writes h ((key, s) # kvs) = (case canonicalTemplateHeader key of
     Inl err \<Rightarrow> Inl err
   | Inr canonical \<Rightarrow>
       if writes \<and> (canonical = ''Content-Type'' \<or> canonical = ''Content-Encoding'')
       then Inl (fails ''template writes require the body policy content type and unencoded body bytes'')
       else if canonical \<in> fst ` set h then Inl (fails ''duplicate template header name'')
       else if \<not> validTemplateHeaderValue s then Inl (fails ''invalid template header value'')
       else compile_headers writes (header_set h canonical s) kvs)"

definition header_size :: "string \<Rightarrow> header \<Rightarrow> nat" where
  "header_size user_agent h =
     (if ''User-Agent'' \<in> fst ` set h then 0 else length ''User-Agent'' + length user_agent) +
     sum_list (map (\<lambda>(key, vs). length key + sum_list (map length vs)) h)"

definition validateTemplateHeaderSize :: "string \<Rightarrow> header \<Rightarrow> goerr" where
  "validateTemplateHeaderSize user_agent h =
     (if length h > maxTemplateHeaders + 1 then fails ''too many template headers''
      else if header_size user_agent h > maxTemplateHeaderBytes then fails ''template headers exceed size limit''
      else nil_err)"

definition HasRichHeaderRules :: "target_template \<Rightarrow> bool" where
  "HasRichHeaderRules t = list_ex (\<lambda>(_, r). \<not> hr_legacy (cr_schema r)) (tt_rules t)"

text \<open>The source names are the keys of the rules, and the schema of a rule repeats its own.\<close>

definition canonicalHeaderRules :: "target_template \<Rightarrow> header_rule list" where
  "canonicalHeaderRules t = sort_key hr_name (map (\<lambda>(_, r).
     (cr_schema r)\<lparr>hr_validation := map_option (\<lambda>v. v\<lparr>hv_enum := map_option sort (hv_enum v)\<rparr>)
        (hr_validation (cr_schema r))\<rparr>) (tt_rules t))"

section \<open>Documents\<close>

text \<open>
  \<open>json.Marshal\<close> of the policy structs: members in the order of the fields,
  empty ones left out where the tag says \<open>omitempty\<close>, and maps by sorted key.
\<close>

definition member_if :: "bool \<Rightarrow> string \<Rightarrow> json \<Rightarrow> (string \<times> json) list" where
  "member_if present k v = (if present then [(k, v)] else [])"

definition json_map :: "(string \<times> json) list \<Rightarrow> json" where
  "json_map kvs = json_obj (sort_key fst kvs)"

definition json_strs :: "string list \<Rightarrow> json" where
  "json_strs vs = JArr (map JStr vs)"

definition json_int :: "int \<Rightarrow> json" where
  "json_int i = JNum (show_int i)"

definition parameter_json :: "template_parameter \<Rightarrow> json" where
  "parameter_json p = json_obj (
     [(''type'', JStr (tp_type p)), (''required'', JBool (tp_required p))] @
     member_if (tp_description p \<noteq> []) ''description'' (JStr (tp_description p)) @
     member_if (tp_examples p \<noteq> []) ''examples'' (json_strs (tp_examples p)) @
     member_if (tp_pattern p \<noteq> []) ''pattern'' (JStr (tp_pattern p)) @
     member_if (tp_enum p \<noteq> []) ''enum'' (json_strs (tp_enum p)) @
     member_if (tp_min p \<noteq> 0) ''min_length'' (json_int (tp_min p)) @
     [(''max_length'', json_int (tp_max p))] @
     member_if (tp_reserved p \<noteq> []) ''reserved_values'' (json_strs (tp_reserved p)))"

definition canonicalPolicy :: "compiled_body \<Rightarrow> compiled_body" where
  "canonicalPolicy p = p\<lparr>cb_content_types := sort (cb_content_types p),
     cb_validation := (cb_validation p)\<lparr>bv_enum := sort (bv_enum (cb_validation p))\<rparr>\<rparr>"

definition body_json :: "compiled_body \<Rightarrow> json" where
  "body_json p = json_obj
     [(''content_types'', json_strs (cb_content_types p)), (''max_bytes'', json_int (cb_max_bytes p)),
      (''required'', JBool (cb_required p)),
      (''validation'', json_obj (
         member_if (bv_json (cb_validation p)) ''json'' (JBool True) @
         member_if (bv_pattern (cb_validation p) \<noteq> []) ''pattern'' (JStr (bv_pattern (cb_validation p))) @
         member_if (bv_enum (cb_validation p) \<noteq> []) ''enum'' (json_strs (bv_enum (cb_validation p)))))]"

definition validation_json :: "header_validation \<Rightarrow> json" where
  "validation_json v = json_obj (
     member_if (hv_pattern v \<noteq> []) ''pattern'' (JStr (hv_pattern v)) @
     (case hv_enum v of None \<Rightarrow> [] | Some vs \<Rightarrow> member_if (vs \<noteq> []) ''enum'' (json_strs vs)) @
     (case hv_min v of None \<Rightarrow> [] | Some m \<Rightarrow> [(''min_length'', json_int m)]) @
     (case hv_max v of None \<Rightarrow> [] | Some m \<Rightarrow> [(''max_length'', json_int m)]))"

definition header_rule_json :: "header_rule \<Rightarrow> json" where
  "header_rule_json r =
     (if hr_legacy r then JStr (hr_name r)
      else json_obj (
        [(''name'', JStr (hr_name r))] @
        member_if (hr_description r \<noteq> []) ''description'' (JStr (hr_description r)) @
        member_if (hr_required r) ''required'' (JBool True) @
        member_if (hr_credential r) ''credential'' (JBool True) @
        member_if (hr_forward_as r \<noteq> []) ''forward_as'' (JStr (hr_forward_as r)) @
        (case hr_validation r of None \<Rightarrow> [] | Some v \<Rightarrow> [(''validation'', validation_json v)])))"

text \<open>\<open>PublicParameters\<close>; its copies are what the digest then sorts.\<close>

definition PublicParameters :: "target_template \<Rightarrow> (string \<times> template_parameter) list" where
  "PublicParameters t = map (\<lambda>(name, p). (name, cp_schema p)) (tt_parameters t)"

definition canonical_parameter :: "template_parameter \<Rightarrow> template_parameter" where
  "canonical_parameter p = p\<lparr>tp_enum := sort (tp_enum p), tp_reserved := sort (map to_lower (tp_reserved p))\<rparr>"

definition policy_json :: "target_template \<Rightarrow> json" where
  "policy_json t = json_obj (
     [(''version'', json_int 1), (''origin'', JStr (URL_String (tt_origin t)))] @
     member_if (tt_loopback t) ''allow_loopback_http'' (JBool True) @
     [(''method'', JStr (tt_method t))] @
     (case tt_body t of None \<Rightarrow> [] | Some p \<Rightarrow> [(''body_policy'', body_json (canonicalPolicy p))]) @
     [(''path_template'', JStr (''/'' @ join_by ''/'' (map policyValue (tt_path t))))] @
     member_if (tt_query t \<noteq> []) ''query'' (json_map (map (\<lambda>(key, p). (key, JStr (policyValue p))) (tt_query t))) @
     [(''parameters'', json_map (map (\<lambda>(name, p). (name, parameter_json (canonical_parameter p))) (PublicParameters t)))] @
     member_if (tt_headers t \<noteq> []) ''headers'' (json_map (map (\<lambda>(key, vs). (key, JStr (hd vs))) (tt_headers t))) @
     member_if (\<not> HasRichHeaderRules t \<and> tt_rules t \<noteq> []) ''allowed_headers'' (json_strs (sort (map fst (tt_rules t)))) @
     [(''follow_redirects'', JBool False)] @
     member_if (HasRichHeaderRules t) ''header_rules'' (JArr (map header_rule_json (canonicalHeaderRules t))))"

text \<open>\<open>sha256\<close> gives the digest of a text in hexadecimal.\<close>

definition computePolicyDigest :: "(string \<Rightarrow> string) \<Rightarrow> target_template \<Rightarrow> string" where
  "computePolicyDigest sha256 t = sha256 (json_text (policy_json t))"

definition QuoteMeta :: "char \<Rightarrow> string" where
  "QuoteMeta c = (if c \<in> set ''.+*?()|[]{}^$'' \<or> c = CHR 0x5C then [CHR 0x5C, c] else [c])"

definition reserved_pattern :: "string \<Rightarrow> string" where
  "reserved_pattern reserved =
     concat (map (\<lambda>c. if between 97 122 c then ''['' @ [c, upper_char c] @ '']'' else QuoteMeta c) (to_lower reserved))"

definition parameter_schema :: "template_parameter \<Rightarrow> json" where
  "parameter_schema p = json_map (
     [(''type'', JStr ''string''), (''minLength'', json_int (tp_min p)), (''maxLength'', json_int (tp_max p)),
      (''allOf'', JArr
         [json_obj [(''not'', json_obj [(''pattern'', JStr ''[^A-Za-z0-9_.~-]'')])],
          json_obj [(''not'', json_obj [(''enum'', json_strs [''.'', ''..''])])]])] @
     member_if (tp_description p \<noteq> []) ''description'' (JStr (tp_description p)) @
     member_if (tp_examples p \<noteq> []) ''examples'' (json_strs (tp_examples p)) @
     member_if (tp_pattern p \<noteq> []) ''pattern'' (JStr (''^(?:'' @ tp_pattern p @ '')$'')) @
     member_if (tp_enum p \<noteq> []) ''enum'' (json_strs (tp_enum p)) @
     member_if (tp_reserved p \<noteq> []) ''not'' (json_obj
       [(''pattern'', JStr (''^(?:'' @ join_by ''|'' (map reserved_pattern (tp_reserved p)) @ '')$''))]))"

definition templateParametersSchema :: "target_template \<Rightarrow> json" where
  "templateParametersSchema t = json_map
     [(''type'', JStr ''object''),
      (''properties'', json_map (map (\<lambda>(name, p). (name, parameter_schema p)) (PublicParameters t))),
      (''required'', json_strs (sort (map fst (PublicParameters t)))),
      (''additionalProperties'', JBool False)]"

definition operation_json :: "target_template \<Rightarrow> json" where
  "operation_json t = json_obj
     [(''method'', JStr (tt_method t)),
      (''body_policy'', case tt_body t of None \<Rightarrow> JNull | Some p \<Rightarrow> body_json (canonicalPolicy p)),
      (''parameters_schema'', templateParametersSchema t)]"

section \<open>The whole policy\<close>

text \<open>What the compiler takes from outside.\<close>

record template_env =
  te_regexp :: regexps
  te_media :: "string \<Rightarrow> (string \<times> nat) option"
  te_url :: "string \<Rightarrow> web_url option"
  te_addr :: "string \<Rightarrow> (bool \<times> string) option"  \<comment> \<open>loopback, and the zone\<close>
  te_sha256 :: "string \<Rightarrow> string"
  te_user_agent :: string

definition and_then :: "goerr + 'a \<Rightarrow> ('a \<Rightarrow> goerr + 'b) \<Rightarrow> goerr + 'b" where
  "and_then x f = (case x of Inl err \<Rightarrow> Inl err | Inr v \<Rightarrow> f v)"

definition unless_err :: "goerr \<Rightarrow> goerr + 'b \<Rightarrow> goerr + 'b" where
  "unless_err err x = (if err \<noteq> nil_err then Inl err else x)"

definition fail_if :: "bool \<Rightarrow> string \<Rightarrow> goerr" where
  "fail_if c text = (if c then fails text else nil_err)"

definition unused_parameters :: "string list \<Rightarrow> string list \<Rightarrow> goerr" where
  "unused_parameters names used = (case filter (\<lambda>n. n \<notin> set used) names of
     [] \<Rightarrow> nil_err | n # _ \<Rightarrow> fails (''parameter '' @ n @ '' is unused''))"

definition longest_values :: "(string \<times> compiled_parameter) list \<Rightarrow> (string \<times> string) list" where
  "longest_values ps = map (\<lambda>(name, p). (name, replicate (nat (tp_max (cp_schema p))) (CHR ''x''))) ps"

definition CompileTargetTemplate :: "template_env \<Rightarrow> template_config option \<Rightarrow> goerr + target_template" where
  "CompileTargetTemplate env config = (case config of
     None \<Rightarrow> Inl (fails ''template version must be 1'')
   | Some cfg \<Rightarrow>
     unless_err (fail_if (tc_version cfg \<noteq> 1) ''template version must be 1'') (
     unless_err (fail_if (tc_method cfg \<notin> {''GET'', ''POST'', ''PUT''}) ''template method must be GET, POST, or PUT'') (
     and_then (compileTemplateBodyPolicy (te_regexp env) (te_media env) (tc_method cfg) (tc_body cfg)) (\<lambda>body.
     unless_err (fail_if (tc_follow cfg) ''template redirects must be disabled'') (
     and_then (compileTemplateOrigin (te_url env) (te_addr env) (tc_origin cfg) (tc_allow_loopback cfg)) (\<lambda>origin.
     unless_err (fail_if (tc_parameters cfg = [] \<or> length (tc_parameters cfg) > 16)
       ''template must declare 1 to 16 parameters'') (
     and_then (compile_parameters (te_regexp env) (tc_parameters cfg)) (\<lambda>ps.
     unless_err (fail_if (length (tc_path cfg) > maxTemplateURLBytes \<or> \<not> has_prefix ''/'' (tc_path cfg))
       ''template path must be absolute and bounded'') (
     and_then (compile_path (tc_path cfg = ''/'') (map fst ps) [] (split_on (CHR ''/'') (tl (tc_path cfg)))) (\<lambda>(path, used).
     unless_err (fail_if (length (tc_query cfg) > 32) ''template has too many query fields'') (
     and_then (compile_query (map fst ps) used (tc_query cfg)) (\<lambda>(query, used).
     unless_err (unused_parameters (sort (map fst ps)) used) (
     and_then (NormalizedHeaderRules cfg) (\<lambda>rs.
     unless_err (fail_if (length (tc_headers cfg) + length rs + (if body \<noteq> None then 1 else 0) > maxTemplateHeaders)
       ''template has too many headers'') (
     and_then (compile_headers (body \<noteq> None) [] (tc_headers cfg)) (\<lambda>h.
     and_then (compileHeaderRules (te_regexp env) (body \<noteq> None) h rs) (\<lambda>(rules, dests).
     unless_err (validateTemplateHeaderSize (te_user_agent env) h) (
     (let t = \<lparr>tt_method = tc_method cfg, tt_body = body, tt_origin = origin, tt_loopback = tc_allow_loopback cfg,
               tt_path = path, tt_query = query, tt_parameters = ps, tt_headers = h, tt_rules = rules,
               tt_dests = dests, tt_digest = [], tt_token = []\<rparr>
      in
      unless_err (fail_if (length (URL_String (renderURL t (longest_values ps))) > maxTemplateURLBytes)
        ''template maximum rendered URL exceeds size limit'') (
      Inr (t\<lparr>tt_digest := computePolicyDigest (te_sha256 env) t,
             tt_token := (if body = None then []
               else ''write-v1:'' @ te_sha256 env (json_text (operation_json t)))\<rparr>)))))))))))))))))))))"

section \<open>Headers of a caller\<close>

definition headerError :: "target_template \<Rightarrow> string \<Rightarrow> goerr \<Rightarrow> goerr" where
  "headerError t code err = (if HasRichHeaderRules t then ErrText code # err else err)"

text \<open>\<open>maps.Copy\<close> of headers into others.\<close>

definition maps_copy :: "header \<Rightarrow> header \<Rightarrow> header" where
  "maps_copy h h' = filter (\<lambda>(k, _). k \<notin> fst ` set h') h @ h'"

definition validateCallerHeaderBudget :: "string \<Rightarrow> target_template \<Rightarrow> header \<Rightarrow> goerr" where
  "validateCallerHeaderBudget user_agent t h = validateTemplateHeaderSize user_agent (maps_copy (tt_headers t) h)"

text \<open>The headers under their source names, and under the names they are sent with.\<close>

fun caller_rules ::
    "target_template \<Rightarrow> header \<Rightarrow> header \<Rightarrow> (string \<times> string) list \<Rightarrow> goerr + header \<times> header" where
  "caller_rules t sources out [] = Inr (sources, out)"
| "caller_rules t sources out ((key, s) # kvs) = (case canonicalTemplateHeader key of
     Inl err \<Rightarrow> Inl (headerError t ''header_invalid'' err)
   | Inr canonical \<Rightarrow>
       (case map_of (tt_rules t) canonical of
          None \<Rightarrow> Inl (headerError t ''header_not_allowed'' (fails ''caller header is not permitted by the target''))
        | Some rule \<Rightarrow>
            if canonical \<in> fst ` set sources
            then Inl (headerError t ''header_duplicate'' (fails ''duplicate caller header name''))
            else if rule_validate rule s \<noteq> nil_err then Inl (headerError t ''header_invalid'' (rule_validate rule s))
            else caller_rules t (header_set sources canonical s) (header_set out (hr_forward_as (cr_schema rule)) s) kvs))"

definition ValidateCallerHeaders :: "string \<Rightarrow> target_template \<Rightarrow> (string \<times> string) list \<Rightarrow> goerr + header" where
  "ValidateCallerHeaders user_agent t headers =
     (if length headers > maxTemplateHeaders
      then Inl (headerError t ''header_budget_exceeded'' (fails ''too many template headers''))
      else and_then (caller_rules t [] [] headers) (\<lambda>(sources, out).
        if list_ex (\<lambda>(source, r). hr_required (cr_schema r) \<and> source \<notin> fst ` set sources) (tt_rules t)
        then Inl (headerError t ''header_required'' (fails ''required caller header is missing''))
        else if validateCallerHeaderBudget user_agent t sources \<noteq> nil_err
        then Inl (headerError t ''header_budget_exceeded'' (validateCallerHeaderBudget user_agent t sources))
        else if validateCallerHeaderBudget user_agent t out \<noteq> nil_err
        then Inl (headerError t ''header_budget_exceeded'' (validateCallerHeaderBudget user_agent t out))
        else Inr out))"

section \<open>The outbound boundary\<close>

text \<open>
  The parts of an \<open>http.Request\<close> that the check reads. \<open>hq_body\<close> is nothing for a
  nil body and for \<open>http.NoBody\<close>; a body is its bytes.
\<close>

record template_request =
  hq_method :: string
  hq_url :: "web_url option"
  hq_uri :: string
  hq_host :: string
  hq_header :: header
  hq_body :: "string option"
  hq_length :: int
  hq_encodings :: "string list"
  hq_trailer :: header
  hq_get_body :: bool

definition validateRequestBody :: "target_template \<Rightarrow> template_request \<Rightarrow> string option \<Rightarrow> string option \<Rightarrow> goerr" where
  "validateRequestBody t req body contentType =
     (case body_validate (tt_body t) body contentType of
        err # errs \<Rightarrow> err # errs
      | [] \<Rightarrow>
        if tt_method t = ''GET'' then
          fail_if (hq_body req \<noteq> None \<or> hq_length req \<noteq> 0 \<or> hq_encodings req \<noteq> [] \<or> hq_trailer req \<noteq> [])
            ''template GET requests cannot contain a body''
        else if hq_encodings req \<noteq> [] \<or> hq_trailer req \<noteq> [] \<or> hq_get_body req \<or> hq_body req = None
        then fails ''template write requires a single-use body''
        else
          (let expected = (case body of None \<Rightarrow> [] | Some b \<Rightarrow> b) in
           if hq_length req \<noteq> int (length expected)
           then fails ''outbound body length does not match the template invocation''
           else if hq_body req \<noteq> Some expected then fails ''outbound body does not match the template invocation''
           else fail_if (case contentType of
               None \<Rightarrow> ''Content-Type'' \<in> fst ` set (hq_header req)
             | Some ct \<Rightarrow> header_get (hq_header req) ''Content-Type'' \<noteq> ct)
             ''outbound content type does not match the template invocation''))"

definition outbound_header ::
    "string \<Rightarrow> target_template \<Rightarrow> string option \<Rightarrow> string \<times> string list \<Rightarrow> goerr" where
  "outbound_header user_agent t contentType = (\<lambda>(key, vs).
     if key \<noteq> canonical_header_key key \<or> length vs \<noteq> 1 \<or> \<not> validTemplateHeaderValue (hd vs)
     then fails ''invalid outbound template header''
     else if key = ''User-Agent'' \<and> hd vs = user_agent then nil_err
     else if tt_body t \<noteq> None \<and> key = ''Content-Type'' \<and> contentType = Some (hd vs) then nil_err
     else case canonicalTemplateHeader key of
       Inl err \<Rightarrow> err
     | Inr _ \<Rightarrow>
         (case map_of (tt_headers t) key of
            Some fixed \<Rightarrow> fail_if (hd vs \<noteq> hd fixed) ''fixed template header was modified''
          | None \<Rightarrow>
              (case map_of (tt_dests t) key of
                 None \<Rightarrow> fails ''outbound header is not permitted by the target''
               | Some rule \<Rightarrow> rule_validate rule (hd vs))))"

fun first_error :: "('a \<Rightarrow> goerr) \<Rightarrow> 'a list \<Rightarrow> goerr" where
  "first_error f [] = nil_err"
| "first_error f (x # xs) = (if f x \<noteq> nil_err then f x else first_error f xs)"

definition validateRequest ::
    "string \<Rightarrow> target_template \<Rightarrow> template_request option \<Rightarrow> call_parameters \<Rightarrow> string option \<Rightarrow> string option \<Rightarrow> goerr" where
  "validateRequest user_agent t request parameters body contentType = (case Render t parameters of
     Inl err \<Rightarrow> err
   | Inr expected \<Rightarrow>
       (case map_option (\<lambda>req. (req, hq_url req)) request of
          Some (req, Some u) \<Rightarrow>
            if hq_method req \<noteq> tt_method t \<or> URL_String u \<noteq> URL_String expected \<or> u_user u \<noteq> None \<or> u_opaque u \<noteq> [] \<or>
               hq_uri req \<noteq> [] \<or> (hq_host req \<noteq> [] \<and> hq_host req \<noteq> u_host expected)
            then fails ''outbound request does not match the selected template''
            else if validateRequestBody t req body contentType \<noteq> nil_err then validateRequestBody t req body contentType
            else if first_error (outbound_header user_agent t contentType) (hq_header req) \<noteq> nil_err
            then first_error (outbound_header user_agent t contentType) (hq_header req)
            else if list_ex (\<lambda>(key, _). key \<notin> fst ` set (hq_header req)) (tt_headers t)
            then fails ''fixed template header is missing''
            else if list_ex (\<lambda>(d, r). hr_required (cr_schema r) \<and> d \<notin> fst ` set (hq_header req)) (tt_dests t)
            then fails ''required outbound template header is missing''
            else validateTemplateHeaderSize user_agent (hq_header req)
        | _ \<Rightarrow> fails ''outbound request does not match the selected template''))"

end
