(* ===== verification/TemplateSafety.thy ===== *)
theory TemplateSafety
  imports Template Capabilities
begin

text \<open>
  What a compiled target template guarantees: a rendered URL stays on the origin of
  the operator and fills one path segment or query value per placeholder, every
  call with valid identifiers renders within the size bound, and a request that
  passes the outbound check is the selected operation, with the operator's fixed
  headers and only headers that a rule permits.
\<close>

section \<open>Inversion\<close>

named_theorems policy_simps \<open>success of the checks of a policy\<close>

lemma and_then_Inr [policy_simps]: "and_then x f = Inr y \<longleftrightarrow> (\<exists>v. x = Inr v \<and> f v = Inr y)"
  by (cases x) (auto simp: and_then_def)

lemma unless_err_Inr [policy_simps]: "unless_err err x = Inr y \<longleftrightarrow> err = nil_err \<and> x = Inr y"
  by (simp add: unless_err_def)

lemma fails_nonempty [simp]: "fails text \<noteq> nil_err" "nil_err \<noteq> fails text" "fails text \<noteq> []" "[] \<noteq> fails text"
  by (simp_all add: fails_def)

lemma fail_if_nil [policy_simps]: "fail_if c text = nil_err \<longleftrightarrow> \<not> c"
  by (simp add: fail_if_def)

lemma compiled:
  assumes "CompileTargetTemplate env (Some cfg) = Inr t"
  obtains used used' rs where
    "compileTemplateBodyPolicy (te_regexp env) (te_media env) (tc_method cfg) (tc_body cfg) = Inr (tt_body t)"
    "compileTemplateOrigin (te_url env) (te_addr env) (tc_origin cfg) (tc_allow_loopback cfg) = Inr (tt_origin t)"
    "compile_parameters (te_regexp env) (tc_parameters cfg) = Inr (tt_parameters t)"
    "compile_path (tc_path cfg = ''/'') (map fst (tt_parameters t)) [] (split_on (CHR ''/'') (tl (tc_path cfg))) =
       Inr (tt_path t, used)"
    "compile_query (map fst (tt_parameters t)) used (tc_query cfg) = Inr (tt_query t, used')"
    "NormalizedHeaderRules cfg = Inr rs"
    "length (tc_headers cfg) + length rs + (if tt_body t \<noteq> None then 1 else 0) \<le> maxTemplateHeaders"
    "compile_headers (tt_body t \<noteq> None) [] (tc_headers cfg) = Inr (tt_headers t)"
    "compileHeaderRules (te_regexp env) (tt_body t \<noteq> None) (tt_headers t) rs = Inr (tt_rules t, tt_dests t)"
    "length (URL_String (renderURL t (longest_values (tt_parameters t)))) \<le> maxTemplateURLBytes"
    "tt_method t = tc_method cfg" "tc_method cfg \<in> {''GET'', ''POST'', ''PUT''}" "tt_loopback t = tc_allow_loopback cfg"
  using assms
  by (auto simp: CompileTargetTemplate_def policy_simps Let_def not_less renderURL_def split: prod.splits)

text \<open>What a placeholder stands for in a call: the caller's string, one whole segment or value.\<close>

definition fill :: "call_parameters \<Rightarrow> string \<Rightarrow> string" where
  "fill params s =
     (if has_prefix ''{'' s then
        (case map_of params (trim_suffix (tl s) ''}'') of Some (Some v) \<Rightarrow> v | _ \<Rightarrow> [])
      else s)"

definition part_of :: "string list \<Rightarrow> string \<Rightarrow> template_part \<Rightarrow> bool" where
  "part_of declared s p = (case p of
     Literal l \<Rightarrow> l = s \<and> \<not> has_prefix ''{'' s
   | Placeholder n \<Rightarrow> n \<in> set declared \<and> s = ''{'' @ n @ ''}'')"

lemma compile_part:
  assumes "compileTemplatePart s declared used = Inr (p, used')"
  shows "part_of declared s p"
proof (cases "list_ex (\<lambda>c. c \<in> set ''{}'') s")
  case False
  then show ?thesis using assms by (cases s) (auto simp: compileTemplatePart_def part_of_def has_prefix_def)
next
  case True
  with assms have "has_prefix ''{'' s" "has_suffix ''}'' s" "p = Placeholder (trim_suffix (tl s) ''}'')"
    "trim_suffix (tl s) ''}'' \<in> set declared"
    by (auto simp: compileTemplatePart_def Let_def split: if_splits)
  moreover from this obtain r where "s = CHR ''{'' # r" by (cases s) (auto simp: has_prefix_def)
  ultimately show ?thesis
    by (cases r rule: rev_cases) (auto simp: part_of_def has_suffix_def trim_suffix_def has_prefix_def)
qed

lemma compile_path_parts:
  assumes "compile_path root declared used segs = Inr (ps, used')"
  shows "list_all2 (\<lambda>s p. part_of declared s p \<and> literal_ok (\<lambda>l. (l = [] \<and> root) \<or> validTemplateIdentifier l) p) segs ps"
  using assms
proof (induction root declared used segs arbitrary: ps rule: compile_path.induct)
  case (2 root declared used s segs)
  from "2.prems" obtain p used1 ps' where part: "compileTemplatePart s declared used = Inr (p, used1)"
    and ok: "literal_ok (\<lambda>s. (s = [] \<and> root) \<or> validTemplateIdentifier s) p"
    and rest: "compile_path root declared used1 segs = Inr (ps', used')" and ps: "ps = p # ps'"
    by (auto split: sum.splits if_splits)
  from "2.IH" [OF part refl _ rest] ok compile_part [OF part] ps show ?case by simp
qed simp

lemma compile_query_parts:
  assumes "compile_query declared used kvs = Inr (ps, used')"
  shows "list_all2 (\<lambda>(key, s) (key', p). key' = key \<and> validTemplateIdentifier key \<and> part_of declared s p) kvs ps"
  using assms
proof (induction declared used kvs arbitrary: ps rule: compile_query.induct)
  case (2 declared used key s kvs)
  from "2.prems" obtain p used1 ps' where part: "compileTemplatePart s declared used = Inr (p, used1)"
    and ok: "literal_ok (\<lambda>s. length s \<le> maxTemplateValueBytes \<and> validTemplateText s) p"
    and key: "\<not> (64 < length key \<or> \<not> validTemplateIdentifier key)"
    and rest: "compile_query declared used1 kvs = Inr (ps', used')" and ps: "ps = (key, p) # ps'"
    by (auto split: sum.splits if_splits)
  from "2.IH" [OF key part refl _ rest] ok compile_part [OF part] key ps show ?case by simp
qed simp

lemma compile_parameters_names:
  "compile_parameters re kvs = Inr ps \<Longrightarrow> map fst ps = map fst kvs"
  by (induction re kvs arbitrary: ps rule: compile_parameters.induct) (auto split: if_splits sum.splits)

lemma collected:
  assumes "collect_values ps params names = Inr vs" and "n \<in> set names"
  shows "\<exists>v p. map_of params n = Some (Some v) \<and> map_of ps n = Some p \<and> param_validate p v = nil_err \<and>
           map_of vs n = Some v"
  using assms
  by (induction ps params names arbitrary: vs rule: collect_values.induct)
    (fastforce split: if_splits sum.splits option.splits)+

lemma part_value_fill:
  assumes "collect_values ps params names = Inr vs" and "part_of declared s p" and "set declared \<subseteq> set names"
  shows "part_value vs p = fill params s"
proof (cases p)
  case (Literal l)
  then show ?thesis using assms(2) by (simp add: part_value_def fill_def part_of_def)
next
  case (Placeholder n)
  then have n: "n \<in> set names" and s: "s = ''{'' @ n @ ''}''" using assms(2,3) by (auto simp: part_of_def)
  from collected [OF assms(1) n] obtain v where "map_of params n = Some (Some v)" "map_of vs n = Some v" by auto
  moreover have "trim_suffix (tl s) ''}'' = n" by (simp add: s trim_suffix_def has_suffix_def has_prefix_def)
  ultimately show ?thesis using Placeholder by (simp add: part_value_def fill_def s has_prefix_def)
qed

lemma placeholder_identifier:
  assumes "collect_values ps params names = Inr vs" and "n \<in> set names"
  shows "validTemplateIdentifier (part_value vs (Placeholder n))"
proof -
  from collected [OF assms] obtain v p where "map_of vs n = Some v" "param_validate p v = nil_err" by auto
  then show ?thesis by (auto simp: part_value_def param_validate_def Let_def split: if_splits)
qed

section \<open>The rendered URL\<close>

lemma identifier_escapes:
  assumes "validTemplateIdentifier s"
  shows "PathEscape s = s" "QueryEscape s = s" "none_of ''/?#%&='' s"
proof -
  have all: "list_all unreserved s" using assms by (simp add: validTemplateIdentifier_def)
  then show "PathEscape s = s" unfolding PathEscape_def
    by (intro escape_by_id) (auto simp: list_all_iff segment_byte_def)
  have sp: "c \<noteq> CHR '' ''" "c \<notin> set ''/?#%&=''" if "unreserved c" for c
    using that by (auto simp: unreserved_def alnum_def is_digit_def between_def)
  show "QueryEscape s = s" using all sp by (induction s) (auto simp: QueryEscape_def)
  show "none_of ''/?#%&='' s" using all sp(2) by (auto simp: none_of_def list_all_iff)
qed

lemma split_on_join_by:
  "ss \<noteq> [] \<Longrightarrow> \<forall>s \<in> set ss. c \<notin> set s \<Longrightarrow> split_on c (join_by [c] ss) = ss"
  by (induction "[c]" ss rule: join_by.induct) (auto simp: split_on_no_sep split_on_append)

lemma list_all2_map_eq: "list_all2 (\<lambda>x y. f x = g y) xs ys \<Longrightarrow> map f xs = map g ys"
  by (induction rule: list_all2_induct) auto

text \<open>One segment of a compiled path, filled with checked values.\<close>

lemma filled_segment:
  assumes "collect_values ps params names = Inr vs" and "part_of declared s p" and "set declared \<subseteq> set names"
    and "literal_ok (\<lambda>l. (l = [] \<and> root) \<or> validTemplateIdentifier l) p"
  shows "(fill params s = [] \<and> root) \<or> validTemplateIdentifier (fill params s)"
proof (cases p)
  case (Literal l)
  then show ?thesis using assms(4) part_value_fill [OF assms(1-3)] by (simp add: literal_ok_def part_value_def)
next
  case (Placeholder n)
  then have "n \<in> set names" using assms(2,3) by (auto simp: part_of_def)
  from placeholder_identifier [OF assms(1) this] Placeholder part_value_fill [OF assms(1-3)] show ?thesis by simp
qed

lemma filled_path:
  assumes "compile_path root declared used segs = Inr (path, used')" and "segs \<noteq> []"
    and "collect_values ps params names = Inr vs" and "set declared \<subseteq> set names"
  defines "out \<equiv> map (fill params) segs"
  shows "map (part_value vs) path = out" "map PathEscape out = out" "split_on (CHR ''/'') (join_by ''/'' out) = out"
    "list_all (\<lambda>s. (s = [] \<and> root) \<or> validTemplateIdentifier s) out"
proof -
  note parts = compile_path_parts [OF assms(1)]
  show "map (part_value vs) path = out" unfolding out_def
    by (rule list_all2_map_eq [symmetric])
      (use parts part_value_fill [OF assms(3) _ assms(4)] in \<open>auto elim!: list_all2_mono simp: eq_commute\<close>)
  show seg: "list_all (\<lambda>s. (s = [] \<and> root) \<or> validTemplateIdentifier s) out"
    unfolding out_def list_all_iff
  proof clarsimp
    fix s assume "s \<in> set segs" and no: "\<not> validTemplateIdentifier (fill params s)"
    with parts obtain p where "part_of declared s p"
      "literal_ok (\<lambda>l. (l = [] \<and> root) \<or> validTemplateIdentifier l) p"
      by (fastforce simp: list_all2_conv_all_nth in_set_conv_nth)
    with filled_segment [OF assms(3) _ assms(4)] no show "fill params s = [] \<and> root" by blast
  qed
  then show "map PathEscape out = out"
    using identifier_escapes(1) by (auto simp: list_all_iff PathEscape_def escape_by_def intro!: map_idI)
  have "\<forall>s \<in> set out. CHR ''/'' \<notin> set s"
    using seg identifier_escapes(3) by (fastforce simp: none_of_def list_all_iff)
  then show "split_on (CHR ''/'') (join_by ''/'' out) = out"
    using split_on_join_by assms(2) by (simp add: out_def)
qed

lemma compiled_origin:
  assumes "compileTemplateOrigin parse_url parse_addr raw loopback = Inr u" and "parse_url raw = Some v"
  shows "u = v\<lparr>u_decoded := [], u_path := []\<rparr> \<and> u_host v \<noteq> [] \<and> u_user v = None \<and> u_opaque v = [] \<and>
      u_fragment v = [] \<and> u_query v = [] \<and> \<not> u_force_query v \<and>
      (if loopback then u_scheme v = ''http'' \<and> parse_addr (url_Hostname (url.truncate v)) = Some (True, [])
       else u_scheme v = ''https'')"
  using assms by (auto simp: compileTemplateOrigin_def Let_def split: if_splits)

lemma rendered_shape:
  assumes "CompileTargetTemplate env (Some cfg) = Inr t" and "Render t params = Inr u"
    and "te_url env (tc_origin cfg) = Some origin"
  shows "u_scheme u = u_scheme origin \<and> u_host u = u_host origin \<and> u_user u = None \<and> u_opaque u = [] \<and>
         u_fragment u = [] \<and>
         (if tc_allow_loopback cfg
          then u_scheme u = ''http'' \<and> te_addr env (url_Hostname (url.truncate u)) = Some (True, [])
          else u_scheme u = ''https'') \<and>
         split_on (CHR ''/'') (u_path u) = [] # map (fill params) (split_on (CHR ''/'') (tl (tc_path cfg))) \<and>
         list_all (\<lambda>s. (s = [] \<and> tc_path cfg = ''/'') \<or> validTemplateIdentifier s) (tl (split_on (CHR ''/'') (u_path u))) \<and>
         u_query u = Values_Encode (map (\<lambda>(key, s). (key, fill params s)) (tc_query cfg)) \<and>
         length (URL_String u) \<le> 4096"
proof -
  from compiled [OF assms(1)] obtain used used' where
    org: "compileTemplateOrigin (te_url env) (te_addr env) (tc_origin cfg) (tc_allow_loopback cfg) = Inr (tt_origin t)"
    and path: "compile_path (tc_path cfg = ''/'') (map fst (tt_parameters t)) [] (split_on (CHR ''/'') (tl (tc_path cfg))) =
       Inr (tt_path t, used)"
    and query: "compile_query (map fst (tt_parameters t)) used (tc_query cfg) = Inr (tt_query t, used')"
    by metis
  from assms(2) obtain vs where vs: "collect_values (tt_parameters t) params (tt_names t) = Inr vs"
    and u: "u = renderURL t vs" and len: "length (URL_String u) \<le> 4096"
    by (auto simp: Render_def Let_def split: if_splits sum.splits)
  have names: "set (map fst (tt_parameters t)) \<subseteq> set (tt_names t)" by (simp add: tt_names_def)
  note filled = filled_path [OF path split_on_nonempty vs names]
  have upath: "u_path u = ''/'' @ join_by ''/'' (map (fill params) (split_on (CHR ''/'') (tl (tc_path cfg))))"
    unfolding u renderURL_def Let_def filled(1) filled(2) by simp
  have "map (\<lambda>(key, p). (key, part_value vs p)) (tt_query t) = map (\<lambda>(key, s). (key, fill params s)) (tc_query cfg)"
    by (rule list_all2_map_eq [symmetric])
      (use compile_query_parts [OF query] part_value_fill [OF vs _ names] in \<open>auto elim!: list_all2_mono simp: eq_commute\<close>)
  then have q: "u_query u = Values_Encode (map (\<lambda>(key, s). (key, fill params s)) (tc_query cfg))"
    by (simp add: u renderURL_def Let_def)
  note orig = compiled_origin [OF org assms(3)]
  have "url_Hostname (url.truncate u) = url_Hostname (url.truncate origin)"
    using orig by (simp add: u renderURL_def Let_def url_Hostname_def url.defs)
  then show ?thesis using orig filled(3,4) upath q len
    by (simp add: u renderURL_def Let_def)
qed

text \<open>
  C16. A rendered URL is on the operator's origin (HTTPS, or HTTP on a literal loopback address that the
  operator opted into), without user information or a fragment. Its path has exactly the segments of the
  configured path, each placeholder filled by the caller's identifier, so no value adds, removes or climbs a
  segment; its query has exactly the configured keys. It is at most 4096 bytes.
\<close>

theorem render_confined:
  assumes "CompileTargetTemplate env (Some cfg) = Inr t" and "Render t params = Inr u"
    and "te_url env (tc_origin cfg) = Some origin"
  shows "u_scheme u = u_scheme origin \<and> u_host u = u_host origin \<and> u_user u = None \<and> u_opaque u = [] \<and>
         u_fragment u = [] \<and>
         (if tc_allow_loopback cfg
          then u_scheme u = ''http'' \<and> te_addr env (url_Hostname (url.truncate u)) = Some (True, [])
          else u_scheme u = ''https'') \<and>
         split_on (CHR ''/'') (u_path u) = [] # map (fill params) (split_on (CHR ''/'') (tl (tc_path cfg))) \<and>
         list_all (\<lambda>s. (s = [] \<and> tc_path cfg = ''/'') \<or> validTemplateIdentifier s) (tl (split_on (CHR ''/'') (u_path u))) \<and>
         u_query u = Values_Encode (map (\<lambda>(key, s). (key, fill params s)) (tc_query cfg)) \<and>
         length (URL_String u) \<le> 4096"
  using assms by (rule rendered_shape)

section \<open>Valid calls render\<close>

lemma collect_complete:
  assumes "\<forall>n \<in> set names. \<exists>v p. map_of params n = Some (Some v) \<and> map_of ps n = Some p \<and> param_validate p v = nil_err"
  shows "\<exists>vs. collect_values ps params names = Inr vs"
  using assms
proof (induction names)
  case (Cons n names)
  then obtain vs where "collect_values ps params names = Inr vs" by auto
  with Cons.prems show ?case by (auto split: option.splits)
qed simp

lemma sort_key_map_snd:
  fixes kps :: "(string \<times> 'a) list"
  shows "sort_key fst (map (\<lambda>(k, p). (k, f p)) kps) = map (\<lambda>(k, p). (k, f p)) (sort_key fst kps)"
proof -
  have ins: "insort_key fst (k, f p) (map (\<lambda>(k, p). (k, f p)) xs) = map (\<lambda>(k, p). (k, f p)) (insort_key fst (k, p) xs)"
    for k :: string and p :: 'a and xs by (induction xs) auto
  show ?thesis by (induction kps) (auto simp: ins)
qed

lemma join_by_mono:
  "list_all2 (\<lambda>a b. length a \<le> length b) as bs \<Longrightarrow> length (join_by sep as) \<le> length (join_by sep bs)"
proof (induction sep as arbitrary: bs rule: join_by.induct)
  case (3 sep a b as)
  then show ?case by (cases bs; cases "tl bs") (fastforce simp: list_all2_Cons1)+
qed (auto simp: list_all2_Cons1)

lemma URL_String_mono:
  assumes "u_scheme u = u_scheme v" "u_host u = u_host v" "u_user u = u_user v" "u_fragment u = u_fragment v"
    and "u_opaque u = []" "u_opaque v = []" "u_decoded u \<noteq> []" "u_decoded v \<noteq> []"
    and "u_force_query u = u_force_query v" "u_query u = [] \<longleftrightarrow> u_query v = []"
    and "has_prefix ''/'' (u_path u)" "has_prefix ''/'' (u_path v)"
    and "length (u_path u) \<le> length (u_path v)" "length (u_query u) \<le> length (u_query v)"
  shows "length (URL_String u) \<le> length (URL_String v)"
  using assms by (cases "u_path u"; cases "u_path v") (auto simp: URL_String_def has_prefix_def)

text \<open>Values that are no longer than others, and that no escape makes longer.\<close>

definition part_le :: "(string \<times> string) list \<Rightarrow> (string \<times> string) list \<Rightarrow> template_part \<Rightarrow> bool" where
  "part_le vs ws p \<longleftrightarrow> length (PathEscape (part_value vs p)) \<le> length (PathEscape (part_value ws p)) \<and>
     length (QueryEscape (part_value vs p)) \<le> length (QueryEscape (part_value ws p))"

lemma Values_Encode_mono:
  assumes "list_all (\<lambda>(k, p). part_le vs ws p) kps"
  shows "length (Values_Encode (map (\<lambda>(k, p). (k, part_value vs p)) kps)) \<le>
         length (Values_Encode (map (\<lambda>(k, p). (k, part_value ws p)) kps))"
  unfolding Values_Encode_def sort_key_map_snd map_map
  by (rule join_by_mono)
    (use assms in \<open>auto simp: list_all2_map1 list_all2_map2 list_all2_same list_all_iff part_le_def\<close>)

lemma Values_Encode_empty: "Values_Encode kvs = [] \<longleftrightarrow> kvs = []"
proof -
  have "join_by sep ss = [] \<longleftrightarrow> ss = []" if "\<forall>s \<in> set ss. s \<noteq> []" for sep ss
    using that by (induction sep ss rule: join_by.induct) auto
  from this [of "map (\<lambda>(k, v). QueryEscape k @ ''='' @ QueryEscape v) (sort_key fst kvs)" "''&''"]
  have "Values_Encode kvs = [] \<longleftrightarrow> sort_key fst kvs = []" unfolding Values_Encode_def by (auto simp: split_beta)
  then show ?thesis by (metis set_empty set_sort)
qed

lemma render_mono:
  assumes "list_all (part_le vs ws) (tt_path t)" and "list_all (\<lambda>(k, p). part_le vs ws p) (tt_query t)"
    and "u_opaque (tt_origin t) = []"
  shows "length (URL_String (renderURL t vs)) \<le> length (URL_String (renderURL t ws))"
proof (rule URL_String_mono)
  show "length (u_path (renderURL t vs)) \<le> length (u_path (renderURL t ws))"
    unfolding renderURL_def Let_def
    by (simp, rule join_by_mono)
      (use assms(1) in \<open>auto simp: list_all2_conv_all_nth list_all_iff part_le_def\<close>)
  show "length (u_query (renderURL t vs)) \<le> length (u_query (renderURL t ws))"
    using Values_Encode_mono [OF assms(2)] by (simp add: renderURL_def Let_def)
qed (use assms(3) in \<open>auto simp: renderURL_def Let_def Values_Encode_empty has_prefix_def\<close>)

lemma longest_value:
  assumes "map_of ps n = Some p" and "param_validate p v = nil_err" and "map_of vs n = Some v"
  shows "part_le vs (longest_values ps) (Placeholder n)"
proof -
  let ?x = "replicate (nat (tp_max (cp_schema p))) (CHR ''x'')"
  from assms(2) have v: "validTemplateIdentifier v" and len: "int (length v) \<le> tp_max (cp_schema p)"
    by (auto simp: param_validate_def Let_def split: if_splits)
  obtain m where "nat (tp_max (cp_schema p)) = Suc m"
    using v len by (cases v; cases "nat (tp_max (cp_schema p))") (auto simp: validTemplateIdentifier_def)
  then have "validTemplateIdentifier ?x"
    by (simp add: validTemplateIdentifier_def list_all_iff unreserved_def alnum_def between_def)
  moreover have "map_of (longest_values ps) n = Some ?x"
    using assms(1) unfolding longest_values_def by (induction ps) auto
  ultimately show ?thesis using v len assms(3) identifier_escapes by (simp add: part_le_def part_value_def)
qed

text \<open>
  A call that gives exactly the declared parameters, each a string its schema accepts, always renders: the
  bound on the rendered URL was settled when the template was compiled.
\<close>

theorem render_complete:
  assumes "CompileTargetTemplate env (Some cfg) = Inr t" and "te_url env (tc_origin cfg) = Some origin"
    and "length params = length (tt_parameters t)"
    and "list_all (\<lambda>(n, p). \<exists>v. map_of params n = Some (Some v) \<and> param_validate p v = nil_err) (tt_parameters t)"
  shows "\<exists>u. Render t params = Inr u"
proof -
  from compiled [OF assms(1)] obtain used used' where
    org: "compileTemplateOrigin (te_url env) (te_addr env) (tc_origin cfg) (tc_allow_loopback cfg) = Inr (tt_origin t)"
    and path: "compile_path (tc_path cfg = ''/'') (map fst (tt_parameters t)) [] (split_on (CHR ''/'') (tl (tc_path cfg))) =
       Inr (tt_path t, used)"
    and query: "compile_query (map fst (tt_parameters t)) used (tc_query cfg) = Inr (tt_query t, used')"
    and bound: "length (URL_String (renderURL t (longest_values (tt_parameters t)))) \<le> maxTemplateURLBytes"
    by metis
  have all: "\<forall>n \<in> set (tt_names t). \<exists>v p. map_of params n = Some (Some v) \<and> map_of (tt_parameters t) n = Some p \<and>
      param_validate p v = nil_err"
  proof
    fix n assume "n \<in> set (tt_names t)"
    then obtain p where p: "map_of (tt_parameters t) n = Some p"
      unfolding tt_names_def set_sort set_map by (metis domIff dom_map_of_conv_image_fst option.exhaust)
    from map_of_SomeD [OF this] assms(4) p
    show "\<exists>v p. map_of params n = Some (Some v) \<and> map_of (tt_parameters t) n = Some p \<and> param_validate p v = nil_err"
      by (auto simp: list_all_iff)
  qed
  from collect_complete [OF all] obtain vs where vs: "collect_values (tt_parameters t) params (tt_names t) = Inr vs" ..
  have le: "part_le vs (longest_values (tt_parameters t)) p" if "part_of (map fst (tt_parameters t)) s p" for s p
  proof (cases p)
    case (Placeholder n)
    then have "n \<in> set (tt_names t)" using that by (auto simp: part_of_def tt_names_def)
    from collected [OF vs this] longest_value Placeholder show ?thesis by auto
  qed (simp add: part_le_def part_value_def)
  have "length (URL_String (renderURL t vs)) \<le> maxTemplateURLBytes"
    by (rule order_trans [OF render_mono bound])
      (use compile_path_parts [OF path] compile_query_parts [OF query] le compiled_origin [OF org assms(2)] in
        \<open>auto simp: list_all_length list_all2_conv_all_nth split_beta\<close>)
  with vs assms(3) show ?thesis by (simp add: Render_def)
qed

section \<open>Fixed headers\<close>

lemma upper_char_idem: "upper_char (upper_char c) = upper_char c" "lower_char (lower_char c) = lower_char c"
  by (auto simp: upper_char_def lower_char_def)

lemma case_dash: "upper_char c = CHR ''-'' \<longleftrightarrow> c = CHR ''-''" "lower_char c = CHR ''-'' \<longleftrightarrow> c = CHR ''-''"
  by (auto simp: upper_char_def lower_char_def char_of_eq_iff take_bit_eq_mod)

lemma case_name_byte: "header_name_byte (upper_char c) = header_name_byte c" "header_name_byte (lower_char c) = header_name_byte c"
  by (auto simp: upper_char_def lower_char_def header_name_byte_def Let_def)

lemma canonical_idem [text_simps]: "canonical_header_key (canonical_header_key k) = canonical_header_key k"
proof -
  have "canonical_chars up (canonical_chars up k) = canonical_chars up k" for up
    by (induction up k rule: canonical_chars.induct) (auto simp: upper_char_idem case_dash)
  moreover have "list_all header_name_byte (canonical_chars up k) = list_all header_name_byte k" for up
    by (induction up k rule: canonical_chars.induct) (auto simp: case_name_byte)
  ultimately show ?thesis by (simp add: canonical_header_key_def)
qed

lemma canonical_name:
  assumes "canonicalTemplateHeader key = Inr k"
  shows "k = canonical_header_key key" "canonical_header_key k = k" "\<not> isBlockedOutboundHeader k" "k \<noteq> ''User-Agent''"
proof -
  show k: "k = canonical_header_key key" and "canonical_header_key k = k"
    using assms by (auto simp: canonicalTemplateHeader_def Let_def text_simps split: if_splits)
  show "\<not> isBlockedOutboundHeader k"
    using assms by (auto simp: k canonicalTemplateHeader_def Let_def blocked_lower text_simps split: if_splits)
  then show "k \<noteq> ''User-Agent''" by (auto simp: isBlockedOutboundHeader_def) code_simp
qed

lemma canonical_error [simp]: "canonicalTemplateHeader key \<noteq> Inl nil_err"
  by (simp add: canonicalTemplateHeader_def Let_def)

lemma header_set_fresh: "canonical_header_key k = k \<Longrightarrow> k \<notin> fst ` set h \<Longrightarrow> header_set h k v = h @ [(k, [v])]"
  by (force simp: header_set_def header_del_def filter_id_conv)

lemma compile_headers_exact:
  assumes "compile_headers writes h kvs = Inr h'" and "distinct (map fst h)"
  shows "h' = h @ map (\<lambda>(key, v). (canonical_header_key key, [v])) kvs" "distinct (map fst h')"
    "list_all (\<lambda>(key, v). canonicalTemplateHeader key = Inr (canonical_header_key key) \<and> validTemplateHeaderValue v \<and>
       \<not> (writes \<and> canonical_header_key key = ''Content-Type'')) kvs"
proof -
  have "h' = h @ map (\<lambda>(key, v). (canonical_header_key key, [v])) kvs \<and> distinct (map fst h') \<and>
    list_all (\<lambda>(key, v). canonicalTemplateHeader key = Inr (canonical_header_key key) \<and> validTemplateHeaderValue v \<and>
       \<not> (writes \<and> canonical_header_key key = ''Content-Type'')) kvs"
    using assms
  proof (induction writes h kvs rule: compile_headers.induct)
    case (2 writes h key v kvs)
    from "2.prems"(1) obtain k where k: "canonicalTemplateHeader key = Inr k"
      and ct: "\<not> (writes \<and> (k = ''Content-Type'' \<or> k = ''Content-Encoding''))" and new: "k \<notin> fst ` set h"
      and ok: "validTemplateHeaderValue v" and rest: "compile_headers writes (header_set h k v) kvs = Inr h'"
      by (auto split: sum.splits if_splits)
    note name = canonical_name [OF k] and set = header_set_fresh [OF canonical_name(2) [OF k] new, of v]
    have "distinct (map fst (header_set h k v))" using "2.prems"(2) new set by simp
    note ih = "2.IH" [OF k ct new _ rest this]
    show ?case
      by (intro conjI) (use ih k ct name(1) ok set in simp, use ih ok in blast, use ih k ct name(1) ok in auto)
  qed simp
  then show "h' = h @ map (\<lambda>(key, v). (canonical_header_key key, [v])) kvs" "distinct (map fst h')"
    "list_all (\<lambda>(key, v). canonicalTemplateHeader key = Inr (canonical_header_key key) \<and> validTemplateHeaderValue v \<and>
       \<not> (writes \<and> canonical_header_key key = ''Content-Type'')) kvs"
    by blast+
qed

section \<open>Header rules\<close>

lemma canonical_canonical:
  assumes "canonicalTemplateHeader key = Inr k"
  shows "canonicalTemplateHeader k = Inr k"
proof -
  have low: "to_lower k = to_lower key" and len: "length k = length key"
    and all: "list_all header_name_byte k = list_all header_name_byte key"
  proof -
    have "length (canonical_chars up key) = length key" "list_all header_name_byte (canonical_chars up key) = list_all header_name_byte key"
      for up by (induction up key rule: canonical_chars.induct) (auto simp: case_name_byte)
    then show "length k = length key" "list_all header_name_byte k = list_all header_name_byte key"
      by (auto simp: canonical_name(1) [OF assms] canonical_header_key_def)
  qed (simp add: canonical_name(1) [OF assms] text_simps)
  have "k \<noteq> []" using len assms by (auto simp: canonicalTemplateHeader_def)
  then show ?thesis
    using assms canonical_name [OF assms] low len all
    by (auto simp: canonicalTemplateHeader_def Let_def split: if_splits)
qed

text \<open>What compilation guarantees of one rule, under its source name.\<close>

definition rule_ok :: "bool \<Rightarrow> header \<Rightarrow> string \<times> compiled_rule \<Rightarrow> bool" where
  "rule_ok writes fixed = (\<lambda>(source, r). let d = hr_forward_as (cr_schema r) in
     hr_name (cr_schema r) = source \<and> canonicalTemplateHeader source = Inr source \<and> canonicalTemplateHeader d = Inr d \<and>
     source \<notin> fst ` set fixed \<and> d \<notin> fst ` set fixed \<and> \<not> (writes \<and> d \<in> {''Content-Type'', ''Content-Encoding''}) \<and>
     (isTemplateCredentialHeader d \<longrightarrow> hr_credential (cr_schema r) \<and> supportedTemplateCredentialHeader d))"

definition rules_ok :: "bool \<Rightarrow> header \<Rightarrow> rule_map \<Rightarrow> rule_map \<Rightarrow> bool" where
  "rules_ok writes fixed rules dests \<longleftrightarrow>
     dests = map (\<lambda>(_, r). (hr_forward_as (cr_schema r), r)) rules \<and> distinct (map fst rules) \<and> distinct (map fst dests) \<and>
     list_all (rule_ok writes fixed) rules"

lemma header_validation_schema:
  "compileTemplateHeaderValidation re rule = Inr r \<Longrightarrow> cr_schema r = rule"
  by (auto simp: compileTemplateHeaderValidation_def Let_def split: if_splits option.splits)

lemma compile_rule_ok:
  assumes "compile_rule re writes fixed rules dests rule = Inr (rules', dests')" and "rules_ok writes fixed rules dests"
  shows "rules_ok writes fixed rules' dests'"
proof -
  from assms(1) obtain s d r where s: "canonicalTemplateHeader (hr_name rule) = Inr s"
    and d: "(if hr_forward_as rule \<noteq> [] then canonicalTemplateHeader (hr_forward_as rule) else Inr s) = Inr d"
    and names: "check_rule_name writes fixed rule s = nil_err" "check_rule_name writes fixed rule d = nil_err"
    and new: "s \<notin> fst ` set rules" "d \<notin> fst ` set dests"
    and r: "compileTemplateHeaderValidation re (rule\<lparr>hr_name := s, hr_forward_as := d\<rparr>) = Inr r"
    and out: "rules' = rules @ [(s, r)]" "dests' = dests @ [(d, r)]"
    by (auto simp: compile_rule_def Let_def split: if_splits sum.splits list.splits)
  have d': "canonicalTemplateHeader d = Inr d" "canonicalTemplateHeader s = Inr s"
    using s d canonical_canonical by (auto split: if_splits)
  have "rule_ok writes fixed (s, r)"
    using names d' by (auto simp: rule_ok_def header_validation_schema [OF r] check_rule_name_def split: if_splits)
  then show ?thesis
    using assms(2) new header_validation_schema [OF r] by (auto simp: rules_ok_def out)
qed

lemma compileHeaderRules_ok:
  assumes "compileHeaderRules re writes fixed rs = Inr (rules, dests)"
  shows "rules_ok writes fixed rules dests"
proof -
  have "rules_ok writes fixed (fst rd') (snd rd')"
    if "compile_rules re writes fixed rd rs = Inr rd'" "rules_ok writes fixed (fst rd) (snd rd)" for rd rd'
    using that
    by (induction re writes fixed rd rs rule: compile_rules.induct) (auto split: sum.splits dest: compile_rule_ok)
  from this [of "([], [])" "(rules, dests)"] assms show ?thesis
    by (auto simp: compileHeaderRules_def rules_ok_def split: sum.splits if_splits)
qed

section \<open>The outbound boundary\<close>

lemma first_error_nil: "first_error f xs = nil_err \<longleftrightarrow> list_all (\<lambda>x. f x = nil_err) xs"
  by (induction xs) auto

lemma QueryEscape_plain: "none_of ''#'' (QueryEscape s)"
proof -
  have "none_of ''#'' (escape_by unreserved t)" for t
    unfolding none_of_def
    by (rule escape_by_bytes) (auto simp: unreserved_def alnum_def is_digit_def between_def)
  from this [of "[c]" for c] show ?thesis
    by (induction s) (auto simp: QueryEscape_def escape_by_def none_of_def split: if_splits)
qed

lemma Values_Encode_plain: "none_of ''#'' (Values_Encode kvs)"
proof -
  have join: "none_of ''#'' (join_by ''&'' ss)" if "\<forall>s \<in> set ss. none_of ''#'' s" for ss
    using that by (induction "''&''" ss rule: join_by.induct) (auto simp: none_of_def)
  show ?thesis unfolding Values_Encode_def
    by (rule join) (use QueryEscape_plain in \<open>auto simp: none_of_def\<close>)
qed

lemma split_on_chars: "c \<noteq> sep \<Longrightarrow> (\<forall>s \<in> set (split_on sep t). c \<notin> set s) \<Longrightarrow> c \<notin> set t"
  by (induction t) (auto split: if_splits list.splits)

lemma Render_error [simp]: "Render t params \<noteq> Inl nil_err"
proof -
  have "collect_values ps params names \<noteq> Inl nil_err" for ps names
    by (induction ps params names rule: collect_values.induct) (auto split: option.splits sum.splits if_splits)
  then show ?thesis by (auto simp: Render_def Let_def split: sum.splits)
qed

text \<open>What may be in the header of an outbound template request, and where it comes from.\<close>

definition permitted :: "string \<Rightarrow> template_config \<Rightarrow> target_template \<Rightarrow> string option \<Rightarrow> string \<times> string list \<Rightarrow> bool" where
  "permitted user_agent cfg t contentType = (\<lambda>(k, vs).
     (k = ''User-Agent'' \<and> vs = [user_agent]) \<or>
     (tt_body t \<noteq> None \<and> k = ''Content-Type'' \<and> map Some vs = [contentType]) \<or>
     (\<not> isBlockedOutboundHeader k \<and>
        (\<exists>(key, v) \<in> set (tc_headers cfg). k = canonical_header_key key \<and> vs = [v])) \<or>
     (\<not> isBlockedOutboundHeader k \<and>
        (\<exists>(source, r) \<in> set (tt_rules t). k = hr_forward_as (cr_schema r) \<and> list_all (\<lambda>v. rule_validate r v = nil_err) vs \<and>
          (isTemplateCredentialHeader k \<longrightarrow> hr_credential (cr_schema r)))))"

lemma outbound_header_permitted:
  assumes "CompileTargetTemplate env (Some cfg) = Inr t"
    and "outbound_header (te_user_agent env) t contentType (k, vs) = nil_err"
  shows "permitted (te_user_agent env) cfg t contentType (k, vs)"
proof -
  from compiled [OF assms(1)] obtain rs where
    h: "compile_headers (tt_body t \<noteq> None) [] (tc_headers cfg) = Inr (tt_headers t)"
    and rules: "compileHeaderRules (te_regexp env) (tt_body t \<noteq> None) (tt_headers t) rs = Inr (tt_rules t, tt_dests t)"
    by metis
  from assms(2) obtain v where v: "vs = [v]" by (cases vs; cases "tl vs") (auto simp: outbound_header_def split: if_splits)
  consider "k = ''User-Agent''" "v = te_user_agent env" | "tt_body t \<noteq> None" "k = ''Content-Type''" "contentType = Some v"
    | fixed where "canonicalTemplateHeader k = Inr k" "map_of (tt_headers t) k = Some fixed" "v = hd fixed"
    | r where "canonicalTemplateHeader k = Inr k" "map_of (tt_dests t) k = Some r" "rule_validate r v = nil_err"
    using assms(2) v
    by (auto simp: outbound_header_def policy_simps split: if_splits sum.splits option.splits dest: canonical_canonical canonical_name)
  then show ?thesis
  proof cases
    case 3
    then have "(k, fixed) \<in> set (tt_headers t)" by (auto dest: map_of_SomeD)
    with compile_headers_exact(1) [OF h] 3 v canonical_name(3) [OF 3(1)] show ?thesis
      by (fastforce simp: permitted_def)
  next
    case 4
    note ok = compileHeaderRules_ok [OF rules]
    from 4 have "(k, r) \<in> set (tt_dests t)" by (auto dest: map_of_SomeD)
    with ok obtain source where "(source, r) \<in> set (tt_rules t)" "k = hr_forward_as (cr_schema r)"
      by (auto simp: rules_ok_def)
    moreover from this ok have "isTemplateCredentialHeader k \<longrightarrow> hr_credential (cr_schema r)"
      by (auto simp: rules_ok_def list_all_iff rule_ok_def Let_def)
    ultimately show ?thesis using 4 v canonical_name(3) [OF 4(1)] by (auto simp: permitted_def)
  qed (simp_all add: permitted_def v)
qed

lemma rendered_parsed:
  assumes "CompileTargetTemplate env (Some cfg) = Inr t" and "Render t params = Inr u"
    and "te_url env (tc_origin cfg) = Some origin" and "parsed origin"
  shows "parsed u"
proof -
  note conf = rendered_shape [OF assms(1-3)]
  have "c \<notin> set (u_path u)" if "c \<in> set ''?#''" for c
  proof (rule split_on_chars)
    show "\<forall>s \<in> set (split_on (CHR ''/'') (u_path u)). c \<notin> set s"
      using conf that identifier_escapes(3) by (cases "split_on (CHR ''/'') (u_path u)")
        (fastforce simp: list_all_iff none_of_def)+
  qed (use that in auto)
  then have "none_of ''?#'' (u_path u)" by (auto simp: none_of_def list_all_iff)
  moreover have "u_path u = [] \<or> hd (u_path u) = CHR ''/''"
    using assms(2) by (auto simp: Render_def Let_def renderURL_def split: sum.splits if_splits)
  ultimately show ?thesis using conf assms(4) Values_Encode_plain by (auto simp: parsed_def)
qed

lemma outbound_shape:
  assumes "CompileTargetTemplate env (Some cfg) = Inr t"
    and "validateRequest (te_user_agent env) t (Some req) params body contentType = nil_err"
    and "te_url env (tc_origin cfg) = Some origin" and "parsed origin"
    and "hq_url req = Some u" and "parsed u"
  shows "\<exists>expected. Render t params = Inr expected \<and>
           u_scheme u = u_scheme origin \<and> u_host u = u_host origin \<and> u_user u = None \<and> u_fragment u = [] \<and>
           u_path u = u_path expected \<and> u_query u = u_query expected \<and>
           hq_host req \<in> {[], u_host origin} \<and> hq_method req = tc_method cfg \<and>
           list_all (permitted (te_user_agent env) cfg t contentType) (hq_header req) \<and>
           list_all (\<lambda>(key, v). (canonical_header_key key, [v]) \<in> set (hq_header req)) (tc_headers cfg) \<and>
           hq_body req = (if tc_method cfg = ''GET'' then None else Some (case body of None \<Rightarrow> [] | Some b \<Rightarrow> b))"
proof -
  from compiled [OF assms(1)] obtain
    meth: "tt_method t = tc_method cfg" and
    h: "compile_headers (tt_body t \<noteq> None) [] (tc_headers cfg) = Inr (tt_headers t)"
    by metis
  from assms(2,5) obtain e where e: "Render t params = Inr e"
    and req: "hq_method req = tt_method t" "URL_String u = URL_String e" "hq_host req \<in> {[], u_host e}"
      "validateRequestBody t req body contentType = nil_err"
    and heads: "list_all (\<lambda>kv. outbound_header (te_user_agent env) t contentType kv = nil_err) (hq_header req)"
    and fixed: "\<forall>(key, vs) \<in> set (tt_headers t). key \<in> fst ` set (hq_header req)"
    by (auto simp: validateRequest_def first_error_nil list_ex_iff split: sum.splits if_splits)
  note conf = rendered_shape [OF assms(1) e assms(3)]
  note key = url_key_inj [OF assms(6) rendered_parsed [OF assms(1) e assms(3,4)] req(2)]
  note exact = compile_headers_exact [OF h]
  have perm: "list_all (permitted (te_user_agent env) cfg t contentType) (hq_header req)"
    using heads outbound_header_permitted [OF assms(1)] by (auto simp: list_all_iff)
  have pinned: "(canonical_header_key k, [v]) \<in> set (hq_header req)" if kv: "(k, v) \<in> set (tc_headers cfg)" for k v
  proof -
    let ?k = "canonical_header_key k"
    have mem: "(?k, [v]) \<in> set (tt_headers t)" using exact(1) kv by force
    then have val: "map_of (tt_headers t) ?k = Some [v]" using exact(2) by (simp add: map_of_eq_Some_iff)
    from fixed mem obtain vs where vs: "(?k, vs) \<in> set (hq_header req)" by force
    have name: "canonicalTemplateHeader k = Inr ?k" "\<not> (tt_body t \<noteq> None \<and> ?k = ''Content-Type'')"
      using exact(3) kv by (auto simp: list_all_iff)
    from vs heads have "outbound_header (te_user_agent env) t contentType (?k, vs) = nil_err" by (auto simp: list_all_iff)
    then have "vs = [v]"
      using name(2) canonical_name(4) [OF name(1)] val canonical_canonical [OF name(1)]
      by (cases vs; cases "tl vs") (auto simp: outbound_header_def policy_simps split: if_splits)
    with vs show ?thesis by simp
  qed
  have "hq_body req = (if tc_method cfg = ''GET'' then None else Some (case body of None \<Rightarrow> [] | Some b \<Rightarrow> b))"
    using req(4) meth by (auto simp: validateRequestBody_def Let_def policy_simps split: list.splits if_splits)
  with e conf key req meth perm pinned show ?thesis by (auto simp: list_all_iff)
qed

text \<open>
  A request that passes the check at the outbound boundary goes to the operator's scheme and host, with the
  path and query that the call's identifiers render to. Its method is the operator's, it carries every fixed
  header with the operator's value, and each other header is the client's user agent, the checked content type, or
  one that a rule permits with a value the rule accepts. Its body is the call's, byte for byte.
\<close>

theorem outbound_confined:
  assumes "CompileTargetTemplate env (Some cfg) = Inr t"
    and "validateRequest (te_user_agent env) t (Some req) params body contentType = nil_err"
    and "te_url env (tc_origin cfg) = Some origin" and "parsed origin"
    and "hq_url req = Some u" and "parsed u"
  shows "\<exists>expected. Render t params = Inr expected \<and>
           u_scheme u = u_scheme origin \<and> u_host u = u_host origin \<and> u_user u = None \<and> u_fragment u = [] \<and>
           u_path u = u_path expected \<and> u_query u = u_query expected \<and>
           hq_host req \<in> {[], u_host origin} \<and> hq_method req = tc_method cfg \<and>
           list_all (permitted (te_user_agent env) cfg t contentType) (hq_header req) \<and>
           list_all (\<lambda>(key, v). (canonical_header_key key, [v]) \<in> set (hq_header req)) (tc_headers cfg) \<and>
           hq_body req = (if tc_method cfg = ''GET'' then None else Some (case body of None \<Rightarrow> [] | Some b \<Rightarrow> b))"
  by (rule outbound_shape [OF assms])

section \<open>An example\<close>

text \<open>One write operation with an identifier in the path, a pinned header and a caller header.\<close>

definition example_origin :: web_url where
  "example_origin = \<lparr>u_scheme = ''https'', u_host = ''a.test'', u_path = [], u_decoded = [], u_opaque = [], u_user = None,
     u_query = [], u_force_query = False, u_fragment = []\<rparr>"

definition example_template_env :: template_env where
  "example_template_env = \<lparr>te_regexp = (\<lambda>_. Some (\<lambda>s. True)), te_media = (\<lambda>s. Some (s, 0)),
     te_url = (\<lambda>s. if s = ''https://a.test'' then Some example_origin else None), te_addr = (\<lambda>_. None),
     te_sha256 = (\<lambda>_. ''d''), te_user_agent = ''ua''\<rparr>"

definition example_parameter :: template_parameter where
  "example_parameter = \<lparr>tp_type = ''string'', tp_required = True, tp_description = [], tp_examples = [], tp_pattern = [],
     tp_enum = [''x'', ''yz''], tp_min = 0, tp_max = 2, tp_reserved = []\<rparr>"

definition example_config :: template_config where
  "example_config = \<lparr>tc_version = 1, tc_origin = ''https://a.test'', tc_allow_loopback = False, tc_method = ''PUT'',
     tc_body = Some \<lparr>bp_content_types = [''text/plain''], bp_max_bytes = 8, bp_required = Some True,
       bp_validation = Some \<lparr>bv_json = False, bv_pattern = [], bv_enum = [''on'']\<rparr>\<rparr>,
     tc_path = ''/v/{id}'', tc_query = [(''q'', ''{id}'')], tc_parameters = [(''id'', example_parameter)],
     tc_headers = [(''x-pin'', ''p'')], tc_allowed = Some [''x-app''], tc_rules = None, tc_rules_key = [], tc_follow = False\<rparr>"

definition example_checked :: compiled_parameter where
  "example_checked = \<lparr>cp_schema = example_parameter\<lparr>tp_min := 1\<rparr>, cp_pattern = None\<rparr>"

definition example_body_policy :: compiled_body where
  "example_body_policy = \<lparr>cb_content_types = [''text/plain''], cb_max_bytes = 8, cb_required = True,
     cb_validation = \<lparr>bv_json = False, bv_pattern = [], bv_enum = [''on'']\<rparr>, cb_pattern = None\<rparr>"

definition example_rule :: compiled_rule where
  "example_rule = \<lparr>cr_schema = \<lparr>hr_name = ''X-App'', hr_description = [], hr_required = False, hr_credential = False,
     hr_forward_as = ''X-App'', hr_validation = None, hr_legacy = True\<rparr>, cr_pattern = None\<rparr>"

definition example_policy :: target_template where
  "example_policy = \<lparr>tt_method = ''PUT'', tt_body = Some example_body_policy, tt_origin = example_origin, tt_loopback = False,
     tt_path = [Literal ''v'', Placeholder ''id''], tt_query = [(''q'', Placeholder ''id'')],
     tt_parameters = [(''id'', example_checked)], tt_headers = [(''X-Pin'', [''p''])], tt_rules = [(''X-App'', example_rule)],
     tt_dests = [(''X-App'', example_rule)], tt_digest = [], tt_token = []\<rparr>"

definition example_template :: target_template where
  "example_template = example_policy\<lparr>tt_digest := computePolicyDigest (te_sha256 example_template_env) example_policy,
     tt_token := ''write-v1:'' @ te_sha256 example_template_env (json_text (operation_json example_policy))\<rparr>"

lemma example_steps:
  "compileTemplateBodyPolicy re (\<lambda>s. Some (s, 0)) ''PUT'' (tc_body example_config) = Inr (Some example_body_policy)"
  "compileTemplateOrigin (te_url example_template_env) (te_addr example_template_env) ''https://a.test'' False = Inr example_origin"
  "compile_parameters re [(''id'', example_parameter)] = Inr [(''id'', example_checked)]"
  "compile_path False [''id''] [] (split_on (CHR ''/'') ''v/{id}'') = Inr ([Literal ''v'', Placeholder ''id''], [''id''])"
  "compile_query [''id''] [''id''] [(''q'', ''{id}'')] = Inr ([(''q'', Placeholder ''id'')], [''id'', ''id''])"
  "compile_headers True [] [(''x-pin'', ''p'')] = Inr [(''X-Pin'', [''p''])]"
  "length (URL_String (renderURL example_policy (longest_values [(''id'', example_checked)]))) = 24"
  "validateTemplateHeaderSize ''ua'' [(''X-Pin'', [''p''])] = nil_err"
proof -
  have "\<not> has_suffix ''+json'' ''text/plain''" by code_simp
  then show "compileTemplateBodyPolicy re (\<lambda>s. Some (s, 0)) ''PUT'' (tc_body example_config) = Inr (Some example_body_policy)"
    by (simp add: compileTemplateBodyPolicy_def example_config_def example_body_policy_def body_validate_def Let_def between_def)
  show "compile_parameters re [(''id'', example_parameter)] = Inr [(''id'', example_checked)]"
    by (simp add: compileTemplateParameter_def example_parameter_def example_checked_def Let_def no_budget_def
        param_validate_def validTemplateIdentifier_def unreserved_def alnum_def between_def is_digit_def
        templateNamePattern_def)
qed code_simp+

lemma example_rules:
  "compileHeaderRules re True [(''X-Pin'', [''p''])] [\<lparr>hr_name = ''x-app'', hr_description = [], hr_required = False,
     hr_credential = False, hr_forward_as = [], hr_validation = None, hr_legacy = True\<rparr>] =
   Inr ([(''X-App'', example_rule)], [(''X-App'', example_rule)])"
proof -
  have "canonicalTemplateHeader ''x-app'' = Inr ''X-App''" "\<not> isTemplateCredentialHeader ''X-App''" by code_simp+
  then show ?thesis
    by (simp add: compileHeaderRules_def compile_rule_def check_rule_name_def compileTemplateHeaderValidation_def
        example_rule_def Let_def)
qed

lemma example_fields:
  "tc_version example_config = 1" "tc_method example_config = ''PUT''" "\<not> tc_follow example_config"
  "tc_origin example_config = ''https://a.test''" "\<not> tc_allow_loopback example_config"
  "tc_path example_config = ''/v/{id}''" "tc_query example_config = [(''q'', ''{id}'')]"
  "tc_parameters example_config = [(''id'', example_parameter)]" "tc_headers example_config = [(''x-pin'', ''p'')]"
  "NormalizedHeaderRules example_config = Inr [\<lparr>hr_name = ''x-app'', hr_description = [], hr_required = False,
     hr_credential = False, hr_forward_as = [], hr_validation = None, hr_legacy = True\<rparr>]"
  "te_media example_template_env = (\<lambda>s. Some (s, 0))" "te_user_agent example_template_env = ''ua''"
  by (simp_all add: example_config_def example_template_env_def NormalizedHeaderRules_def)

lemma example_compiled: "CompileTargetTemplate example_template_env (Some example_config) = Inr example_template"
proof -
  have "unused_parameters [''id''] [''id'', ''id''] = nil_err" by (simp add: unused_parameters_def)
  then show ?thesis
    by (simp add: CompileTargetTemplate_def example_fields example_steps [unfolded example_policy_def] example_rules
        example_template_def example_policy_def and_then_def unless_err_def fail_if_def Let_def has_prefix_def
        del: compile_path.simps compile_query.simps compile_headers.simps compile_parameters.simps split_on.simps)
qed

definition example_arguments :: call_parameters where
  "example_arguments = [(''id'', Some ''yz'')]"

definition example_rendered :: web_url where
  "example_rendered = renderURL example_policy [(''id'', ''yz'')]"

definition example_template_request :: template_request where
  "example_template_request = \<lparr>hq_method = ''PUT'', hq_url = Some example_rendered, hq_uri = [], hq_host = ''a.test'',
     hq_header = [(''X-App'', [''1'']), (''X-Pin'', [''p'']), (''User-Agent'', [''ua'']), (''Content-Type'', [''text/plain''])],
     hq_body = Some ''on'', hq_length = 2, hq_encodings = [], hq_trailer = [], hq_get_body = False\<rparr>"

lemma example_text: "URL_String example_rendered = ''https://a.test/v/yz?q=yz''"
  by code_simp

text \<open>Neither rendering nor the outbound check reads the fingerprints.\<close>

lemma fingerprints_unread:
  "Render (t\<lparr>tt_digest := d, tt_token := k\<rparr>) ps = Render t ps"
  "validateRequest ua (t\<lparr>tt_digest := d, tt_token := k\<rparr>) req ps body ct = validateRequest ua t req ps body ct"
proof -
  show render: "Render (t\<lparr>tt_digest := d, tt_token := k\<rparr>) ps = Render t ps"
    by (simp add: Render_def renderURL_def tt_names_def Let_def split: sum.split)
  show "validateRequest ua (t\<lparr>tt_digest := d, tt_token := k\<rparr>) req ps body ct = validateRequest ua t req ps body ct"
    by (simp add: validateRequest_def render validateRequestBody_def outbound_header_def
        cong: sum.case_cong option.case_cong list.case_cong prod.case_cong if_cong)
qed

lemma example_renders: "Render example_template example_arguments = Inr example_rendered"
  unfolding example_template_def fingerprints_unread by code_simp

lemma example_accepted:
  "validateRequest ''ua'' example_template (Some example_template_request) example_arguments (Some ''on'') (Some ''text/plain'') = nil_err"
  unfolding example_template_def fingerprints_unread by code_simp

theorem render_confined_witness:
  "split_on (CHR ''/'') (u_path example_rendered) = [[], ''v'', ''yz''] \<and> u_host example_rendered = ''a.test''"
proof -
  have "te_url example_template_env (tc_origin example_config) = Some example_origin" by code_simp
  from render_confined [OF example_compiled example_renders this]
  show ?thesis by (simp add: example_fields example_origin_def fill_def example_arguments_def has_prefix_def) code_simp
qed

theorem render_complete_witness: "\<exists>u. Render example_template example_arguments = Inr u"
proof (rule render_complete [OF example_compiled])
  show "te_url example_template_env (tc_origin example_config) = Some example_origin" by code_simp
  show "length example_arguments = length (tt_parameters example_template)"
    by (simp add: example_arguments_def example_template_def example_policy_def)
  have "param_validate example_checked ''yz'' = nil_err" by code_simp
  then show "list_all (\<lambda>(n, p). \<exists>v. map_of example_arguments n = Some (Some v) \<and> param_validate p v = nil_err)
      (tt_parameters example_template)"
    by (simp add: example_arguments_def example_template_def example_policy_def)
qed

theorem outbound_confined_witness:
  "u_host example_rendered = ''a.test'' \<and> (''X-Pin'', [''p'']) \<in> set (hq_header example_template_request)"
proof -
  have "te_url example_template_env (tc_origin example_config) = Some example_origin" "parsed example_origin"
    "hq_url example_template_request = Some example_rendered" "parsed example_rendered"
    "canonical_header_key ''x-pin'' = ''X-Pin''"
    by code_simp+
  with outbound_confined [OF example_compiled, of example_template_request example_arguments "Some ''on''" "Some ''text/plain''"
      example_origin example_rendered] example_accepted
  show ?thesis by (auto simp: example_fields example_origin_def)
qed

end
