(* ===== verification/HarpoonRegistry.thy ===== *)
theory HarpoonRegistry
  imports TemplateSafety
begin

text \<open>
  The registry of allow-listed Harpoon targets (\<open>pkg/runtimeharpoon/registry.go\<close>,
  \<open>metadata.go\<close>, \<open>discovery_budget.go\<close>). A URL is allowed when its normalized text is
  that of a registered exact target. Under the registry's lock an operation is one
  step; \<open>ExplainBlockedRedirect\<close> computes under the read lock and stores its result
  in a second step. The state channel is a count of how often it was closed. The text
  of a target's public description, which a third-party schema reflector builds, is
  the parameter \<open>public\<close>.
\<close>

section \<open>Targets\<close>

record target =
  tg_label :: string
  tg_description :: string
  tg_category :: string
  tg_source :: string
  tg_tags :: "string list"
  tg_reason :: string
  tg_base :: "web_url option"
  tg_socket :: string
  tg_template :: "target_template option"
  tg_original :: "web_url option"

definition IsLoopbackHTTPTemplate :: "target \<Rightarrow> bool" where
  "IsLoopbackHTTPTemplate t = (case tg_template t of None \<Rightarrow> False | Some p \<Rightarrow> tt_loopback p)"

definition labelPattern :: "string \<Rightarrow> bool" where
  "labelPattern s \<longleftrightarrow> s \<noteq> [] \<and> length s \<le> 64 \<and> (between 97 122 (hd s) \<or> is_digit (hd s)) \<and>
     list_all (\<lambda>c. between 97 122 c \<or> is_digit c \<or> c = CHR ''_'' \<or> c = CHR ''-'') s"

definition normalizeToken :: "string \<Rightarrow> string" where
  "normalizeToken s = to_lower (trim_space s)"

definition normalizeCategorySource :: "string \<Rightarrow> string \<Rightarrow> string \<times> string" where
  "normalizeCategorySource category source =
     (let category = normalizeToken category; source = normalizeToken source;
          category = (if category = [] then source else category);
          source = (if source = [] then category else source);
          source = (if category \<noteq> [] then category else source)
      in (category, source))"

definition normalizeTags :: "string list \<Rightarrow> string list" where
  "normalizeTags tags = sort (rev (remdups (rev (filter (\<lambda>s. s \<noteq> []) (map normalizeToken tags)))))"

definition isHTTPS :: "web_url \<Rightarrow> bool" where
  "isHTTPS u = equal_fold (u_scheme u) ''https''"

fun PathUnescape :: "string \<Rightarrow> string option" where
  "PathUnescape [] = Some []"
| "PathUnescape (c # s) =
     (if c \<noteq> CHR ''%'' then map_option (\<lambda>r. c # r) (PathUnescape s)
      else case s of
        a # b # r \<Rightarrow>
          (case (hex_digit a, hex_digit b) of
             (Some x, Some y) \<Rightarrow> map_option (\<lambda>t. char_of (16 * x + y) # t) (PathUnescape r)
           | _ \<Rightarrow> None)
      | _ \<Rightarrow> None)"

definition hasTraversal :: "string \<Rightarrow> bool" where
  "hasTraversal path = list_ex (\<lambda>segment. segment \<noteq> [] \<and>
     (case PathUnescape segment of None \<Rightarrow> True | Some s \<Rightarrow> s = ''.'' \<or> s = ''..'')) (split_on (CHR ''/'') path)"

definition normalizeURL :: "web_url \<Rightarrow> web_url option" where
  "normalizeURL u = (if u_scheme u = [] \<or> u_host u = [] then None
     else Some (u\<lparr>u_scheme := to_lower (u_scheme u), u_host := to_lower (u_host u)\<rparr>))"

definition normalizedURLKey :: "web_url \<Rightarrow> string option" where
  "normalizedURLKey u = map_option URL_String (normalizeURL u)"

section \<open>Redirect explanations\<close>

datatype mismatch = SchemeHTTPToHTTPS | SchemeHTTPSToHTTP | MismatchPath | MismatchQuery | MismatchHost | MismatchOther

record redirect_details =
  rd_kind :: mismatch
  rd_expected :: string
  rd_expected_scheme :: string
  rd_actual_scheme :: string

record redirect_match =
  rm_scheme :: string
  rm_host :: string
  rm_exact :: string
  rm_comparable :: string
  rm_query :: string

definition comparableRedirectPath :: "string \<Rightarrow> string" where
  "comparableRedirectPath path =
     (if path = [] then ''/'' else let trimmed = trim_right (CHR ''/'') path in if trimmed = [] then ''/'' else trimmed)"

definition analyzeRedirectURL :: "web_url \<Rightarrow> redirect_match" where
  "analyzeRedirectURL u =
     (let exact = (if u_path u = [] then ''/'' else u_path u) in
      \<lparr>rm_scheme = to_lower (u_scheme u), rm_host = to_lower (u_host u), rm_exact = exact,
       rm_comparable = comparableRedirectPath exact, rm_query = u_query u\<rparr>)"

definition schemeMismatchKind :: "string \<Rightarrow> string \<Rightarrow> mismatch" where
  "schemeMismatchKind expected actual =
     (if expected = ''http'' \<and> actual = ''https'' then SchemeHTTPToHTTPS
      else if expected = ''https'' \<and> actual = ''http'' then SchemeHTTPSToHTTP
      else MismatchOther)"

definition redirectExplainCacheKey :: "(string \<Rightarrow> string) \<Rightarrow> string \<Rightarrow> string" where
  "redirectExplainCacheKey sha256 key = (if length key \<le> 2048 then key else ''sha256:'' @ sha256 key)"

section \<open>The registry\<close>

text \<open>
  \<open>rg_targets\<close> is the map by label, in the order it happens to be iterated; \<open>rg_ordered\<close>
  keeps the order of registration. \<open>rg_keys\<close> are the normalized URLs of the exact targets.
\<close>

record registry =
  rg_plaintext :: bool
  rg_limit :: nat
  rg_targets :: "(string \<times> target) list"
  rg_ordered :: "target list"
  rg_keys :: "string list"
  rg_cache_limit :: int
  rg_cache :: "(string \<times> redirect_details option) list"
  rg_cache_order :: "string list"
  rg_state :: nat
  rg_discovery :: nat
  rg_rich :: bool

abbreviation maxTemplateCatalogBytes :: nat where "maxTemplateCatalogBytes \<equiv> 512 * 1024 - 64 * 1024"

definition targetDiscoveryBytes :: "(target \<Rightarrow> string option) \<Rightarrow> target \<Rightarrow> nat option" where
  "targetDiscoveryBytes public t = map_option (\<lambda>payload.
     if length payload > maxTemplateCatalogBytes then maxTemplateCatalogBytes + 1
     else min (maxTemplateCatalogBytes + 1) (length payload + length (json_string payload))) (public t)"

text \<open>The exact targets with their routing keys, in iteration order.\<close>

definition exact_entry :: "target \<Rightarrow> (string \<times> target) list" where
  "exact_entry t = (case (tg_base t, tg_template t) of
     (Some u, None) \<Rightarrow> (case normalizedURLKey u of None \<Rightarrow> [] | Some k \<Rightarrow> [(k, t)])
   | _ \<Rightarrow> [])"

definition exact_targets :: "registry \<Rightarrow> (string \<times> target) list" where
  "exact_targets r = concat (map (\<lambda>(_, t). exact_entry t) (rg_targets r))"

definition hasDifferentTransportForURLLocked :: "registry \<Rightarrow> web_url \<Rightarrow> string \<Rightarrow> bool" where
  "hasDifferentTransportForURLLocked r u socket = (case normalizedURLKey u of
     None \<Rightarrow> False
   | Some key \<Rightarrow> list_ex (\<lambda>(k, t). k = key \<and> tg_socket t \<noteq> socket) (exact_targets r))"

definition clearExplainCacheLocked :: "registry \<Rightarrow> registry" where
  "clearExplainCacheLocked r = r\<lparr>rg_cache := [], rg_cache_order := []\<rparr>"

definition signalStateChangeLocked :: "registry \<Rightarrow> registry" where
  "signalStateChangeLocked r = r\<lparr>rg_state := Suc (rg_state r)\<rparr>"

definition clean_record :: "target \<Rightarrow> target_template option \<Rightarrow> web_url \<Rightarrow> web_url \<Rightarrow> target" where
  "clean_record raw template u normalized =
     \<lparr>tg_label = trim_space (tg_label raw), tg_description = trim_space (tg_description raw),
      tg_category = fst (normalizeCategorySource (tg_category raw) (tg_source raw)),
      tg_source = snd (normalizeCategorySource (tg_category raw) (tg_source raw)),
      tg_tags = normalizeTags (tg_tags raw), tg_reason = trim_space (tg_reason raw),
      tg_base = Some normalized, tg_socket = trim_space (tg_socket raw),
      tg_template = template, tg_original = Some u\<rparr>"

text \<open>The part of a registration before the lock: the target that will be stored.\<close>

definition clean_target ::
    "template_env \<Rightarrow> bool \<Rightarrow> target \<Rightarrow> template_config option \<Rightarrow> goerr + target" where
  "clean_target env plaintext raw config =
     (let label = trim_space (tg_label raw) in
      unless_err (fail_if (label = []) ''harpoon: target label is required'') (
      unless_err (fail_if (\<not> labelPattern label) ''harpoon: invalid target label'') (
      and_then (case config of
          None \<Rightarrow> Inr (tg_template raw, tg_base raw)
        | Some _ \<Rightarrow>
            if tg_base raw \<noteq> None \<or> tg_socket raw \<noteq> []
            then Inl (fails ''cannot combine a template with an exact URL or socket'')
            else and_then (CompileTargetTemplate env config) (\<lambda>t. Inr (Some t, Some (tt_origin t))))
        (\<lambda>(template, base). case base of
           None \<Rightarrow> Inl (fails ''base URL is required'')
         | Some u \<Rightarrow>
             unless_err (fail_if (u_scheme u = [] \<or> u_host u = []) ''base URL must include scheme and host'') (
             unless_err (fail_if (\<not> plaintext \<and> \<not> isHTTPS u \<and>
                 (case template of None \<Rightarrow> True | Some t \<Rightarrow> \<not> tt_loopback t)) ''base URL must use https'') (
             unless_err (fail_if (u_path u \<noteq> [] \<and> \<not> has_prefix ''/'' (u_path u)) ''base URL path must be absolute'') (
             unless_err (fail_if (hasTraversal (u_decoded u)) ''base URL contains invalid path segments'') (
             case normalizeURL u of
               None \<Rightarrow> Inl (fails ''base URL is invalid'')
             | Some normalized \<Rightarrow>
                 Inr (clean_record raw template u normalized)))))))))"

text \<open>The part under the lock.\<close>

definition insert_target :: "nat \<Rightarrow> target \<Rightarrow> registry \<Rightarrow> goerr + registry" where
  "insert_target bytes t r =
     (let normalized = the (tg_base t);
          rich = (rg_rich r \<or> (case tg_template t of None \<Rightarrow> False | Some p \<Rightarrow> HasRichHeaderRules p)) in
      unless_err (fail_if (tg_label t \<in> fst ` set (rg_targets r)) ''harpoon: duplicate target label'') (
      unless_err (fail_if (tg_template t = None \<and> URL_String normalized \<in> set (rg_keys r) \<and>
          hasDifferentTransportForURLLocked r normalized (tg_socket t))
        ''harpoon: duplicate target url uses a different transport'') (
      unless_err (fail_if (length (rg_targets r) \<ge> rg_limit r) ''harpoon: registry limit exceeded'') (
      unless_err (fail_if (rich \<and> int bytes > int maxTemplateCatalogBytes - int (rg_discovery r))
        ''harpoon: structured-header discovery exceeds the 512 KiB catalog budget'') (
      Inr (signalStateChangeLocked (clearExplainCacheLocked (r\<lparr>
        rg_discovery := min (maxTemplateCatalogBytes + 1) (rg_discovery r + bytes), rg_rich := rich,
        rg_targets := rg_targets r @ [(tg_label t, t)], rg_ordered := rg_ordered r @ [t],
        rg_keys := (if tg_template t = None then URL_String normalized # rg_keys r else rg_keys r)\<rparr>))))))))"

definition RegisterTarget ::
    "template_env \<Rightarrow> (target \<Rightarrow> string option) \<Rightarrow> target \<Rightarrow> template_config option \<Rightarrow> registry \<Rightarrow> goerr + registry" where
  "RegisterTarget env public raw config r =
     and_then (clean_target env (rg_plaintext r) raw config) (\<lambda>t.
       case targetDiscoveryBytes public t of
         None \<Rightarrow> Inl (fails ''harpoon: cannot encode public target discovery'')
       | Some bytes \<Rightarrow> insert_target bytes t r)"

definition empty_registry :: "bool \<Rightarrow> nat \<Rightarrow> registry" where
  "empty_registry plaintext limit = \<lparr>rg_plaintext = plaintext, rg_limit = limit, rg_targets = [], rg_ordered = [],
     rg_keys = [], rg_cache_limit = 256, rg_cache = [], rg_cache_order = [], rg_state = 0, rg_discovery = 0, rg_rich = False\<rparr>"

fun register_all ::
    "template_env \<Rightarrow> (target \<Rightarrow> string option) \<Rightarrow> (target \<times> template_config option) list \<Rightarrow> registry \<Rightarrow> goerr + registry" where
  "register_all env public [] r = Inr r"
| "register_all env public ((raw, config) # ts) r =
     and_then (RegisterTarget env public raw config r) (register_all env public ts)"

definition NewRegistryWithLimit ::
    "template_env \<Rightarrow> (target \<Rightarrow> string option) \<Rightarrow> bool \<Rightarrow> (target \<times> template_config option) list \<Rightarrow> int \<Rightarrow> goerr + registry" where
  "NewRegistryWithLimit env public plaintext ts limit =
     (if limit \<le> 0 then Inl (fails ''harpoon: registry limit must be positive'')
      else register_all env public ts (empty_registry plaintext (nat limit)))"

definition Lookup :: "registry \<Rightarrow> string \<Rightarrow> target option" where
  "Lookup r label = map_of (rg_targets r) (trim_space label)"

definition ExactURL :: "registry \<Rightarrow> string \<Rightarrow> web_url option" where
  "ExactURL r label = (case Lookup r label of
     None \<Rightarrow> None
   | Some t \<Rightarrow>
       if tg_template t \<noteq> None then None
       else case tg_original t of Some u \<Rightarrow> Some u | None \<Rightarrow> tg_base t)"

definition Resolve :: "registry \<Rightarrow> string \<Rightarrow> goerr + web_url" where
  "Resolve r label = (case Lookup r label of
     None \<Rightarrow> Inl (fails ''unknown target label'')
   | Some t \<Rightarrow>
       if tg_template t \<noteq> None then Inl (fails ''template target requires its discovered invocation schema'')
       else case tg_base t of None \<Rightarrow> Inl (fails ''target has empty url'') | Some u \<Rightarrow> Inr u)"

text \<open>The checks that both \<open>AllowsURL\<close> and \<open>TargetForURL\<close> make, and the key of the candidate.\<close>

definition candidate_key :: "registry \<Rightarrow> web_url \<Rightarrow> string option" where
  "candidate_key r u =
     (if u_scheme u = [] \<or> u_host u = [] \<or> (\<not> rg_plaintext r \<and> \<not> isHTTPS u) \<or> hasTraversal (u_decoded u) then None
      else normalizedURLKey u)"

definition AllowsURL :: "registry \<Rightarrow> web_url option \<Rightarrow> bool" where
  "AllowsURL r candidate = (case candidate of
     None \<Rightarrow> False
   | Some u \<Rightarrow>
       (case candidate_key r u of
          None \<Rightarrow> False
        | Some key \<Rightarrow> list_ex (\<lambda>(k, _). k = key) (exact_targets r)))"

definition TargetForURL :: "registry \<Rightarrow> web_url option \<Rightarrow> target option" where
  "TargetForURL r candidate = (case candidate of
     None \<Rightarrow> None
   | Some u \<Rightarrow>
       (case candidate_key r u of
          None \<Rightarrow> None
        | Some key \<Rightarrow> map_option snd (find (\<lambda>(k, _). k = key) (exact_targets r))))"

section \<open>Explaining a blocked redirect\<close>

definition redirect_other :: redirect_details where
  "redirect_other = \<lparr>rd_kind = MismatchOther, rd_expected = [], rd_expected_scheme = [], rd_actual_scheme = []\<rparr>"

definition plain_details :: "mismatch \<Rightarrow> string \<Rightarrow> redirect_details" where
  "plain_details kind expected = redirect_other\<lparr>rd_kind := kind, rd_expected := expected\<rparr>"

text \<open>The near misses seen so far: the first path and query mismatch, the last host mismatch and their number.\<close>

record near_misses =
  nm_path :: "string option"
  nm_query :: "string option"
  nm_host :: "string option"
  nm_hosts :: nat

definition best_miss :: "near_misses \<Rightarrow> redirect_details" where
  "best_miss n = (case nm_path n of
     Some e \<Rightarrow> plain_details MismatchPath e
   | None \<Rightarrow> (case nm_query n of
       Some e \<Rightarrow> plain_details MismatchQuery e
     | None \<Rightarrow> (case nm_host n of
         Some e \<Rightarrow> if nm_hosts n = 1 then plain_details MismatchHost e else redirect_other
       | None \<Rightarrow> redirect_other)))"

fun explain_scan :: "redirect_match \<Rightarrow> near_misses \<Rightarrow> web_url list \<Rightarrow> redirect_details" where
  "explain_scan c n [] = best_miss n"
| "explain_scan c n (u # us) =
     (let m = analyzeRedirectURL u in
      if rm_host m = rm_host c \<and> rm_comparable m = rm_comparable c \<and> rm_query m = rm_query c \<and> rm_scheme m \<noteq> rm_scheme c
      then \<lparr>rd_kind = schemeMismatchKind (rm_scheme m) (rm_scheme c), rd_expected = URL_String u,
            rd_expected_scheme = rm_scheme m, rd_actual_scheme = rm_scheme c\<rparr>
      else
        (let path_miss = (nm_path n = None \<and> rm_host m = rm_host c \<and> rm_scheme m = rm_scheme c \<and>
               rm_query m = rm_query c \<and> rm_exact m \<noteq> rm_exact c);
             query_miss = (nm_query n = None \<and> rm_host m = rm_host c \<and> rm_scheme m = rm_scheme c \<and>
               rm_comparable m = rm_comparable c \<and> rm_query m \<noteq> rm_query c);
             host_miss = (rm_host m \<noteq> rm_host c \<and> rm_scheme m = rm_scheme c \<and>
               rm_comparable m = rm_comparable c \<and> rm_query m = rm_query c)
         in explain_scan c
              \<lparr>nm_path = (if path_miss then Some (URL_String u) else nm_path n),
               nm_query = (if query_miss then Some (URL_String u) else nm_query n),
               nm_host = (if host_miss then Some (URL_String u) else nm_host n),
               nm_hosts = (if host_miss then Suc (nm_hosts n) else nm_hosts n)\<rparr> us))"

definition exact_urls :: "registry \<Rightarrow> web_url list" where
  "exact_urls r = concat (map (\<lambda>t. case (tg_base t, tg_template t) of (Some u, None) \<Rightarrow> [u] | _ \<Rightarrow> []) (rg_ordered r))"

definition effectiveExplainCacheLimit :: "registry \<Rightarrow> nat" where
  "effectiveExplainCacheLimit r = (if rg_cache_limit r \<le> 0 then 256 else nat (rg_cache_limit r))"

fun evict :: "nat \<Rightarrow> string list \<Rightarrow> (string \<times> redirect_details option) list \<Rightarrow>
    string list \<times> (string \<times> redirect_details option) list" where
  "evict limit [] cache = ([], cache)"
| "evict limit (k # ks) cache =
     (if length (k # ks) > limit then evict limit ks (filter (\<lambda>(k', _). k' \<noteq> k) cache) else (k # ks, cache))"

definition storeRedirectExplanation :: "string \<Rightarrow> redirect_details option \<Rightarrow> registry \<Rightarrow> registry" where
  "storeRedirectExplanation key details r =
     (if key = [] then r
      else if key \<in> fst ` set (rg_cache r)
      then r\<lparr>rg_cache := (key, details) # filter (\<lambda>(k, _). k \<noteq> key) (rg_cache r)\<rparr>
      else
        (let (order, cache) = evict (effectiveExplainCacheLimit r) (rg_cache_order r @ [key]) (rg_cache r) in
         r\<lparr>rg_cache_order := order, rg_cache := (key, details) # cache\<rparr>))"

text \<open>What is computed without the cache.\<close>

definition explain_fresh :: "registry \<Rightarrow> web_url \<Rightarrow> redirect_details option" where
  "explain_fresh r u =
     (if u_scheme u = [] \<or> u_host u = [] \<or> hasTraversal (u_decoded u) then Some redirect_other
      else case normalizedURLKey u of
        None \<Rightarrow> Some redirect_other
      | Some key \<Rightarrow>
          if key \<in> set (rg_keys r) then None
          else Some (explain_scan (analyzeRedirectURL u) \<lparr>nm_path = None, nm_query = None, nm_host = None, nm_hosts = 0\<rparr>
            (exact_urls r)))"

text \<open>The result under the read lock, with what is to be stored afterwards.\<close>

definition explain_step ::
    "(string \<Rightarrow> string) \<Rightarrow> registry \<Rightarrow> web_url \<Rightarrow> redirect_details option \<times> (string \<times> redirect_details option) option" where
  "explain_step sha256 r u =
     (if u_scheme u = [] \<or> u_host u = [] \<or> hasTraversal (u_decoded u) then (Some redirect_other, None)
      else case normalizedURLKey u of
        None \<Rightarrow> (Some redirect_other, None)
      | Some key \<Rightarrow>
          (let cacheKey = redirectExplainCacheKey sha256 key in
           if key \<in> set (rg_keys r) then (None, Some (cacheKey, None))
           else case map_of (rg_cache r) cacheKey of
             Some entry \<Rightarrow> (entry, None)
           | None \<Rightarrow> (explain_fresh r u, Some (cacheKey, explain_fresh r u))))"

definition ExplainBlockedRedirect ::
    "(string \<Rightarrow> string) \<Rightarrow> registry \<Rightarrow> web_url option \<Rightarrow> redirect_details option \<times> registry" where
  "ExplainBlockedRedirect sha256 r candidate = (case candidate of
     None \<Rightarrow> (None, r)
   | Some u \<Rightarrow>
       (case explain_step sha256 r u of
          (result, None) \<Rightarrow> (result, r)
        | (result, Some (key, entry)) \<Rightarrow> (result, storeRedirectExplanation key entry r)))"

section \<open>The registry's invariant\<close>

definition target_ok :: "bool \<Rightarrow> target \<Rightarrow> bool" where
  "target_ok plaintext t \<longleftrightarrow> labelPattern (tg_label t) \<and>
     (case tg_base t of
        None \<Rightarrow> False
      | Some u \<Rightarrow> u_scheme u \<noteq> [] \<and> u_host u \<noteq> [] \<and> normalizeURL u = Some u \<and>
          (plaintext \<or> u_scheme u = ''https'' \<or> IsLoopbackHTTPTemplate t) \<and> \<not> hasTraversal (u_decoded u) \<and>
          (u_path u = [] \<or> has_prefix ''/'' (u_path u)))"

definition one_transport :: "registry \<Rightarrow> bool" where
  "one_transport r \<longleftrightarrow> (\<forall>(k, t) \<in> set (exact_targets r). \<forall>(k', t') \<in> set (exact_targets r).
     k = k' \<longrightarrow> tg_socket t = tg_socket t')"

definition cache_bounded :: "registry \<Rightarrow> bool" where
  "cache_bounded r \<longleftrightarrow> distinct (rg_cache_order r) \<and> distinct (map fst (rg_cache r)) \<and>
     set (rg_cache_order r) = fst ` set (rg_cache r) \<and> length (rg_cache_order r) \<le> effectiveExplainCacheLimit r"

definition registry_ok :: "registry \<Rightarrow> bool" where
  "registry_ok r \<longleftrightarrow> length (rg_targets r) \<le> rg_limit r \<and> distinct (map fst (rg_targets r)) \<and>
     list_all (\<lambda>(label, t). tg_label t = label \<and> target_ok (rg_plaintext r) t) (rg_targets r) \<and>
     rg_ordered r = map snd (rg_targets r) \<and> set (rg_keys r) = fst ` set (exact_targets r) \<and>
     one_transport r \<and> cache_bounded r \<and>
     (rg_rich r \<longrightarrow> rg_discovery r \<le> maxTemplateCatalogBytes) \<and> rg_discovery r \<le> maxTemplateCatalogBytes + 1"

lemma to_lower_empty [simp]: "to_lower s = [] \<longleftrightarrow> s = []"
  by (simp add: to_lower_def)

lemma normalizeURL_idem: "normalizeURL u = Some v \<Longrightarrow> normalizeURL v = Some v"
  by (auto simp: normalizeURL_def text_simps split: if_splits)

lemma clean_target_ok:
  assumes "clean_target env plaintext raw config = Inr t"
  shows "target_ok plaintext t"
proof -
  from assms obtain template base where label: "labelPattern (trim_space (tg_label raw))"
    and rest: "(case base of None \<Rightarrow> Inl (fails ''base URL is required'') | Some u \<Rightarrow>
      unless_err (fail_if (u_scheme u = [] \<or> u_host u = []) ''base URL must include scheme and host'') (
      unless_err (fail_if (\<not> plaintext \<and> \<not> isHTTPS u \<and>
          (case template of None \<Rightarrow> True | Some t \<Rightarrow> \<not> tt_loopback t)) ''base URL must use https'') (
      unless_err (fail_if (u_path u \<noteq> [] \<and> \<not> has_prefix ''/'' (u_path u)) ''base URL path must be absolute'') (
      unless_err (fail_if (hasTraversal (u_decoded u)) ''base URL contains invalid path segments'') (
      case normalizeURL u of
        None \<Rightarrow> Inl (fails ''base URL is invalid'')
      | Some normalized \<Rightarrow> Inr (clean_record raw template u normalized)))))) = Inr t"
    unfolding clean_target_def Let_def by (simp only: policy_simps split_paired_Ex prod.case) blast
  then obtain u v where u: "tg_base t = Some v" "normalizeURL u = Some v"
    "plaintext \<or> isHTTPS u \<or> IsLoopbackHTTPTemplate t" "u_path u = [] \<or> has_prefix ''/'' (u_path u)"
    "\<not> hasTraversal (u_decoded u)" "labelPattern (tg_label t)"
    by (auto simp: policy_simps IsLoopbackHTTPTemplate_def clean_record_def split: option.splits)
  then have "u_scheme v = to_lower (u_scheme u)" "u_scheme v \<noteq> []" "u_host v \<noteq> []" "u_decoded v = u_decoded u" "u_path v = u_path u"
    by (auto simp: normalizeURL_def split: if_splits)
  moreover have "to_lower ''https'' = ''https''" by code_simp
  ultimately show ?thesis using u normalizeURL_idem [OF u(2)] by (auto simp: target_ok_def isHTTPS_def equal_fold_def)
qed

lemma insert_target_shape:
  assumes "insert_target bytes t r = Inr r'"
  shows "rg_targets r' = rg_targets r @ [(tg_label t, t)]" "rg_ordered r' = rg_ordered r @ [t]"
    "rg_cache r' = []" "rg_cache_order r' = []" "rg_state r' = Suc (rg_state r)"
    "rg_plaintext r' = rg_plaintext r" "rg_limit r' = rg_limit r" "rg_cache_limit r' = rg_cache_limit r"
    "tg_label t \<notin> fst ` set (rg_targets r)" "length (rg_targets r) < rg_limit r"
    "rg_keys r' = (if tg_template t = None then URL_String (the (tg_base t)) # rg_keys r else rg_keys r)"
    "tg_template t = None \<Longrightarrow> URL_String (the (tg_base t)) \<in> set (rg_keys r) \<Longrightarrow>
       \<not> hasDifferentTransportForURLLocked r (the (tg_base t)) (tg_socket t)"
    "rg_discovery r' \<le> maxTemplateCatalogBytes + 1" "rg_rich r' \<Longrightarrow> rg_discovery r' \<le> maxTemplateCatalogBytes"
  using assms
  by (auto simp: insert_target_def Let_def policy_simps clearExplainCacheLocked_def signalStateChangeLocked_def not_le)

lemma exact_targets_insert:
  assumes "rg_targets r' = rg_targets r @ [(l, t)]" and "target_ok p t"
  shows "exact_targets r' = exact_targets r @ (if tg_template t = None then [(URL_String (the (tg_base t)), t)] else [])"
  using assms by (auto simp: exact_targets_def exact_entry_def target_ok_def normalizedURLKey_def split: option.splits)

lemma insert_target_ok:
  assumes "insert_target bytes t r = Inr r'" and "target_ok (rg_plaintext r) t" and "registry_ok r"
  shows "registry_ok r'"
proof -
  note shape = insert_target_shape [OF assms(1)]
  note exact = exact_targets_insert [OF shape(1) assms(2)]
  obtain u where u: "tg_base t = Some u" "normalizeURL u = Some u"
    using assms(2) by (auto simp: target_ok_def split: option.splits)
  have "one_transport r'"
  proof (cases "tg_template t = None")
    case True
    have same: "tg_socket t' = tg_socket t" if "(URL_String u, t') \<in> set (exact_targets r)" for t'
    proof -
      have "URL_String u \<in> set (rg_keys r)" using that assms(3) by (force simp: registry_ok_def)
      then have "\<not> hasDifferentTransportForURLLocked r u (tg_socket t)" using shape(12) True u by simp
      then show ?thesis using that u
        by (auto simp: hasDifferentTransportForURLLocked_def normalizedURLKey_def list_ex_iff)
    qed
    then show ?thesis using assms(3) True u
      by (fastforce simp: one_transport_def exact registry_ok_def)
  next
    case False
    with exact have "exact_targets r' = exact_targets r" by simp
    then show ?thesis using assms(3) by (simp add: one_transport_def registry_ok_def)
  qed
  then show ?thesis
    using assms(2,3) shape by (auto simp: registry_ok_def exact cache_bounded_def)
qed

text \<open>
  C17. Registration keeps the registry well formed: at most the limit of targets, one per valid label; every
  exact URL normalized, absolute, without traversal and on HTTPS unless plaintext is allowed; one transport per
  URL; the set of keys in step with the targets; and a catalog with structured rules within its discovery budget.
\<close>

theorem RegisterTarget_ok:
  assumes "RegisterTarget env public raw config r = Inr r'" and "registry_ok r"
  shows "registry_ok r' \<and> length (rg_targets r') = Suc (length (rg_targets r)) \<and> rg_state r < rg_state r'"
proof -
  from assms(1) obtain t bytes where t: "clean_target env (rg_plaintext r) raw config = Inr t"
    and ins: "insert_target bytes t r = Inr r'"
    by (auto simp: RegisterTarget_def policy_simps split: option.splits)
  from insert_target_ok [OF ins clean_target_ok [OF t] assms(2)] insert_target_shape(1,5) [OF ins]
  show ?thesis by simp
qed

section \<open>Exactness of the allow list\<close>

lemma TargetForURL_iff: "(\<exists>t. TargetForURL r u = Some t) \<longleftrightarrow> AllowsURL r u"
proof -
  have "(\<exists>t. map_option snd (find P xs) = Some t) \<longleftrightarrow> list_ex P xs" for P and xs :: "(string \<times> target) list"
    by (induction xs) auto
  then show ?thesis by (simp add: TargetForURL_def AllowsURL_def split: option.split)
qed

lemma exact_targets_mem:
  "(k, t) \<in> set (exact_targets r) \<longleftrightarrow>
     (\<exists>l u. (l, t) \<in> set (rg_targets r) \<and> tg_base t = Some u \<and> tg_template t = None \<and> normalizedURLKey u = Some k)"
proof -
  have "(k, t) \<in> set (exact_entry t') \<longleftrightarrow>
    t = t' \<and> (\<exists>u. tg_base t' = Some u \<and> tg_template t' = None \<and> normalizedURLKey u = Some k)" for t'
    by (cases "tg_base t'"; cases "tg_template t'"; cases "normalizedURLKey (the (tg_base t'))")
      (auto simp: exact_entry_def)
  then show ?thesis by (auto simp: exact_targets_def)
qed

lemma exact_target_base:
  assumes "(k, t) \<in> set (exact_targets r)" and "registry_ok r"
  obtains v where "tg_base t = Some v" "tg_template t = None" "k = URL_String v" "normalizeURL v = Some v"
    "t \<in> set (rg_ordered r)"
proof -
  from assms(1) obtain l v where t: "(l, t) \<in> set (rg_targets r)" "tg_base t = Some v" "tg_template t = None"
    and k: "normalizedURLKey v = Some k"
    by (auto simp: exact_targets_mem)
  have "t \<in> set (map snd (rg_targets r))" using t(1) by force
  moreover have "normalizeURL v = Some v"
    using t assms(2) by (auto simp: registry_ok_def list_all_iff target_ok_def split: option.splits)
  ultimately have "normalizeURL v = Some v" "t \<in> set (rg_ordered r)" using assms(2) by (auto simp: registry_ok_def)
  with t k that show ?thesis by (auto simp: normalizedURLKey_def)
qed

lemma normalized_parsed: "parsed u \<Longrightarrow> normalizeURL u = Some v \<Longrightarrow> parsed v"
proof -
  assume u: "parsed u" "normalizeURL u = Some v"
  then have v: "v = u\<lparr>u_scheme := to_lower (u_scheme u), u_host := to_lower (u_host u)\<rparr>"
    by (auto simp: normalizeURL_def split: if_splits)
  have "c \<noteq> CHR '':'' \<Longrightarrow> lower_char c \<noteq> CHR '':''" for c
    by (auto simp: lower_char_def char_of_eq_iff take_bit_eq_mod)
  then have "none_of '':'' s \<Longrightarrow> none_of '':'' (to_lower s)" for s
    by (induction s) (auto simp: none_of_def to_lower_def)
  with u(1) show ?thesis by (auto simp: parsed_def v split: option.splits)
qed

text \<open>
  Only registered endpoints are allowed: an allowed URL has the scheme and host (up to case), the user
  information, the path, the query and the fragment of an exact target of the registry, byte for byte, and the
  transport chosen for it is that target's.
\<close>

theorem allowed_is_registered:
  assumes "registry_ok r" and "TargetForURL r (Some u) = Some t" and "parsed u"
    and "list_all (\<lambda>t. case tg_base t of None \<Rightarrow> True | Some v \<Rightarrow> parsed v) (rg_ordered r)"
  shows "AllowsURL r (Some u) \<and> t \<in> set (rg_ordered r) \<and> tg_template t = None \<and>
         (\<exists>v. tg_base t = Some v \<and> to_lower (u_scheme u) = u_scheme v \<and> to_lower (u_host u) = u_host v \<and>
            u_user u = u_user v \<and> u_path u = u_path v \<and> u_query u = u_query v \<and> u_fragment u = u_fragment v) \<and>
         (\<forall>t' \<in> set (rg_ordered r). tg_template t' = None \<and> tg_base t' = tg_base t \<longrightarrow> tg_socket t' = tg_socket t)"
proof -
  from assms(2) obtain key where key: "candidate_key r u = Some key"
    and found: "map_option snd (find (\<lambda>(k, _). k = key) (exact_targets r)) = Some t"
    by (auto simp: TargetForURL_def split: option.splits)
  then have mem: "(key, t) \<in> set (exact_targets r)"
    by (auto simp: find_Some_iff in_set_conv_nth)
  from exact_target_base [OF mem assms(1)] obtain v where v: "tg_base t = Some v" "tg_template t = None"
    "key = URL_String v" "normalizeURL v = Some v" "t \<in> set (rg_ordered r)" .
  from key obtain w where w: "normalizeURL u = Some w" "URL_String w = key"
    by (auto simp: candidate_key_def normalizedURLKey_def split: if_splits)
  have "parsed v" using assms(4) v by (auto simp: list_all_iff split: option.splits)
  from url_key_inj [OF normalized_parsed [OF assms(3) w(1)] this] w v
  have parts: "u_scheme w = u_scheme v \<and> u_user w = u_user v \<and> u_host w = u_host v \<and> u_path w = u_path v \<and>
      u_query w = u_query v \<and> u_fragment w = u_fragment v" by simp
  have w_is: "w = u\<lparr>u_scheme := to_lower (u_scheme u), u_host := to_lower (u_host u)\<rparr>"
    using w(1) by (auto simp: normalizeURL_def split: if_splits)
  have sock: "tg_socket t' = tg_socket t"
    if "t' \<in> set (rg_ordered r)" "tg_template t' = None" "tg_base t' = tg_base t" for t'
  proof -
    from that(1) assms(1) obtain l where "(l, t') \<in> set (rg_targets r)" by (auto simp: registry_ok_def)
    with that v have "(key, t') \<in> set (exact_targets r)"
      by (auto simp: exact_targets_mem normalizedURLKey_def)
    with mem assms(1) show ?thesis by (auto simp: registry_ok_def one_transport_def)
  qed
  have "AllowsURL r (Some u)" using assms(2) TargetForURL_iff by metis
  moreover have "\<exists>v. tg_base t = Some v \<and> to_lower (u_scheme u) = u_scheme v \<and> to_lower (u_host u) = u_host v \<and>
      u_user u = u_user v \<and> u_path u = u_path v \<and> u_query u = u_query v \<and> u_fragment u = u_fragment v"
    using v(1) parts w_is by auto
  ultimately show ?thesis using v(2,5) sock by blast
qed

section \<open>The cache of explanations\<close>

lemma evict_drop:
  "evict limit ks cache =
     (drop (length ks - limit) ks, filter (\<lambda>(k, _). k \<notin> set (take (length ks - limit) ks)) cache)"
proof (induction limit ks cache rule: evict.induct)
  case (2 limit k ks cache)
  show ?case
  proof (cases "length (k # ks) > limit")
    case True
    then have "length (k # ks) - limit = Suc (length ks - limit)" by simp
    with 2 [OF True] True show ?thesis by (auto simp: split_beta intro: filter_cong)
  qed simp
qed (simp add: split_beta)

lemma store_bounded:
  assumes "cache_bounded r"
  shows "cache_bounded (storeRedirectExplanation key e r)"
proof -
  consider "key = []" | "key \<noteq> []" "key \<in> fst ` set (rg_cache r)" | "key \<noteq> []" "key \<notin> fst ` set (rg_cache r)" by blast
  then show ?thesis
  proof cases
    case 2
    then have "distinct (map fst (filter (\<lambda>(k, _). k \<noteq> key) (rg_cache r)))"
      "fst ` set (filter (\<lambda>(k, _). k \<noteq> key) (rg_cache r)) = fst ` set (rg_cache r) - {key}"
      using assms by (force simp: cache_bounded_def distinct_map_filter)+
    with 2 assms show ?thesis
      by (auto simp: cache_bounded_def storeRedirectExplanation_def effectiveExplainCacheLimit_def)
  next
    case 3
    define lim ord n where "lim = effectiveExplainCacheLimit r" "ord = rg_cache_order r @ [key]" "n = length ord - lim"
    have lim: "lim \<ge> 1" by (auto simp: lim_ord_n_def effectiveExplainCacheLimit_def)
    have ord: "distinct ord" "set ord = insert key (fst ` set (rg_cache r))"
      using assms 3 by (auto simp: cache_bounded_def lim_ord_n_def)
    have split: "set ord = set (take n ord) \<union> set (drop n ord)" "set (take n ord) \<inter> set (drop n ord) = {}"
      using ord(1) by (metis append_take_drop_id set_append, metis append_take_drop_id distinct_append)
    have last: "key \<in> set (drop n ord)"
      using lim by (simp add: lim_ord_n_def)
    let ?c = "filter (\<lambda>(k, _). k \<notin> set (take n ord)) (rg_cache r)"
    have keys: "fst ` set ?c = fst ` set (rg_cache r) - set (take n ord)" by force
    have new: "insert key (fst ` set ?c) = set (drop n ord)" unfolding keys using ord(2) split last by blast
    have fresh: "key \<notin> fst ` set ?c" using 3 by auto
    have dist: "distinct (map fst ?c)" using assms by (auto simp: cache_bounded_def distinct_map_filter)
    have eq: "storeRedirectExplanation key e r = r\<lparr>rg_cache_order := drop n ord, rg_cache := (key, e) # ?c\<rparr>"
      using 3 by (simp add: storeRedirectExplanation_def evict_drop lim_ord_n_def)
    have "effectiveExplainCacheLimit (r\<lparr>rg_cache_order := ks, rg_cache := c\<rparr>) = lim" for ks c
      by (simp add: lim_ord_n_def effectiveExplainCacheLimit_def)
    moreover have "length (drop n ord) \<le> lim" by (simp add: lim_ord_n_def)
    ultimately have "length (drop n ord) \<le>
        effectiveExplainCacheLimit (r\<lparr>rg_cache_order := drop n ord, rg_cache := (key, e) # ?c\<rparr>)"
      by presburger
    with new fresh dist ord(1) show ?thesis unfolding eq cache_bounded_def by simp
  qed (use assms in \<open>simp add: storeRedirectExplanation_def\<close>)
qed

text \<open>Storing an explanation changes the cache only.\<close>

lemma store_frame:
  "rg_targets (storeRedirectExplanation key e r) = rg_targets r" "rg_ordered (storeRedirectExplanation key e r) = rg_ordered r"
  "rg_keys (storeRedirectExplanation key e r) = rg_keys r" "rg_state (storeRedirectExplanation key e r) = rg_state r"
  "rg_plaintext (storeRedirectExplanation key e r) = rg_plaintext r" "rg_limit (storeRedirectExplanation key e r) = rg_limit r"
  "rg_discovery (storeRedirectExplanation key e r) = rg_discovery r" "rg_rich (storeRedirectExplanation key e r) = rg_rich r"
  by (auto simp: storeRedirectExplanation_def split_beta)

lemma explain_fresh_store: "explain_fresh (storeRedirectExplanation key e r) v = explain_fresh r v"
proof -
  have "exact_urls (storeRedirectExplanation key e r) = exact_urls r" by (simp add: exact_urls_def store_frame)
  then show ?thesis by (simp only: explain_fresh_def store_frame)
qed

lemma store_ok: "registry_ok r \<Longrightarrow> registry_ok (storeRedirectExplanation key e r)"
proof -
  assume ok: "registry_ok r"
  have "exact_targets (storeRedirectExplanation key e r) = exact_targets r" by (simp add: exact_targets_def store_frame)
  then show ?thesis using ok store_bounded by (auto simp: registry_ok_def one_transport_def store_frame)
qed

lemma map_of_store:
  assumes "map_of (rg_cache (storeRedirectExplanation key e r)) k = Some e'"
  shows "(k = key \<and> e' = e \<and> key \<noteq> []) \<or> map_of (rg_cache r) k = Some e'"
proof -
  have flt: "map_of (filter (\<lambda>(k', _). P k') xs) k = (if P k then map_of xs k else None)" for P and xs :: "(string \<times> redirect_details option) list"
    by (induction xs) auto
  show ?thesis using assms
    by (auto simp: storeRedirectExplanation_def evict_drop Let_def flt split: if_splits)
qed

text \<open>What is relied on of SHA-256: no collisions, and hexadecimal output.\<close>

definition digest_ok :: "(string \<Rightarrow> string) \<Rightarrow> bool" where
  "digest_ok sha256 \<longleftrightarrow> inj sha256 \<and> (\<forall>s. \<not> has_prefix ''/'' (sha256 s))"

definition explainable :: "web_url \<Rightarrow> bool" where
  "explainable u \<longleftrightarrow> parsed u \<and> \<not> hasTraversal (u_decoded u)"

lemma explainable_key:
  assumes "explainable u"
  obtains v where "normalizeURL u = Some v" "normalizedURLKey u = Some (URL_String v)" "parsed v"
    "v = u\<lparr>u_scheme := to_lower (u_scheme u), u_host := to_lower (u_host u)\<rparr>"
proof -
  let ?v = "u\<lparr>u_scheme := to_lower (u_scheme u), u_host := to_lower (u_host u)\<rparr>"
  have "u_scheme u \<noteq> []" "u_host u \<noteq> []" using assms by (simp_all add: explainable_def parsed_def)
  then have v: "normalizeURL u = Some ?v" by (simp add: normalizeURL_def)
  moreover have "parsed ?v" by (rule normalized_parsed [OF _ v]) (use assms in \<open>simp add: explainable_def\<close>)
  moreover have "normalizedURLKey u = Some (URL_String ?v)" unfolding normalizedURLKey_def v by simp
  ultimately show ?thesis using that by blast
qed

lemma cache_key_inj:
  assumes "digest_ok sha256" and "explainable u" and "explainable v"
    and "normalizedURLKey u = Some k" and "normalizedURLKey v = Some l"
    and "redirectExplainCacheKey sha256 k = redirectExplainCacheKey sha256 l"
  shows "k = l"
proof -
  have long: "x \<noteq> ''sha256:'' @ sha256 y" if w: "explainable w" "normalizedURLKey w = Some x" for w x y
  proof
    assume eq: "x = ''sha256:'' @ sha256 y"
    from explainable_key [OF w(1)] w(2) obtain w' where w': "parsed w'" "x = URL_String w'" by (metis option.inject)
    have "u_scheme w' @ '':'' @ (''//'' @ authority w' @ u_path w' @ url_tail w') = ''sha256'' @ '':'' @ sha256 y"
      using eq w' parsed_String by simp
    then have "u_scheme w' = ''sha256'' \<and>
        '':'' @ (''//'' @ authority w' @ u_path w' @ url_tail w') = '':'' @ sha256 y"
      by (rule split_unique [where P = "\<lambda>c. c \<notin> set '':''"])
        (use w'(1) in \<open>auto simp: parsed_def none_of_def\<close>)
    then have "sha256 y = CHR ''/'' # ''/'' @ authority w' @ u_path w' @ url_tail w'" by simp
    then show False using assms(1) by (auto simp: digest_ok_def has_prefix_def dest!: spec [of _ y])
  qed
  have "inj sha256" using assms(1) by (simp add: digest_ok_def)
  moreover note long [OF assms(2,4), of l] long [OF assms(3,5), of k]
  ultimately show ?thesis
    using assms(6) by (cases "length k \<le> 2048"; cases "length l \<le> 2048") (simp_all add: redirectExplainCacheKey_def inj_eq)
qed

lemma same_key_same_explanation:
  assumes "explainable u" and "explainable v" and "normalizedURLKey u = normalizedURLKey v"
  shows "explain_fresh r u = explain_fresh r v"
proof -
  obtain u' where u: "normalizedURLKey u = Some (URL_String u')" "parsed u'"
    "u' = u\<lparr>u_scheme := to_lower (u_scheme u), u_host := to_lower (u_host u)\<rparr>" using explainable_key [OF assms(1)] by metis
  obtain v' where v: "normalizedURLKey v = Some (URL_String v')" "parsed v'"
    "v' = v\<lparr>u_scheme := to_lower (u_scheme v), u_host := to_lower (u_host v)\<rparr>" using explainable_key [OF assms(2)] by metis
  have "URL_String u' = URL_String v'" using assms(3) u(1) v(1) by simp
  from url_key_inj [OF u(2) v(2) this] have an: "analyzeRedirectURL u = analyzeRedirectURL v"
    using u(3) v(3) by (simp add: analyzeRedirectURL_def)
  have "u_scheme u \<noteq> []" "u_host u \<noteq> []" "u_scheme v \<noteq> []" "u_host v \<noteq> []"
    using assms(1,2) by (auto simp: explainable_def parsed_def)
  then show ?thesis using assms(1,2) unfolding explainable_def explain_fresh_def assms(3) an by simp
qed

definition cache_true :: "(string \<Rightarrow> string) \<Rightarrow> registry \<Rightarrow> bool" where
  "cache_true sha256 r \<longleftrightarrow> (\<forall>u key e. explainable u \<longrightarrow> normalizedURLKey u = Some key \<longrightarrow> key \<notin> set (rg_keys r) \<longrightarrow>
     map_of (rg_cache r) (redirectExplainCacheKey sha256 key) = Some e \<longrightarrow> e = explain_fresh r u)"

lemma explain_step_fresh:
  assumes "cache_true sha256 r" and "parsed u"
  shows "fst (explain_step sha256 r u) = explain_fresh r u"
  using assms
  by (auto simp: explain_step_def explain_fresh_def cache_true_def explainable_def Let_def split: option.splits)

lemma explain_keeps_true:
  assumes "digest_ok sha256" and "cache_true sha256 r" and "parsed u"
  shows "cache_true sha256 (snd (ExplainBlockedRedirect sha256 r (Some u)))"
proof (cases "snd (explain_step sha256 r u)")
  case None
  then show ?thesis using assms(2) by (cases "explain_step sha256 r u") (simp add: ExplainBlockedRedirect_def)
next
  case (Some ke)
  then obtain key where key: "normalizedURLKey u = Some key" "explainable u"
    and ke: "ke = (redirectExplainCacheKey sha256 key, explain_fresh r u)"
    using assms(3)
    by (auto simp: explain_step_def explainable_def explain_fresh_def Let_def split: if_splits option.splits)
  let ?r = "storeRedirectExplanation (redirectExplainCacheKey sha256 key) (explain_fresh r u) r"
  have "cache_true sha256 ?r"
    unfolding cache_true_def explain_fresh_store store_frame
  proof (intro allI impI)
    fix v k e
    assume v: "explainable v" "normalizedURLKey v = Some k" "k \<notin> set (rg_keys r)"
      and e: "map_of (rg_cache ?r) (redirectExplainCacheKey sha256 k) = Some e"
    from map_of_store [OF e] show "e = explain_fresh r v"
    proof
      assume "redirectExplainCacheKey sha256 k = redirectExplainCacheKey sha256 key \<and> e = explain_fresh r u \<and>
        redirectExplainCacheKey sha256 key \<noteq> []"
      with cache_key_inj [OF assms(1) v(1) key(2) v(2) key(1)] same_key_same_explanation [OF key(2) v(1)] v(2) key(1)
      show ?thesis by simp
    qed (use assms(2) v in \<open>auto simp: cache_true_def\<close>)
  qed
  then show ?thesis using Some ke by (cases "explain_step sha256 r u") (simp add: ExplainBlockedRedirect_def)
qed

section \<open>Every reachable registry\<close>

text \<open>
  The steps of a registry: a registration that succeeds, and an explanation of a parsed URL. \<open>net/http\<close>
  parses the location of a redirect with \<open>url.Parse\<close>, so every candidate is one.
\<close>

inductive registry_step ::
    "template_env \<Rightarrow> (target \<Rightarrow> string option) \<Rightarrow> (string \<Rightarrow> string) \<Rightarrow> registry \<Rightarrow> registry \<Rightarrow> bool"
  for env public sha256 where
  register: "RegisterTarget env public raw config r = Inr r' \<Longrightarrow> registry_step env public sha256 r r'"
| explain: "parsed u \<Longrightarrow> registry_step env public sha256 r (snd (ExplainBlockedRedirect sha256 r (Some u)))"

abbreviation registry_steps ::
    "template_env \<Rightarrow> (target \<Rightarrow> string option) \<Rightarrow> (string \<Rightarrow> string) \<Rightarrow> registry \<Rightarrow> registry \<Rightarrow> bool" where
  "registry_steps env public sha256 \<equiv> (registry_step env public sha256)\<^sup>*\<^sup>*"

lemma registered:
  assumes "RegisterTarget env public raw config r = Inr r'"
  obtains t bytes where "target_ok (rg_plaintext r) t" "insert_target bytes t r = Inr r'"
proof -
  from assms obtain t bytes where t: "clean_target env (rg_plaintext r) raw config = Inr t" "insert_target bytes t r = Inr r'"
    by (auto simp: RegisterTarget_def policy_simps split: option.splits)
  from that [OF clean_target_ok [OF t(1)] t(2)] show ?thesis .
qed

lemma explain_ok: "registry_ok r \<Longrightarrow> registry_ok (snd (ExplainBlockedRedirect sha256 r u))"
  by (auto simp: ExplainBlockedRedirect_def store_ok split: option.splits prod.splits)

lemma steps_ok:
  assumes "registry_steps env public sha256 r r'" and "registry_ok r"
  shows "registry_ok r'"
  using assms
proof (induction rule: rtranclp_induct)
  case (step s t)
  from step(2) show ?case
  proof cases
    case (register raw config)
    from registered [OF this] insert_target_ok step show ?thesis by metis
  qed (use step explain_ok in auto)
qed

lemma steps_true:
  assumes "registry_steps env public sha256 r r'" and "cache_true sha256 r" and "digest_ok sha256"
  shows "cache_true sha256 r'"
  using assms(1,2)
proof (induction rule: rtranclp_induct)
  case (step s t)
  from step(2) show ?case
  proof cases
    case (register raw config)
    from registered [OF this] insert_target_shape(3) have "rg_cache t = []" by metis
    then show ?thesis by (simp add: cache_true_def)
  qed (use step explain_keeps_true [OF assms(3)] in auto)
qed

lemma empty_ok: "registry_ok (empty_registry plaintext limit)" "cache_true sha256 (empty_registry plaintext limit)"
  by (simp_all add: empty_registry_def registry_ok_def exact_targets_def one_transport_def cache_bounded_def cache_true_def)


section \<open>Waiting for a target\<close>

text \<open>
  \<open>WaitForTarget\<close> reads the map and the state channel under one lock and then blocks until that channel is
  closed or its context ends. Each wake-up is an element of the list: the registry that is read next, or the
  error of the context. Nothing is returned while it is blocked.
\<close>

datatype wake = StateClosed registry | CtxDone goerr

fun wait_loop :: "string \<Rightarrow> registry \<Rightarrow> wake list \<Rightarrow> (goerr + target) option" where
  "wait_loop label r [] = map_option Inr (map_of (rg_targets r) label)"
| "wait_loop label r (w # ws) = (case map_of (rg_targets r) label of
     Some t \<Rightarrow> Some (Inr t)
   | None \<Rightarrow> (case w of StateClosed r' \<Rightarrow> wait_loop label r' ws | CtxDone err \<Rightarrow> Some (Inl err)))"

definition WaitForTarget :: "string \<Rightarrow> registry \<Rightarrow> wake list \<Rightarrow> (goerr + target) option" where
  "WaitForTarget label r ws =
     (if trim_space label = [] then Some (Inl (fails ''harpoon: target label is required''))
      else wait_loop (trim_space label) r ws)"

lemma steps_state: "registry_steps env public sha256 r r' \<Longrightarrow>
    rg_state r \<le> rg_state r' \<and> (rg_state r = rg_state r' \<longrightarrow> rg_targets r = rg_targets r')"
proof (induction rule: rtranclp_induct)
  case (step s t)
  from step(2) have "(rg_state s < rg_state t) \<or> (rg_state s = rg_state t \<and> rg_targets s = rg_targets t)"
  proof cases
    case (register raw config)
    from registered [OF this] insert_target_shape(5) have "rg_state t = Suc (rg_state s)" by metis
    then show ?thesis by simp
  qed (auto simp: ExplainBlockedRedirect_def store_frame split: prod.split option.split)
  with step.IH show ?case by auto
qed simp

text \<open>
  No registration is missed by a waiter: when a label is absent as the waiter reads the registry and present
  later, the state channel that it holds has been closed in between, and once it reads again it returns the target.
\<close>

theorem registration_wakes:
  assumes "registry_steps env public sha256 r r'" and "Lookup r label = None" and "Lookup r' label = Some t"
    and "trim_space label \<noteq> []"
  shows "rg_state r < rg_state r' \<and> WaitForTarget label r [] = None \<and>
         WaitForTarget label r [StateClosed r'] = Some (Inr t)"
  using assms(2-4) steps_state [OF assms(1)] by (auto simp: Lookup_def WaitForTarget_def le_less)

section \<open>An example\<close>

definition endpoint_url :: "string \<Rightarrow> string \<Rightarrow> web_url" where
  "endpoint_url host path = \<lparr>u_scheme = ''HTTPS'', u_host = host, u_path = path, u_decoded = path, u_opaque = [], u_user = None,
     u_query = [], u_force_query = False, u_fragment = []\<rparr>"

definition example_target :: target where
  "example_target = \<lparr>tg_label = '' api '', tg_description = [], tg_category = [], tg_source = ''S'', tg_tags = [''B'', ''a'', ''b''],
     tg_reason = [], tg_base = Some (endpoint_url ''A.test'' ''/v1''), tg_socket = [], tg_template = None, tg_original = None\<rparr>"

definition example_clean :: target where
  "example_clean = clean_record example_target None (endpoint_url ''A.test'' ''/v1'')
     ((endpoint_url ''a.test'' ''/v1'')\<lparr>u_scheme := ''https''\<rparr>)"

definition example_registry :: registry where
  "example_registry = projr (insert_target 8 example_clean (empty_registry False 2))"

lemma example_registered:
  "RegisterTarget example_template_env (\<lambda>t. Some (tg_label t)) example_target None (empty_registry False 2) = Inr example_registry"
proof -
  have "trim_space '' api '' = ''api''" "labelPattern ''api''" "isHTTPS (endpoint_url ''A.test'' ''/v1'')"
    "\<not> hasTraversal ''/v1''" "to_lower ''HTTPS'' = ''https''" "to_lower ''A.test'' = ''a.test''" "length (json_string ''api'') = 5"
    by code_simp+
  note small = this
  have "clean_target example_template_env False example_target None = Inr example_clean"
    using small(1-6)
    by (simp add: clean_target_def and_then_def unless_err_def fail_if_def Let_def example_target_def endpoint_url_def
        normalizeURL_def example_clean_def has_prefix_def)
  moreover have "targetDiscoveryBytes (\<lambda>t. Some (tg_label t)) example_clean = Some 8"
    using small by (simp add: targetDiscoveryBytes_def example_clean_def clean_record_def example_target_def)
  moreover have "insert_target 8 example_clean (empty_registry False 2) = Inr example_registry"
    by (simp add: example_registry_def insert_target_def Let_def unless_err_def fail_if_def empty_registry_def example_clean_def
        clean_record_def)
  ultimately show ?thesis by (simp add: RegisterTarget_def and_then_def empty_registry_def)
qed

lemma example_registry_steps:
  "registry_steps example_template_env (\<lambda>t. Some (tg_label t)) (\<lambda>s. ''d'' @ s) (empty_registry False 2) example_registry"
  using registry_step.register [OF example_registered] by blast

lemma example_registry_fields:
  "rg_targets example_registry = [(''api'', example_clean)]" "rg_ordered example_registry = [example_clean]"
  "rg_plaintext example_registry = False" "tg_base example_clean = Some ((endpoint_url ''a.test'' ''/v1'')\<lparr>u_scheme := ''https''\<rparr>)"
  "tg_template example_clean = None" "rg_state example_registry = 1"
proof -
  have "trim_space '' api '' = ''api''" by code_simp
  then show "rg_targets example_registry = [(''api'', example_clean)]" "rg_ordered example_registry = [example_clean]"
    "rg_plaintext example_registry = False" "tg_base example_clean = Some ((endpoint_url ''a.test'' ''/v1'')\<lparr>u_scheme := ''https''\<rparr>)"
    "tg_template example_clean = None" "rg_state example_registry = 1"
    by (simp_all add: example_registry_def insert_target_def Let_def unless_err_def fail_if_def empty_registry_def
        example_clean_def clean_record_def example_target_def signalStateChangeLocked_def clearExplainCacheLocked_def)
qed

theorem RegisterTarget_ok_witness:
  "registry_ok example_registry \<and> length (rg_targets example_registry) = 1"
  using RegisterTarget_ok [OF example_registered empty_ok(1)] by (simp add: empty_registry_def)

lemma example_candidate:
  "parsed (endpoint_url ''A.test'' ''/v1'')" "\<not> hasTraversal ''/v1''" "isHTTPS (endpoint_url ''A.test'' ''/v1'')"
  "normalizedURLKey (endpoint_url ''A.test'' ''/v1'') = Some ''https://a.test/v1''"
  "normalizedURLKey ((endpoint_url ''a.test'' ''/v1'')\<lparr>u_scheme := ''https''\<rparr>) = Some ''https://a.test/v1''"
  "parsed ((endpoint_url ''a.test'' ''/v1'')\<lparr>u_scheme := ''https''\<rparr>)"
  by code_simp+

lemma example_found: "TargetForURL example_registry (Some (endpoint_url ''A.test'' ''/v1'')) = Some example_clean"
proof -
  have "exact_targets example_registry = [(''https://a.test/v1'', example_clean)]"
    using example_candidate(5) by (simp add: exact_targets_def exact_entry_def example_registry_fields)
  moreover have "candidate_key example_registry (endpoint_url ''A.test'' ''/v1'') = Some ''https://a.test/v1''"
    using example_candidate by (simp add: candidate_key_def example_registry_fields endpoint_url_def)
  ultimately show ?thesis by (simp add: TargetForURL_def)
qed

theorem allowed_is_registered_witness:
  "AllowsURL example_registry (Some (endpoint_url ''A.test'' ''/v1'')) \<and> example_clean \<in> set (rg_ordered example_registry)"
proof -
  have "registry_ok example_registry" by (rule steps_ok [OF example_registry_steps empty_ok(1)])
  from allowed_is_registered [OF this example_found example_candidate(1)] example_candidate(6)
  show ?thesis by (simp add: example_registry_fields)
qed


theorem registration_wakes_witness:
  "WaitForTarget ''api'' (empty_registry False 2) [StateClosed example_registry] = Some (Inr example_clean)"
proof -
  have trim: "trim_space ''api'' = ''api''" by code_simp
  then have "Lookup (empty_registry False 2) ''api'' = None" "Lookup example_registry ''api'' = Some example_clean"
    by (simp_all add: Lookup_def example_registry_fields empty_registry_def)
  from registration_wakes [OF example_registry_steps this] trim show ?thesis by simp
qed

end
