(* ===== verification/HarpoonRewrite.thy ===== *)
theory HarpoonRewrite
  imports HarpoonRegistry
begin

text \<open>
  Rewriting the answers of Harpoon targets (\<open>pkg/runtimeharpoon/transform.go\<close>):
  absolute URLs of registered exact targets in JSON bodies and in three response
  headers become \<open>harpoon://label\<close>. \<open>url.Parse\<close> is the parameter \<open>parse\<close>, and
  \<open>num\<close> is what a JSON number becomes on its way through a \<open>float64\<close>, nothing when
  it is out of range.
\<close>

section \<open>URLs\<close>

type_synonym rewriter = "(string \<times> target) list"

definition newURLRewriter :: "target list \<Rightarrow> rewriter" where
  "newURLRewriter targets =
     filter (\<lambda>(_, t). case tg_base t of None \<Rightarrow> False | Some u \<Rightarrow> to_lower (u_scheme u) \<in> {''http'', ''https''})
       (concat (map exact_entry targets))"

definition preferredOAuthTagByJSONKey :: "(string \<times> string) list" where
  "preferredOAuthTagByJSONKey =
     [(''authorization_servers'', ''authorization-server''), (''introspection_endpoint'', ''introspection-endpoint''),
      (''issuer'', ''issuer''), (''jwks_uri'', ''jwks-uri''), (''registration_endpoint'', ''registration-endpoint''),
      (''revocation_endpoint'', ''revocation-endpoint''), (''token_endpoint'', ''token-endpoint'')]"

definition hasAllTags :: "string list \<Rightarrow> string list \<Rightarrow> bool" where
  "hasAllTags targetTags required = list_all (\<lambda>tag. tag \<in> normalizeToken ` set targetTags) required"

definition preferredTargetForJSONKey :: "target list \<Rightarrow> string \<Rightarrow> target option" where
  "preferredTargetForJSONKey candidates jsonKey = (case map_of preferredOAuthTagByJSONKey jsonKey of
     None \<Rightarrow> None
   | Some preferredTag \<Rightarrow> find (\<lambda>t. preferredTag \<in> normalizeToken ` set (tg_tags t)) candidates)"

definition rewriteURLStringWithHint ::
    "(string \<Rightarrow> web_url option) \<Rightarrow> rewriter \<Rightarrow> string \<Rightarrow> string \<Rightarrow> string option" where
  "rewriteURLStringWithHint parse r raw jsonKey =
     (if raw = [] then None
      else case parse raw of
        None \<Rightarrow> None
      | Some u \<Rightarrow>
          if u_scheme u = [] \<or> u_host u = [] \<or> to_lower (u_scheme u) \<notin> {''http'', ''https''} then None
          else case normalizedURLKey u of
            None \<Rightarrow> None
          | Some key \<Rightarrow>
              (case map snd (filter (\<lambda>(k, _). k = key) r) of
                 [] \<Rightarrow> None
               | c # cs \<Rightarrow>
                   if jsonKey = ''resource'' \<and>
                      list_ex (\<lambda>t. hasAllTags (tg_tags t) [''protected-resource-metadata'', ''resource'']) (c # cs)
                   then None
                   else case preferredTargetForJSONKey (c # cs) jsonKey of
                     Some t \<Rightarrow> Some (''harpoon://'' @ tg_label t)
                   | None \<Rightarrow> Some (''harpoon://'' @ tg_label c)))"

section \<open>JSON bodies\<close>

text \<open>A document as \<open>json.Unmarshal\<close> puts it into an \<open>any\<close>: the last of equal names counts.\<close>

fun last_members :: "(string \<times> json) list \<Rightarrow> (string \<times> json) list" where
  "last_members [] = []"
| "last_members ((k, v) # ms) = (if k \<in> fst ` set ms then last_members ms else (k, v) # last_members ms)"

fun as_any :: "(string \<Rightarrow> string option) \<Rightarrow> json \<Rightarrow> json option" where
  "as_any num (JNum n) = map_option JNum (num n)"
| "as_any num (JArr vs) = map_option JArr (those (map (as_any num) vs))"
| "as_any num (JObj ms) =
     map_option (\<lambda>kvs. json_obj (last_members kvs)) (those (map (\<lambda>(k, raw, v). map_option (\<lambda>w. (k, w)) (as_any num v)) ms))"
| "as_any num v = Some v"

text \<open>The value and whether anything in it was rewritten.\<close>

fun rewriteJSONValue ::
    "(string \<Rightarrow> web_url option) \<Rightarrow> rewriter \<Rightarrow> string \<Rightarrow> json \<Rightarrow> json \<times> bool" where
  "rewriteJSONValue parse r jsonKey (JObj ms) =
     (let vs = map (\<lambda>(k, raw, v). (k, rewriteJSONValue parse r k v)) ms
      in (json_obj (map (\<lambda>(k, v, _). (k, v)) vs), list_ex (\<lambda>(_, _, c). c) vs))"
| "rewriteJSONValue parse r jsonKey (JArr vs) =
     (let ws = map (rewriteJSONValue parse r jsonKey) vs in (JArr (map fst ws), list_ex snd ws))"
| "rewriteJSONValue parse r jsonKey (JStr s) = (case rewriteURLStringWithHint parse r s jsonKey of
     Some s' \<Rightarrow> (JStr s', True) | None \<Rightarrow> (JStr s, False))"
| "rewriteJSONValue parse r jsonKey v = (v, False)"

text \<open>\<open>json.Marshal\<close> of a map sorts its keys.\<close>

fun sort_members :: "json \<Rightarrow> json" where
  "sort_members (JObj ms) = json_obj (sort_key fst (map (\<lambda>(k, raw, v). (k, sort_members v)) ms))"
| "sort_members (JArr vs) = JArr (map sort_members vs)"
| "sort_members v = v"

definition transformJSONBody ::
    "(string \<Rightarrow> web_url option) \<Rightarrow> (string \<Rightarrow> string option) \<Rightarrow> rewriter \<Rightarrow> string \<Rightarrow> string option" where
  "transformJSONBody parse num r body =
     (if body = [] then None
      else case json_parse body of
        None \<Rightarrow> None
      | Some v \<Rightarrow>
          (case as_any num v of
             None \<Rightarrow> None
           | Some payload \<Rightarrow>
               (let (updated, changed) = rewriteJSONValue parse r [] payload in
                if changed then Some (json_text (sort_members updated)) else None)))"

section \<open>Headers\<close>

definition shouldRewriteHeader :: "string \<Rightarrow> bool" where
  "shouldRewriteHeader key \<longleftrightarrow> canonical_header_key key \<in> {''Content-Location'', ''Link'', ''Location''}"

definition url_byte :: "char \<Rightarrow> bool" where
  "url_byte c \<longleftrightarrow> c \<notin> set '' <>'' \<and> c \<noteq> CHR 0x22 \<and> c \<noteq> CHR 0x27 \<and> (of_char c :: nat) \<notin> {9, 10, 12, 13}"

text \<open>The match of the URL pattern at the head of a text.\<close>

definition url_match :: "string \<Rightarrow> string option" where
  "url_match s =
     (let n = (if has_prefix ''http://'' s then 7 else if has_prefix ''https://'' s then 8 else 0);
          rest = takeWhile url_byte (drop n s)
      in if n = 0 \<or> rest = [] then None else Some (take n s @ rest))"

function replace_urls :: "(string \<Rightarrow> string) \<Rightarrow> string \<Rightarrow> string" where
  "replace_urls f [] = []"
| "replace_urls f (c # s) = (case url_match (c # s) of
     None \<Rightarrow> c # replace_urls f s
   | Some m \<Rightarrow> f m @ replace_urls f (drop (length m) (c # s)))"
  by pat_completeness auto
termination
proof (relation "measure (\<lambda>(_, s). length s)")
  fix c s m assume "url_match (c # s) = Some m"
  then have "0 < length m" by (auto simp: url_match_def Let_def split: if_splits)
  then show "((f, drop (length m) (c # s)), (f, c # s)) \<in> measure (\<lambda>(_, s). length s)" for f :: "string \<Rightarrow> string" by simp
qed auto

definition rewriteHeaderValue :: "(string \<Rightarrow> web_url option) \<Rightarrow> rewriter \<Rightarrow> string \<Rightarrow> string" where
  "rewriteHeaderValue parse r s =
     replace_urls (\<lambda>m. case rewriteURLStringWithHint parse r m [] of Some m' \<Rightarrow> m' | None \<Rightarrow> m) s"

definition transformHeaders :: "(string \<Rightarrow> web_url option) \<Rightarrow> rewriter \<Rightarrow> header \<Rightarrow> header" where
  "transformHeaders parse r h = map (\<lambda>(key, vs).
     (key, if shouldRewriteHeader key then map (rewriteHeaderValue parse r) vs else vs)) (filter (\<lambda>(_, vs). vs \<noteq> []) h)"

section \<open>A rewritten URL leads back\<close>

lemma rewritten_candidate:
  assumes "rewriteURLStringWithHint parse r raw jsonKey = Some s"
  obtains u key t where "parse raw = Some u" "normalizedURLKey u = Some key" "(key, t) \<in> set r"
    "s = ''harpoon://'' @ tg_label t"
proof -
  from assms obtain u key c cs where u: "parse raw = Some u" "normalizedURLKey u = Some key"
    and cs: "map snd (filter (\<lambda>(k, _). k = key) r) = c # cs"
    and s: "s = ''harpoon://'' @ tg_label (case preferredTargetForJSONKey (c # cs) jsonKey of Some t \<Rightarrow> t | None \<Rightarrow> c)"
    by (auto simp: rewriteURLStringWithHint_def split: if_splits option.splits list.splits)
  let ?t = "case preferredTargetForJSONKey (c # cs) jsonKey of Some t \<Rightarrow> t | None \<Rightarrow> c"
  have "?t \<in> set (c # cs)"
    by (auto simp: preferredTargetForJSONKey_def find_Some_iff split: option.splits)
  then have "(key, ?t) \<in> set r" unfolding cs [symmetric] by auto
  with u s that show ?thesis by blast
qed

lemma label_trimmed: "labelPattern l \<Longrightarrow> trim_space l = l"
proof -
  assume l: "labelPattern l"
  then have l: "\<forall>c \<in> set l. \<not> is_space c"
    by (auto simp: labelPattern_def list_all_iff is_space_def between_def is_digit_def)
  have drop: "dropWhile is_space xs = xs" if "\<forall>c \<in> set xs. \<not> is_space c" for xs using that by (cases xs) auto
  from drop [OF l] drop [of "rev l"] l show ?thesis by (simp add: trim_space_def trim_by_def)
qed

text \<open>
  C32. A rewritten URL leads back to the endpoint that it stood for: the label in \<open>harpoon://label\<close> resolves to
  the exact target whose normalized URL is that of the original, and a template target never appears.
\<close>

theorem rewritten_url_resolves:
  assumes "registry_ok r" and "rewriteURLStringWithHint parse (newURLRewriter (rg_ordered r)) raw jsonKey = Some s"
  shows "\<exists>label u v. s = ''harpoon://'' @ label \<and> parse raw = Some u \<and> Resolve r label = Inr v \<and>
           normalizedURLKey u = Some (URL_String v) \<and> normalizedURLKey v = Some (URL_String v)"
proof -
  from rewritten_candidate [OF assms(2)] obtain u key t where u: "parse raw = Some u" "normalizedURLKey u = Some key"
    and t: "(key, t) \<in> set (newURLRewriter (rg_ordered r))" and s: "s = ''harpoon://'' @ tg_label t" .
  have "concat (map exact_entry (rg_ordered r)) = exact_targets r"
    using assms(1) unfolding registry_ok_def exact_targets_def by (simp add: split_def comp_def)
  with t have mem: "(key, t) \<in> set (exact_targets r)" by (auto simp: newURLRewriter_def)
  from exact_target_base [OF mem assms(1)] obtain v where v: "tg_base t = Some v" "tg_template t = None"
    "key = URL_String v" "normalizeURL v = Some v" by metis
  from mem obtain l where l: "(l, t) \<in> set (rg_targets r)" by (auto simp: exact_targets_mem)
  with assms(1) have "tg_label t = l" "labelPattern l" "map_of (rg_targets r) l = Some t"
    by (auto simp: registry_ok_def list_all_iff target_ok_def)
  moreover from this have "trim_space l = l" by (intro label_trimmed)
  ultimately have "Resolve r (tg_label t) = Inr v" using v by (simp add: Resolve_def Lookup_def)
  then show ?thesis using u s v by (auto simp: normalizedURLKey_def)
qed

lemma example_rewrite:
  "rewriteURLStringWithHint (\<lambda>_. Some (endpoint_url ''A.test'' ''/v1'')) (newURLRewriter [example_clean]) ''u'' [] =
     Some ''harpoon://api''"
proof -
  have "tg_label example_clean = ''api''" "to_lower ''HTTPS'' = ''https''" by code_simp+
  moreover have "preferredTargetForJSONKey [example_clean] [] = None"
    by (simp add: preferredTargetForJSONKey_def preferredOAuthTagByJSONKey_def)
  moreover have "to_lower ''https'' = ''https''" by code_simp
  ultimately show ?thesis
    using example_candidate(4,5)
    by (simp add: rewriteURLStringWithHint_def newURLRewriter_def exact_entry_def example_registry_fields) (simp add: endpoint_url_def)
qed

theorem rewritten_url_resolves_witness:
  "\<exists>v. Resolve example_registry ''api'' = Inr v \<and> Some (URL_String v) = normalizedURLKey (endpoint_url ''A.test'' ''/v1'')"
proof -
  have "registry_ok example_registry" by (rule steps_ok [OF example_registry_steps empty_ok(1)])
  from rewritten_url_resolves [OF this, of "\<lambda>_. Some (endpoint_url ''A.test'' ''/v1'')" "''u''" "[]" "''harpoon://api''"]
  show ?thesis using example_rewrite by (auto simp: example_registry_fields)
qed

end
