(* ===== verification/HarpoonCall.thy ===== *)
theory HarpoonCall
  imports HarpoonRewrite ControlApi
begin

text \<open>
  One call of an exact Harpoon target (\<open>callTarget\<close> of
  \<open>pkg/runtimeharpoon/server.go\<close>, with \<open>request_id.go\<close>): the limits of a call, the
  transport of a URL, the redirect policy, and the loop of \<open>http.Client.Do\<close> around
  them. The registry that a request sees is a function of how many requests the call
  made before it, because other goroutines may register targets in between. The
  network and what \<open>net/http\<close> makes of a redirect answer are parameters. Case folding
  is that of ASCII text.
\<close>

section \<open>Limits\<close>

record harpoon_config =
  hk_max_bytes :: int
  hk_max_redirects :: int

abbreviation millisecond :: int where "millisecond \<equiv> 1000000"

text \<open>The multiplication is one of 64-bit integers.\<close>

definition normalizeTimeout :: "int option \<Rightarrow> goerr + int" where
  "normalizeTimeout timeoutMS = (case timeoutMS of
     None \<Rightarrow> Inr (30000 * millisecond)
   | Some ms \<Rightarrow>
       if ms \<le> 0 then Inl (fails ''timeout must be positive'')
       else
         (let timeout = i64 (ms * millisecond) in
          if timeout < 100 * millisecond then Inl (fails ''timeout must be at least 100ms'')
          else if timeout > 120000 * millisecond then Inl (fails ''timeout must be at most 120000ms'')
          else Inr timeout))"

definition normalizeMaxResponseBytes :: "harpoon_config \<Rightarrow> int option \<Rightarrow> goerr + int" where
  "normalizeMaxResponseBytes cfg n =
     (let limit = (if hk_max_bytes cfg \<le> 0 then 100 * 1024 else hk_max_bytes cfg) in
      case n of
        None \<Rightarrow> Inr limit
      | Some m \<Rightarrow>
          if m \<le> 0 then Inl (fails ''max_response_bytes must be positive'')
          else if m > limit then Inl (fails ''max_response_bytes must be less than or equal to the limit'')
          else Inr m)"

definition redirect_limit :: "harpoon_config \<Rightarrow> int" where
  "redirect_limit cfg = (if hk_max_redirects cfg \<le> 0 then 5 else hk_max_redirects cfg)"

definition normalizeRedirects :: "harpoon_config \<Rightarrow> bool option \<Rightarrow> int option \<Rightarrow> goerr + int \<times> bool" where
  "normalizeRedirects cfg followRedirects maxRedirects =
     (if followRedirects = Some False then Inr (0, False)
      else case maxRedirects of
        None \<Rightarrow> Inr (redirect_limit cfg, True)
      | Some m \<Rightarrow>
          if m < 0 then Inl (fails ''max_redirects must be non-negative'')
          else if m > redirect_limit cfg then Inl (fails ''max_redirects must be less than or equal to the limit'')
          else Inr (m, True))"

text \<open>The bytes, whether there were more than the limit, and the error of the read.\<close>

definition readLimited :: "http_body \<Rightarrow> int \<Rightarrow> string \<times> bool \<times> goerr" where
  "readLimited b limit =
     (if limit \<le> 0 then ([], False, fails ''limit must be positive'')
      else
        (let (data, err) = read_prefix (nat limit + 1) b in
         if err \<noteq> nil_err then (data, False, err)
         else if length data > nat limit then (take (nat limit) data, True, nil_err)
         else (data, False, nil_err)))"

definition last_rune_size :: "string \<Rightarrow> nat" where
  "last_rune_size s = (case filter (\<lambda>n. n \<le> length s \<and> utf8_valid (drop (length s - n) s) \<and>
       rune_count (drop (length s - n) s) = 1) [1, 2, 3, 4] of n # _ \<Rightarrow> n | [] \<Rightarrow> 1)"

lemma last_rune_size_pos: "0 < last_rune_size s"
  by (auto simp: last_rune_size_def split: list.split dest!: arg_cong [of _ _ set])

function truncate_valid :: "string \<Rightarrow> string" where
  "truncate_valid s = (if utf8_valid s then s else truncate_valid (take (length s - last_rune_size s) s))"
  by pat_completeness auto
termination
proof (relation "measure length")
  fix s :: string assume "\<not> utf8_valid s"
  then have "s \<noteq> []" by auto
  with last_rune_size_pos [of s] show "(take (length s - last_rune_size s) s, s) \<in> measure length" by simp
qed simp

declare truncate_valid.simps [simp del]

definition truncateUTF8String :: "string \<Rightarrow> nat \<Rightarrow> string" where
  "truncateUTF8String s maxBytes = (if maxBytes = 0 \<or> length s \<le> maxBytes then s else truncate_valid (take maxBytes s))"

definition responseContentTypeForLog :: "string \<Rightarrow> string" where
  "responseContentTypeForLog contentType =
     truncateUTF8String (to_lower (trim_space (takeWhile (\<lambda>c. c \<noteq> CHR '';'') (trim_space contentType)))) 256"

section \<open>Automatic request identifiers\<close>

record auto_request_id =
  ar_value :: string
  ar_origin :: string

definition requestOrigin :: "web_url option \<Rightarrow> string" where
  "requestOrigin target = (case target of
     None \<Rightarrow> []
   | Some u \<Rightarrow>
       if u_scheme u = [] \<or> u_host u = [] then []
       else
         (let scheme = to_lower (u_scheme u); host = to_lower (u_host u); port = url_Port (url.truncate u);
              host = (if (scheme = ''http'' \<and> port = ''80'') \<or> (scheme = ''https'' \<and> port = ''443'')
                then trim_suffix host ('':'' @ port) else host)
          in scheme @ ''://'' @ host))"

definition hasRequestIDHeader :: "header \<Rightarrow> bool" where
  "hasRequestIDHeader h = list_ex (\<lambda>(name, _). equal_fold name ''X-Request-Id'') h"

text \<open>The identifier in the context, empty when there is none.\<close>

definition contextWithAutoRequestID :: "string \<Rightarrow> header \<Rightarrow> web_url option \<Rightarrow> auto_request_id option" where
  "contextWithAutoRequestID rid h target =
     (if hasRequestIDHeader h then None
      else
        (let origin = requestOrigin target in
         if rid = [] \<or> origin = [] \<or> \<not> validHTTPHeaderFieldValue rid then None
         else Some \<lparr>ar_value = rid, ar_origin = origin\<rparr>))"

definition applyAutoRequestID ::
    "string \<Rightarrow> bool \<Rightarrow> auto_request_id option \<Rightarrow> web_url option \<Rightarrow> header \<Rightarrow> header" where
  "applyAutoRequestID user_agent template auto target h = (case auto of
     None \<Rightarrow> h
   | Some a \<Rightarrow>
       if ar_value a = [] then h
       else if requestOrigin target \<noteq> ar_origin a then header_del h ''X-Request-Id''
       else if template \<and> (\<not> validTemplateHeaderValue (ar_value a) \<or>
         validateTemplateHeaderSize user_agent (header_set h ''X-Request-Id'' (ar_value a)) \<noteq> nil_err)
       then h
       else header_set h ''X-Request-Id'' (ar_value a))"

section \<open>Transports\<close>

datatype route = BaseRoute | UnixRoute string

text \<open>
  \<open>transport.ApplyUnixSocketPath\<close> needs an \<open>*http.Transport\<close> to clone. The sockets that have a transport already
  are kept in a list.
\<close>

definition transportForURL :: "bool \<Rightarrow> registry \<Rightarrow> string list \<Rightarrow> web_url option \<Rightarrow> goerr + route \<times> string list" where
  "transportForURL clonable r unix target = (case TargetForURL r target of
     None \<Rightarrow> Inl (fails ''harpoon: request url is not registered'')
   | Some t \<Rightarrow>
       if tg_socket t = [] then Inr (BaseRoute, unix)
       else if tg_socket t \<in> set unix then Inr (UnixRoute (tg_socket t), unix)
       else if \<not> clonable then Inl (fails ''unsupported transport type'')
       else Inr (UnixRoute (tg_socket t), tg_socket t # unix))"

section \<open>Errors\<close>

record tool_error =
  tl_label :: string
  tl_msg :: string
  tl_redirect :: string
  tl_details :: "redirect_details option"

definition newToolError :: "string \<Rightarrow> string \<Rightarrow> tool_error" where
  "newToolError label msg = \<lparr>tl_label = label, tl_msg = msg, tl_redirect = [], tl_details = None\<rparr>"

definition scheme_mismatch :: "redirect_details option \<Rightarrow> bool" where
  "scheme_mismatch d = (case d of None \<Rightarrow> False | Some d \<Rightarrow> rd_kind d \<in> {SchemeHTTPToHTTPS, SchemeHTTPSToHTTP})"

definition newRedirectBlockedError :: "string \<Rightarrow> string \<Rightarrow> redirect_details option \<Rightarrow> tool_error" where
  "newRedirectBlockedError label redirectURL details =
     \<lparr>tl_label = label,
      tl_msg = (case details of
        Some d \<Rightarrow>
          if scheme_mismatch details
          then ''redirect blocked: scheme mismatch (allowlisted '' @ rd_expected_scheme d @ '', redirected to '' @
            rd_actual_scheme d @ '')''
          else ''redirect blocked''
      | None \<Rightarrow> ''redirect blocked''),
      tl_redirect = redirectURL, tl_details = details\<rparr>"

datatype call_error = ToolError tool_error | NetError goerr

definition RedactURL :: "web_url \<Rightarrow> string" where
  "RedactURL u = (if u_scheme u = [] \<or> u_host u = [] then []
     else u_scheme u @ ''://'' @ escape_by host_byte (u_host u))"

definition RedactURLString :: "(string \<Rightarrow> web_url option) \<Rightarrow> string \<Rightarrow> string" where
  "RedactURLString parse raw = (case parse raw of None \<Rightarrow> [] | Some u \<Rightarrow> RedactURL u)"

definition classifyRequestError :: "(string \<Rightarrow> web_url option) \<Rightarrow> (goerr \<Rightarrow> string) \<Rightarrow> call_error \<Rightarrow> string" where
  "classifyRequestError parse error_text e = (case e of
     ToolError te \<Rightarrow>
       if scheme_mismatch (tl_details te) then tl_msg te
       else if tl_redirect te \<noteq> [] then tl_msg te @ '': '' @ RedactURLString parse (tl_redirect te) @ '' not in allow list''
       else tl_msg te
   | NetError err \<Rightarrow>
       if DeadlineExceeded \<in> set err then ''timeout''
       else if contains ''redirect'' (error_text err) then ''redirect blocked''
       else ''request failed'')"

section \<open>Redirects\<close>

record out_request =
  oq_method :: string
  oq_url :: "web_url option"
  oq_header :: header
  oq_body :: string

text \<open>
  The world of a call: the registry as each request finds it, the transport, and the request that \<open>net/http\<close> makes
  for an answer that redirects (or its error, when the \<open>Location\<close> cannot be read).
\<close>

record call_net =
  cn_registry :: "nat \<Rightarrow> registry"
  cn_clonable :: bool
  cn_send :: "route \<Rightarrow> out_request list \<Rightarrow> out_request \<Rightarrow> goerr + http_reply"
  cn_redirect :: "out_request list \<Rightarrow> http_reply \<Rightarrow> (goerr + out_request) option"
  cn_url :: "string \<Rightarrow> web_url option"
  cn_number :: "string \<Rightarrow> string option"
  cn_error_text :: "goerr \<Rightarrow> string"
  cn_sha256 :: "string \<Rightarrow> string"
  cn_user_agent :: string

datatype redirect_decision = UseLastResponse | BlockRedirect tool_error | FollowRedirect

definition redirectPolicy ::
    "call_net \<Rightarrow> string \<Rightarrow> int \<Rightarrow> bool \<Rightarrow> out_request \<Rightarrow> out_request list \<Rightarrow> redirect_decision" where
  "redirectPolicy net label maxRedirects followRedirects req via =
     (if \<not> followRedirects then UseLastResponse
      else if int (length via) > maxRedirects then BlockRedirect (newToolError label ''redirect limit exceeded'')
      else case oq_url req of
        None \<Rightarrow> BlockRedirect (newToolError label ''redirect blocked'')
      | Some u \<Rightarrow>
          if \<not> AllowsURL (cn_registry net (length via)) (Some u)
          then BlockRedirect (newRedirectBlockedError label (URL_String u)
            (fst (ExplainBlockedRedirect (cn_sha256 net) (cn_registry net (length via)) (Some u))))
          else FollowRedirect)"

definition sent_request :: "call_net \<Rightarrow> auto_request_id option \<Rightarrow> out_request \<Rightarrow> out_request" where
  "sent_request net auto req =
     req\<lparr>oq_header := applyAutoRequestID (cn_user_agent net) False auto (oq_url req) (oq_header req)\<rparr>"

text \<open>
  \<open>http.Client.Do\<close> with \<open>targetRoundTripper\<close>: what was sent and on which route, the answer with the request it
  belongs to, and the sockets afterwards. The first argument counts down the requests that may still be made.
\<close>

fun client_do ::
    "nat \<Rightarrow> call_net \<Rightarrow> (out_request \<Rightarrow> out_request list \<Rightarrow> redirect_decision) \<Rightarrow> auto_request_id option \<Rightarrow>
     out_request list \<Rightarrow> out_request \<Rightarrow> string list \<Rightarrow>
     ((route \<times> out_request) list \<times> (call_error + out_request \<times> http_reply) \<times> string list) option" where
  "client_do 0 net policy auto via req unix = None"
| "client_do (Suc n) net policy auto via req unix =
     (case transportForURL (cn_clonable net) (cn_registry net (length via)) unix (oq_url req) of
        Inl err \<Rightarrow> Some ([], Inl (NetError err), unix)
      | Inr (route, unix') \<Rightarrow>
          (let sent = sent_request net auto req in
           case cn_send net route via sent of
             Inl err \<Rightarrow> Some ([(route, sent)], Inl (NetError err), unix')
           | Inr resp \<Rightarrow>
               (case cn_redirect net (via @ [sent]) resp of
                  None \<Rightarrow> Some ([(route, sent)], Inr (sent, resp), unix')
                | Some (Inl err) \<Rightarrow> Some ([(route, sent)], Inl (NetError err), unix')
                | Some (Inr req') \<Rightarrow>
                    (case policy req' (via @ [sent]) of
                       UseLastResponse \<Rightarrow> Some ([(route, sent)], Inr (sent, resp), unix')
                     | BlockRedirect err \<Rightarrow> Some ([(route, sent)], Inl (ToolError err), unix')
                     | FollowRedirect \<Rightarrow> map_option (\<lambda>(trace, result). ((route, sent) # trace, result))
                         (client_do n net policy auto (via @ [sent]) req' unix')))))"

section \<open>The call\<close>

record call_params =
  cq_label :: string
  cq_method :: string
  cq_headers :: caller_headers
  cq_body :: string
  cq_timeout :: "int option"
  cq_max_bytes :: "int option"
  cq_follow :: "bool option"
  cq_max_redirects :: "int option"

text \<open>The body of a response is the bytes that are encoded in base64.\<close>

record call_response =
  cs_status :: int
  cs_headers :: header
  cs_body :: string
  cs_size :: nat

record call_event =
  cv_label :: string
  cv_url :: string
  cv_method :: string
  cv_status :: int
  cv_request_bytes :: nat
  cv_response_bytes :: nat
  cv_error :: string
  cv_body :: string
  cv_content_type :: string
  cv_transformed :: "string option"

text \<open>What a call does: the requests on the wire, its result, the receipt for the observers, and its metrics outcome.\<close>

record call_outcome =
  co_trace :: "(route \<times> out_request) list"
  co_result :: "tool_error + call_response"
  co_event :: "call_event option"
  co_metric :: string
  co_unix :: "string list"

definition refused :: "string \<Rightarrow> string \<Rightarrow> string list \<Rightarrow> call_outcome" where
  "refused label msg unix = \<lparr>co_trace = [], co_result = Inl (newToolError label msg), co_event = None,
     co_metric = ''invalid_input'', co_unix = unix\<rparr>"

definition outbound_headers :: "string \<Rightarrow> caller_headers \<Rightarrow> header" where
  "outbound_headers user_agent headers =
     header_set (foldl (\<lambda>h (key, vs). foldl (\<lambda>h v. header_add h key v) h vs) [] (fst (filterOutboundHeaders headers)))
       ''User-Agent'' user_agent"

definition reply_body :: "http_reply \<Rightarrow> http_body" where
  "reply_body resp = (case rp_body resp of Some b \<Rightarrow> b | None \<Rightarrow> \<lparr>hb_data = [], hb_err = nil_err\<rparr>)"

text \<open>The answer of a request that was made, as \<open>callTarget\<close> reads and rewrites it.\<close>

definition finish_call ::
    "call_net \<Rightarrow> string \<Rightarrow> string \<Rightarrow> string \<Rightarrow> int \<Rightarrow> (route \<times> out_request) list \<Rightarrow> string list \<Rightarrow> registry \<Rightarrow>
     out_request \<Rightarrow> http_reply \<Rightarrow> call_outcome" where
  "finish_call net label httpMethod body limit trace unix r final resp =
     (let (data, tooLarge, readErr) = readLimited (reply_body resp) limit;
          contentType = responseContentTypeForLog (header_get (rp_header resp) ''Content-Type'');
          rewriter = newURLRewriter (rg_ordered r);
          transformed = transformJSONBody (cn_url net) (cn_number net) rewriter data;
          event = \<lparr>cv_label = label, cv_url = (case oq_url final of None \<Rightarrow> [] | Some u \<Rightarrow> URL_String u),
            cv_method = httpMethod, cv_status = rp_status resp, cv_request_bytes = length body,
            cv_response_bytes = length data, cv_error = [], cv_body = data, cv_content_type = contentType,
            cv_transformed = None\<rparr>
      in if readErr \<noteq> nil_err
         then \<lparr>co_trace = trace, co_result = Inl (newToolError label ''response read failed''),
               co_event = Some (event\<lparr>cv_error := ''response read failed''\<rparr>), co_metric = ''response_read_error'', co_unix = unix\<rparr>
         else if tooLarge
         then \<lparr>co_trace = trace, co_result = Inl (newToolError label ''response exceeds size limit''),
               co_event = Some (event\<lparr>cv_error := ''response exceeds size limit''\<rparr>), co_metric = ''response_too_large'',
               co_unix = unix\<rparr>
         else \<lparr>co_trace = trace,
               co_result = Inr \<lparr>cs_status = rp_status resp, cs_headers = transformHeaders (cn_url net) rewriter (rp_header resp),
                 cs_body = (case transformed of Some b \<Rightarrow> b | None \<Rightarrow> data), cs_size = length data\<rparr>,
               co_event = Some (event\<lparr>cv_transformed := transformed\<rparr>), co_metric = ''success'', co_unix = unix\<rparr>)"

text \<open>The checks before the first request; the registry is read once for the target.\<close>

record prepared =
  pc_label :: string
  pc_method :: string
  pc_resolved :: web_url
  pc_url :: web_url
  pc_timeout :: int
  pc_limit :: int
  pc_redirects :: int
  pc_follow :: bool

definition or_refuse :: "goerr + 'a \<Rightarrow> (goerr \<Rightarrow> call_outcome) \<Rightarrow> ('a \<Rightarrow> call_outcome + 'b) \<Rightarrow> call_outcome + 'b" where
  "or_refuse x refuse f = (case x of Inl err \<Rightarrow> Inl (refuse err) | Inr v \<Rightarrow> f v)"

definition prepare_call ::
    "call_net \<Rightarrow> harpoon_config \<Rightarrow> string list \<Rightarrow> registry \<Rightarrow> call_params \<Rightarrow> call_outcome + prepared" where
  "prepare_call net cfg unix r params =
     (let label = trim_space (cq_label params); refuse = (\<lambda>msg. refused label msg unix);
          refuse_err = (\<lambda>err. refused label (cn_error_text net err) unix);
          httpMethod = map upper_char (trim_space (cq_method params)) in
      if label = [] then Inl (refuse ''label is required'')
      else case Lookup r label of
        None \<Rightarrow> Inl (refuse ''unknown target'')
      | Some t \<Rightarrow>
          if tg_template t \<noteq> None then Inl (refuse ''template target requires its discovered invocation schema'')
          else if httpMethod \<notin> {''GET'', ''POST'', ''PUT''} then Inl (refuse ''invalid method'')
          else or_refuse (Resolve r label) (\<lambda>_. refuse ''unknown target'') (\<lambda>resolved.
            or_refuse (normalizeTimeout (cq_timeout params)) refuse_err (\<lambda>timeout.
            or_refuse (normalizeMaxResponseBytes cfg (cq_max_bytes params)) refuse_err (\<lambda>limit.
            or_refuse (normalizeRedirects cfg (cq_follow params) (cq_max_redirects params)) refuse_err (\<lambda>(maxRedirects, follow).
            if int (length (cq_body params)) > limit then Inl (refuse ''request body exceeds size limit'')
            else case cn_url net (URL_String resolved) of
              None \<Rightarrow> Inl ((refuse ''request failed'')\<lparr>co_metric := ''request_error''\<rparr>)
            | Some u \<Rightarrow> Inr \<lparr>pc_label = label, pc_method = httpMethod, pc_resolved = resolved, pc_url = u,
                pc_timeout = timeout, pc_limit = limit, pc_redirects = maxRedirects, pc_follow = follow\<rparr>)))))"

definition call_request :: "call_net \<Rightarrow> call_params \<Rightarrow> prepared \<Rightarrow> out_request" where
  "call_request net params p = \<lparr>oq_method = pc_method p, oq_url = Some (pc_url p),
     oq_header = outbound_headers (cn_user_agent net) (cq_headers params), oq_body = cq_body params\<rparr>"

definition failed_call :: "call_net \<Rightarrow> call_params \<Rightarrow> prepared \<Rightarrow> (route \<times> out_request) list \<Rightarrow> string list \<Rightarrow> call_error \<Rightarrow> call_outcome" where
  "failed_call net params p trace unix e =
     \<lparr>co_trace = trace,
      co_result = Inl (newToolError (pc_label p) (case e of ToolError te \<Rightarrow> tl_msg te | NetError _ \<Rightarrow> ''request failed'')),
      co_event = Some \<lparr>cv_label = pc_label p, cv_url = URL_String (pc_resolved p), cv_method = pc_method p,
        cv_status = 0, cv_request_bytes = length (cq_body params), cv_response_bytes = 0,
        cv_error = classifyRequestError (cn_url net) (cn_error_text net) e, cv_body = [], cv_content_type = [],
        cv_transformed = None\<rparr>,
      co_metric = ''request_error'', co_unix = unix\<rparr>"

text \<open>
  The whole call. The registry is read again for the rewriting of the answer. \<open>client_ends\<close> below shows that the
  countdown of \<open>client_do\<close> is large enough, so that its last case is never taken.
\<close>

definition callTarget ::
    "call_net \<Rightarrow> harpoon_config \<Rightarrow> string \<Rightarrow> string list \<Rightarrow> registry \<Rightarrow> registry \<Rightarrow> call_params \<Rightarrow> call_outcome" where
  "callTarget net cfg rid unix r_start r_end params = (case prepare_call net cfg unix r_start params of
     Inl out \<Rightarrow> out
   | Inr p \<Rightarrow>
       (let req = call_request net params p;
            auto = contextWithAutoRequestID rid (oq_header req) (Some (pc_resolved p)) in
        case client_do (nat (pc_redirects p) + 2) net (redirectPolicy net (pc_label p) (pc_redirects p) (pc_follow p)) auto
            [] req unix of
          Some (trace, Inr (final, resp), unix') \<Rightarrow>
            finish_call net (pc_label p) (pc_method p) (cq_body params) (pc_limit p) trace unix' r_end final resp
        | Some (trace, Inl e, unix') \<Rightarrow> failed_call net params p trace unix' e
        | None \<Rightarrow> refused (pc_label p) ''request failed'' unix))"

section \<open>Where requests go\<close>

definition routed :: "registry \<Rightarrow> route \<times> out_request \<Rightarrow> bool" where
  "routed r = (\<lambda>(route, req). \<exists>t. TargetForURL r (oq_url req) = Some t \<and>
     route = (if tg_socket t = [] then BaseRoute else UnixRoute (tg_socket t)))"

lemma transport_routed:
  "transportForURL clonable r unix u = Inr (route, unix') \<Longrightarrow> oq_url req = u \<Longrightarrow> routed r (route, req)"
  by (auto simp: transportForURL_def routed_def split: option.splits if_splits)

lemma client_do_SucE:
  assumes "client_do (Suc n) net policy auto via req unix = Some (trace, result)"
  obtains (none) "trace = []"
  | (last) route unix' where
      "transportForURL (cn_clonable net) (cn_registry net (length via)) unix (oq_url req) = Inr (route, unix')"
      "trace = [(route, sent_request net auto req)]"
  | (more) route unix' resp req' rest where
      "transportForURL (cn_clonable net) (cn_registry net (length via)) unix (oq_url req) = Inr (route, unix')"
      "cn_redirect net (via @ [sent_request net auto req]) resp = Some (Inr req')"
      "policy req' (via @ [sent_request net auto req]) = FollowRedirect"
      "client_do n net policy auto (via @ [sent_request net auto req]) req' unix' = Some (rest, result)"
      "trace = (route, sent_request net auto req) # rest"
  using assms by (auto simp: Let_def split: sum.splits option.splits redirect_decision.splits)

lemma client_routed:
  assumes "client_do n net policy auto via req unix = Some (trace, result)" and "i < length trace"
  shows "routed (cn_registry net (length via + i)) (trace ! i)"
  using assms
proof (induction n arbitrary: via req unix trace i)
  case (Suc n)
  have first: "routed r (route, sent_request net auto req)"
    if "transportForURL c r unix (oq_url req) = Inr (route, unix')" for c r route unix'
    by (rule transport_routed [OF that]) (simp add: sent_request_def)
  from Suc.prems(1) show ?case
  proof (cases rule: client_do_SucE)
    case (more route unix' resp req' rest)
    then show ?thesis
      using first Suc.prems(2) Suc.IH [OF more(4), of "i - 1"] by (cases i) auto
  qed (use first Suc.prems(2) in auto)
qed simp

text \<open>The redirect policy bounds the requests of a call, so that the countdown never runs out.\<close>

lemma client_ends:
  assumes "int (length via) \<le> maxRedirects + 1" and "maxRedirects + 1 < int n + int (length via)"
  shows "client_do n net (redirectPolicy net label maxRedirects follow) auto via req unix \<noteq> None"
  using assms
proof (induction n arbitrary: via req unix)
  case (Suc n)
  have go: "client_do n net (redirectPolicy net label maxRedirects follow) auto (via @ [sent]) req' unix' \<noteq> None"
    if "redirectPolicy net label maxRedirects follow req' (via @ [sent]) = FollowRedirect" for sent req' unix'
    by (rule Suc.IH) (use that Suc.prems in \<open>auto simp: redirectPolicy_def split: if_splits option.splits\<close>)
  then show ?case
    by (auto simp: Let_def split: sum.split option.split redirect_decision.split) blast+
qed simp

lemma client_bounded:
  assumes "client_do n net (redirectPolicy net label maxRedirects follow) auto via req unix = Some (trace, result)"
    and "int (length via) \<le> maxRedirects"
  shows "int (length via + length trace) \<le> maxRedirects + 1"
  using assms
proof (induction n arbitrary: via req unix trace)
  case (Suc n)
  from Suc.prems(1) show ?case
  proof (cases rule: client_do_SucE)
    case (more route unix' resp req' rest)
    then have "int (length (via @ [sent_request net auto req])) \<le> maxRedirects"
      by (auto simp: redirectPolicy_def split: if_splits option.splits)
    then show ?thesis using Suc.IH [OF more(4)] more(5) by simp
  qed (use Suc.prems in auto)
qed simp

section \<open>What requests carry\<close>

text \<open>
  What is relied on of \<open>net/http\<close>: the header of a redirected request is taken from the requests before it, but for
  the \<open>Referer\<close> that it sets.
\<close>

definition copies_headers :: "call_net \<Rightarrow> bool" where
  "copies_headers net \<longleftrightarrow> (\<forall>via resp req. cn_redirect net via resp = Some (Inr req) \<longrightarrow>
     (\<forall>(k, vs) \<in> set (oq_header req). k = ''Referer'' \<or> (\<exists>q \<in> set via. (k, vs) \<in> set (oq_header q))))"

text \<open>A header of a request to a URL, by where it comes from.\<close>

definition header_source ::
    "call_net \<Rightarrow> caller_headers \<Rightarrow> auto_request_id option \<Rightarrow> web_url option \<Rightarrow> string \<times> string list \<Rightarrow> bool" where
  "header_source net headers auto u = (\<lambda>(k, vs).
     k = ''Referer'' \<or> (k = ''User-Agent'' \<and> vs = [cn_user_agent net]) \<or> may_leave headers k vs \<or>
     (case auto of None \<Rightarrow> False | Some a \<Rightarrow> k = ''X-Request-Id'' \<and> vs = [ar_value a] \<and> requestOrigin u = ar_origin a))"

lemma key_request_id: "canonical_header_key ''X-Request-Id'' = ''X-Request-Id''" "canonical_header_key ''User-Agent'' = ''User-Agent''"
  by code_simp+

definition auto_ok :: "auto_request_id option \<Rightarrow> bool" where
  "auto_ok auto = (case auto of None \<Rightarrow> True | Some a \<Rightarrow> ar_value a \<noteq> [])"

text \<open>A header before the automatic identifier is applied may still have it from an earlier request.\<close>

definition carried :: "call_net \<Rightarrow> caller_headers \<Rightarrow> auto_request_id option \<Rightarrow> string \<times> string list \<Rightarrow> bool" where
  "carried net headers auto = (\<lambda>(k, vs).
     k = ''Referer'' \<or> (k = ''User-Agent'' \<and> vs = [cn_user_agent net]) \<or> may_leave headers k vs \<or>
     (\<exists>a. auto = Some a \<and> k = ''X-Request-Id'' \<and> vs = [ar_value a]))"

lemma applied_source:
  assumes "list_all (carried net headers auto) (oq_header req)" and "auto_ok auto"
  shows "list_all (header_source net headers auto (oq_url req)) (oq_header (sent_request net auto req))"
proof (cases auto)
  case None
  then show ?thesis using assms by (auto simp: sent_request_def applyAutoRequestID_def list_all_iff carried_def header_source_def)
next
  case (Some a)
  then show ?thesis using assms
    by (auto simp: sent_request_def applyAutoRequestID_def list_all_iff carried_def header_source_def header_set_def
        header_del_def auto_ok_def key_request_id)
qed

lemma source_carried: "header_source net headers auto u kv \<Longrightarrow> carried net headers auto kv"
  by (auto simp: header_source_def carried_def split: option.splits)

lemma client_headers:
  assumes "client_do n net policy auto via req unix = Some (trace, result)" and "copies_headers net" and "auto_ok auto"
    and "list_all (carried net headers auto) (oq_header req)"
    and "\<forall>q \<in> set via. list_all (carried net headers auto) (oq_header q)"
  shows "list_all (\<lambda>(_, q). list_all (header_source net headers auto (oq_url q)) (oq_header q)) trace"
  using assms(1,4,5)
proof (induction n arbitrary: via req unix trace)
  case (Suc n)
  note first = applied_source [OF Suc.prems(2) assms(3)]
  have url: "oq_url (sent_request net auto req) = oq_url req" by (simp add: sent_request_def)
  from Suc.prems(1) show ?case
  proof (cases rule: client_do_SucE)
    case (more route unix' resp req' rest)
    let ?via = "via @ [sent_request net auto req]"
    have via: "\<forall>q \<in> set ?via. list_all (carried net headers auto) (oq_header q)"
      using Suc.prems(3) first source_carried by (auto simp: list_all_iff)
    have "list_all (carried net headers auto) (oq_header req')"
      unfolding list_all_iff
    proof
      fix kv assume kv: "kv \<in> set (oq_header req')"
      obtain k vs where "kv = (k, vs)" by (cases kv)
      with kv more(2) assms(2) have "k = ''Referer'' \<or> (\<exists>q \<in> set ?via. (k, vs) \<in> set (oq_header q))"
        unfolding copies_headers_def by blast
      then show "carried net headers auto kv"
      proof
        assume "k = ''Referer''"
        then show ?thesis by (simp add: carried_def \<open>kv = (k, vs)\<close>)
      next
        assume "\<exists>q \<in> set ?via. (k, vs) \<in> set (oq_header q)"
        then show ?thesis using via \<open>kv = (k, vs)\<close> unfolding list_all_iff by blast
      qed
    qed
    from Suc.IH [OF more(4) this via] first url more(5) show ?thesis by simp
  qed (use first url in simp_all)
qed simp

text \<open>Headers with one value for each canonical name.\<close>

definition flat_header :: "header \<Rightarrow> bool" where
  "flat_header h \<longleftrightarrow> distinct (map fst h) \<and> list_all (\<lambda>(k, vs). canonical_header_key k = k \<and> length vs = 1) h"

lemma flat_header_set: "flat_header h \<Longrightarrow> flat_header (header_set h k v)"
proof -
  assume h: "flat_header h"
  then have "distinct (map fst (header_del h k))" by (simp add: flat_header_def header_del_def distinct_map_filter)
  moreover have "canonical_header_key k \<notin> fst ` set (header_del h k)" by (auto simp: header_del_def)
  moreover have "list_all (\<lambda>(k, vs). canonical_header_key k = k \<and> length vs = 1) (header_del h k)"
    using h by (auto simp: flat_header_def header_del_def list_all_iff)
  ultimately show ?thesis by (simp add: flat_header_def header_set_def text_simps)
qed

lemma filtered_flat: "flat_header (fst (filterOutboundHeaders headers))"
proof -
  have "flat_header (foldl (\<lambda>h (key, v). header_set h (canonical_header_key (trim_space key)) v) h kvs)"
    if "flat_header h" for h and kvs :: caller_headers
    using that
  proof (induction kvs arbitrary: h)
    case (Cons kv kvs)
    then show ?case by (cases kv) (simp add: flat_header_set)
  qed simp
  moreover have "flat_header []" by (simp add: flat_header_def)
  ultimately show ?thesis by (simp add: filterOutboundHeaders_def Let_def)
qed

lemma add_all_fresh:
  assumes "flat_header (h @ kvs)"
  shows "foldl (\<lambda>h (key, vs). foldl (\<lambda>h v. header_add h key v) h vs) h kvs = h @ kvs"
  using assms
proof (induction kvs arbitrary: h)
  case (Cons kv kvs)
  obtain k v where kv: "kv = (k, [v])" using Cons.prems by (cases kv) (auto simp: flat_header_def length_Suc_conv)
  have canon: "canonical_header_key k = k" and fresh: "k \<notin> fst ` set h" using Cons.prems kv by (auto simp: flat_header_def)
  have "header_del h k = h" unfolding header_del_def canon using fresh by (intro filter_True) force
  moreover have "header_values h k = []" using canon fresh by (simp add: header_values_def map_of_eq_None_iff [THEN iffD2])
  ultimately have "header_add h k v = h @ [kv]" using canon kv by (simp add: header_add_def)
  then show ?case using Cons.IH [of "h @ [kv]"] Cons.prems kv by simp
qed simp

lemma outbound_carried: "list_all (carried net headers auto) (outbound_headers (cn_user_agent net) headers)"
proof -
  let ?f = "fst (filterOutboundHeaders headers)"
  have "outbound_headers (cn_user_agent net) headers = header_set ?f ''User-Agent'' (cn_user_agent net)"
    unfolding outbound_headers_def using add_all_fresh [of "[]" ?f] filtered_flat [of headers] by simp
  then show ?thesis using filtered_may_leave [of headers]
    by (auto simp: list_all_iff header_set_def header_del_def carried_def key_request_id)
qed

section \<open>Every call\<close>

lemma finish_trace: "co_trace (finish_call net label m body limit trace unix r final resp) = trace"
  by (simp add: finish_call_def Let_def split_beta)

lemma redirects_bound:
  assumes "normalizeRedirects cfg follow m = Inr (maxRedirects, followed)"
  shows "0 \<le> maxRedirects" "maxRedirects \<le> redirect_limit cfg"
  using assms by (auto simp: normalizeRedirects_def redirect_limit_def split: if_splits option.splits)

lemma or_refuse_Inr: "or_refuse x refuse f = Inr y \<longleftrightarrow> (\<exists>v. x = Inr v \<and> f v = Inr y)"
  by (cases x) (auto simp: or_refuse_def)

lemma or_refuse_Inl: "or_refuse x refuse f = Inl out \<Longrightarrow> (\<exists>err. out = refuse err) \<or> (\<exists>v. x = Inr v \<and> f v = Inl out)"
  by (cases x) (auto simp: or_refuse_def)

lemma prepared_ok:
  assumes "prepare_call net cfg unix r params = Inr p"
  shows "Resolve r (trim_space (cq_label params)) = Inr (pc_resolved p)" "normalizeTimeout (cq_timeout params) = Inr (pc_timeout p)"
    "normalizeMaxResponseBytes cfg (cq_max_bytes params) = Inr (pc_limit p)"
    "normalizeRedirects cfg (cq_follow params) (cq_max_redirects params) = Inr (pc_redirects p, pc_follow p)"
    "int (length (cq_body params)) \<le> pc_limit p" "cn_url net (URL_String (pc_resolved p)) = Some (pc_url p)"
    "pc_label p = trim_space (cq_label params)"
  using assms unfolding prepare_call_def Let_def
  by (auto simp: or_refuse_Inr split: if_splits option.splits)

lemma prepare_refused:
  assumes "prepare_call net cfg unix r params = Inl out"
  shows "co_trace out = [] \<and> (\<exists>e. co_result out = Inl e)"
  using assms unfolding prepare_call_def Let_def
  by (auto simp: refused_def dest!: or_refuse_Inl split: if_splits option.splits)

text \<open>The run of a call that passed the checks.\<close>

lemma called:
  assumes "prepare_call net cfg unix r0 params = Inr p"
  obtains result where
    "client_do (nat (pc_redirects p) + 2) net (redirectPolicy net (pc_label p) (pc_redirects p) (pc_follow p))
       (contextWithAutoRequestID rid (oq_header (call_request net params p)) (Some (pc_resolved p))) []
       (call_request net params p) unix = Some (co_trace (callTarget net cfg rid unix r0 r1 params), result)"
proof -
  let ?run = "client_do (nat (pc_redirects p) + 2) net (redirectPolicy net (pc_label p) (pc_redirects p) (pc_follow p))
       (contextWithAutoRequestID rid (oq_header (call_request net params p)) (Some (pc_resolved p))) []
       (call_request net params p) unix"
  have "0 \<le> pc_redirects p" using prepared_ok(4) [OF assms] redirects_bound(1) by blast
  then have "?run \<noteq> None" by (intro client_ends) auto
  then obtain trace res unix' where run: "?run = Some (trace, res, unix')" by auto
  then have "co_trace (callTarget net cfg rid unix r0 r1 params) = trace"
    using assms by (auto simp: callTarget_def Let_def finish_trace failed_call_def split: sum.split)
  with run that show ?thesis by simp
qed

lemma found_exact: "TargetForURL r u = Some t \<Longrightarrow> \<exists>k. (k, t) \<in> set (exact_targets r)"
  by (auto simp: TargetForURL_def find_Some_iff split: option.splits) (metis nth_mem)

text \<open>
  C11. Whatever the network answers and whatever is registered meanwhile, each request that a call sends goes to
  the URL of an exact target that is registered at that moment, over that target's transport, and a call sends at
  most one request more than the configured limit of redirects.
\<close>

theorem call_confined:
  assumes "i < length (co_trace (callTarget net cfg rid unix r0 r1 params))" and "registry_ok (cn_registry net i)"
  shows "length (co_trace (callTarget net cfg rid unix r0 r1 params)) \<le> nat (redirect_limit cfg) + 1 \<and>
         (\<exists>t \<in> set (rg_ordered (cn_registry net i)). tg_template t = None \<and>
            TargetForURL (cn_registry net i) (oq_url (snd (co_trace (callTarget net cfg rid unix r0 r1 params) ! i))) = Some t \<and>
            fst (co_trace (callTarget net cfg rid unix r0 r1 params) ! i) =
              (if tg_socket t = [] then BaseRoute else UnixRoute (tg_socket t)))"
proof -
  let ?trace = "co_trace (callTarget net cfg rid unix r0 r1 params)"
  obtain p where p: "prepare_call net cfg unix r0 params = Inr p"
    using assms(1) prepare_refused by (cases "prepare_call net cfg unix r0 params") (auto simp: callTarget_def)
  from called [OF p] obtain result where
    run: "client_do (nat (pc_redirects p) + 2) net (redirectPolicy net (pc_label p) (pc_redirects p) (pc_follow p))
       (contextWithAutoRequestID rid (oq_header (call_request net params p)) (Some (pc_resolved p))) []
       (call_request net params p) unix = Some (?trace, result)" .
  note bound = redirects_bound [OF prepared_ok(4) [OF p]]
  from client_bounded [OF run] bound have len: "length ?trace \<le> nat (redirect_limit cfg) + 1" by simp
  from client_routed [OF run assms(1)] obtain t where
    t: "TargetForURL (cn_registry net i) (oq_url (snd (?trace ! i))) = Some t"
      "fst (?trace ! i) = (if tg_socket t = [] then BaseRoute else UnixRoute (tg_socket t))"
    by (auto simp: routed_def split_beta)
  from found_exact [OF t(1)] obtain k where "(k, t) \<in> set (exact_targets (cn_registry net i))" ..
  from exact_target_base [OF this assms(2)] t len show ?thesis by metis
qed


lemma readLimited_bound:
  assumes "readLimited b limit = (data, False, nil_err)"
  shows "0 < limit" "length data \<le> nat limit" "data = hb_data b"
  using assms by (auto simp: readLimited_def read_prefix_def Let_def split: if_splits)

lemma timeout_bound:
  "normalizeTimeout t = Inr d \<Longrightarrow> 100 * millisecond \<le> d \<and> d \<le> 120000 * millisecond"
  by (auto simp: normalizeTimeout_def Let_def split: option.splits if_splits)

text \<open>
  A call that succeeds respected every limit: it ran under a timeout between 100 milliseconds and two minutes,
  sent a body within the response limit, and read the whole response, which is within the limit of the call and of
  the configuration.
\<close>

theorem call_limits:
  assumes "co_result (callTarget net cfg rid unix r0 r1 params) = Inr resp"
  shows "\<exists>limit d. normalizeMaxResponseBytes cfg (cq_max_bytes params) = Inr limit \<and>
           normalizeTimeout (cq_timeout params) = Inr d \<and> 100 * millisecond \<le> d \<and> d \<le> 120000 * millisecond \<and>
           length (cq_body params) \<le> nat limit \<and> 0 < limit \<and> cs_size resp \<le> nat limit \<and>
           limit \<le> (if hk_max_bytes cfg \<le> 0 then 100 * 1024 else hk_max_bytes cfg)"
proof -
  obtain p where p: "prepare_call net cfg unix r0 params = Inr p"
    using assms by (cases "prepare_call net cfg unix r0 params") (auto simp: callTarget_def dest!: prepare_refused)
  define limit where "limit = pc_limit p"
  have limit: "normalizeMaxResponseBytes cfg (cq_max_bytes params) = Inr limit"
    and d: "normalizeTimeout (cq_timeout params) = Inr (pc_timeout p)" and body: "int (length (cq_body params)) \<le> limit"
    using prepared_ok [OF p] by (simp_all add: limit_def)
  from assms p obtain trace unix' final reply where
    "co_result (finish_call net (pc_label p) (pc_method p) (cq_body params) limit trace unix' r1 final reply) = Inr resp"
    by (auto simp: callTarget_def Let_def refused_def failed_call_def limit_def split: option.splits sum.splits prod.splits)
  then obtain data where "readLimited (reply_body reply) limit = (data, False, nil_err)" "cs_size resp = length data"
    by (auto simp: finish_call_def Let_def split: prod.splits if_splits)
  with readLimited_bound have "0 < limit" "cs_size resp \<le> nat limit" by auto
  moreover have "limit \<le> (if hk_max_bytes cfg \<le> 0 then 100 * 1024 else hk_max_bytes cfg)"
    using limit by (auto simp: normalizeMaxResponseBytes_def Let_def split: if_splits option.splits)
  ultimately show ?thesis using limit d timeout_bound [OF d] body by auto
qed

text \<open>
  The product of milliseconds and a millisecond wraps around, so a timeout far above the maximum can be accepted
  as a short one.
\<close>

lemma timeout_wraps: "normalizeTimeout (Some 18446744073810) = Inr 100448384"
  by (simp add: normalizeTimeout_def i64_def Let_def)

text \<open>The size that a response reports is that of the body as read, not of the body that it carries.\<close>

lemma rewritten_size:
  "transformJSONBody (\<lambda>_. Some (endpoint_url ''A.test'' ''/v1'')) num (newURLRewriter [example_clean]) [CHR 0x22, CHR ''u'', CHR 0x22] =
     Some ([CHR 0x22] @ ''harpoon://api'' @ [CHR 0x22])"
proof -
  have "json_parse [CHR 0x22, CHR ''u'', CHR 0x22] = Some (JStr ''u'')" by code_simp
  moreover have "json_string ''harpoon://api'' = [CHR 0x22] @ ''harpoon://api'' @ [CHR 0x22]" by code_simp
  ultimately show ?thesis using example_rewrite by (simp add: transformJSONBody_def)
qed

section \<open>An example\<close>

definition example_net :: call_net where
  "example_net = \<lparr>cn_registry = (\<lambda>_. example_registry), cn_clonable = True,
     cn_send = (\<lambda>_ _ _. Inr \<lparr>rp_status = 200, rp_header = [], rp_body = Some \<lparr>hb_data = ''ok'', hb_err = nil_err\<rparr>\<rparr>),
     cn_redirect = (\<lambda>_ _. None), cn_url = (\<lambda>_. Some (endpoint_url ''A.test'' ''/v1'')), cn_number = Some,
     cn_error_text = (\<lambda>_. []), cn_sha256 = (\<lambda>s. ''d'' @ s), cn_user_agent = ''ua''\<rparr>"

definition example_limits :: harpoon_config where
  "example_limits = \<lparr>hk_max_bytes = 0, hk_max_redirects = 0\<rparr>"

definition example_call_params :: call_params where
  "example_call_params = \<lparr>cq_label = ''api'', cq_method = ''get'', cq_headers = [(''x-app'', ''1''), (''cookie'', ''c'')], cq_body = [],
     cq_timeout = None, cq_max_bytes = None, cq_follow = None, cq_max_redirects = Some 0\<rparr>"

lemma example_prepared:
  "\<exists>p. prepare_call example_net example_limits [] example_registry example_call_params = Inr p \<and>
     pc_url p = endpoint_url ''A.test'' ''/v1'' \<and> pc_redirects p = 0 \<and> pc_limit p = 102400"
proof -
  have "trim_space ''api'' = ''api''" "map upper_char (trim_space ''get'') = ''GET''" by code_simp+
  then show ?thesis
    by (simp add: prepare_call_def example_call_params_def Lookup_def Resolve_def example_registry_fields or_refuse_def
        normalizeTimeout_def normalizeMaxResponseBytes_def normalizeRedirects_def redirect_limit_def example_limits_def
        example_net_def Let_def)
qed

lemma example_call_run:
  "\<exists>q. co_trace (callTarget example_net example_limits ''r1'' [] example_registry example_registry example_call_params) = [(BaseRoute, q)] \<and>
     oq_url q = Some (endpoint_url ''A.test'' ''/v1'') \<and> (''X-Request-Id'', [''r1'']) \<in> set (oq_header q) \<and>
     (\<exists>resp. co_result (callTarget example_net example_limits ''r1'' [] example_registry example_registry example_call_params) = Inr resp)"
proof -
  from example_prepared obtain p where p: "prepare_call example_net example_limits [] example_registry example_call_params = Inr p"
    "pc_url p = endpoint_url ''A.test'' ''/v1''" "pc_redirects p = 0" "pc_limit p = 102400" by blast
  let ?h = "outbound_headers ''ua'' (cq_headers example_call_params)"
  have "tg_socket example_clean = []" "\<not> hasRequestIDHeader ?h" "validHTTPHeaderFieldValue ''r1''"
    "requestOrigin (Some ((endpoint_url ''a.test'' ''/v1'')\<lparr>u_scheme := ''https''\<rparr>)) = ''https://a.test''"
    "requestOrigin (Some (endpoint_url ''A.test'' ''/v1'')) = ''https://a.test''" by code_simp+
  note small = this
  have "trim_space ''api'' = ''api''" by code_simp
  then have "pc_resolved p = (endpoint_url ''a.test'' ''/v1'')\<lparr>u_scheme := ''https''\<rparr>"
    using prepared_ok(1) [OF p(1)] by (simp add: example_call_params_def Resolve_def Lookup_def example_registry_fields)
  with small have auto: "contextWithAutoRequestID ''r1'' ?h (Some (pc_resolved p)) = Some \<lparr>ar_value = ''r1'', ar_origin = ''https://a.test''\<rparr>"
    by (simp add: contextWithAutoRequestID_def)
  have "transportForURL True example_registry [] (Some (endpoint_url ''A.test'' ''/v1'')) = Inr (BaseRoute, [])"
    using example_found small(1) by (simp add: transportForURL_def)
  then show ?thesis
    using p auto small
    by (simp add: callTarget_def call_request_def example_net_def Let_def numeral_2_eq_2 finish_call_def reply_body_def readLimited_def
        read_prefix_def sent_request_def applyAutoRequestID_def header_set_def key_request_id)
qed

theorem call_confined_witness:
  "length (co_trace (callTarget example_net example_limits ''r1'' [] example_registry example_registry example_call_params)) \<le> 6"
proof -
  have "registry_ok (cn_registry example_net 0)"
    using steps_ok [OF example_registry_steps empty_ok(1)] by (simp add: example_net_def)
  from call_confined [OF _ this, of example_limits "''r1''" "[]" example_registry example_registry example_call_params]
  show ?thesis using example_call_run by (auto simp: example_limits_def redirect_limit_def)
qed


theorem call_limits_witness:
  "\<exists>limit. normalizeMaxResponseBytes example_limits None = Inr limit \<and> 0 < limit"
proof -
  obtain resp where "co_result (callTarget example_net example_limits ''r1'' [] example_registry example_registry example_call_params) = Inr resp"
    using example_call_run by auto
  from call_limits [OF this] show ?thesis by (auto simp: example_call_params_def)
qed

end
