(* ===== verification/TemplateCall.thy ===== *)
theory TemplateCall
  imports HarpoonCall TemplateSafety McpTransport "HOL-Library.Monad_Syntax"
begin

text \<open>
  Calls of template targets: \<open>policy_binding.go\<close>, which ties the label of an invocation to the policy that was
  discovered, and of \<open>template_server.go\<close> the strict decoding of arguments and \<open>callTargetTemplate\<close>. HMAC-SHA-256 is
  a parameter, as is the network.
\<close>

section \<open>Policy binding\<close>

text \<open>\<open>hex.EncodeToString\<close> and \<open>writeDigestFrame\<close>.\<close>

definition hex_encode :: "string \<Rightarrow> string" where
  "hex_encode s = concat (map (\<lambda>c. [hex_char (of_char c div 16), hex_char (of_char c mod 16)]) s)"

definition writeDigestFrame :: "string \<Rightarrow> string" where
  "writeDigestFrame s = s @ [CHR 0x00]"

definition headerRuleInvocationPrefix :: string where
  "headerRuleInvocationPrefix = ''hr1:''"

definition isPolicyBoundTemplateLabel :: "string \<Rightarrow> bool" where
  "isPolicyBoundTemplateLabel label = (case split_on (CHR '':'') label of
     [p0, p1, p2] \<Rightarrow> p0 = ''hr1'' \<and> length p1 = 64 \<and> labelPattern p2 \<and> list_all (\<lambda>c. hex_digit c \<noteq> None) p1
   | _ \<Rightarrow> False)"

type_synonym mac = "string \<Rightarrow> string \<Rightarrow> string"

text \<open>The key of a server, empty without a credential and a tunnel.\<close>

definition WithPolicyBinding :: "mac \<Rightarrow> (string \<times> string) option \<Rightarrow> string" where
  "WithPolicyBinding hmac controlPlane = (case controlPlane of
     None \<Rightarrow> []
   | Some (apiKey, tunnelID) \<Rightarrow>
       if apiKey \<noteq> [] \<and> tunnelID \<noteq> []
       then hmac apiKey (writeDigestFrame ''tunnel-client/harpoon/header-rules/key/v1'' @ writeDigestFrame tunnelID)
       else [])"

definition invocation_message :: "string \<Rightarrow> string \<Rightarrow> string" where
  "invocation_message label digest = writeDigestFrame ''tunnel-client/harpoon/header-rules/invocation/v1'' @
     writeDigestFrame label @ writeDigestFrame digest"

definition templateInvocationLabel :: "mac \<Rightarrow> string \<Rightarrow> target \<Rightarrow> string" where
  "templateInvocationLabel hmac key t = (case tg_template t of
     None \<Rightarrow> tg_label t
   | Some p \<Rightarrow>
       if \<not> HasRichHeaderRules p then tg_label t
       else headerRuleInvocationPrefix @ hex_encode (hmac key (invocation_message (tg_label t) (tt_digest p))) @ '':'' @ tg_label t)"

definition is_rich :: "target \<Rightarrow> bool" where
  "is_rich t = (case tg_template t of None \<Rightarrow> False | Some p \<Rightarrow> HasRichHeaderRules p)"

definition lookupTemplateInvocation :: "mac \<Rightarrow> string \<Rightarrow> registry \<Rightarrow> string \<Rightarrow> target option" where
  "lookupTemplateInvocation hmac key r label =
     (if has_prefix headerRuleInvocationPrefix label then
        if \<not> isPolicyBoundTemplateLabel label then None
        else (case Lookup r (split_on (CHR '':'') label ! 2) of
            None \<Rightarrow> None
          | Some t \<Rightarrow> if \<not> is_rich t \<or> label \<noteq> templateInvocationLabel hmac key t then None else Some t)
      else (case Lookup r label of
          None \<Rightarrow> None
        | Some t \<Rightarrow> if tg_template t = None \<or> is_rich t then None else Some t))"

section \<open>Arguments\<close>

text \<open>The members of an object and nothing for any other value or a text that is not JSON.\<close>

definition object_members :: "string \<Rightarrow> member list option" where
  "object_members raw = (case json_parse raw of Some (JObj ms) \<Rightarrow> Some ms | _ \<Rightarrow> None)"

text \<open>The arguments arrive as one raw JSON value of the request.\<close>

definition containsBoundInvocationLabel :: "string \<Rightarrow> bool" where
  "containsBoundInvocationLabel raw = (case object_members raw of
     None \<Rightarrow> False
   | Some ms \<Rightarrow> list_ex (\<lambda>(k, _, v). k = ''label'' \<and>
       (case v of JStr s \<Rightarrow> has_prefix headerRuleInvocationPrefix s | _ \<Rightarrow> False)) ms)"

text \<open>The map that the SDK made of the arguments holds the last of equal names.\<close>

definition isTemplateCall :: "registry \<Rightarrow> string \<Rightarrow> bool" where
  "isTemplateCall r raw = (case object_members raw of
     None \<Rightarrow> False
   | Some ms \<Rightarrow>
       (let args = map_of (rev (map (\<lambda>(k, _, v). (k, v)) ms));
            label = (case args ''label'' of Some (JStr s) \<Rightarrow> s | _ \<Rightarrow> []) in
        (case Lookup r label of Some t \<Rightarrow> tg_template t \<noteq> None | None \<Rightarrow> False) \<or>
        containsBoundInvocationLabel raw \<or>
        list_ex (\<lambda>n. args n \<noteq> None) [''parameters'', ''operation'', ''content_type'']))"

fun checkTemplateJSONValue :: "nat \<Rightarrow> json \<Rightarrow> bool" where
  "checkTemplateJSONValue depth (JObj ms) \<longleftrightarrow> depth \<le> 4 \<and> distinct (map fst ms) \<and>
     list_all (\<lambda>(_, _, v). checkTemplateJSONValue (Suc depth) v) ms"
| "checkTemplateJSONValue depth (JArr vs) \<longleftrightarrow> depth \<le> 4 \<and> list_all (checkTemplateJSONValue (Suc depth)) vs"
| "checkTemplateJSONValue depth v \<longleftrightarrow> depth \<le> 4"

record template_params =
  tq_label :: string
  tq_parameters :: call_parameters
  tq_operation :: "string option"
  tq_body :: "string option"
  tq_content_type :: "string option"
  tq_headers :: "(string \<times> string) list"
  tq_timeout :: "int option"
  tq_max_bytes :: "int option"

definition template_fields :: "string list" where
  "template_fields = [''label'', ''parameters'', ''headers'', ''operation'', ''body'', ''content_type'', ''timeout_ms'',
     ''max_response_bytes'']"

text \<open>A field that may be absent; the outer option is the error.\<close>

definition string_arg :: "(string \<times> json) list \<Rightarrow> string \<Rightarrow> string option option" where
  "string_arg args name = (case map_of args name of
     None \<Rightarrow> Some None | Some (JStr s) \<Rightarrow> Some (Some s) | Some _ \<Rightarrow> None)"

definition int_arg :: "(string \<times> json) list \<Rightarrow> string \<Rightarrow> int option option" where
  "int_arg args name = (case map_of args name of
     None \<Rightarrow> Some None | Some (JNum n) \<Rightarrow> map_option Some (parse_int64 n) | Some _ \<Rightarrow> None)"

definition header_args :: "(string \<times> json) list \<Rightarrow> (string \<times> string) list option" where
  "header_args args = (case map_of args ''headers'' of
     None \<Rightarrow> Some []
   | Some (JObj ms) \<Rightarrow> those (map (\<lambda>(k, _, v). case v of JStr s \<Rightarrow> Some (k, s) | _ \<Rightarrow> None) ms)
   | Some _ \<Rightarrow> None)"

definition parameter_args :: "(string \<times> json) list \<Rightarrow> call_parameters option" where
  "parameter_args args = (case map_of args ''parameters'' of
     Some (JObj ms) \<Rightarrow> Some (map (\<lambda>(k, _, v). (k, case v of JStr s \<Rightarrow> Some s | _ \<Rightarrow> None)) ms)
   | _ \<Rightarrow> None)"

definition decodeTemplateArguments :: "string \<Rightarrow> template_params option" where
  "decodeTemplateArguments raw =
     (if length raw > 32768 + 6 * maxTemplateBodyBytes \<or> \<not> validTemplateJSONStrings raw then None
      else do {
        ms \<leftarrow> object_members (trim_space raw);
        let args = map (\<lambda>(k, _, v). (k, v)) ms;
        if \<not> checkTemplateJSONValue 0 (JObj ms) \<or> list_ex (\<lambda>(k, v). v = JNull \<or> k \<notin> set template_fields) args then None
        else do {
          headers \<leftarrow> header_args args;
          label \<leftarrow> string_arg args ''label'';
          operation \<leftarrow> string_arg args ''operation'';
          body \<leftarrow> string_arg args ''body'';
          contentType \<leftarrow> string_arg args ''content_type'';
          timeout \<leftarrow> int_arg args ''timeout_ms'';
          maxBytes \<leftarrow> int_arg args ''max_response_bytes'';
          parameters \<leftarrow> parameter_args args;
          (case label of
             None \<Rightarrow> None
           | Some l \<Rightarrow>
               if \<not> labelPattern l \<and> \<not> isPolicyBoundTemplateLabel l then None
               else Some \<lparr>tq_label = l, tq_parameters = parameters, tq_operation = operation, tq_body = body,
                 tq_content_type = contentType, tq_headers = headers, tq_timeout = timeout, tq_max_bytes = maxBytes\<rparr>)
        }
      })"

section \<open>The call\<close>

text \<open>
  \<open>tn_send\<close> is what \<open>client.Do\<close> gives for a request that the boundary let through, on the base transport or the one for
  loopback; the request is made once, since redirects are not followed. \<open>tn_parse\<close> is the URL that \<open>http.NewRequest\<close>
  makes of a text: \<open>url.Parse\<close>, with an empty port dropped from the host.
\<close>

record template_net =
  tn_hmac :: mac
  tn_key :: string
  tn_parse :: "string \<Rightarrow> web_url option"
  tn_send :: "bool \<Rightarrow> template_request \<Rightarrow> goerr + http_reply"
  tn_error_text :: "goerr \<Rightarrow> string"
  tn_user_agent :: string

record template_outcome =
  to_trace :: "(bool \<times> template_request) list"
  to_result :: "tool_error + call_response"
  to_metric :: string
  to_label :: string

definition template_refused :: "string \<Rightarrow> string \<Rightarrow> template_outcome" where
  "template_refused label msg = \<lparr>to_trace = [], to_result = Inl (newToolError label msg), to_metric = ''invalid_input'',
     to_label = label\<rparr>"

definition template_headers :: "string \<Rightarrow> target_template \<Rightarrow> string option \<Rightarrow> header \<Rightarrow> header" where
  "template_headers user_agent p contentType caller =
     (let h = header_set (maps_copy caller (tt_headers p)) ''User-Agent'' user_agent in
      case contentType of None \<Rightarrow> h | Some ct \<Rightarrow> header_set h ''Content-Type'' ct)"

text \<open>\<open>http.NewRequest\<close> drops an empty port from the host.\<close>

definition new_template_request ::
    "target_template \<Rightarrow> web_url \<Rightarrow> header \<Rightarrow> string option \<Rightarrow> template_request" where
  "new_template_request p u h body =
     (let bodyText = (case body of None \<Rightarrow> [] | Some b \<Rightarrow> b) in
      \<lparr>hq_method = tt_method p, hq_url = Some u, hq_uri = [], hq_host = trim_suffix (u_host u) '':'', hq_header = h,
       hq_body = (if tt_method p \<noteq> ''GET'' then Some bodyText else None), hq_length = int (length bodyText),
       hq_encodings = [], hq_trailer = [], hq_get_body = False\<rparr>)"

text \<open>\<open>templateRoundTripper.RoundTrip\<close>: what was sent, if anything, and the answer.\<close>

definition template_round_trip ::
    "template_net \<Rightarrow> target_template \<Rightarrow> template_params \<Rightarrow> auto_request_id option \<Rightarrow> template_request \<Rightarrow>
     (bool \<times> template_request) list \<times> (goerr + http_reply)" where
  "template_round_trip net p params auto req =
     (let err = validateRequest (tn_user_agent net) p (Some req) (tq_parameters params) (tq_body params) (tq_content_type params) in
      if err \<noteq> nil_err then ([], Inl err)
      else
        (let sent = req\<lparr>hq_header := applyAutoRequestID (tn_user_agent net) True auto (hq_url req) (hq_header req)\<rparr> in
         ([(tt_loopback p, sent)], tn_send net (tt_loopback p) sent)))"

definition finish_template_call ::
    "string \<Rightarrow> int \<Rightarrow> (bool \<times> template_request) list \<Rightarrow> goerr + http_reply \<Rightarrow> template_outcome" where
  "finish_template_call label limit trace answer = (case answer of
     Inl _ \<Rightarrow> \<lparr>to_trace = trace, to_result = Inl (newToolError label ''template request failed''), to_metric = ''request_error'',
        to_label = label\<rparr>
   | Inr resp \<Rightarrow>
       (let (data, tooLarge, err) = readLimited (reply_body resp) limit in
        if err \<noteq> nil_err
        then \<lparr>to_trace = trace, to_result = Inl (newToolError label ''response read failed''), to_metric = ''response_read_error'',
              to_label = label\<rparr>
        else if tooLarge
        then \<lparr>to_trace = trace, to_result = Inl (newToolError label ''response exceeds size limit''),
              to_metric = ''response_too_large'', to_label = label\<rparr>
        else \<lparr>to_trace = trace, to_result = Inr \<lparr>cs_status = rp_status resp, cs_headers = rp_header resp, cs_body = data,
                cs_size = length data\<rparr>, to_metric = ''success'', to_label = label\<rparr>))"

definition operation_refused :: "target_template \<Rightarrow> string option \<Rightarrow> string option" where
  "operation_refused p operation =
     (if tt_body p \<noteq> None
      then (if operation \<noteq> Some (tt_token p) then Some ''write operation must match the discovered invocation schema'' else None)
      else if operation \<noteq> None then Some ''GET templates do not accept a write operation'' else None)"

definition send_template ::
    "template_net \<Rightarrow> string \<Rightarrow> string \<Rightarrow> target_template \<Rightarrow> template_params \<Rightarrow> web_url \<Rightarrow> header \<Rightarrow> int \<Rightarrow> template_outcome" where
  "send_template net rid label p params resolved headers limit = (case tn_parse net (URL_String resolved) of
     None \<Rightarrow> template_refused label ''invalid template request''
   | Some u \<Rightarrow>
       (let req = new_template_request p u headers (tq_body params);
            auto = contextWithAutoRequestID rid headers (Some resolved);
            (trace, answer) = template_round_trip net p params auto req
        in finish_template_call label limit trace answer))"

definition callTargetTemplate ::
    "template_net \<Rightarrow> harpoon_config \<Rightarrow> string \<Rightarrow> registry \<Rightarrow> template_params \<Rightarrow> template_outcome" where
  "callTargetTemplate net cfg rid r params =
     (case map_option (\<lambda>t. (t, tg_template t)) (lookupTemplateInvocation (tn_hmac net) (tn_key net) r (tq_label params)) of
        Some (t, Some p) \<Rightarrow>
          (let label = tg_label t; refuse = template_refused label; refuse_err = (\<lambda>err. refuse (tn_error_text net err));
               bodyErr = body_validate (tt_body p) (tq_body params) (tq_content_type params) in
           case operation_refused p (tq_operation params) of
             Some msg \<Rightarrow> refuse msg
           | None \<Rightarrow>
             if bodyErr \<noteq> nil_err then refuse_err bodyErr
             else case Render p (tq_parameters params) of
               Inl err \<Rightarrow> refuse_err err
             | Inr resolved \<Rightarrow>
                 (case ValidateCallerHeaders (tn_user_agent net) p (tq_headers params) of
                    Inl err \<Rightarrow> refuse_err err
                  | Inr caller \<Rightarrow>
                      (case normalizeTimeout (tq_timeout params) of
                         Inl err \<Rightarrow> refuse_err err
                       | Inr _ \<Rightarrow>
                           (case normalizeMaxResponseBytes cfg (tq_max_bytes params) of
                              Inl err \<Rightarrow> refuse_err err
                            | Inr limit \<Rightarrow>
                                send_template net rid label p params resolved
                                  (template_headers (tn_user_agent net) p (tq_content_type params) caller) limit))))
      | _ \<Rightarrow> (template_refused [] ''unknown template target'')\<lparr>to_label := ''__unknown__''\<rparr>)"


section \<open>Which invocations are accepted\<close>

lemma hex_encode_length: "length (hex_encode s) = 2 * length s"
  by (induction s) (simp_all add: hex_encode_def)

lemma hex_nibbles: "hex_digit (hex_char (of_char c div 16)) = Some (of_char c div 16)"
  "hex_digit (hex_char (of_char c mod 16)) = Some (of_char c mod 16)" for c :: char
proof -
  have "of_char c < (256::nat)" by (rule char_code_bound)
  then have "of_char c div 16 < (16::nat)" by (simp add: less_mult_imp_div_less)
  then show "hex_digit (hex_char (of_char c div 16)) = Some (of_char c div 16)" by (rule hex_digit_char)
qed (simp add: hex_digit_char)

lemma hex_encode_digits: "list_all (\<lambda>c. hex_digit c \<noteq> None) (hex_encode s)"
  by (induction s) (simp_all add: hex_encode_def hex_nibbles)

lemma hex_encode_inj: "hex_encode s = hex_encode s' \<Longrightarrow> s = s'"
proof (induction s arbitrary: s')
  case (Cons c s)
  then obtain c' t where s': "s' = c' # t" by (cases s') (auto simp: hex_encode_def)
  have "hex_digit (hex_char (of_char c div 16)) = hex_digit (hex_char (of_char c' div 16))"
    "hex_digit (hex_char (of_char c mod 16)) = hex_digit (hex_char (of_char c' mod 16))"
    using Cons.prems by (simp_all add: s' hex_encode_def)
  then have "of_char c div 16 = (of_char c' div 16 :: nat)" "of_char c mod 16 = (of_char c' mod 16 :: nat)"
    by (simp_all add: hex_nibbles)
  then have "of_char c = (of_char c' :: nat)" by (metis div_mult_mod_eq)
  then have "c = c'" by simp
  then show ?case using Cons by (simp add: s' hex_encode_def)
qed (auto simp: hex_encode_def split: list.splits)

lemma hex_not_colon: "CHR '':'' \<notin> set (hex_encode s)"
proof -
  have "hex_digit (CHR '':'') = None" by code_simp
  then show ?thesis using hex_encode_digits [of s] by (auto simp: list_all_iff)
qed

lemma label_bytes: "labelPattern s \<Longrightarrow> CHR '':'' \<notin> set s \<and> CHR 0x00 \<notin> set s"
  by (auto simp: labelPattern_def list_all_iff between_def is_digit_def)

lemma bound_label_split:
  assumes "labelPattern label"
  shows "split_on (CHR '':'') (headerRuleInvocationPrefix @ hex_encode m @ '':'' @ label) = [''hr1'', hex_encode m, label]"
proof -
  have "split_on (CHR '':'') (''hr1'' @ CHR '':'' # hex_encode m @ CHR '':'' # label) =
      ''hr1'' # split_on (CHR '':'') (hex_encode m @ CHR '':'' # label)"
    by (rule split_on_append) simp
  also have "split_on (CHR '':'') (hex_encode m @ CHR '':'' # label) = hex_encode m # split_on (CHR '':'') label"
    by (rule split_on_append) (rule hex_not_colon)
  also have "split_on (CHR '':'') label = [label]" using label_bytes [OF assms] by (simp add: split_on_no_sep)
  finally show ?thesis by (simp add: headerRuleInvocationPrefix_def)
qed

lemma invocation_message_inj:
  assumes "invocation_message l d = invocation_message l' d'" and "labelPattern l" and "labelPattern l'"
  shows "l = l' \<and> d = d'"
proof -
  have eq: "l @ CHR 0x00 # d @ [CHR 0x00] = l' @ CHR 0x00 # d' @ [CHR 0x00]"
    using assms(1) by (simp add: invocation_message_def writeDigestFrame_def)
  have "takeWhile (\<lambda>c. c \<noteq> CHR 0x00) (x @ CHR 0x00 # y) = x" if "CHR 0x00 \<notin> set x" for x y
    using that by (induction x) auto
  with label_bytes [OF assms(2)] label_bytes [OF assms(3)] have "l = l'" using arg_cong [OF eq, of "takeWhile (\<lambda>c. c \<noteq> CHR 0x00)"] by simp
  with eq show ?thesis by simp
qed



section \<open>What a call sends\<close>

text \<open>The steps of a call that sends something.\<close>

lemma template_call_sent:
  assumes "sent \<in> set (to_trace (callTargetTemplate net cfg rid r params))"
  obtains t p resolved caller limit u where
    "lookupTemplateInvocation (tn_hmac net) (tn_key net) r (tq_label params) = Some t" "tg_template t = Some p"
    "operation_refused p (tq_operation params) = None" "Render p (tq_parameters params) = Inr resolved"
    "ValidateCallerHeaders (tn_user_agent net) p (tq_headers params) = Inr caller"
    "normalizeMaxResponseBytes cfg (tq_max_bytes params) = Inr limit"
    "tn_parse net (URL_String resolved) = Some u"
    "let h = template_headers (tn_user_agent net) p (tq_content_type params) caller; req = new_template_request p u h (tq_body params)
     in to_trace (callTargetTemplate net cfg rid r params) = [sent] \<and>
        validateRequest (tn_user_agent net) p (Some req) (tq_parameters params) (tq_body params) (tq_content_type params) = nil_err \<and>
        sent = (tt_loopback p, req\<lparr>hq_header := applyAutoRequestID (tn_user_agent net) True
                  (contextWithAutoRequestID rid h (Some resolved)) (Some u) h\<rparr>)"
proof -
  have trace: "to_trace (finish_template_call l n tr a) = tr" for l n tr a
    by (simp add: finish_template_call_def Let_def split: sum.split prod.split)
  show ?thesis
    using assms that
    by (auto simp: callTargetTemplate_def send_template_def template_round_trip_def template_refused_def Let_def trace
        new_template_request_def split: option.splits if_splits sum.splits prod.splits)
qed


text \<open>The templates of a registry come from the compiler.\<close>

definition compiled_templates :: "template_env \<Rightarrow> registry \<Rightarrow> bool" where
  "compiled_templates env r = list_all (\<lambda>(_, t). \<forall>p. tg_template t = Some p \<longrightarrow>
     (\<exists>cfg. CompileTargetTemplate env (Some cfg) = Inr p)) (rg_targets r)"

lemma register_compiled:
  assumes "RegisterTarget env public raw config r = Inr r'" and "tg_template raw = None" and "compiled_templates env r"
  shows "compiled_templates env r'"
proof -
  from assms(1) obtain t bytes where t: "clean_target env (rg_plaintext r) raw config = Inr t"
    and ins: "insert_target bytes t r = Inr r'"
    by (auto simp: RegisterTarget_def Let_def policy_simps split: sum.splits option.splits)
  have "\<exists>cfg. CompileTargetTemplate env (Some cfg) = Inr p" if "tg_template t = Some p" for p
  proof (cases config)
    case None
    then show ?thesis using t that assms(2)
      by (cases "tg_base raw"; cases "normalizeURL (the (tg_base raw))")
        (auto simp: clean_target_def clean_record_def Let_def policy_simps)
  next
    case (Some cfg)
    with t obtain y where y: "CompileTargetTemplate env (Some cfg) = Inr y"
      by (auto simp: clean_target_def Let_def policy_simps split: if_splits)
    with t Some have "tg_template t = Some y"
      by (cases "normalizeURL (tt_origin y)")
        (auto simp: clean_target_def clean_record_def Let_def policy_simps split: if_splits)
    with y that show ?thesis by auto
  qed
  then show ?thesis
    using assms(3) insert_target_shape(1) [OF ins] by (auto simp: compiled_templates_def list_all_iff)
qed

text \<open>The automatic identifier is added only where no header of the call has its name.\<close>

lemma auto_id_header:
  assumes "kv \<in> set (applyAutoRequestID ua template (contextWithAutoRequestID rid h target) u h)"
  shows "kv \<in> set h \<or> kv = (''X-Request-Id'', [rid])"
  using assms
  by (auto simp: applyAutoRequestID_def contextWithAutoRequestID_def header_set_def header_del_def key_request_id Let_def
      split: option.splits if_splits)

lemma auto_id_keeps:
  assumes "kv \<in> set h"
  shows "kv \<in> set (applyAutoRequestID ua template (contextWithAutoRequestID rid h target) u h)"
proof (cases "hasRequestIDHeader h")
  case False
  with assms have "fst kv \<noteq> ''X-Request-Id''" by (auto simp: hasRequestIDHeader_def list_ex_iff text_simps)
  then show ?thesis
    using assms by (auto simp: applyAutoRequestID_def header_set_def header_del_def key_request_id split: option.splits)
qed (use assms in \<open>simp add: contextWithAutoRequestID_def applyAutoRequestID_def\<close>)



section \<open>The boundary admits the call's own request\<close>

text \<open>A header that a caller may send, under its outgoing name.\<close>

definition forwarded :: "target_template \<Rightarrow> string \<times> string list \<Rightarrow> bool" where
  "forwarded p = (\<lambda>(k, vs). \<exists>r v. vs = [v] \<and> map_of (tt_dests p) k = Some r \<and> rule_validate r v = nil_err)"

definition sources_sent :: "target_template \<Rightarrow> header \<Rightarrow> header \<Rightarrow> bool" where
  "sources_sent p sources out \<longleftrightarrow> (\<forall>(source, r) \<in> set (tt_rules p).
     source \<in> fst ` set sources \<longrightarrow> hr_forward_as (cr_schema r) \<in> fst ` set out)"

lemma rules_dest:
  assumes "rules_ok w fixed (tt_rules p) (tt_dests p)" and "(source, r) \<in> set (tt_rules p)"
  shows "map_of (tt_dests p) (hr_forward_as (cr_schema r)) = Some r"
    "canonicalTemplateHeader (hr_forward_as (cr_schema r)) = Inr (hr_forward_as (cr_schema r))"
    "hr_forward_as (cr_schema r) \<notin> fst ` set fixed" "\<not> (w \<and> hr_forward_as (cr_schema r) = ''Content-Type'')"
  using assms by (auto simp: rules_ok_def list_all_iff rule_ok_def Let_def intro!: map_of_is_SomeI)

lemma filter_keys: "fst ` set (filter (\<lambda>(n, _). P n) h) = {n \<in> fst ` set h. P n}"
  by (induction h) auto

lemma header_set_keys: "fst ` set (header_set h k v) = insert (canonical_header_key k) (fst ` set h)"
proof -
  have "fst ` set (header_set h k v) = insert (canonical_header_key k) {n \<in> fst ` set h. n \<noteq> canonical_header_key k}"
    by (simp only: header_set_def header_del_def set_append image_Un filter_keys) simp
  then show ?thesis by blast
qed

lemma maps_copy_keys: "fst ` set (maps_copy h h') = fst ` set h \<union> fst ` set h'"
proof -
  have "fst ` set (maps_copy h h') = {n \<in> fst ` set h. n \<notin> fst ` set h'} \<union> fst ` set h'"
    by (simp only: maps_copy_def set_append image_Un filter_keys)
  then show ?thesis by blast
qed

lemma caller_rules_forwarded:
  assumes "caller_rules p sources out kvs = Inr (sources', out')" and "rules_ok w fixed (tt_rules p) (tt_dests p)"
    and "list_all (forwarded p) out" and "sources_sent p sources out"
  shows "list_all (forwarded p) out' \<and> sources_sent p sources' out'"
  using assms
proof (induction p sources out kvs rule: caller_rules.induct)
  case (2 p sources out key v kvs)
  from "2.prems"(1) obtain c r where c: "canonicalTemplateHeader key = Inr c" "map_of (tt_rules p) c = Some r"
    and ok: "c \<notin> fst ` set sources" "rule_validate r v = nil_err"
    and rest: "caller_rules p (header_set sources c v) (header_set out (hr_forward_as (cr_schema r)) v) kvs = Inr (sources', out')"
    by (auto split: sum.splits option.splits if_splits)
  let ?d = "hr_forward_as (cr_schema r)"
  have mem: "(c, r) \<in> set (tt_rules p)" using c(2) by (rule map_of_SomeD)
  note d = rules_dest [OF "2.prems"(2) mem]
  note names = canonical_name(2) [OF d(2)] canonical_name(2) [OF canonical_canonical [OF c(1)]]
  have fw: "list_all (forwarded p) (header_set out ?d v)"
    using "2.prems"(3) d(1) ok(2) by (auto simp: header_set_def header_del_def list_all_iff names forwarded_def)
  have keys: "fst ` set (header_set out ?d v) = insert ?d (fst ` set out)"
    "fst ` set (header_set sources c v) = insert c (fst ` set sources)"
    by (simp_all add: header_set_keys names)
  have "r' = r" if "(c, r') \<in> set (tt_rules p)" for r'
    using that c(2) "2.prems"(2) by (auto simp: rules_ok_def dest: map_of_is_SomeI)
  then have "sources_sent p (header_set sources c v) (header_set out ?d v)"
    using "2.prems"(4) unfolding sources_sent_def keys by blast
  from "2.IH" [OF c(1) c(2) ok(1) _ rest "2.prems"(2) fw this] ok(2) show ?case by simp
qed simp

lemma template_headers_set:
  assumes "kv \<in> set (template_headers ua p contentType caller)"
  shows "kv \<in> set caller \<or> kv \<in> set (tt_headers p) \<or> kv = (''User-Agent'', [ua]) \<or>
         (\<exists>ct. contentType = Some ct \<and> kv = (''Content-Type'', [ct]))"
proof -
  have "canonical_header_key ''Content-Type'' = ''Content-Type''" by code_simp
  then show ?thesis
    using assms by (auto simp: template_headers_def maps_copy_def header_set_def header_del_def key_request_id Let_def
        split: option.splits)
qed

lemma template_headers_keys:
  "fst ` set (template_headers ua p contentType caller) =
     fst ` set caller \<union> fst ` set (tt_headers p) \<union> {''User-Agent''} \<union> (if contentType = None then {} else {''Content-Type''})"
proof -
  have "canonical_header_key ''Content-Type'' = ''Content-Type''" by code_simp
  then show ?thesis
    by (cases contentType) (auto simp: template_headers_def header_set_keys maps_copy_keys key_request_id Let_def)
qed

text \<open>Every header of the request is admitted at the boundary.\<close>

lemma own_headers_admitted:
  assumes "CompileTargetTemplate env (Some cfg) = Inr p" and "te_user_agent env = ua"
    and "ValidateCallerHeaders ua p headers = Inr caller" and "body_validate (tt_body p) body contentType = nil_err"
    and "validTemplateHeaderValue ua" and "\<And>ct. contentType = Some ct \<Longrightarrow> validTemplateHeaderValue ct"
    and "kv \<in> set (template_headers ua p contentType caller)"
  shows "outbound_header ua p contentType kv = nil_err"
proof -
  from compiled [OF assms(1)] obtain rs where
    h: "compile_headers (tt_body p \<noteq> None) [] (tc_headers cfg) = Inr (tt_headers p)"
    and rules: "compileHeaderRules (te_regexp env) (tt_body p \<noteq> None) (tt_headers p) rs = Inr (tt_rules p, tt_dests p)"
    by metis
  note ok = compileHeaderRules_ok [OF rules]
  note exact = compile_headers_exact [OF h]
  have "list_all (forwarded p) caller"
    using assms(3) caller_rules_forwarded [OF _ ok, of "[]" "[]" headers]
    by (auto simp: ValidateCallerHeaders_def policy_simps sources_sent_def split: if_splits prod.splits)
  moreover have "canonical_header_key ''Content-Type'' = ''Content-Type''" by code_simp
  moreover have "tt_body p \<noteq> None" if "contentType = Some ct" for ct
    using assms(4) that by (auto simp: body_validate_def fails_def split: option.splits)
  ultimately consider (caller) k v r where "kv = (k, [v])" "map_of (tt_dests p) k = Some r" "rule_validate r v = nil_err"
    | (fixed) k v where "kv = (canonical_header_key k, [v])" "(k, v) \<in> set (tc_headers cfg)"
    | (ua) "kv = (''User-Agent'', [ua])" | (ct) ct where "contentType = Some ct" "kv = (''Content-Type'', [ct])" "tt_body p \<noteq> None"
    using template_headers_set [OF assms(7)] exact(1) by (fastforce simp: list_all_iff forwarded_def)
  then show ?thesis
  proof cases
    case caller
    then have "(k, r) \<in> set (tt_dests p)" by (auto dest: map_of_SomeD)
    with ok obtain source where "(source, r) \<in> set (tt_rules p)" "k = hr_forward_as (cr_schema r)" by (auto simp: rules_ok_def)
    with rules_dest [OF ok this(1)] have k: "canonicalTemplateHeader k = Inr k" "map_of (tt_headers p) k = None"
      by (auto simp: map_of_eq_None_iff)
    have "validTemplateHeaderValue v" using caller(3) by (auto simp: rule_validate_def split: if_splits)
    with caller k canonical_name(2) [OF k(1)] show ?thesis by (simp add: outbound_header_def)
  next
    case fixed
    let ?k = "canonical_header_key k"
    have kv: "canonicalTemplateHeader k = Inr ?k" "validTemplateHeaderValue v" using exact(3) fixed(2) by (auto simp: list_all_iff)
    note k = canonical_canonical [OF kv(1)]
    have "(?k, [v]) \<in> set (tt_headers p)" using exact(1) fixed(2) by force
    with exact(2) have "map_of (tt_headers p) ?k = Some [v]" by (simp add: map_of_eq_Some_iff)
    with k kv fixed canonical_name(2) [OF k] show ?thesis by (simp add: outbound_header_def policy_simps)
  next
    case ua
    then show ?thesis using assms(5) by (simp add: outbound_header_def key_request_id)
  next
    case ct
    then show ?thesis using assms(6) \<open>canonical_header_key ''Content-Type'' = ''Content-Type''\<close> by (simp add: outbound_header_def)
  qed
qed


lemma own_required:
  assumes "ValidateCallerHeaders ua p headers = Inr caller" and "rules_ok w fixed (tt_rules p) (tt_dests p)"
    and "(d, r) \<in> set (tt_dests p)" and "hr_required (cr_schema r)"
  shows "d \<in> fst ` set caller"
proof -
  from assms(1) obtain sources where run: "caller_rules p [] [] headers = Inr (sources, caller)"
    and req: "\<not> list_ex (\<lambda>(source, r). hr_required (cr_schema r) \<and> source \<notin> fst ` set sources) (tt_rules p)"
    by (auto simp: ValidateCallerHeaders_def policy_simps split: if_splits prod.splits)
  from assms(2,3) obtain source where mem: "(source, r) \<in> set (tt_rules p)" "d = hr_forward_as (cr_schema r)"
    by (auto simp: rules_ok_def)
  with req assms(4) have "source \<in> fst ` set sources" by (auto simp: list_ex_iff)
  moreover have "sources_sent p sources caller"
    using caller_rules_forwarded [OF run assms(2)] by (simp add: sources_sent_def)
  ultimately show ?thesis using mem by (auto simp: sources_sent_def)
qed

lemma compiled_writes:
  assumes "CompileTargetTemplate env (Some cfg) = Inr p"
  shows "tt_method p = ''GET'' \<longleftrightarrow> tt_body p = None"
proof -
  from compiled [OF assms] have body: "compileTemplateBodyPolicy (te_regexp env) (te_media env) (tc_method cfg) (tc_body cfg) = Inr (tt_body p)"
    and m: "tt_method p = tc_method cfg" by metis+
  show ?thesis
  proof (cases "tc_method cfg = ''GET''")
    case True
    then show ?thesis using body m by (auto simp: compileTemplateBodyPolicy_def split: if_splits option.splits)
  next
    case False
    then have "b \<noteq> None" if "compileTemplateBodyPolicy re media (tc_method cfg) c = Inr b" for re media c b
      using that by (auto simp: compileTemplateBodyPolicy_def Let_def split: if_splits option.splits list.splits)
    from this [OF body] False m show ?thesis by simp
  qed
qed

lemma own_body_admitted:
  assumes "CompileTargetTemplate env (Some cfg) = Inr p" and "body_validate (tt_body p) body contentType = nil_err"
    and "ValidateCallerHeaders ua p headers = Inr caller"
  shows "validateRequestBody p (new_template_request p u (template_headers ua p contentType caller) body) body contentType = nil_err"
proof (cases "tt_body p")
  case None
  with assms(2) have "body = None" by (auto simp: body_validate_def fails_def split: if_splits)
  with None assms(2) compiled_writes [OF assms(1)] show ?thesis
    by (simp add: validateRequestBody_def new_template_request_def fail_if_def Let_def)
next
  case (Some policy)
  let ?h = "template_headers ua p contentType caller"
  from compiled [OF assms(1)] obtain rs where
    h: "compile_headers (tt_body p \<noteq> None) [] (tc_headers cfg) = Inr (tt_headers p)"
    and rules: "compileHeaderRules (te_regexp env) (tt_body p \<noteq> None) (tt_headers p) rs = Inr (tt_rules p, tt_dests p)"
    by metis
  note ok = compileHeaderRules_ok [OF rules]
  have "list_all (forwarded p) caller"
    using assms(3) caller_rules_forwarded [OF _ ok, of "[]" "[]" headers]
    by (auto simp: ValidateCallerHeaders_def policy_simps sources_sent_def split: if_splits prod.splits)
  moreover have "map_of (tt_dests p) ''Content-Type'' = None"
    using ok Some by (auto simp: rules_ok_def map_of_eq_None_iff list_all_iff rule_ok_def Let_def)
  ultimately have "''Content-Type'' \<notin> fst ` set caller" by (auto simp: list_all_iff forwarded_def)
  moreover have "''Content-Type'' \<notin> fst ` set (tt_headers p)"
    using compile_headers_exact(1,3) [OF h] Some by (auto simp: list_all_iff)
  ultimately have none: "contentType = None \<Longrightarrow> ''Content-Type'' \<notin> fst ` set ?h" by (simp add: template_headers_keys)
  have some: "header_get ?h ''Content-Type'' = ct" if "contentType = Some ct" for ct
    using that by (simp add: template_headers_def header_get_set Let_def)
  show ?thesis
    using assms(2) compiled_writes [OF assms(1)] Some none some
    by (auto simp: validateRequestBody_def new_template_request_def fail_if_def Let_def split: option.split)
qed



section \<open>An example\<close>

definition example_template_target :: target where
  "example_template_target = example_clean\<lparr>tg_label := ''t'', tg_base := Some example_origin, tg_socket := [],
     tg_template := Some example_template\<rparr>"

definition example_template_registry :: registry where
  "example_template_registry = (empty_registry False 4)\<lparr>rg_targets := [(''t'', example_template_target)],
     rg_ordered := [example_template_target]\<rparr>"

definition example_template_net :: template_net where
  "example_template_net = \<lparr>tn_hmac = (\<lambda>_ _. replicate 32 (CHR ''h'')), tn_key = ''k'',
     tn_parse = (\<lambda>s. if s = ''https://a.test'' then Some example_origin
       else if s = ''https://a.test/v/yz?q=yz'' then Some example_rendered else None),
     tn_send = (\<lambda>_ _. Inr \<lparr>rp_status = 200, rp_header = [], rp_body = None\<rparr>), tn_error_text = (\<lambda>_. []),
     tn_user_agent = ''ua''\<rparr>"

definition example_template_params :: template_params where
  "example_template_params = \<lparr>tq_label = ''t'', tq_parameters = example_arguments, tq_operation = Some (tt_token example_template),
     tq_body = Some ''on'', tq_content_type = Some ''text/plain'', tq_headers = [(''x-app'', ''1'')], tq_timeout = None,
     tq_max_bytes = None\<rparr>"

lemma example_lookup:
  "lookupTemplateInvocation hmac key example_template_registry ''t'' = Some example_template_target"
proof -
  have "\<not> is_rich example_template_target"
    by (simp add: is_rich_def example_template_target_def HasRichHeaderRules_def example_template_def example_policy_def
        example_rule_def)
  moreover have "trim_space ''t'' = ''t''" by code_simp
  ultimately show ?thesis
    by (simp add: lookupTemplateInvocation_def Lookup_def example_template_registry_def has_prefix_def
        headerRuleInvocationPrefix_def example_template_target_def)
qed

lemma caller_fingerprints:
  "ValidateCallerHeaders ua (t\<lparr>tt_digest := d, tt_token := k\<rparr>) headers = ValidateCallerHeaders ua t headers"
proof -
  have err: "headerError (t\<lparr>tt_digest := d, tt_token := k\<rparr>) = headerError t"
    by (intro ext) (simp add: headerError_def HasRichHeaderRules_def)
  have "caller_rules (t\<lparr>tt_digest := d, tt_token := k\<rparr>) sources out kvs = caller_rules t sources out kvs" for sources out kvs
    by (induction kvs arbitrary: sources out) (auto simp: err split: sum.split option.split)
  then show ?thesis
    by (simp add: ValidateCallerHeaders_def validateCallerHeaderBudget_def err and_then_def split: sum.split)
qed

lemma example_caller: "ValidateCallerHeaders ''ua'' example_template [(''x-app'', ''1'')] = Inr [(''X-App'', [''1''])]"
  unfolding example_template_def caller_fingerprints by code_simp

lemma example_own_request:
  "new_template_request example_template example_rendered
     (template_headers ''ua'' example_template (Some ''text/plain'') [(''X-App'', [''1''])]) (Some ''on'') = example_template_request"
proof -
  have "new_template_request example_policy example_rendered
     (template_headers ''ua'' example_policy (Some ''text/plain'') [(''X-App'', [''1''])]) (Some ''on'') = example_template_request"
    by code_simp
  then show ?thesis by (simp add: example_template_def new_template_request_def template_headers_def)
qed

lemma example_bounds: "normalizeTimeout None = Inr 30000000000" "normalizeMaxResponseBytes example_limits None = Inr 102400"
  by (simp_all add: normalizeTimeout_def normalizeMaxResponseBytes_def example_limits_def)

lemma example_template_checks:
  "operation_refused example_template (Some (tt_token example_template)) = None"
  "body_validate (tt_body example_template) (Some ''on'') (Some ''text/plain'') = nil_err"
  "\<not> tt_loopback example_template"
proof -
  show "\<not> tt_loopback example_template" by (simp add: example_template_def example_policy_def)
  show "operation_refused example_template (Some (tt_token example_template)) = None"
    by (simp add: operation_refused_def example_template_def example_policy_def)
  have "body_validate (Some example_body_policy) (Some ''on'') (Some ''text/plain'') = nil_err" by code_simp
  then show "body_validate (tt_body example_template) (Some ''on'') (Some ''text/plain'') = nil_err"
    by (simp add: example_template_def example_policy_def)
qed

lemma example_sent:
  "\<exists>q. (False, q) \<in> set (to_trace (callTargetTemplate example_template_net example_limits ''r1'' example_template_registry
     example_template_params))"
  by (simp add: callTargetTemplate_def example_template_net_def example_template_params_def example_lookup
      example_template_target_def example_template_checks example_renders example_caller example_bounds send_template_def
      example_text example_own_request template_round_trip_def example_accepted Let_def finish_template_call_def
      readLimited_def reply_body_def read_prefix_def)


lemma example_net_env:
  "te_user_agent example_template_env = tn_user_agent example_template_net"
  "tn_hmac example_template_net = (\<lambda>_ _. replicate 32 (CHR ''h''))" "tn_key example_template_net = ''k''"
  by (simp_all add: example_template_env_def example_template_net_def)



text \<open>Two policies of one target with structured rules, and a server that has the second.\<close>

definition example_rich_policy :: "string \<Rightarrow> target_template" where
  "example_rich_policy digest = example_policy\<lparr>tt_digest := digest,
     tt_rules := [(''X-App'', example_rule\<lparr>cr_schema := (cr_schema example_rule)\<lparr>hr_legacy := False\<rparr>\<rparr>)]\<rparr>"

definition example_rich :: "string \<Rightarrow> target" where
  "example_rich digest = example_clean\<lparr>tg_label := ''t'', tg_socket := [], tg_base := Some example_origin,
     tg_template := Some (example_rich_policy digest)\<rparr>"

definition example_rich_registry :: registry where
  "example_rich_registry = (empty_registry False 4)\<lparr>rg_targets := [(''t'', example_rich ''dd'')],
     rg_ordered := [example_rich ''dd'']\<rparr>"


end
