(* ===== verification/HostRegistration.thy ===== *)
theory HostRegistration
  imports HarpoonRewrite Startup
begin

text \<open>
  Automatic registration of discovered hosts: \<open>runtimeharpoon/host_registration.go\<close>, the classifier of private hosts
  (\<open>internal/hostclassifier/classifier.go\<close>) and the bundles of \<open>hostbus/hostbus.go\<close>. Discovery of OAuth metadata reads
  documents that a remote server wrote, so what a bundle may add to the registry is what matters here.
\<close>

section \<open>What is taken from outside\<close>

text \<open>An address that \<open>netip.ParseAddr\<close> accepts, by what the code asks of it.\<close>

record ip_addr =
  ia_text :: string
  ia_loopback :: bool
  ia_private :: bool
  ia_six :: bool
  ia_zone :: string

text \<open>Besides: \<open>url.Parse\<close>, the public suffix list (whether a host has a registrable domain), the regular expressions, and
  what registration needs.\<close>

record host_env =
  he_addr :: "string \<Rightarrow> ip_addr option"
  he_parse :: "string \<Rightarrow> web_url option"
  he_registrable :: "string \<Rightarrow> bool"
  he_regexp :: regexps
  he_template :: template_env
  he_public :: "target \<Rightarrow> string option"

section \<open>Private hosts\<close>

record host_classifier_config =
  hf_suffixes :: "string list"
  hf_regexes :: "string list"
  hf_loopback :: bool
  hf_private :: bool

record host_classifier =
  hs_loopback :: bool
  hs_private :: bool
  hs_suffixes :: "string list"
  hs_regexes :: "(string \<times> (string \<Rightarrow> bool)) list"

definition normalizeSuffixes :: "string list \<Rightarrow> string list" where
  "normalizeSuffixes raws = map (\<lambda>s. if has_prefix ''.'' s then s else ''.'' @ s)
     (filter (\<lambda>s. s \<noteq> []) (map (\<lambda>raw. trim_space (to_lower raw)) raws))"

definition compileHostRegexes :: "regexps \<Rightarrow> string list \<Rightarrow> (string \<times> (string \<Rightarrow> bool)) list" where
  "compileHostRegexes re raws = concat (map (\<lambda>p. case re (''(?i:'' @ p @ '')'') of
       None \<Rightarrow> [] | Some m \<Rightarrow> [(''(?i:'' @ p @ '')'', m)])
     (filter (\<lambda>p. p \<noteq> []) (map trim_space raws)))"

definition NewHostClassifier :: "regexps \<Rightarrow> host_classifier_config \<Rightarrow> host_classifier" where
  "NewHostClassifier re cfg = \<lparr>hs_loopback = hf_loopback cfg, hs_private = hf_private cfg,
     hs_suffixes = normalizeSuffixes (hf_suffixes cfg), hs_regexes = compileHostRegexes re (hf_regexes cfg)\<rparr>"

definition matches_suffix :: "string \<Rightarrow> string \<Rightarrow> bool" where
  "matches_suffix host suffix \<longleftrightarrow> suffix \<noteq> [] \<and>
     (host = (if has_prefix ''.'' suffix then tl suffix else suffix) \<or> has_suffix suffix host)"

definition IsPrivateHost :: "(string \<Rightarrow> ip_addr option) \<Rightarrow> host_classifier \<Rightarrow> string \<Rightarrow> bool \<times> string" where
  "IsPrivateHost parse_addr c raw =
     (if trim_space raw = [] then (False, [])
      else
        (let host = trim_suffix (to_lower (trim_space raw)) ''.''; addr = parse_addr host in
         if hs_loopback c \<and> host = ''localhost'' then (True, ''loopback'')
         else if hs_loopback c \<and> (case addr of None \<Rightarrow> False | Some a \<Rightarrow> ia_loopback a) then (True, ''loopback'')
         else if hs_private c \<and> (case addr of None \<Rightarrow> False | Some a \<Rightarrow> ia_private a) then (True, ''private-ip'')
         else case find (matches_suffix host) (hs_suffixes c) of
           Some s \<Rightarrow> (True, ''suffix:'' @ s)
         | None \<Rightarrow>
             (case find (\<lambda>(_, m). m host) (hs_regexes c) of
                Some (text, _) \<Rightarrow> (True, ''regex:'' @ text)
              | None \<Rightarrow> (False, []))))"

section \<open>Bundles\<close>

datatype tag_key = TagKeyUnspecified | TagKeySource | TagKeyRole | TagKeyIndex | TagKeyGroup

record url_record =
  ur_url :: "web_url option"
  ur_description :: string
  ur_tags :: "(tag_key \<times> string) list"
  ur_socket :: string
  ur_disallow_private :: bool

definition tagValue :: "(tag_key \<times> string) list \<Rightarrow> tag_key \<Rightarrow> string" where
  "tagValue tags key = (case map_of tags key of None \<Rightarrow> [] | Some v \<Rightarrow> v)"

definition isOAuthURLRecord :: "url_record \<Rightarrow> bool" where
  "isOAuthURLRecord record = (normalizeToken (tagValue (ur_tags record) TagKeySource) = ''oauth'')"

definition normalizedHostname :: "web_url option \<Rightarrow> string" where
  "normalizedHostname u = (case u of None \<Rightarrow> [] | Some u \<Rightarrow> trim_suffix (to_lower (trim_space (url_Hostname (url.truncate u)))) ''.'')"

section \<open>Protected resources\<close>

record protected_host =
  ph_host :: string
  ph_subdomains :: bool

record protected_origin =
  pg_scheme :: string
  pg_host :: string
  pg_port :: string

record host_policy =
  hp_hosts :: "protected_host list"
  hp_origins :: "protected_origin list"

definition newOAuthProtectedResourceHost :: "host_env \<Rightarrow> string \<Rightarrow> protected_host option" where
  "newOAuthProtectedResourceHost env host =
     (if host = [] then None
      else if he_addr env host \<noteq> None then Some \<lparr>ph_host = host, ph_subdomains = False\<rparr>
      else if \<not> he_registrable env host then None
      else Some \<lparr>ph_host = host, ph_subdomains = True\<rparr>)"

definition newOAuthProtectedResourceOrigin :: "host_env \<Rightarrow> web_url option \<Rightarrow> protected_origin option" where
  "newOAuthProtectedResourceOrigin env raw = (case raw of
     None \<Rightarrow> None
   | Some u \<Rightarrow>
       (let scheme = to_lower (trim_space (u_scheme u)); host = normalizedHostname raw; port = url_Port (url.truncate u) in
        if scheme \<noteq> ''http'' \<and> scheme \<noteq> ''https'' then None
        else if host = [] then None
        else Some \<lparr>pg_scheme = scheme, pg_host = (case he_addr env host of Some a \<Rightarrow> ia_text a | None \<Rightarrow> host),
          pg_port = (if port \<noteq> [] then (if digits_value port < 2 ^ 63 then show_nat (digits_value port) else port)
            else if scheme = ''http'' then ''80'' else ''443'')\<rparr>))"

text \<open>A record that may vouch for its host: OAuth metadata of a protected resource, from a trusted publication.\<close>

definition trusted_resource :: "url_record \<Rightarrow> bool" where
  "trusted_resource record \<longleftrightarrow> isOAuthURLRecord record \<and> \<not> ur_disallow_private record \<and>
     normalizeToken (tagValue (ur_tags record) TagKeyRole) \<in> {''prmd-resource'', ''prmd-source''}"

definition newOAuthProtectedResourceHostPolicy :: "host_env \<Rightarrow> url_record list \<Rightarrow> host_policy" where
  "newOAuthProtectedResourceHostPolicy env records =
     (let trusted = filter trusted_resource records in
      \<lparr>hp_hosts = rev (remdups (rev (List.map_filter (\<lambda>r. newOAuthProtectedResourceHost env (normalizedHostname (ur_url r))) trusted))),
       hp_origins = List.map_filter (\<lambda>r. newOAuthProtectedResourceOrigin env (ur_url r)) trusted\<rparr>)"

definition host_allowed :: "string \<Rightarrow> protected_host \<Rightarrow> bool" where
  "host_allowed host p \<longleftrightarrow> host = ph_host p \<or> (ph_subdomains p \<and> has_suffix (''.'' @ ph_host p) host)"

definition host_policy_allows :: "host_env \<Rightarrow> host_policy \<Rightarrow> url_record \<Rightarrow> bool" where
  "host_policy_allows env p record =
     (if \<not> isOAuthURLRecord record then False
      else if ur_disallow_private record
      then (case newOAuthProtectedResourceOrigin env (ur_url record) of
          None \<Rightarrow> False | Some origin \<Rightarrow> origin \<in> set (hp_origins p))
      else
        (let host = normalizedHostname (ur_url record) in
         host \<noteq> [] \<and> list_ex (host_allowed host) (hp_hosts p)))"

section \<open>Forwarding origins\<close>

text \<open>Host and port. A path that \<open>url.Parse\<close> read has a \<open>RawPath\<close> exactly when it is not its own escaped form.\<close>

definition oauthForwardingOriginForURL :: "host_env \<Rightarrow> web_url option \<Rightarrow> (string \<times> string) option" where
  "oauthForwardingOriginForURL env raw = (case raw of
     None \<Rightarrow> None
   | Some u \<Rightarrow>
       (let hostname = url_Hostname (url.truncate u); port = url_Port (url.truncate u); bracket = has_prefix ''['' (u_host u) in
        if \<not> equal_fold (u_scheme u) ''https'' \<or> hostname = [] \<or> u_opaque u \<noteq> [] \<or> u_user u \<noteq> None \<or> u_fragment u \<noteq> []
        then None
        else if he_parse env (URL_String u) = None \<or> has_suffix '':'' (u_host u) then None
        else if (CHR '':'' \<in> set hostname \<or> bracket) \<and>
            (case he_addr env hostname of None \<Rightarrow> True | Some a \<Rightarrow> \<not> ia_six a \<or> ia_zone a \<noteq> [] \<or> \<not> bracket)
        then None
        else
          (let host = (case he_addr env hostname of Some a \<Rightarrow> ia_text a | None \<Rightarrow> to_lower hostname) in
           if port = [] then Some (host, ''443'')
           else if digits_value port < 1 \<or> digits_value port > 65535 then None
           else Some (host, show_nat (digits_value port)))))"

fun forwarding_origins :: "host_env \<Rightarrow> nat \<Rightarrow> (string \<times> string) list \<Rightarrow> web_url option list \<Rightarrow> goerr + (string \<times> string) list" where
  "forwarding_origins env i policy [] = Inr policy"
| "forwarding_origins env i policy (raw # raws) = (case oauthForwardingOriginForURL env raw of
     None \<Rightarrow> Inl (fails (''harpoon oauth forwarding origin '' @ show_nat i))
   | Some origin \<Rightarrow>
       if (case raw of None \<Rightarrow> True | Some u \<Rightarrow> u_path u \<notin> {[], ''/''} \<or> u_decoded u \<noteq> u_path u \<or> u_query u \<noteq> [] \<or> u_force_query u)
       then Inl (fails (''harpoon oauth forwarding origin '' @ show_nat i))
       else forwarding_origins env (Suc i) (origin # policy) raws)"

definition newOAuthForwardingOriginPolicy :: "host_env \<Rightarrow> web_url option list \<Rightarrow> goerr + (string \<times> string) list" where
  "newOAuthForwardingOriginPolicy env origins = forwarding_origins env 0 [] origins"

definition forwarding_allows :: "host_env \<Rightarrow> (string \<times> string) list \<Rightarrow> url_record \<Rightarrow> bool" where
  "forwarding_allows env p record =
     (if p = [] \<or> \<not> isOAuthURLRecord record then False
      else case oauthForwardingOriginForURL env (ur_url record) of None \<Rightarrow> False | Some origin \<Rightarrow> origin \<in> set p)"

definition shouldRegisterURLRecord ::
    "host_env \<Rightarrow> host_classifier \<Rightarrow> host_policy \<Rightarrow> (string \<times> string) list \<Rightarrow> url_record \<Rightarrow> bool \<times> string" where
  "shouldRegisterURLRecord env c policy origins record = (case ur_url record of
     None \<Rightarrow> (False, [])
   | Some u \<Rightarrow>
       if forwarding_allows env origins record then (True, ''oauth-forwarding-origin'')
       else
         (let (private, reason) = IsPrivateHost (he_addr env) c (url_Hostname (url.truncate u)) in
          if ur_disallow_private record then
            if host_policy_allows env policy record then (True, ''oauth-protected-resource-host'')
            else if private then (False, ''private-host-registration-disabled'')
            else (False, reason)
          else if private then (True, reason)
          else if host_policy_allows env policy record then (True, ''oauth-protected-resource-host'')
          else (False, reason)))"

section \<open>Labels\<close>

definition label_byte :: "char \<Rightarrow> bool" where
  "label_byte c \<longleftrightarrow> between 97 122 c \<or> is_digit c \<or> c = CHR ''_'' \<or> c = CHR ''-''"

text \<open>\<open>ReplaceAllString\<close> of each run of other bytes by one dash; the flag says that a run goes on.\<close>

fun squeeze :: "bool \<Rightarrow> string \<Rightarrow> string" where
  "squeeze run [] = []"
| "squeeze run (c # s) = (if label_byte c then c # squeeze False s
     else if run then squeeze True s else CHR ''-'' # squeeze True s)"

definition isLabelStartValid :: "char \<Rightarrow> bool" where
  "isLabelStartValid c \<longleftrightarrow> between 97 122 c \<or> is_digit c"

abbreviation dash :: "char \<Rightarrow> bool" where
  "dash c \<equiv> c = CHR ''-'' \<or> c = CHR ''_''"

definition sanitizeLabel :: "string \<Rightarrow> string" where
  "sanitizeLabel raw =
     (let label = trim_by dash (squeeze False (to_lower (trim_space raw))) in
      if label = [] then []
      else take 64 (if \<not> isLabelStartValid (hd label) then CHR ''x'' # label else label))"

definition buildAutoLabel :: "url_record \<Rightarrow> nat \<Rightarrow> string" where
  "buildAutoLabel record fallbackIndex =
     (let role = tagValue (ur_tags record) TagKeyRole; index = tagValue (ur_tags record) TagKeyIndex;
          index = (if index = [] then show_nat fallbackIndex else index)
      in sanitizeLabel (join_by ''-'' ([''oauth''] @ (if role \<noteq> [] then [role] else []) @ [index])))"

definition labelWithNumericSuffix :: "string \<Rightarrow> nat \<Rightarrow> string" where
  "labelWithNumericSuffix base n =
     (if base = [] \<or> n = 0 then base
      else
        (let suffixPart = ''-'' @ show_nat n; maxBaseLen = 64 - int (length suffixPart) in
         if maxBaseLen < 1 then []
         else
           (let trimmed = (if int (length base) > maxBaseLen
               then (let t = rev (dropWhile dash (rev (take (nat maxBaseLen) base))) in if t = [] then ''x'' else t)
               else base)
            in trimmed @ suffixPart)))"

text \<open>The label and how many candidates were taken. The loop counts from its argument to ten thousand.\<close>

function resolve_from :: "string \<Rightarrow> registry \<Rightarrow> nat \<Rightarrow> string \<times> nat" where
  "resolve_from base r i =
     (if i \<ge> 10000 then ([], 0)
      else if labelWithNumericSuffix base i = [] \<or> Lookup r (labelWithNumericSuffix base i) \<noteq> None
      then resolve_from base r (Suc i)
      else (labelWithNumericSuffix base i, i))"
  by auto
termination by (relation "measure (\<lambda>(_, _, i). 10000 - i)") auto

declare resolve_from.simps [simp del]

definition resolveAutoLabelCollision :: "string \<Rightarrow> registry \<Rightarrow> string \<times> nat" where
  "resolveAutoLabelCollision base r = (if base = [] then ([], 0) else resolve_from base r 0)"

section \<open>Registration\<close>

definition oauthRoleTagMapping :: "(string \<times> string list) list" where
  "oauthRoleTagMapping =
     [(''prmd-resource'', [''protected-resource-metadata'', ''resource'']),
      (''prmd-auth-server'', [''protected-resource-metadata'', ''authorization-server'']),
      (''prmd-source'', [''protected-resource-metadata'', ''source-url'']),
      (''auth-server-metadata'', [''auth-server-metadata'']),
      (''issuer'', [''auth-server-metadata'', ''issuer'']),
      (''token-endpoint'', [''auth-server-metadata'', ''token-endpoint'']),
      (''jwks-uri'', [''auth-server-metadata'', ''jwks-uri'']),
      (''introspection-endpoint'', [''auth-server-metadata'', ''introspection-endpoint'']),
      (''registration-endpoint'', [''auth-server-metadata'', ''registration-endpoint'']),
      (''revocation-endpoint'', [''auth-server-metadata'', ''revocation-endpoint''])]"

definition roleTags :: "string \<Rightarrow> string list" where
  "roleTags role =
     (let normalized = normalizeToken role in
      if normalized = [] then []
      else case map_of oauthRoleTagMapping normalized of None \<Rightarrow> [normalized] | Some tags \<Rightarrow> normalizeTags tags)"

definition auto_target :: "url_record \<Rightarrow> string \<Rightarrow> string \<Rightarrow> target" where
  "auto_target record label reason =
     (let source = tagValue (ur_tags record) TagKeySource; group = normalizeToken (tagValue (ur_tags record) TagKeyGroup) in
      \<lparr>tg_label = label, tg_description = ur_description record, tg_category = source, tg_source = source,
       tg_tags = roleTags (tagValue (ur_tags record) TagKeyRole) @ (if group \<noteq> [] then [''group='' @ group] else []),
       tg_reason = reason, tg_base = ur_url record, tg_socket = ur_socket record, tg_template = None, tg_original = None\<rparr>)"

text \<open>One record; whatever goes wrong with it is logged and it is skipped.\<close>

definition register_record ::
    "host_env \<Rightarrow> host_classifier \<Rightarrow> host_policy \<Rightarrow> (string \<times> string) list \<Rightarrow> registry \<Rightarrow> nat \<times> url_record \<Rightarrow> registry" where
  "register_record env c policy origins r = (\<lambda>(idx, record).
     (let (allowed, reason) = shouldRegisterURLRecord env c policy origins record;
          base = buildAutoLabel record idx; (label, collisions) = resolveAutoLabelCollision base r in
      if ur_url record = None \<or> \<not> allowed \<or> base = [] \<or> label = [] then r
      else case RegisterTarget (he_template env) (he_public env) (auto_target record label reason) None r of
        Inl _ \<Rightarrow> r
      | Inr r' \<Rightarrow> r'))"

definition registerHostBundle ::
    "host_env \<Rightarrow> host_classifier \<Rightarrow> (string \<times> string) list \<Rightarrow> url_record list \<Rightarrow> registry \<Rightarrow> registry" where
  "registerHostBundle env c origins records r =
     foldl (register_record env c (newOAuthProtectedResourceHostPolicy env records) origins) r (enumerate 0 records)"

section \<open>Suffixes match whole labels\<close>

definition bare_suffix :: "string \<Rightarrow> string" where
  "bare_suffix raw = (let s = trim_space (to_lower raw) in if has_prefix ''.'' s then tl s else s)"

lemma has_prefix_dot: "has_prefix ''.'' s \<longleftrightarrow> (\<exists>t. s = CHR ''.'' # t)"
  by (cases s) (auto simp: has_prefix_def)

lemma has_suffix_append: "has_suffix t s \<longleftrightarrow> (\<exists>p. s = p @ t)"
proof
  assume "has_suffix t s"
  then have "rev s = rev t @ drop (length t) (rev s)"
    unfolding has_suffix_def has_prefix_def by (metis append_take_drop_id length_rev)
  then have "s = rev (drop (length t) (rev s)) @ t" by (metis rev_append rev_rev_ident)
  then show "\<exists>p. s = p @ t" by blast
qed (auto simp: has_suffix_def has_prefix_def)

lemma matches_normalized:
  assumes "suffix \<in> set (normalizeSuffixes raws)" and "matches_suffix host suffix"
  shows "\<exists>raw \<in> set raws. \<exists>p. trim_space (to_lower raw) \<noteq> [] \<and> suffix = ''.'' @ bare_suffix raw \<and>
    host \<in> {bare_suffix raw, p @ ''.'' @ bare_suffix raw}"
proof -
  from assms(1) obtain raw where raw: "raw \<in> set raws" "trim_space (to_lower raw) \<noteq> []"
    "suffix = (if has_prefix ''.'' (trim_space (to_lower raw)) then trim_space (to_lower raw) else ''.'' @ trim_space (to_lower raw))"
    by (auto simp: normalizeSuffixes_def)
  then have suffix: "suffix = ''.'' @ bare_suffix raw" by (auto simp: bare_suffix_def Let_def has_prefix_dot)
  with assms(2) have "host = bare_suffix raw \<or> (\<exists>p. host = p @ ''.'' @ bare_suffix raw)"
    by (simp add: matches_suffix_def has_suffix_append has_prefix_dot)
  with raw suffix show ?thesis by blast
qed

text \<open>
  A host counts as private by a configured suffix only at a label boundary: it is the suffix itself or a name below
  it, so \<open>notcorp.internal\<close> is not private because \<open>corp.internal\<close> is.
\<close>

theorem private_suffix_boundary:
  assumes "IsPrivateHost parse_addr (NewHostClassifier re cfg) raw = (True, ''suffix:'' @ s)"
  shows "\<exists>suffix \<in> set (hf_suffixes cfg). \<exists>p. trim_space (to_lower suffix) \<noteq> [] \<and> s = ''.'' @ bare_suffix suffix \<and>
    trim_suffix (to_lower (trim_space raw)) ''.'' \<in> {bare_suffix suffix, p @ ''.'' @ bare_suffix suffix}"
proof (rule matches_normalized)
  let ?host = "trim_suffix (to_lower (trim_space raw)) ''.''"
  have "find (matches_suffix ?host) (normalizeSuffixes (hf_suffixes cfg)) = Some s"
    using assms by (auto simp: IsPrivateHost_def NewHostClassifier_def Let_def split: if_splits option.splits)
  then show "s \<in> set (normalizeSuffixes (hf_suffixes cfg))" "matches_suffix ?host s" by (auto simp: find_Some_iff)
qed

section \<open>Automatic labels\<close>

lemma label_byte_squeeze: "list_all label_byte (squeeze run s)"
  by (induction run s rule: squeeze.induct) (auto simp: label_byte_def)

lemma list_all_dropWhile: "list_all p s \<Longrightarrow> list_all p (dropWhile q s)"
  by (auto simp: list_all_iff dest!: set_dropWhileD)

lemma list_all_trim_by: "list_all p s \<Longrightarrow> list_all p (trim_by q s)"
  by (simp add: trim_by_def list_all_dropWhile)

lemma dropWhile_rev_Cons: "\<not> q c \<Longrightarrow> rev (dropWhile q (rev (c # s))) = c # rev (dropWhile q (rev s))"
  by (simp add: dropWhile_append)

lemma trim_by_Cons: "\<not> q c \<Longrightarrow> trim_by q (c # s) = c # rev (dropWhile q (rev s))"
  using dropWhile_rev_Cons by (simp add: trim_by_def)

lemma labelPattern_bytes:
  "labelPattern s \<longleftrightarrow> s \<noteq> [] \<and> length s \<le> 64 \<and> isLabelStartValid (hd s) \<and> list_all label_byte s"
  by (simp add: labelPattern_def isLabelStartValid_def label_byte_def [abs_def])

lemma label_x: "label_byte CHR ''x''" "isLabelStartValid CHR ''x''"
  by code_simp+

lemma list_all_take: "list_all p s \<Longrightarrow> list_all p (take n s)"
  by (auto simp: list_all_iff dest: in_set_takeD)

lemma sanitizeLabel_ok:
  assumes "sanitizeLabel raw \<noteq> []"
  shows "labelPattern (sanitizeLabel raw)"
proof -
  let ?label = "trim_by dash (squeeze False (to_lower (trim_space raw)))"
  have "list_all label_byte ?label" by (intro list_all_trim_by label_byte_squeeze)
  then show ?thesis using assms
    by (auto simp: sanitizeLabel_def Let_def labelPattern_bytes label_x list_all_take split: if_splits)
qed

lemma buildAutoLabel_ok: "labelPattern (buildAutoLabel record i)"
proof -
  have start: "\<exists>s. join_by ''-'' ([''oauth''] @ rest) = ''oauth'' @ s" for rest
    by (cases rest) auto
  have "\<exists>s. buildAutoLabel record i = sanitizeLabel (CHR ''o'' # s)"
    using start [of "(if tagValue (ur_tags record) TagKeyRole \<noteq> [] then [tagValue (ur_tags record) TagKeyRole] else []) @
      [if tagValue (ur_tags record) TagKeyIndex = [] then show_nat i else tagValue (ur_tags record) TagKeyIndex]"]
    by (auto simp: buildAutoLabel_def Let_def)
  then obtain s where s: "buildAutoLabel record i = sanitizeLabel (CHR ''o'' # s)" by blast
  have "\<not> is_space CHR ''o''" "lower_char CHR ''o'' = CHR ''o''" "label_byte CHR ''o''" "\<not> dash CHR ''o''" by code_simp+
  then have "sanitizeLabel (CHR ''o'' # s) \<noteq> []"
    by (simp add: sanitizeLabel_def Let_def trim_space_def trim_by_Cons to_lower_def)
  then show ?thesis unfolding s by (rule sanitizeLabel_ok)
qed

lemma show_nat_digits: "list_all is_digit (show_nat n)"
proof (induction n rule: show_nat.induct)
  case (1 n)
  have "is_digit (digit_char d)" if "d < 10" for d using that by (simp add: is_digit_def digit_char_value)
  with 1 show ?case by (simp add: show_nat.simps [of n])
qed

lemma show_nat_length: "n < 10000 \<Longrightarrow> length (show_nat n) \<le> 4"
  by (simp add: show_nat.simps [of n] show_nat.simps [of "n div 10"] show_nat.simps [of "n div 100"] show_nat.simps [of "n div 1000"]
      div_mult2_eq [symmetric])

text \<open>A candidate below ten thousand is a valid label that ends in its number.\<close>

lemma labelWithNumericSuffix_ok:
  assumes "labelPattern base" and "0 < n" and "n < 10000"
  obtains t where "labelWithNumericSuffix base n = t @ ''-'' @ show_nat n" "labelPattern (t @ ''-'' @ show_nat n)"
proof -
  let ?suffix = "''-'' @ show_nat n"
  have digits: "list_all label_byte ?suffix" using show_nat_digits [of n] by (auto simp: list_all_iff label_byte_def)
  have len: "length ?suffix \<le> 5" using show_nat_length [OF assms(3)] by simp
  define cut where "cut = rev (dropWhile dash (rev (take (nat (64 - int (length ?suffix))) base)))"
  define t where "t = (if int (length base) > 64 - int (length ?suffix) then (if cut = [] then ''x'' else cut) else base)"
  have base: "base \<noteq> []" "isLabelStartValid (hd base)" "list_all label_byte base" using assms(1) by (auto simp: labelPattern_bytes)
  have start: "\<not> dash (hd base)" using base(2) by (auto simp: isLabelStartValid_def between_def is_digit_def)
  obtain c u m where "base = c # u" "nat (64 - int (length ?suffix)) = Suc m"
    using base(1) len by (cases base; cases "nat (64 - int (length ?suffix))") simp_all
  then have "cut = hd base # rev (dropWhile dash (rev (take m u)))"
    using dropWhile_rev_Cons [of dash c "take m u"] start by (simp only: cut_def take_Suc_Cons list.sel not_False_eq_True True_implies_equals)
  moreover have "list_all label_byte cut" unfolding cut_def
    using base(3) by (simp add: list_all_dropWhile list_all_take)
  moreover have "length cut \<le> nat (64 - int (length ?suffix))" unfolding cut_def
    using length_dropWhile_le [of dash "rev (take (nat (64 - int (length ?suffix))) base)"] by simp
  ultimately have "t \<noteq> []" "isLabelStartValid (hd t)" "list_all label_byte t" "length t + length ?suffix \<le> 64"
    using base len by (auto simp: t_def)
  then have "labelPattern (t @ ?suffix)" using digits by (auto simp: labelPattern_bytes)
  moreover have "labelWithNumericSuffix base n = t @ ?suffix"
    using assms(2) base(1) len by (auto simp: labelWithNumericSuffix_def Let_def t_def cut_def)
  ultimately show thesis using that by blast
qed

lemma label_trim: "labelPattern s \<Longrightarrow> trim_space s = s"
  unfolding trim_space_def
  by (rule trim_by_none) (auto simp: labelPattern_bytes list_all_iff label_byte_def is_space_def between_def is_digit_def)

lemma candidate_number:
  assumes "labelPattern base" and "0 < n" and "n < 10000"
  shows "digits_value (rev (takeWhile is_digit (rev (labelWithNumericSuffix base n)))) = n"
proof -
  obtain t where "labelWithNumericSuffix base n = t @ ''-'' @ show_nat n" by (rule labelWithNumericSuffix_ok [OF assms])
  moreover have "\<not> is_digit CHR ''-''" by code_simp
  moreover have "\<forall>c \<in> set (rev (show_nat n)). is_digit c" using show_nat_digits [of n] by (simp add: list_all_iff)
  ultimately show ?thesis by (simp add: takeWhile_append digits_value_show_nat)
qed

lemma candidates_inj: "labelPattern base \<Longrightarrow> inj_on (labelWithNumericSuffix base) {1..<10000}"
  by (rule inj_on_inverseI [where g = "\<lambda>s. digits_value (rev (takeWhile is_digit (rev s)))"]) (simp add: candidate_number)

lemma candidate_ok: "labelPattern base \<Longrightarrow> n < 10000 \<Longrightarrow> labelPattern (labelWithNumericSuffix base n)"
  by (cases "n = 0") (simp add: labelWithNumericSuffix_def, metis labelWithNumericSuffix_ok neq0_conv)

lemma some_candidate_free:
  assumes "labelPattern base" and "length (rg_targets r) < 9999"
  obtains n where "n < 10000" "Lookup r (labelWithNumericSuffix base n) = None"
proof -
  let ?taken = "fst ` set (rg_targets r)" and ?candidates = "labelWithNumericSuffix base ` {1..<10000}"
  have "card ?candidates = 9999" by (simp only: card_image [OF candidates_inj [OF assms(1)]] card_atLeastLessThan)
  then have "card ?taken < card ?candidates"
    using assms(2) card_image_le [of "set (rg_targets r)" fst] card_length [of "rg_targets r"] by simp
  then have "\<not> ?candidates \<subseteq> ?taken" using card_mono [of ?taken ?candidates] by fastforce
  then obtain l where "l \<in> ?candidates" "l \<notin> ?taken" by blast
  then obtain n where n: "n < 10000" "labelWithNumericSuffix base n \<notin> ?taken" by auto
  then have "Lookup r (labelWithNumericSuffix base n) = None"
    by (simp add: Lookup_def label_trim [OF candidate_ok [OF assms(1)]] map_of_eq_None_iff)
  with n(1) that show thesis by blast
qed

lemma resolve_from_least:
  assumes "\<And>j. j < 10000 \<Longrightarrow> labelWithNumericSuffix base j \<noteq> []"
  shows "i \<le> n \<Longrightarrow> n < 10000 \<Longrightarrow> Lookup r (labelWithNumericSuffix base n) = None \<Longrightarrow>
    \<exists>k < 10000. resolve_from base r i = (labelWithNumericSuffix base k, k) \<and> Lookup r (labelWithNumericSuffix base k) = None"
proof (induction "n - i" arbitrary: i)
  case (Suc d)
  show ?case
  proof (cases "Lookup r (labelWithNumericSuffix base i) = None")
    case False
    with Suc show ?thesis by (simp add: resolve_from.simps [of base r i])
  qed (use Suc assms in \<open>auto simp: resolve_from.simps [of base r i]\<close>)
qed (use assms [of n] in \<open>auto simp: resolve_from.simps [of base r n]\<close>)

text \<open>
  Every discovered URL gets a label: as long as the registry has fewer than 9999 targets, the label built from its
  role and index, with a number appended when it is taken, is valid and free.
\<close>

theorem auto_label_free:
  assumes "length (rg_targets r) < 9999"
  shows "case resolveAutoLabelCollision (buildAutoLabel record i) r of (label, collisions) \<Rightarrow>
    labelPattern label \<and> Lookup r label = None \<and> label = labelWithNumericSuffix (buildAutoLabel record i) collisions"
proof -
  let ?base = "buildAutoLabel record i"
  have base: "labelPattern ?base" by (rule buildAutoLabel_ok)
  then have nonempty: "labelWithNumericSuffix ?base j \<noteq> []" if "j < 10000" for j
    using candidate_ok [OF base that] by (auto simp: labelPattern_bytes)
  obtain n where "n < 10000" "Lookup r (labelWithNumericSuffix ?base n) = None"
    by (rule some_candidate_free [OF base assms])
  with resolve_from_least [OF nonempty, of 0 n r] obtain k where
    "k < 10000" "resolve_from ?base r 0 = (labelWithNumericSuffix ?base k, k)" "Lookup r (labelWithNumericSuffix ?base k) = None"
    by blast
  with base candidate_ok [OF base] show ?thesis by (auto simp: resolveAutoLabelCollision_def labelPattern_bytes)
qed

section \<open>What a bundle may register\<close>

text \<open>The reasons that let a record in, written out.\<close>

definition vouched :: "host_env \<Rightarrow> url_record list \<Rightarrow> url_record \<Rightarrow> bool" where
  "vouched env records record \<longleftrightarrow> isOAuthURLRecord record \<and> (\<exists>q \<in> set records. isOAuthURLRecord q \<and> \<not> ur_disallow_private q \<and>
     normalizeToken (tagValue (ur_tags q) TagKeyRole) \<in> {''prmd-resource'', ''prmd-source''} \<and>
     (if ur_disallow_private record
      then newOAuthProtectedResourceOrigin env (ur_url q) = newOAuthProtectedResourceOrigin env (ur_url record) \<and>
        newOAuthProtectedResourceOrigin env (ur_url record) \<noteq> None
      else (let host = normalizedHostname (ur_url record); resource = normalizedHostname (ur_url q) in
        resource \<noteq> [] \<and> (host = resource \<or>
          he_addr env resource = None \<and> he_registrable env resource \<and> (\<exists>p. host = p @ ''.'' @ resource)))))"

definition configured_origin :: "host_env \<Rightarrow> (string \<times> string) list \<Rightarrow> url_record \<Rightarrow> bool" where
  "configured_origin env origins record \<longleftrightarrow> isOAuthURLRecord record \<and>
     (\<exists>origin \<in> set origins. oauthForwardingOriginForURL env (ur_url record) = Some origin)"

definition private_allowed :: "host_env \<Rightarrow> host_classifier \<Rightarrow> url_record \<Rightarrow> bool" where
  "private_allowed env c record \<longleftrightarrow> \<not> ur_disallow_private record \<and>
     (\<exists>u. ur_url record = Some u \<and> fst (IsPrivateHost (he_addr env) c (url_Hostname (url.truncate u))))"

lemma in_map_filter: "y \<in> set (List.map_filter f xs) \<longleftrightarrow> (\<exists>x \<in> set xs. f x = Some y)"
  by (induction xs) (auto simp: List.map_filter_simps split: option.splits)

lemma protected_host_shape:
  assumes "newOAuthProtectedResourceHost env resource = Some p" and "host_allowed host p"
  shows "resource \<noteq> [] \<and> (host = resource \<or>
    he_addr env resource = None \<and> he_registrable env resource \<and> (\<exists>q. host = q @ ''.'' @ resource))"
  using assms by (auto simp: newOAuthProtectedResourceHost_def host_allowed_def has_suffix_append split: if_splits)

lemma host_policy_allows_vouched:
  assumes "host_policy_allows env (newOAuthProtectedResourceHostPolicy env records) record"
  shows "vouched env records record"
  using assms protected_host_shape [of env _ _ "normalizedHostname (ur_url record)"]
  by (fastforce simp: host_policy_allows_def newOAuthProtectedResourceHostPolicy_def vouched_def trusted_resource_def Let_def in_map_filter list_ex_iff
      split: if_splits option.splits)

lemma shouldRegister_reasons:
  assumes "fst (shouldRegisterURLRecord env c (newOAuthProtectedResourceHostPolicy env records) origins record)"
  shows "configured_origin env origins record \<or> private_allowed env c record \<or> vouched env records record"
  using assms host_policy_allows_vouched [of env records "record"]
  by (auto simp: shouldRegisterURLRecord_def forwarding_allows_def configured_origin_def private_allowed_def Let_def
      split: option.splits if_splits prod.splits)

text \<open>What one record adds.\<close>

definition registered_from :: "url_record \<Rightarrow> target \<Rightarrow> bool" where
  "registered_from record t \<longleftrightarrow> tg_template t = None \<and> tg_socket t = trim_space (ur_socket record) \<and>
     (\<exists>u. ur_url record = Some u \<and> tg_original t = Some u \<and> tg_base t = normalizeURL u \<and> tg_base t \<noteq> None)"

lemma clean_auto_target:
  assumes "clean_target env plaintext (auto_target record label reason) None = Inr t"
  shows "registered_from record t"
  using assms
  by (auto simp: clean_target_def policy_simps auto_target_def clean_record_def registered_from_def Let_def split: option.splits)

lemma register_record_shape:
  assumes "registry_ok r" and r'_def: "r' = register_record env c (newOAuthProtectedResourceHostPolicy env records) origins r (i, record)"
  shows "registry_ok r' \<and> (r' = r \<or> (\<exists>t. rg_targets r' = rg_targets r @ [(tg_label t, t)] \<and> registered_from record t \<and>
    (configured_origin env origins record \<or> private_allowed env c record \<or> vouched env records record)))"
proof (cases "r' = r")
  case False
  let ?allowed = "shouldRegisterURLRecord env c (newOAuthProtectedResourceHostPolicy env records) origins record"
  from False obtain label where "fst ?allowed"
    "RegisterTarget (he_template env) (he_public env) (auto_target record label (snd ?allowed)) None r = Inr r'"
    unfolding r'_def register_record_def by (auto simp: Let_def split: if_splits sum.splits prod.splits)
  then obtain t bytes where allowed: "fst ?allowed" and
    t: "clean_target (he_template env) (rg_plaintext r) (auto_target record label (snd ?allowed)) None = Inr t"
      "insert_target bytes t r = Inr r'"
    by (auto simp: RegisterTarget_def policy_simps split: option.splits)
  show ?thesis
    using insert_target_ok [OF t(2) clean_target_ok [OF t(1)] assms(1)] insert_target_shape(1) [OF t(2)]
      clean_auto_target [OF t(1)] shouldRegister_reasons [OF allowed] by blast
qed (use assms(1) in simp)

lemma register_records_shape:
  assumes "registry_ok r" and "set batch \<subseteq> set (enumerate 0 records)"
  shows "\<exists>new. registry_ok (foldl (register_record env c (newOAuthProtectedResourceHostPolicy env records) origins) r batch) \<and>
    rg_targets (foldl (register_record env c (newOAuthProtectedResourceHostPolicy env records) origins) r batch) = rg_targets r @ new \<and>
    length new \<le> length batch \<and>
    (\<forall>(label, t) \<in> set new. tg_label t = label \<and> (\<exists>record \<in> set records. registered_from record t \<and>
      (configured_origin env origins record \<or> private_allowed env c record \<or> vouched env records record)))"
  using assms
proof (induction batch arbitrary: r)
  case (Cons x batch)
  let ?step = "register_record env c (newOAuthProtectedResourceHostPolicy env records) origins"
  obtain i "record" where x: "x = (i, record)" "record \<in> set records"
    using Cons.prems(2) by (cases x) (auto simp: in_set_enumerate_eq)
  note shape = register_record_shape [OF Cons.prems(1) refl, of env c records origins i "record"]
  then have "registry_ok (?step r x)" by (simp add: x)
  from Cons.IH [OF this] Cons.prems(2) obtain new where new: "registry_ok (foldl ?step (?step r x) batch)"
    "rg_targets (foldl ?step (?step r x) batch) = rg_targets (?step r x) @ new" "length new \<le> length batch"
    "\<forall>(label, t) \<in> set new. tg_label t = label \<and> (\<exists>record \<in> set records. registered_from record t \<and>
      (configured_origin env origins record \<or> private_allowed env c record \<or> vouched env records record))"
    by auto
  show ?case
  proof (cases "?step r x = r")
    case True
    with new show ?thesis by (auto intro!: exI [of _ new])
  next
    case False
    with shape obtain t where "rg_targets (?step r x) = rg_targets r @ [(tg_label t, t)]" "registered_from record t"
      "configured_origin env origins record \<or> private_allowed env c record \<or> vouched env records record"
      unfolding x(1) by blast
    with new x(2) show ?thesis by (intro exI [of _ "(tg_label t, t) # new"]) auto
  qed
qed auto

text \<open>
  C13. What discovery can add to the registry is confined. A bundle only appends targets, at most one per record, and keeps
  the registry well formed; each new target is an exact one for the normalized URL of a record that is (a) OAuth metadata
  on a configured forwarding origin, or (b) on a private host and published without the restriction, or (c) OAuth metadata
  vouched for by a trusted protected resource of the same bundle: its very host or, when that is a registrable domain and
  no address, a name below it; and with the restriction only its exact origin.
\<close>

theorem auto_registration_confined:
  assumes "registry_ok r"
  shows "\<exists>new. registry_ok (registerHostBundle env c origins records r) \<and>
    rg_targets (registerHostBundle env c origins records r) = rg_targets r @ new \<and> length new \<le> length records \<and>
    (\<forall>(label, t) \<in> set new. tg_label t = label \<and> (\<exists>record \<in> set records. registered_from record t \<and>
      (configured_origin env origins record \<or> private_allowed env c record \<or> vouched env records record)))"
  using register_records_shape [OF assms order_refl, of env c records origins] by (simp add: registerHostBundle_def)

section \<open>An example\<close>

definition example_host_env :: host_env where
  "example_host_env = \<lparr>he_addr = (\<lambda>_. None), he_parse = (\<lambda>_. Some (endpoint_url [] [])), he_registrable = (\<lambda>_. True),
     he_regexp = (\<lambda>_. None), he_template = example_template_env, he_public = (\<lambda>t. Some (tg_label t))\<rparr>"

definition example_classifier_config :: host_classifier_config where
  "example_classifier_config = \<lparr>hf_suffixes = ['' Corp.internal''], hf_regexes = [], hf_loopback = True, hf_private = True\<rparr>"

definition example_classifier :: host_classifier where
  "example_classifier = NewHostClassifier (\<lambda>_. None) example_classifier_config"

definition example_record :: "string \<Rightarrow> string \<Rightarrow> url_record" where
  "example_record role host = \<lparr>ur_url = Some (endpoint_url host ''/v1''), ur_description = [],
     ur_tags = [(TagKeySource, ''OAuth''), (TagKeyRole, role)], ur_socket = [], ur_disallow_private = False\<rparr>"

abbreviation example_bundle :: "url_record list" where
  "example_bundle \<equiv> [example_record ''token-endpoint'' ''idp.notcorp.internal'', example_record ''prmd-resource'' ''api.test'',
     example_record ''issuer'' ''login.api.test'', example_record ''issuer'' ''idp.corp.internal'']"

lemma example_private:
  "IsPrivateHost (\<lambda>_. None) (NewHostClassifier (\<lambda>_. None) example_classifier_config) ''IDP.corp.INTERNAL.'' = (True, ''suffix:'' @ ''.corp.internal'')"
  by code_simp

theorem private_suffix_boundary_witness:
  "\<exists>suffix \<in> set (hf_suffixes example_classifier_config). \<exists>p. ''.corp.internal'' = ''.'' @ bare_suffix suffix \<and>
    trim_suffix (to_lower (trim_space ''IDP.corp.INTERNAL.'')) ''.'' \<in> {bare_suffix suffix, p @ ''.'' @ bare_suffix suffix}"
  using private_suffix_boundary [OF example_private] by blast

theorem auto_label_free_witness:
  "case resolveAutoLabelCollision (buildAutoLabel (example_record ''Token_Endpoint!'' ''a'') 0) example_registry of (label, collisions) \<Rightarrow>
    labelPattern label \<and> Lookup example_registry label = None"
proof -
  have "length (rg_targets example_registry) < 9999" by (simp add: example_registry_fields)
  from auto_label_free [OF this, of "example_record ''Token_Endpoint!'' ''a''" 0] show ?thesis by (auto split: prod.splits)
qed

lemma example_bundle_allowed:
  "map (shouldRegisterURLRecord example_host_env example_classifier (newOAuthProtectedResourceHostPolicy example_host_env example_bundle) [])
     example_bundle =
   [(False, []), (True, ''oauth-protected-resource-host''), (True, ''oauth-protected-resource-host''), (True, ''suffix:.corp.internal'')]"
  by code_simp

theorem auto_registration_confined_witness:
  "\<exists>new. rg_targets (registerHostBundle example_host_env example_classifier [] example_bundle example_registry) =
     (''api'', example_clean) # new \<and> length new \<le> 4 \<and>
   (\<forall>(label, t) \<in> set new. \<exists>record \<in> set example_bundle. registered_from record t \<and>
     (private_allowed example_host_env example_classifier record \<or> vouched example_host_env example_bundle record))"
proof -
  have "registry_ok example_registry" by (rule steps_ok [OF example_registry_steps empty_ok(1)])
  from auto_registration_confined [OF this, of example_host_env example_classifier "[]" example_bundle] show ?thesis
    by (elim ex_forward) (auto simp: example_registry_fields configured_origin_def)
qed

end
