(* ===== verification/OAuthFetch.thy ===== *)
theory OAuthFetch
  imports HarpoonCall "HOL-Library.Monad_Syntax"
begin

text \<open>
  OAuth discovery: which documents the client fetches and from where. \<open>oauth/resource_meta.go\<close> finds the candidates for
  the protected-resource metadata, \<open>oauth/discovery.go\<close> fetches it, \<open>oauth/auth_meta.go\<close> fetches the metadata of the
  authorization server; \<open>oauth/discovery_origin.go\<close>, \<open>oauth/discovery_retry_policy.go\<close> and \<open>oauth/request_id.go\<close> hold the
  trust boundary, the classification of failures and the forwarded request identifier.

  The network is the list of the answers that the transport gives, in the order of the requests. It may end while a
  request waits, and then the value is \<open>None\<close>. \<open>normalizedURLHostname\<close> and \<open>effectiveURLPort\<close> of \<open>oauth/hostbundle.go\<close> are
  the functions of theory HeaderScope.
\<close>

section \<open>Origins\<close>

definition sameOAuthOrigin :: "(string \<Rightarrow> string option) \<Rightarrow> web_url option \<Rightarrow> web_url option \<Rightarrow> bool" where
  "sameOAuthOrigin ip left right = (case (left, right) of
     (Some l, Some r) \<Rightarrow>
       u_scheme l \<noteq> [] \<and> u_scheme r \<noteq> [] \<and> url_Hostname (url.truncate l) \<noteq> [] \<and> url_Hostname (url.truncate r) \<noteq> [] \<and>
       equal_fold (u_scheme l) (u_scheme r) \<and>
       normalizedURLHostname ip (url.truncate l) = normalizedURLHostname ip (url.truncate r) \<and>
       effectiveURLPort (url.truncate l) = effectiveURLPort (url.truncate r)
   | _ \<Rightarrow> False)"

text \<open>\<open>url.URL\<close> with a scheme and a host only.\<close>

definition authority_url :: "web_url \<Rightarrow> web_url" where
  "authority_url u = \<lparr>u_scheme = u_scheme u, u_host = u_host u, u_path = [], u_decoded = [], u_opaque = [], u_user = None,
     u_query = [], u_force_query = False, u_fragment = []\<rparr>"

definition validDiscoveryURL :: "web_url option \<Rightarrow> bool" where
  "validDiscoveryURL u = (case u of
     None \<Rightarrow> False
   | Some u \<Rightarrow>
       (let port = url_Port (url.truncate u) in
        u_opaque u = [] \<and> u_user u = None \<and> u_fragment u = [] \<and> url_Hostname (url.truncate u) \<noteq> [] \<and>
        (equal_fold (u_scheme u) ''http'' \<or> equal_fold (u_scheme u) ''https'') \<and>
        (if port \<noteq> [] then 0 < digits_value port \<and> digits_value port \<le> 65535 else \<not> has_suffix '':'' (u_host u))))"

section \<open>Requests\<close>

record oauth_request =
  ou_method :: string
  ou_url :: web_url
  ou_header :: header
  ou_discovery :: bool

text \<open>What the redirect policy that the client came with may do: it sees the request and may change it.\<close>

datatype prior_answer = PriorFollow oauth_request | PriorLast | PriorBlock goerr

record oauth_env =
  ox_ip :: "string \<Rightarrow> string option"
  ox_parse :: "string \<Rightarrow> web_url option"
  ox_redirect :: "oauth_request list \<Rightarrow> http_reply \<Rightarrow> (goerr + oauth_request) option"
  ox_prior :: "(oauth_request \<Rightarrow> oauth_request list \<Rightarrow> prior_answer) option"
  ox_prmd :: "string \<Rightarrow> (string \<times> string list) option"
  ox_media :: "string \<Rightarrow> string option"
  ox_user_agent :: string
  ox_forward :: "(string \<times> web_url) option"

definition ContextWithForwardRequestID :: "string option \<Rightarrow> web_url option \<Rightarrow> (string \<times> web_url) option" where
  "ContextWithForwardRequestID rid mcpURL = (case (rid, mcpURL) of
     (Some rid, Some u) \<Rightarrow>
       if validDiscoveryURL (Some u) \<and> rid \<noteq> [] \<and> validHTTPHeaderFieldName ''X-Request-Id'' \<and> validHTTPHeaderFieldValue rid
       then Some (rid, authority_url u) else None
   | _ \<Rightarrow> None)"

definition applyForwardedRequestID :: "oauth_env \<Rightarrow> oauth_request \<Rightarrow> oauth_request" where
  "applyForwardedRequestID env req = (case ox_forward env of
     None \<Rightarrow> req
   | Some (rid, origin) \<Rightarrow>
       if \<not> sameOAuthOrigin (ox_ip env) (Some (ou_url req)) (Some origin) \<or> hasRequestIDHeader (ou_header req) then req
       else req\<lparr>ou_header := header_set (ou_header req) ''X-Request-Id'' rid\<rparr>)"

text \<open>\<open>http.NewRequest\<close>: the URL is parsed again and an empty port goes.\<close>

definition new_request :: "oauth_env \<Rightarrow> string \<Rightarrow> bool \<Rightarrow> header \<Rightarrow> string \<Rightarrow> oauth_request option" where
  "new_request env verb discovery h text = map_option (\<lambda>u.
     applyForwardedRequestID env \<lparr>ou_method = verb, ou_url = u\<lparr>u_host := trim_suffix (u_host u) '':''\<rparr>, ou_header = h,
       ou_discovery = discovery\<rparr>) (ox_parse env text)"

definition discovery_headers :: "oauth_env \<Rightarrow> header" where
  "discovery_headers env = [(''Accept'', [''application/json'']), (''User-Agent'', [ox_user_agent env])]"

section \<open>The client\<close>

text \<open>\<open>discoveryOriginTransport\<close>; without one every request is let through.\<close>

definition transport_allows :: "oauth_env \<Rightarrow> web_url option list option \<Rightarrow> web_url \<Rightarrow> goerr" where
  "transport_allows env origins u = (case origins of
     None \<Rightarrow> nil_err
   | Some os \<Rightarrow>
       if \<not> validDiscoveryURL (Some u) then fails ''oauth discovery: invalid metadata URL''
       else if list_ex (\<lambda>origin. sameOAuthOrigin (ox_ip env) (Some u) (map_option authority_url origin)) os then nil_err
       else fails ''oauth discovery: destination origin is not trusted'')"

definition withSameOriginRedirects ::
    "oauth_env \<Rightarrow> web_url \<Rightarrow> oauth_request \<Rightarrow> oauth_request list \<Rightarrow> prior_answer" where
  "withSameOriginRedirects env origin req via =
     (let blocked = PriorBlock (fails ''oauth discovery: redirect blocked: destination must use the discovery origin'') in
      if \<not> sameOAuthOrigin (ox_ip env) (Some (ou_url req)) (Some origin) then blocked
      else case ox_prior env of
        Some prior \<Rightarrow>
          (case prior req via of
             PriorFollow req' \<Rightarrow> if \<not> sameOAuthOrigin (ox_ip env) (Some (ou_url req')) (Some origin) then blocked else PriorFollow req'
           | other \<Rightarrow> other)
      | None \<Rightarrow> if length via \<ge> 10 then PriorBlock (fails ''oauth discovery: stopped after 10 redirects'') else PriorFollow req)"

type_synonym trip = "goerr + http_reply"

text \<open>\<open>http.Client.Do\<close>: the requests that were sent, the result, and the answers that are left.\<close>

fun oauth_do ::
    "oauth_env \<Rightarrow> web_url option list option \<Rightarrow> web_url \<Rightarrow> oauth_request list \<Rightarrow> oauth_request \<Rightarrow> trip list \<Rightarrow>
     (oauth_request list \<times> (goerr + http_reply) \<times> trip list) option" where
  "oauth_do env origins origin via req [] =
     (if transport_allows env origins (ou_url req) \<noteq> nil_err
      then Some ([], Inl (URLError # transport_allows env origins (ou_url req)), []) else None)"
| "oauth_do env origins origin via req (t # ts) =
     (if transport_allows env origins (ou_url req) \<noteq> nil_err
      then Some ([], Inl (URLError # transport_allows env origins (ou_url req)), t # ts)
      else case t of
        Inl e \<Rightarrow> Some ([req], Inl (URLError # e), ts)
      | Inr resp \<Rightarrow>
          (case ox_redirect env (via @ [req]) resp of
             None \<Rightarrow> Some ([req], Inr resp, ts)
           | Some (Inl e) \<Rightarrow> Some ([req], Inl (URLError # e), ts)
           | Some (Inr req') \<Rightarrow>
               (case withSameOriginRedirects env origin req' (via @ [req]) of
                  PriorBlock e \<Rightarrow> Some ([req], Inl (URLError # e), ts)
                | PriorLast \<Rightarrow> Some ([req], Inr resp, ts)
                | PriorFollow req'' \<Rightarrow>
                    map_option (\<lambda>(sent, result). (req # sent, result)) (oauth_do env origins origin (via @ [req]) req'' ts))))"

section \<open>Failures\<close>

datatype discovery_failure = FailureNotApplicable | FailureTimeoutOnly | FailureNonTimeout | FailureRetryableResponse

text \<open>An error, with the classification that \<open>classifiedDiscoveryError\<close> puts around it.\<close>

type_synonym discovery_error = "goerr \<times> discovery_failure option"

definition withDiscoveryFailureType :: "goerr \<Rightarrow> discovery_failure \<Rightarrow> discovery_error" where
  "withDiscoveryFailureType err ft =
     (if err = nil_err then (nil_err, None)
      else (err, Some (if ft = FailureNotApplicable then FailureNonTimeout else ft)))"

definition classifyDiscoveryFailure :: "discovery_error \<Rightarrow> discovery_failure" where
  "classifyDiscoveryFailure = (\<lambda>(err, classified).
     if err = nil_err then FailureNotApplicable
     else case classified of
       Some ft \<Rightarrow> ft
     | None \<Rightarrow>
         if errors_is err DeadlineExceeded \<or> timeout_method (errors_as err is_net_error) = Some True
         then FailureTimeoutOnly else FailureNonTimeout)"

record response_failures =
  rf_retryable :: bool
  rf_permanent :: bool
  rf_timeout :: bool

definition isRetryableDiscoveryResponseStatus :: "int \<Rightarrow> bool" where
  "isRetryableDiscoveryResponseStatus status \<longleftrightarrow> status = 429 \<or> 500 \<le> status \<and> status \<le> 599"

definition failures_record :: "int \<Rightarrow> goerr \<Rightarrow> bool \<Rightarrow> response_failures \<Rightarrow> response_failures" where
  "failures_record status err invalidBody f =
     (if classifyDiscoveryFailure (err, None) = FailureTimeoutOnly then f\<lparr>rf_timeout := True\<rparr>
      else if status = 404 then f
      else if isRetryableDiscoveryResponseStatus status \<or> invalidBody \<and> 200 \<le> status \<and> status < 300
      then f\<lparr>rf_retryable := True\<rparr>
      else f\<lparr>rf_permanent := True\<rparr>)"

definition failures_classify :: "response_failures \<Rightarrow> discovery_failure \<Rightarrow> discovery_failure" where
  "failures_classify f fallback =
     (if rf_permanent f then FailureNonTimeout
      else if rf_retryable f then FailureRetryableResponse
      else if rf_timeout f then FailureTimeoutOnly
      else fallback)"

text \<open>\<open>doWithRetryForTimeout\<close>, with the attempts that are left.\<close>

fun do_attempts ::
    "nat \<Rightarrow> oauth_env \<Rightarrow> web_url option list option \<Rightarrow> web_url \<Rightarrow> oauth_request \<Rightarrow> goerr \<Rightarrow> trip list \<Rightarrow>
     (oauth_request list \<times> (goerr + http_reply) \<times> trip list) option" where
  "do_attempts 0 env origins origin req lastErr ts = Some ([], Inl lastErr, ts)"
| "do_attempts (Suc n) env origins origin req lastErr ts = (case oauth_do env origins origin [] req ts of
     None \<Rightarrow> None
   | Some (sent, Inr resp, ts') \<Rightarrow> Some (sent, Inr resp, ts')
   | Some (sent, Inl err, ts') \<Rightarrow>
       if classifyDiscoveryFailure (err, None) = FailureNonTimeout then Some (sent, Inl err, ts')
       else map_option (\<lambda>(others, result). (sent @ others, result)) (do_attempts n env origins origin req err ts'))"

definition oauthMetadataRequestRetryCount :: nat where
  "oauthMetadataRequestRetryCount = 3"

definition doWithRetryForTimeout ::
    "oauth_env \<Rightarrow> web_url option list option \<Rightarrow> web_url \<Rightarrow> oauth_request \<Rightarrow> trip list \<Rightarrow>
     (oauth_request list \<times> (goerr + http_reply) \<times> trip list) option" where
  "doWithRetryForTimeout env origins origin req ts = do_attempts oauthMetadataRequestRetryCount env origins origin req nil_err ts"

definition do_mode ::
    "bool \<Rightarrow> oauth_env \<Rightarrow> web_url option list option \<Rightarrow> web_url \<Rightarrow> oauth_request \<Rightarrow> trip list \<Rightarrow>
     (oauth_request list \<times> (goerr + http_reply) \<times> trip list) option" where
  "do_mode retry env origins origin req ts =
     (if retry then doWithRetryForTimeout env origins origin req ts else oauth_do env origins origin [] req ts)"

section \<open>Candidates\<close>

datatype discovery_source = SourceWWWAuthenticate | SourceWellKnownPath | SourceWellKnownRoot

record discovery_candidate =
  dc_url :: "web_url option"
  dc_source :: discovery_source
  dc_trusted :: "web_url option list"

definition path_byte :: "char \<Rightarrow> bool" where
  "path_byte c \<longleftrightarrow> unreserved c \<or> c \<in> set ''$&+,/:;=@''"

text \<open>A path that is assigned: the URL has no other form of it, so that it is escaped anew.\<close>

definition set_path :: "web_url \<Rightarrow> string \<Rightarrow> web_url" where
  "set_path u p = u\<lparr>u_decoded := p, u_path := escape_by path_byte p\<rparr>"

definition defaultProtectedResourceMetadataURI :: string where
  "defaultProtectedResourceMetadataURI = ''/.well-known/oauth-protected-resource''"

text \<open>\<open>path.Join\<close> of a rooted path and others.\<close>

definition clean_segment :: "string list \<Rightarrow> string \<Rightarrow> string list" where
  "clean_segment out s = (if s = [] \<or> s = ''.'' then out else if s = ''..'' then butlast out else out @ [s])"

definition join_rooted :: "string \<Rightarrow> string \<Rightarrow> string" where
  "join_rooted base others = ''/'' @ join_by ''/'' (foldl clean_segment [] (split_on (CHR ''/'') (base @ ''/'' @ others)))"

abbreviation slash :: "char \<Rightarrow> bool" where
  "slash c \<equiv> c = CHR ''/''"

definition buildWellKnownCandidates :: "web_url option \<Rightarrow> discovery_candidate list" where
  "buildWellKnownCandidates serverURL = (case serverURL of
     None \<Rightarrow> []
   | Some server \<Rightarrow>
       (let base = set_path (authority_url server) defaultProtectedResourceMetadataURI;
            trusted = [Some (authority_url server)];
            pathSuffix = trim_by slash (u_path server);
            withPath = set_path base
              (if has_prefix (tl defaultProtectedResourceMetadataURI) pathSuffix then ''/'' @ pathSuffix
               else join_rooted defaultProtectedResourceMetadataURI pathSuffix)
        in (if pathSuffix \<noteq> []
            then [\<lparr>dc_url = Some withPath, dc_source = SourceWellKnownPath, dc_trusted = trusted\<rparr>] else []) @
           [\<lparr>dc_url = Some base, dc_source = SourceWellKnownRoot, dc_trusted = trusted\<rparr>]))"

fun dedupe :: "string list \<Rightarrow> discovery_candidate list \<Rightarrow> discovery_candidate list" where
  "dedupe seen [] = []"
| "dedupe seen (c # cs) = (case dc_url c of
     None \<Rightarrow> dedupe seen cs
   | Some u \<Rightarrow>
       if URL_String u = [] \<or> URL_String u \<in> set seen then dedupe seen cs
       else c # dedupe (URL_String u # seen) cs)"

definition dedupeCandidates :: "discovery_candidate list \<Rightarrow> discovery_candidate list" where
  "dedupeCandidates cs = dedupe [] cs"

definition candidatesToStrings :: "discovery_candidate list \<Rightarrow> string list" where
  "candidatesToStrings cs = List.map_filter (\<lambda>c. map_option URL_String (dc_url c)) cs"

section \<open>The challenge of the server\<close>

text \<open>The text before the first comma outside quotes, and what follows it. A backslash escapes inside quotes only.\<close>

fun split_segments :: "bool \<Rightarrow> bool \<Rightarrow> string \<Rightarrow> string \<Rightarrow> string list" where
  "split_segments inQuote escaped current [] = [rev current]"
| "split_segments inQuote escaped current (c # s) =
     (if escaped then split_segments inQuote False (c # current) s
      else if c = CHR 0x5C \<and> inQuote then split_segments inQuote True (c # current) s
      else if c = CHR 0x22 then split_segments (\<not> inQuote) False (c # current) s
      else if c = CHR '','' \<and> \<not> inQuote then rev current # split_segments inQuote False [] s
      else split_segments inQuote False (c # current) s)"

definition splitWWWAuthenticateSegments :: "string \<Rightarrow> string list" where
  "splitWWWAuthenticateSegments header = split_segments False False [] header"

definition splitAuthScheme :: "string \<Rightarrow> (string \<times> string) option" where
  "splitAuthScheme segment =
     (let rest = dropWhile is_space segment; scheme = takeWhile (\<lambda>c. \<not> is_space c) rest;
          others = dropWhile is_space (dropWhile (\<lambda>c. \<not> is_space c) rest)
      in if scheme = [] \<or> others = [] \<or> CHR ''='' \<in> set scheme then None
         else Some (scheme, trim_space (if has_prefix scheme segment then drop (length scheme) segment else segment)))"

text \<open>The pattern \<open>resource_metadata\<close> at the start of a text: the two groups.\<close>

definition pattern_space :: "char \<Rightarrow> bool" where
  "pattern_space c \<longleftrightarrow> of_char c \<in> {9, 10, 12, 13, 32 :: nat}"

definition metadata_param :: "string \<Rightarrow> (string \<times> string) option" where
  "metadata_param s =
     (if \<not> equal_fold (take 17 s) ''resource_metadata'' then None
      else case dropWhile pattern_space (drop 17 s) of
        CHR ''='' # t \<Rightarrow>
          (let v = dropWhile pattern_space t; bare = takeWhile (\<lambda>c. c \<noteq> CHR '','' \<and> \<not> pattern_space c) v in
           if v \<noteq> [] \<and> hd v = CHR 0x22 \<and> CHR 0x22 \<in> set (tl v) then Some (takeWhile (\<lambda>c. c \<noteq> CHR 0x22) (tl v), [])
           else if bare = [] then None else Some ([], bare))
      | _ \<Rightarrow> None)"

fun find_param :: "string \<Rightarrow> (string \<times> string) option" where
  "find_param [] = None"
| "find_param (c # s) = (case metadata_param (c # s) of None \<Rightarrow> find_param s | Some m \<Rightarrow> Some m)"

fun bearer_value :: "string \<Rightarrow> string list \<Rightarrow> string" where
  "bearer_value currentScheme [] = []"
| "bearer_value currentScheme (segment # segments) =
     (let trimmed = trim_space segment;
          (scheme, params) = (case splitAuthScheme trimmed of Some (s, rest) \<Rightarrow> (to_lower s, rest) | None \<Rightarrow> (currentScheme, trimmed)) in
      if trimmed = [] then bearer_value currentScheme segments
      else if scheme \<noteq> ''bearer'' then bearer_value scheme segments
      else case find_param params of
        None \<Rightarrow> bearer_value scheme segments
      | Some (quoted, bare) \<Rightarrow> if quoted \<noteq> [] then quoted else bare)"

definition bearerResourceMetadataValue :: "string \<Rightarrow> string" where
  "bearerResourceMetadataValue header = bearer_value [] (splitWWWAuthenticateSegments header)"

definition parseResourceMetadataFromWWWAuthenticate :: "oauth_env \<Rightarrow> string \<Rightarrow> goerr + web_url" where
  "parseResourceMetadataFromWWWAuthenticate env header =
     (let text = bearerResourceMetadataValue header in
      if text = [] then Inl (fails ''oauth discovery: resource_metadata missing in WWW-Authenticate Bearer challenge'')
      else case ox_parse env text of
        None \<Rightarrow> Inl (fails ''oauth discovery: parse resource_metadata URL'')
      | Some u \<Rightarrow>
          if u_scheme u = [] \<or> u_host u = [] then Inl (fails ''oauth discovery: resource_metadata must be absolute'') else Inr u)"

definition tryWWWAuthenticateProbe ::
    "oauth_env \<Rightarrow> web_url \<Rightarrow> string \<Rightarrow> trip list \<Rightarrow> (oauth_request list \<times> (goerr + web_url) \<times> trip list) option" where
  "tryWWWAuthenticateProbe env server verb ts = (case new_request env verb True (rev (discovery_headers env)) (URL_String server) of
     None \<Rightarrow> Some ([], Inl (fails ''oauth discovery: build WWW-Authenticate probe''), ts)
   | Some req \<Rightarrow>
       map_option (\<lambda>(sent, result, ts').
         (sent,
          (case result of
             Inl err \<Rightarrow> Inl (ErrText ''oauth discovery: WWW-Authenticate probe failed'' # err)
           | Inr resp \<Rightarrow>
               (let header = join_by '', '' (header_values (rp_header resp) ''WWW-Authenticate'') in
                if rp_status resp \<noteq> 401 then Inl (fails ''oauth discovery: WWW-Authenticate probe got status'')
                else if header = [] then Inl (fails ''oauth discovery: WWW-Authenticate header missing'')
                else parseResourceMetadataFromWWWAuthenticate env header)),
          ts')) (oauth_do env None server [] req ts))"

record probe_result_record =
  wp_attempted :: bool
  wp_url :: "web_url option"
  wp_err :: goerr

fun probe_methods ::
    "oauth_env \<Rightarrow> web_url \<Rightarrow> goerr \<Rightarrow> string list \<Rightarrow> trip list \<Rightarrow>
     (oauth_request list \<times> probe_result_record \<times> trip list) option" where
  "probe_methods env server lastErr [] ts = Some ([], \<lparr>wp_attempted = True, wp_url = None, wp_err = lastErr\<rparr>, ts)"
| "probe_methods env server lastErr (verb # verbs) ts = (case tryWWWAuthenticateProbe env server verb ts of
     None \<Rightarrow> None
   | Some (sent, Inr u, ts') \<Rightarrow> Some (sent, \<lparr>wp_attempted = True, wp_url = Some u, wp_err = nil_err\<rparr>, ts')
   | Some (sent, Inl err, ts') \<Rightarrow> map_option (\<lambda>(others, result). (sent @ others, result)) (probe_methods env server err verbs ts'))"

definition probeWWWAuthenticateResourceMetadata ::
    "oauth_env \<Rightarrow> web_url \<Rightarrow> trip list \<Rightarrow> (oauth_request list \<times> probe_result_record \<times> trip list) option" where
  "probeWWWAuthenticateResourceMetadata env server ts = probe_methods env server nil_err [''POST'', ''GET''] ts"

text \<open>What the UI shows of the probe.\<close>

record probe_status =
  pw_attempted :: bool
  pw_url :: string
  pw_err :: goerr

definition probe_result_status :: "probe_result_record \<Rightarrow> probe_status option" where
  "probe_result_status p =
     (if \<not> wp_attempted p \<and> wp_url p = None \<and> wp_err p = nil_err then None
      else Some \<lparr>pw_attempted = wp_attempted p, pw_url = (case wp_url p of None \<Rightarrow> [] | Some u \<Rightarrow> URL_String u), pw_err = wp_err p\<rparr>)"

definition offered_candidates :: "web_url \<Rightarrow> web_url option list \<Rightarrow> web_url option \<Rightarrow> discovery_candidate list" where
  "offered_candidates server trustedOrigins advertised =
     (case advertised of
        None \<Rightarrow> []
      | Some u \<Rightarrow> [\<lparr>dc_url = Some u, dc_source = SourceWWWAuthenticate,
          dc_trusted = Some (authority_url server) #
            map (\<lambda>origin. map_option authority_url origin) (filter (\<lambda>origin. origin \<noteq> None) trustedOrigins)\<rparr>]) @
     buildWellKnownCandidates (Some server)"

definition BuildOAuthDiscoveryCandidates ::
    "oauth_env \<Rightarrow> web_url option \<Rightarrow> web_url option list \<Rightarrow> trip list \<Rightarrow>
     (oauth_request list \<times> (discovery_candidate list \<times> probe_status option) \<times> trip list) option" where
  "BuildOAuthDiscoveryCandidates env serverURL trustedOrigins ts = (case serverURL of
     None \<Rightarrow> Some ([], ([], None), ts)
   | Some server \<Rightarrow>
       map_option (\<lambda>(sent, probe, ts').
         (sent, (dedupeCandidates (offered_candidates server trustedOrigins (wp_url probe)), probe_result_status probe), ts'))
         (probeWWWAuthenticateResourceMetadata env server ts))"

section \<open>Protected-resource metadata\<close>

record discovery_attempt =
  da_url :: string
  da_source :: discovery_source
  da_tried :: bool
  da_status :: int
  da_err :: goerr
  da_selected :: bool

abbreviation metadata_limit :: nat where "metadata_limit \<equiv> 1024 * 1024"

definition validateProtectedResourceMetadata :: "oauth_env \<Rightarrow> string \<Rightarrow> goerr" where
  "validateProtectedResourceMetadata env body = (case ox_prmd env body of
     None \<Rightarrow> fails ''decode protected resource metadata''
   | Some (resource, servers) \<Rightarrow>
       if resource = [] then fails ''protected resource metadata missing resource''
       else case servers of
         [] \<Rightarrow> nil_err
       | server # _ \<Rightarrow> fail_if (ox_parse env server = None) ''parse authorization server[0]'')"

record discovery_pass =
  pa_attempts :: "discovery_attempt list"
  pa_type :: discovery_failure
  pa_failures :: response_failures
  pa_err :: goerr

definition update_attempt :: "nat \<Rightarrow> (discovery_attempt \<Rightarrow> discovery_attempt) \<Rightarrow> discovery_pass \<Rightarrow> discovery_pass" where
  "update_attempt i f p = p\<lparr>pa_attempts := (pa_attempts p)[i := f (pa_attempts p ! i)]\<rparr>"

text \<open>A failure of the candidate: the error, and what it counts as.\<close>

definition note_failure :: "nat \<Rightarrow> goerr \<Rightarrow> int \<Rightarrow> goerr \<Rightarrow> bool \<Rightarrow> discovery_pass \<Rightarrow> discovery_pass" where
  "note_failure i err status cause invalidBody p =
     (update_attempt i (\<lambda>a. a\<lparr>da_err := err\<rparr>) p)
       \<lparr>pa_err := err, pa_failures := failures_record status cause invalidBody (pa_failures p)\<rparr>"

definition note_non_timeout :: "goerr \<Rightarrow> discovery_pass \<Rightarrow> discovery_pass" where
  "note_non_timeout err p = (if classifyDiscoveryFailure (err, None) = FailureNonTimeout then p\<lparr>pa_type := FailureNonTimeout\<rparr> else p)"

datatype pass_step = NextCandidate discovery_pass | PassEnds discovery_failure discovery_pass | PassFound tunnel_response discovery_pass

definition fallback_or_end :: "bool \<Rightarrow> discovery_failure \<Rightarrow> discovery_pass \<Rightarrow> pass_step" where
  "fallback_or_end again fallback p =
     (if again then NextCandidate p else PassEnds (failures_classify (pa_failures p) fallback) p)"

definition judge_response :: "oauth_env \<Rightarrow> bool \<Rightarrow> nat \<Rightarrow> http_reply \<Rightarrow> discovery_pass \<Rightarrow> pass_step" where
  "judge_response env others i resp p =
     (let status = rp_status resp; again = ((status = 404 \<or> status \<ge> 500) \<and> others);
          p = update_attempt i (\<lambda>a. a\<lparr>da_status := status\<rparr>) p;
          (body, readErr) = read_prefix (metadata_limit + 1) (reply_body resp);
          q = p\<lparr>pa_type := FailureNonTimeout\<rparr>; metaErr = validateProtectedResourceMetadata env body
      in if readErr \<noteq> nil_err
         then (let p = note_non_timeout readErr (note_failure i (ErrText ''oauth discovery read'' # readErr) status readErr True p)
               in fallback_or_end again (pa_type p) p)
         else if length body > metadata_limit
         then (let err = fails ''oauth discovery response body exceeds limit''
               in fallback_or_end again FailureNotApplicable (note_failure i err status err False q))
         else if body = []
         then (let err = fails ''oauth discovery empty body''
               in fallback_or_end again FailureNotApplicable (note_failure i err status err True q))
         else if again
         then (let err = fails ''oauth discovery status'' in NextCandidate (note_failure i err status err False q))
         else if metaErr \<noteq> nil_err
         then (let err = ErrText ''oauth discovery invalid metadata'' # metaErr
               in fallback_or_end (status \<ge> 500 \<and> others) FailureNotApplicable (note_failure i err status err True q))
         else PassFound (NewOAuthDiscoveryResponse DefaultChannel body status (rp_header resp))
           (update_attempt i (\<lambda>a. a\<lparr>da_selected := True\<rparr>) q))"

type_synonym pass_result = "(tunnel_response \<times> web_url) option \<times> discovery_failure \<times> discovery_pass"

fun metadata_pass ::
    "oauth_env \<Rightarrow> bool \<Rightarrow> nat \<Rightarrow> (web_url \<times> web_url option list) list \<Rightarrow> discovery_pass \<Rightarrow> trip list \<Rightarrow>
     (oauth_request list \<times> pass_result \<times> trip list) option" where
  "metadata_pass env retry i [] p ts = Some ([], (None, failures_classify (pa_failures p) (pa_type p), p), ts)"
| "metadata_pass env retry i ((u, trusted) # cs) p ts =
     (let p = update_attempt i (\<lambda>a. a\<lparr>da_tried := True, da_selected := False, da_status := 0, da_err := nil_err\<rparr>) p in
      case new_request env ''GET'' True (discovery_headers env) (URL_String u) of
        None \<Rightarrow>
          (let err = fails ''oauth discovery GET''
           in metadata_pass env retry (Suc i) cs ((note_failure i err 0 err False p)\<lparr>pa_type := FailureNonTimeout\<rparr>) ts)
      | Some req \<Rightarrow>
          (case do_mode retry env (Some trusted) u req ts of
             None \<Rightarrow> None
           | Some (sent, Inl err, ts') \<Rightarrow>
               map_option (\<lambda>(others, result). (sent @ others, result))
                 (metadata_pass env retry (Suc i) cs
                    (note_non_timeout err (note_failure i (ErrText ''oauth discovery GET'' # err) 0 err False p)) ts')
           | Some (sent, Inr resp, ts') \<Rightarrow>
               (case judge_response env (cs \<noteq> []) i resp p of
                  NextCandidate p' \<Rightarrow>
                    map_option (\<lambda>(others, result). (sent @ others, result)) (metadata_pass env retry (Suc i) cs p' ts')
                | PassEnds ft p' \<Rightarrow> Some (sent, (None, ft, p'), ts')
                | PassFound r p' \<Rightarrow> Some (sent, (Some (r, u), FailureNotApplicable, p'), ts'))))"

definition runOAuthMetadataDiscoveryPass ::
    "oauth_env \<Rightarrow> (web_url \<times> web_url option list) list \<Rightarrow> discovery_attempt list \<Rightarrow> bool \<Rightarrow> trip list \<Rightarrow>
     (oauth_request list \<times> pass_result \<times> trip list) option" where
  "runOAuthMetadataDiscoveryPass env cs attempts retry ts =
     metadata_pass env retry 0 cs \<lparr>pa_attempts = attempts, pa_type = FailureTimeoutOnly,
       pa_failures = \<lparr>rf_retryable = False, rf_permanent = False, rf_timeout = False\<rparr>, pa_err = nil_err\<rparr> ts"

definition usable_candidates ::
    "discovery_candidate list \<Rightarrow> web_url option list \<Rightarrow> ((web_url \<times> web_url option list) \<times> discovery_source) list" where
  "usable_candidates cs extra = List.map_filter (\<lambda>c. case dc_url c of
     None \<Rightarrow> None
   | Some u \<Rightarrow> if URL_String u = [] then None else Some ((u, dc_trusted c @ extra), dc_source c)) cs"

definition failed_pass :: "discovery_failure \<Rightarrow> discovery_pass \<Rightarrow> discovery_error" where
  "failed_pass ft p = withDiscoveryFailureType (if pa_err p = nil_err then fails ''oauth discovery: no responses'' else pa_err p) ft"

text \<open>The metadata with its source, or the error; and the attempts.\<close>

definition FetchOAuthMetadata ::
    "oauth_env \<Rightarrow> discovery_candidate list \<Rightarrow> web_url option list \<Rightarrow> trip list \<Rightarrow>
     (oauth_request list \<times> ((discovery_error + tunnel_response \<times> web_url) \<times> discovery_attempt list) \<times> trip list) option" where
  "FetchOAuthMetadata env candidates extra ts =
     (let usable = usable_candidates candidates extra; cs = map fst usable;
          attempts = map (\<lambda>((u, _), source). \<lparr>da_url = URL_String u, da_source = source, da_tried = False, da_status = 0,
            da_err = nil_err, da_selected = False\<rparr>) usable
      in if cs = [] then Some ([], (Inl (fails ''oauth discovery: no metadata URLs configured'', None), attempts), ts)
         else case runOAuthMetadataDiscoveryPass env cs attempts False ts of
           None \<Rightarrow> None
         | Some (sent, (Some found, _, p), ts') \<Rightarrow> Some (sent, (Inr found, pa_attempts p), ts')
         | Some (sent, (None, ft, p), ts') \<Rightarrow>
             if ft \<noteq> FailureTimeoutOnly then Some (sent, (Inl (failed_pass ft p), pa_attempts p), ts')
             else map_option (\<lambda>(others, (found, ft', p'), ts'').
                 (sent @ others,
                  (case found of Some f \<Rightarrow> Inr f | None \<Rightarrow> Inl (failed_pass ft' p'), pa_attempts p'), ts''))
               (runOAuthMetadataDiscoveryPass env cs (pa_attempts p) True ts'))"

section \<open>Authorization server metadata\<close>

record auth_server_metadata =
  am_issuer :: string
  am_authorization :: string
  am_token :: string
  am_jwks :: string
  am_introspection :: string
  am_registration :: string
  am_revocation :: string

datatype auth_document = OAuthAuthorizationServer | OpenIDConfiguration

datatype path_style = PathPrepend | PathAppend

definition authServerWellKnownPathSpecs :: "(string \<times> auth_document) list" where
  "authServerWellKnownPathSpecs =
     [(''/.well-known/oauth-authorization-server'', OAuthAuthorizationServer),
      (''/.well-known/openid-configuration'', OpenIDConfiguration)]"

definition prependToPath :: "oauth_env \<Rightarrow> string \<Rightarrow> string \<Rightarrow> string option" where
  "prependToPath env text pre = map_option (\<lambda>u.
     URL_String (set_path u (''/'' @ trim_by slash pre @ (if u_decoded u \<noteq> [] then ''/'' else []) @ dropWhile slash (u_decoded u))))
     (ox_parse env text)"

definition appendToPath :: "oauth_env \<Rightarrow> string \<Rightarrow> string \<Rightarrow> string option" where
  "appendToPath env text suffix = map_option (\<lambda>u.
     URL_String (set_path u (trim_right (CHR ''/'') (u_decoded u) @ ''/'' @ trim_by slash suffix)))
     (ox_parse env text)"

type_synonym auth_candidate = "string \<times> path_style \<times> auth_document"

fun spec_candidates ::
    "oauth_env \<Rightarrow> string \<Rightarrow> bool \<Rightarrow> auth_candidate list \<Rightarrow> (string \<times> auth_document) list \<Rightarrow> auth_candidate list option" where
  "spec_candidates env issuer pathful out [] = Some out"
| "spec_candidates env issuer pathful out ((path, document) # specs) =
     (case (appendToPath env issuer path, prependToPath env issuer path) of
        (Some appended, Some prepended) \<Rightarrow>
          (let pre = (prepended, PathPrepend, document); app = (appended, PathAppend, document) in
           spec_candidates env issuer pathful
             (foldl (\<lambda>out c. if fst c \<in> fst ` set out then out else out @ [c]) out (if pathful then [app, pre] else [pre, app])) specs)
      | _ \<Rightarrow> None)"

definition buildAuthServerMetadataCandidateURLs :: "oauth_env \<Rightarrow> string \<Rightarrow> auth_candidate list option" where
  "buildAuthServerMetadataCandidateURLs env issuer = (case ox_parse env issuer of
     None \<Rightarrow> None
   | Some u \<Rightarrow> spec_candidates env issuer (trim_by slash (u_path u) \<noteq> []) [] authServerWellKnownPathSpecs)"

record auth_http_response =
  ah_status :: int
  ah_headers :: header
  ah_body :: string

definition decode_auth_metadata :: "string \<Rightarrow> auth_server_metadata option" where
  "decode_auth_metadata body = (case json_parse body of
     Some JNull \<Rightarrow> Some \<lparr>am_issuer = [], am_authorization = [], am_token = [], am_jwks = [], am_introspection = [],
       am_registration = [], am_revocation = []\<rparr>
   | Some (JObj ms) \<Rightarrow> do {
       issuer \<leftarrow> string_field ''issuer'' ms;
       authorization \<leftarrow> string_field ''authorization_endpoint'' ms;
       token \<leftarrow> string_field ''token_endpoint'' ms;
       jwks \<leftarrow> string_field ''jwks_uri'' ms;
       introspection \<leftarrow> string_field ''introspection_endpoint'' ms;
       registration \<leftarrow> string_field ''registration_endpoint'' ms;
       revocation \<leftarrow> string_field ''revocation_endpoint'' ms;
       Some \<lparr>am_issuer = issuer, am_authorization = authorization, am_token = token, am_jwks = jwks,
         am_introspection = introspection, am_registration = registration, am_revocation = revocation\<rparr> }
   | _ \<Rightarrow> None)"

definition judge_auth_response ::
    "oauth_env \<Rightarrow> http_reply \<Rightarrow> (goerr + auth_server_metadata) \<times> auth_http_response" where
  "judge_auth_response env resp =
     (let (body, readErr) = read_prefix metadata_limit (reply_body resp);
          response = \<lparr>ah_status = rp_status resp, ah_headers = rp_header resp, ah_body = body\<rparr> in
      if readErr \<noteq> nil_err then (Inl readErr, response\<lparr>ah_body := []\<rparr>)
      else if rp_status resp \<noteq> 200 then (Inl (fails ''bad status''), response)
      else if ox_media env (header_get (rp_header resp) ''Content-Type'') \<noteq> Some ''application/json''
      then (Inl (fails ''bad content type''), response)
      else case decode_auth_metadata body of
        None \<Rightarrow> (Inl (fails ''invalid authorization server metadata''), response)
      | Some meta \<Rightarrow> (Inr meta, response))"

definition fetchAuthServerMetadataDocument ::
    "oauth_env \<Rightarrow> web_url option list \<Rightarrow> bool \<Rightarrow> string \<Rightarrow> trip list \<Rightarrow>
     (oauth_request list \<times> ((goerr + auth_server_metadata) \<times> auth_http_response option) \<times> trip list) option" where
  "fetchAuthServerMetadataDocument env origins retry text ts =
     (case (new_request env ''GET'' False [] text, ox_parse env text) of
        (Some req, Some redirectOrigin) \<Rightarrow>
          map_option (\<lambda>(sent, result, ts').
            (sent, (case result of
               Inl err \<Rightarrow> (Inl err, None)
             | Inr resp \<Rightarrow> (case judge_auth_response env resp of (r, response) \<Rightarrow> (r, Some response))), ts'))
            (do_mode retry env (Some origins) redirectOrigin req ts)
      | _ \<Rightarrow> Some ([], (Inl (fails ''invalid metadata URL''), None), ts))"

record auth_attempt =
  aa_candidate :: auth_candidate
  aa_selected :: bool
  aa_response :: "auth_http_response option"
  aa_err :: goerr
  aa_mismatch :: "(string \<times> string) option"   \<comment> \<open>expected and found issuer\<close>

record auth_fetch_result =
  af_issuer :: string
  af_selected :: string
  af_attempts :: "auth_attempt list"
  af_failure :: discovery_failure

record auth_pass =
  ap_attempts :: "auth_attempt list"
  ap_type :: discovery_failure
  ap_failures :: response_failures
  ap_fallback :: "(auth_server_metadata \<times> nat \<times> string) option"

fun auth_pass_loop ::
    "oauth_env \<Rightarrow> web_url option list \<Rightarrow> bool \<Rightarrow> string \<Rightarrow> auth_candidate list \<Rightarrow> auth_pass \<Rightarrow> trip list \<Rightarrow>
     (oauth_request list \<times> ((auth_server_metadata \<times> string) option \<times> discovery_failure \<times> auth_attempt list) \<times> trip list) option" where
  "auth_pass_loop env origins retry issuer [] p ts =
     Some ([], (case ap_fallback p of
         Some (meta, i, text) \<Rightarrow> (Some (meta, text), FailureNotApplicable,
           (ap_attempts p)[i := (ap_attempts p ! i)\<lparr>aa_selected := True\<rparr>])
       | None \<Rightarrow> (None, failures_classify (ap_failures p) (ap_type p), ap_attempts p)), ts)"
| "auth_pass_loop env origins retry issuer (c # cs) p ts =
     (case fetchAuthServerMetadataDocument env origins retry (fst c) ts of
        None \<Rightarrow> None
      | Some (sent, (result, response), ts') \<Rightarrow>
          (let attempt = \<lparr>aa_candidate = c, aa_selected = False, aa_response = response, aa_err = nil_err, aa_mismatch = None\<rparr>;
               status = (case response of None \<Rightarrow> 0 | Some r \<Rightarrow> ah_status r)
           in case result of
                Inl err \<Rightarrow>
                  map_option (\<lambda>(others, rest). (sent @ others, rest))
                    (auth_pass_loop env origins retry issuer cs
                       (p\<lparr>ap_attempts := ap_attempts p @ [attempt\<lparr>aa_err := err\<rparr>],
                          ap_failures := failures_record status err True (ap_failures p),
                          ap_type := (if classifyDiscoveryFailure (err, None) = FailureNonTimeout then FailureNonTimeout else ap_type p)\<rparr>) ts')
              | Inr meta \<Rightarrow>
                  if am_issuer meta \<noteq> issuer
                  then map_option (\<lambda>(others, rest). (sent @ others, rest))
                    (auth_pass_loop env origins retry issuer cs
                       (p\<lparr>ap_attempts := ap_attempts p @ [attempt\<lparr>aa_mismatch := Some (issuer, am_issuer meta)\<rparr>],
                          ap_fallback := (if ap_fallback p = None then Some (meta, length (ap_attempts p), fst c) else ap_fallback p)\<rparr>) ts')
                  else Some (sent, (Some (meta, fst c), FailureNotApplicable, ap_attempts p @ [attempt\<lparr>aa_selected := True\<rparr>]), ts')))"

definition runFetchAuthServerMetadataPass ::
    "oauth_env \<Rightarrow> web_url option list \<Rightarrow> bool \<Rightarrow> string \<Rightarrow> auth_candidate list \<Rightarrow> trip list \<Rightarrow>
     (oauth_request list \<times> ((auth_server_metadata \<times> string) option \<times> discovery_failure \<times> auth_attempt list) \<times> trip list) option" where
  "runFetchAuthServerMetadataPass env origins retry issuer cs ts =
     auth_pass_loop env origins retry issuer cs \<lparr>ap_attempts = [], ap_type = FailureTimeoutOnly,
       ap_failures = \<lparr>rf_retryable = False, rf_permanent = False, rf_timeout = False\<rparr>, ap_fallback = None\<rparr> ts"

definition auth_result ::
    "string \<Rightarrow> (auth_server_metadata \<times> string) option \<times> discovery_failure \<times> auth_attempt list \<Rightarrow>
     auth_server_metadata option \<times> auth_fetch_result option" where
  "auth_result issuer = (\<lambda>(found, ft, attempts).
     (map_option fst found,
      Some \<lparr>af_issuer = issuer, af_selected = (case found of None \<Rightarrow> [] | Some (_, text) \<Rightarrow> text), af_attempts = attempts,
        af_failure = (if found = None then ft else FailureNotApplicable)\<rparr>))"

text \<open>The metadata, or nothing for an error; and the result for the UI, which an invalid issuer has not.\<close>

definition FetchAuthServerMetadataWithResult ::
    "oauth_env \<Rightarrow> string \<Rightarrow> web_url option list \<Rightarrow> trip list \<Rightarrow>
     (oauth_request list \<times> (auth_server_metadata option \<times> auth_fetch_result option) \<times> trip list) option" where
  "FetchAuthServerMetadataWithResult env issuer origins ts = (case buildAuthServerMetadataCandidateURLs env issuer of
     None \<Rightarrow> Some ([], (None, None), ts)
   | Some cs \<Rightarrow>
       (case runFetchAuthServerMetadataPass env origins False issuer cs ts of
          None \<Rightarrow> None
        | Some (sent, (None, FailureTimeoutOnly, _), ts') \<Rightarrow>
            map_option (\<lambda>(others, r, ts''). (sent @ others, auth_result issuer r, ts''))
              (runFetchAuthServerMetadataPass env origins True issuer cs ts')
        | Some (sent, r, ts') \<Rightarrow> Some (sent, auth_result issuer r, ts')))"

section \<open>Origins form an equivalence\<close>

abbreviation same_origin :: "oauth_env \<Rightarrow> web_url \<Rightarrow> web_url \<Rightarrow> bool" where
  "same_origin env u v \<equiv> sameOAuthOrigin (ox_ip env) (Some u) (Some v)"

lemma same_origin_sym: "same_origin env u v \<Longrightarrow> same_origin env v u"
  by (auto simp: sameOAuthOrigin_def equal_fold_def)

lemma same_origin_trans: "same_origin env u v \<Longrightarrow> same_origin env v w \<Longrightarrow> same_origin env u w"
  by (auto simp: sameOAuthOrigin_def equal_fold_def)

lemma same_origin_authority: "same_origin env u (authority_url v) \<longleftrightarrow> same_origin env u v"
  by (simp add: sameOAuthOrigin_def authority_url_def url.truncate_def url_Hostname_def normalizedURLHostname_def
      effectiveURLPort_def url_Port_def)

lemma same_origin_set_path: "same_origin env u (set_path v p) \<longleftrightarrow> same_origin env u v"
  by (simp add: sameOAuthOrigin_def set_path_def url.truncate_def url_Hostname_def normalizedURLHostname_def
      effectiveURLPort_def url_Port_def)

section \<open>What one request may become\<close>

definition admitted :: "oauth_env \<Rightarrow> web_url option list option \<Rightarrow> web_url \<Rightarrow> oauth_request \<Rightarrow> oauth_request \<Rightarrow> bool" where
  "admitted env origins origin req q \<longleftrightarrow> transport_allows env origins (ou_url q) = nil_err \<and>
     (q = req \<or> same_origin env (ou_url q) origin)"

lemma follow_same_origin:
  "withSameOriginRedirects env origin req via = PriorFollow req' \<Longrightarrow> same_origin env (ou_url req') origin"
  by (auto simp: withSameOriginRedirects_def Let_def split: if_splits option.splits prior_answer.splits)

lemma oauth_do_admitted:
  "oauth_do env origins origin via req ts = Some (sent, result) \<Longrightarrow> q \<in> set sent \<Longrightarrow> admitted env origins origin req q"
proof (induction ts arbitrary: via req sent result)
  case (Cons t ts)
  show ?case
  proof (cases "\<exists>resp req' via' sent' result'. t = Inr resp \<and> oauth_do env origins origin via' req' ts = Some (sent', result') \<and>
      sent = req # sent' \<and> same_origin env (ou_url req') origin \<and> transport_allows env origins (ou_url req) = nil_err")
    case True
    then obtain req' via' sent' result' where rest: "oauth_do env origins origin via' req' ts = Some (sent', result')"
      "sent = req # sent'" "same_origin env (ou_url req') origin" "transport_allows env origins (ou_url req) = nil_err"
      by blast
    from Cons.IH [OF rest(1)] Cons.prems(2) rest show ?thesis by (auto simp: admitted_def)
  next
    case False
    with Cons.prems show ?thesis
      by (auto simp: admitted_def dest: follow_same_origin split: if_splits sum.splits option.splits prior_answer.splits)
  qed
qed (auto split: if_splits)

lemma do_attempts_admitted:
  "do_attempts n env origins origin req e ts = Some (sent, result) \<Longrightarrow> q \<in> set sent \<Longrightarrow> admitted env origins origin req q"
proof (induction n arbitrary: e ts sent result)
  case (Suc n)
  from Suc.prems(1) obtain first answer ts' where first: "oauth_do env origins origin [] req ts = Some (first, answer, ts')"
    by (auto split: option.splits)
  show ?case
  proof (cases "q \<in> set first")
    case True
    with first show ?thesis by (rule oauth_do_admitted)
  next
    case False
    with Suc.prems first obtain err rest result' where "do_attempts n env origins origin req err ts' = Some (rest, result')" "q \<in> set rest"
      by (auto split: sum.splits if_splits)
    then show ?thesis by (rule Suc.IH)
  qed
qed simp

lemma do_mode_admitted:
  "do_mode retry env origins origin req ts = Some (sent, result) \<Longrightarrow> q \<in> set sent \<Longrightarrow> admitted env origins origin req q"
  by (auto simp: do_mode_def doWithRetryForTimeout_def split: if_splits intro: oauth_do_admitted do_attempts_admitted)

section \<open>Where discovery sends requests\<close>

lemma metadata_pass_ConsE:
  assumes "metadata_pass env retry i ((u, trusted) # cs) p ts = Some (sent, result)"
  obtains (skip) p' where "metadata_pass env retry (Suc i) cs p' ts = Some (sent, result)"
  | (stop) req answer ts' where "new_request env ''GET'' True (discovery_headers env) (URL_String u) = Some req"
      "do_mode retry env (Some trusted) u req ts = Some (sent, answer, ts')"
  | (continue) req first answer ts' p' rest where
      "new_request env ''GET'' True (discovery_headers env) (URL_String u) = Some req"
      "do_mode retry env (Some trusted) u req ts = Some (first, answer, ts')"
      "metadata_pass env retry (Suc i) cs p' ts' = Some (rest, result)" "sent = first @ rest"
proof (cases "new_request env ''GET'' True (discovery_headers env) (URL_String u)")
  case None
  with assms skip show ?thesis by (auto simp: Let_def)
next
  case (Some req)
  with assms obtain first answer ts' where first: "do_mode retry env (Some trusted) u req ts = Some (first, answer, ts')"
    by (auto simp: Let_def split: option.splits)
  from assms Some first show ?thesis
    by (auto simp: Let_def split: sum.splits pass_step.splits intro: stop [OF Some] continue [OF Some first])
qed

definition from_candidate :: "oauth_env \<Rightarrow> web_url \<times> web_url option list \<Rightarrow> oauth_request \<Rightarrow> bool" where
  "from_candidate env c q \<longleftrightarrow> (\<exists>req. new_request env ''GET'' True (discovery_headers env) (URL_String (fst c)) = Some req \<and>
     admitted env (Some (snd c)) (fst c) req q)"

lemma metadata_pass_sent:
  "metadata_pass env retry i cs p ts = Some (sent, result) \<Longrightarrow> q \<in> set sent \<Longrightarrow> \<exists>c \<in> set cs. from_candidate env c q"
proof (induction cs arbitrary: i p ts sent result)
  case (Cons c cs)
  obtain u trusted where c: "c = (u, trusted)" by (cases c)
  from Cons.prems(1) [unfolded c] show ?case
  proof (cases rule: metadata_pass_ConsE)
    case skip
    from Cons.IH [OF this Cons.prems(2)] show ?thesis by auto
  next
    case (stop req answer ts')
    with do_mode_admitted [OF stop(2) Cons.prems(2)] have "from_candidate env c q" by (auto simp: from_candidate_def c)
    then show ?thesis by simp
  next
    case (continue req first answer ts' p' rest)
    show ?thesis
    proof (cases "q \<in> set first")
      case True
      with do_mode_admitted [OF continue(2)] continue(1) have "from_candidate env c q" by (auto simp: from_candidate_def c)
      then show ?thesis by simp
    next
      case False
      with Cons.prems(2) continue(4) Cons.IH [OF continue(3)] show ?thesis by auto
    qed
  qed
qed simp

lemma usable_candidate:
  "c \<in> set (map fst (usable_candidates cands extra)) \<Longrightarrow>
   \<exists>d \<in> set cands. dc_url d = Some (fst c) \<and> snd c = dc_trusted d @ extra"
  by (induction cands) (auto simp: usable_candidates_def List.map_filter_simps split: option.splits if_splits)

lemma FetchOAuthMetadata_sent:
  assumes "FetchOAuthMetadata env cands extra ts = Some (sent, result)" and "q \<in> set sent"
  shows "\<exists>d \<in> set cands. \<exists>u. dc_url d = Some u \<and> from_candidate env (u, dc_trusted d @ extra) q"
proof -
  let ?cs = "map fst (usable_candidates cands extra)"
  have "\<exists>c \<in> set ?cs. from_candidate env c q"
    using assms
    by (auto simp: FetchOAuthMetadata_def Let_def runOAuthMetadataDiscoveryPass_def simp del: set_map
        split: if_splits option.splits dest!: metadata_pass_sent) blast+
  then show ?thesis using usable_candidate [of _ cands extra] by fastforce
qed

lemma probe_methods_sent:
  "probe_methods env server e verbs ts = Some (sent, result) \<Longrightarrow> q \<in> set sent \<Longrightarrow>
   \<exists>verb req. new_request env verb True (rev (discovery_headers env)) (URL_String server) = Some req \<and> admitted env None server req q"
proof (induction verbs arbitrary: e ts sent result)
  case (Cons verb verbs)
  from Cons.prems(1) obtain first answer ts' where first: "tryWWWAuthenticateProbe env server verb ts = Some (first, answer, ts')"
    by (auto split: option.splits)
  show ?case
  proof (cases "q \<in> set first")
    case True
    with first show ?thesis
      by (auto simp: tryWWWAuthenticateProbe_def split: option.splits intro!: exI [of _ verb] oauth_do_admitted)
  next
    case False
    with Cons.prems first obtain err rest result' where
      "probe_methods env server err verbs ts' = Some (rest, result')" "q \<in> set rest"
      by (auto split: sum.splits)
    then show ?thesis by (rule Cons.IH)
  qed
qed simp

definition from_document :: "oauth_env \<Rightarrow> web_url option list \<Rightarrow> oauth_request \<Rightarrow> bool" where
  "from_document env origins q \<longleftrightarrow> (\<exists>text req u. new_request env ''GET'' False [] text = Some req \<and> ox_parse env text = Some u \<and>
     admitted env (Some origins) u req q)"

lemma document_sent:
  "fetchAuthServerMetadataDocument env origins retry text ts = Some (sent, result) \<Longrightarrow> q \<in> set sent \<Longrightarrow> from_document env origins q"
  by (auto simp: fetchAuthServerMetadataDocument_def from_document_def split: option.splits
      intro!: exI [of _ "text"] do_mode_admitted)

lemma auth_pass_ConsE:
  assumes "auth_pass_loop env origins retry issuer (c # cs) p ts = Some (sent, result)"
  obtains (stop) answer where "fetchAuthServerMetadataDocument env origins retry (fst c) ts = Some (sent, answer)"
  | (continue) first answer ts' p' rest where
      "fetchAuthServerMetadataDocument env origins retry (fst c) ts = Some (first, answer, ts')"
      "auth_pass_loop env origins retry issuer cs p' ts' = Some (rest, result)" "sent = first @ rest"
proof -
  from assms obtain first answer ts' where first: "fetchAuthServerMetadataDocument env origins retry (fst c) ts = Some (first, answer, ts')"
    by (auto split: option.splits)
  from assms first show ?thesis
    by (auto simp: Let_def split: sum.splits prod.splits if_splits option.splits intro: stop continue [OF first])
qed

lemma auth_pass_sent:
  "auth_pass_loop env origins retry issuer cs p ts = Some (sent, result) \<Longrightarrow> q \<in> set sent \<Longrightarrow> from_document env origins q"
proof (induction cs arbitrary: p ts sent result)
  case (Cons c cs)
  from Cons.prems(1) show ?case
  proof (cases rule: auth_pass_ConsE)
    case stop
    from document_sent [OF this Cons.prems(2)] show ?thesis .
  next
    case (continue first answer ts' p' rest)
    with Cons.prems(2) document_sent [OF continue(1)] Cons.IH [OF continue(2)] show ?thesis by auto
  qed
qed (auto split: option.splits)

lemma FetchAuth_runs:
  assumes "FetchAuthServerMetadataWithResult env issuer origins ts = Some (sent, result)"
  obtains (invalid) "sent = []"
  | (once) cs r ts' where "buildAuthServerMetadataCandidateURLs env issuer = Some cs"
      "runFetchAuthServerMetadataPass env origins False issuer cs ts = Some (sent, r, ts')"
  | (twice) cs first r ts' rest result' where "buildAuthServerMetadataCandidateURLs env issuer = Some cs"
      "runFetchAuthServerMetadataPass env origins False issuer cs ts = Some (first, r, ts')"
      "runFetchAuthServerMetadataPass env origins True issuer cs ts' = Some (rest, result')" "sent = first @ rest"
  using assms
  by (auto simp: FetchAuthServerMetadataWithResult_def split: option.splits discovery_failure.splits prod.splits)

lemma FetchAuth_sent:
  assumes "FetchAuthServerMetadataWithResult env issuer origins ts = Some (sent, result)" and "q \<in> set sent"
  shows "from_document env origins q"
  using assms(1)
  by (cases rule: FetchAuth_runs) (use assms(2) in \<open>auto simp: runFetchAuthServerMetadataPass_def dest: auth_pass_sent\<close>)

section \<open>How many requests discovery sends\<close>

text \<open>Ten redirects are followed when the client came without a policy of its own.\<close>

lemma oauth_do_length:
  assumes "ox_prior env = None"
  shows "oauth_do env origins origin via req ts = Some (sent, result) \<Longrightarrow> length via \<le> 10 \<Longrightarrow> length sent + length via \<le> 11"
proof (induction ts arbitrary: via req sent result)
  case (Cons t ts)
  show ?case
  proof (cases "length sent \<le> 1")
    case False
    with Cons.prems obtain req' sent' where "oauth_do env origins origin (via @ [req]) req' ts = Some (sent', result)"
      "sent = req # sent'" "length via + 1 < 11"
      using assms
      by (auto simp: withSameOriginRedirects_def Let_def split: if_splits sum.splits option.splits prior_answer.splits)
    with Cons.IH [of "via @ [req]" req' sent'] show ?thesis by simp
  qed (use Cons.prems in simp)
qed (auto split: if_splits)

lemma do_attempts_length:
  assumes "ox_prior env = None"
  shows "do_attempts n env origins origin req e ts = Some (sent, result) \<Longrightarrow> length sent \<le> 11 * n"
proof (induction n arbitrary: e ts sent result)
  case (Suc n)
  from Suc.prems obtain first answer ts' where first: "oauth_do env origins origin [] req ts = Some (first, answer, ts')"
    by (auto split: option.splits)
  then have "length first \<le> 11" using oauth_do_length [OF assms first] by simp
  with Suc first show ?case by (fastforce split: sum.splits if_splits)
qed simp

lemma do_mode_length:
  assumes "ox_prior env = None" and "do_mode retry env origins origin req ts = Some (sent, result)"
  shows "length sent \<le> (if retry then 33 else 11)"
  using assms oauth_do_length [OF assms(1), of origins origin "[]" req ts sent result]
    do_attempts_length [OF assms(1), of 3 origins origin req nil_err ts sent result]
  by (auto simp: do_mode_def doWithRetryForTimeout_def oauthMetadataRequestRetryCount_def split: if_splits)

lemma metadata_pass_length:
  assumes "ox_prior env = None"
  shows "metadata_pass env retry i cs p ts = Some (sent, result) \<Longrightarrow> length sent \<le> (if retry then 33 else 11) * length cs"
proof (induction cs arbitrary: i p ts sent result)
  case (Cons c cs)
  obtain u trusted where c: "c = (u, trusted)" by (cases c)
  from Cons.prems [unfolded c] show ?case
  proof (cases rule: metadata_pass_ConsE)
    case skip
    from Cons.IH [OF this] show ?thesis by (auto split: if_splits)
  next
    case stop
    from do_mode_length [OF assms stop(2)] show ?thesis by (auto split: if_splits)
  next
    case continue
    from do_mode_length [OF assms continue(2)] Cons.IH [OF continue(3)] continue(4) show ?thesis by (auto split: if_splits)
  qed
qed simp

lemma auth_pass_length:
  assumes "ox_prior env = None"
  shows "auth_pass_loop env origins retry issuer cs p ts = Some (sent, result) \<Longrightarrow> length sent \<le> (if retry then 33 else 11) * length cs"
proof (induction cs arbitrary: p ts sent result)
  case (Cons c cs)
  have fetch: "length sent' \<le> (if retry then 33 else 11)"
    if "fetchAuthServerMetadataDocument env origins retry (fst c) ts = Some (sent', r)" for sent' r
    using that by (auto simp: fetchAuthServerMetadataDocument_def split: option.splits dest!: do_mode_length [OF assms])
  from Cons.prems show ?case
  proof (cases rule: auth_pass_ConsE)
    case stop
    from fetch [OF this] show ?thesis by (auto split: if_splits)
  next
    case continue
    from fetch [OF continue(1)] Cons.IH [OF continue(2)] continue(3) show ?thesis by (auto split: if_splits)
  qed
qed (auto split: option.splits)

end
