(* ===== verification/OAuthBundle.thy ===== *)
theory OAuthBundle
  imports OAuthFetch HostRegistration TemplateCall
begin

text \<open>
  From protected-resource metadata to the URLs that are offered for registration (\<open>oauth/hostbundle.go\<close>). The metadata was
  written by the MCP server and its authorization server. What they claim may not open the private network: a record
  is marked unless it is on the origin of the MCP server. The last section puts this together with theory
  HostRegistration.
\<close>

section \<open>Options\<close>

record bundle_options =
  bo_socket :: string
  bo_socket_url :: "web_url option"
  bo_trusted_mcp :: "web_url option"
  bo_trusted_oauth :: "web_url option list"

definition options_apply :: "oauth_env \<Rightarrow> bundle_options \<Rightarrow> url_record \<Rightarrow> url_record" where
  "options_apply env opts record =
     (if trim_space (bo_socket opts) = [] \<or> ur_url record = None \<or> bo_socket_url opts = None then record
      else if \<not> sameOAuthOrigin (ox_ip env) (ur_url record) (bo_socket_url opts) then record
      else record\<lparr>ur_socket := trim_space (bo_socket opts)\<rparr>)"

definition normalizedURLPath :: "web_url option \<Rightarrow> string" where
  "normalizedURLPath u = (case u of
     None \<Rightarrow> ''/''
   | Some u \<Rightarrow> if u_path u = [] then ''/'' else if \<not> has_prefix ''/'' (u_path u) then ''/'' @ u_path u else u_path u)"

definition sameOrChildURLPath :: "web_url option \<Rightarrow> web_url option \<Rightarrow> bool" where
  "sameOrChildURLPath candidate base =
     (if candidate = None \<or> base = None then False
      else
        (let candidatePath = normalizedURLPath candidate; trimmed = trim_right (CHR ''/'') (normalizedURLPath base);
             basePath = (if trimmed = [] then ''/'' else trimmed)
         in basePath = ''/'' \<or> candidatePath = basePath \<or> has_prefix (basePath @ ''/'') candidatePath))"

definition isAuthServerMetadataURLFor :: "web_url option \<Rightarrow> web_url option \<Rightarrow> bool" where
  "isAuthServerMetadataURLFor candidate issuer =
     (if candidate = None \<or> issuer = None then False
      else
        (let candidatePath = trim_right (CHR ''/'') (normalizedURLPath candidate); issuerPath = trim_by slash (normalizedURLPath issuer) in
         list_ex (\<lambda>(path, _).
           (let wellKnown = trim_right (CHR ''/'') path in
            candidatePath = wellKnown \<and> issuerPath = [] \<or>
            issuerPath \<noteq> [] \<and> candidatePath = wellKnown @ ''/'' @ issuerPath \<or>
            issuerPath \<noteq> [] \<and> candidatePath = ''/'' @ issuerPath @ wellKnown)) authServerWellKnownPathSpecs))"

definition options_applyAuthServerMetadata :: "oauth_env \<Rightarrow> bundle_options \<Rightarrow> url_record \<Rightarrow> web_url option \<Rightarrow> url_record" where
  "options_applyAuthServerMetadata env opts record issuer =
     (if trim_space (bo_socket opts) = [] \<or> ur_url record = None \<or> bo_socket_url opts = None \<or> issuer = None then record
      else if \<not> sameOAuthOrigin (ox_ip env) (ur_url record) (bo_socket_url opts) \<or> \<not> sameOAuthOrigin (ox_ip env) (ur_url record) issuer
      then record
      else if \<not> sameOrChildURLPath (ur_url record) issuer \<and> \<not> isAuthServerMetadataURLFor (ur_url record) issuer then record
      else record\<lparr>ur_socket := trim_space (bo_socket opts)\<rparr>)"

section \<open>Records\<close>

definition parseURL :: "oauth_env \<Rightarrow> string \<Rightarrow> web_url option" where
  "parseURL env raw =
     (if raw = [] then None
      else case ox_parse env raw of
        None \<Rightarrow> None
      | Some u \<Rightarrow>
          if u_scheme u = [] \<or> u_host u = [] then None
          else if to_lower (u_scheme u) \<noteq> ''http'' \<and> to_lower (u_scheme u) \<noteq> ''https'' then None
          else Some u)"

definition defaultPRMDTags :: "string \<Rightarrow> nat \<Rightarrow> (tag_key \<times> string) list" where
  "defaultPRMDTags role index = [(TagKeySource, ''oauth''), (TagKeyRole, role), (TagKeyIndex, show_nat index)]"

definition authServerGroup :: "string \<Rightarrow> nat \<Rightarrow> string" where
  "authServerGroup bundleGroupID index = ''auth-server:'' @ bundleGroupID @ '':'' @ show_nat index"

definition defaultAuthServerMetadataTags :: "string \<Rightarrow> nat \<Rightarrow> string \<Rightarrow> (tag_key \<times> string) list" where
  "defaultAuthServerMetadataTags role index bundleGroupID =
     [(TagKeySource, ''oauth''), (TagKeyRole, role), (TagKeyIndex, show_nat index), (TagKeyGroup, authServerGroup bundleGroupID index)]"

definition urlRecordFromPRMDResource :: "oauth_env \<Rightarrow> string \<Rightarrow> nat \<Rightarrow> url_record" where
  "urlRecordFromPRMDResource env raw index =
     \<lparr>ur_url = parseURL env raw, ur_description = ''PRMD resource'', ur_tags = defaultPRMDTags ''prmd-resource'' index,
      ur_socket = [], ur_disallow_private = False\<rparr>"

definition urlRecordFromPRMDAuthServer :: "oauth_env \<Rightarrow> string \<Rightarrow> nat \<Rightarrow> string \<Rightarrow> url_record" where
  "urlRecordFromPRMDAuthServer env raw index bundleGroupID =
     \<lparr>ur_url = parseURL env raw, ur_description = ''PRMD authorization server'',
      ur_tags = defaultPRMDTags ''prmd-auth-server'' index @ [(TagKeyGroup, authServerGroup bundleGroupID index)],
      ur_socket = [], ur_disallow_private = False\<rparr>"

definition urlRecordFromPRMDSource :: "web_url \<Rightarrow> nat \<Rightarrow> url_record" where
  "urlRecordFromPRMDSource source index =
     \<lparr>ur_url = Some source, ur_description = ''PRMD source URL'', ur_tags = defaultPRMDTags ''prmd-source'' index,
      ur_socket = [], ur_disallow_private = False\<rparr>"

definition disallowPrivateHostRegistrationOutsideOrigin :: "oauth_env \<Rightarrow> url_record \<Rightarrow> web_url option \<Rightarrow> url_record" where
  "disallowPrivateHostRegistrationOutsideOrigin env record trusted =
     (if ur_url record = None \<or> trusted = None \<or> \<not> sameOAuthOrigin (ox_ip env) (ur_url record) trusted
      then record\<lparr>ur_disallow_private := True\<rparr> else record)"

definition appendAuthServerMetadataRecord ::
    "oauth_env \<Rightarrow> string \<Rightarrow> web_url \<Rightarrow> bool \<Rightarrow> bundle_options \<Rightarrow> url_record list \<Rightarrow> string \<times> string \<times> string \<Rightarrow> url_record list" where
  "appendAuthServerMetadataRecord env bundleGroupID issuer allowPrivate opts records = (\<lambda>(raw, description, role).
     case parseURL env raw of
       None \<Rightarrow> records
     | Some u \<Rightarrow>
         records @ [options_applyAuthServerMetadata env opts
           \<lparr>ur_url = Some u, ur_description = description, ur_tags = defaultAuthServerMetadataTags role 0 bundleGroupID, ur_socket = [],
            ur_disallow_private = (\<not> allowPrivate \<or> \<not> sameOAuthOrigin (ox_ip env) (Some u) (Some issuer))\<rparr> (Some issuer)])"

definition auth_fields :: "auth_server_metadata \<Rightarrow> string \<Rightarrow> (string \<times> string \<times> string) list" where
  "auth_fields meta selected =
     [(selected, ''Auth server metadata URL'', ''auth-server-metadata''), (am_issuer meta, ''Auth server issuer'', ''issuer''),
      (am_token meta, ''Auth server token endpoint'', ''token-endpoint''), (am_jwks meta, ''Auth server JWKS URI'', ''jwks-uri''),
      (am_introspection meta, ''Auth server introspection endpoint'', ''introspection-endpoint''),
      (am_registration meta, ''Auth server registration endpoint'', ''registration-endpoint''),
      (am_revocation meta, ''Auth server revocation endpoint'', ''revocation-endpoint'')]"

definition empty_fetch :: "string \<Rightarrow> auth_fetch_result" where
  "empty_fetch issuer = \<lparr>af_issuer = issuer, af_selected = [], af_attempts = [], af_failure = FailureNotApplicable\<rparr>"

definition buildAuthServerMetadataURLRecords ::
    "oauth_env \<Rightarrow> string \<Rightarrow> string \<Rightarrow> bool \<Rightarrow> bundle_options \<Rightarrow> trip list \<Rightarrow>
     (oauth_request list \<times> (url_record list \<times> auth_fetch_result) \<times> trip list) option" where
  "buildAuthServerMetadataURLRecords env authServerRaw bundleGroupID allowPrivate opts ts = (case parseURL env authServerRaw of
     None \<Rightarrow> Some ([], ([], empty_fetch authServerRaw), ts)
   | Some issuer \<Rightarrow>
       map_option (\<lambda>(sent, (meta, result), ts').
         (let fetch = (case result of None \<Rightarrow> empty_fetch (URL_String issuer) | Some f \<Rightarrow> f) in
          (sent, (case meta of
              None \<Rightarrow> ([], fetch)
            | Some m \<Rightarrow>
                (foldl (appendAuthServerMetadataRecord env bundleGroupID issuer allowPrivate opts) [] (auth_fields m (af_selected fetch)), fetch)),
           ts')))
         (FetchAuthServerMetadataWithResult env (URL_String issuer) (bo_trusted_mcp opts # bo_trusted_oauth opts) ts))"

definition oauthBundleGroupID :: "(string \<Rightarrow> string) \<Rightarrow> string \<Rightarrow> string list \<Rightarrow> web_url option \<Rightarrow> string" where
  "oauthBundleGroupID sha256 resource servers source =
     (let key = (case source of
          Some u \<Rightarrow> URL_String u
        | None \<Rightarrow> if resource \<noteq> [] then resource else case servers of s # _ \<Rightarrow> s | [] \<Rightarrow> ''default'')
      in hex_encode (take 6 (sha256 key)))"

definition filterURLRecords :: "url_record list \<Rightarrow> url_record list" where
  "filterURLRecords records = filter (\<lambda>record. ur_url record \<noteq> None) records"

text \<open>The records that the metadata document itself gives; and whether its authorization server is on the trusted origin.\<close>

definition prmd_record :: "oauth_env \<Rightarrow> bundle_options \<Rightarrow> web_url option \<Rightarrow> url_record \<Rightarrow> url_record" where
  "prmd_record env opts trusted record = disallowPrivateHostRegistrationOutsideOrigin env (options_apply env opts record) trusted"

definition trusted_origin :: "bundle_options \<Rightarrow> web_url option \<Rightarrow> web_url option" where
  "trusted_origin opts source = (case bo_trusted_mcp opts of Some u \<Rightarrow> Some u | None \<Rightarrow> source)"

definition buildURLBundle ::
    "oauth_env \<Rightarrow> (string \<Rightarrow> string) \<Rightarrow> string \<Rightarrow> web_url option \<Rightarrow> bundle_options \<Rightarrow> trip list \<Rightarrow>
     (oauth_request list \<times> ((goerr + url_record list) \<times> auth_fetch_result option) \<times> trip list) option" where
  "buildURLBundle env sha256 payload source opts ts = (case ox_prmd env payload of
     None \<Rightarrow> Some ([], (Inl (fails ''decode protected resource metadata''), None), ts)
   | Some (resource, servers) \<Rightarrow>
       (let gid = oauthBundleGroupID sha256 resource servers source;
            keep = prmd_record env opts (trusted_origin opts source);
            resourceRecord = keep (urlRecordFromPRMDResource env resource 0);
            sourceRecords = (case source of None \<Rightarrow> [] | Some u \<Rightarrow> [keep (urlRecordFromPRMDSource u 0)]);
            finish = (\<lambda>records fetch. (if filterURLRecords records = []
              then Inl (fails ''no urls found in protected resource metadata'') else Inr (filterURLRecords records), fetch))
        in case servers of
             [] \<Rightarrow> Some ([], finish (resourceRecord # sourceRecords) None, ts)
           | server # _ \<Rightarrow>
               (let authRecord = keep (urlRecordFromPRMDAuthServer env server 0 gid) in
                map_option (\<lambda>(sent, (derived, fetch), ts').
                    (sent, finish (resourceRecord # authRecord # sourceRecords @ derived) (Some fetch), ts'))
                  (buildAuthServerMetadataURLRecords env server gid (\<not> ur_disallow_private authRecord) opts ts))))"

section \<open>Which records are on the trusted origin\<close>

definition record_scoped :: "oauth_env \<Rightarrow> bundle_options \<Rightarrow> web_url option \<Rightarrow> url_record \<Rightarrow> bool" where
  "record_scoped env opts trusted record \<longleftrightarrow>
     (ur_disallow_private record \<or> sameOAuthOrigin (ox_ip env) (ur_url record) trusted) \<and>
     (ur_socket record = [] \<or> sameOAuthOrigin (ox_ip env) (ur_url record) (bo_socket_url opts))"

lemma prmd_record_scoped: "ur_socket record = [] \<Longrightarrow> record_scoped env opts trusted (prmd_record env opts trusted record)"
  by (auto simp: record_scoped_def prmd_record_def options_apply_def disallowPrivateHostRegistrationOutsideOrigin_def)

lemma prmd_record_url [simp]: "ur_url (prmd_record env opts trusted record) = ur_url record"
  by (simp add: prmd_record_def options_apply_def disallowPrivateHostRegistrationOutsideOrigin_def)

lemma auth_record_scoped:
  assumes "allowPrivate \<Longrightarrow> sameOAuthOrigin (ox_ip env) (Some issuer) trusted" and "list_all (record_scoped env opts trusted) records"
  shows "list_all (record_scoped env opts trusted) (appendAuthServerMetadataRecord env gid issuer allowPrivate opts records field)"
proof -
  have "sameOAuthOrigin (ox_ip env) (Some u) trusted"
    if "allowPrivate" "same_origin env u issuer" for u
    using assms(1) that same_origin_trans by (cases trusted) (auto simp: sameOAuthOrigin_def [of _ _ None])
  then show ?thesis using assms(2)
    by (auto simp: appendAuthServerMetadataRecord_def record_scoped_def options_applyAuthServerMetadata_def
        split: prod.splits option.splits)
qed

lemma auth_records_scoped:
  assumes "allowPrivate \<Longrightarrow> sameOAuthOrigin (ox_ip env) (Some issuer) trusted"
  shows "list_all (record_scoped env opts trusted) records \<Longrightarrow>
    list_all (record_scoped env opts trusted) (foldl (appendAuthServerMetadataRecord env gid issuer allowPrivate opts) records fs)"
  by (induction fs arbitrary: records) (simp_all add: auth_record_scoped [OF assms])

lemma derived_records_scoped:
  assumes "buildAuthServerMetadataURLRecords env server gid allowPrivate opts ts = Some (sent, (derived, fetch), ts')"
    and "allowPrivate \<Longrightarrow> sameOAuthOrigin (ox_ip env) (parseURL env server) trusted"
  shows "list_all (record_scoped env opts trusted) derived"
  using assms
  by (auto simp: buildAuthServerMetadataURLRecords_def Let_def split: option.splits prod.splits intro!: auth_records_scoped)

lemma list_all_filterURLRecords: "list_all P records \<Longrightarrow> list_all P (filterURLRecords records)"
  by (auto simp: filterURLRecords_def list_all_iff)

lemma bundle_scoped:
  assumes "buildURLBundle env sha256 payload source opts ts = Some (sent, (Inr records, fetch), ts')"
  shows "list_all (record_scoped env opts (trusted_origin opts source)) records"
proof -
  let ?trusted = "trusted_origin opts source" and ?keep = "prmd_record env opts (trusted_origin opts source)"
  from assms obtain resource servers where prmd: "ox_prmd env payload = Some (resource, servers)"
    by (auto simp: buildURLBundle_def split: option.splits)
  have resource: "record_scoped env opts ?trusted (?keep (urlRecordFromPRMDResource env resource 0))"
    "record_scoped env opts ?trusted (?keep (urlRecordFromPRMDSource u 0))"
    "record_scoped env opts ?trusted (?keep (urlRecordFromPRMDAuthServer env server 0 gid))" for u server gid
    by (rule prmd_record_scoped; simp add: urlRecordFromPRMDResource_def urlRecordFromPRMDSource_def urlRecordFromPRMDAuthServer_def)+
  show ?thesis
  proof (cases servers)
    case Nil
    with assms prmd resource show ?thesis
      by (auto simp: buildURLBundle_def Let_def intro!: list_all_filterURLRecords split: option.splits if_splits)
  next
    case (Cons server rest)
    let ?auth = "?keep (urlRecordFromPRMDAuthServer env server 0 (oauthBundleGroupID sha256 resource servers source))"
    have allow: "\<not> ur_disallow_private ?auth \<Longrightarrow> sameOAuthOrigin (ox_ip env) (parseURL env server) ?trusted"
      using resource(3) [of server "oauthBundleGroupID sha256 resource servers source"]
      by (simp add: record_scoped_def urlRecordFromPRMDAuthServer_def)
    from assms prmd Cons obtain derived f where
      "buildAuthServerMetadataURLRecords env server (oauthBundleGroupID sha256 resource servers source) (\<not> ur_disallow_private ?auth) opts ts =
        Some (sent, (derived, f), ts')"
      "filterURLRecords (?keep (urlRecordFromPRMDResource env resource 0) # ?auth #
        (case source of None \<Rightarrow> [] | Some u \<Rightarrow> [?keep (urlRecordFromPRMDSource u 0)]) @ derived) = records"
      by (auto simp: buildURLBundle_def Let_def split: if_splits)
    with derived_records_scoped [OF this(1) allow] resource show ?thesis
      by (auto intro!: list_all_filterURLRecords split: option.splits)
  qed
qed

section \<open>What discovery registers\<close>

text \<open>On the origin of the MCP server, or with the protected-resource origin of a URL that is.\<close>

definition on_own_origin :: "oauth_env \<Rightarrow> host_env \<Rightarrow> web_url \<Rightarrow> web_url \<Rightarrow> bool" where
  "on_own_origin env henv server u \<longleftrightarrow> (\<exists>v. same_origin env v server \<and>
     (v = u \<or> newOAuthProtectedResourceOrigin henv (Some v) = newOAuthProtectedResourceOrigin henv (Some u) \<and>
        newOAuthProtectedResourceOrigin henv (Some u) \<noteq> None))"

lemma scoped_record_own_origin:
  assumes "list_all (record_scoped env opts (Some server)) records" and "record \<in> set records" and "ur_url record = Some u"
    and "private_allowed henv c record \<or> vouched henv records record"
  shows "on_own_origin env henv server u"
proof (cases "ur_disallow_private record")
  case False
  with assms(1-3) have "same_origin env u server" by (auto simp: list_all_iff record_scoped_def)
  then show ?thesis by (auto simp: on_own_origin_def)
next
  case True
  with assms(4) have "vouched henv records record" by (simp add: private_allowed_def)
  with True assms(3) obtain q where q: "q \<in> set records" "\<not> ur_disallow_private q"
    "newOAuthProtectedResourceOrigin henv (ur_url q) = newOAuthProtectedResourceOrigin henv (Some u)"
    "newOAuthProtectedResourceOrigin henv (Some u) \<noteq> None"
    by (auto simp: vouched_def)
  then have "sameOAuthOrigin (ox_ip env) (ur_url q) (Some server)" using assms(1) by (auto simp: list_all_iff record_scoped_def)
  with q show ?thesis by (cases "ur_url q") (auto simp: on_own_origin_def sameOAuthOrigin_def [of _ None])
qed


section \<open>An example\<close>

definition example_bundle_env :: oauth_env where
  "example_bundle_env = \<lparr>ox_ip = (\<lambda>_. None),
     ox_parse = (\<lambda>s. if s = ''own'' then Some (endpoint_url ''mcp.test'' ''/v1'') else Some (endpoint_url ''10.0.0.1'' ''/v1'')),
     ox_redirect = (\<lambda>_ _. None), ox_prior = None, ox_prmd = (\<lambda>s. Some (s, [])), ox_media = (\<lambda>_. None), ox_user_agent = [], ox_forward = None\<rparr>"

definition example_options :: bundle_options where
  "example_options = \<lparr>bo_socket = ''/run/mcp.sock'', bo_socket_url = Some (endpoint_url ''mcp.test'' ''/v1''),
     bo_trusted_mcp = Some (endpoint_url ''mcp.test'' ''/v1''), bo_trusted_oauth = []\<rparr>"

text \<open>A resource that claims to be a private address: it is offered, but marked, and without the socket.\<close>

lemma example_bundle_built:
  "\<exists>sent records fetch ts'. buildURLBundle example_bundle_env id ''other'' (Some (endpoint_url ''MCP.test'' ''/meta'')) example_options [] =
     Some (sent, (Inr records, fetch), ts') \<and> map (\<lambda>r. (ur_disallow_private r, ur_socket r)) records = [(True, []), (False, ''/run/mcp.sock'')]"
proof -
  let ?built = "buildURLBundle example_bundle_env id ''other'' (Some (endpoint_url ''MCP.test'' ''/meta'')) example_options []"
  have "map_option (\<lambda>(_, (bundle, _), _). map_sum id (map (\<lambda>r. (ur_disallow_private r, ur_socket r))) bundle) ?built =
     Some (Inr [(True, []), (False, ''/run/mcp.sock'')])"
    by code_simp
  then obtain sent answer fetch ts' where "?built = Some (sent, (answer, fetch), ts')"
    "map_sum id (map (\<lambda>r. (ur_disallow_private r, ur_socket r))) answer = Inr [(True, []), (False, ''/run/mcp.sock'')]"
    by auto
  then show ?thesis by (cases answer) auto
qed


text \<open>The comparison of protected-resource origins takes a host with a trailing dot for the host itself, unlike the origin test.\<close>

lemma trailing_dot_vouched:
  "host_policy_allows example_host_env
     (newOAuthProtectedResourceHostPolicy example_host_env [example_record ''prmd-resource'' ''api.test''])
     ((example_record ''issuer'' ''api.test.'')\<lparr>ur_disallow_private := True\<rparr>)"
  "\<not> same_origin example_bundle_env (endpoint_url ''api.test.'' ''/v1'') (endpoint_url ''api.test'' ''/v1'')"
  by code_simp+

end
