(* ===== verification/OAuthStartup.thy ===== *)
theory OAuthStartup
  imports OAuthBundle
begin

text \<open>
  OAuth discovery at startup: the result cell (\<open>oauth/state.go\<close>, \<open>oauth/discovery_failure.go\<close>, \<open>oauth/health.go\<close>) and the
  goroutine that retries discovery until it has settled the cell and the startup catalog (\<open>oauth/module.go\<close>). A cycle
  of the goroutine consumes the world of that cycle: the answers of the network, whether the client is shutting down, whether
  the pause before a retry ran out, and how the publication of a bundle ended.
\<close>

section \<open>The result\<close>

record discovery_result =
  dr_url :: string
  dr_fetchedAt :: gotime
  dr_status :: int
  dr_headers :: header
  dr_body :: string
  dr_body_text :: string
  dr_attempts :: "discovery_attempt list"
  dr_auth :: "auth_fetch_result option"

definition BuildDiscoveryResult ::
    "(tunnel_response \<times> web_url) option \<Rightarrow> gotime \<Rightarrow> discovery_attempt list \<Rightarrow> discovery_result option" where
  "BuildDiscoveryResult resp fetchedAt attempts =
     (let empty = \<lparr>dr_url = [], dr_fetchedAt = 0, dr_status = 0, dr_headers = [], dr_body = [], dr_body_text = [],
            dr_attempts = attempts, dr_auth = None\<rparr> in
      case resp of
        None \<Rightarrow> if attempts = [] then None else Some empty
      | Some (r, source) \<Rightarrow>
          (let valid = json_parse (tr_response r) \<noteq> None in
           Some (empty\<lparr>dr_fetchedAt := fetchedAt, dr_status := tr_code r, dr_headers := tr_headers r, dr_url := URL_String source,
             dr_body := (if valid then tr_response r else []), dr_body_text := (if valid then [] else tr_response r)\<rparr>)))"

text \<open>Discovery came to an end and the target advertises no metadata. \<open>err_text\<close> is \<open>Error()\<close>.\<close>

definition IsOptionalDiscoveryFailure ::
    "(goerr \<Rightarrow> string) \<Rightarrow> discovery_result option \<Rightarrow> probe_status option \<Rightarrow> goerr \<Rightarrow> bool" where
  "IsOptionalDiscoveryFailure err_text result probe err =
     (if err = nil_err then False
      else let msg = to_lower (trim_space (err_text err)) in
        if contains ''oauth discovery disabled for transport'' msg \<or> contains ''oauth discovery server url is not configured'' msg then True
        else if (case probe of None \<Rightarrow> False | Some p \<Rightarrow> pw_url p \<noteq> []) then False
        else case result of
          None \<Rightarrow> False
        | Some r \<Rightarrow> dr_attempts r \<noteq> [] \<and> list_all (\<lambda>a. da_tried a \<and> \<not> da_selected a \<and> da_status a = 404) (dr_attempts r))"

record discovery_state =
  ds_done :: bool
  ds_result :: "discovery_result option"
  ds_err :: goerr
  ds_probe :: "probe_status option"
  ds_urls :: "string list"
  ds_completedAt :: gotime
  ds_optional :: bool

type_synonym settlement = "gotime \<times> discovery_result option \<times> goerr \<times> probe_status option \<times> string list"

definition NewDiscoveryState :: discovery_state where
  "NewDiscoveryState = \<lparr>ds_done = False, ds_result = None, ds_err = nil_err, ds_probe = None, ds_urls = [], ds_completedAt = 0,
     ds_optional = False\<rparr>"

definition Discovery_IsDone :: "discovery_state option \<Rightarrow> bool" where
  "Discovery_IsDone s = (case s of None \<Rightarrow> True | Some s \<Rightarrow> ds_done s)"

definition Discovery_Set :: "(goerr \<Rightarrow> string) \<Rightarrow> discovery_state \<Rightarrow> settlement \<Rightarrow> discovery_state" where
  "Discovery_Set err_text s = (\<lambda>(now, result, err, probe, urls).
     if ds_done s then s
     else s\<lparr>ds_done := True, ds_result := result, ds_err := err, ds_completedAt := now, ds_probe := probe, ds_urls := urls,
       ds_optional := IsOptionalDiscoveryFailure err_text result probe err\<rparr>)"

text \<open>The cell when the wait starts and when it wakes up.\<close>

definition Discovery_Wait ::
    "discovery_state option \<Rightarrow> discovery_state option \<Rightarrow>
     (discovery_result option \<times> probe_status option \<times> string list \<times> goerr) option" where
  "Discovery_Wait now later = (case (now, later) of
     (Some s, Some s') \<Rightarrow>
       if ds_done s then Some (ds_result s, ds_probe s, ds_urls s, ds_err s)
       else if ds_done s' then Some (ds_result s', ds_probe s', ds_urls s', ds_err s')
       else None
   | _ \<Rightarrow> None)"

definition discovery_settlement :: "discovery_state \<Rightarrow> settlement option" where
  "discovery_settlement s = (if ds_done s then Some (ds_completedAt s, ds_result s, ds_err s, ds_probe s, ds_urls s) else None)"

interpretation discovery_cell: one_shot "Discovery_Set err_text" discovery_settlement for err_text
  by unfold_locales (auto simp: Discovery_Set_def discovery_settlement_def split: prod.splits if_splits)

section \<open>Component health\<close>

record component_snapshot =
  hv_status :: string
  hv_state :: string
  hv_reason :: string
  hv_observedAt :: "gotime option"
  hv_complete :: bool

definition OAuth_Snapshot :: "bool \<Rightarrow> discovery_state option \<Rightarrow> component_snapshot" where
  "OAuth_Snapshot enabled state =
     (let snapshot = (\<lambda>status st. \<lparr>hv_status = status, hv_state = st, hv_reason = [], hv_observedAt = None, hv_complete = False\<rparr>) in
      if \<not> enabled then snapshot ''disabled'' ''disabled''
      else case state of
        None \<Rightarrow> snapshot ''unknown'' ''pending''
      | Some s \<Rightarrow>
          if ds_completedAt s = 0 then snapshot ''unknown'' ''pending''
          else
            (let r = (snapshot ''ok'' ''complete'')\<lparr>hv_observedAt := Some (ds_completedAt s), hv_complete := True\<rparr> in
             if ds_optional s then r\<lparr>hv_state := ''not_advertised'', hv_reason := ''metadata_not_advertised''\<rparr>
             else if ds_err s \<noteq> nil_err then r\<lparr>hv_status := ''degraded'', hv_state := ''failed'', hv_reason := ''discovery_failed''\<rparr>
             else r))"

section \<open>One cycle\<close>

record mcp_oauth_config =
  oc_allow_no_main :: bool
  oc_kind :: string
  oc_server :: "web_url option"
  oc_socket :: string
  oc_main :: "(string \<times> web_url option \<times> string) option"
  oc_trusted :: "web_url option list"
  oc_startup_wait :: duration

definition newComponentHealth :: "mcp_oauth_config option \<Rightarrow> bool" where
  "newComponentHealth cfg = (case cfg of
     None \<Rightarrow> False
   | Some c \<Rightarrow>
       \<not> oc_allow_no_main c \<and>
       (let (kind, server) = (case oc_main c of Some (k, u, _) \<Rightarrow> (k, u) | None \<Rightarrow> (oc_kind c, oc_server c)) in
        (kind = [] \<or> kind = ''http-streamable'') \<and> server \<noteq> None))"

datatype catalog_step = CompleteWith goerr | PublishThenComplete "url_record list"

datatype cycle_end =
    CycleAbandoned
  | CycleRetries
  | CycleSettles "discovery_result option" goerr "probe_status option" "string list" catalog_step

record cycle_world =
  cw_trips :: "trip list"
  cw_start :: gotime
  cw_now :: gotime
  cw_canceled :: bool
  cw_wait :: bool
  cw_publish :: goerr

record discovery_setup =
  su_env :: oauth_env
  su_sha256 :: "string \<Rightarrow> string"
  su_err_text :: "goerr \<Rightarrow> string"
  su_barrier :: bool
  su_server :: web_url
  su_socket :: string
  su_trusted :: "web_url option list"

definition transient :: "discovery_failure \<Rightarrow> bool" where
  "transient ft \<longleftrightarrow> ft = FailureTimeoutOnly \<or> ft = FailureRetryableResponse"

definition setup_options :: "discovery_setup \<Rightarrow> bundle_options" where
  "setup_options su = \<lparr>bo_socket = su_socket su, bo_socket_url = Some (su_server su), bo_trusted_mcp = Some (su_server su),
     bo_trusted_oauth = su_trusted su\<rparr>"

text \<open>A response whose status asks for a retry is a failure at startup, even when it carries metadata.\<close>

definition fetched_error :: "discovery_error + tunnel_response \<times> web_url \<Rightarrow> discovery_error" where
  "fetched_error fetched = (case fetched of
     Inl e \<Rightarrow> e
   | Inr (r, _) \<Rightarrow>
       if isRetryableDiscoveryResponseStatus (tr_code r)
       then withDiscoveryFailureType (fails ''oauth discovery returned HTTP'') FailureRetryableResponse else (nil_err, None))"

definition fetched_response :: "discovery_error + tunnel_response \<times> web_url \<Rightarrow> (tunnel_response \<times> web_url) option" where
  "fetched_response fetched = (case fetched of Inl _ \<Rightarrow> None | Inr found \<Rightarrow> Some found)"

definition failed_cycle ::
    "discovery_setup \<Rightarrow> bool \<Rightarrow> discovery_result option \<Rightarrow> discovery_error \<Rightarrow> probe_status option \<Rightarrow> string list \<Rightarrow> cycle_end" where
  "failed_cycle su canceled result err probe urls =
     (if errors_is (fst err) Canceled \<and> canceled then CycleAbandoned
      else if transient (classifyDiscoveryFailure err) then CycleRetries
      else CycleSettles result (fst err) probe urls
        (if IsOptionalDiscoveryFailure (su_err_text su) result probe (fst err)
         then (if \<not> su_barrier su then CompleteWith nil_err else PublishThenComplete []) else CompleteWith (fst err)))"

definition bundled_cycle ::
    "discovery_result option \<Rightarrow> probe_status option \<Rightarrow> string list \<Rightarrow> (goerr + url_record list) \<times> auth_fetch_result option \<Rightarrow> cycle_end" where
  "bundled_cycle result probe urls = (\<lambda>(bundle, fetch).
     if (case fetch of None \<Rightarrow> False | Some f \<Rightarrow> transient (af_failure f)) then CycleRetries
     else
       (let result = map_option (\<lambda>r. r\<lparr>dr_auth := fetch\<rparr>) result in
        case bundle of
          Inl err \<Rightarrow> CycleSettles result err probe urls (CompleteWith err)
        | Inr records \<Rightarrow> CycleSettles result nil_err probe urls (PublishThenComplete records)))"

definition run_cycle :: "discovery_setup \<Rightarrow> cycle_world \<Rightarrow> (oauth_request list \<times> cycle_end) option" where
  "run_cycle su w = (case BuildOAuthDiscoveryCandidates (su_env su) (Some (su_server su)) (su_trusted su) (cw_trips w) of
     None \<Rightarrow> None
   | Some (sent, (candidates, probe), ts) \<Rightarrow>
       (let urls = candidatesToStrings candidates; unconfigured = fails ''oauth discovery metadata URLs are not configured'' in
        if candidates = [] then Some (sent, CycleSettles None unconfigured probe urls (CompleteWith unconfigured))
        else case FetchOAuthMetadata (su_env su) candidates [] ts of
          None \<Rightarrow> None
        | Some (fetching, (fetched, attempts), ts') \<Rightarrow>
            (let err = fetched_error fetched; resp = fetched_response fetched;
                 result = BuildDiscoveryResult resp (cw_start w) attempts in
             if fst err \<noteq> nil_err then Some (sent @ fetching, failed_cycle su (cw_canceled w) result err probe urls)
             else case resp of
               None \<Rightarrow> (let missing = fails ''oauth discovery returned nil response''
                 in Some (sent @ fetching, CycleSettles result missing probe urls (CompleteWith missing)))
             | Some (r, source) \<Rightarrow>
                 map_option (\<lambda>(building, bundled, _). (sent @ fetching @ building, bundled_cycle result probe urls bundled))
                   (buildURLBundle (su_env su) (su_sha256 su) (tr_response r) (Some source) (setup_options su) ts'))))"

section \<open>The goroutine\<close>

record discovery_run =
  dn_sent :: "oauth_request list"
  dn_state :: discovery_state
  dn_catalog :: "startup_catalog option"
  dn_published :: "url_record list list"

definition complete_catalog :: "gotime \<Rightarrow> goerr \<Rightarrow> startup_catalog option \<Rightarrow> startup_catalog option" where
  "complete_catalog now err catalog = map_option (\<lambda>c. Catalog_Complete c (now, err)) catalog"

definition settle ::
    "(goerr \<Rightarrow> string) \<Rightarrow> cycle_world \<Rightarrow> discovery_result option \<Rightarrow> goerr \<Rightarrow> probe_status option \<Rightarrow> string list \<Rightarrow> catalog_step \<Rightarrow>
     discovery_run \<Rightarrow> discovery_run" where
  "settle err_text w result err probe urls step run =
     run\<lparr>dn_state := Discovery_Set err_text (dn_state run) (cw_now w, result, err, probe, urls),
         dn_catalog := complete_catalog (cw_now w)
           (case step of CompleteWith e \<Rightarrow> e | PublishThenComplete _ \<Rightarrow> cw_publish w) (dn_catalog run),
         dn_published := dn_published run @ (case step of CompleteWith _ \<Rightarrow> [] | PublishThenComplete records \<Rightarrow> [records])\<rparr>"

fun discovery_loop :: "discovery_setup \<Rightarrow> cycle_world list \<Rightarrow> discovery_run \<Rightarrow> discovery_run option" where
  "discovery_loop su [] run = None"
| "discovery_loop su (w # ws) run = (case run_cycle su w of
     None \<Rightarrow> None
   | Some (sent, end) \<Rightarrow>
       (let run = run\<lparr>dn_sent := dn_sent run @ sent\<rparr> in
        case end of
          CycleAbandoned \<Rightarrow> Some run
        | CycleRetries \<Rightarrow> if cw_wait w then discovery_loop su ws run else Some run
        | CycleSettles result err probe urls step \<Rightarrow> Some (settle (su_err_text su) w result err probe urls step run)))"

definition waitForMCPStartupProbe :: "duration \<Rightarrow> probe_state option \<Rightarrow> bool \<Rightarrow> goerr \<Rightarrow> goerr option" where
  "waitForMCPStartupProbe startupWait probe prefer_ctx ctx_err =
     (if startupWait \<le> 0 then Some nil_err
      else if probe = None then Some (fails ''oauth discovery: MCP probe state is required when startup wait is enabled'')
      else WaitUntilDone probe prefer_ctx ctx_err)"

text \<open>What happens outside the cycles: the probe that is waited for, and a world for the paths without discovery.\<close>

record start_world =
  sw_probe :: "probe_state option"
  sw_prefer_ctx :: bool
  sw_ctx_err :: goerr
  sw_static :: cycle_world

definition startOAuthDiscovery ::
    "oauth_env \<Rightarrow> (string \<Rightarrow> string) \<Rightarrow> (goerr \<Rightarrow> string) \<Rightarrow> mcp_oauth_config \<Rightarrow> bool \<Rightarrow> start_world \<Rightarrow> cycle_world list \<Rightarrow>
     discovery_run \<Rightarrow> discovery_run option" where
  "startOAuthDiscovery env sha256 err_text cfg acknowledges sw ws run =
     (let barrier = (dn_catalog run \<noteq> None \<and> acknowledges); w = sw_static sw;
          unavailable = fails ''oauth discovery: startup catalog acknowledgement unavailable'';
          run = (if \<not> barrier then run\<lparr>dn_catalog := complete_catalog (cw_now w) unavailable (dn_catalog run)\<rparr> else run);
          static = (\<lambda>err. if barrier then settle err_text w None err None [] (PublishThenComplete []) run
            else run\<lparr>dn_state := Discovery_Set err_text (dn_state run) (cw_now w, None, err, None, [])\<rparr>);
          (kind, serverURL, socket) = (case oc_main cfg of Some m \<Rightarrow> m | None \<Rightarrow> (oc_kind cfg, oc_server cfg, oc_socket cfg));
          kind = (if kind = [] then ''http-streamable'' else kind)
      in if oc_allow_no_main cfg then Some (static nil_err)
         else case serverURL of
           None \<Rightarrow> Some (static (fails ''oauth discovery server URL is not configured''))
         | Some server \<Rightarrow>
             if kind \<noteq> ''http-streamable'' then Some (static (fails (''oauth discovery disabled for transport '' @ kind)))
             else case waitForMCPStartupProbe (oc_startup_wait cfg) (sw_probe sw) (sw_prefer_ctx sw) (sw_ctx_err sw) of
               None \<Rightarrow> None
             | Some err \<Rightarrow>
                 if errors_is err Canceled then Some run
                 else if err \<noteq> nil_err then Some (settle err_text w None err None [] (CompleteWith err) run)
                 else discovery_loop \<lparr>su_env = env, su_sha256 = sha256, su_err_text = err_text, su_barrier = barrier, su_server = server,
                     su_socket = socket, su_trusted = oc_trusted cfg\<rparr> ws run)"

section \<open>Where discovery sends requests\<close>

definition operator_origin :: "discovery_setup \<Rightarrow> web_url \<Rightarrow> bool" where
  "operator_origin su u \<longleftrightarrow> same_origin (su_env su) u (su_server su) \<or>
     (\<exists>origin. Some origin \<in> set (su_trusted su) \<and> same_origin (su_env su) u origin)"

text \<open>Reading the server's URL back gives its origin.\<close>

definition server_reads_back :: "discovery_setup \<Rightarrow> bool" where
  "server_reads_back su \<longleftrightarrow> (case ox_parse (su_env su) (URL_String (su_server su)) of
     None \<Rightarrow> True
   | Some v \<Rightarrow> same_origin (su_env su) (v\<lparr>u_host := trim_suffix (u_host v) '':''\<rparr>) (su_server su))"

lemma new_request_url:
  "new_request env verb d h s = Some req \<Longrightarrow> \<exists>v. ox_parse env s = Some v \<and> ou_url req = v\<lparr>u_host := trim_suffix (u_host v) '':''\<rparr>"
  by (auto simp: new_request_def applyForwardedRequestID_def split: option.splits)

lemma transport_allows_origin:
  assumes "transport_allows env (Some origins) u = nil_err"
  shows "\<exists>origin. Some origin \<in> set origins \<and> same_origin env u origin"
proof -
  from assms obtain x where x: "x \<in> set origins" "sameOAuthOrigin (ox_ip env) (Some u) (map_option authority_url x)"
    by (auto simp: transport_allows_def list_ex_iff split: if_splits)
  show ?thesis
  proof (cases x)
    case (Some origin)
    with x show ?thesis by (auto simp: same_origin_authority)
  qed (use x(2) in \<open>simp add: sameOAuthOrigin_def\<close>)
qed

lemma probe_confined:
  assumes "BuildOAuthDiscoveryCandidates (su_env su) (Some (su_server su)) (su_trusted su) ts = Some (sent, rest)"
    and "q \<in> set sent" and "server_reads_back su"
  shows "operator_origin su (ou_url q)"
proof -
  from assms(1) obtain probe ts' where "probe_methods (su_env su) (su_server su) nil_err [''POST'', ''GET''] ts = Some (sent, probe, ts')"
    by (auto simp: BuildOAuthDiscoveryCandidates_def probeWWWAuthenticateResourceMetadata_def)
  from probe_methods_sent [OF this assms(2)] obtain verb req where
    req: "new_request (su_env su) verb True (rev (discovery_headers (su_env su))) (URL_String (su_server su)) = Some req"
    "admitted (su_env su) None (su_server su) req q" by blast
  with new_request_url [OF req(1)] assms(3) show ?thesis
    by (auto simp: operator_origin_def admitted_def server_reads_back_def)
qed

lemma dedupe_subset: "set (dedupe seen cs) \<subseteq> set cs" "length (dedupe seen cs) \<le> length cs"
  by (induction seen cs rule: dedupe.induct) (auto split: option.splits)

lemma candidate_trusted:
  assumes "BuildOAuthDiscoveryCandidates env (Some server) trusted ts = Some (sent, (candidates, probe), ts')"
    and "d \<in> set candidates" and "Some origin \<in> set (dc_trusted d)"
  shows "\<exists>x. origin = authority_url x \<and> (x = server \<or> Some x \<in> set trusted)"
proof -
  from assms(1) obtain advertised where "candidates = dedupe [] (offered_candidates server trusted advertised)"
    by (auto simp: BuildOAuthDiscoveryCandidates_def dedupeCandidates_def)
  then have "d \<in> set (offered_candidates server trusted advertised)" using assms(2) dedupe_subset(1) by blast
  with assms(3) show ?thesis
    by (auto simp: offered_candidates_def buildWellKnownCandidates_def Let_def split: option.splits if_splits) blast+
qed

lemma fetch_confined:
  assumes "BuildOAuthDiscoveryCandidates (su_env su) (Some (su_server su)) (su_trusted su) ts = Some (sent, (candidates, probe), ts')"
    and "FetchOAuthMetadata (su_env su) candidates [] ts' = Some (fetching, rest)" and "q \<in> set fetching"
  shows "operator_origin su (ou_url q)"
proof -
  from FetchOAuthMetadata_sent [OF assms(2,3)] obtain d u where d: "d \<in> set candidates"
    "from_candidate (su_env su) (u, dc_trusted d) q" by auto
  then have "transport_allows (su_env su) (Some (dc_trusted d)) (ou_url q) = nil_err" by (auto simp: from_candidate_def admitted_def)
  from transport_allows_origin [OF this] obtain origin where origin: "Some origin \<in> set (dc_trusted d)"
    "same_origin (su_env su) (ou_url q) origin" by blast
  with candidate_trusted [OF assms(1) d(1) origin(1)] show ?thesis by (auto simp: operator_origin_def same_origin_authority)
qed

lemma bundle_sent:
  assumes "buildURLBundle env sha256 payload source opts ts = Some (sent, rest)" and "q \<in> set sent"
  shows "from_document env (bo_trusted_mcp opts # bo_trusted_oauth opts) q"
  using assms
  by (auto simp: buildURLBundle_def buildAuthServerMetadataURLRecords_def Let_def split: option.splits list.splits prod.splits
      intro: FetchAuth_sent)

lemma build_confined:
  assumes "buildURLBundle (su_env su) sha256 payload source (setup_options su) ts = Some (sent, rest)" and "q \<in> set sent"
  shows "operator_origin su (ou_url q)"
  using bundle_sent [OF assms] transport_allows_origin [of "su_env su" "Some (su_server su) # su_trusted su" "ou_url q"]
  by (auto simp: from_document_def admitted_def setup_options_def operator_origin_def)

lemma cycle_confined:
  assumes "run_cycle su w = Some (sent, e)" and "q \<in> set sent" and "server_reads_back su"
  shows "operator_origin su (ou_url q)"
  using assms
  by (auto simp: run_cycle_def Let_def split: option.splits prod.splits if_splits
      intro: probe_confined fetch_confined build_confined)

text \<open>
  C15. Discovery asks nobody the operator did not name. In every cycle, whatever the servers answer, in challenges,
  redirects or documents, each request goes to the origin of the MCP server or to an origin that the operator
  trusts. What is used of \<open>url.Parse\<close> is that the server's own URL keeps its origin when it is read again.
\<close>

theorem discovery_requests_confined:
  assumes "discovery_loop su ws run = Some run'" and "server_reads_back su"
  shows "\<forall>q \<in> set (dn_sent run'). q \<in> set (dn_sent run) \<or> operator_origin su (ou_url q)"
  using assms(1)
proof (induction ws arbitrary: run)
  case (Cons w ws)
  then obtain sent e where cycle: "run_cycle su w = Some (sent, e)" by (auto split: option.splits)
  note confined = cycle_confined [OF cycle _ assms(2)]
  show ?case
  proof (cases "e = CycleRetries \<and> cw_wait w")
    case True
    with Cons.prems cycle have "discovery_loop su ws (run\<lparr>dn_sent := dn_sent run @ sent\<rparr>) = Some run'" by (simp add: Let_def)
    from Cons.IH [OF this] confined show ?thesis by auto
  next
    case False
    with Cons.prems cycle have "dn_sent run' = dn_sent run @ sent"
      by (auto simp: Let_def settle_def split: cycle_end.splits if_splits)
    with confined show ?thesis by auto
  qed
qed simp

section \<open>How many requests a cycle sends\<close>

lemma probe_length:
  assumes "ox_prior env = None"
  shows "probe_methods env server e verbs ts = Some (sent, result) \<Longrightarrow> length sent \<le> 11 * length verbs"
proof (induction verbs arbitrary: e ts sent result)
  case (Cons verb verbs)
  from Cons.prems obtain first answer ts' where first: "tryWWWAuthenticateProbe env server verb ts = Some (first, answer, ts')"
    by (auto split: option.splits)
  have "length first \<le> 11"
    using first by (auto simp: tryWWWAuthenticateProbe_def split: option.splits dest!: oauth_do_length [OF assms])
  with Cons first show ?case by (fastforce split: sum.splits)
qed simp

lemma candidates_length:
  "BuildOAuthDiscoveryCandidates env (Some server) trusted ts = Some (sent, (candidates, probe), ts') \<Longrightarrow> length candidates \<le> 3"
  using dedupe_subset(2) [of "[]"]
  by (auto simp: BuildOAuthDiscoveryCandidates_def dedupeCandidates_def offered_candidates_def buildWellKnownCandidates_def Let_def
      intro!: order_trans [OF dedupe_subset(2)] split: option.splits)

lemma fetch_length:
  assumes "ox_prior env = None" and "FetchOAuthMetadata env candidates extra ts = Some (sent, result)"
  shows "length sent \<le> 44 * length candidates"
proof -
  have cs: "length (usable_candidates candidates extra) \<le> length candidates"
    by (induction candidates) (auto simp: usable_candidates_def List.map_filter_simps split: option.splits)
  show ?thesis using assms(2) cs
    by (fastforce simp: FetchOAuthMetadata_def Let_def runOAuthMetadataDiscoveryPass_def split: if_splits option.splits
        dest!: metadata_pass_length [OF assms(1)])
qed

lemma auth_candidates_length: "buildAuthServerMetadataCandidateURLs env issuer = Some cs \<Longrightarrow> length cs \<le> 4"
  by (auto simp: buildAuthServerMetadataCandidateURLs_def authServerWellKnownPathSpecs_def Let_def split: option.splits if_splits)

lemma auth_length:
  assumes "ox_prior env = None" and "FetchAuthServerMetadataWithResult env issuer origins ts = Some (sent, result)"
  shows "length sent \<le> 176"
  using assms(2)
proof (cases rule: FetchAuth_runs)
  case (once cs r ts')
  then show ?thesis
    using auth_candidates_length [OF once(1)] by (auto simp: runFetchAuthServerMetadataPass_def dest!: auth_pass_length [OF assms(1)])
next
  case (twice cs first r ts' rest result')
  then show ?thesis
    using auth_candidates_length [OF twice(1)] by (auto simp: runFetchAuthServerMetadataPass_def dest!: auth_pass_length [OF assms(1)])
qed simp

lemma bundle_length:
  assumes "ox_prior env = None" and "buildURLBundle env sha256 payload source opts ts = Some (sent, rest)"
  shows "length sent \<le> 176"
  using assms(2)
  by (auto simp: buildURLBundle_def buildAuthServerMetadataURLRecords_def Let_def split: option.splits list.splits prod.splits
      dest!: auth_length [OF assms(1)])

text \<open>
  A cycle of discovery is bounded: for a client without a redirect policy of its own it sends at most 330 requests
  (two probes, three candidates in two passes and four documents in two passes, with three attempts in a second pass and
  ten redirects each), however the servers answer.
\<close>

theorem discovery_cycle_bounded:
  assumes "ox_prior (su_env su) = None" and "run_cycle su w = Some (sent, e)"
  shows "length sent \<le> 330"
proof -
  from assms(2) obtain probing candidates probe ts where
    probing: "BuildOAuthDiscoveryCandidates (su_env su) (Some (su_server su)) (su_trusted su) (cw_trips w) =
      Some (probing, (candidates, probe), ts)"
    by (auto simp: run_cycle_def split: option.splits)
  then obtain result where "probe_methods (su_env su) (su_server su) nil_err [''POST'', ''GET''] (cw_trips w) = Some (probing, result, ts)"
    by (auto simp: BuildOAuthDiscoveryCandidates_def probeWWWAuthenticateResourceMetadata_def simp del: probe_methods.simps)
  from probe_length [OF assms(1) this] have "length probing \<le> 22" by simp
  moreover have "length fetching \<le> 132" if "FetchOAuthMetadata (su_env su) candidates [] ts = Some (fetching, r)" for fetching r
    using fetch_length [OF assms(1) that] candidates_length [OF probing] by simp
  ultimately show ?thesis
    using assms(2) probing
    by (fastforce simp: run_cycle_def Let_def split: option.splits prod.splits if_splits dest!: bundle_length [OF assms(1)])
qed

section \<open>When discovery settles\<close>

lemma bundle_error: "buildURLBundle env sha256 payload source opts ts = Some (sent, (Inl err, fetch), ts') \<Longrightarrow> err \<noteq> nil_err"
  by (auto simp: buildURLBundle_def Let_def split: option.splits list.splits prod.splits if_splits)

text \<open>What a cycle that settles may do to the catalog.\<close>

lemma cycle_settles:
  assumes "run_cycle su w = Some (sent, CycleSettles result err probe urls step)" and "su_barrier su"
  shows "(\<exists>e. step = CompleteWith e \<and> e \<noteq> nil_err) \<or>
    (\<exists>records. step = PublishThenComplete records \<and>
      (err = nil_err \<or> records = [] \<and> IsOptionalDiscoveryFailure (su_err_text su) result probe err))"
  using assms
  by (auto simp: run_cycle_def failed_cycle_def bundled_cycle_def Let_def split: option.splits prod.splits if_splits sum.splits
      dest: bundle_error)

lemma cycle_abandoned: "run_cycle su w = Some (sent, CycleAbandoned) \<Longrightarrow> cw_canceled w"
  by (auto simp: run_cycle_def failed_cycle_def bundled_cycle_def Let_def split: option.splits prod.splits if_splits sum.splits)

text \<open>The cycle that ended the loop, after cycles that asked for a retry.\<close>

lemma discovery_loop_last:
  "discovery_loop su ws run = Some run' \<Longrightarrow>
   \<exists>w \<in> set ws. \<exists>sent e before. run_cycle su w = Some (sent, e) \<and> (e = CycleRetries \<longrightarrow> \<not> cw_wait w) \<and>
     run' = (case e of CycleSettles result err probe urls step \<Rightarrow>
        settle (su_err_text su) w result err probe urls step (run\<lparr>dn_sent := before\<rparr>) | _ \<Rightarrow> run\<lparr>dn_sent := before\<rparr>)"
proof (induction ws arbitrary: run)
  case (Cons w ws)
  from Cons.prems obtain sent e where cycle: "run_cycle su w = Some (sent, e)" by (auto split: option.splits)
  let ?run = "run\<lparr>dn_sent := dn_sent run @ sent\<rparr>"
  show ?case
  proof (cases "e = CycleRetries \<and> cw_wait w")
    case True
    with Cons.prems cycle have "discovery_loop su ws ?run = Some run'" by (simp add: Let_def)
    from Cons.IH [OF this] show ?thesis by (simp cong: cycle_end.case_cong)
  next
    case False
    with Cons.prems cycle have "run' = (case e of CycleSettles result err probe urls step \<Rightarrow>
        settle (su_err_text su) w result err probe urls step ?run | _ \<Rightarrow> ?run)"
      by (auto simp: Let_def split: cycle_end.splits if_splits)
    with cycle False show ?thesis by auto
  qed
qed simp

text \<open>
  C34. Startup is settled once and truthfully. When discovery returns, either the client is shutting down and nothing was
  settled or published, or the result cell and the startup catalog are both settled. The catalog is settled without
  an error only when a bundle was published and acknowledged without one: the discovered URLs, or an empty bundle for a
  target that advertises no metadata. So no poll starts on a catalog that was not registered.
\<close>

theorem discovery_settles_once:
  assumes "discovery_loop su ws run = Some run'" and "su_barrier su"
    and "\<not> ds_done (dn_state run)" and "dn_catalog run = Some c" and "\<not> sc_done c"
  shows "dn_state run' = dn_state run \<and> dn_catalog run' = dn_catalog run \<and> dn_published run' = dn_published run \<and>
      (\<exists>w \<in> set ws. cw_canceled w \<or> \<not> cw_wait w) \<or>
    ds_done (dn_state run') \<and> (\<exists>c'. dn_catalog run' = Some c' \<and> sc_done c' \<and>
      (sc_err c' = nil_err \<longrightarrow> (\<exists>w \<in> set ws. \<exists>records. cw_publish w = nil_err \<and> dn_published run' = dn_published run @ [records] \<and>
        (ds_err (dn_state run') = nil_err \<or> records = [] \<and> ds_optional (dn_state run')))))"
proof -
  from discovery_loop_last [OF assms(1)] obtain w sent e before where w: "w \<in> set ws" "run_cycle su w = Some (sent, e)"
    "e = CycleRetries \<longrightarrow> \<not> cw_wait w" "run' = (case e of CycleSettles result err probe urls step \<Rightarrow>
        settle (su_err_text su) w result err probe urls step (run\<lparr>dn_sent := before\<rparr>) | _ \<Rightarrow> run\<lparr>dn_sent := before\<rparr>)"
    by blast
  show ?thesis
  proof (cases e)
    case CycleAbandoned
    from cycle_abandoned [OF w(2) [unfolded CycleAbandoned]] w(1,4) CycleAbandoned show ?thesis by auto
  next
    case CycleRetries
    with w show ?thesis by auto
  next
    case (CycleSettles result err probe urls step)
    note run' = w(4) [unfolded CycleSettles cycle_end.case]
    from cycle_settles [OF w(2) [unfolded CycleSettles] assms(2)] assms(3-5) w(1) show ?thesis
      unfolding run' by (auto simp: settle_def complete_catalog_def Catalog_Complete_def Discovery_Set_def)
  qed
qed


section \<open>An example\<close>

text \<open>A server that does not answer in time in the first cycle and breaks off in the second.\<close>

definition example_server :: web_url where
  "example_server = endpoint_url ''mcp.test'' []"

definition example_oauth_env :: oauth_env where
  "example_oauth_env = \<lparr>ox_ip = (\<lambda>_. None), ox_parse = (\<lambda>s. Some example_server), ox_redirect = (\<lambda>_ _. None), ox_prior = None,
     ox_prmd = (\<lambda>_. None), ox_media = (\<lambda>_. None), ox_user_agent = ''ua'', ox_forward = None\<rparr>"

definition example_setup :: discovery_setup where
  "example_setup = \<lparr>su_env = example_oauth_env, su_sha256 = id, su_err_text = (\<lambda>_. ''failed''), su_barrier = True,
     su_server = example_server, su_socket = [], su_trusted = []\<rparr>"

definition example_world :: "nat \<Rightarrow> err_node \<Rightarrow> cycle_world" where
  "example_world n e = \<lparr>cw_trips = replicate n (Inl [e]), cw_start = 1, cw_now = 2, cw_canceled = False, cw_wait = True,
     cw_publish = nil_err\<rparr>"

definition example_run :: discovery_run where
  "example_run = \<lparr>dn_sent = [], dn_state = NewDiscoveryState, dn_catalog = Some NewStartupCatalogState, dn_published = []\<rparr>"

definition example_request :: "string \<Rightarrow> header \<Rightarrow> oauth_request" where
  "example_request verb h = \<lparr>ou_method = verb, ou_url = example_server, ou_header = h, ou_discovery = True\<rparr>"

definition example_candidate_list :: "discovery_candidate list" where
  "example_candidate_list = [\<lparr>dc_url = Some (set_path (authority_url example_server) defaultProtectedResourceMetadataURI),
     dc_source = SourceWellKnownRoot, dc_trusted = [Some (authority_url example_server)]\<rparr>]"

lemma example_new_request: "new_request example_oauth_env verb True h s = Some (example_request verb h)"
proof -
  have "example_server\<lparr>u_host := trim_suffix (u_host example_server) '':''\<rparr> = example_server" by code_simp
  then show ?thesis
    by (simp add: new_request_def example_oauth_env_def applyForwardedRequestID_def example_request_def)
qed

lemma example_offered: "dedupeCandidates (offered_candidates example_server [] None) = example_candidate_list"
  "usable_candidates example_candidate_list [] =
    [((set_path (authority_url example_server) defaultProtectedResourceMetadataURI, [Some (authority_url example_server)]), SourceWellKnownRoot)]"
  "transport_allows example_oauth_env (Some [Some (authority_url example_server)]) example_server = nil_err"
  by code_simp+

lemma example_probe:
  "BuildOAuthDiscoveryCandidates example_oauth_env (Some example_server) [] (Inl e # Inl e # ts) =
   Some ([example_request ''POST'' (rev (discovery_headers example_oauth_env)), example_request ''GET'' (rev (discovery_headers example_oauth_env))],
     (example_candidate_list, Some \<lparr>pw_attempted = True, pw_url = [], pw_err = ErrText ''oauth discovery: WWW-Authenticate probe failed'' # URLError # e\<rparr>), ts)"
  by (simp add: BuildOAuthDiscoveryCandidates_def probeWWWAuthenticateResourceMetadata_def tryWWWAuthenticateProbe_def example_new_request
      transport_allows_def probe_result_status_def example_offered)

lemma example_classified:
  "classifyDiscoveryFailure ([URLError, UnexpectedEOF], None) = FailureNonTimeout"
  "classifyDiscoveryFailure ([URLError, DeadlineExceeded], None) = FailureTimeoutOnly"
  by code_simp+

lemmas example_pass = FetchOAuthMetadata_def runOAuthMetadataDiscoveryPass_def example_offered example_new_request do_mode_def
  doWithRetryForTimeout_def example_request_def note_failure_def note_non_timeout_def update_attempt_def failures_record_def
  failures_classify_def failed_pass_def withDiscoveryFailureType_def example_classified isRetryableDiscoveryResponseStatus_def

lemma example_discovery_fields:
  "su_env example_setup = example_oauth_env" "su_server example_setup = example_server" "su_trusted example_setup = []"
  "\<not> cw_canceled (example_world n e)" "example_candidate_list \<noteq> []"
  by (simp_all add: example_setup_def example_world_def example_candidate_list_def)

lemma example_retries: "\<exists>sent. run_cycle example_setup (example_world 6 DeadlineExceeded) = Some (sent, CycleRetries)"
proof -
  have six: "cw_trips (example_world 6 DeadlineExceeded) = Inl [DeadlineExceeded] # Inl [DeadlineExceeded] # replicate 4 (Inl [DeadlineExceeded])"
    by (simp add: example_world_def eval_nat_numeral)
  have "\<exists>sent attempts. FetchOAuthMetadata example_oauth_env example_candidate_list [] (replicate 4 (Inl [DeadlineExceeded])) =
      Some (sent, (Inl ([ErrText ''oauth discovery GET'', URLError, DeadlineExceeded], Some FailureTimeoutOnly), attempts), [])"
    by (simp add: example_pass eval_nat_numeral oauthMetadataRequestRetryCount_def)
  then show ?thesis
    by (auto simp: run_cycle_def six example_discovery_fields example_probe fetched_error_def failed_cycle_def classifyDiscoveryFailure_def
        transient_def Let_def)
qed

lemma example_settles:
  "\<exists>sent result probe urls step. run_cycle example_setup (example_world 3 UnexpectedEOF) = Some (sent, CycleSettles result
     [ErrText ''oauth discovery GET'', URLError, UnexpectedEOF] probe urls step) \<and> length sent = 3"
proof -
  have three: "cw_trips (example_world 3 UnexpectedEOF) = [Inl [UnexpectedEOF], Inl [UnexpectedEOF], Inl [UnexpectedEOF]]"
    by (simp add: example_world_def eval_nat_numeral)
  have "\<exists>q attempts. FetchOAuthMetadata example_oauth_env example_candidate_list [] [Inl [UnexpectedEOF]] =
      Some ([q], (Inl ([ErrText ''oauth discovery GET'', URLError, UnexpectedEOF], Some FailureNonTimeout), attempts), [])"
    by (simp add: example_pass)
  then show ?thesis
    by (auto simp: run_cycle_def three example_discovery_fields example_probe fetched_error_def failed_cycle_def classifyDiscoveryFailure_def
        transient_def Let_def)
qed

lemma example_reads_back: "server_reads_back example_setup" "ox_prior (su_env example_setup) = None"
  by code_simp+

lemma example_loop:
  "\<exists>run'. discovery_loop example_setup [example_world 3 UnexpectedEOF] example_run = Some run' \<and> length (dn_sent run') = 3"
  using example_settles by (auto simp: example_run_def settle_def)

theorem discovery_requests_confined_witness:
  "\<exists>run'. discovery_loop example_setup [example_world 3 UnexpectedEOF] example_run = Some run' \<and> length (dn_sent run') = 3 \<and>
     (\<forall>q \<in> set (dn_sent run'). operator_origin example_setup (ou_url q))"
proof -
  obtain run' where run': "discovery_loop example_setup [example_world 3 UnexpectedEOF] example_run = Some run'"
    "length (dn_sent run') = 3" using example_loop by blast
  from discovery_requests_confined [OF run'(1) example_reads_back(1)] run' show ?thesis by (auto simp: example_run_def)
qed

theorem discovery_cycle_bounded_witness:
  "\<exists>sent e. run_cycle example_setup (example_world 3 UnexpectedEOF) = Some (sent, e) \<and> length sent \<le> 330"
  using example_settles discovery_cycle_bounded [OF example_reads_back(2)] by blast

theorem discovery_settles_once_witness:
  "\<exists>run'. discovery_loop example_setup [example_world 3 UnexpectedEOF] example_run = Some run' \<and> ds_done (dn_state run')"
proof -
  obtain run' where run': "discovery_loop example_setup [example_world 3 UnexpectedEOF] example_run = Some run'" using example_loop by blast
  have "su_barrier example_setup" "\<not> ds_done (dn_state example_run)" "dn_catalog example_run = Some NewStartupCatalogState"
    "\<not> sc_done NewStartupCatalogState"
    by (simp_all add: example_setup_def example_run_def NewDiscoveryState_def NewStartupCatalogState_def)
  from discovery_settles_once [OF run' this] run' show ?thesis by (auto simp: example_world_def)
qed


end
