(* ===== verification/ConfigValues.thy ===== *)
theory ConfigValues
  imports HostRegistration Processor ControlApi "HOL-Library.AList"
begin

text \<open>
  How settings get their values (\<open>src/pkg/runtimeconfig\<close>): flags over the
  environment over the configuration file, references to variables and files,
  proxies, operator headers, and the words of a command. A parsed flag set is
  what \<open>pflag\<close> shows of each flag that the user changed. Parameters of the
  model are \<open>url.Parse\<close>, \<open>time.ParseDuration\<close>, \<open>os.ReadFile\<close>, the loading of a
  key pair, the check of a regular expression, \<open>netip.ParseAddr\<close>, the JSON
  text of a map of byte strings, the names of log levels, the certificates of a
  bundle, and the SDK's workload identity.
\<close>

section \<open>Flags and environment\<close>

record flag_value =
  fv_text :: string                    \<comment> \<open>\<open>Value.String()\<close>\<close>
  fv_array :: "string list option"     \<comment> \<open>\<open>GetStringArray\<close>, for a flag of that type\<close>
  fv_duration :: "duration option"     \<comment> \<open>\<open>GetDuration\<close>\<close>
  fv_bool :: "bool option"             \<comment> \<open>\<open>GetBool\<close>\<close>

type_synonym flag_set = "string \<Rightarrow> flag_value option"   \<comment> \<open>the changed flags\<close>
type_synonym lookup_env = "string \<Rightarrow> string option"

record config_env =
  ce_parse :: "string \<Rightarrow> web_url option"
  ce_duration :: "string \<Rightarrow> duration option"
  ce_read :: "string \<Rightarrow> string option"
  ce_pair :: "string \<Rightarrow> string \<Rightarrow> string option"
  ce_regexp :: "string \<Rightarrow> bool"
  ce_addr :: "string \<Rightarrow> (bool \<times> string) option"      \<comment> \<open>\<open>Is6\<close> and \<open>Zone\<close>\<close>
  ce_marshal :: "extra_headers \<Rightarrow> string"
  ce_unmarshal :: "string \<Rightarrow> extra_headers option"
  ce_identity :: "string \<Rightarrow> string \<Rightarrow> goerr"          \<comment> \<open>\<open>auth.NewWorkloadIdentityAuth\<close>\<close>
  ce_level :: "string \<Rightarrow> int option"                 \<comment> \<open>\<open>slog.Level.UnmarshalText\<close>\<close>
  ce_bundle :: "string \<Rightarrow> bool"                       \<comment> \<open>\<open>AppendCertsFromPEM\<close>\<close>

definition getValue :: "flag_set \<Rightarrow> string \<Rightarrow> string" where
  "getValue fs name = (case fs name of None \<Rightarrow> [] | Some f \<Rightarrow> fv_text f)"

definition changedStringFlag :: "flag_set \<Rightarrow> string \<Rightarrow> string option" where
  "changedStringFlag fs name = map_option fv_text (fs name)"

definition envOrDefault :: "lookup_env \<Rightarrow> string \<Rightarrow> string \<Rightarrow> string" where
  "envOrDefault lookupEnv key fallback = (case lookupEnv key of
     Some val \<Rightarrow> if val \<noteq> [] then val else fallback
   | None \<Rightarrow> fallback)"

definition firstSet :: "string list \<Rightarrow> string" where
  "firstSet values = (case filter (\<lambda>v. v \<noteq> []) values of [] \<Rightarrow> [] | v # _ \<Rightarrow> v)"

definition configValueOverridden :: "flag_set \<Rightarrow> lookup_env \<Rightarrow> string \<Rightarrow> string \<Rightarrow> bool" where
  "configValueOverridden fs lookupEnv flagName envName \<longleftrightarrow> fs flagName \<noteq> None \<or> lookupEnv envName \<noteq> None"

definition lookupEnvWithFileValues :: "lookup_env \<Rightarrow> lookup_env option \<Rightarrow> lookup_env" where
  "lookupEnvWithFileValues lookupEnv file_values = (case file_values of
     None \<Rightarrow> lookupEnv
   | Some env \<Rightarrow> (\<lambda>key. case lookupEnv key of Some val \<Rightarrow> Some val | None \<Rightarrow> env key))"

definition commonFlagAliases :: "(string \<times> string) list" where
  "commonFlagAliases =
     [(''control-plane.base-url'', ''control-plane-base-url''),
      (''control-plane.url-path'', ''control-plane-url-path''),
      (''control-plane.tunnel-id'', ''control-plane-tunnel-id''),
      (''control-plane.organization-id'', ''control-plane-organization-id''),
      (''control-plane.api-key'', ''control-plane-api-key''),
      (''control-plane.client-cert'', ''control-plane-client-cert''),
      (''control-plane.client-key'', ''control-plane-client-key''),
      (''mcp.server-url'', ''mcp-server-url''),
      (''mcp.command'', ''mcp-command''),
      (''mcp.extra-headers'', ''mcp-extra-headers''),
      (''mcp.discovery-extra-headers'', ''mcp-discovery-extra-headers''),
      (''health.listen-addr'', ''health-listen-addr''),
      (''health.unix-socket'', ''health-unix-socket''),
      (''health.url-file'', ''health-url-file''),
      (''health.show-details'', ''health-show-details'')]"

text \<open>Both names of a pair are flags of the same type, so the value carries over whole.\<close>

definition apply_alias :: "flag_set \<Rightarrow> string \<times> string \<Rightarrow> flag_set" where
  "apply_alias fs a = (case a of (canonical, alias) \<Rightarrow>
     if fs canonical \<noteq> None \<or> fs alias = None then fs else fs(canonical := fs alias))"

definition applyFlagAliases :: "flag_set \<Rightarrow> flag_set" where
  "applyFlagAliases fs = foldl apply_alias fs commonFlagAliases"

section \<open>Numbers and truth values\<close>

text \<open>\<open>strconv.Atoi\<close> and \<open>strconv.ParseBool\<close>.\<close>

definition Atoi :: "string \<Rightarrow> int option" where
  "Atoi s =
     (let negative = has_prefix ''-'' s;
          ds = (if negative \<or> has_prefix ''+'' s then tl s else s);
          n = (if negative then - int (digits_value ds) else int (digits_value ds))
      in if ds = [] \<or> \<not> list_all is_digit ds \<or> n < min_i64 \<or> max_i64 < n then None else Some n)"

definition ParseBool :: "string \<Rightarrow> bool option" where
  "ParseBool s =
     (if s \<in> set [''1'', ''t'', ''T'', ''true'', ''TRUE'', ''True''] then Some True
      else if s \<in> set [''0'', ''f'', ''F'', ''false'', ''FALSE'', ''False''] then Some False
      else None)"

definition or_fail :: "string \<Rightarrow> 'a option \<Rightarrow> goerr + 'a" where
  "or_fail text x = (case x of None \<Rightarrow> Inl (fails text) | Some v \<Rightarrow> Inr v)"

definition getInt :: "flag_set \<Rightarrow> lookup_env \<Rightarrow> string \<Rightarrow> string \<Rightarrow> int \<Rightarrow> goerr + int" where
  "getInt fs lookupEnv flagName envName defaultValue = (case fs flagName of
     Some f \<Rightarrow> or_fail (''invalid value for --'' @ flagName) (Atoi (fv_text f))
   | None \<Rightarrow> (case lookupEnv envName of
       Some envVal \<Rightarrow> if envVal \<noteq> [] then or_fail (''invalid '' @ envName) (Atoi envVal) else Inr defaultValue
     | None \<Rightarrow> Inr defaultValue))"

definition getBoolWithDefault :: "flag_set \<Rightarrow> lookup_env \<Rightarrow> string \<Rightarrow> string \<Rightarrow> bool \<Rightarrow> goerr + bool" where
  "getBoolWithDefault fs lookupEnv flagName envName defaultValue = (case fs flagName of
     Some f \<Rightarrow> or_fail (''parse --'' @ flagName) (ParseBool (fv_text f))
   | None \<Rightarrow> (case lookupEnv envName of
       Some envVal \<Rightarrow> if envVal \<noteq> [] then or_fail (''parse '' @ envName) (ParseBool envVal) else Inr defaultValue
     | None \<Rightarrow> Inr defaultValue))"

definition getBool :: "flag_set \<Rightarrow> lookup_env \<Rightarrow> string \<Rightarrow> string \<Rightarrow> goerr + bool" where
  "getBool fs lookupEnv flagName envName = getBoolWithDefault fs lookupEnv flagName envName False"

section \<open>References\<close>

definition refers :: "string \<Rightarrow> string \<Rightarrow> bool" where
  "refers prefix raw \<longleftrightarrow> has_prefix prefix (to_lower raw)"

definition referred :: "string \<Rightarrow> string \<Rightarrow> string" where
  "referred prefix raw = trim_space (drop (length prefix) raw)"

definition envNamePattern :: "string \<Rightarrow> bool" where
  "envNamePattern s \<longleftrightarrow> s \<noteq> [] \<and> \<not> is_digit (hd s) \<and> list_all (\<lambda>c. alnum c \<or> c = CHR ''_'') s"

text \<open>A variable that has to be set to something other than white space.\<close>

definition required_env :: "lookup_env \<Rightarrow> string \<Rightarrow> goerr + string" where
  "required_env lookupEnv name =
     (if name = [] then Inl (fails ''environment variable name is required'')
      else case lookupEnv name of
        None \<Rightarrow> Inl (fails ''environment variable is not set'')
      | Some value \<Rightarrow>
          if trim_space value = [] then Inl (fails ''environment variable is empty'') else Inr (trim_space value))"

definition resolvePathReference :: "string \<Rightarrow> lookup_env \<Rightarrow> goerr + string" where
  "resolvePathReference rawPath lookupEnv = (let raw = trim_space rawPath in
     if raw = [] then Inr []
     else if refers ''file:'' raw then
       (let path = referred ''file:'' raw in
        if path = [] then Inl (fails ''file path is required'') else Inr path)
     else if \<not> refers ''env:'' raw then Inr raw
     else required_env lookupEnv (referred ''env:'' raw))"

definition trimOneTrailingLineEnding :: "string \<Rightarrow> string" where
  "trimOneTrailingLineEnding value =
     (if has_suffix [CHR 0x0D, CHR 0x0A] value then trim_suffix value [CHR 0x0D, CHR 0x0A]
      else if has_suffix [CHR 0x0A] value then trim_suffix value [CHR 0x0A]
      else if has_suffix [CHR 0x0D] value then trim_suffix value [CHR 0x0D]
      else value)"

definition has_line_break :: "string \<Rightarrow> bool" where
  "has_line_break s \<longleftrightarrow> CHR 0x0D \<in> set s \<or> CHR 0x0A \<in> set s"

definition header_source_value :: "config_env \<Rightarrow> string \<Rightarrow> lookup_env \<Rightarrow> goerr + string" where
  "header_source_value env raw lookupEnv =
     (if refers ''env:'' raw then
        (let name = referred ''env:'' raw in
         if \<not> envNamePattern name then Inl (fails ''environment variable name is invalid'')
         else and_then (or_fail ''environment variable is not set'' (lookupEnv name)) (\<lambda>v. Inr (trim_space v)))
      else if refers ''file:'' raw then
        (let path = referred ''file:'' raw in
         if path = [] then Inl (fails ''file path is required'')
         else and_then (or_fail ''read header value file'' (ce_read env path))
                (\<lambda>data. Inr (trimOneTrailingLineEnding data)))
      else Inr raw)"

definition resolveHeaderValue :: "config_env \<Rightarrow> string \<Rightarrow> lookup_env \<Rightarrow> goerr + string" where
  "resolveHeaderValue env raw lookupEnv =
     and_then (header_source_value env (trim_space raw) lookupEnv) (\<lambda>value.
       if trim_space value = [] then Inl (fails ''resolved value is empty'')
       else if has_line_break value then Inl (fails ''resolved value cannot contain CR or LF'')
       else Inr value)"

definition resolveConfigValueReference :: "config_env \<Rightarrow> string \<Rightarrow> lookup_env \<Rightarrow> goerr + string" where
  "resolveConfigValueReference env rawValue lookupEnv = (let raw = trim_space rawValue in
     if raw = [] then Inl (fails ''cannot be empty'')
     else if refers ''env:'' raw then required_env lookupEnv (referred ''env:'' raw)
     else if refers ''file:'' raw then
       (let path = referred ''file:'' raw in
        if path = [] then Inl (fails ''file path is required'')
        else and_then (or_fail ''read file'' (ce_read env path)) (\<lambda>data.
          if trim_space data = [] then Inl (fails ''file is empty'') else Inr (trim_space data)))
     else Inr raw)"

definition resolveRequiredSecretReference :: "config_env \<Rightarrow> string \<Rightarrow> lookup_env \<Rightarrow> goerr + string" where
  "resolveRequiredSecretReference env rawValue lookupEnv = (let raw = trim_space rawValue in
     if \<not> refers ''env:'' raw \<and> \<not> refers ''file:'' raw then Inl (fails ''value must be prefixed with env: or file:'')
     else and_then (resolveConfigValueReference env raw lookupEnv) (\<lambda>value.
       if trim_space value = [] then Inl (fails ''resolved value is empty'') else Inr value))"

definition getControlPlaneAPIKey :: "config_env \<Rightarrow> string \<Rightarrow> lookup_env \<Rightarrow> goerr + string" where
  "getControlPlaneAPIKey env flagValue lookupEnv =
     (if flagValue \<noteq> [] then
        (if has_prefix ''env:'' flagValue then
           (let envVar = drop 4 flagValue in
            if envVar = [] then Inl (fails ''environment variable name is required after the env: prefix'')
            else case lookupEnv envVar of
              Some val \<Rightarrow> if val = [] then Inl (fails ''environment variable is empty'') else Inr val
            | None \<Rightarrow> Inl (fails ''environment variable is not set''))
         else if has_prefix ''file:'' flagValue then
           (let path = drop 5 flagValue in
            if path = [] then Inl (fails ''file path is required after the file: prefix'')
            else and_then (or_fail ''read control-plane api key file'' (ce_read env path)) (\<lambda>data.
              if trim_space data = [] then Inl (fails ''file is empty'') else Inr (trim_space data)))
         else Inl (fails ''value must be prefixed with env: or file:''))
      else case lookupEnv ''CONTROL_PLANE_API_KEY'' of
        Some val \<Rightarrow> if val = [] then Inl (fails ''control plane API key is required'') else Inr val
      | None \<Rightarrow> (case lookupEnv ''OPENAI_API_KEY'' of
          Some val \<Rightarrow> if val = [] then Inl (fails ''control plane API key is required'') else Inr val
        | None \<Rightarrow> Inr []))"

section \<open>URLs, proxies and certificates\<close>

definition parse_setting_url :: "config_env \<Rightarrow> string \<Rightarrow> goerr + web_url" where
  "parse_setting_url env raw = and_then (or_fail ''parse'' (ce_parse env raw)) (\<lambda>u.
     if u_scheme u = [] \<or> u_host u = [] then Inl (fails ''must include scheme and host'') else Inr u)"

type_synonym proxy_source = string

definition ProxySourceNone :: proxy_source where "ProxySourceNone = ''none''"
definition ProxySourceIgnored :: proxy_source where "ProxySourceIgnored = ''ignored''"

definition parseHTTPProxyURL :: "config_env \<Rightarrow> string \<Rightarrow> goerr + web_url" where
  "parseHTTPProxyURL env raw = and_then (or_fail ''parse'' (ce_parse env raw)) (\<lambda>u.
     if u_scheme u = [] \<or> u_host u = [] then Inl (fails ''proxy URL must include scheme and host'')
     else if \<not> equal_fold (u_scheme u) ''http'' \<and> \<not> equal_fold (u_scheme u) ''https''
     then Inl (fails ''proxy URL scheme must be http or https'')
     else Inr u)"

definition parseProxyReference ::
    "config_env \<Rightarrow> string \<Rightarrow> string \<Rightarrow> lookup_env \<Rightarrow> goerr + web_url \<times> proxy_source" where
  "parseProxyReference env flagName raw lookupEnv = (let trimmed = trim_space raw in
     if trimmed = [] then Inl (fails ''proxy value is required'')
     else if has_prefix ''env:'' trimmed then
       (let envVar = trim_space (drop 4 trimmed) in
        if envVar = [] then Inl (fails ''environment variable name is required after the env: prefix'')
        else case lookupEnv envVar of
          None \<Rightarrow> Inl (fails ''environment variable is not set'')
        | Some value \<Rightarrow>
            if value = [] then Inl (fails ''environment variable is empty'')
            else and_then (parseHTTPProxyURL env value) (\<lambda>u. Inr (u, ''env:'' @ envVar)))
     else and_then (parseHTTPProxyURL env trimmed) (\<lambda>u. Inr (u, flagName)))"

definition proxyFlagEnvName :: "string \<Rightarrow> string" where
  "proxyFlagEnvName flagName =
     (if flagName = ''http-proxy'' then ''TUNNEL_CLIENT_HTTP_PROXY''
      else if flagName = ''control-plane.http-proxy'' then ''CONTROL_PLANE_HTTP_PROXY''
      else if flagName = ''mcp.http-proxy'' then ''MCP_HTTP_PROXY''
      else if flagName = ''harpoon.http-proxy'' then ''HARPOON_HTTP_PROXY''
      else [])"

text \<open>The answer \<open>None\<close> means that neither the flag nor the variable is set.\<close>

definition resolveProxyFlag ::
    "config_env \<Rightarrow> flag_set \<Rightarrow> lookup_env \<Rightarrow> string \<Rightarrow> goerr + (web_url \<times> proxy_source) option" where
  "resolveProxyFlag env fs lookupEnv flagName = (case fs flagName of
     Some f \<Rightarrow>
       (let raw = trim_space (fv_text f) in
        if raw = [] then Inl (fails ''value is required'')
        else and_then (parseProxyReference env flagName raw lookupEnv) (\<lambda>p. Inr (Some p)))
   | None \<Rightarrow>
       (let envName = proxyFlagEnvName flagName in
        if envName = [] then Inr None
        else case lookupEnv envName of
          None \<Rightarrow> Inr None
        | Some raw \<Rightarrow>
            if raw = [] then Inr None
            else and_then (parseProxyReference env flagName raw lookupEnv) (\<lambda>(u, source).
              Inr (Some (u, if has_prefix ''env:'' (to_lower (trim_space raw)) then source else envName)))))"

type_synonym proxy_choice = "(web_url \<times> proxy_source) option"

definition resolveProxyWithFallback ::
    "config_env \<Rightarrow> flag_set \<Rightarrow> lookup_env \<Rightarrow> string \<Rightarrow> proxy_choice \<Rightarrow> goerr + proxy_choice" where
  "resolveProxyWithFallback env fs lookupEnv flagName fallback =
     and_then (resolveProxyFlag env fs lookupEnv flagName) (\<lambda>p. Inr (case p of Some _ \<Rightarrow> p | None \<Rightarrow> fallback))"

record client_certificate =
  cc_cert_path :: string
  cc_key_path :: string
  cc_pair :: string

definition LoadClientCertificate :: "config_env \<Rightarrow> string \<Rightarrow> string \<Rightarrow> goerr + client_certificate option" where
  "LoadClientCertificate env rawCert rawKey = (let certPath = trim_space rawCert; keyPath = trim_space rawKey in
     if certPath = [] \<and> keyPath = [] then Inr None
     else if certPath = [] then Inl (fails ''client certificate path is required when key path is set'')
     else if keyPath = [] then Inl (fails ''client key path is required when certificate path is set'')
     else and_then (or_fail ''load client certificate/key pair'' (ce_pair env certPath keyPath)) (\<lambda>pair.
       Inr (Some \<lparr>cc_cert_path = certPath, cc_key_path = keyPath, cc_pair = pair\<rparr>)))"

definition buildClientCertificate ::
    "config_env \<Rightarrow> string \<Rightarrow> string \<Rightarrow> string \<Rightarrow> string \<Rightarrow> flag_set \<Rightarrow> lookup_env \<Rightarrow> goerr + client_certificate option" where
  "buildClientCertificate env certFlag keyFlag certEnv keyEnv fs lookupEnv =
     and_then (resolvePathReference (firstSet [getValue fs certFlag, envOrDefault lookupEnv certEnv []]) lookupEnv)
       (\<lambda>certPath.
     and_then (resolvePathReference (firstSet [getValue fs keyFlag, envOrDefault lookupEnv keyEnv []]) lookupEnv)
       (\<lambda>keyPath.
     LoadClientCertificate env certPath keyPath))"

definition buildMCPClientCertificate :: "config_env \<Rightarrow> flag_set \<Rightarrow> lookup_env \<Rightarrow> goerr + client_certificate option" where
  "buildMCPClientCertificate env =
     buildClientCertificate env ''mcp.client-cert'' ''mcp.client-key'' ''MCP_CLIENT_CERT'' ''MCP_CLIENT_KEY''"

definition buildControlPlaneClientCertificate ::
    "config_env \<Rightarrow> flag_set \<Rightarrow> lookup_env \<Rightarrow> goerr + client_certificate option" where
  "buildControlPlaneClientCertificate env =
     buildClientCertificate env ''control-plane.client-cert'' ''control-plane.client-key''
       ''CONTROL_PLANE_CLIENT_CERT'' ''CONTROL_PLANE_CLIENT_KEY''"

section \<open>Lists\<close>

text \<open>\<open>strings.FieldsFunc\<close>, and the trimmed entries that the three list formats have in common.\<close>

fun split_by :: "(char \<Rightarrow> bool) \<Rightarrow> string \<Rightarrow> string list" where
  "split_by p [] = [[]]"
| "split_by p (x # xs) =
     (if p x then [] # split_by p xs
      else (case split_by p xs of [] \<Rightarrow> [[x]] | y # ys \<Rightarrow> (x # y) # ys))"

definition FieldsFunc :: "(char \<Rightarrow> bool) \<Rightarrow> string \<Rightarrow> string list" where
  "FieldsFunc p s = filter (\<lambda>f. f \<noteq> []) (split_by p s)"

definition trimmed_fields :: "(char \<Rightarrow> bool) \<Rightarrow> string \<Rightarrow> string list" where
  "trimmed_fields p s = filter (\<lambda>f. f \<noteq> []) (map trim_space (FieldsFunc p s))"

definition splitHeaderList :: "string \<Rightarrow> string list" where
  "splitHeaderList = trimmed_fields (\<lambda>c. c = CHR '','' \<or> c = CHR '';'')"

definition splitMCPEnvEntries :: "string \<Rightarrow> string list" where
  "splitMCPEnvEntries = trimmed_fields (\<lambda>c. c = CHR 0x0A \<or> c = CHR 0x0D)"

definition splitTargetList :: "string \<Rightarrow> string list" where
  "splitTargetList = trimmed_fields (\<lambda>c. c = CHR '';'' \<or> c = CHR 0x0A)"

text \<open>\<open>strings.SplitN\<close> into two parts at the first separator.\<close>

definition cut_at :: "char \<Rightarrow> string \<Rightarrow> (string \<times> string) option" where
  "cut_at c s = (if c \<in> set s then Some (takeWhile (\<lambda>x. x \<noteq> c) s, tl (dropWhile (\<lambda>x. x \<noteq> c) s)) else None)"

fun all_results :: "('a \<Rightarrow> goerr + 'b) \<Rightarrow> 'a list \<Rightarrow> goerr + 'b list" where
  "all_results f [] = Inr []"
| "all_results f (x # xs) = and_then (f x) (\<lambda>y. and_then (all_results f xs) (\<lambda>ys. Inr (y # ys)))"

section \<open>Operator headers\<close>

definition parseHeader :: "string \<Rightarrow> goerr + string \<times> string" where
  "parseHeader raw = (case cut_at (CHR '':'') raw of
     None \<Rightarrow> Inl (fails ''invalid header: expected Key: Value'')
   | Some (k, v) \<Rightarrow>
       (let key = trim_space k; value = trim_space v in
        if key = [] then Inl (fails ''invalid header: key cannot be empty'')
        else if value = [] then Inl (fails ''value cannot be empty'')
        else if has_line_break value then Inl (fails ''value cannot contain CR or LF'')
        else Inr (key, value)))"

definition normalized_headers :: "extra_headers \<Rightarrow> goerr + extra_headers" where
  "normalized_headers headers = (case NormalizeExtraHeaders headers of
     Inl _ \<Rightarrow> Inl (fails ''invalid extra headers'') | Inr hs \<Rightarrow> Inr hs)"

fun parse_headers :: "config_env \<Rightarrow> lookup_env \<Rightarrow> extra_headers \<Rightarrow> string list \<Rightarrow> goerr + extra_headers" where
  "parse_headers env lookupEnv headers [] = Inr headers"
| "parse_headers env lookupEnv headers (v # vs) =
     and_then (parseHeader v) (\<lambda>(key, val).
     and_then (resolveHeaderValue env val lookupEnv) (\<lambda>resolved.
     parse_headers env lookupEnv (AList.update key resolved headers) vs))"

definition parseHeaderList :: "config_env \<Rightarrow> string list \<Rightarrow> lookup_env \<Rightarrow> goerr + extra_headers" where
  "parseHeaderList env raws lookupEnv = and_then (parse_headers env lookupEnv [] raws) normalized_headers"

definition encodedExtraHeaderMapPrefix :: string where
  "encodedExtraHeaderMapPrefix = CHR 0x00 # ''tunnel-client-extra-header-map-v1:''"

definition encodeExtraHeaderMap :: "config_env \<Rightarrow> extra_headers \<Rightarrow> goerr + string" where
  "encodeExtraHeaderMap env headers =
     and_then (normalized_headers headers) (\<lambda>hs. Inr (encodedExtraHeaderMapPrefix @ ce_marshal env hs))"

definition resolve_header :: "config_env \<Rightarrow> lookup_env \<Rightarrow> string \<times> string \<Rightarrow> goerr + string \<times> string" where
  "resolve_header env lookupEnv h =
     and_then (resolveHeaderValue env (snd h) lookupEnv) (\<lambda>resolved. Inr (fst h, resolved))"

definition decodeExtraHeaderMap :: "config_env \<Rightarrow> string \<Rightarrow> lookup_env \<Rightarrow> goerr + extra_headers" where
  "decodeExtraHeaderMap env raw lookupEnv =
     and_then (or_fail ''invalid internal header map''
       (ce_unmarshal env (if has_prefix encodedExtraHeaderMapPrefix raw
                          then drop (length encodedExtraHeaderMapPrefix) raw else raw))) (\<lambda>headers.
     and_then (normalized_headers headers) (\<lambda>normalized.
     and_then (all_results (resolve_header env lookupEnv) normalized) normalized_headers))"

definition buildExtraHeaders ::
    "config_env \<Rightarrow> flag_set \<Rightarrow> lookup_env \<Rightarrow> string \<Rightarrow> string \<Rightarrow> goerr + extra_headers" where
  "buildExtraHeaders env fs lookupEnv flagName envName = (case fs flagName of
     Some f \<Rightarrow> and_then (or_fail ''invalid value'' (fv_array f)) (\<lambda>raw.
       if raw = [] then Inr [] else parseHeaderList env raw lookupEnv)
   | None \<Rightarrow> (case lookupEnv envName of
       None \<Rightarrow> Inr []
     | Some envVal \<Rightarrow>
         if envVal = [] then Inr []
         else if has_prefix encodedExtraHeaderMapPrefix envVal then decodeExtraHeaderMap env envVal lookupEnv
         else if splitHeaderList envVal = [] then Inr []
         else parseHeaderList env (splitHeaderList envVal) lookupEnv))"

definition isReservedControlPlaneHeader :: "string \<Rightarrow> bool" where
  "isReservedControlPlaneHeader key \<longleftrightarrow> to_lower (trim_space key) \<in>
     set [''authorization'', ''accept'', ''user-agent'', ''x-tunnel-client-name'', ''x-tunnel-client-version'',
          ''x-tunnel-client-wire-protocol-version'', ''x-tunnel-mcp-server-info'']"

definition buildControlPlaneExtraHeaders :: "config_env \<Rightarrow> flag_set \<Rightarrow> lookup_env \<Rightarrow> goerr + extra_headers" where
  "buildControlPlaneExtraHeaders env fs lookupEnv =
     and_then (buildExtraHeaders env fs lookupEnv ''control-plane.extra-headers'' ''CONTROL_PLANE_EXTRA_HEADERS'')
       (\<lambda>headers.
         if list_ex (\<lambda>(key, _). isReservedControlPlaneHeader key) headers
         then Inl (fails ''cannot override control-plane authentication or client metadata headers'')
         else Inr headers)"

section \<open>Commands\<close>

text \<open>
  One pass over the text: the words so far, the word that is being built, and
  whether the scan is inside single quotes, inside double quotes, or behind a
  backslash.
\<close>

fun argv_scan :: "string list \<Rightarrow> string \<Rightarrow> bool \<Rightarrow> bool \<Rightarrow> bool \<Rightarrow> string \<Rightarrow> goerr + string list" where
  "argv_scan args builder inSingle inDouble escaped [] =
     (if escaped then Inl (fails ''unterminated escape sequence'')
      else if inSingle \<or> inDouble then Inl (fails ''unterminated quoted string'')
      else Inr (if builder \<noteq> [] then args @ [builder] else args))"
| "argv_scan args builder inSingle inDouble escaped (ch # rest) =
     (if escaped then argv_scan args (builder @ [ch]) inSingle inDouble False rest
      else if inSingle then
        (if ch = CHR 0x27 then argv_scan args builder False inDouble False rest
         else argv_scan args (builder @ [ch]) True inDouble False rest)
      else if inDouble then
        (if ch = CHR 0x5C then argv_scan args builder False True True rest
         else if ch = CHR 0x22 then argv_scan args builder False False False rest
         else argv_scan args (builder @ [ch]) False True False rest)
      else if ch = CHR 0x5C then argv_scan args builder False False True rest
      else if ch = CHR 0x27 then argv_scan args builder True False False rest
      else if ch = CHR 0x22 then argv_scan args builder False True False rest
      else if ch \<in> {CHR '' '', CHR 0x09, CHR 0x0A, CHR 0x0D} then
        (if builder \<noteq> [] then argv_scan (args @ [builder]) [] False False False rest
         else argv_scan args builder False False False rest)
      else argv_scan args (builder @ [ch]) False False False rest)"

definition parseCommandArgv :: "string \<Rightarrow> goerr + string list" where
  "parseCommandArgv raw = (let input = trim_space raw in
     if input = [] then Inl (fails ''command is empty'')
     else and_then (argv_scan [] [] False False False input) (\<lambda>args.
       if args = [] then Inl (fails ''command is empty'') else Inr args))"

section \<open>Request identifiers\<close>

definition surface_bit :: "string \<Rightarrow> request_id_forwarding option" where
  "surface_bit name =
     (if name = ''mcp'' then Some ForwardRequestIDMCP
      else if name = ''harpoon'' then Some ForwardRequestIDHarpoon
      else if name = ''oauth'' then Some ForwardRequestIDOAuth
      else if name = ''none'' then Some ForwardRequestIDNone
      else None)"

fun add_surfaces :: "request_id_forwarding \<Rightarrow> string list \<Rightarrow> goerr + request_id_forwarding" where
  "add_surfaces surfaces [] = Inr surfaces"
| "add_surfaces surfaces (name # names) =
     and_then (or_fail ''forward_request_id has an empty or unknown surface'' (surface_bit (trim_space name)))
       (\<lambda>b. add_surfaces (surfaces OR b) names)"

definition parseRequestIDForwarding :: "string \<Rightarrow> goerr + request_id_forwarding" where
  "parseRequestIDForwarding raw =
     (if raw = [] then Inl (fails ''forward_request_id must contain mcp, harpoon, oauth, or none'')
      else and_then (add_surfaces 0 (split_on (CHR '','') raw)) (\<lambda>surfaces.
        if surfaces AND ForwardRequestIDNone \<noteq> 0 \<and> surfaces \<noteq> ForwardRequestIDNone
        then Inl (fails ''forward_request_id cannot combine none with another surface'')
        else Inr surfaces))"

definition resolveRequestIDForwarding :: "flag_set \<Rightarrow> lookup_env \<Rightarrow> goerr + request_id_forwarding" where
  "resolveRequestIDForwarding fs lookupEnv = (case fs ''forward-request-id'' of
     Some f \<Rightarrow> parseRequestIDForwarding (fv_text f)
   | None \<Rightarrow> (case lookupEnv ''FORWARD_REQUEST_ID'' of
       Some raw \<Rightarrow> parseRequestIDForwarding raw
     | None \<Rightarrow> Inr ForwardRequestIDMCP))"

definition AllowsHarpoon :: "request_id_forwarding \<Rightarrow> bool" where
  "AllowsHarpoon surfaces \<longleftrightarrow> surfaces AND ForwardRequestIDNone = 0 \<and> surfaces AND ForwardRequestIDHarpoon \<noteq> 0"

definition AllowsOAuth :: "request_id_forwarding \<Rightarrow> bool" where
  "AllowsOAuth surfaces \<longleftrightarrow> surfaces AND ForwardRequestIDNone = 0 \<and> surfaces AND ForwardRequestIDOAuth \<noteq> 0"

section \<open>Operator headers are valid and reach the wire\<close>

lemma or_fail_Inr [policy_simps]: "or_fail text x = Inr y \<longleftrightarrow> x = Some y"
  by (cases x) (auto simp: or_fail_def)

definition extra_headers_ok :: "extra_headers \<Rightarrow> bool" where
  "extra_headers_ok hs \<longleftrightarrow> distinct (map fst hs) \<and>
     list_all (\<lambda>(k, v). validHTTPHeaderFieldName k \<and> canonical_header_key k = k \<and> validHTTPHeaderFieldValue v) hs"

lemma canonical_chars_bytes: "list_all header_name_byte k \<Longrightarrow> list_all header_name_byte (canonical_chars up k)"
  by (induction up k rule: canonical_chars.induct)
    (auto simp: header_name_byte_def Let_def upper_char_def lower_char_def)

lemma of_char_upper:
  "(of_char (upper_char c) :: nat) =
     (if 97 \<le> (of_char c :: nat) \<and> (of_char c :: nat) \<le> 122 then of_char c - 32 else of_char c)"
  by (auto simp: upper_char_def)

lemma dash_case: "lower_char c = CHR ''-'' \<longleftrightarrow> c = CHR ''-''" "upper_char c = CHR ''-'' \<longleftrightarrow> c = CHR ''-''"
proof -
  have dash: "d = CHR ''-'' \<longleftrightarrow> (of_char d :: nat) = 45" for d
    using of_char_eq_iff [of d "CHR ''-''", where 'a = nat] by simp
  show "lower_char c = CHR ''-'' \<longleftrightarrow> c = CHR ''-''" "upper_char c = CHR ''-'' \<longleftrightarrow> c = CHR ''-''"
    unfolding dash of_char_lower of_char_upper by auto
qed

lemma canonical_chars_idem: "canonical_chars up (canonical_chars up k) = canonical_chars up k"
proof (induction up k rule: canonical_chars.induct)
  case (2 up c cs)
  have "upper_char (upper_char c) = upper_char c" by (auto simp: upper_char_def)
  with 2 show ?case by (simp add: lower_char_idem dash_case)
qed simp

lemma canonical_valid:
  assumes "validHTTPHeaderFieldName k"
  shows "validHTTPHeaderFieldName (canonical_header_key k)" "canonical_header_key (canonical_header_key k) = canonical_header_key k"
proof -
  have k: "list_all header_name_byte k" "k \<noteq> []" using assms by (auto simp: validHTTPHeaderFieldName_def)
  then have "canonical_chars True k \<noteq> []" by (cases k) auto
  with k show "validHTTPHeaderFieldName (canonical_header_key k)"
      "canonical_header_key (canonical_header_key k) = canonical_header_key k"
    by (simp_all add: canonical_header_key_def validHTTPHeaderFieldName_def canonical_chars_bytes canonical_chars_idem)
qed

lemma normalize_extra_ok: "normalize_extra acc hs = Inr out \<Longrightarrow> extra_headers_ok acc \<Longrightarrow> extra_headers_ok out"
proof (induction acc hs rule: normalize_extra.induct)
  case (2 acc name v hs)
  show ?case
  proof (cases "map_of acc (canonical_header_key name)")
    case None
    then have "canonical_header_key name \<notin> fst ` set acc" by (simp add: map_of_eq_None_iff)
    with 2 None show ?thesis
      by (auto simp: extra_headers_ok_def Let_def canonical_valid split: if_splits)
  next
    case Some
    with 2 show ?thesis by (auto simp: Let_def split: if_splits)
  qed
qed simp

lemma normalized_ok: "normalized_headers hs = Inr out \<Longrightarrow> extra_headers_ok out"
  using normalize_extra_ok [of "[]" hs]
  by (auto simp: normalized_headers_def NormalizeExtraHeaders_def extra_headers_ok_def split: sum.splits)

lemma buildExtraHeaders_ok:
  assumes "buildExtraHeaders env fs lookupEnv flagName envName = Inr hs"
  shows "extra_headers_ok hs"
proof -
  have "extra_headers_ok []" by (simp add: extra_headers_ok_def)
  with assms show ?thesis
    by (auto simp: buildExtraHeaders_def parseHeaderList_def decodeExtraHeaderMap_def policy_simps
        intro: normalized_ok split: option.splits if_splits)
qed

definition array_flag :: "string list \<Rightarrow> flag_value" where
  "array_flag vs = \<lparr>fv_text = [], fv_array = Some vs, fv_duration = None, fv_bool = None\<rparr>"

definition text_flag :: "string \<Rightarrow> flag_value" where
  "text_flag v = \<lparr>fv_text = v, fv_array = None, fv_duration = None, fv_bool = None\<rparr>"

text \<open>A world with one URL, one duration and no files, for the examples.\<close>

definition example_mcp_url :: web_url where
  "example_mcp_url = \<lparr>u_scheme = ''https'', u_host = ''mcp.example'', u_path = ''/mcp'', u_decoded = ''/mcp'',
     u_opaque = [], u_user = None, u_query = [], u_force_query = False, u_fragment = []\<rparr>"

definition example_config_env :: config_env where
  "example_config_env = \<lparr>ce_parse = (\<lambda>s. if s = URL_String example_mcp_url then Some example_mcp_url else None),
     ce_duration = (\<lambda>s. if s = ''10m0s'' then Some (seconds 600) else if s = ''0s'' then Some 0 else None),
     ce_read = (\<lambda>_. None), ce_pair = (\<lambda>_ _. None), ce_regexp = (\<lambda>_. True), ce_addr = (\<lambda>_. None),
     ce_marshal = (\<lambda>_. []), ce_unmarshal = (\<lambda>_. None), ce_identity = (\<lambda>_ _. nil_err),
     ce_level = (\<lambda>s. if s = ''info'' then Some 0 else None), ce_bundle = (\<lambda>_. False)\<rparr>"

lemma applyExtraHeaders_sent:
  assumes "distinct (map fst hs)" "list_all (\<lambda>(k, _). canonical_header_key k = k) hs"
    and "(k, v) \<in> set hs" "\<not> isProtectedControlPlaneHeader k"
  shows "header_get (applyExtraHeaders hs h) k = v"
  using assms
proof (induction hs rule: rev_induct)
  case (snoc x hs)
  obtain k' v' where x: "x = (k', v')" by (cases x)
  show ?case
  proof (cases "k = k'")
    case True
    then have "v = v'" using snoc.prems by (force simp: x)
    with True snoc.prems show ?thesis by (simp add: x applyExtraHeaders_def text_simps)
  next
    case False
    then have "canonical_header_key k \<noteq> canonical_header_key k'"
      using snoc.prems by (fastforce simp: x list_all_iff)
    moreover have "header_get (applyExtraHeaders hs h) k = v" using snoc False by (auto simp: x)
    ultimately show ?thesis by (simp add: x applyExtraHeaders_def text_simps)
  qed
qed simp



section \<open>The words of a command\<close>

text \<open>A word in double quotes, as an operator writes it.\<close>

definition quote_bytes :: "string \<Rightarrow> string" where
  "quote_bytes a = concat (map (\<lambda>c. if c = CHR 0x22 \<or> c = CHR 0x5C then [CHR 0x5C, c] else [c]) a)"

definition quote_word :: "string \<Rightarrow> string" where
  "quote_word a = CHR 0x22 # quote_bytes a @ [CHR 0x22]"

lemma scan_quoted:
  "argv_scan args b False True False (quote_bytes a @ CHR 0x22 # rest) = argv_scan args (b @ a) False False False rest"
  by (induction a arbitrary: b) (auto simp: quote_bytes_def)

lemma scan_words:
  "argv_scan args [] False False False (join_by '' '' (map quote_word ws)) = Inr (args @ filter (\<lambda>w. w \<noteq> []) ws)"
proof (induction ws arbitrary: args)
  case (Cons w ws)
  show ?case
  proof (cases ws)
    case Nil
    then show ?thesis using scan_quoted [of args "[]" w "[]"] by (simp add: quote_word_def)
  next
    case (Cons w' ws')
    have "join_by '' '' (map quote_word (w # ws)) = quote_word w @ '' '' @ join_by '' '' (map quote_word ws)"
      by (simp add: Cons)
    then have "argv_scan args [] False False False (join_by '' '' (map quote_word (w # ws))) =
        argv_scan args w False False False ('' '' @ join_by '' '' (map quote_word ws))"
      using scan_quoted [of args "[]" w "'' '' @ join_by '' '' (map quote_word ws)"] by (simp add: quote_word_def)
    then show ?thesis by (simp add: Cons.IH)
  qed
qed simp

lemma trim_by_ends: "s \<noteq> [] \<Longrightarrow> \<not> p (hd s) \<Longrightarrow> \<not> p (last s) \<Longrightarrow> trim_by p s = s"
proof -
  assume "s \<noteq> []" "\<not> p (hd s)" "\<not> p (last s)"
  then have "dropWhile p s = s" "dropWhile p (rev s) = rev s"
    by (simp_all add: dropWhile_eq_self_iff hd_rev)
  then show ?thesis by (simp add: trim_by_def)
qed

lemma join_words_ends:
  "ws \<noteq> [] \<Longrightarrow> join_by '' '' (map quote_word ws) \<noteq> [] \<and> hd (join_by '' '' (map quote_word ws)) = CHR 0x22 \<and>
     last (join_by '' '' (map quote_word ws)) = CHR 0x22"
proof (induction ws)
  case (Cons w ws)
  then show ?case by (cases ws) (auto simp: quote_word_def)
qed simp

text \<open>
  C30. The splitter of a command undoes quoting: a command line of words in double
  quotes is split into these words again, whatever bytes they hold, except that
  the splitter drops empty words.
\<close>

theorem quoted_words_split:
  "parseCommandArgv (join_by '' '' (map quote_word ws)) =
     (if filter (\<lambda>w. w \<noteq> []) ws = [] then Inl (fails ''command is empty'') else Inr (filter (\<lambda>w. w \<noteq> []) ws))"
proof (cases "ws = []")
  case False
  from join_words_ends [OF this] have "trim_space (join_by '' '' (map quote_word ws)) = join_by '' '' (map quote_word ws)"
    unfolding trim_space_def by (intro trim_by_ends) (auto simp: is_space_def)
  with join_words_ends [OF False] show ?thesis
    by (simp add: parseCommandArgv_def scan_words and_then_def Let_def)
qed (simp add: parseCommandArgv_def trim_space_def trim_by_def)

lemma scan_nonempty:
  "argv_scan args b s d e cs = Inr ws \<Longrightarrow> [] \<notin> set args \<Longrightarrow> [] \<notin> set ws"
  by (induction args b s d e cs rule: argv_scan.induct) (auto split: if_splits)

lemma argv_ok: "parseCommandArgv raw = Inr ws \<Longrightarrow> ws \<noteq> [] \<and> [] \<notin> set ws"
  using scan_nonempty by (auto simp: parseCommandArgv_def policy_simps Let_def split: if_splits)

end
