(* ===== verification/ChannelSettings.thy ===== *)
theory ChannelSettings
  imports ConfigValues
begin

text \<open>
  The routing table of MCP channels and the origins trusted for OAuth
  (\<open>src/pkg/runtimeconfig/config.go\<close>, \<open>oauth_origins.go\<close>): entries for HTTP
  servers and for commands become bindings, one for each channel, and
  \<open>buildMCPConfig\<close> gives each binding its certificate and its proxy.
\<close>

section \<open>Bindings\<close>

record mcp_binding =
  mb_channel :: channel
  mb_kind :: transport_kind
  mb_server_url :: "web_url option"
  mb_socket :: string
  mb_command :: string
  mb_args :: "string list"
  mb_certificate :: "client_certificate option"
  mb_proxy :: "web_url option"
  mb_proxy_source :: proxy_source

definition new_binding :: "channel \<Rightarrow> transport_kind \<Rightarrow> mcp_binding" where
  "new_binding channel kind = \<lparr>mb_channel = channel, mb_kind = kind, mb_server_url = None, mb_socket = [],
     mb_command = [], mb_args = [], mb_certificate = None, mb_proxy = None, mb_proxy_source = []\<rparr>"

definition buildMCPBinding :: "config_env \<Rightarrow> channel \<Rightarrow> transport_kind \<Rightarrow> string \<Rightarrow> goerr + mcp_binding" where
  "buildMCPBinding env channel kind rawValue = (let binding = new_binding channel kind in
     if kind = MCPTransportHTTPStreamable then
       and_then (parse_setting_url env rawValue) (\<lambda>u. Inr (binding\<lparr>mb_server_url := Some u\<rparr>))
     else if kind = MCPTransportStdio then
       and_then (parseCommandArgv rawValue) (\<lambda>args. Inr (binding\<lparr>mb_command := rawValue, mb_args := args\<rparr>))
     else Inl (fails ''unsupported mcp transport''))"

definition isQualifiedMCPEntry :: "string \<Rightarrow> bool" where
  "isQualifiedMCPEntry entry \<longleftrightarrow> list_ex (\<lambda>p. has_prefix p (to_lower (trim_space entry)))
     [''url='', ''command='', ''channel='', ''unix-socket='', ''http-proxy='', ''client-cert='', ''client-key='']"

definition rejectUnsupportedQualifiedStdioSegments :: "string \<Rightarrow> goerr" where
  "rejectUnsupportedQualifiedStdioSegments rawCommand =
     fail_if (list_ex (\<lambda>key. contains ('','' @ key @ ''='') (to_lower rawCommand))
       [''http-proxy'', ''url'', ''unix-socket'', ''client-cert'', ''client-key'']) ''unsupported key''"

text \<open>\<open>strings.LastIndex\<close>: the text before and after the last occurrence.\<close>

fun cut_last :: "string \<Rightarrow> string \<Rightarrow> (string \<times> string) option" where
  "cut_last sep [] = None"
| "cut_last sep (c # s) = (case cut_last sep s of
     Some (a, b) \<Rightarrow> Some (c # a, b)
   | None \<Rightarrow> if has_prefix sep (c # s) then Some ([], drop (length sep) (c # s)) else None)"

definition stdio_parts :: "string \<Rightarrow> goerr + string \<times> string" where
  "stdio_parts trimmed =
     (if has_prefix ''channel='' trimmed then
        (case cut_at (CHR '','') trimmed of
           None \<Rightarrow> Inl (fails ''missing command'')
         | Some (before, after) \<Rightarrow>
             (let rest = trim_space after in
              if \<not> has_prefix ''command='' rest then Inl (fails ''expected command=...'')
              else Inr (trim_space (drop 8 before), trim_space (drop 8 rest))))
      else if has_prefix ''command='' trimmed then
        (let rawCommand = trim_space (drop 8 trimmed) in
         case cut_last '',channel='' rawCommand of
           Some (command, name) \<Rightarrow> Inr (trim_space name, trim_space command)
         | None \<Rightarrow> Inr ([], rawCommand))
      else Inl (fails ''expected channel=... or command=...''))"

definition normalized_channel :: "string \<Rightarrow> goerr + channel" where
  "normalized_channel name = or_fail ''invalid channel'' (NormalizeChannel name)"

definition parseQualifiedStdioMCPBindingEntry :: "config_env \<Rightarrow> string \<Rightarrow> goerr + mcp_binding" where
  "parseQualifiedStdioMCPBindingEntry env entry =
     and_then (stdio_parts (trim_space entry)) (\<lambda>(name, rawCommand).
       let channelName = (if name = [] then ''main'' else name) in
       unless_err (fail_if (rawCommand = []) ''missing command'') (
       unless_err (rejectUnsupportedQualifiedStdioSegments rawCommand) (
       and_then (normalized_channel channelName) (\<lambda>channel.
       buildMCPBinding env channel MCPTransportStdio rawCommand))))"

text \<open>The fields of an entry, \<open>key=value\<close> between commas; a later field replaces an earlier one.\<close>

fun entry_fields :: "(string \<times> string) list \<Rightarrow> string list \<Rightarrow> goerr + (string \<times> string) list" where
  "entry_fields acc [] = Inr acc"
| "entry_fields acc (part # parts) =
     (if trim_space part = [] then entry_fields acc parts
      else case cut_at (CHR ''='') (trim_space part) of
        None \<Rightarrow> Inl (fails ''expected key=value'')
      | Some (k, v) \<Rightarrow>
          if trim_space k = [] \<or> trim_space v = [] then Inl (fails ''empty key or value'')
          else entry_fields (AList.update (trim_space k) (trim_space v) acc) parts)"

definition entry_certificate ::
    "config_env \<Rightarrow> (string \<times> string) list \<Rightarrow> lookup_env \<Rightarrow> goerr + client_certificate option" where
  "entry_certificate env kvs lookupEnv = (case map_of kvs ''client-cert'' of
     Some rawClientCert \<Rightarrow>
       and_then (resolvePathReference rawClientCert lookupEnv) (\<lambda>certPath.
       and_then (or_fail ''missing client-key'' (map_of kvs ''client-key'')) (\<lambda>rawClientKey.
       and_then (resolvePathReference rawClientKey lookupEnv) (\<lambda>keyPath.
       LoadClientCertificate env certPath keyPath)))
   | None \<Rightarrow> unless_err (fail_if (map_of kvs ''client-key'' \<noteq> None) ''missing client-cert'') (Inr None))"

definition http_entry :: "config_env \<Rightarrow> (string \<times> string) list \<Rightarrow> lookup_env \<Rightarrow> goerr + mcp_binding" where
  "http_entry env kvs lookupEnv =
     and_then (normalized_channel (case map_of kvs ''channel'' of None \<Rightarrow> [] | Some c \<Rightarrow> c)) (\<lambda>channel.
     and_then (or_fail ''missing url'' (map_of kvs ''url'')) (\<lambda>rawURL.
     and_then (buildMCPBinding env channel MCPTransportHTTPStreamable rawURL) (\<lambda>binding.
     and_then (case map_of kvs ''http-proxy'' of
         None \<Rightarrow> Inr binding
       | Some rawProxy \<Rightarrow> and_then (parseProxyReference env ''mcp.server-url'' rawProxy lookupEnv)
           (\<lambda>(u, source). Inr (binding\<lparr>mb_proxy := Some u, mb_proxy_source := source\<rparr>))) (\<lambda>binding.
     and_then (case map_of kvs ''unix-socket'' of
         None \<Rightarrow> Inr binding
       | Some rawSocket \<Rightarrow> and_then (resolvePathReference rawSocket lookupEnv)
           (\<lambda>path. Inr (binding\<lparr>mb_socket := path\<rparr>))) (\<lambda>binding.
     and_then (entry_certificate env kvs lookupEnv) (\<lambda>certificate.
     Inr (binding\<lparr>mb_certificate := certificate\<rparr>)))))))"

text \<open>The two callers pass the kinds of HTTP and of stdio entries.\<close>

definition http_keys :: "string list" where
  "http_keys = [''channel'', ''url'', ''unix-socket'', ''http-proxy'', ''client-cert'', ''client-key'']"

definition parseMCPBindingEntry :: "config_env \<Rightarrow> string \<Rightarrow> transport_kind \<Rightarrow> lookup_env \<Rightarrow> goerr + mcp_binding" where
  "parseMCPBindingEntry env entry kind lookupEnv =
     (if trim_space entry = [] then Inl (fails ''entry is empty'')
      else if \<not> isQualifiedMCPEntry entry then
        and_then (normalized_channel []) (\<lambda>channel. buildMCPBinding env channel kind entry)
      else if kind = MCPTransportStdio then parseQualifiedStdioMCPBindingEntry env entry
      else and_then (entry_fields [] (split_on (CHR '','') entry)) (\<lambda>kvs.
        if \<not> fst ` set kvs \<subseteq> set http_keys then Inl (fails ''unsupported key'')
        else http_entry env kvs lookupEnv))"

definition addBinding :: "mcp_binding list \<Rightarrow> mcp_binding \<Rightarrow> goerr + mcp_binding list" where
  "addBinding bindings binding = (let canonical = Canonical (mb_channel binding) in
     if canonical = [] then Inl (fails ''channel name is empty'')
     else if canonical = ChannelHarpoon then Inl (fails ''channel is reserved'')
     else if canonical \<in> (\<lambda>b. Canonical (mb_channel b)) ` set bindings then Inl (fails ''duplicate channel'')
     else Inr (bindings @ [binding]))"

fun add_entries ::
    "config_env \<Rightarrow> transport_kind \<Rightarrow> lookup_env \<Rightarrow> string list \<Rightarrow> mcp_binding list \<Rightarrow> goerr + mcp_binding list" where
  "add_entries env kind lookupEnv [] bindings = Inr bindings"
| "add_entries env kind lookupEnv (entry # entries) bindings =
     and_then (parseMCPBindingEntry env entry kind lookupEnv) (\<lambda>binding.
     and_then (addBinding bindings binding) (add_entries env kind lookupEnv entries))"

definition parseMCPChannelBindings ::
    "config_env \<Rightarrow> string list \<Rightarrow> string list \<Rightarrow> lookup_env \<Rightarrow> goerr + mcp_binding list" where
  "parseMCPChannelBindings env commandEntries serverEntries lookupEnv =
     and_then (add_entries env MCPTransportHTTPStreamable lookupEnv serverEntries [])
       (add_entries env MCPTransportStdio lookupEnv commandEntries)"

definition resolveMCPEntries :: "flag_set \<Rightarrow> lookup_env \<Rightarrow> string \<Rightarrow> string \<Rightarrow> goerr + string list" where
  "resolveMCPEntries fs lookupEnv flagName envKey = (case fs flagName of
     Some f \<Rightarrow> or_fail ''invalid value'' (fv_array f)
   | None \<Rightarrow> (case lookupEnv envKey of
       Some envVal \<Rightarrow> Inr (if envVal \<noteq> [] then splitMCPEnvEntries envVal else [])
     | None \<Rightarrow> Inr []))"

definition validateMCPBindingTransport :: "mcp_binding \<Rightarrow> goerr" where
  "validateMCPBindingTransport binding =
     (if mb_kind binding = MCPTransportHTTPStreamable then
        fail_if (mb_socket binding \<noteq> [] \<and> mb_proxy binding \<noteq> None) ''unix-socket cannot be combined with http-proxy''
      else if mb_proxy binding \<noteq> None then fails ''http-proxy not supported''
      else if mb_socket binding \<noteq> [] then fails ''unix-socket not supported''
      else fail_if (mb_certificate binding \<noteq> None) ''client certificates are not supported'')"

section \<open>Trusted origins\<close>

text \<open>
  \<open>RawPath\<close> is set when the path was not written in its default encoding; for
  the paths that remain here this is a path whose escaped form differs from it.
\<close>

definition parseOAuthTrustedOrigin :: "config_env \<Rightarrow> string \<Rightarrow> goerr + web_url" where
  "parseOAuthTrustedOrigin env raw = and_then (or_fail ''invalid origin'' (ce_parse env raw)) (\<lambda>u.
     let hostname = url_Hostname (url.truncate u); port = url_Port (url.truncate u); bracket = has_prefix ''['' (u_host u) in
     if u_scheme u \<notin> {''http'', ''https''} \<or> hostname = [] \<or> u_opaque u \<noteq> [] \<or> u_user u \<noteq> None \<or>
        u_decoded u \<notin> {[], ''/''} \<or> u_path u \<noteq> u_decoded u \<or> u_query u \<noteq> [] \<or> u_force_query u \<or> CHR ''#'' \<in> set raw
     then Inl (fails ''expected an absolute HTTP(S) origin'')
     else if (CHR '':'' \<in> set hostname \<or> bracket) \<and>
        (case ce_addr env hostname of None \<Rightarrow> True | Some (six, _) \<Rightarrow> \<not> six \<or> \<not> bracket)
     then Inl (fails ''origin IPv6 host must use a valid bracketed address'')
     else if has_suffix '':'' (u_host u) then Inl (fails ''origin port must not be empty'')
     else if port \<noteq> [] \<and> (case Atoi port of None \<Rightarrow> True | Some n \<Rightarrow> n < 1 \<or> 65535 < n)
     then Inl (fails ''origin port must be between 1 and 65535'')
     else Inr (u\<lparr>u_path := [], u_decoded := []\<rparr>))"

definition parseOAuthForwardOrigin :: "config_env \<Rightarrow> string \<Rightarrow> goerr + web_url" where
  "parseOAuthForwardOrigin env raw = and_then (parseOAuthTrustedOrigin env raw) (\<lambda>origin.
     if u_scheme origin \<noteq> ''https'' then Inl (fails ''OAuth forwarding origin must use HTTPS'')
     else if (case ce_addr env (url_Hostname (url.truncate origin)) of None \<Rightarrow> False | Some (_, zone) \<Rightarrow> zone \<noteq> [])
     then Inl (fails ''OAuth forwarding origin must not contain an IPv6 zone identifier'')
     else Inr origin)"

definition buildOAuthTrustedOrigins :: "config_env \<Rightarrow> flag_set \<Rightarrow> lookup_env \<Rightarrow> goerr + web_url list" where
  "buildOAuthTrustedOrigins env fs lookupEnv =
     and_then (resolveMCPEntries fs lookupEnv ''mcp.oauth-trusted-origin'' ''MCP_OAUTH_TRUSTED_ORIGINS'')
       (all_results (parseOAuthTrustedOrigin env))"

definition buildOAuthForwardOrigins :: "config_env \<Rightarrow> flag_set \<Rightarrow> lookup_env \<Rightarrow> goerr + web_url list" where
  "buildOAuthForwardOrigins env fs lookupEnv =
     and_then (resolveMCPEntries fs lookupEnv ''harpoon.oauth-forward-origin'' ''HARPOON_OAUTH_FORWARD_ORIGINS'')
       (all_results (parseOAuthForwardOrigin env))"

section \<open>The MCP configuration\<close>

record mcp_settings =
  ms_server_url :: "web_url option"
  ms_socket :: string
  ms_command :: string
  ms_args :: "string list"
  ms_kind :: transport_kind
  ms_certificate :: "client_certificate option"
  ms_bindings :: "mcp_binding list"
  ms_allow_no_main :: bool
  ms_startup_wait :: duration
  ms_send_initialized :: bool
  ms_failure_policy :: string
  ms_forward_trace :: bool
  ms_forward_request_id :: request_id_forwarding
  ms_trace_context :: bool
  ms_max_ttl :: duration
  ms_max_concurrent :: int
  ms_extra :: extra_headers
  ms_discovery_extra :: extra_headers
  ms_trusted :: "web_url list"
  ms_proxy :: proxy_choice

definition ChannelBindingFor :: "mcp_binding list \<Rightarrow> channel \<Rightarrow> mcp_binding option" where
  "ChannelBindingFor bindings channel =
     (case filter (\<lambda>b. Canonical (mb_channel b) = Canonical channel) bindings of [] \<Rightarrow> None | b # _ \<Rightarrow> Some b)"

definition MainChannelBinding :: "mcp_binding list \<Rightarrow> mcp_binding option" where
  "MainChannelBinding bindings = ChannelBindingFor bindings DefaultChannel"

definition parseStdioFailurePolicy :: "string \<Rightarrow> goerr + string" where
  "parseStdioFailurePolicy raw =
     (if raw \<in> {''restart'', ''exit''} then Inr raw else Inl (fails ''must be restart or exit''))"

definition resolveStdioFailurePolicy :: "flag_set \<Rightarrow> lookup_env \<Rightarrow> goerr + string" where
  "resolveStdioFailurePolicy fs lookupEnv = (case fs ''mcp.stdio-failure-policy'' of
     Some f \<Rightarrow> parseStdioFailurePolicy (fv_text f)
   | None \<Rightarrow> (case lookupEnv ''MCP_STDIO_FAILURE_POLICY'' of
       Some raw \<Rightarrow> if raw \<noteq> [] then parseStdioFailurePolicy raw else Inr ''restart''
     | None \<Rightarrow> Inr ''restart''))"

text \<open>The loopback server that the full client puts in front of the main channel.\<close>

fun replace_main :: "mcp_binding \<Rightarrow> mcp_binding list \<Rightarrow> goerr + mcp_binding list" where
  "replace_main main_binding [] = Inr [main_binding]"
| "replace_main main_binding (b # bs) =
     (if Canonical (mb_channel b) = DefaultChannel
      then unless_err (validateMCPBindingTransport b) (Inr (main_binding # bs))
      else and_then (replace_main main_binding bs) (\<lambda>bs'. Inr (b # bs')))"

definition override_main :: "config_env \<Rightarrow> string \<Rightarrow> mcp_binding list \<Rightarrow> goerr + mcp_binding list" where
  "override_main env mainServerURL bindings =
     (if mainServerURL = [] then Inr bindings
      else and_then (buildMCPBinding env DefaultChannel MCPTransportHTTPStreamable mainServerURL)
        (\<lambda>main_binding. replace_main main_binding bindings))"

definition positive_count :: "flag_set \<Rightarrow> lookup_env \<Rightarrow> string \<Rightarrow> string \<Rightarrow> int \<Rightarrow> goerr + int" where
  "positive_count fs lookupEnv flagName envName defaultValue =
     and_then (getInt fs lookupEnv flagName envName defaultValue) (\<lambda>val.
       if val \<le> 0 then Inl (fails (flagName @ '' must be greater than zero'')) else Inr val)"

definition duration_setting ::
    "config_env \<Rightarrow> flag_set \<Rightarrow> lookup_env \<Rightarrow> string \<Rightarrow> string \<Rightarrow> string \<Rightarrow> goerr + duration" where
  "duration_setting env fs lookupEnv flagName envName fallback =
     or_fail (''invalid '' @ flagName) (ce_duration env (firstSet [getValue fs flagName, envOrDefault lookupEnv envName fallback]))"

text \<open>What the loop over the bindings does with one of them.\<close>

definition finish_binding ::
    "client_certificate option \<Rightarrow> proxy_choice \<Rightarrow> proxy_choice \<Rightarrow> mcp_binding \<Rightarrow> goerr + mcp_binding" where
  "finish_binding certificate mcpProxy globalProxy b =
     unless_err (validateMCPBindingTransport b) (
       if mb_kind b \<noteq> MCPTransportHTTPStreamable then Inr (b\<lparr>mb_proxy_source := ProxySourceIgnored\<rparr>)
       else
         let b = (if mb_certificate b = None then b\<lparr>mb_certificate := certificate\<rparr> else b) in
         Inr (if mb_socket b \<noteq> [] then b\<lparr>mb_proxy_source := ProxySourceIgnored\<rparr>
              else if mb_proxy b \<noteq> None then
                (if mb_proxy_source b = [] then b\<lparr>mb_proxy_source := ''mcp.server-url''\<rparr> else b)
              else case mcpProxy of
                Some (u, source) \<Rightarrow> b\<lparr>mb_proxy := Some u, mb_proxy_source := source\<rparr>
              | None \<Rightarrow> (case globalProxy of
                  Some (u, source) \<Rightarrow> b\<lparr>mb_proxy := Some u, mb_proxy_source := source\<rparr>
                | None \<Rightarrow> b\<lparr>mb_proxy_source := ProxySourceNone\<rparr>)))"

text \<open>The fields of older callers repeat the binding of the main channel.\<close>

definition project_main :: "mcp_settings \<Rightarrow> mcp_settings" where
  "project_main cfg = (case MainChannelBinding (ms_bindings cfg) of
     None \<Rightarrow> cfg
   | Some b \<Rightarrow> cfg\<lparr>ms_server_url := mb_server_url b, ms_socket := mb_socket b, ms_command := mb_command b,
       ms_args := mb_args b, ms_kind := mb_kind b, ms_certificate := mb_certificate b\<rparr>)"

definition buildMCPConfig ::
    "config_env \<Rightarrow> flag_set \<Rightarrow> lookup_env \<Rightarrow> proxy_choice \<Rightarrow> string \<Rightarrow> goerr + mcp_settings" where
  "buildMCPConfig env fs lookupEnv globalProxy mainServerURL =
     and_then (resolveMCPEntries fs lookupEnv ''mcp.command'' ''MCP_COMMAND'') (\<lambda>commandEntries.
     and_then (resolveMCPEntries fs lookupEnv ''mcp.server-url'' ''MCP_SERVER_URL'') (\<lambda>serverEntries.
     and_then (parseMCPChannelBindings env commandEntries serverEntries lookupEnv) (\<lambda>entries.
     and_then (override_main env mainServerURL entries) (\<lambda>bindings.
     and_then (buildMCPClientCertificate env fs lookupEnv) (\<lambda>certificate.
     and_then (duration_setting env fs lookupEnv ''mcp.connection-max-ttl'' ''MCP_CONNECTION_MAX_TTL'' ''10m0s'') (\<lambda>ttl.
     unless_err (fail_if (ttl \<le> 0) ''mcp.connection-max-ttl must be positive'') (
     and_then (duration_setting env fs lookupEnv ''mcp.startup-wait-timeout'' ''MCP_STARTUP_WAIT_TIMEOUT'' ''0s'') (\<lambda>wait.
     unless_err (fail_if (wait < 0) ''mcp.startup-wait-timeout must not be negative'') (
     and_then (getBool fs lookupEnv ''mcp.stdio-send-initialized-notification''
       ''MCP_STDIO_SEND_INITIALIZED_NOTIFICATION'') (\<lambda>sendInitialized.
     and_then (resolveStdioFailurePolicy fs lookupEnv) (\<lambda>failurePolicy.
     and_then (getBool fs lookupEnv ''mcp.forward-trace-context'' ''MCP_FORWARD_TRACE_CONTEXT'') (\<lambda>forwardTrace.
     and_then (positive_count fs lookupEnv ''mcp.max-concurrent-requests'' ''MCP_MAX_CONCURRENT_REQUESTS'' 10) (\<lambda>maxConcurrent.
     and_then (resolveProxyWithFallback env fs lookupEnv ''mcp.http-proxy'' globalProxy) (\<lambda>mcpProxy.
     and_then (buildExtraHeaders env fs lookupEnv ''mcp.extra-headers'' ''MCP_EXTRA_HEADERS'') (\<lambda>extra.
     and_then (buildExtraHeaders env fs lookupEnv ''mcp.discovery-extra-headers'' ''MCP_DISCOVERY_EXTRA_HEADERS'') (\<lambda>discovery.
     and_then (buildOAuthTrustedOrigins env fs lookupEnv) (\<lambda>trusted.
     and_then (all_results (finish_binding certificate mcpProxy globalProxy) bindings) (\<lambda>finished.
     unless_err (fail_if (certificate \<noteq> None \<and> \<not> list_ex (\<lambda>b. mb_kind b = MCPTransportHTTPStreamable) bindings)
       ''mcp.client-cert and mcp.client-key require at least one http-streamable binding'') (
     let cfg = \<lparr>ms_server_url = None, ms_socket = [], ms_command = [], ms_args = [], ms_kind = [],
                ms_certificate = certificate, ms_bindings = finished, ms_allow_no_main = False, ms_startup_wait = wait,
                ms_send_initialized = sendInitialized, ms_failure_policy = failurePolicy, ms_forward_trace = forwardTrace,
                ms_forward_request_id = 0, ms_trace_context = False, ms_max_ttl = ttl, ms_max_concurrent = maxConcurrent,
                ms_extra = extra, ms_discovery_extra = discovery, ms_trusted = trusted, ms_proxy = mcpProxy\<rparr> in
     Inr (project_main cfg))))))))))))))))))))"

section \<open>What a loaded routing table guarantees\<close>

text \<open>A binding that a transport can be made from.\<close>

definition binding_ok :: "mcp_binding \<Rightarrow> bool" where
  "binding_ok b \<longleftrightarrow> channelPattern (mb_channel b) \<and> Canonical (mb_channel b) = mb_channel b \<and> mb_channel b \<noteq> ChannelHarpoon \<and>
     (if mb_kind b = MCPTransportHTTPStreamable
      then \<exists>u. mb_server_url b = Some u \<and> u_scheme u \<noteq> [] \<and> u_host u \<noteq> []
      else mb_kind b = MCPTransportStdio \<and> mb_args b \<noteq> [] \<and> [] \<notin> set (mb_args b))"

definition bindings_ok :: "mcp_binding list \<Rightarrow> bool" where
  "bindings_ok bs \<longleftrightarrow> list_all binding_ok bs \<and> distinct (map mb_channel bs)"

lemma channel_byte_plain: "channel_byte c \<Longrightarrow> \<not> is_space c \<and> lower_char c = c"
  by (auto simp: channel_byte_def is_space_def is_digit_def lower_char_def Let_def)

lemma pattern_canonical: "channelPattern c \<Longrightarrow> Canonical c = c"
  using channel_byte_plain
  by (auto simp: channelPattern_def Canonical_def list_all_iff to_lower_def trim_space_def trim_by_none intro!: map_idI)

lemma normalized_pattern: "normalized_channel name = Inr channel \<Longrightarrow> channelPattern channel"
  by (auto simp: normalized_channel_def policy_simps NormalizeChannel_def Let_def DefaultChannel_def channelPattern_def
      channel_byte_def split: if_splits)

text \<open>The part of \<open>binding_ok\<close> that does not depend on the reserved channel.\<close>

definition target_ok_binding :: "mcp_binding \<Rightarrow> bool" where
  "target_ok_binding b \<longleftrightarrow> channelPattern (mb_channel b) \<and>
     (if mb_kind b = MCPTransportHTTPStreamable
      then \<exists>u. mb_server_url b = Some u \<and> u_scheme u \<noteq> [] \<and> u_host u \<noteq> []
      else mb_kind b = MCPTransportStdio \<and> mb_args b \<noteq> [] \<and> [] \<notin> set (mb_args b))"

lemma binding_ok_iff: "binding_ok b \<longleftrightarrow> target_ok_binding b \<and> mb_channel b \<noteq> ChannelHarpoon"
  using pattern_canonical by (auto simp: binding_ok_def target_ok_binding_def)

lemma buildMCPBinding_ok:
  assumes "buildMCPBinding env channel kind raw = Inr b" "channelPattern channel"
  shows "target_ok_binding b \<and> mb_channel b = channel \<and> mb_kind b = kind \<and> mb_proxy b = None \<and> mb_socket b = [] \<and>
         mb_certificate b = None"
  using assms argv_ok [of raw]
  by (auto simp: buildMCPBinding_def target_ok_binding_def policy_simps Let_def new_binding_def parse_setting_url_def split: if_splits)

lemma http_entry_ok: "http_entry env kvs lookupEnv = Inr b \<Longrightarrow> target_ok_binding b"
  by (auto simp: http_entry_def policy_simps dest!: buildMCPBinding_ok normalized_pattern
      simp: target_ok_binding_def split: option.splits)

lemma entry_ok: "parseMCPBindingEntry env entry kind lookupEnv = Inr b \<Longrightarrow> target_ok_binding b"
  using normalized_pattern buildMCPBinding_ok http_entry_ok
  by (fastforce simp: parseMCPBindingEntry_def parseQualifiedStdioMCPBindingEntry_def policy_simps Let_def split: if_splits)

lemma addBinding_ok:
  assumes "addBinding bs b = Inr bs'" "bindings_ok bs" "target_ok_binding b"
  shows "bindings_ok bs'"
proof -
  have b: "Canonical (mb_channel b) = mb_channel b" using assms(3) pattern_canonical by (simp add: target_ok_binding_def)
  have bs: "Canonical (mb_channel c) = mb_channel c" if "c \<in> set bs" for c
    using assms(2) that by (auto simp: bindings_ok_def list_all_iff binding_ok_def)
  have "mb_channel b \<notin> mb_channel ` set bs" "mb_channel b \<noteq> ChannelHarpoon" "bs' = bs @ [b]"
    using assms(1) b bs by (force simp: addBinding_def Let_def split: if_splits)+
  with assms(2,3) show ?thesis by (auto simp: bindings_ok_def binding_ok_iff)
qed

lemma add_entries_ok:
  "add_entries env kind lookupEnv entries bs = Inr bs' \<Longrightarrow> bindings_ok bs \<Longrightarrow> bindings_ok bs'"
  by (induction entries arbitrary: bs) (auto simp: policy_simps dest!: entry_ok addBinding_ok)

lemma parsed_bindings_ok: "parseMCPChannelBindings env commands servers lookupEnv = Inr bs \<Longrightarrow> bindings_ok bs"
  using add_entries_ok [where bs = "[]"] add_entries_ok
  by (fastforce simp: parseMCPChannelBindings_def policy_simps bindings_ok_def)

lemma replace_main_channels:
  "replace_main m bs = Inr bs' \<Longrightarrow> mb_channel m = DefaultChannel \<Longrightarrow> list_all (\<lambda>b. Canonical (mb_channel b) = mb_channel b) bs \<Longrightarrow>
   mb_channel ` set bs' = insert DefaultChannel (mb_channel ` set bs) \<and> set bs' \<subseteq> insert m (set bs) \<and>
   (distinct (map mb_channel bs) \<longrightarrow> distinct (map mb_channel bs') \<and> m \<in> set bs')"
proof (induction bs arbitrary: bs')
  case (Cons b bs)
  show ?case
  proof (cases "Canonical (mb_channel b) = DefaultChannel")
    case True
    with Cons.prems show ?thesis by (auto simp: policy_simps)
  next
    case False
    then obtain cs where "replace_main m bs = Inr cs" "bs' = b # cs" using Cons.prems by (auto simp: policy_simps)
    with Cons False show ?thesis by auto
  qed
qed simp

lemma override_main_ok:
  assumes "override_main env url bs = Inr bs'" "bindings_ok bs"
  shows "bindings_ok bs'"
proof (cases "url = []")
  case False
  then obtain m where m: "buildMCPBinding env DefaultChannel MCPTransportHTTPStreamable url = Inr m" "replace_main m bs = Inr bs'"
    using assms(1) by (auto simp: override_main_def policy_simps)
  have "channelPattern DefaultChannel" by (simp add: channelPattern_def DefaultChannel_def channel_byte_def)
  with m(1) have ok: "target_ok_binding m" "mb_channel m = DefaultChannel" using buildMCPBinding_ok by blast+
  have "binding_ok m" using ok by (simp add: binding_ok_iff DefaultChannel_def ChannelHarpoon_def)
  moreover have "list_all (\<lambda>b. Canonical (mb_channel b) = mb_channel b) bs"
    using assms(2) by (auto simp: bindings_ok_def binding_ok_def list_all_iff)
  ultimately show ?thesis
    using replace_main_channels [OF m(2) ok(2)] assms(2) by (fastforce simp: bindings_ok_def list_all_iff)
qed (use assms in \<open>simp add: override_main_def\<close>)

text \<open>Settings that only HTTP has stay off a command, and a socket excludes a proxy.\<close>

definition transport_consistent :: "mcp_binding \<Rightarrow> bool" where
  "transport_consistent b \<longleftrightarrow>
     (mb_kind b \<noteq> MCPTransportHTTPStreamable \<longrightarrow> mb_proxy b = None \<and> mb_socket b = [] \<and> mb_certificate b = None) \<and>
     (mb_socket b \<noteq> [] \<longrightarrow> mb_proxy b = None)"

lemma finish_binding_ok:
  assumes "finish_binding certificate mcpProxy globalProxy b = Inr b'"
  shows "mb_channel b' = mb_channel b \<and> transport_consistent b' \<and> (binding_ok b \<longrightarrow> binding_ok b')"
  using assms
  by (auto simp: finish_binding_def policy_simps validateMCPBindingTransport_def fail_if_def Let_def transport_consistent_def
      binding_ok_def split: if_splits option.splits)

lemma all_results_iff: "all_results f xs = Inr ys \<longleftrightarrow> list_all2 (\<lambda>x y. f x = Inr y) xs ys"
  by (induction xs arbitrary: ys) (auto simp: policy_simps list_all2_Cons1)

lemma finished_bindings_ok:
  assumes "all_results (finish_binding certificate mcpProxy globalProxy) bs = Inr bs'" "bindings_ok bs"
  shows "bindings_ok bs' \<and> list_all transport_consistent bs'"
proof -
  have "list_all2 (\<lambda>b b'. finish_binding certificate mcpProxy globalProxy b = Inr b') bs bs'"
    using assms(1) by (simp add: all_results_iff)
  then have "map mb_channel bs' = map mb_channel bs \<and> (list_all binding_ok bs \<longrightarrow> list_all binding_ok bs') \<and>
      list_all transport_consistent bs'"
    by induction (auto dest: finish_binding_ok)
  with assms(2) show ?thesis by (metis bindings_ok_def)
qed

lemma ChannelBindingFor_Some:
  assumes "bindings_ok bs" "ChannelBindingFor bs channel = Some b"
  shows "b \<in> set bs \<and> binding_ok b \<and> mb_channel b = Canonical channel"
proof -
  obtain cs where "filter (\<lambda>b. Canonical (mb_channel b) = Canonical channel) bs = b # cs"
    using assms(2) by (auto simp: ChannelBindingFor_def split: list.splits)
  then have "b \<in> set (filter (\<lambda>b. Canonical (mb_channel b) = Canonical channel) bs)" by (metis list.set_intros(1))
  with assms(1) show ?thesis by (auto simp: bindings_ok_def list_all_iff binding_ok_def)
qed

lemma ChannelBindingFor_unique:
  assumes "bindings_ok bs" "b \<in> set bs"
  shows "ChannelBindingFor bs (mb_channel b) = Some b"
proof -
  let ?found = "filter (\<lambda>c. Canonical (mb_channel c) = Canonical (mb_channel b)) bs"
  have canonical: "\<forall>c \<in> set bs. Canonical (mb_channel c) = mb_channel c" and d: "distinct (map mb_channel bs)"
    using assms(1) by (auto simp: bindings_ok_def list_all_iff binding_ok_def)
  have all: "\<forall>c \<in> set ?found. c = b" using canonical d assms(2) by (auto simp: distinct_map inj_on_def)
  have "b \<in> set ?found" using assms(2) by simp
  then obtain c cs where found: "?found = c # cs" by (cases ?found) auto
  with all have "c = b" by (metis list.set_intros(1))
  with found show ?thesis by (simp add: ChannelBindingFor_def)
qed

lemma project_main_fields [simp]:
  "ms_bindings (project_main cfg) = ms_bindings cfg" "ms_max_ttl (project_main cfg) = ms_max_ttl cfg"
  "ms_max_concurrent (project_main cfg) = ms_max_concurrent cfg" "ms_extra (project_main cfg) = ms_extra cfg"
  "ms_discovery_extra (project_main cfg) = ms_discovery_extra cfg" "ms_trusted (project_main cfg) = ms_trusted cfg"
  by (simp_all add: project_main_def split: option.splits)

lemma buildMCPConfig_parts:
  assumes "buildMCPConfig env fs lookupEnv globalProxy url = Inr cfg"
  obtains entries bindings certificate mcpProxy where
    "bindings_ok entries" "override_main env url entries = Inr bindings"
    "all_results (finish_binding certificate mcpProxy globalProxy) bindings = Inr (ms_bindings cfg)"
    "0 < ms_max_ttl cfg" "0 < ms_max_concurrent cfg"
    "extra_headers_ok (ms_extra cfg)" "extra_headers_ok (ms_discovery_extra cfg)"
    "buildOAuthTrustedOrigins env fs lookupEnv = Inr (ms_trusted cfg)"
  using assms unfolding buildMCPConfig_def policy_simps Let_def sum.inject
  apply (elim exE conjE)
  apply hypsubst
  apply (rule that)
         apply (erule parsed_bindings_ok)
        apply assumption
       apply simp
      apply (auto simp: positive_count_def policy_simps fail_if_def dest: buildExtraHeaders_ok split: if_splits)
  done

lemma buildMCPConfig_bindings:
  assumes "buildMCPConfig env fs lookupEnv globalProxy url = Inr cfg"
  shows "bindings_ok (ms_bindings cfg)" "list_all transport_consistent (ms_bindings cfg)"
proof -
  obtain entries bindings certificate mcpProxy where parts: "bindings_ok entries" "override_main env url entries = Inr bindings"
      "all_results (finish_binding certificate mcpProxy globalProxy) bindings = Inr (ms_bindings cfg)"
    by (rule buildMCPConfig_parts [OF assms]) blast
  show "bindings_ok (ms_bindings cfg)" "list_all transport_consistent (ms_bindings cfg)"
    using finished_bindings_ok [OF parts(3) override_main_ok [OF parts(2,1)]] by auto
qed

text \<open>
  C26. The routing table of a loaded configuration: every channel has at most one
  binding, the channel of the embedded server is not taken, and each binding has
  what its transport needs (a URL with a host, or a command of non-empty words)
  and nothing that its transport does not support. Looking a channel up finds
  exactly its binding, the limits are positive, and the operator headers are
  valid.
\<close>

theorem channel_table_ok:
  assumes "buildMCPConfig env fs lookupEnv globalProxy url = Inr cfg"
  shows "bindings_ok (ms_bindings cfg) \<and> list_all transport_consistent (ms_bindings cfg) \<and>
         (\<forall>b. b \<in> set (ms_bindings cfg) \<longleftrightarrow> ChannelBindingFor (ms_bindings cfg) (mb_channel b) = Some b) \<and>
         0 < ms_max_ttl cfg \<and> 0 < ms_max_concurrent cfg \<and>
         extra_headers_ok (ms_extra cfg) \<and> extra_headers_ok (ms_discovery_extra cfg)"
proof -
  note ok = buildMCPConfig_bindings [OF assms]
  have "0 < ms_max_ttl cfg \<and> 0 < ms_max_concurrent cfg \<and> extra_headers_ok (ms_extra cfg) \<and> extra_headers_ok (ms_discovery_extra cfg)"
    by (rule buildMCPConfig_parts [OF assms]) blast
  then show ?thesis
    using ok ChannelBindingFor_unique [OF ok(1)] ChannelBindingFor_Some [OF ok(1)] by blast
qed

definition example_channel_flags :: flag_set where
  "example_channel_flags = (\<lambda>_. None)
     (''mcp.server-url'' := Some (array_flag [''https://mcp.example/mcp'']),
      ''mcp.command'' := Some (array_flag [''channel=files,command=serve --root /data'']))"

lemma example_settings_load:
  "case buildMCPConfig example_config_env example_channel_flags (\<lambda>_. None) None [] of
     Inr cfg \<Rightarrow> map mb_channel (ms_bindings cfg) = [''main'', ''files''] \<and> map mb_args (ms_bindings cfg) = [[], [''serve'', ''--root'', ''/data'']]
   | Inl _ \<Rightarrow> False"
  by code_simp

theorem channel_table_ok_witness:
  "\<exists>cfg b. buildMCPConfig example_config_env example_channel_flags (\<lambda>_. None) None [] = Inr cfg \<and>
     ChannelBindingFor (ms_bindings cfg) ''files'' = Some b \<and> mb_args b = [''serve'', ''--root'', ''/data'']"
proof -
  obtain cfg where cfg: "buildMCPConfig example_config_env example_channel_flags (\<lambda>_. None) None [] = Inr cfg"
      "map mb_channel (ms_bindings cfg) = [''main'', ''files'']" "map mb_args (ms_bindings cfg) = [[], [''serve'', ''--root'', ''/data'']]"
    using example_settings_load by (auto split: sum.splits)
  then obtain m b where bs: "ms_bindings cfg = [m, b]" "mb_channel b = ''files''" "mb_args b = [''serve'', ''--root'', ''/data'']"
    by (auto simp: map_eq_Cons_conv)
  with channel_table_ok [OF cfg(1)] have "ChannelBindingFor (ms_bindings cfg) ''files'' = Some b"
    by (metis list.set_intros(1,2))
  with cfg(1) bs(3) show ?thesis by blast
qed

end
