(* ===== verification/ControlSettings.thy ===== *)
theory ControlSettings
  imports ChannelSettings
begin

text \<open>
  The settings of the control plane and of the embedded Harpoon server
  (\<open>src/pkg/runtimeconfig/config.go\<close>, \<open>aws_identity.go\<close>): where the client
  polls and with which credential, how long a poll may take, which channels it
  drains, and the targets that the operator offers.
\<close>

section \<open>Control plane\<close>

record control_settings =
  cs_base :: web_url
  cs_url_path :: string
  cs_tunnel_id :: string
  cs_organization :: string
  cs_api_key :: string
  cs_workload_identity :: bool            \<comment> \<open>a token provider is set\<close>
  cs_max_inflight :: int
  cs_poll_timeout :: duration
  cs_initial_timeout :: duration
  cs_guardrail :: duration
  cs_channels :: "channel list"
  cs_channels_configured :: bool
  cs_certificate :: "client_certificate option"
  cs_extra :: extra_headers
  cs_proxy :: proxy_choice
  cs_trace_context :: bool
  cs_suppress_raw :: bool

definition defaultControlPlaneBaseURL :: string where
  "defaultControlPlaneBaseURL = ''https://api.openai.com''"

definition defaultControlPlaneMTLSBaseURL :: string where
  "defaultControlPlaneMTLSBaseURL = ''https://mtls.api.openai.com''"

definition maxControlPlaneMaxInFlight :: int where
  "maxControlPlaneMaxInFlight = 10000"

definition maxControlPlanePollDeadlineGuardrail :: duration where
  "maxControlPlanePollDeadlineGuardrail = seconds 60"

definition lower_alnum :: "char \<Rightarrow> bool" where
  "lower_alnum c \<longleftrightarrow> is_digit c \<or> between 97 122 c"

definition tunnelIDPattern :: "string \<Rightarrow> bool" where
  "tunnelIDPattern s \<longleftrightarrow> has_prefix ''tunnel_'' s \<and>
     (let rest = drop 7 s in
      length rest = 32 \<and> list_all lower_alnum rest \<or>
      length rest = 37 \<and> list_all lower_alnum (take 4 rest) \<and> rest ! 4 = CHR ''_'' \<and> list_all lower_alnum (drop 5 rest))"

definition ValidateTunnelID :: "string \<Rightarrow> goerr" where
  "ValidateTunnelID raw = (let tunnelID = trim_space raw in
     if tunnelID = [] then fails ''tunnel ID is required''
     else if PathEscape tunnelID \<noteq> tunnelID then fails ''must be safe for use as a URL path parameter''
     else fail_if (\<not> tunnelIDPattern tunnelID) ''invalid tunnel ID'')"

definition resolve_tunnel_id :: "flag_set \<Rightarrow> lookup_env \<Rightarrow> goerr + string" where
  "resolve_tunnel_id fs lookupEnv =
     and_then (case fs ''control-plane.tunnel-id'' of
         Some f \<Rightarrow> if fv_text f = [] then Inl (fails ''tunnel ID is required'') else Inr (fv_text f)
       | None \<Rightarrow> (case lookupEnv ''CONTROL_PLANE_TUNNEL_ID'' of
           Some envVal \<Rightarrow> if envVal = [] then Inl (fails ''tunnel ID is required'') else Inr envVal
         | None \<Rightarrow> Inr [])) (\<lambda>tunnelID.
     unless_err (ValidateTunnelID tunnelID) (Inr tunnelID))"

definition bounded_inflight :: "int \<Rightarrow> goerr + int" where
  "bounded_inflight val =
     (if val \<le> 0 then Inl (fails ''must be greater than zero'')
      else if val > maxControlPlaneMaxInFlight then Inl (fails ''must be less than or equal to 10000'')
      else Inr val)"

definition resolve_max_inflight :: "flag_set \<Rightarrow> lookup_env \<Rightarrow> goerr + int" where
  "resolve_max_inflight fs lookupEnv = (case fs ''control-plane.max-inflight'' of
     Some f \<Rightarrow> and_then (or_fail ''invalid value'' (Atoi (fv_text f))) bounded_inflight
   | None \<Rightarrow> (case lookupEnv ''CONTROL_PLANE_MAX_INFLIGHT_REQUESTS'' of
       Some envVal \<Rightarrow>
         if envVal = [] then Inl (fails ''must be greater than zero'')
         else and_then (or_fail ''invalid value'' (Atoi envVal)) bounded_inflight
     | None \<Rightarrow> Inr 20))"

text \<open>The three timeouts of polling are read in the same way.\<close>

definition positive_duration ::
    "config_env \<Rightarrow> flag_set \<Rightarrow> lookup_env \<Rightarrow> string \<Rightarrow> string \<Rightarrow> duration \<Rightarrow> goerr + duration" where
  "positive_duration env fs lookupEnv flagName envName defaultValue =
     (let positive = (\<lambda>val. if val \<le> 0 then Inl (fails ''must be greater than zero'') else Inr val) in
      case fs flagName of
        Some f \<Rightarrow> and_then (or_fail ''invalid value'' (fv_duration f)) positive
      | None \<Rightarrow> (case lookupEnv envName of
          Some envVal \<Rightarrow>
            if envVal \<noteq> [] then and_then (or_fail ''invalid value'' (ce_duration env envVal)) positive
            else Inr defaultValue
        | None \<Rightarrow> Inr defaultValue))"

definition validateControlPlanePollTiming :: "duration \<Rightarrow> duration \<Rightarrow> goerr" where
  "validateControlPlanePollTiming pollTimeout guardrail =
     (if guardrail \<ge> maxControlPlanePollDeadlineGuardrail then fails ''poll-deadline-guardrail must be less than 1m0s''
      else fail_if (pollTimeout > i64 (maxControlPlanePollDeadline - guardrail))
        ''poll-timeout plus poll-deadline-guardrail must be less than or equal to 10m0s'')"

fun poll_channel_list :: "channel list \<Rightarrow> string list \<Rightarrow> goerr + channel list" where
  "poll_channel_list channels [] = Inr channels"
| "poll_channel_list channels (raw # raws) =
     (if trim_space raw = [] then Inl (fails ''contains an empty channel'')
      else case NormalizeChannel raw of
        None \<Rightarrow> Inl (fails ''invalid channel'')
      | Some channel \<Rightarrow>
          if channel \<noteq> raw then Inl (fails ''channel is not canonical'')
          else if channel \<in> set channels then Inl (fails ''duplicate channel'')
          else poll_channel_list (channels @ [channel]) raws)"

text \<open>\<open>None\<close> when no allowlist is configured.\<close>

definition resolvePollChannels :: "flag_set \<Rightarrow> lookup_env \<Rightarrow> goerr + channel list option" where
  "resolvePollChannels fs lookupEnv =
     (let finish = (\<lambda>raw. if raw = [] then Inl (fails ''must contain at least one channel'')
        else and_then (poll_channel_list [] raw) (\<lambda>channels. Inr (Some (sort channels)))) in
      case fs ''control-plane.poll-channel'' of
        Some f \<Rightarrow> and_then (or_fail ''invalid value'' (fv_array f)) finish
      | None \<Rightarrow> (case lookupEnv ''CONTROL_PLANE_POLL_CHANNELS'' of
          Some envVal \<Rightarrow> finish (split_on (CHR '','') envVal)
        | None \<Rightarrow> Inr None))"

definition controlPlaneBaseURLRaw :: "flag_set \<Rightarrow> lookup_env \<Rightarrow> client_certificate option \<Rightarrow> string" where
  "controlPlaneBaseURLRaw fs lookupEnv certificate =
     (let raw = firstSet [getValue fs ''control-plane.base-url'',
            envOrDefault lookupEnv ''CONTROL_PLANE_BASE_URL'' defaultControlPlaneBaseURL] in
      if certificate = None then raw
      else if trim_right (CHR ''/'') (trim_space raw) = defaultControlPlaneBaseURL then defaultControlPlaneMTLSBaseURL
      else raw)"

definition controlPlaneURLPathRaw :: "flag_set \<Rightarrow> lookup_env \<Rightarrow> string" where
  "controlPlaneURLPathRaw fs lookupEnv =
     firstSet [getValue fs ''control-plane.url-path'', envOrDefault lookupEnv ''CONTROL_PLANE_URL_PATH'' []]"

definition controlPlaneOrganizationID :: "flag_set \<Rightarrow> lookup_env \<Rightarrow> goerr + string" where
  "controlPlaneOrganizationID fs lookupEnv =
     (let organizationID = trim_space (firstSet [getValue fs ''control-plane.organization-id'',
            envOrDefault lookupEnv ''CONTROL_PLANE_ORGANIZATION_ID'' []]) in
      unless_err (fail_if (has_line_break organizationID) ''cannot contain header line breaks'') (Inr organizationID))"

definition NormalizeControlPlaneURLPath :: "config_env \<Rightarrow> string \<Rightarrow> goerr + string" where
  "NormalizeControlPlaneURLPath env rawPath = (let raw = trim_space rawPath in
     if raw = [] then Inr []
     else and_then (or_fail ''invalid control-plane.url-path'' (ce_parse env raw)) (\<lambda>u.
       if u_scheme u \<noteq> [] \<or> u_host u \<noteq> [] \<or> u_user u \<noteq> None \<or> u_query u \<noteq> [] \<or> u_fragment u \<noteq> []
       then Inl (fails ''must be a URL path without scheme, host, query, or fragment'')
       else if \<not> has_prefix ''/'' (u_decoded u) then Inl (fails ''must start with /'')
       else Inr (if u_decoded u = ''/'' then [] else u_decoded u)))"

text \<open>Whether a token provider is used instead of the key.\<close>

definition controlPlaneTokenProvider :: "config_env \<Rightarrow> string \<Rightarrow> string \<Rightarrow> string \<Rightarrow> web_url \<Rightarrow> goerr + bool" where
  "controlPlaneTokenProvider env apiKey providerID serviceAccountID baseURL =
     (if providerID = [] \<and> serviceAccountID = [] then
        (if ValidateControlPlaneAPIKey apiKey = None then Inr False else Inl (fails ''control plane API key''))
      else if apiKey \<noteq> [] then Inl (fails ''configure only one of an API key and AWS workload identity'')
      else if trim_suffix (URL_String baseURL) ''/'' \<noteq> defaultControlPlaneBaseURL
      then Inl (fails ''AWS workload identity requires https://api.openai.com'')
      else unless_err (ce_identity env providerID serviceAccountID) (Inr True))"

definition buildControlPlaneConfig ::
    "config_env \<Rightarrow> flag_set \<Rightarrow> lookup_env \<Rightarrow> proxy_choice \<Rightarrow> goerr + control_settings" where
  "buildControlPlaneConfig env fs lookupEnv globalProxy =
     and_then (buildControlPlaneClientCertificate env fs lookupEnv) (\<lambda>certificate.
     and_then (parse_setting_url env (controlPlaneBaseURLRaw fs lookupEnv certificate)) (\<lambda>baseURL.
     and_then (NormalizeControlPlaneURLPath env (controlPlaneURLPathRaw fs lookupEnv)) (\<lambda>urlPath.
     and_then (resolve_tunnel_id fs lookupEnv) (\<lambda>tunnelID.
     and_then (controlPlaneOrganizationID fs lookupEnv) (\<lambda>organizationID.
     and_then (resolve_max_inflight fs lookupEnv) (\<lambda>maxInFlight.
     and_then (positive_duration env fs lookupEnv ''control-plane.poll-timeout'' ''CONTROL_PLANE_POLL_TIMEOUT''
       defaultControlPlanePollTimeout) (\<lambda>pollTimeout.
     and_then (positive_duration env fs lookupEnv ''control-plane.initial-poll-timeout''
       ''CONTROL_PLANE_INITIAL_POLL_TIMEOUT'' defaultControlPlaneInitialPollTimeout) (\<lambda>initialTimeout.
     and_then (positive_duration env fs lookupEnv ''control-plane.poll-deadline-guardrail''
       ''CONTROL_PLANE_POLL_DEADLINE_GUARDRAIL'' defaultControlPlanePollDeadlineGuardrail) (\<lambda>guardrail.
     unless_err (validateControlPlanePollTiming pollTimeout guardrail) (
     and_then (resolvePollChannels fs lookupEnv) (\<lambda>channels.
     and_then (getControlPlaneAPIKey env (getValue fs ''control-plane.api-key'') lookupEnv) (\<lambda>apiKey.
     and_then (controlPlaneTokenProvider env apiKey
       (firstSet [getValue fs ''control-plane.aws-identity-provider-id'',
          envOrDefault lookupEnv ''CONTROL_PLANE_AWS_IDENTITY_PROVIDER_ID'' []])
       (firstSet [getValue fs ''control-plane.aws-service-account-id'',
          envOrDefault lookupEnv ''CONTROL_PLANE_AWS_SERVICE_ACCOUNT_ID'' []]) baseURL) (\<lambda>provider.
     and_then (resolveProxyWithFallback env fs lookupEnv ''control-plane.http-proxy'' globalProxy) (\<lambda>proxy.
     and_then (buildControlPlaneExtraHeaders env fs lookupEnv) (\<lambda>extra.
     Inr \<lparr>cs_base = baseURL, cs_url_path = urlPath, cs_tunnel_id = tunnelID, cs_organization = organizationID,
          cs_api_key = apiKey, cs_workload_identity = provider, cs_max_inflight = maxInFlight,
          cs_poll_timeout = pollTimeout, cs_initial_timeout = initialTimeout, cs_guardrail = guardrail,
          cs_channels = (case channels of None \<Rightarrow> [] | Some cs \<Rightarrow> cs), cs_channels_configured = (channels \<noteq> None),
          cs_certificate = certificate, cs_extra = extra, cs_proxy = proxy, cs_trace_context = False,
          cs_suppress_raw = False\<rparr>)))))))))))))))"

section \<open>Harpoon\<close>

record target_setting =
  hg_label :: string
  hg_description :: string
  hg_base :: "web_url option"
  hg_socket :: string
  hg_template :: "template_config option"

record harpoon_settings =
  hc_plaintext :: bool
  hc_max_bytes :: int
  hc_max_redirects :: int
  hc_transports :: "string list"
  hc_targets :: "target_setting list"
  hc_forward_origins :: "web_url list"
  hc_classifier :: host_classifier_config
  hc_proxy :: proxy_choice

fun target_fields :: "(string \<times> string) list \<Rightarrow> string list \<Rightarrow> goerr + (string \<times> string) list" where
  "target_fields acc [] = Inr acc"
| "target_fields acc (part # parts) =
     (if trim_space part = [] then target_fields acc parts
      else case cut_at (CHR ''='') (trim_space part) of
        None \<Rightarrow> Inl (fails ''expected key=value pairs'')
      | Some (k, v) \<Rightarrow>
          (let key = trim_space (to_lower k); val = trim_by (\<lambda>c. c = CHR 0x22 \<or> c = CHR 0x27) (trim_space v) in
           if key = [] then Inl (fails ''empty key'') else target_fields (AList.update key val acc) parts))"

definition field :: "(string \<times> string) list \<Rightarrow> string \<Rightarrow> string" where
  "field kvs k = (case map_of kvs k of None \<Rightarrow> [] | Some v \<Rightarrow> v)"

definition parseHarpoonTarget :: "config_env \<Rightarrow> string \<Rightarrow> bool \<Rightarrow> lookup_env \<Rightarrow> goerr + target_setting" where
  "parseHarpoonTarget env raw allowPlaintext lookupEnv =
     and_then (target_fields [] (split_on (CHR '','') raw)) (\<lambda>kvs.
     let label = field kvs ''label''; urlRaw = field kvs ''url'' in
     unless_err (fail_if (label = [] \<or> urlRaw = []) ''label and url are required'') (
     unless_err (fail_if (\<not> labelPattern label) ''label must match'') (
     and_then (parse_setting_url env urlRaw) (\<lambda>u.
     unless_err (fail_if (\<not> allowPlaintext \<and> \<not> equal_fold (u_scheme u) ''https'') ''https is required'') (
     and_then (resolvePathReference (field kvs ''unix-socket'') lookupEnv) (\<lambda>socket.
     Inr \<lparr>hg_label = label, hg_description = field kvs ''desc'', hg_base = Some u, hg_socket = socket,
          hg_template = None\<rparr>))))))"

text \<open>A list from a repeated flag, or from an environment variable with separators.\<close>

definition listed :: "flag_set \<Rightarrow> lookup_env \<Rightarrow> string \<Rightarrow> string \<Rightarrow> goerr + string list" where
  "listed fs lookupEnv flagName envName = (case fs flagName of
     Some f \<Rightarrow> or_fail ''invalid value'' (fv_array f)
   | None \<Rightarrow> (case lookupEnv envName of
       Some envVal \<Rightarrow> Inr (if envVal \<noteq> [] then splitTargetList envVal else [])
     | None \<Rightarrow> Inr []))"

definition buildHarpoonTargets :: "config_env \<Rightarrow> flag_set \<Rightarrow> lookup_env \<Rightarrow> bool \<Rightarrow> goerr + target_setting list" where
  "buildHarpoonTargets env fs lookupEnv allowPlaintext =
     and_then (listed fs lookupEnv ''harpoon.target'' ''HARPOON_TARGETS'') (\<lambda>raws.
     all_results (\<lambda>raw. parseHarpoonTarget env raw allowPlaintext lookupEnv) (filter (\<lambda>raw. trim_space raw \<noteq> []) raws))"

definition buildHarpoonHostIncludeList :: "flag_set \<Rightarrow> lookup_env \<Rightarrow> string \<Rightarrow> string \<Rightarrow> goerr + string list" where
  "buildHarpoonHostIncludeList fs lookupEnv flagName envName =
     and_then (listed fs lookupEnv flagName envName) (\<lambda>raw. Inr (filter (\<lambda>e. e \<noteq> []) (map trim_space raw)))"

definition validateHarpoonHostRegexes :: "config_env \<Rightarrow> string list \<Rightarrow> goerr" where
  "validateHarpoonHostRegexes env patterns =
     fail_if (list_ex (\<lambda>raw. trim_space raw \<noteq> [] \<and> \<not> ce_regexp env (''(?i:'' @ trim_space raw @ '')'')) patterns)
       ''invalid harpoon host regex''"

definition buildHarpoonAdditionalTransports :: "flag_set \<Rightarrow> lookup_env \<Rightarrow> goerr + string list" where
  "buildHarpoonAdditionalTransports fs lookupEnv =
     and_then (listed fs lookupEnv ''harpoon.additional-transport'' ''HARPOON_ADDITIONAL_TRANSPORTS'') (\<lambda>raw.
     let kinds = filter (\<lambda>e. e \<noteq> []) (map (\<lambda>e. trim_space (to_lower e)) raw) in
     if list_all (\<lambda>k. k = ''http-streamable'') kinds then Inr (remdups kinds)
     else Inl (fails ''unsupported harpoon transport''))"

definition bounded_setting :: "flag_set \<Rightarrow> lookup_env \<Rightarrow> string \<Rightarrow> string \<Rightarrow> int \<Rightarrow> int \<Rightarrow> goerr + int" where
  "bounded_setting fs lookupEnv flagName envName least greatest =
     and_then (getInt fs lookupEnv flagName envName greatest) (\<lambda>n.
     if n < least \<or> greatest < n then Inl (fails (flagName @ '' is out of range'')) else Inr n)"

definition buildHarpoonConfig ::
    "config_env \<Rightarrow> flag_set \<Rightarrow> lookup_env \<Rightarrow> proxy_choice \<Rightarrow> goerr + harpoon_settings" where
  "buildHarpoonConfig env fs lookupEnv globalProxy =
     and_then (getBool fs lookupEnv ''harpoon.allow-plaintext-http'' ''HARPOON_ALLOW_PLAINTEXT_HTTP'') (\<lambda>allowPlaintext.
     and_then (bounded_setting fs lookupEnv ''harpoon.max-response-bytes'' ''HARPOON_MAX_RESPONSE_BYTES'' 1 102400) (\<lambda>maxBytes.
     and_then (bounded_setting fs lookupEnv ''harpoon.max-redirects'' ''HARPOON_MAX_REDIRECTS'' 0 5) (\<lambda>maxRedirects.
     and_then (buildHarpoonTargets env fs lookupEnv allowPlaintext) (\<lambda>targets.
     and_then (buildOAuthForwardOrigins env fs lookupEnv) (\<lambda>origins.
     and_then (buildHarpoonAdditionalTransports fs lookupEnv) (\<lambda>additional.
     and_then (buildHarpoonHostIncludeList fs lookupEnv ''harpoon.hosts-include-suffix'' ''HARPOON_HOSTS_INCLUDE_SUFFIX'') (\<lambda>suffixes.
     and_then (buildHarpoonHostIncludeList fs lookupEnv ''harpoon.hosts-include-regex'' ''HARPOON_HOSTS_INCLUDE_REGEX'') (\<lambda>regexes.
     and_then (getBoolWithDefault fs lookupEnv ''harpoon.hosts-include-loopback'' ''HARPOON_HOSTS_INCLUDE_LOOPBACK'' True) (\<lambda>loopback.
     and_then (getBoolWithDefault fs lookupEnv ''harpoon.hosts-include-private'' ''HARPOON_HOSTS_INCLUDE_PRIVATE'' True) (\<lambda>private.
     unless_err (validateHarpoonHostRegexes env regexes) (
     and_then (resolveProxyWithFallback env fs lookupEnv ''harpoon.http-proxy'' globalProxy) (\<lambda>proxy.
     Inr \<lparr>hc_plaintext = allowPlaintext, hc_max_bytes = maxBytes, hc_max_redirects = maxRedirects,
          hc_transports = additional, hc_targets = targets, hc_forward_origins = origins,
          hc_classifier = \<lparr>hf_suffixes = suffixes, hf_regexes = regexes, hf_loopback = loopback, hf_private = private\<rparr>,
          hc_proxy = proxy\<rparr>))))))))))))"

section \<open>Every polled channel has a handler\<close>

fun poll_handlers :: "channel list \<Rightarrow> mcp_binding list \<Rightarrow> bool \<Rightarrow> channel list \<Rightarrow> goerr" where
  "poll_handlers polled bindings has_targets [] = nil_err"
| "poll_handlers polled bindings has_targets (channel # channels) =
     (if channel = DefaultChannel then
        (if MainChannelBinding bindings = None then fails ''main has no local MCP handler''
         else poll_handlers polled bindings has_targets channels)
      else if channel = ChannelHarpoon then
        (if \<not> has_targets \<and> DefaultChannel \<notin> set polled then fails ''harpoon has no routable target''
         else poll_handlers polled bindings has_targets channels)
      else if ChannelBindingFor bindings channel = None then fails ''channel has no local handler''
      else poll_handlers polled bindings has_targets channels)"

definition validateConfiguredPollChannels :: "control_settings \<Rightarrow> mcp_settings \<Rightarrow> harpoon_settings \<Rightarrow> goerr" where
  "validateConfiguredPollChannels controlPlane mcp harpoon =
     (if \<not> cs_channels_configured controlPlane then
        fail_if (MainChannelBinding (ms_bindings mcp) = None) ''main channel is required''
      else poll_handlers (cs_channels controlPlane) (ms_bindings mcp) (hc_targets harpoon \<noteq> []) (cs_channels controlPlane))"

section \<open>What loaded settings guarantee\<close>

lemma positive_duration_pos:
  "positive_duration env fs lookupEnv flagName envName d = Inr val \<Longrightarrow> 0 < d \<Longrightarrow> 0 < val"
  by (auto simp: positive_duration_def policy_simps Let_def split: option.splits if_splits)

lemma max_inflight_bounds: "resolve_max_inflight fs lookupEnv = Inr n \<Longrightarrow> 1 \<le> n \<and> n \<le> maxControlPlaneMaxInFlight"
  by (auto simp: resolve_max_inflight_def bounded_inflight_def policy_simps maxControlPlaneMaxInFlight_def split: option.splits if_splits)

lemma poll_timing_deadline:
  assumes "validateControlPlanePollTiming timeout guardrail = nil_err" "0 < timeout" "0 < guardrail"
  shows "timeout + guardrail \<le> maxControlPlanePollDeadline \<and>
         PollDeadlineTimeoutOrDefault timeout guardrail = timeout + guardrail"
proof -
  have g: "guardrail < seconds 60" and t: "timeout \<le> maxControlPlanePollDeadline - guardrail"
    using assms by (auto simp: validateControlPlanePollTiming_def fail_if_def maxControlPlanePollDeadlineGuardrail_def
        maxControlPlanePollDeadline_def wrap_simps split: if_splits)
  with assms(2,3) show ?thesis
    by (auto simp: PollDeadlineTimeoutOrDefault_def PollTimeoutOrDefault_def PollDeadlineGuardrailOrDefault_def
        maxControlPlanePollDeadline_def wrap_simps Let_def)
qed

lemma poll_channel_list_ok:
  "poll_channel_list acc raws = Inr channels \<Longrightarrow> distinct acc \<Longrightarrow> list_all channelPattern acc \<Longrightarrow>
   distinct channels \<and> list_all channelPattern channels \<and> (raws \<noteq> [] \<longrightarrow> channels \<noteq> [])"
proof (induction acc raws rule: poll_channel_list.induct)
  case (2 acc raw raws)
  then have raw: "NormalizeChannel raw = Some raw" "raw \<notin> set acc" "trim_space raw \<noteq> []"
      "poll_channel_list (acc @ [raw]) raws = Inr channels"
    by (auto split: if_splits option.splits)
  then have "normalized_channel raw = Inr raw" by (simp add: normalized_channel_def or_fail_def)
  then have "channelPattern raw" by (rule normalized_pattern)
  with 2 raw have "distinct channels \<and> list_all channelPattern channels \<and> (raws \<noteq> [] \<longrightarrow> channels \<noteq> [])" by auto
  moreover have "channels \<noteq> []" if "poll_channel_list cs rs = Inr channels" "cs \<noteq> []" for cs rs
    using that by (induction cs rs rule: poll_channel_list.induct) (auto split: if_splits option.splits)
  ultimately show ?case using raw(4) by blast
qed simp

lemma resolvePollChannels_ok:
  assumes "resolvePollChannels fs lookupEnv = Inr (Some channels)"
  shows "sorted channels \<and> distinct channels \<and> list_all channelPattern channels \<and> channels \<noteq> []"
proof -
  obtain raws cs where "poll_channel_list [] raws = Inr cs" "raws \<noteq> []" "channels = sort cs"
    using assms by (auto simp: resolvePollChannels_def policy_simps Let_def split: option.splits if_splits)
  with poll_channel_list_ok [of "[]" raws cs] show ?thesis
    by (auto simp: list_all_iff) (metis length_0_conv length_sort)
qed

lemma buildControlPlaneConfig_parts:
  assumes "buildControlPlaneConfig env fs lookupEnv globalProxy = Inr c"
  obtains channels providerID serviceAccountID where
    "0 < cs_poll_timeout c" "0 < cs_initial_timeout c" "0 < cs_guardrail c"
    "validateControlPlanePollTiming (cs_poll_timeout c) (cs_guardrail c) = nil_err"
    "1 \<le> cs_max_inflight c \<and> cs_max_inflight c \<le> maxControlPlaneMaxInFlight"
    "ValidateTunnelID (cs_tunnel_id c) = nil_err"
    "controlPlaneTokenProvider env (cs_api_key c) providerID serviceAccountID (cs_base c) = Inr (cs_workload_identity c)"
    "resolvePollChannels fs lookupEnv = Inr channels" "cs_channels_configured c = (channels \<noteq> None)"
    "cs_channels c = (case channels of None \<Rightarrow> [] | Some cs \<Rightarrow> cs)"
    "buildControlPlaneExtraHeaders env fs lookupEnv = Inr (cs_extra c)"
  using assms unfolding buildControlPlaneConfig_def policy_simps sum.inject
  apply (elim exE conjE)
  apply hypsubst
  apply (rule that)
  apply (auto simp: resolve_tunnel_id_def policy_simps defaultControlPlanePollTimeout_def
      defaultControlPlaneInitialPollTimeout_def defaultControlPlanePollDeadlineGuardrail_def
      dest: positive_duration_pos max_inflight_bounds)
  done


lemma poll_handlers_ok:
  "poll_handlers polled bs has_targets channels = nil_err \<Longrightarrow> channel \<in> set channels \<Longrightarrow>
   channel = ChannelHarpoon \<and> (has_targets \<or> DefaultChannel \<in> set polled) \<or> ChannelBindingFor bs channel \<noteq> None"
  by (induction channels) (auto simp: MainChannelBinding_def ChannelHarpoon_def DefaultChannel_def split: if_splits)

lemma polled_handlers:
  assumes "buildControlPlaneConfig env fs lookupEnv globalProxy = Inr c"
    and "buildMCPConfig env fs lookupEnv globalProxy url = Inr m"
    and "validateConfiguredPollChannels c m harpoon = nil_err"
    and "channel \<in> set (if cs_channels_configured c then cs_channels c else [DefaultChannel])"
  shows "sorted (cs_channels c) \<and> distinct (cs_channels c) \<and> channelPattern channel \<and>
         (channel = ChannelHarpoon \<and> (hc_targets harpoon \<noteq> [] \<or> DefaultChannel \<in> set (cs_channels c)) \<or>
          (\<exists>b. ChannelBindingFor (ms_bindings m) channel = Some b \<and> mb_channel b = channel \<and> binding_ok b))"
proof -
  obtain channels where channels: "resolvePollChannels fs lookupEnv = Inr channels"
      "cs_channels_configured c = (channels \<noteq> None)" "cs_channels c = (case channels of None \<Rightarrow> [] | Some cs \<Rightarrow> cs)"
    by (rule buildControlPlaneConfig_parts [OF assms(1)]) blast
  have polled: "sorted (cs_channels c) \<and> distinct (cs_channels c) \<and> list_all channelPattern (cs_channels c)"
    using channels resolvePollChannels_ok by (cases channels) auto
  have "channelPattern DefaultChannel" by (simp add: channelPattern_def DefaultChannel_def channel_byte_def)
  with polled assms(4) have pattern: "channelPattern channel" by (auto simp: list_all_iff split: if_splits)
  have handled: "channel = ChannelHarpoon \<and> (hc_targets harpoon \<noteq> [] \<or> DefaultChannel \<in> set (cs_channels c)) \<or>
      ChannelBindingFor (ms_bindings m) channel \<noteq> None"
    using assms(3,4) poll_handlers_ok
    by (fastforce simp: validateConfiguredPollChannels_def MainChannelBinding_def fail_if_def split: if_splits)
  have "bindings_ok (ms_bindings m)" by (rule buildMCPConfig_bindings [OF assms(2)])
  with handled polled pattern show ?thesis
    using ChannelBindingFor_Some pattern_canonical [OF pattern] by fastforce
qed

section \<open>An example\<close>

definition example_flags :: flag_set where
  "example_flags = example_channel_flags
     (''control-plane.base-url'' := Some (text_flag ''https://mcp.example/mcp''),
      ''control-plane.tunnel-id'' := Some (text_flag ''tunnel_0123456789abcdef0123456789abcdef''),
      ''control-plane.api-key'' := Some (text_flag ''env:KEY''),
      ''control-plane.poll-channel'' := Some (array_flag [''main'', ''files'']))"

definition example_lookup :: lookup_env where
  "example_lookup = (\<lambda>_. None)(''KEY'' := Some ''sk-1'')"

lemma example_control_load:
  "case buildControlPlaneConfig example_config_env example_flags example_lookup None of
     Inr c \<Rightarrow> cs_channels_configured c \<and> cs_channels c = [''files'', ''main''] \<and> cs_api_key c = ''sk-1'' \<and> \<not> cs_workload_identity c
   | Inl _ \<Rightarrow> False"
  by code_simp


text \<open>The identifier keeps the white space that its validation ignores.\<close>

lemma tunnel_id_untrimmed:
  "resolve_tunnel_id (\<lambda>_. None) ((\<lambda>_. None)(''CONTROL_PLANE_TUNNEL_ID'' := Some '' tunnel_0123456789abcdef0123456789abcdef'')) =
     Inr '' tunnel_0123456789abcdef0123456789abcdef''"
  by code_simp

end
