(* ===== verification/FileSettings.thy ===== *)
theory FileSettings
  imports ControlSettings
begin

text \<open>
  The configuration file (\<open>src/pkg/runtimeconfig/file_config.go\<close>) and the loader
  that puts all parts together (\<open>loadRuntimeFromFlagSet\<close>). A file is what the YAML
  decoder makes of it; reading it and finding its path are the caller's. Its
  settings become values for the environment variables, below the real ones,
  except for Harpoon targets, which stay structured.
\<close>

section \<open>Files\<close>

datatype yaml_node = NoNode | TextNode string | OtherScalar | ListNode "string list option" | OtherNode

record file_server =
  fs_channel :: "string option"
  fs_url :: string
  fs_socket :: "string option"
  fs_proxy :: "string option"
  fs_cert :: "string option"
  fs_key :: "string option"

record file_command =
  fd_channel :: "string option"
  fd_command :: string

record file_target =
  fh_label :: string
  fh_url :: "string option"
  fh_socket :: "string option"
  fh_description :: "string option"
  fh_template :: "template_config option"

text \<open>
  The sections of a file. \<open>fc_plain\<close> gives the optional scalars that are copied to
  a variable as they are, by their path in the file, as the text that
  \<open>setString\<close>, \<open>setBool\<close> or \<open>setInt\<close> writes.
\<close>

record file_config =
  fc_version :: "int option"
  fc_trailing :: bool                    \<comment> \<open>more documents follow the first\<close>
  fc_plain :: "string \<Rightarrow> string option"
  fc_forward_request_id :: yaml_node
  fc_base_url :: "string option"
  fc_url_path :: "string option"
  fc_listen_addr :: "string option"
  fc_health_socket :: "string option"
  fc_api_key :: "string option"
  fc_poll_channels :: "string list option"
  fc_control_headers :: extra_headers
  fc_servers :: "file_server list"
  fc_commands :: "file_command list"
  fc_mcp_headers :: extra_headers
  fc_discovery_headers :: extra_headers
  fc_trusted_origins :: "string list option"
  fc_forward_origins :: "string list option"
  fc_transports :: "string list"
  fc_suffixes :: "string list"
  fc_regexes :: "string list"
  fc_targets :: "file_target list"
  fc_cloudflared :: bool                 \<comment> \<open>any field of that section is set\<close>
  fc_cloudflared_token :: "string option"
  fc_allow_remote :: "bool option"
  fc_open_browser :: "bool option"
  fc_log_buffer :: "int option"
  fc_capture :: "bool option"
  fc_check_interval :: "string option"

definition validateFileHarpoonTarget :: "int option \<Rightarrow> file_target \<Rightarrow> goerr" where
  "validateFileHarpoonTarget configVersion target =
     (if trim_space (fh_label target) = [] then fails ''harpoon.targets entry requires label''
      else case fh_template target of
        None \<Rightarrow> fail_if (case fh_url target of None \<Rightarrow> True | Some u \<Rightarrow> trim_space u = []) ''requires url or template''
      | Some t \<Rightarrow>
          if configVersion \<noteq> Some 2 then fails ''template requires config_version: 2''
          else if fh_url target \<noteq> None \<or> fh_socket target \<noteq> None then fails ''template cannot be combined with url or unix_socket''
          else fail_if (tc_version t \<noteq> 1) ''template version must be 1'')"

definition validateRuntimeFullOnlyCompatibility :: "config_env \<Rightarrow> file_config \<Rightarrow> goerr" where
  "validateRuntimeFullOnlyCompatibility env c =
     (if fc_allow_remote c = Some True then fails ''rejects non-default admin_ui.allow_remote''
      else if fc_open_browser c = Some True then fails ''rejects non-default admin_ui.open_browser''
      else if fc_log_buffer c \<notin> {None, Some 2000} then fails ''rejects non-default admin_ui.log_buffer_events''
      else if fc_capture c = Some True then fails ''rejects non-default harpoon.capture_payloads''
      else case fc_check_interval c of
        None \<Rightarrow> nil_err
      | Some raw \<Rightarrow> (case ce_duration env raw of
          None \<Rightarrow> fails ''rejects invalid proxy.check_interval''
        | Some interval \<Rightarrow> fail_if (interval \<noteq> seconds 60) ''rejects non-default proxy.check_interval''))"

fun first_refusal :: "('a \<Rightarrow> goerr) \<Rightarrow> 'a list \<Rightarrow> goerr" where
  "first_refusal f [] = nil_err"
| "first_refusal f (x # xs) = (if f x \<noteq> nil_err then f x else first_refusal f xs)"

text \<open>\<open>parseFileConfig\<close> after the decoder.\<close>

definition parseFileConfig :: "config_env \<Rightarrow> bool \<Rightarrow> bool \<Rightarrow> file_config \<Rightarrow> goerr + file_config" where
  "parseFileConfig env allowCloudflared allowFullOnly c =
     unless_err (fail_if (fc_version c \<notin> {None, Some 1, Some 2}) ''unsupported config_version'') (
     unless_err (fail_if (fc_version c = Some 2 \<and> fc_trailing c) ''exactly one YAML document is required'') (
     unless_err (first_refusal (validateFileHarpoonTarget (fc_version c)) (fc_targets c)) (
     unless_err (fail_if (\<not> allowCloudflared \<and> fc_cloudflared c) ''rejects cloudflared settings'') (
     unless_err (if allowFullOnly then nil_err else validateRuntimeFullOnlyCompatibility env c) (
     Inr c)))))"

section \<open>From a file to variables\<close>

definition nonempty_field :: "string \<Rightarrow> string option \<Rightarrow> string list" where
  "nonempty_field key v = (case v of None \<Rightarrow> [] | Some s \<Rightarrow> if s \<noteq> [] then [key @ ''='' @ s] else [])"

definition server_entry :: "config_env \<Rightarrow> lookup_env \<Rightarrow> file_server \<Rightarrow> goerr + string" where
  "server_entry env lookupEnv entry =
     (if trim_space (fs_url entry) = [] then Inl (fails ''mcp.server_urls entry requires url'')
      else and_then (resolveConfigValueReference env (fs_url entry) lookupEnv) (\<lambda>urlValue.
        and_then (case fs_socket entry of
            Some s \<Rightarrow> if s \<noteq> [] then and_then (resolvePathReference s lookupEnv) (\<lambda>path. Inr [''unix-socket='' @ path]) else Inr []
          | None \<Rightarrow> Inr []) (\<lambda>socket.
        Inr (join_by '','' (nonempty_field ''channel'' (fs_channel entry) @ [''url='' @ urlValue] @ socket @
          nonempty_field ''http-proxy'' (fs_proxy entry) @ nonempty_field ''client-cert'' (fs_cert entry) @
          nonempty_field ''client-key'' (fs_key entry))))))"

definition formatResolvedMCPServerURLEntries :: "config_env \<Rightarrow> lookup_env \<Rightarrow> file_server list \<Rightarrow> goerr + string list" where
  "formatResolvedMCPServerURLEntries env lookupEnv = all_results (server_entry env lookupEnv)"

definition command_entry :: "config_env \<Rightarrow> lookup_env \<Rightarrow> file_command \<Rightarrow> goerr + string" where
  "command_entry env lookupEnv entry =
     (if trim_space (fd_command entry) = [] then Inl (fails ''mcp.commands entry requires command'')
      else and_then (resolveConfigValueReference env (fd_command entry) lookupEnv) (\<lambda>commandValue.
        Inr (join_by '','' (nonempty_field ''channel'' (fd_channel entry) @ [''command='' @ commandValue]))))"

definition formatResolvedMCPCommandEntries :: "config_env \<Rightarrow> lookup_env \<Rightarrow> file_command list \<Rightarrow> goerr + string list" where
  "formatResolvedMCPCommandEntries env lookupEnv = all_results (command_entry env lookupEnv)"

definition refusal_of :: "goerr + 'a \<Rightarrow> goerr" where
  "refusal_of r = (case r of Inl err \<Rightarrow> err | Inr _ \<Rightarrow> nil_err)"

definition validateFileOAuthTrustedOrigins :: "config_env \<Rightarrow> string list \<Rightarrow> goerr" where
  "validateFileOAuthTrustedOrigins env = first_refusal (\<lambda>raw. refusal_of (parseOAuthTrustedOrigin env raw))"

definition validateFileOAuthForwardOrigins :: "config_env \<Rightarrow> string list \<Rightarrow> goerr" where
  "validateFileOAuthForwardOrigins env = first_refusal (\<lambda>raw. refusal_of (parseOAuthForwardOrigin env raw))"

definition forward_names :: "yaml_node \<Rightarrow> goerr + string list option" where
  "forward_names node = (case node of
     NoNode \<Rightarrow> Inr None
   | TextNode s \<Rightarrow> Inr (Some [s])
   | ListNode (Some names) \<Rightarrow> Inr (Some names)
   | _ \<Rightarrow> Inl (fails ''forward_request_id must be a comma-separated string or list of surfaces''))"

definition setResolvedString ::
    "config_env \<Rightarrow> lookup_env \<Rightarrow> string \<Rightarrow> string option \<Rightarrow> goerr + (string \<times> string) list" where
  "setResolvedString env lookupEnv key v = (case v of
     None \<Rightarrow> Inr []
   | Some raw \<Rightarrow> and_then (resolveConfigValueReference env raw lookupEnv) (\<lambda>resolved. Inr [(key, resolved)]))"

definition header_setting :: "config_env \<Rightarrow> string \<Rightarrow> extra_headers \<Rightarrow> goerr + (string \<times> string) list" where
  "header_setting env key headers =
     (if headers = [] then Inr [] else and_then (encodeExtraHeaderMap env headers) (\<lambda>text. Inr [(key, text)]))"

definition joined :: "string \<Rightarrow> string \<Rightarrow> string list \<Rightarrow> (string \<times> string) list" where
  "joined key sep xs = (if xs = [] then [] else [(key, join_by sep xs)])"

definition plain_variables :: "(string \<times> string) list" where
  "plain_variables =
     [(''CA_BUNDLE'', ''ca_bundle''),
      (''TUNNEL_CLIENT_HTTP_PROXY'', ''http_proxy''),
      (''CONTROL_PLANE_TUNNEL_ID'', ''control_plane.tunnel_id''),
      (''CONTROL_PLANE_AWS_IDENTITY_PROVIDER_ID'', ''control_plane.aws_identity_provider_id''),
      (''CONTROL_PLANE_AWS_SERVICE_ACCOUNT_ID'', ''control_plane.aws_service_account_id''),
      (''CONTROL_PLANE_ORGANIZATION_ID'', ''control_plane.organization_id''),
      (''CONTROL_PLANE_CLIENT_CERT'', ''control_plane.client_cert''),
      (''CONTROL_PLANE_CLIENT_KEY'', ''control_plane.client_key''),
      (''CONTROL_PLANE_HTTP_PROXY'', ''control_plane.http_proxy''),
      (''CONTROL_PLANE_MAX_INFLIGHT_REQUESTS'', ''control_plane.max_inflight_requests''),
      (''CONTROL_PLANE_POLL_TIMEOUT'', ''control_plane.poll_timeout''),
      (''CONTROL_PLANE_POLL_DEADLINE_GUARDRAIL'', ''control_plane.poll_deadline_guardrail''),
      (''LOG_LEVEL'', ''log.level''),
      (''LOG_FORMAT'', ''log.format''),
      (''LOG_FILE'', ''log.file''),
      (''LOG_HTTP_RAW_UNSAFE'', ''log.http_raw_unsafe''),
      (''TRACING_ENABLED'', ''tracing.enabled''),
      (''TRACING_FILE'', ''tracing.file''),
      (''HEALTH_URL_FILE'', ''health.url_file''),
      (''HEALTH_SHOW_DETAILS'', ''health.show_details''),
      (''ALLOW_REMOTE_UI'', ''admin_ui.allow_remote''),
      (''OPEN_WEB_UI'', ''admin_ui.open_browser''),
      (''ADMIN_UI_LOG_BUFFER_EVENTS'', ''admin_ui.log_buffer_events''),
      (''PID_FILE'', ''process.pid_file''),
      (''CLOUDFLARED_MANAGED'', ''cloudflared.managed''),
      (''CLOUDFLARED_PATH'', ''cloudflared.path''),
      (''CLOUDFLARED_READY_TIMEOUT'', ''cloudflared.ready_timeout''),
      (''MCP_HTTP_PROXY'', ''mcp.http_proxy''),
      (''MCP_CLIENT_CERT'', ''mcp.client_cert''),
      (''MCP_CLIENT_KEY'', ''mcp.client_key''),
      (''MCP_STARTUP_WAIT_TIMEOUT'', ''mcp.startup_wait_timeout''),
      (''MCP_STDIO_FAILURE_POLICY'', ''mcp.stdio_failure_policy''),
      (''MCP_STDIO_SEND_INITIALIZED_NOTIFICATION'', ''mcp.stdio_send_initialized_notification''),
      (''MCP_FORWARD_TRACE_CONTEXT'', ''mcp.forward_trace_context''),
      (''MCP_CONNECTION_MAX_TTL'', ''mcp.connection_max_ttl''),
      (''MCP_MAX_CONCURRENT_REQUESTS'', ''mcp.max_concurrent_requests''),
      (''HARPOON_ALLOW_PLAINTEXT_HTTP'', ''harpoon.allow_plaintext_http''),
      (''HARPOON_MAX_RESPONSE_BYTES'', ''harpoon.max_response_bytes''),
      (''HARPOON_MAX_REDIRECTS'', ''harpoon.max_redirects''),
      (''HARPOON_HTTP_PROXY'', ''harpoon.http_proxy''),
      (''HARPOON_CAPTURE_PAYLOADS'', ''harpoon.capture_payloads''),
      (''HARPOON_HOSTS_INCLUDE_LOOPBACK'', ''harpoon.hosts_include_loopback''),
      (''HARPOON_HOSTS_INCLUDE_PRIVATE'', ''harpoon.hosts_include_private''),
      (''PROXY_CHECK_INTERVAL'', ''proxy.check_interval'')]"

definition plain_settings :: "file_config \<Rightarrow> (string \<times> string) list" where
  "plain_settings c = concat (map (\<lambda>(key, path). case fc_plain c path of None \<Rightarrow> [] | Some s \<Rightarrow> [(key, s)]) plain_variables)"

definition origin_setting :: "string \<Rightarrow> (string list \<Rightarrow> goerr) \<Rightarrow> string list option \<Rightarrow> goerr + (string \<times> string) list" where
  "origin_setting key check origins = (case origins of
     None \<Rightarrow> Inr []
   | Some os \<Rightarrow> unless_err (check os) (Inr [(key, join_by [CHR 0x0A] os)]))"

definition toEnv :: "config_env \<Rightarrow> lookup_env \<Rightarrow> file_config \<Rightarrow> goerr + (string \<times> string) list" where
  "toEnv env lookupEnv c =
     and_then (forward_names (fc_forward_request_id c)) (\<lambda>names.
     and_then (case names of
         None \<Rightarrow> Inr []
       | Some ns \<Rightarrow> and_then (parseRequestIDForwarding (join_by '','' ns)) (\<lambda>_.
           Inr [(''FORWARD_REQUEST_ID'', join_by '','' ns)])) (\<lambda>forward.
     and_then (setResolvedString env lookupEnv ''CONTROL_PLANE_BASE_URL'' (fc_base_url c)) (\<lambda>baseURL.
     and_then (setResolvedString env lookupEnv ''CONTROL_PLANE_URL_PATH'' (fc_url_path c)) (\<lambda>urlPath.
     and_then (setResolvedString env lookupEnv ''CONTROL_PLANE_API_KEY'' (fc_api_key c)) (\<lambda>apiKey.
     and_then (header_setting env ''CONTROL_PLANE_EXTRA_HEADERS'' (fc_control_headers c)) (\<lambda>controlHeaders.
     and_then (setResolvedString env lookupEnv ''HEALTH_LISTEN_ADDR'' (fc_listen_addr c)) (\<lambda>listenAddr.
     and_then (setResolvedString env lookupEnv ''HEALTH_UNIX_SOCKET'' (fc_health_socket c)) (\<lambda>healthSocket.
     and_then (formatResolvedMCPServerURLEntries env lookupEnv (fc_servers c)) (\<lambda>servers.
     and_then (formatResolvedMCPCommandEntries env lookupEnv (fc_commands c)) (\<lambda>commands.
     and_then (header_setting env ''MCP_EXTRA_HEADERS'' (fc_mcp_headers c)) (\<lambda>mcpHeaders.
     and_then (header_setting env ''MCP_DISCOVERY_EXTRA_HEADERS'' (fc_discovery_headers c)) (\<lambda>discoveryHeaders.
     and_then (origin_setting ''MCP_OAUTH_TRUSTED_ORIGINS'' (validateFileOAuthTrustedOrigins env) (fc_trusted_origins c)) (\<lambda>trusted.
     and_then (origin_setting ''HARPOON_OAUTH_FORWARD_ORIGINS'' (validateFileOAuthForwardOrigins env) (fc_forward_origins c)) (\<lambda>approved.
     Inr (trusted @ approved @ forward @ baseURL @ urlPath @ apiKey @ controlHeaders @ listenAddr @ healthSocket @
       mcpHeaders @ discoveryHeaders @ joined ''MCP_SERVER_URL'' [CHR 0x0A] servers @ joined ''MCP_COMMAND'' [CHR 0x0A] commands @
       (case fc_poll_channels c of None \<Rightarrow> [] | Some cs \<Rightarrow> [(''CONTROL_PLANE_POLL_CHANNELS'', join_by '','' cs)]) @
       joined ''HARPOON_ADDITIONAL_TRANSPORTS'' '';'' (fc_transports c) @ joined ''HARPOON_HOSTS_INCLUDE_SUFFIX'' '';'' (fc_suffixes c) @
       joined ''HARPOON_HOSTS_INCLUDE_REGEX'' '';'' (fc_regexes c) @ plain_settings c)))))))))))))))"

section \<open>Loading\<close>

record file_values =
  fx_env :: "(string \<times> string) list"
  fx_token :: "string option"
  fx_targets :: "file_target list option"      \<comment> \<open>\<open>None\<close> when a flag or variable overrides them\<close>

text \<open>
  \<open>loadFileConfigValues\<close>, given the decoded file. A setting that a flag or a
  variable overrides is dropped before its references are resolved.
\<close>

definition drop_overridden :: "flag_set \<Rightarrow> lookup_env \<Rightarrow> file_config \<Rightarrow> file_config" where
  "drop_overridden fs lookupEnv c =
     (let over = configValueOverridden fs lookupEnv in
      c\<lparr>fc_forward_request_id := (if over ''forward-request-id'' ''FORWARD_REQUEST_ID'' then NoNode else fc_forward_request_id c),
        fc_targets := [],
        fc_control_headers := (if over ''control-plane.extra-headers'' ''CONTROL_PLANE_EXTRA_HEADERS'' then [] else fc_control_headers c),
        fc_mcp_headers := (if over ''mcp.extra-headers'' ''MCP_EXTRA_HEADERS'' then [] else fc_mcp_headers c),
        fc_discovery_headers := (if over ''mcp.discovery-extra-headers'' ''MCP_DISCOVERY_EXTRA_HEADERS'' then [] else fc_discovery_headers c),
        fc_trusted_origins := (if over ''mcp.oauth-trusted-origin'' ''MCP_OAUTH_TRUSTED_ORIGINS'' then None else fc_trusted_origins c),
        fc_forward_origins := (if over ''harpoon.oauth-forward-origin'' ''HARPOON_OAUTH_FORWARD_ORIGINS'' then None else fc_forward_origins c)\<rparr>)"

definition loadFileConfigValues ::
    "config_env \<Rightarrow> flag_set \<Rightarrow> lookup_env \<Rightarrow> bool \<Rightarrow> bool \<Rightarrow> file_config option \<Rightarrow> goerr + file_values option" where
  "loadFileConfigValues env fs lookupEnv allowCloudflared allowFullOnly decoded = (case decoded of
     None \<Rightarrow> Inr None
   | Some file \<Rightarrow>
       and_then (parseFileConfig env allowCloudflared allowFullOnly file) (\<lambda>cfg.
       and_then (toEnv env lookupEnv (drop_overridden fs lookupEnv cfg)) (\<lambda>variables.
       Inr (Some \<lparr>fx_env = variables, fx_token = fc_cloudflared_token cfg,
         fx_targets = (if configValueOverridden fs lookupEnv ''harpoon.target'' ''HARPOON_TARGETS'' \<or> fc_targets cfg = []
                       then None else Some (fc_targets cfg))\<rparr>))))"

definition file_lookup :: "lookup_env \<Rightarrow> file_values option \<Rightarrow> lookup_env" where
  "file_lookup lookupEnv vs = lookupEnvWithFileValues lookupEnv (map_option (\<lambda>v. map_of (fx_env v)) vs)"

definition resolve_template :: "config_env \<Rightarrow> lookup_env \<Rightarrow> template_config \<Rightarrow> goerr + template_config" where
  "resolve_template env lookupEnv t =
     and_then (normalized_headers (tc_headers t)) (\<lambda>headers.
     and_then (all_results (resolve_header env lookupEnv) headers) (\<lambda>resolved.
     and_then (normalized_headers resolved) (\<lambda>normalized.
     Inr (t\<lparr>tc_headers := normalized\<rparr>))))"

text \<open>The missing URL of the last case cannot occur behind \<open>parseFileConfig\<close>; the code would panic.\<close>

definition resolve_file_target :: "config_env \<Rightarrow> lookup_env \<Rightarrow> bool \<Rightarrow> file_target \<Rightarrow> goerr + target_setting" where
  "resolve_file_target env lookupEnv allowPlaintext target =
     (let label = trim_space (fh_label target);
          description = (case fh_description target of None \<Rightarrow> [] | Some d \<Rightarrow> d) in
      if \<not> labelPattern label then Inl (fails ''harpoon.targets label'')
      else case fh_template target of
        Some t \<Rightarrow> and_then (resolve_template env lookupEnv t) (\<lambda>t'.
          Inr \<lparr>hg_label = label, hg_description = description, hg_base = None, hg_socket = [], hg_template = Some t'\<rparr>)
      | None \<Rightarrow>
          and_then (or_fail ''nil pointer'' (fh_url target)) (\<lambda>rawURL.
          and_then (resolveConfigValueReference env rawURL lookupEnv) (\<lambda>targetURL.
          and_then (parse_setting_url env targetURL) (\<lambda>u.
          unless_err (fail_if (\<not> allowPlaintext \<and> \<not> equal_fold (u_scheme u) ''https'') ''https is required'') (
          and_then (case fh_socket target of None \<Rightarrow> Inr [] | Some s \<Rightarrow> resolvePathReference s lookupEnv) (\<lambda>socket.
          Inr \<lparr>hg_label = label, hg_description = description, hg_base = Some u, hg_socket = socket, hg_template = None\<rparr>))))))"

definition resolveFileHarpoonTargets ::
    "config_env \<Rightarrow> lookup_env \<Rightarrow> bool \<Rightarrow> file_target list \<Rightarrow> goerr + target_setting list" where
  "resolveFileHarpoonTargets env lookupEnv allowPlaintext = all_results (resolve_file_target env lookupEnv allowPlaintext)"

section \<open>The whole configuration\<close>

datatype log_format = LogFormatUnset | LogFormatStructText | LogFormatJSON

record logging_settings =
  lg_level :: int
  lg_format :: log_format
  lg_file :: string
  lg_raw_unsafe :: bool

definition ParseLogFormat :: "string \<Rightarrow> goerr + log_format" where
  "ParseLogFormat raw =
     (if raw = [] then Inr LogFormatUnset
      else if to_lower raw = ''struct-text'' then Inr LogFormatStructText
      else if to_lower raw = ''json'' then Inr LogFormatJSON
      else Inl (fails ''unsupported log format''))"

definition buildLoggingConfig :: "config_env \<Rightarrow> flag_set \<Rightarrow> lookup_env \<Rightarrow> goerr + logging_settings" where
  "buildLoggingConfig env fs lookupEnv =
     (let levelRaw = firstSet [getValue fs ''log.level'', envOrDefault lookupEnv ''LOG_LEVEL'' ''info''];
          logFile = (case changedStringFlag fs ''log.file'' of Some f \<Rightarrow> f | None \<Rightarrow> envOrDefault lookupEnv ''LOG_FILE'' []);
          formatFlag = getValue fs ''log.format''; formatEnv = envOrDefault lookupEnv ''LOG_FORMAT'' [];
          formatRaw = firstSet [formatFlag, formatEnv, if logFile \<noteq> [] then ''struct-text'' else []] in
      and_then (ParseLogFormat formatRaw) (\<lambda>format.
      unless_err (fail_if (\<not> equal_fold levelRaw ''info'' \<and> format = LogFormatUnset) ''log level requires a log format'') (
      unless_err (fail_if (format = LogFormatUnset \<and> logFile \<noteq> [] \<and> formatFlag = [] \<and> formatEnv = [])
        ''file is only supported for json or struct-text'') (
      and_then (getBool fs lookupEnv ''log.http-raw-unsafe'' ''LOG_HTTP_RAW_UNSAFE'') (\<lambda>rawUnsafe.
      and_then (if levelRaw = [] then Inr 0 else or_fail ''parse log level'' (ce_level env levelRaw)) (\<lambda>level.
      Inr \<lparr>lg_level = level, lg_format = format, lg_file = logFile, lg_raw_unsafe = rawUnsafe\<rparr>))))))"

record tracing_settings =
  tr_enabled :: bool
  tr_file :: string

definition buildTracingConfig :: "flag_set \<Rightarrow> lookup_env \<Rightarrow> goerr + tracing_settings" where
  "buildTracingConfig fs lookupEnv =
     and_then (getBool fs lookupEnv ''tracing.enabled'' ''TRACING_ENABLED'') (\<lambda>enabled.
     let file = (case fs ''tracing.file'' of Some f \<Rightarrow> fv_text f
                 | None \<Rightarrow> (case lookupEnv ''TRACING_FILE'' of None \<Rightarrow> [] | Some v \<Rightarrow> v)) in
     unless_err (fail_if (enabled \<and> trim_space file = []) ''tracing.file is required when tracing.enabled is true'') (
     Inr \<lparr>tr_enabled = enabled, tr_file = file\<rparr>))"

record health_settings =
  he_listen :: string
  he_socket :: string
  he_url_file :: string
  he_details :: bool

definition buildHealthConfig :: "flag_set \<Rightarrow> lookup_env \<Rightarrow> goerr + health_settings" where
  "buildHealthConfig fs lookupEnv =
     and_then (getBool fs lookupEnv ''health.show-details'' ''HEALTH_SHOW_DETAILS'') (\<lambda>details.
     Inr \<lparr>he_listen = firstSet [getValue fs ''health.listen-addr'', envOrDefault lookupEnv ''HEALTH_LISTEN_ADDR'' ''127.0.0.1:8080''],
          he_socket = firstSet [getValue fs ''health.unix-socket'', envOrDefault lookupEnv ''HEALTH_UNIX_SOCKET'' []],
          he_url_file = firstSet [getValue fs ''health.url-file'', envOrDefault lookupEnv ''HEALTH_URL_FILE'' []],
          he_details = details\<rparr>)"

definition buildProcessConfig :: "flag_set \<Rightarrow> lookup_env \<Rightarrow> string" where
  "buildProcessConfig fs lookupEnv = firstSet [getValue fs ''pid.file'', envOrDefault lookupEnv ''PID_FILE'' []]"

definition LoadBundle :: "config_env \<Rightarrow> string \<Rightarrow> goerr + string option" where
  "LoadBundle env rawPath = (let path = trim_space rawPath in
     if path = [] then Inr None
     else and_then (or_fail ''read CA bundle'' (ce_read env path)) (\<lambda>contents.
       if \<not> ce_bundle env contents then Inl (fails ''PEM bundle contained no certificates'') else Inr (Some path)))"

definition buildTLSBundle :: "config_env \<Rightarrow> flag_set \<Rightarrow> lookup_env \<Rightarrow> goerr + string option" where
  "buildTLSBundle env fs lookupEnv =
     (let path = (case fs ''ca-bundle'' of Some f \<Rightarrow> trim_space (fv_text f)
                  | None \<Rightarrow> trim_space (envOrDefault lookupEnv ''CA_BUNDLE'' [])) in
      if path = [] then Inr None
      else and_then (resolvePathReference path lookupEnv) (LoadBundle env))"

record cloudflared_settings =
  cl_token :: string
  cl_managed :: bool
  cl_path :: string
  cl_ready_timeout :: duration

definition cloudflared_enabled :: "cloudflared_settings \<Rightarrow> bool" where
  "cloudflared_enabled c \<longleftrightarrow> trim_space (cl_token c) \<noteq> [] \<or> cl_managed c"

definition resolveCloudflaredManaged :: "flag_set \<Rightarrow> lookup_env \<Rightarrow> goerr + bool" where
  "resolveCloudflaredManaged fs lookupEnv = (case fs ''cloudflared.managed'' of
     Some f \<Rightarrow> or_fail ''parse --cloudflared.managed'' (fv_bool f)
   | None \<Rightarrow> (case lookupEnv ''CLOUDFLARED_MANAGED'' of
       Some envVal \<Rightarrow> if envVal \<noteq> [] then or_fail ''parse CLOUDFLARED_MANAGED'' (ParseBool envVal) else Inr False
     | None \<Rightarrow> Inr False))"

definition cloudflared_token :: "config_env \<Rightarrow> flag_set \<Rightarrow> lookup_env \<Rightarrow> string option \<Rightarrow> goerr + string" where
  "cloudflared_token env fs lookupEnv fileToken =
     (let raw = getValue fs ''cloudflared.token'' in
      if raw \<noteq> [] then resolveRequiredSecretReference env raw lookupEnv
      else case lookupEnv ''CLOUDFLARED_TUNNEL_TOKEN'' of
        Some envToken \<Rightarrow>
          if trim_space envToken = [] then Inl (fails ''CLOUDFLARED_TUNNEL_TOKEN is set but empty'') else Inr (trim_space envToken)
      | None \<Rightarrow> (case fileToken of
          Some reference \<Rightarrow> resolveRequiredSecretReference env reference lookupEnv
        | None \<Rightarrow> Inr []))"

definition buildCloudflaredSettings ::
    "config_env \<Rightarrow> flag_set \<Rightarrow> lookup_env \<Rightarrow> string option \<Rightarrow> goerr + cloudflared_settings" where
  "buildCloudflaredSettings env fs lookupEnv fileToken =
     and_then (cloudflared_token env fs lookupEnv fileToken) (\<lambda>token.
     and_then (resolveCloudflaredManaged fs lookupEnv) (\<lambda>managed.
     and_then (duration_setting env fs lookupEnv ''cloudflared.ready-timeout'' ''CLOUDFLARED_READY_TIMEOUT'' ''30s'') (\<lambda>readyTimeout.
     unless_err (fail_if (readyTimeout \<le> 0) ''cloudflared.ready-timeout must be positive'') (
     Inr \<lparr>cl_token = token, cl_managed = managed,
          cl_path = trim_space (firstSet [getValue fs ''cloudflared.path'', envOrDefault lookupEnv ''CLOUDFLARED_PATH'' []]),
          cl_ready_timeout = readyTimeout\<rparr>))))"

record runtime_config =
  rc_control :: control_settings
  rc_logging :: logging_settings
  rc_tracing :: tracing_settings
  rc_health :: health_settings
  rc_pid_file :: string
  rc_mcp :: mcp_settings
  rc_harpoon :: harpoon_settings
  rc_bundle :: "string option"

datatype flavor = FlavorFull | FlavorRuntime | FlavorRuntimeCloudflared

definition isDisabledBoolValue :: "string \<Rightarrow> bool option" where
  "isDisabledBoolValue raw = (if raw = [] then Some True else map_option Not (ParseBool raw))"

definition full_only_env :: "config_env \<Rightarrow> (string \<times> (string \<Rightarrow> bool option)) list" where
  "full_only_env env =
     [(''ALLOW_REMOTE_UI'', isDisabledBoolValue), (''OPEN_WEB_UI'', isDisabledBoolValue),
      (''ADMIN_UI_LOG_BUFFER_EVENTS'', \<lambda>raw. map_option (\<lambda>n. n = 2000) (Atoi raw)),
      (''PROXY_CHECK_INTERVAL'', \<lambda>raw. map_option (\<lambda>d. d = seconds 60) (ce_duration env raw)),
      (''HARPOON_CAPTURE_PAYLOADS'', isDisabledBoolValue)]"

definition rejectUnsupportedRuntimeSettings :: "config_env \<Rightarrow> flag_set \<Rightarrow> lookup_env \<Rightarrow> bool \<Rightarrow> goerr" where
  "rejectUnsupportedRuntimeSettings env fs lookupEnv allowCloudflared =
     (if list_ex (\<lambda>name. fs name \<noteq> None) [''allow-remote-ui'', ''open-web-ui'', ''admin-ui.log-buffer-events'',
           ''proxy.check-interval'', ''harpoon.capture-payloads'']
      then fails ''runtime configuration rejects full-client-only flag''
      else if list_ex (\<lambda>(name, isDefault). case lookupEnv name of None \<Rightarrow> False | Some raw \<Rightarrow> isDefault raw \<noteq> Some True)
           (full_only_env env)
      then fails ''runtime configuration rejects full-client-only environment variable''
      else if allowCloudflared then nil_err
      else if list_ex (\<lambda>name. fs name \<noteq> None) [''cloudflared.token'', ''cloudflared.managed'', ''cloudflared.path'',
           ''cloudflared.ready-timeout'']
      then fails ''runtime configuration rejects cloudflared flag''
      else fail_if (list_ex (\<lambda>name. lookupEnv name \<noteq> None) [''CLOUDFLARED_TUNNEL_TOKEN'', ''CLOUDFLARED_MANAGED'',
           ''CLOUDFLARED_PATH'', ''CLOUDFLARED_READY_TIMEOUT'']) ''runtime configuration rejects cloudflared environment variable'')"

text \<open>Whether a structured header rule is configured, which silences raw HTTP logs.\<close>

fun structured_rules :: "target_setting list \<Rightarrow> goerr + bool" where
  "structured_rules [] = Inr False"
| "structured_rules (t # ts) = (case hg_template t of
     None \<Rightarrow> structured_rules ts
   | Some policy \<Rightarrow>
       and_then (NormalizedHeaderRules policy) (\<lambda>rules.
       and_then (structured_rules ts) (\<lambda>later. Inr (list_ex (\<lambda>r. \<not> hr_legacy r) rules \<or> later))))"

definition loadRuntimeFromFlagSet ::
    "config_env \<Rightarrow> flag_set \<Rightarrow> lookup_env \<Rightarrow> flavor \<Rightarrow> string \<Rightarrow> file_config option \<Rightarrow> goerr + runtime_config" where
  "loadRuntimeFromFlagSet env flags environ fl mainServerURL decoded =
     (let allowCloudflared = (fl = FlavorRuntimeCloudflared \<or> fl = FlavorFull); allowFullOnly = (fl = FlavorFull) in
      unless_err (if allowFullOnly then nil_err else rejectUnsupportedRuntimeSettings env flags environ allowCloudflared) (
      let fs = applyFlagAliases flags in
      and_then (loadFileConfigValues env fs environ allowCloudflared allowFullOnly decoded) (\<lambda>fileValues.
      let lookupEnv = file_lookup environ fileValues in
      and_then (resolveRequestIDForwarding fs lookupEnv) (\<lambda>forwardRequestID.
      and_then (buildTLSBundle env fs lookupEnv) (\<lambda>tlsBundle.
      and_then (resolveProxyFlag env fs lookupEnv ''http-proxy'') (\<lambda>globalProxy.
      and_then (buildControlPlaneConfig env fs lookupEnv globalProxy) (\<lambda>controlPlane.
      and_then (buildMCPConfig env fs lookupEnv globalProxy mainServerURL) (\<lambda>mcp.
      and_then (buildLoggingConfig env fs lookupEnv) (\<lambda>logging.
      and_then (buildTracingConfig fs lookupEnv) (\<lambda>tracing.
      and_then (buildHealthConfig fs lookupEnv) (\<lambda>health.
      and_then (buildHarpoonConfig env fs lookupEnv globalProxy) (\<lambda>built.
      and_then (case fileValues of
          Some v \<Rightarrow> (case fx_targets v of
              Some ts \<Rightarrow> and_then (resolveFileHarpoonTargets env lookupEnv (hc_plaintext built) ts) (\<lambda>targets.
                Inr (built\<lparr>hc_targets := targets\<rparr>))
            | None \<Rightarrow> Inr built)
        | None \<Rightarrow> Inr built) (\<lambda>harpoon.
      and_then (structured_rules (hc_targets harpoon)) (\<lambda>structured.
      unless_err (validateConfiguredPollChannels controlPlane mcp harpoon) (
      Inr \<lparr>rc_control = controlPlane\<lparr>cs_trace_context := tr_enabled tracing, cs_suppress_raw := structured\<rparr>,
           rc_logging = logging, rc_tracing = tracing, rc_health = health, rc_pid_file = buildProcessConfig fs lookupEnv,
           rc_mcp = mcp\<lparr>ms_forward_request_id := forwardRequestID, ms_trace_context := tr_enabled tracing,
             ms_allow_no_main := (cs_channels_configured controlPlane \<and> DefaultChannel \<notin> set (cs_channels controlPlane))\<rparr>,
           rc_harpoon = harpoon, rc_bundle = tlsBundle\<rparr>)))))))))))))))"

section \<open>What a loaded configuration guarantees\<close>

lemma loadRuntime_parts:
  assumes "loadRuntimeFromFlagSet env flags environ fl url decoded = Inr cfg"
  obtains fs lookupEnv globalProxy c m where
    "buildControlPlaneConfig env fs lookupEnv globalProxy = Inr c" "buildMCPConfig env fs lookupEnv globalProxy url = Inr m"
    "validateConfiguredPollChannels c m (rc_harpoon cfg) = nil_err"
    "cs_channels (rc_control cfg) = cs_channels c" "cs_channels_configured (rc_control cfg) = cs_channels_configured c"
    "ms_bindings (rc_mcp cfg) = ms_bindings m"
    "structured_rules (hc_targets (rc_harpoon cfg)) = Inr (cs_suppress_raw (rc_control cfg))"
  using assms unfolding loadRuntimeFromFlagSet_def Let_def policy_simps sum.inject
  apply (elim exE conjE)
  apply hypsubst
  apply (rule that)
        apply assumption
       apply assumption
      apply simp_all
  done

definition has_structured_rule :: "target_setting \<Rightarrow> bool" where
  "has_structured_rule t = (case hg_template t of
     None \<Rightarrow> False
   | Some policy \<Rightarrow> (case NormalizedHeaderRules policy of Inl _ \<Rightarrow> False | Inr rules \<Rightarrow> list_ex (\<lambda>r. \<not> hr_legacy r) rules))"

lemma structured_rules_iff: "structured_rules ts = Inr b \<Longrightarrow> b = list_ex has_structured_rule ts"
  by (induction ts arbitrary: b) (auto simp: policy_simps has_structured_rule_def split: option.splits)


lemma example_runtime_loads:
  "case loadRuntimeFromFlagSet example_config_env example_flags example_lookup FlavorRuntime [] None of
     Inr cfg \<Rightarrow> cs_channels_configured (rc_control cfg) \<and> cs_channels (rc_control cfg) = [''files'', ''main'']
   | Inl _ \<Rightarrow> False"
  by code_simp


section \<open>Origins of a file\<close>

lemma split_by_append: "p c \<Longrightarrow> (\<And>x. x \<in> set s \<Longrightarrow> \<not> p x) \<Longrightarrow> split_by p (s @ c # t) = s # split_by p t"
  by (induction s) auto

lemma split_by_none: "(\<And>x. x \<in> set s \<Longrightarrow> \<not> p x) \<Longrightarrow> split_by p s = [s]"
  by (induction s) auto

lemma split_by_join:
  "xs \<noteq> [] \<Longrightarrow> p c \<Longrightarrow> \<forall>s \<in> set xs. \<forall>x \<in> set s. \<not> p x \<Longrightarrow> split_by p (join_by [c] xs) = xs"
proof (induction xs)
  case (Cons s ss)
  then show ?case by (cases ss) (auto simp: split_by_append split_by_none)
qed simp

lemma trim_space_Nil [simp]: "trim_space [] = []"
  by (simp add: trim_space_def trim_by_def)

lemma split_entries_join:
  assumes "\<forall>s \<in> set xs. \<not> has_line_break s \<and> trim_space s \<noteq> []"
  shows "splitMCPEnvEntries (join_by [CHR 0x0A] xs) = map trim_space xs"
proof (cases "xs = []")
  case False
  have "split_by (\<lambda>c. c = CHR 0x0A \<or> c = CHR 0x0D) (join_by [CHR 0x0A] xs) = xs"
    using assms by (intro split_by_join [OF False]) (auto simp: has_line_break_def)
  moreover have "filter (\<lambda>f. f \<noteq> []) xs = xs" "filter (\<lambda>f. f \<noteq> []) (map trim_space xs) = map trim_space xs"
    using assms by (auto simp: filter_id_conv)
  ultimately show ?thesis by (simp add: splitMCPEnvEntries_def trimmed_fields_def FieldsFunc_def)
qed (simp add: splitMCPEnvEntries_def trimmed_fields_def FieldsFunc_def)

lemma first_refusal_nil: "first_refusal f xs = nil_err \<longleftrightarrow> (\<forall>x \<in> set xs. f x = nil_err)"
  by (induction xs) auto

lemma dropWhile_all: "(\<forall>x \<in> set (dropWhile p s). p x) \<longleftrightarrow> (\<forall>x \<in> set s. p x)"
  by (induction s) auto

lemma trim_by_Nil_iff: "trim_by p s = [] \<longleftrightarrow> (\<forall>x \<in> set s. p x)"
  by (simp add: trim_by_def dropWhile_all)

text \<open>
  \<open>url.Parse\<close> refuses control characters, and it finds a host only behind two
  slashes.
\<close>

definition parses_urls :: "config_env \<Rightarrow> bool" where
  "parses_urls env \<longleftrightarrow> (\<forall>s u. ce_parse env s = Some u \<longrightarrow>
     list_all (\<lambda>c. 32 \<le> (of_char c :: nat) \<and> of_char c \<noteq> (127 :: nat)) s \<and> (u_host u \<noteq> [] \<longrightarrow> CHR ''/'' \<in> set s))"

lemma accepted_origin_text:
  assumes "parses_urls env" "parseOAuthTrustedOrigin env raw = Inr u"
  shows "\<not> has_line_break raw \<and> trim_space raw \<noteq> []"
proof -
  obtain v where v: "ce_parse env raw = Some v" "url_Hostname (url.truncate v) \<noteq> []"
    using assms(2) by (auto simp: parseOAuthTrustedOrigin_def policy_simps Let_def split: if_splits)
  then have "u_host v \<noteq> []" by (auto simp: url_Hostname_def split_host_port_def url.truncate_def has_prefix_def Let_def)
  with assms(1) v(1) have slash: "CHR ''/'' \<in> set raw" and bytes: "list_all (\<lambda>c. 32 \<le> (of_char c :: nat) \<and> of_char c \<noteq> (127 :: nat)) raw"
    by (auto simp: parses_urls_def)
  have "\<not> is_space (CHR ''/'')" by (simp add: is_space_def)
  with slash have "trim_space raw \<noteq> []" by (auto simp: trim_space_def trim_by_Nil_iff)
  with bytes show ?thesis by (fastforce simp: has_line_break_def list_all_iff)
qed

lemma accepted_forward_text:
  assumes "parses_urls env" "parseOAuthForwardOrigin env raw = Inr u"
  shows "\<not> has_line_break raw \<and> trim_space raw \<noteq> []"
  using assms accepted_origin_text by (auto simp: parseOAuthForwardOrigin_def policy_simps)

lemma refusal_nil: "refusal_of r = nil_err \<Longrightarrow> (\<And>err. r = Inl err \<Longrightarrow> err \<noteq> nil_err) \<Longrightarrow> \<exists>x. r = Inr x"
  by (cases r) (auto simp: refusal_of_def)

lemma trusted_error: "parseOAuthTrustedOrigin env raw = Inl err \<Longrightarrow> err \<noteq> nil_err"
  by (auto simp: parseOAuthTrustedOrigin_def and_then_def or_fail_def Let_def split: option.splits if_splits sum.splits)

lemma forward_error: "parseOAuthForwardOrigin env raw = Inl err \<Longrightarrow> err \<noteq> nil_err"
  using trusted_error
  by (auto simp: parseOAuthForwardOrigin_def and_then_def split: option.splits if_splits sum.splits)

text \<open>What a list of origins in the file becomes in the environment, split up again.\<close>

lemma origin_entries:
  assumes "origin_setting key check (Some origins) = Inr setting" "fs flag = None" "lookupEnv key = map_of setting key"
    and "check origins = nil_err \<Longrightarrow> \<forall>raw \<in> set origins. \<not> has_line_break raw \<and> trim_space raw \<noteq> []"
  shows "resolveMCPEntries fs lookupEnv flag key = Inr (map trim_space origins)"
proof -
  have setting: "setting = [(key, join_by [CHR 0x0A] origins)]" "check origins = nil_err"
    using assms(1) by (auto simp: origin_setting_def policy_simps)
  from split_entries_join [OF assms(4) [OF setting(2)]]
  have "splitMCPEnvEntries (join_by [CHR 0x0A] origins) = map trim_space origins" .
  moreover have "join_by [CHR 0x0A] origins = [] \<Longrightarrow> origins = []"
    using assms(4) [OF setting(2)] by (cases origins; cases "tl origins") auto
  ultimately show ?thesis
    using assms(2,3) by (auto simp: resolveMCPEntries_def setting(1))
qed

lemma loaded_origin_settings:
  assumes "loadFileConfigValues env fs environ ac af (Some file) = Inr (Some vs)"
  obtains trusted approved rest where
    "origin_setting ''MCP_OAUTH_TRUSTED_ORIGINS'' (validateFileOAuthTrustedOrigins env)
       (fc_trusted_origins (drop_overridden fs environ file)) = Inr trusted"
    "origin_setting ''HARPOON_OAUTH_FORWARD_ORIGINS'' (validateFileOAuthForwardOrigins env)
       (fc_forward_origins (drop_overridden fs environ file)) = Inr approved"
    "fx_env vs = trusted @ approved @ rest"
  using assms unfolding loadFileConfigValues_def parseFileConfig_def toEnv_def policy_simps sum.inject option.case option.inject
  apply (elim exE conjE)
  apply hypsubst
  apply (rule that)
    apply assumption
   apply assumption
  apply simp
  done

text \<open>
  C28. One entry of a configuration file never approves more than one origin: the
  lists of trusted and of forwarding origins go through an environment value that
  is split at line breaks, and what comes out is, entry by entry, the origin that
  each entry of the file names. Of \<open>url.Parse\<close> the hypothesis \<open>parses_urls\<close> takes
  that it refuses control characters and finds no host without a slash.
\<close>

theorem file_origins_one_to_one:
  assumes "parses_urls env"
    and "loadFileConfigValues env fs environ ac af (Some file) = Inr (Some vs)"
    and "\<not> configValueOverridden fs environ ''mcp.oauth-trusted-origin'' ''MCP_OAUTH_TRUSTED_ORIGINS''"
    and "\<not> configValueOverridden fs environ ''harpoon.oauth-forward-origin'' ''HARPOON_OAUTH_FORWARD_ORIGINS''"
    and "fc_trusted_origins file = Some trusted" "fc_forward_origins file = Some approved"
    and "buildOAuthTrustedOrigins env fs (file_lookup environ (Some vs)) = Inr us"
    and "buildOAuthForwardOrigins env fs (file_lookup environ (Some vs)) = Inr ws"
  shows "list_all2 (\<lambda>raw u. parseOAuthTrustedOrigin env (trim_space raw) = Inr u) trusted us \<and>
         list_all2 (\<lambda>raw u. parseOAuthForwardOrigin env (trim_space raw) = Inr u) approved ws"
proof -
  let ?lookup = "file_lookup environ (Some vs)"
  have free: "fs ''mcp.oauth-trusted-origin'' = None" "environ ''MCP_OAUTH_TRUSTED_ORIGINS'' = None"
      "fs ''harpoon.oauth-forward-origin'' = None" "environ ''HARPOON_OAUTH_FORWARD_ORIGINS'' = None"
    using assms(3,4) by (auto simp: configValueOverridden_def)
  obtain t f rest where t: "origin_setting ''MCP_OAUTH_TRUSTED_ORIGINS'' (validateFileOAuthTrustedOrigins env) (Some trusted) = Inr t"
      and f: "origin_setting ''HARPOON_OAUTH_FORWARD_ORIGINS'' (validateFileOAuthForwardOrigins env) (Some approved) = Inr f"
      and vs: "fx_env vs = t @ f @ rest"
    using loaded_origin_settings [OF assms(2)] assms(3-6) by (auto simp: drop_overridden_def Let_def)
  have "t = [(''MCP_OAUTH_TRUSTED_ORIGINS'', join_by [CHR 0x0A] trusted)]" "f = [(''HARPOON_OAUTH_FORWARD_ORIGINS'', join_by [CHR 0x0A] approved)]"
    using t f by (auto simp: origin_setting_def policy_simps)
  then have keys: "?lookup ''MCP_OAUTH_TRUSTED_ORIGINS'' = map_of t ''MCP_OAUTH_TRUSTED_ORIGINS''"
      "?lookup ''HARPOON_OAUTH_FORWARD_ORIGINS'' = map_of f ''HARPOON_OAUTH_FORWARD_ORIGINS''"
    by (simp_all add: file_lookup_def lookupEnvWithFileValues_def free vs)
  have "resolveMCPEntries fs ?lookup ''mcp.oauth-trusted-origin'' ''MCP_OAUTH_TRUSTED_ORIGINS'' = Inr (map trim_space trusted)"
    using accepted_origin_text [OF assms(1)] refusal_nil trusted_error
    by (intro origin_entries [where fs = fs and lookupEnv = ?lookup and key = "''MCP_OAUTH_TRUSTED_ORIGINS''", OF t free(1) keys(1)]) (fastforce simp: validateFileOAuthTrustedOrigins_def first_refusal_nil)
  moreover have "resolveMCPEntries fs ?lookup ''harpoon.oauth-forward-origin'' ''HARPOON_OAUTH_FORWARD_ORIGINS'' = Inr (map trim_space approved)"
    using accepted_forward_text [OF assms(1)] refusal_nil forward_error
    by (intro origin_entries [where fs = fs and lookupEnv = ?lookup and key = "''HARPOON_OAUTH_FORWARD_ORIGINS''", OF f free(3) keys(2)]) (fastforce simp: validateFileOAuthForwardOrigins_def first_refusal_nil)
  ultimately show ?thesis
    using assms(7,8)
    by (simp add: buildOAuthTrustedOrigins_def buildOAuthForwardOrigins_def and_then_def all_results_iff list_all2_map1)
qed

definition example_idp :: web_url where
  "example_idp = \<lparr>u_scheme = ''https'', u_host = ''idp.example'', u_path = [], u_decoded = [],
     u_opaque = [], u_user = None, u_query = [], u_force_query = False, u_fragment = []\<rparr>"

definition example_origin_env :: config_env where
  "example_origin_env = example_config_env\<lparr>ce_parse := (\<lambda>s. if s = ''https://idp.example'' then Some example_idp else None)\<rparr>"

definition example_file :: file_config where
  "example_file = \<lparr>fc_version = Some 2, fc_trailing = False, fc_plain = (\<lambda>_. None), fc_forward_request_id = NoNode,
     fc_base_url = None, fc_url_path = None, fc_listen_addr = None, fc_health_socket = None, fc_api_key = None,
     fc_poll_channels = None, fc_control_headers = [], fc_servers = [], fc_commands = [], fc_mcp_headers = [],
     fc_discovery_headers = [], fc_trusted_origins = Some [''https://idp.example'', ''https://idp.example''],
     fc_forward_origins = Some [''https://idp.example''], fc_transports = [], fc_suffixes = [], fc_regexes = [],
     fc_targets = [], fc_cloudflared = False, fc_cloudflared_token = None, fc_allow_remote = None,
     fc_open_browser = None, fc_log_buffer = None, fc_capture = None, fc_check_interval = None\<rparr>"

lemma example_origins_load:
  "case loadFileConfigValues example_origin_env (\<lambda>_. None) (\<lambda>_. None) False False (Some example_file) of
     Inr (Some vs) \<Rightarrow>
       buildOAuthTrustedOrigins example_origin_env (\<lambda>_. None) (file_lookup (\<lambda>_. None) (Some vs)) = Inr [example_idp, example_idp] \<and>
       buildOAuthForwardOrigins example_origin_env (\<lambda>_. None) (file_lookup (\<lambda>_. None) (Some vs)) = Inr [example_idp]
   | _ \<Rightarrow> False"
  by code_simp

theorem file_origins_one_to_one_witness:
  "parseOAuthForwardOrigin example_origin_env (trim_space ''https://idp.example'') = Inr example_idp \<and>
   (\<exists>vs. loadFileConfigValues example_origin_env (\<lambda>_. None) (\<lambda>_. None) False False (Some example_file) = Inr (Some vs))"
proof -
  have "list_all (\<lambda>c. 32 \<le> (of_char c :: nat) \<and> of_char c \<noteq> (127 :: nat)) ''https://idp.example''" by code_simp
  then have urls: "parses_urls example_origin_env" by (simp add: parses_urls_def example_origin_env_def)
  obtain vs where vs: "loadFileConfigValues example_origin_env (\<lambda>_. None) (\<lambda>_. None) False False (Some example_file) = Inr (Some vs)"
      "buildOAuthTrustedOrigins example_origin_env (\<lambda>_. None) (file_lookup (\<lambda>_. None) (Some vs)) = Inr [example_idp, example_idp]"
      "buildOAuthForwardOrigins example_origin_env (\<lambda>_. None) (file_lookup (\<lambda>_. None) (Some vs)) = Inr [example_idp]"
    using example_origins_load by (auto split: sum.splits option.splits)
  have lists: "fc_trusted_origins example_file = Some [''https://idp.example'', ''https://idp.example'']"
      "fc_forward_origins example_file = Some [''https://idp.example'']"
    by (simp_all add: example_file_def)
  from file_origins_one_to_one [OF urls vs(1) _ _ lists vs(2,3)] vs(1) show ?thesis
    by (simp add: configValueOverridden_def)
qed

text \<open>
  Server entries have no such guard: a comma in the URL of a structured entry is
  read as the start of another field, here one that moves the server to another
  channel.
\<close>

lemma comma_moves_channel:
  "case server_entry example_config_env (\<lambda>_. None)
      \<lparr>fs_channel = None, fs_url = ''https://mcp.example/mcp,channel=admin'', fs_socket = None, fs_proxy = None,
       fs_cert = None, fs_key = None\<rparr> of
     Inl _ \<Rightarrow> False
   | Inr entry \<Rightarrow> (case parseMCPBindingEntry example_config_env entry MCPTransportHTTPStreamable (\<lambda>_. None) of
       Inl _ \<Rightarrow> False
     | Inr b \<Rightarrow> mb_channel b = ''admin'')"
  by code_simp

end
