(* ===== verification/Spec2Isabelle.thy ===== *)
theory Spec2Isabelle
  imports Prelude Json Errors Types Wire Capabilities Routing Health Retry Commands Http Poll Delivery
    ControlApi Poller Startup Failure TraceForward Forwarding Processor Listener Pipeline
    JsonText JsonWrite Observation Serialized HeaderScope McpTransport StdioChild ServerInfo CallBuffer HttpGuard
    WebUrl OutboundHeaders TemplatePolicy Template TemplateSafety HarpoonRegistry HarpoonRewrite HarpoonCall
    TemplateCall HostRegistration OAuthFetch OAuthBundle OAuthStartup
    ConfigValues ChannelSettings ControlSettings FileSettings
begin

text \<open>
  Verification of the tunnel client (\<open>github.com/openai/tunnel-client\<close>, Go).

  \<^bold>\<open>The program.\<close> The client connects a private MCP server to a hosted control
  plane without an inbound connection. A poller asks the control plane for
  commands by long polls and puts them in a bounded queue. A listener takes
  them from the queue and gives each to a worker pool. A worker runs the
  processor on the command: it finds the transport of the command's channel,
  forwards the command to the MCP target, and posts what comes back (progress
  notifications, then one terminal response) to the control plane. Around this
  path there are the routing state that tells polls which placement to ask, the
  retry and timing rules, the health observers, and the gates that hold the
  poller back at startup.

  \<^bold>\<open>Shared theories.\<close>
  \<^item> Prelude: 64-bit durations and instants of Go, the part of \<open>strings\<close> and
    \<open>net/http.Header\<close> that the code uses, and the locales
    \<open>invariant_system\<close> and \<open>monotone_system\<close> that lift a law of one step to
    every run. Collections \<open>wrap_simps\<close> and \<open>text_simps\<close>.
  \<^item> Json: documents and an executable parser for what \<open>encoding/json\<close>
    accepts. It runs on fuel, one more than twice the length of the text;
    \<open>pvalue_fuel\<close> shows that more fuel never changes the answer.
  \<^item> JsonText and JsonWrite: reading raw members and typed values as
    \<open>json.Unmarshal\<close> does, and writing documents; parsing undoes writing.
  \<^item> Errors: a Go error as its \<open>Unwrap\<close> chain, \<open>errors.Is\<close> and \<open>errors.As\<close>,
    \<open>apierror.go\<close> and \<open>controlplane/internal/health.go\<close>.

  \<^bold>\<open>Control plane\<close> (\<open>src/pkg/controlplane\<close>, \<open>src/pkg/types\<close>).
  \<^item> Types: channels, response timing and \<open>TunnelResponse\<close> of \<open>pkg/types\<close>.
  \<^item> Wire: \<open>wiretypes/wire.go\<close> and the strict parser of routing corrections in
    \<open>wiretypes/routing.go\<close>.
  \<^item> Capabilities: \<open>pkg/clientcapabilities\<close>; formatting and parsing round trip.
  \<^item> Routing: \<open>pollRoutingState\<close> of \<open>internal/routing.go\<close>. Overlapping polls
    are interleavings of \<open>snapshot\<close> and \<open>complete\<close>: the accepted revision never
    decreases, stale results change nothing, three failures drop the token.
  \<^item> Health: \<open>PollHealth\<close>, \<open>DeliveryHealth\<close>, \<open>QueueHealth\<close> of
    \<open>controlplane/health.go\<close> and \<open>ActivityHealth\<close> of
    \<open>dispatcher/internal/health.go\<close>. The locale \<open>change_observer\<close> is their
    common contract on change channels: no lost wakeup, no channel closed twice.
  \<^item> Retry: \<open>retry_after.go\<close>, the timing defaults of \<open>runtimeconfig/config.go\<close>
    and the learned proxy timeout; bounds with the wrap-around of \<open>int64\<close>.
  \<^item> Commands: \<open>decodeCommands\<close>, \<open>command_parser.go\<close>, \<open>command_types.go\<close>; every
    decoded command is well formed.
  \<^item> Http and Poll: status errors and \<open>TunnelServiceClient.Poll\<close>, split at the
    HTTP exchange so that polls can overlap; what a result may do to routing.
  \<^item> Delivery: \<open>PostResponse\<close> and \<open>sanitizeMCPResponseHeaders\<close>; when it reports
    success, how often it sends, and that a notification is not replayed.
  \<^item> ControlApi: \<open>roundtripper.go\<close>, extra headers, the bearer token,
    \<open>FetchTunnelMetadata\<close> and \<open>FetchManagedCloudflareTunnel\<close>.
  \<^item> Poller: \<open>poller.go\<close> and \<open>queueAdapter\<close>. The locale \<open>send_queue\<close> states what
    the poller needs of a queue; it is interpreted on the channel
    (\<open>Enqueue\<close>) and on the poller's own \<open>enqueue_command\<close>.
  \<^item> Startup: \<open>ProbeState\<close>, \<open>MetadataState\<close>, \<open>StartupCatalogState\<close>, publication
    acknowledgements, and the gates of \<open>controlplane/fx/fxmodule.go\<close>. The locale
    \<open>one_shot\<close> is the contract that the four cells share.

  \<^bold>\<open>Dispatcher\<close> (\<open>src/pkg/dispatcher/internal\<close>).
  \<^item> Failure: \<open>tunnel_failure.go\<close>; the two classifiers agree and their result is
    bounded.
  \<^item> TraceForward: \<open>trace_context.go\<close>.
  \<^item> Forwarding: \<open>forwardResponses\<close>, \<open>forwardNotification\<close> and their helpers.
    \<open>forward_responses_contract\<close> describes all posts of a run.
  \<^item> Processor: \<open>NewProcessor\<close>, \<open>Process\<close> and the handlers of all command kinds.
    A command is answered at most once, it is answered while its contexts live,
    and it never leaves its channel.
  \<^item> Listener: \<open>queue_listener.go\<close> as the step relation \<open>listener_step\<close> over the
    atomic actions of the listener and its workers.
  \<^item> Pipeline, and this theory: the lemmas and the theorems that span decoding,
    the queue, the dispatcher and delivery.

  \<^bold>\<open>MCP client\<close> (\<open>src/pkg/mcpclient\<close>). A connection for a command is a stack:
  the serialized transport over the forwarding connection, over the SDK, over a
  shared connection, over an HTTP client or a child process.
  \<^item> HeaderScope: \<open>internal/context.go\<close>, \<open>internal/roundtripper.go\<close>,
    \<open>internal/static_headers.go\<close>, the redirect policy of
    \<open>channel_transport_factory.go\<close> and the origin tests of \<open>fxmodule.go\<close>; which
    headers reach which origin.
  \<^item> McpTransport: \<open>forwarding_transport_impl.go\<close> and
    \<open>shared_connection_transport.go\<close>. What a preserved error is, that no failed
    answer is lost, and that one physical connection is in use at a time.
  \<^item> Serialized: \<open>serialized_forwarding_transport.go\<close> as the step relation
    \<open>serial_step\<close> over any number of logical connections: one holder of the
    lifecycle slot, tombstones and aliases of response identifiers, the
    initialize handshake.
  \<^item> Observation: \<open>protocol_observation.go\<close>, the passive evidence about the child.
  \<^item> StdioChild: \<open>stdio_command.go\<close>, the supervisor of the child. Its goroutines
    are lists of actions that interleave.

  \<^bold>\<open>Harpoon\<close> (\<open>src/pkg/runtimeharpoon\<close>). The client offers the tool \<open>call_target\<close>:
  a remote caller names a label and gets the answer of an HTTP endpoint that the
  operator registered. Nothing else in the private network may be reached.
  \<^item> WebUrl: the part of \<open>net/url\<close> that the code uses: parts of a URL, \<open>String\<close>,
    escaping, and when equal texts have equal parts.
  \<^item> OutboundHeaders: \<open>filterOutboundHeaders\<close> of \<open>server.go\<close>.
  \<^item> TemplatePolicy and Template: \<open>template.go\<close>, \<open>template_body.go\<close>,
    \<open>header_rules.go\<close>. The compiler of an operator's policy, the rendering of a
    call, and the check at the outbound boundary.
  \<^item> TemplateSafety: rendered URLs and outgoing requests stay within the policy.
  \<^item> HarpoonRegistry: \<open>registry.go\<close>. The invariant of the registry, exact matching
    of URLs, the cache of redirect explanations against a fresh computation, and
    waiters for a label.
  \<^item> HarpoonRewrite: \<open>transform.go\<close>; a rewritten URL leads back to its endpoint.
  \<^item> HarpoonCall: \<open>callTarget\<close> with its redirects. The registry may change between
    two requests of a call, so the model reads it anew for each. The countdown of
    \<open>client_do\<close> is the limit of redirects plus two; \<open>client_ends\<close> shows that it
    does not run out.
  \<^item> TemplateCall: \<open>callTargetTemplate\<close> with the strict decoding of its arguments
    (\<open>template_server.go\<close>) and \<open>policy_binding.go\<close>. A call sends at most one
    request, the operator's; an accepted call does send it; a label that was
    discovered under another policy or credential is refused.
  \<^item> HostRegistration: \<open>host_registration.go\<close> and \<open>internal/hostclassifier\<close>, the
    endpoints that OAuth discovery may add to the registry, and their labels.

  \<^bold>\<open>OAuth discovery\<close> (\<open>src/pkg/oauth\<close>). The client fetches the metadata of the
  protected resource and of its authorization servers, and hands Harpoon a bundle
  of the hosts that it found. The network is a list of answers, consumed in the
  order of the requests; \<open>None\<close> is a request that still waits.
  \<^item> OAuthFetch: \<open>resource_meta.go\<close>, \<open>discovery.go\<close> and its candidates,
    \<open>auth_meta.go\<close>, \<open>request_id.go\<close>: the requests of one cycle and their answers.
  \<^item> OAuthBundle: \<open>hostbundle.go\<close>; a server can only register its own origin.
  \<^item> OAuthStartup: \<open>module.go\<close>, \<open>state.go\<close>, \<open>discovery_failure.go\<close>, \<open>health.go\<close>:
    the cycles of discovery at startup. A cycle has a bounded number of requests
    to the allowed origins, the outcome is settled once, and a later cycle repairs
    an earlier failure. The outcome cell interprets \<open>one_shot\<close>.

  \<^bold>\<open>Configuration\<close> (\<open>src/pkg/runtimeconfig\<close>). Flags come before environment
  variables, these before the file, the file before defaults.
  \<^item> ConfigValues: how a setting gets its value: lookups, references to variables
    and files, proxies, certificates, operator headers (valid, and sent as they
    are), the words of a command.
  \<^item> ChannelSettings: the bindings of channels to MCP servers and commands, and
    the origins trusted for OAuth; the invariant of the routing table.
  \<^item> ControlSettings: \<open>buildControlPlaneConfig\<close>, the channels to poll, and
    \<open>buildHarpoonConfig\<close>; limits of polling and of the buffer.
  \<^item> FileSettings: \<open>file_config.go\<close> and \<open>loadRuntimeFromFlagSet\<close>; every polled
    channel has a handler, and an entry of a file names one origin. The file is
    what the YAML decoder made of it.

  \<^bold>\<open>Smaller parts.\<close>
  \<^item> ServerInfo: \<open>pkg/mcpserverinfo\<close>; the header survives the wire.
  \<^item> CallBuffer: \<open>pkg/harpoon/call_buffer.go\<close>; the ring refines a list.
  \<^item> HttpGuard: \<open>pkg/httpguard/guard.go\<close>; loopback and same-origin checks.

  \<^bold>\<open>How the code is represented.\<close> State is a record and an operation returns it
  updated. A mutex makes an operation atomic. What the outside world does in a
  call (network results, contexts that end, clocks, results of posts) is an
  argument: a record or a list that is consumed in the order of the calls. The
  work record of Forwarding keeps each call that leaves the process: posts,
  connects, writes, closes and retirements. Code that is not in the repository
  is a parameter of the functions that use it: the JSON-RPC codec of the MCP SDK,
  the OpenTelemetry propagator, the back-off library; and of the standard library
  date parsing, SHA-256, HMAC, random bytes, the public suffix list, regular expressions, media types, the
  parsers of addresses and of URLs, the SDK decoder of OAuth metadata, parsed command-line flags, durations and
  decoded YAML, the request that \<open>net/http\<close> makes for a
  redirect, and the calls of the operating system. The worker pool is represented by the
  answers it may give. A response loop that still waits for its target has the value \<open>None\<close>;
  \<open>command_is_answered\<close> and \<open>forwarding_connection_fate\<close> show when it returns.
  Loops with a counter recurse on the attempts that are left. Besides the JSON
  parser and \<open>client_do\<close> no function needs fuel.

  \<^bold>\<open>Limits.\<close> Strings are byte strings with the white space and the letter case
  of ASCII. A nil and an empty header map are the same. The JSON parser does not
  model the nesting limit of Go or the replacement of invalid UTF-8. A panic in
  a worker ends its task as the deferred function of \<open>processObserved\<close> sees it.
  Log lines, metrics and spans only observe and are left out, except for the
  counters that the properties mention.

  \<^bold>\<open>Not modelled yet\<close>, in the order of the plan: the listing of targets, the
  startup catalog digest, the cache of channel transports and the startup probe loop of
  \<open>pkg/mcpclient\<close>, proxy routes, and the profiles of \<open>pkg/runtimeconfig\<close>. Not planned are
  dependency wiring, command-line applications, the supervision of
  \<open>cloudflared\<close>, the operator UI and the rendering of health pages, which mostly
  call libraries.
\<close>

section \<open>Properties that span components\<close>

text \<open>
  C40. From the wire to the dispatcher: a command that \<open>decodeCommands\<close> returns
  is one the poller enqueues and the dispatcher can route. It is typed, it
  carries the shard token and the request identifier that posting needs, and
  the dispatcher looks up exactly the channel that was decoded.
\<close>

theorem decoded_command_dispatchable:
  assumes "cmd \<in> set (fst (decodeCommands parse_time decode_message body limit polledAt))"
  shows "is_typed cmd \<and> bc_request_id (command_base cmd) \<noteq> [] \<and> bc_shard_token (command_base cmd) \<noteq> [] \<and>
         command_channel (command_base cmd) = bc_channel (command_base cmd) \<and>
         NormalizeChannel (bc_channel (command_base cmd)) = Some (bc_channel (command_base cmd))"
proof -
  have "command_ok polledAt cmd" using assms by (rule decoded_ok)
  then show ?thesis
    using command_ok_typed command_ok_base base_ok_channel by (metis base_ok_def)
qed

theorem decoded_command_dispatchable_witness:
  "is_typed (JsonRpcCommand example_base (Request (IntId 1) ''m'' []) None None) \<and>
   command_channel example_base = ''main''"
  using decoded_command_dispatchable [of "JsonRpcCommand example_base (Request (IntId 1) ''m'' []) None None"
      "\<lambda>_. None" "\<lambda>_. Some (Request (IntId 1) ''m'' [])" "Inr example_rpc_body" 1 5] decode_rpc_example
  by (simp add: example_base_def)





end
